(* ===== verification/BC_Prelude.thy ===== *)
theory BC_Prelude
  imports
    Main
    "HOL-Library.Word"
    "HOL-Library.AList"
    "HOL-Library.Char_ord"
    "HOL-Library.Sublist"
    "HOL-Library.Multiset"
    "HOL-Library.Monad_Syntax"
begin

text \<open>
  Shared vocabulary of the development: C return codes, NULL-able strings, the
  removal of an element from an intrusive list (which aborts when the element
  is not linked), counting lemmas for updates of a heap below a list of
  addresses, and association lists as the abstract view of the hash maps.
\<close>

section \<open>Collections of rewrite rules\<close>

named_theorems errno_defs "numeric values of the errno constants"
named_theorems frame_simps "what an operation leaves unchanged"
named_theorems heap_simps "reading a heap after an update"

section \<open>C values\<close>

text \<open>A \<open>char *\<close> that may be NULL; a C string is the list of its
  characters before the terminating zero.\<close>

type_synonym cstring = "string option"

abbreviation (input) ENULL :: cstring where
  "ENULL \<equiv> None"

definition EPERM :: int where "EPERM = 1"
definition ENOENT :: int where "ENOENT = 2"
definition EIO :: int where "EIO = 5"
definition ENOMEM :: int where "ENOMEM = 12"
definition EACCES :: int where "EACCES = 13"
definition EFAULT :: int where "EFAULT = 14"
definition EEXIST :: int where "EEXIST = 17"
definition EINVAL :: int where "EINVAL = 22"
definition ENODATA :: int where "ENODATA = 61"
definition ENOTCONN :: int where "ENOTCONN = 107"

declare EPERM_def [errno_defs] ENOENT_def [errno_defs] EIO_def [errno_defs]
  ENOMEM_def [errno_defs] EACCES_def [errno_defs] EFAULT_def [errno_defs] EEXIST_def [errno_defs]
  EINVAL_def [errno_defs] ENODATA_def [errno_defs] ENOTCONN_def [errno_defs]

text \<open>The limits of the C integer types on the LP64 platforms the program is
  built for.\<close>

definition LONG_MAX :: int where "LONG_MAX = 9223372036854775807"
definition LONG_MIN :: int where "LONG_MIN = - 9223372036854775808"
definition USHRT_MAX :: int where "USHRT_MAX = 65535"
definition UINT64_MAX :: "64 word" where "UINT64_MAX = - 1"

lemma unat_UINT64_MAX: "unat UINT64_MAX = 18446744073709551615"
  by (simp add: UINT64_MAX_def unsigned_minus_1_eq_mask mask_eq_exp_minus_1)

lemma le_UINT64_MAX [simp]: "(w :: 64 word) \<le> UINT64_MAX"
  by (simp add: UINT64_MAX_def)

section \<open>Intrusive lists as lists of addresses\<close>

text \<open>\<open>LIST_REMOVE\<close> on an address that is not linked fails its assertion
  (see the list theory, which derives this view from the pointer code).\<close>

definition list_remove :: "'a \<Rightarrow> 'a list \<Rightarrow> 'a list option" where
  "list_remove x xs = (if x \<in> set xs then Some (remove1 x xs) else None)"

lemma list_remove_Some_iff:
  "list_remove x xs = Some ys \<longleftrightarrow> x \<in> set xs \<and> ys = remove1 x xs"
  by (auto simp: list_remove_def)

lemma list_remove_None_iff: "list_remove x xs = None \<longleftrightarrow> x \<notin> set xs"
  by (simp add: list_remove_def)

lemma distinct_remove1_set: "distinct xs \<Longrightarrow> set (remove1 x xs) = set xs - {x}"
  by (induction xs) auto

lemma length_filter_remove1:
  "length (filter P (remove1 x xs)) =
     (if x \<in> set xs \<and> P x then length (filter P xs) - 1 else length (filter P xs))"
  by (simp add: filter_remove1 length_remove1)

lemma length_filter_all: "length (filter P xs) = length xs \<longleftrightarrow> (\<forall>x \<in> set xs. P x)"
  using sum_length_filter_compl [of P xs] by (auto simp: filter_empty_conv)

section \<open>Counting below a heap\<close>

lemma filter_heap_upd_notin [heap_simps]:
  "x \<notin> set xs \<Longrightarrow> filter (\<lambda>y. P ((h(x := v)) y)) xs = filter (\<lambda>y. P (h y)) xs"
  by (induction xs) auto

lemma count_heap_upd:
  assumes "distinct xs" "x \<in> set xs"
  shows "int (length (filter (\<lambda>y. P ((h(x := v)) y)) xs)) =
    int (length (filter (\<lambda>y. P (h y)) xs)) + (if P v then 1 else 0) - (if P (h x) then 1 else 0)"
  using assms
proof (induction xs)
  case Nil
  then show ?case by simp
next
  case (Cons a xs)
  have *: "filter (\<lambda>y. P ((h(x := v)) y)) (a # xs) =
      (if P ((h(x := v)) a) then [a] else []) @ filter (\<lambda>y. P ((h(x := v)) y)) xs"
    by simp
  show ?case
  proof (cases "a = x")
    case True
    then have "x \<notin> set xs" using Cons.prems by auto
    then have "filter (\<lambda>y. P ((h(x := v)) y)) xs = filter (\<lambda>y. P (h y)) xs"
      by (rule filter_heap_upd_notin)
    then show ?thesis using True by (simp only: * length_append of_nat_add) auto
  next
    case False
    then have "int (length (filter (\<lambda>y. P ((h(x := v)) y)) xs)) =
      int (length (filter (\<lambda>y. P (h y)) xs)) + (if P v then 1 else 0) - (if P (h x) then 1 else 0)"
      using Cons by simp
    then show ?thesis using False by (simp only: * length_append of_nat_add) auto
  qed
qed

lemma map_heap_upd_notin [heap_simps]:
  "x \<notin> set xs \<Longrightarrow> map (h(x := v)) xs = map h xs"
  by (induction xs) auto

lemma map_proj_heap_upd [heap_simps]:
  "f v = f (h x) \<Longrightarrow> map (\<lambda>y. f ((h(x := v)) y)) xs = map (\<lambda>y. f (h y)) xs"
  by (induction xs) auto

section \<open>Hash maps as association lists\<close>

type_synonym ('k, 'v) hmap = "('k \<times> 'v) list"

definition hmap_ok :: "('k, 'v) hmap \<Rightarrow> bool" where
  "hmap_ok m = distinct (map fst m)"

lemma hmap_ok_Nil [simp]: "hmap_ok []"
  by (simp add: hmap_ok_def)

lemma hmap_ok_update [simp, intro]: "hmap_ok m \<Longrightarrow> hmap_ok (AList.update k v m)"
  by (simp add: hmap_ok_def distinct_update)

lemma hmap_ok_delete [simp, intro]: "hmap_ok m \<Longrightarrow> hmap_ok (AList.delete k m)"
  by (simp add: hmap_ok_def distinct_delete)

lemma hmap_ok_filter [simp, intro]: "hmap_ok m \<Longrightarrow> hmap_ok (filter P m)"
  by (induction m) (auto simp: hmap_ok_def)

lemma map_of_update_alist [simp]: "map_of (AList.update k v m) = (map_of m)(k \<mapsto> v)"
  by (rule update_conv')

lemma map_of_delete_alist [simp]: "map_of (AList.delete k m) = (map_of m)(k := None)"
  by (rule delete_conv')

section \<open>Options and folds\<close>

lemma fold_invariant:
  assumes "\<And>x s. x \<in> set xs \<Longrightarrow> P s \<Longrightarrow> P (f x s)" "P s"
  shows "P (fold f xs s)"
  using assms by (induction xs arbitrary: s) auto

lemma fold_proj_eq:
  assumes "\<And>x s. x \<in> set xs \<Longrightarrow> p (f x s) = p s"
  shows "p (fold f xs s) = p s"
  using assms by (induction xs arbitrary: s) auto

text \<open>Iteration of a step that may abort.\<close>

fun foldo :: "('a \<Rightarrow> 's \<Rightarrow> 's option) \<Rightarrow> 'a list \<Rightarrow> 's \<Rightarrow> 's option" where
  "foldo f [] s = Some s"
| "foldo f (x # xs) s = Option.bind (f x s) (foldo f xs)"

lemma foldo_Some: "foldo (\<lambda>x s. Some (f x s)) xs s = Some (fold f xs s)"
  by (induction xs arbitrary: s) auto

lemma foldo_append: "foldo f (xs @ ys) s = Option.bind (foldo f xs s) (foldo f ys)"
proof (induction xs arbitrary: s)
  case (Cons x xs)
  then show ?case by (cases "f x s") auto
qed simp

lemma foldo_invariant:
  assumes "foldo f xs s = Some t" "P s"
    and "\<And>x s t. x \<in> set xs \<Longrightarrow> P s \<Longrightarrow> f x s = Some t \<Longrightarrow> P t"
  shows "P t"
  using assms
proof (induction xs arbitrary: s)
  case (Cons x xs)
  from Cons.prems(1) obtain u where u: "f x s = Some u" "foldo f xs u = Some t"
    by (auto split: Option.bind_splits)
  have "P u" using Cons.prems u(1) by auto
  then show ?case using Cons.IH [OF u(2)] Cons.prems(3) by auto
qed simp

section \<open>Invariants of transition systems\<close>

text \<open>A program that starts in an initial state and reacts to events: what holds
  initially and is kept by every event holds in every state that is reached.\<close>

locale event_system =
  fixes init :: "'s \<Rightarrow> bool" and step :: "'s \<Rightarrow> 's \<Rightarrow> bool" and inv :: "'s \<Rightarrow> bool"
  assumes init_inv: "init s \<Longrightarrow> inv s"
    and step_inv: "inv s \<Longrightarrow> step s t \<Longrightarrow> inv t"
begin

lemma steps_inv: "step\<^sup>*\<^sup>* s t \<Longrightarrow> inv s \<Longrightarrow> inv t"
  by (induction rule: rtranclp_induct) (auto intro: step_inv)

lemma run_inv: "init s \<Longrightarrow> step\<^sup>*\<^sup>* s t \<Longrightarrow> inv t"
  using steps_inv init_inv by blast

end

section \<open>Reference counts\<close>

fun itero :: "nat \<Rightarrow> ('s \<Rightarrow> 's option) \<Rightarrow> 's \<Rightarrow> 's option" where
  "itero 0 f s = Some s"
| "itero (Suc k) f s = Option.bind (f s) (itero k f)"

text \<open>Objects with a reference count: the count of an object that is not allocated is
  \<open>None\<close>, and using such an object aborts.\<close>

locale refcounted =
  fixes count :: "'s \<Rightarrow> 'a \<Rightarrow> int option"
    and incref :: "'a \<Rightarrow> 's \<Rightarrow> 's option"
    and decref :: "'a \<Rightarrow> 's \<Rightarrow> 's option"
  assumes incref_live: "count s a = Some r \<Longrightarrow> \<exists>t. incref a s = Some t \<and> count t = (count s)(a \<mapsto> r + 1)"
    and incref_dead: "count s a = None \<Longrightarrow> incref a s = None"
    and decref_keep: "count s a = Some r \<Longrightarrow> r \<noteq> 1 \<Longrightarrow> \<exists>t. decref a s = Some t \<and> count t = (count s)(a \<mapsto> r - 1)"
    and decref_last: "count s a = Some 1 \<Longrightarrow> decref a s = Some t \<Longrightarrow> count t = (count s)(a := None)"
    and decref_dead: "count s a = None \<Longrightarrow> decref a s = None"
begin

lemma incref_decref:
  assumes "count s a = Some r" "0 < r"
  shows "\<exists>t u. incref a s = Some t \<and> decref a t = Some u \<and> count u = count s"
proof -
  obtain t where t: "incref a s = Some t" "count t = (count s)(a \<mapsto> r + 1)"
    using incref_live [OF assms(1)] by blast
  then obtain u where "decref a t = Some u" "count u = (count t)(a \<mapsto> r + 1 - 1)"
    using decref_keep [of t a "r + 1"] assms(2) by auto
  then show ?thesis using t assms(1) by (auto simp: fun_upd_idem)
qed

text \<open>Fewer releases than references keep the object; one after the last aborts.\<close>

lemma decref_many:
  assumes "count s a = Some r" "int k < r"
  shows "\<exists>t. itero k (decref a) s = Some t \<and> count t = (count s)(a \<mapsto> r - int k)"
  using assms
proof (induction k arbitrary: s r)
  case 0
  then show ?case by (auto simp: fun_upd_idem)
next
  case (Suc k)
  obtain t where t: "decref a s = Some t" "count t = (count s)(a \<mapsto> r - 1)"
    using decref_keep [of s a r] Suc.prems by auto
  then have ct: "count t a = Some (r - 1)" by simp
  have "int k < r - 1" using Suc.prems(2) by simp
  then obtain u where u: "itero k (decref a) t = Some u" "count u = (count t)(a \<mapsto> r - 1 - int k)"
    using Suc.IH [OF ct] by blast
  have "count u = (count s)(a \<mapsto> r - int (Suc k))" using t(2) u(2) by (simp add: algebra_simps)
  moreover have "itero (Suc k) (decref a) s = Some u" using t(1) u(1) by simp
  ultimately show ?case by blast
qed

lemma itero_add: "itero (k + m) f s = Option.bind (itero k f s) (itero m f)"
proof (induction k arbitrary: s)
  case (Suc k)
  then show ?case by (cases "f s") auto
qed simp

lemma decref_all:
  assumes "count s a = Some r" "0 < r" "itero (nat r) (decref a) s = Some t"
  shows "count t = (count s)(a := None) \<and> decref a t = None \<and> incref a t = None"
proof -
  obtain u where u: "itero (nat (r - 1)) (decref a) s = Some u" "count u = (count s)(a \<mapsto> 1)"
    using decref_many [OF assms(1), of "nat (r - 1)"] assms(2) by auto
  have "nat r = nat (r - 1) + 1" using assms(2) by simp
  then have "decref a u = Some t" using assms(3) u(1) itero_add [of "nat (r - 1)" 1 "decref a" s]
    by (auto split: Option.bind_splits)
  then have "count t = (count s)(a := None)" using decref_last [of u a t] u(2) by simp
  then show ?thesis using decref_dead incref_dead by simp
qed

end

section \<open>Enumerations printed as strings\<close>

locale string_table =
  fixes to_string :: "'a \<Rightarrow> string" and from_string :: "string \<Rightarrow> 'a" and valid :: "'a \<Rightarrow> bool" and invalid :: 'a
  assumes from_to: "valid a \<Longrightarrow> from_string (to_string a) = a"
    and from_unknown: "(\<And>a. valid a \<Longrightarrow> to_string a \<noteq> s) \<Longrightarrow> from_string s = invalid"
    and invalid: "\<not> valid invalid"
begin

lemma to_string_inj: "valid a \<Longrightarrow> valid b \<Longrightarrow> to_string a = to_string b \<Longrightarrow> a = b"
  by (metis from_to)

lemma from_string_cases: "(valid (from_string s) \<and> to_string (from_string s) = s) \<or> from_string s = invalid"
  by (metis from_to from_unknown)

lemma from_string_valid_iff: "valid (from_string s) \<longleftrightarrow> (\<exists>a. valid a \<and> to_string a = s)"
  by (metis from_to from_string_cases invalid)

end

end
