(* ===== verification/Protocol.thy ===== *)
theory Protocol
  imports BC_Prelude
begin

text \<open>
  \<open>libbluechi/common/protocol.h\<close> and \<open>protocol.c\<close>: the job states and unit
  active states that travel over D-Bus as strings.  Enumerators are C ints, so
  they are modelled as integers: values outside the enumeration exist at run
  time (the agent starts its units with \<open>-1\<close>).
\<close>

section \<open>Names\<close>

definition BC_DBUS_NAME :: string where "BC_DBUS_NAME = ''org.eclipse.bluechi''"
definition BC_AGENT_DBUS_NAME :: string where "BC_AGENT_DBUS_NAME = ''org.eclipse.bluechi.Agent''"
definition BC_OBJECT_PATH :: string where "BC_OBJECT_PATH = ''/org/eclipse/bluechi''"
definition BC_AGENT_OBJECT_PATH :: string where "BC_AGENT_OBJECT_PATH = ''/org/eclipse/bluechi''"
definition NODE_OBJECT_PATH_PREFIX :: string where "NODE_OBJECT_PATH_PREFIX = ''/org/eclipse/bluechi/node''"
definition CONTROLLER_INTERFACE :: string where "CONTROLLER_INTERFACE = ''org.eclipse.bluechi.Controller''"
definition NODE_INTERFACE :: string where "NODE_INTERFACE = ''org.eclipse.bluechi.Node''"
definition MONITOR_INTERFACE :: string where "MONITOR_INTERFACE = ''org.eclipse.bluechi.Monitor''"

section \<open>Enumerations\<close>

type_synonym JobState = int
type_synonym UnitActiveState = int

definition JOB_WAITING :: JobState where "JOB_WAITING = 0"
definition JOB_RUNNING :: JobState where "JOB_RUNNING = 1"
definition JOB_INVALID :: JobState where "JOB_INVALID = - 1"

definition UNIT_ACTIVE :: UnitActiveState where "UNIT_ACTIVE = 0"
definition UNIT_RELOADING :: UnitActiveState where "UNIT_RELOADING = 1"
definition UNIT_INACTIVE :: UnitActiveState where "UNIT_INACTIVE = 2"
definition UNIT_FAILED :: UnitActiveState where "UNIT_FAILED = 3"
definition UNIT_ACTIVATING :: UnitActiveState where "UNIT_ACTIVATING = 4"
definition UNIT_DEACTIVATING :: UnitActiveState where "UNIT_DEACTIVATING = 5"
definition UNIT_MAINTENANCE :: UnitActiveState where "UNIT_MAINTENANCE = 6"
definition UNIT_ACTIVE_STATE_MAX :: int where "UNIT_ACTIVE_STATE_MAX = 7"
definition UNIT_ACTIVE_STATE_INVALID :: UnitActiveState where
  "UNIT_ACTIVE_STATE_INVALID = - EINVAL"

lemmas unit_state_defs = UNIT_ACTIVE_def UNIT_RELOADING_def UNIT_INACTIVE_def UNIT_FAILED_def
  UNIT_ACTIVATING_def UNIT_DEACTIVATING_def UNIT_MAINTENANCE_def UNIT_ACTIVE_STATE_MAX_def
  UNIT_ACTIVE_STATE_INVALID_def
lemmas job_state_defs = JOB_WAITING_def JOB_RUNNING_def JOB_INVALID_def

section \<open>Conversions\<close>

definition job_state_to_string :: "JobState \<Rightarrow> string" where
  "job_state_to_string s =
     (if s = JOB_WAITING then ''waiting''
      else if s = JOB_RUNNING then ''running''
      else ''invalid'')"

definition job_state_from_string :: "string \<Rightarrow> JobState" where
  "job_state_from_string s =
     (if s = ''waiting'' then JOB_WAITING
      else if s = ''running'' then JOB_RUNNING
      else JOB_INVALID)"

definition unit_active_state_table :: "string list" where
  "unit_active_state_table =
     [''active'', ''reloading'', ''inactive'', ''failed'', ''activating'', ''deactivating'',
      ''maintenance'']"

definition active_state_to_string :: "UnitActiveState \<Rightarrow> string" where
  "active_state_to_string s =
     (if 0 \<le> s \<and> s < UNIT_ACTIVE_STATE_MAX then unit_active_state_table ! nat s
      else ''invalid'')"

text \<open>The scan of the table, from index \<open>i\<close>.\<close>

function active_state_scan :: "int \<Rightarrow> string \<Rightarrow> UnitActiveState" where
  "active_state_scan i s =
     (if i < UNIT_ACTIVE_STATE_MAX then
        if unit_active_state_table ! nat i = s then i else active_state_scan (i + 1) s
      else UNIT_ACTIVE_STATE_INVALID)"
  by pat_completeness auto

termination
  by (relation "measure (\<lambda>(i, s). nat (UNIT_ACTIVE_STATE_MAX - i))") auto

declare active_state_scan.simps [simp del]

definition active_state_from_string :: "string \<Rightarrow> UnitActiveState" where
  "active_state_from_string s = active_state_scan 0 s"

definition valid_active_state :: "UnitActiveState \<Rightarrow> bool" where
  "valid_active_state s = (0 \<le> s \<and> s < UNIT_ACTIVE_STATE_MAX)"

section \<open>Lemmas\<close>

lemma table_facts:
  "length unit_active_state_table = 7" "distinct unit_active_state_table"
  "''invalid'' \<notin> set unit_active_state_table"
  by (simp_all add: unit_active_state_table_def)

lemma valid_state_in_table:
  "valid_active_state v \<Longrightarrow> unit_active_state_table ! nat v \<in> set unit_active_state_table"
  using table_facts(1)
  by (auto simp: valid_active_state_def UNIT_ACTIVE_STATE_MAX_def nat_less_iff intro: nth_mem)

text \<open>The scan returns the index of the first match.\<close>

lemma active_state_scan_spec:
  "0 \<le> i \<Longrightarrow> i \<le> 7 \<Longrightarrow> r = active_state_scan i s \<Longrightarrow>
   (r = UNIT_ACTIVE_STATE_INVALID \<and> (\<forall>j. i \<le> j \<and> j < 7 \<longrightarrow> unit_active_state_table ! nat j \<noteq> s)) \<or>
   (i \<le> r \<and> r < 7 \<and> unit_active_state_table ! nat r = s)"
proof (induction i s rule: active_state_scan.induct)
  case (1 i s)
  note unfold = active_state_scan.simps [of i s] active_state_scan.simps [of 7 s] UNIT_ACTIVE_STATE_MAX_def
  consider "i = 7" | "i < 7" "unit_active_state_table ! nat i = s"
    | "i < 7" "unit_active_state_table ! nat i \<noteq> s"
    using 1(3) by linarith
  then show ?case
  proof cases
    case 3
    then have "i \<le> j \<and> j < 7 \<longleftrightarrow> j = i \<or> (i + 1 \<le> j \<and> j < 7)" for j
      by auto
    then show ?thesis
      using 1(1) 1(2,4) 3 by (auto simp: unfold)
  qed (use 1(4) in \<open>auto simp: unfold\<close>)
qed

lemma active_state_from_string_cases:
  "(active_state_from_string s = UNIT_ACTIVE_STATE_INVALID \<and> s \<notin> set unit_active_state_table) \<or>
   (valid_active_state (active_state_from_string s) \<and>
    unit_active_state_table ! nat (active_state_from_string s) = s)"
proof -
  have "s \<in> set unit_active_state_table \<Longrightarrow> \<exists>j. 0 \<le> j \<and> j < 7 \<and> unit_active_state_table ! nat j = s"
    by (metis in_set_conv_nth table_facts(1) nat_int of_nat_0_le_iff of_nat_less_iff of_nat_numeral)
  then show ?thesis
    using active_state_scan_spec [of 0 _ s, OF _ _ refl]
    by (auto simp: active_state_from_string_def valid_active_state_def UNIT_ACTIVE_STATE_MAX_def)
qed

text \<open>Both enumerations meet the contract of string tables.\<close>

interpretation active_table: string_table active_state_to_string active_state_from_string
  valid_active_state UNIT_ACTIVE_STATE_INVALID
proof unfold_locales
  fix a assume v: "valid_active_state a"
  have "active_state_to_string a = unit_active_state_table ! nat a"
    using v by (simp add: active_state_to_string_def valid_active_state_def)
  then show "active_state_from_string (active_state_to_string a) = a"
    using v active_state_from_string_cases [of "active_state_to_string a"] valid_state_in_table [OF v]
      table_facts nth_eq_iff_index_eq [of unit_active_state_table]
    by (auto simp: valid_active_state_def UNIT_ACTIVE_STATE_MAX_def)
next
  fix s assume "\<And>a. valid_active_state a \<Longrightarrow> active_state_to_string a \<noteq> s"
  then show "active_state_from_string s = UNIT_ACTIVE_STATE_INVALID"
    using active_state_from_string_cases [of s] by (metis active_state_to_string_def valid_active_state_def)
qed (simp add: valid_active_state_def UNIT_ACTIVE_STATE_INVALID_def EINVAL_def)

interpretation job_table: string_table job_state_to_string job_state_from_string
  "\<lambda>s. s \<in> {JOB_WAITING, JOB_RUNNING}" JOB_INVALID
proof unfold_locales
  fix s assume "\<And>a. a \<in> {JOB_WAITING, JOB_RUNNING} \<Longrightarrow> job_state_to_string a \<noteq> s"
  from this [of JOB_WAITING] this [of JOB_RUNNING] show "job_state_from_string s = JOB_INVALID"
    by (simp add: job_state_from_string_def job_state_to_string_def job_state_defs)
qed (auto simp: job_state_from_string_def job_state_to_string_def job_state_defs)

text \<open>
  The active states travel as strings without loss: every state of the
  enumeration is recovered from the string it is printed to, a string denotes
  a state exactly when it is in the table, and then printing the state gives the
  string back; all other strings are mapped to the invalid state, which prints
  as \<open>invalid\<close>.
\<close>

theorem active_state_roundtrip:
  "(valid_active_state st \<longrightarrow> active_state_from_string (active_state_to_string st) = st) \<and>
   (valid_active_state (active_state_from_string s) \<longleftrightarrow> s \<in> set unit_active_state_table) \<and>
   active_state_to_string (active_state_from_string s) =
     (if s \<in> set unit_active_state_table then s else ''invalid'')"
proof (intro conjI impI)
  show "valid_active_state (active_state_from_string s) \<longleftrightarrow> s \<in> set unit_active_state_table"
    using active_state_from_string_cases [of s] valid_state_in_table active_table.invalid by metis
next
  show "active_state_to_string (active_state_from_string s) =
      (if s \<in> set unit_active_state_table then s else ''invalid'')"
    using active_state_from_string_cases [of s] valid_state_in_table [of "active_state_from_string s"]
    by (auto simp: active_state_to_string_def valid_active_state_def unit_state_defs EINVAL_def)
qed (rule active_table.from_to)

theorem active_state_roundtrip_witness:
  "valid_active_state UNIT_FAILED \<and> active_state_to_string UNIT_FAILED = ''failed'' \<and>
   active_state_from_string ''failed'' = UNIT_FAILED"
  using active_state_roundtrip [of UNIT_FAILED "''failed''"]
  by (simp add: valid_active_state_def active_state_to_string_def unit_state_defs
      unit_active_state_table_def)

end
