(* ===== verification/StringUtil.thy ===== *)
theory StringUtil
  imports BC_Prelude
begin

text \<open>
  \<open>libbluechi/common/string-util.h\<close> and \<open>string-util.c\<close>: string predicates,
  the glob matcher that decides which subscriptions a unit event reaches, and
  the growing string builder.  A string is its list of characters without the
  terminating zero; a pointer past the end is the empty list.
\<close>

section \<open>Comparisons\<close>

definition SYMBOL_WILDCARD :: string where "SYMBOL_WILDCARD = ''*''"
definition SYMBOL_GLOB_ALL :: char where "SYMBOL_GLOB_ALL = CHR ''*''"
definition SYMBOL_GLOB_ONE :: char where "SYMBOL_GLOB_ONE = CHR ''?''"

lemmas symbol_defs = SYMBOL_WILDCARD_def SYMBOL_GLOB_ALL_def SYMBOL_GLOB_ONE_def

text \<open>\<open>strncmp(a, b, n) == 0\<close>: characters are compared up to the \<open>n\<close>th
  or to the end of both strings.\<close>

fun strneq :: "string \<Rightarrow> string \<Rightarrow> nat \<Rightarrow> bool" where
  "strneq a b 0 = True"
| "strneq [] [] (Suc n) = True"
| "strneq (x # a) (y # b) (Suc n) = (x = y \<and> strneq a b n)"
| "strneq _ _ (Suc n) = False"

fun streq_opt :: "cstring \<Rightarrow> cstring \<Rightarrow> bool" where
  "streq_opt (Some a) (Some b) = (a = b)"
| "streq_opt _ _ = False"

text \<open>\<open>tolower\<close> of the C locale, and the comparison \<open>strcasecmp\<close> builds on it.\<close>

definition c_tolower :: "char \<Rightarrow> char" where
  "c_tolower c = (if CHR ''A'' \<le> c \<and> c \<le> CHR ''Z'' then char_of (of_char c + 32 :: nat) else c)"

definition streqi :: "string \<Rightarrow> string \<Rightarrow> bool" where
  "streqi a b = (map c_tolower a = map c_tolower b)"

definition ascii_isdigit :: "char \<Rightarrow> bool" where
  "ascii_isdigit a = (CHR ''0'' \<le> a \<and> a \<le> CHR ''9'')"

definition ascii_isalpha :: "char \<Rightarrow> bool" where
  "ascii_isalpha a =
     ((CHR ''a'' \<le> a \<and> a \<le> CHR ''z'') \<or> (CHR ''A'' \<le> a \<and> a \<le> CHR ''Z''))"

definition is_wildcard :: "string \<Rightarrow> bool" where
  "is_wildcard s = (s = SYMBOL_WILDCARD)"

text \<open>\<open>strchr\<close>: the tail that starts at the first occurrence.\<close>

fun strchr :: "string \<Rightarrow> char \<Rightarrow> cstring" where
  "strchr [] c = None"
| "strchr (x # xs) c = (if x = c then Some (x # xs) else strchr xs c)"

definition is_glob :: "cstring \<Rightarrow> bool" where
  "is_glob s =
     (case s of None \<Rightarrow> False
      | Some s \<Rightarrow> strchr s SYMBOL_GLOB_ALL \<noteq> None \<or> strchr s SYMBOL_GLOB_ONE \<noteq> None)"

definition str_has_prefix :: "string \<Rightarrow> string \<Rightarrow> bool" where
  "str_has_prefix s p = strneq s p (length p)"

definition isempty :: "cstring \<Rightarrow> bool" where
  "isempty a = (case a of None \<Rightarrow> True | Some s \<Rightarrow> s = [])"

definition strcat_dup :: "string \<Rightarrow> string \<Rightarrow> string" where
  "strcat_dup a b = take (length a) a @ take (length b) b"

fun ends_with :: "cstring \<Rightarrow> cstring \<Rightarrow> bool" where
  "ends_with (Some str) (Some suf) =
     (if length str < length suf then False
      else strneq (drop (length str - length suf) str) suf (length suf))"
| "ends_with _ _ = False"

section \<open>The glob matcher\<close>

function match_glob_str :: "string \<Rightarrow> string \<Rightarrow> bool" where
  "match_glob_str str glob =
     (if glob \<noteq> [] \<and> hd glob = SYMBOL_GLOB_ALL then
        match_glob_str str (tl glob) \<or> (if str \<noteq> [] then match_glob_str (tl str) glob else False)
      else if str \<noteq> [] then
        if glob \<noteq> [] \<and> (hd glob = SYMBOL_GLOB_ONE \<or> hd str = hd glob)
        then match_glob_str (tl str) (tl glob) else False
      else glob = [])"
  by pat_completeness auto

termination
  by (relation "measure (\<lambda>(str, glob). length str + length glob)")
    (auto simp: neq_Nil_conv)

declare match_glob_str.simps [simp del]

fun match_glob :: "cstring \<Rightarrow> cstring \<Rightarrow> bool" where
  "match_glob (Some str) (Some glob) = match_glob_str str glob"
| "match_glob _ _ = False"

text \<open>What a pattern means: every pattern character stands for a piece of the
  text, and the pieces make up the text.\<close>

definition glob_piece :: "char \<Rightarrow> string \<Rightarrow> bool" where
  "glob_piece g w =
     (if g = CHR ''*'' then True else if g = CHR ''?'' then length w = 1 else w = [g])"

definition glob_denotes :: "string \<Rightarrow> string \<Rightarrow> bool" where
  "glob_denotes glob str = (\<exists>ws. list_all2 glob_piece glob ws \<and> concat ws = str)"

section \<open>The string builder\<close>

text \<open>The buffer is the block of \<open>capacity\<close> bytes; sizes are \<open>size_t\<close>.\<close>

record StringBuilder =
  sb_str :: "char list"
  sb_len :: "64 word"
  sb_capacity :: "64 word"

definition NUL :: char where "NUL = CHR 0x00"

definition STRING_BUILDER_DEFAULT_CAPACITY :: "64 word" where
  "STRING_BUILDER_DEFAULT_CAPACITY = 1024"

text \<open>\<open>alloc n\<close> is the block \<open>malloc\<close> returns for \<open>n\<close> bytes (its bytes are
  arbitrary), \<open>None\<close> when it fails; \<open>realloc\<close> keeps the bytes of the old block.\<close>

type_synonym allocator = "nat \<Rightarrow> char list option"

definition alloc_sized :: "allocator \<Rightarrow> bool" where
  "alloc_sized alloc = (\<forall>n b. alloc n = Some b \<longrightarrow> length b = n)"

definition c_realloc :: "allocator \<Rightarrow> char list \<Rightarrow> nat \<Rightarrow> char list option" where
  "c_realloc alloc old n = map_option (\<lambda>b. take n old @ drop (length old) b) (alloc n)"

definition string_builder_init :: "allocator \<Rightarrow> 64 word \<Rightarrow> StringBuilder option" where
  "string_builder_init alloc initial_capacity =
     (let cap = (if initial_capacity = 0 then STRING_BUILDER_DEFAULT_CAPACITY else initial_capacity)
      in case alloc (unat cap) of
           None \<Rightarrow> None
         | Some str \<Rightarrow> Some \<lparr>sb_str = str[0 := NUL], sb_len = 0, sb_capacity = cap\<rparr>)"

definition string_builder_realloc ::
    "allocator \<Rightarrow> StringBuilder \<Rightarrow> 64 word \<Rightarrow> bool \<times> StringBuilder" where
  "string_builder_realloc alloc b new_size =
     (case c_realloc alloc (sb_str b) (unat new_size) of
        None \<Rightarrow> (False, b)
      | Some s \<Rightarrow> (True, b\<lparr>sb_str := s, sb_capacity := new_size\<rparr>))"

definition string_builder_grow ::
    "allocator \<Rightarrow> StringBuilder \<Rightarrow> 64 word \<Rightarrow> bool \<times> StringBuilder" where
  "string_builder_grow alloc b extra_size =
     (let required_size = sb_len b + extra_size + 1;
          new_size = (if sb_capacity b * 2 < required_size then required_size else sb_capacity b * 2);
          (ok, b') = (if sb_capacity b < required_size
                      then string_builder_realloc alloc b new_size else (True, b))
      in if \<not> ok then (False, b')
         else (True, b'\<lparr>sb_len := sb_len b' + extra_size\<rparr>))"

text \<open>\<open>strncpy\<close> into a block: the string, then zeros up to \<open>n\<close> bytes.\<close>

definition c_strncpy_at :: "char list \<Rightarrow> nat \<Rightarrow> string \<Rightarrow> nat \<Rightarrow> char list" where
  "c_strncpy_at buf off s n =
     take off buf @ take n (s @ replicate n NUL) @ drop (off + n) buf"

definition string_builder_append ::
    "allocator \<Rightarrow> StringBuilder \<Rightarrow> string \<Rightarrow> bool \<times> StringBuilder" where
  "string_builder_append alloc b str =
     (let old_len = sb_len b;
          (ok, b') = string_builder_grow alloc b (of_nat (length str))
      in if \<not> ok then (False, b')
         else (True, b'\<lparr>sb_str := c_strncpy_at (sb_str b') (unat old_len) str
                                    (unat (sb_capacity b' - old_len))\<rparr>))"

text \<open>\<open>string_builder_printf\<close>, given what \<open>vsnprintf\<close> formats (\<open>None\<close>: it
  reports an error).\<close>

definition string_builder_printf ::
    "allocator \<Rightarrow> StringBuilder \<Rightarrow> string option \<Rightarrow> bool \<times> StringBuilder" where
  "string_builder_printf alloc b formatted =
     (case formatted of
        None \<Rightarrow> (False, b)
      | Some text \<Rightarrow>
          (let old_len = unat (sb_len b);
               n = length text;
               (ok, b') = string_builder_grow alloc b (of_nat n)
           in if \<not> ok then (False, b')
              else (True, b'\<lparr>sb_str := take old_len (sb_str b') @ take n text @ [NUL]
                                       @ drop (old_len + n + 1) (sb_str b')\<rparr>)))"

definition sb_contents :: "StringBuilder \<Rightarrow> string" where
  "sb_contents b = take (unat (sb_len b)) (sb_str b)"

definition sb_ok :: "StringBuilder \<Rightarrow> bool" where
  "sb_ok b = (length (sb_str b) = unat (sb_capacity b) \<and> sb_len b < sb_capacity b \<and>
              sb_str b ! unat (sb_len b) = NUL)"

section \<open>Lemmas on strings\<close>

lemma strneq_take: "strneq a b n \<longleftrightarrow> take n a = take n b"
  by (induction a b n rule: strneq.induct) auto

lemma str_has_prefix_iff: "str_has_prefix s p \<longleftrightarrow> prefix p s"
  by (auto simp: str_has_prefix_def strneq_take prefix_def) (metis append_take_drop_id)

lemma ends_with_iff: "ends_with (Some str) (Some suf) \<longleftrightarrow> suffix suf str"
proof
  assume "ends_with (Some str) (Some suf)"
  then have "take (length suf) (drop (length str - length suf) str) = suf" "length suf \<le> length str"
    by (auto simp: strneq_take split: if_splits)
  then have "drop (length str - length suf) str = suf" by simp
  then show "suffix suf str" by (metis suffix_drop)
next
  assume "suffix suf str"
  then show "ends_with (Some str) (Some suf)"
    by (auto simp: suffix_def strneq_take)
qed

lemma strchr_None_iff: "strchr s c = None \<longleftrightarrow> c \<notin> set s"
  by (induction s) auto

lemma strchr_SomeD: "strchr s c = Some t \<Longrightarrow> \<exists>p. s = p @ t \<and> c \<notin> set p \<and> t \<noteq> [] \<and> hd t = c"
proof (induction s)
  case (Cons x xs)
  show ?case
  proof (cases "x = c")
    case True
    then show ?thesis using Cons.prems by (auto intro: exI [of _ "[]"])
  next
    case False
    then obtain p where "xs = p @ t" "c \<notin> set p" "t \<noteq> []" "hd t = c"
      using Cons by auto
    then show ?thesis using False by (auto intro!: exI [of _ "x # p"])
  qed
qed simp

lemma strchr_append: "c \<notin> set p \<Longrightarrow> strchr (p @ c # t) c = Some (c # t)"
  by (induction p) auto

section \<open>The matcher decides the meaning of the pattern\<close>

lemma glob_denotes_Nil [simp]: "glob_denotes [] str \<longleftrightarrow> str = []"
  by (auto simp: glob_denotes_def)

lemma glob_denotes_Cons:
  "glob_denotes (g # gs) str \<longleftrightarrow> (\<exists>w t. str = w @ t \<and> glob_piece g w \<and> glob_denotes gs t)"
  (is "?L \<longleftrightarrow> ?R")
proof
  assume ?L
  then obtain z zs where "str = z @ concat zs" "glob_piece g z" "list_all2 glob_piece gs zs"
    by (auto simp: list_all2_Cons1 glob_denotes_def)
  then show ?R unfolding glob_denotes_def by blast
next
  assume ?R
  then obtain w ws where "str = w @ concat ws" "glob_piece g w" "list_all2 glob_piece gs ws"
    by (auto simp: glob_denotes_def)
  then show ?L unfolding glob_denotes_def by (auto intro!: exI [of _ "w # ws"])
qed

lemma glob_denotes_star:
  "glob_denotes (CHR ''*'' # gs) str \<longleftrightarrow>
     glob_denotes gs str \<or> (str \<noteq> [] \<and> glob_denotes (CHR ''*'' # gs) (tl str))"
  (is "?L \<longleftrightarrow> ?R")
proof
  assume ?L
  then obtain w t where wt: "str = w @ t" "glob_denotes gs t"
    by (auto simp: glob_denotes_Cons)
  then show ?R by (cases w) (auto simp: glob_denotes_Cons glob_piece_def)
next
  assume ?R
  then show ?L
    by (auto simp: glob_denotes_Cons glob_piece_def)
      (metis append_Cons append_Nil list.collapse)+
qed

lemma glob_denotes_char:
  "g \<noteq> CHR ''*'' \<Longrightarrow> glob_denotes (g # gs) str \<longleftrightarrow>
     (\<exists>c t. str = c # t \<and> (g = CHR ''?'' \<or> c = g) \<and> glob_denotes gs t)"
  (is "_ \<Longrightarrow> ?L \<longleftrightarrow> ?R")
proof -
  assume g: "g \<noteq> CHR ''*''"
  have piece: "glob_piece g w \<longleftrightarrow> (\<exists>c. w = [c] \<and> (g = CHR ''?'' \<or> c = g))" for w
    using g by (auto simp: glob_piece_def length_Suc_conv)
  show ?thesis
    unfolding glob_denotes_Cons piece by (metis append_Cons append_Nil)
qed

text \<open>
  C29.  The matcher decides the meaning of the pattern: \<open>match_glob\<close> answers true
  exactly when the text can be cut into one piece per pattern character, where
  an asterisk takes any piece, a question mark takes any single character and
  every other character takes itself; a NULL text or pattern never matches.
\<close>

theorem match_glob_correct:
  "match_glob s g \<longleftrightarrow> (\<exists>str glob. s = Some str \<and> g = Some glob \<and> glob_denotes glob str)"
proof -
  have main: "match_glob_str str glob \<longleftrightarrow> glob_denotes glob str" for str glob
  proof (induction str glob rule: match_glob_str.induct)
    case (1 str glob)
    show ?case
    proof (cases glob)
      case Nil
      then show ?thesis by (simp add: match_glob_str.simps [of str "[]"])
    next
      case (Cons c gs)
      show ?thesis
      proof (cases "c = CHR ''*''")
        case True
        show ?thesis
          using 1(1,2) unfolding Cons True match_glob_str.simps [of str "CHR ''*'' # gs"]
            glob_denotes_star [of gs str]
          by (simp add: SYMBOL_GLOB_ALL_def)
      next
        case False
        then show ?thesis
          using 1(3) Cons match_glob_str.simps [of str glob] glob_denotes_char [OF False, of gs str]
          by (cases str) (auto simp: symbol_defs)
      qed
    qed
  qed
  show ?thesis
    by (cases s; cases g) (auto simp: main)
qed

lemma match_glob_literal:
  "\<not> is_glob (Some glob) \<Longrightarrow> match_glob (Some str) (Some glob) \<longleftrightarrow> str = glob"
proof (induction glob arbitrary: str)
  case Nil
  then show ?case by (auto simp: match_glob_str.simps [of str "[]"])
next
  case (Cons g glob)
  then have "\<not> is_glob (Some glob)" "g \<noteq> CHR ''*''" "g \<noteq> CHR ''?''"
    by (auto simp: is_glob_def symbol_defs strchr_None_iff split: if_splits)
  then show ?case
    using Cons.IH by (cases str) (auto simp: match_glob_str.simps [of str "g # glob"] symbol_defs
        match_glob_str.simps [of "_ # _" "g # glob"] match_glob_str.simps [of "[]" "g # glob"])
qed

section \<open>The string builder keeps a terminated string\<close>

lemma sb_len_unat: "sb_ok b \<Longrightarrow> unat (sb_len b) < length (sb_str b)"
  by (simp add: sb_ok_def word_less_nat_alt)

lemma unat_required:
  assumes "unat l + n + 1 < 2 ^ 64"
  shows "unat ((l :: 64 word) + of_nat n + 1) = unat l + n + 1" "unat (l + of_nat n) = unat l + n"
proof -
  have n: "unat (of_nat n :: 64 word) = n"
    using assms by (simp add: unsigned_of_nat take_bit_nat_eq_self_iff)
  have s: "unat (l + of_nat n) = unat l + n"
    using assms n by (subst unat_add_lem [THEN iffD1]) auto
  then show "unat (l + of_nat n) = unat l + n" .
  show "unat (l + of_nat n + 1) = unat l + n + 1"
    using assms s by (subst unat_add_lem [THEN iffD1]) auto
qed

text \<open>After a successful growth the block has room for the extra bytes and the
  terminator, and the old bytes are kept.\<close>

lemma string_builder_grow_ok:
  assumes al: "alloc_sized alloc" and b: "sb_ok b" and fits: "unat (sb_len b) + n + 1 < 2 ^ 64"
    and g: "string_builder_grow alloc b (of_nat n) = (ok, b')"
  shows "if ok then length (sb_str b') = unat (sb_capacity b') \<and>
      unat (sb_len b') = unat (sb_len b) + n \<and> unat (sb_len b) + n < unat (sb_capacity b') \<and>
      take (unat (sb_len b)) (sb_str b') = sb_contents b
    else b' = b"
proof -
  note u = unat_required [OF fits]
  have len: "unat (sb_len b) < unat (sb_capacity b)" "length (sb_str b) = unat (sb_capacity b)"
    using b by (auto simp: sb_ok_def word_less_nat_alt)
  show ?thesis
  proof (cases "sb_capacity b < sb_len b + of_nat n + 1")
    case False
    then have "unat (sb_len b) + n + 1 \<le> unat (sb_capacity b)"
      using u(1) by (simp add: word_less_nat_alt)
    then show ?thesis
      using g False len u by (auto simp: string_builder_grow_def sb_contents_def Let_def)
  next
    case True
    define sz where "sz = (if sb_capacity b * 2 < sb_len b + of_nat n + 1
      then sb_len b + of_nat n + 1 else sb_capacity b * 2)"
    have sz: "unat (sb_len b) + n + 1 \<le> unat sz"
      using u(1) by (auto simp: sz_def word_less_nat_alt not_less)
    have grown: "unat (sb_capacity b) \<le> unat sz"
      using True u(1) sz by (simp add: word_less_nat_alt)
    show ?thesis
    proof (cases "alloc (unat sz)")
      case None
      then show ?thesis
        using g True by (auto simp: string_builder_grow_def string_builder_realloc_def
            c_realloc_def Let_def sz_def [symmetric] split: if_splits)
    next
      case (Some blk)
      then have "length blk = unat sz" using al by (auto simp: alloc_sized_def)
      then show ?thesis
        using g True Some len sz grown u
        by (auto simp: string_builder_grow_def string_builder_realloc_def sb_contents_def
            c_realloc_def Let_def sz_def [symmetric])
    qed
  qed
qed

lemma sb_init_ok:
  assumes "alloc_sized alloc" "string_builder_init alloc cap = Some b"
  shows "sb_ok b \<and> sb_contents b = []"
proof -
  let ?c = "if cap = 0 then STRING_BUILDER_DEFAULT_CAPACITY else cap"
  obtain blk where blk: "alloc (unat ?c) = Some blk" "b = \<lparr>sb_str = blk[0 := NUL], sb_len = 0, sb_capacity = ?c\<rparr>"
    using assms(2) by (auto simp: string_builder_init_def Let_def split: option.splits)
  have c: "?c \<noteq> 0" by (simp add: STRING_BUILDER_DEFAULT_CAPACITY_def)
  then have "0 < unat ?c" by (rule unat_gt_0 [THEN iffD2])
  moreover have "length blk = unat ?c" using assms(1) blk(1) by (simp add: alloc_sized_def)
  ultimately show ?thesis
    using c unfolding blk(2) sb_ok_def sb_contents_def by (simp add: word_gt_0 del: if_split)
qed

text \<open>
  Appending to a string builder: for every allocator that returns blocks of
  the requested size, a builder that is well formed (the block has the recorded
  capacity, the length is below it, the string is terminated) stays well formed;
  on success it holds the old contents followed by the appended string, on an
  allocation failure it is unchanged.  The doubling of the capacity may wrap
  around, which the code repairs by falling back to the required size.
\<close>

theorem string_builder_append_correct:
  assumes "alloc_sized alloc" "sb_ok b" "unat (sb_len b) + length str + 1 < 2 ^ 64"
    and "string_builder_append alloc b str = (ok, b')"
  shows "sb_ok b' \<and> sb_contents b' = (if ok then sb_contents b @ str else sb_contents b)"
proof -
  obtain g bg where g: "string_builder_grow alloc b (of_nat (length str)) = (g, bg)"
    by fastforce
  note G = string_builder_grow_ok [OF assms(1,2,3) g]
  show ?thesis
  proof (cases g)
    case False
    then show ?thesis using assms(2,4) g G by (auto simp: string_builder_append_def)
  next
    case True
    let ?o = "unat (sb_len b)"
    let ?r = "unat (sb_capacity bg - sb_len b)"
    have G': "length (sb_str bg) = unat (sb_capacity bg)" "unat (sb_len bg) = ?o + length str"
      "?o + length str < unat (sb_capacity bg)" "take ?o (sb_str bg) = sb_contents b"
      using G True by auto
    have r: "?r = unat (sb_capacity bg) - ?o"
      using G'(3) by (subst unat_sub) (auto simp: word_le_nat_alt)
    have b': "b' = bg\<lparr>sb_str := c_strncpy_at (sb_str bg) ?o str ?r\<rparr>" and ok: "ok"
      using assms(4) g True by (auto simp: string_builder_append_def Let_def)
    have buf: "sb_str b' = sb_contents b @ str @ replicate (?r - length str) NUL"
      using G' r unfolding b' by (auto simp: c_strncpy_at_def min_def)
    have len: "length (sb_contents b) = ?o"
      using sb_len_unat [OF assms(2)] by (simp add: sb_contents_def)
    have "sb_ok b'"
      unfolding sb_ok_def using G' r b' buf len
      by (auto simp: word_less_nat_alt nth_append)
    moreover have "sb_contents b' = sb_contents b @ str"
      unfolding sb_contents_def [of b'] buf using b' G' len by simp
    ultimately show ?thesis using ok by simp
  qed
qed

theorem string_builder_append_witness:
  "\<exists>b b'. string_builder_init (\<lambda>n. Some (replicate n CHR ''x'')) 4 = Some b \<and>
     string_builder_append (\<lambda>n. Some (replicate n CHR ''x'')) b ''active'' = (True, b') \<and>
     sb_ok b' \<and> sb_contents b' = ''active''"
proof -
  let ?al = "\<lambda>n. Some (replicate n CHR ''x'')"
  let ?b = "\<lparr>sb_str = [NUL, CHR ''x'', CHR ''x'', CHR ''x''], sb_len = 0, sb_capacity = 4\<rparr>"
  have four: "replicate 4 c = [c, c, c, c]" for c :: char
    by (simp add: numeral_eq_Suc)
  have al: "alloc_sized ?al" by (auto simp: alloc_sized_def)
  have init: "string_builder_init ?al 4 = Some ?b"
    by (simp add: string_builder_init_def Let_def four)
  have b: "sb_ok ?b" "sb_contents ?b = []" using sb_init_ok [OF al init] by auto
  obtain ok b' where app: "string_builder_append ?al ?b ''active'' = (ok, b')" by fastforce
  have ok: "ok"
    using app by (simp add: string_builder_append_def string_builder_grow_def
        string_builder_realloc_def c_realloc_def Let_def)
  show ?thesis
    using string_builder_append_correct [OF al b(1) _ app] init app ok b(2) by auto
qed

section \<open>Tokens\<close>

text \<open>\<open>strtok_r\<close> with the separator \<open>,\<close>: it skips separators, returns the characters up to
  the next one and leaves the string after it.\<close>

definition strtok_comma :: "string \<Rightarrow> (string \<times> string) option" where
  "strtok_comma s =
     (let t = dropWhile (\<lambda>c. c = CHR '','') s
      in if t = [] then None
         else Some (takeWhile (\<lambda>c. c \<noteq> CHR '','') t, drop 1 (dropWhile (\<lambda>c. c \<noteq> CHR '','') t)))"

lemma strtok_comma_shorter:
  assumes "strtok_comma s = Some (t, rest)"
  shows "length rest < length s"
proof -
  let ?t = "dropWhile (\<lambda>c. c = CHR '','') s"
  have "?t \<noteq> []" "rest = drop 1 (dropWhile (\<lambda>c. c \<noteq> CHR '','') ?t)"
    using assms by (auto simp: strtok_comma_def Let_def split: if_splits)
  moreover have "length ?t \<le> length s" "length (dropWhile (\<lambda>c. c \<noteq> CHR '','') ?t) \<le> length ?t"
    by (rule length_dropWhile_le)+
  ultimately show ?thesis by (cases ?t) auto
qed

function tokens :: "string \<Rightarrow> string list" where
  "tokens s = (case strtok_comma s of None \<Rightarrow> [] | Some (t, rest) \<Rightarrow> t # tokens rest)"
  by auto
termination by (relation "measure length") (auto simp: strtok_comma_shorter)

declare tokens.simps [simp del]

end
