(* ===== verification/ParseUtil.thy ===== *)
theory ParseUtil
  imports StringUtil
begin

text \<open>
  \<open>libbluechi/common/parse-util.c\<close>: the number parsers behind every numeric
  configuration option, port and signal argument, on top of \<open>strtol\<close> for base
  10 (leading white space, an optional sign, digits; out of range values are
  clamped and reported through \<open>errno\<close>), and the SELinux context parser used
  when a node registers.
\<close>

section \<open>strtol\<close>

definition c_isspace :: "char \<Rightarrow> bool" where
  "c_isspace c = (c \<in> {CHR '' '', CHR 0x09, CHR 0x0A, CHR 0x0B, CHR 0x0C, CHR 0x0D})"

definition digit_val :: "char \<Rightarrow> nat" where
  "digit_val c = of_char c - 48"

definition digits_val :: "string \<Rightarrow> nat" where
  "digits_val ds = foldl (\<lambda>a c. a * 10 + digit_val c) 0 ds"

fun strip_sign :: "string \<Rightarrow> bool \<times> string" where
  "strip_sign (CHR ''-'' # s) = (True, s)"
| "strip_sign (CHR ''+'' # s) = (False, s)"
| "strip_sign s = (False, s)"

text \<open>The value, the unparsed rest (the end pointer) and whether \<open>errno\<close> is set.\<close>

definition strtol :: "string \<Rightarrow> int \<times> string \<times> bool" where
  "strtol s =
     (let (neg, t) = strip_sign (dropWhile c_isspace s);
          ds = takeWhile ascii_isdigit t;
          v = (if neg then - int (digits_val ds) else int (digits_val ds))
      in if ds = [] then (0, s, False)
         else if v < LONG_MIN then (LONG_MIN, dropWhile ascii_isdigit t, True)
         else if LONG_MAX < v then (LONG_MAX, dropWhile ascii_isdigit t, True)
         else (v, dropWhile ascii_isdigit t, False))"

section \<open>Parsers\<close>

definition parse_long :: "cstring \<Rightarrow> int option" where
  "parse_long inp =
     (case inp of
        None \<Rightarrow> None
      | Some s \<Rightarrow>
          if length s = 0 then None
          else (let (r, x, range_err) = strtol s
                in if range_err \<or> length x = length s \<or> x \<noteq> [] then None else Some r))"

definition parse_port :: "cstring \<Rightarrow> 16 word option" where
  "parse_port inp =
     (if inp = None \<or> inp = Some [] then None
      else case parse_long inp of
             None \<Rightarrow> None
           | Some l \<Rightarrow> if l < 0 \<or> USHRT_MAX < l then None else Some (word_of_int l))"

definition MIN_SIGNAL_VALUE :: int where "MIN_SIGNAL_VALUE = 1"
definition MAX_SIGNAL_VALUE :: int where "MAX_SIGNAL_VALUE = 31"

definition parse_linux_signal :: "cstring \<Rightarrow> 32 word option" where
  "parse_linux_signal inp =
     (if inp = None \<or> inp = Some [] then None
      else case parse_long inp of
             None \<Rightarrow> None
           | Some l \<Rightarrow>
               if l < MIN_SIGNAL_VALUE \<or> MAX_SIGNAL_VALUE < l then None else Some (word_of_int l))"

text \<open>\<open>user:role:type:level\<close>; the type is copied.\<close>

definition skip_field :: "string \<Rightarrow> cstring" where
  "skip_field s =
     (case strchr s CHR '':'' of
        None \<Rightarrow> None
      | Some t \<Rightarrow> if tl t = [] then None else Some (tl t))"

definition parse_selinux_type :: "string \<Rightarrow> cstring" where
  "parse_selinux_type context =
     Option.bind (skip_field context) (\<lambda>s.
     Option.bind (skip_field s) (\<lambda>s.
       case strchr s CHR '':'' of
         None \<Rightarrow> None
       | Some e \<Rightarrow> Some (take (length s - length e) s)))"

text \<open>What \<open>printf\<close> writes for a number (\<open>%u\<close>, \<open>%ld\<close>).\<close>

definition digit_char :: "nat \<Rightarrow> char" where
  "digit_char d = char_of (48 + d)"

fun decimal :: "nat \<Rightarrow> string" where
  "decimal n = (if n < 10 then [digit_char n] else decimal (n div 10) @ [digit_char (n mod 10)])"

declare decimal.simps [simp del]

definition decimal_int :: "int \<Rightarrow> string" where
  "decimal_int i = (if i < 0 then CHR ''-'' # decimal (nat (- i)) else decimal (nat i))"

text \<open>The language of base 10 numbers and their meaning.\<close>

definition numeral_of :: "string \<Rightarrow> int \<Rightarrow> bool" where
  "numeral_of s v = (\<exists>ws sg ds. s = ws @ sg @ ds \<and> (\<forall>c \<in> set ws. c_isspace c) \<and>
     sg \<in> {[], ''+'', ''-''} \<and> ds \<noteq> [] \<and> (\<forall>c \<in> set ds. ascii_isdigit c) \<and>
     v = (if sg = ''-'' then - int (digits_val ds) else int (digits_val ds)))"

section \<open>Lemmas\<close>

lemma digit_not_space [simp]: "ascii_isdigit c \<Longrightarrow> \<not> c_isspace c"
  by (auto simp: ascii_isdigit_def c_isspace_def less_eq_char_def)

lemma sign_not_digit [simp]: "\<not> ascii_isdigit CHR ''-''" "\<not> ascii_isdigit CHR ''+''"
  by (auto simp: ascii_isdigit_def less_eq_char_def)

lemma sign_not_space [simp]: "\<not> c_isspace CHR ''-''" "\<not> c_isspace CHR ''+''"
  by (auto simp: c_isspace_def)

lemma strip_sign_digit:
  "ascii_isdigit c \<Longrightarrow> strip_sign (c # s) = (False, c # s)"
  by (cases "c # s" rule: strip_sign.cases) auto

lemma strip_sign_split:
  "strip_sign t = (neg, u) \<Longrightarrow> \<exists>sg. t = sg @ u \<and> sg \<in> {[], ''+'', ''-''} \<and> (neg \<longleftrightarrow> sg = ''-'')"
  by (cases t rule: strip_sign.cases) auto

lemma takeWhile_all: "(\<forall>c \<in> set ds. P c) \<Longrightarrow> takeWhile P ds = ds"
  by (induction ds) auto

lemma strtol_numeral:
  assumes "s = ws @ sg @ ds" "\<forall>c \<in> set ws. c_isspace c" "sg \<in> {[], ''+'', ''-''}" "ds \<noteq> []"
    "\<forall>c \<in> set ds. ascii_isdigit c"
    and v: "v = (if sg = ''-'' then - int (digits_val ds) else int (digits_val ds))"
  shows "strtol s = (if v < LONG_MIN then (LONG_MIN, [], True)
    else if LONG_MAX < v then (LONG_MAX, [], True) else (v, [], False))"
proof -
  obtain d ds' where ds: "ds = d # ds'" "ascii_isdigit d"
    using assms(4,5) by (cases ds) auto
  have "dropWhile c_isspace s = sg @ ds"
    using assms(1,2,3) ds by (auto simp: dropWhile_append)
  moreover have "strip_sign (sg @ ds) = (sg = ''-'', ds)"
    using assms(3) ds strip_sign_digit by auto
  moreover have "takeWhile ascii_isdigit ds = ds" "dropWhile ascii_isdigit ds = []"
    using assms(5) by (simp_all add: takeWhile_all)
  ultimately show ?thesis
    using ds(1) v by (auto simp: strtol_def Let_def)
qed

lemma strtol_complete:
  assumes "strtol s = (r, [], False)" "s \<noteq> []"
  shows "numeral_of s r \<and> LONG_MIN \<le> r \<and> r \<le> LONG_MAX"
proof -
  obtain neg t where st: "strip_sign (dropWhile c_isspace s) = (neg, t)" by fastforce
  then obtain sg where sg: "dropWhile c_isspace s = sg @ t" "sg \<in> {[], ''+'', ''-''}" "neg \<longleftrightarrow> sg = ''-''"
    using strip_sign_split by blast
  let ?ds = "takeWhile ascii_isdigit t"
  have rest: "?ds \<noteq> []" "dropWhile ascii_isdigit t = []"
    "r = (if neg then - int (digits_val ?ds) else int (digits_val ?ds))" "LONG_MIN \<le> r" "r \<le> LONG_MAX"
    using assms st by (auto simp: strtol_def Let_def split: if_splits)
  have t: "t = ?ds" using rest(2) by (simp add: takeWhile_all)
  have s: "s = takeWhile c_isspace s @ sg @ ?ds"
    using sg(1) t takeWhile_dropWhile_id [of c_isspace s] by simp
  have "numeral_of s r"
    unfolding numeral_of_def
    by (rule exI [of _ "takeWhile c_isspace s"], rule exI [of _ sg], rule exI [of _ ?ds])
      (use s sg rest in \<open>auto dest: set_takeWhileD\<close>)
  then show ?thesis using rest by simp
qed

lemma parse_long_numeral:
  "parse_long inp = Some v \<longleftrightarrow>
     (\<exists>s. inp = Some s \<and> numeral_of s v \<and> LONG_MIN \<le> v \<and> v \<le> LONG_MAX)"
proof
  assume "parse_long inp = Some v"
  then obtain s where s: "inp = Some s" "s \<noteq> []" "strtol s = (v, [], False)"
    by (auto simp: parse_long_def Let_def split: option.splits if_splits prod.splits)
  then show "\<exists>s. inp = Some s \<and> numeral_of s v \<and> LONG_MIN \<le> v \<and> v \<le> LONG_MAX"
    using strtol_complete by blast
next
  assume "\<exists>s. inp = Some s \<and> numeral_of s v \<and> LONG_MIN \<le> v \<and> v \<le> LONG_MAX"
  then obtain s where s: "inp = Some s" "numeral_of s v" "LONG_MIN \<le> v" "v \<le> LONG_MAX"
    by blast
  from s(2) obtain ws sg ds where parts: "s = ws @ sg @ ds" "\<forall>c \<in> set ws. c_isspace c"
    "sg \<in> {[], ''+'', ''-''}" "ds \<noteq> []" "\<forall>c \<in> set ds. ascii_isdigit c"
    "v = (if sg = ''-'' then - int (digits_val ds) else int (digits_val ds))"
    unfolding numeral_of_def by blast
  have "strtol s = (v, [], False)" "s \<noteq> []"
    using strtol_numeral [OF parts] s(3,4) parts(1,4) by auto
  then show "parse_long inp = Some v"
    using s(1) by (auto simp: parse_long_def)
qed

lemma numeral_of_nonempty: "numeral_of s v \<Longrightarrow> s \<noteq> []"
  by (auto simp: numeral_of_def)

text \<open>
  \<open>parse_long\<close> accepts exactly the base 10 numerals (white space, an optional
  sign and at least one digit, nothing after them) whose value is a \<open>long\<close>, and
  returns that value; in particular an out of range numeral is refused instead
  of being clamped.
\<close>

theorem parse_long_correct:
  "parse_long inp = Some v \<longleftrightarrow>
     (\<exists>s. inp = Some s \<and> numeral_of s v \<and> LONG_MIN \<le> v \<and> v \<le> LONG_MAX)"
  by (rule parse_long_numeral)

lemma parse_long_small:
  "numeral_of s v \<Longrightarrow> 0 \<le> v \<Longrightarrow> v \<le> USHRT_MAX \<Longrightarrow> parse_long (Some s) = Some v"
  by (simp add: parse_long_numeral LONG_MIN_def LONG_MAX_def USHRT_MAX_def)

section \<open>Printing and parsing\<close>

lemma digit_char_props:
  assumes "d < 10"
  shows "ascii_isdigit (digit_char d)" "digit_val (digit_char d) = d"
proof -
  have "d \<in> {0, 1, 2, 3, 4, 5, 6, 7, 8, 9}" using assms by auto
  then show "ascii_isdigit (digit_char d)" "digit_val (digit_char d) = d"
    by (auto simp: digit_char_def digit_val_def ascii_isdigit_def less_eq_char_def)
qed

lemma digits_val_snoc: "digits_val (ds @ [c]) = digits_val ds * 10 + digit_val c"
  by (simp add: digits_val_def)

lemma decimal_props:
  "decimal n \<noteq> [] \<and> (\<forall>c \<in> set (decimal n). ascii_isdigit c) \<and> digits_val (decimal n) = n"
proof (induction n rule: decimal.induct)
  case (1 n)
  show ?case
  proof (cases "n < 10")
    case True
    then have "decimal n = [] @ [digit_char n]" by (simp add: decimal.simps [of n])
    then show ?thesis
      using digit_char_props [OF True] digits_val_snoc [of "[]" "digit_char n"]
      by (simp add: digits_val_def)
  next
    case False
    then have d: "decimal n = decimal (n div 10) @ [digit_char (n mod 10)]"
      by (simp add: decimal.simps [of n])
    have "n mod 10 < 10" by simp
    then show ?thesis
      using 1 False d digit_char_props [of "n mod 10"] by (auto simp: digits_val_snoc)
  qed
qed

lemma decimal_inject [simp]: "decimal m = decimal n \<longleftrightarrow> m = n"
  by (metis decimal_props)

lemma numeral_of_decimal_int: "numeral_of (decimal_int i) i"
proof -
  have *: "\<exists>sg ds. decimal_int i = sg @ ds \<and> sg \<in> {[], ''+'', ''-''} \<and> ds \<noteq> [] \<and>
      (\<forall>c \<in> set ds. ascii_isdigit c) \<and> i = (if sg = ''-'' then - int (digits_val ds) else int (digits_val ds))"
    (is "\<exists>sg ds. ?P sg ds")
  proof (cases "i < 0")
    case True
    then have "?P ''-'' (decimal (nat (- i)))"
      using decimal_props [of "nat (- i)"] by (simp add: decimal_int_def)
    then show ?thesis by blast
  next
    case False
    then have "?P [] (decimal (nat i))"
      using decimal_props [of "nat i"] by (simp add: decimal_int_def)
    then show ?thesis by blast
  qed
  show ?thesis unfolding numeral_of_def
    by (rule exI [of _ "[]"]) (use * in \<open>simp only: append_Nil list.set ball_simps simp_thms\<close>)
qed

section \<open>Ports, signals and SELinux contexts\<close>

text \<open>
  \<open>parse_port\<close> returns the unsigned 16 bit value of the numeral and accepts
  exactly the numerals between 0 and 65535, so no port is truncated; printing a
  port and parsing it gives the port back.
\<close>

theorem parse_port_correct:
  "(parse_port inp = Some p \<longleftrightarrow> (\<exists>s. inp = Some s \<and> numeral_of s (uint p))) \<and>
   parse_port (Some (decimal_int (uint p))) = Some p"
proof -
  have long: "parse_long (Some s) = Some v \<longleftrightarrow> numeral_of s v \<and> LONG_MIN \<le> v \<and> v \<le> LONG_MAX" for s v
    using parse_long_numeral [of "Some s" v] by simp
  have bound: "0 \<le> uint p" "uint p \<le> USHRT_MAX"
    using uint_lt2p [of p] by (simp_all add: USHRT_MAX_def)
  have fwd: "parse_port (Some s) = Some p \<Longrightarrow> numeral_of s (uint p)" for s
    by (auto simp: parse_port_def USHRT_MAX_def long uint_word_of_int_eq take_bit_int_eq_self
        split: if_splits option.splits)
  have bwd: "numeral_of s (uint p) \<Longrightarrow> parse_port (Some s) = Some p" for s
    using bound numeral_of_nonempty [of s "uint p"] parse_long_small [of s "uint p"]
    by (simp add: parse_port_def USHRT_MAX_def)
  show ?thesis
  proof (cases inp)
    case (Some s)
    then show ?thesis using fwd [of s] bwd [of s] bwd [OF numeral_of_decimal_int] by blast
  qed (use bwd [OF numeral_of_decimal_int] in \<open>simp add: parse_port_def\<close>)
qed

text \<open>
  C28.  \<open>parse_linux_signal\<close> accepts exactly the numerals of the signals 1 to 31.
\<close>

theorem parse_linux_signal_correct:
  "parse_linux_signal inp = Some sig \<longleftrightarrow>
     (\<exists>s. inp = Some s \<and> numeral_of s (uint sig) \<and> 1 \<le> uint sig \<and> uint sig \<le> 31)"
proof -
  have long: "parse_long (Some s) = Some v \<longleftrightarrow> numeral_of s v \<and> LONG_MIN \<le> v \<and> v \<le> LONG_MAX" for s v
    using parse_long_numeral [of "Some s" v] by simp
  have fwd: "parse_linux_signal (Some s) = Some sig \<Longrightarrow>
      numeral_of s (uint sig) \<and> 1 \<le> uint sig \<and> uint sig \<le> 31" for s
    by (auto simp: parse_linux_signal_def MIN_SIGNAL_VALUE_def MAX_SIGNAL_VALUE_def long
        uint_word_of_int_eq take_bit_int_eq_self split: if_splits option.splits)
  have bwd: "numeral_of s (uint sig) \<Longrightarrow> 1 \<le> uint sig \<Longrightarrow> uint sig \<le> 31 \<Longrightarrow>
      parse_linux_signal (Some s) = Some sig" for s
    using numeral_of_nonempty [of s "uint sig"] parse_long_small [of s "uint sig", unfolded USHRT_MAX_def]
    by (simp add: parse_linux_signal_def MIN_SIGNAL_VALUE_def MAX_SIGNAL_VALUE_def)
  show ?thesis
  proof (cases inp)
    case (Some s)
    then show ?thesis using fwd [of s] bwd [of s] by blast
  qed (simp add: parse_linux_signal_def)
qed

lemma skip_field_Some_iff:
  "skip_field s = Some t \<longleftrightarrow> (\<exists>u. s = u @ CHR '':'' # t \<and> CHR '':'' \<notin> set u \<and> t \<noteq> [])"
proof
  assume "skip_field s = Some t"
  then obtain e where e: "strchr s CHR '':'' = Some e" "t = tl e" "t \<noteq> []"
    by (auto simp: skip_field_def split: option.splits if_splits)
  from strchr_SomeD [OF e(1)] obtain u where "s = u @ e" "CHR '':'' \<notin> set u" "e \<noteq> []" "hd e = CHR '':''"
    by blast
  then show "\<exists>u. s = u @ CHR '':'' # t \<and> CHR '':'' \<notin> set u \<and> t \<noteq> []"
    using e by (cases e) auto
next
  assume "\<exists>u. s = u @ CHR '':'' # t \<and> CHR '':'' \<notin> set u \<and> t \<noteq> []"
  then show "skip_field s = Some t"
    by (auto simp: skip_field_def strchr_append)
qed

text \<open>
  \<open>parse_selinux_type\<close> returns the third field of a context, and does so
  exactly for the strings with at least three colons.
\<close>

theorem parse_selinux_type_correct:
  "parse_selinux_type context = Some ty \<longleftrightarrow>
     (\<exists>user role level. context = user @ '':'' @ role @ '':'' @ ty @ '':'' @ level \<and>
        CHR '':'' \<notin> set user \<union> set role \<union> set ty)"
  (is "?L \<longleftrightarrow> ?R")
proof
  assume ?L
  then obtain s t e where parts: "skip_field context = Some s" "skip_field s = Some t"
    "strchr t CHR '':'' = Some e" "ty = take (length t - length e) t"
    by (auto simp: parse_selinux_type_def bind_eq_Some_conv split: option.splits)
  from strchr_SomeD [OF parts(3)] obtain p where p: "t = p @ e" "CHR '':'' \<notin> set p" "e \<noteq> []" "hd e = CHR '':''"
    by blast
  then have t: "t = ty @ '':'' @ tl e" "CHR '':'' \<notin> set ty" using parts(4) by (auto simp: neq_Nil_conv)
  from parts(1,2) obtain user role where "context = user @ CHR '':'' # s" "CHR '':'' \<notin> set user"
    "s = role @ CHR '':'' # t" "CHR '':'' \<notin> set role"
    by (auto simp: skip_field_Some_iff)
  then show ?R
    using t by (intro exI [of _ user] exI [of _ role] exI [of _ "tl e"]) simp
next
  assume ?R
  then obtain user role level where c: "context = user @ '':'' @ role @ '':'' @ ty @ '':'' @ level"
    "CHR '':'' \<notin> set user" "CHR '':'' \<notin> set role" "CHR '':'' \<notin> set ty"
    by auto
  have "skip_field context = Some (role @ '':'' @ ty @ '':'' @ level)"
    "skip_field (role @ '':'' @ ty @ '':'' @ level) = Some (ty @ '':'' @ level)"
    using c by (auto simp: skip_field_Some_iff)
  then show ?L
    using c(4) by (simp add: parse_selinux_type_def strchr_append)
qed

end
