(* ===== verification/BusUtil.thy ===== *)
theory BusUtil
  imports ParseUtil
begin

text \<open>
  \<open>libbluechi/bus/utils.c\<close>: iteration over the \<open>a{sv}\<close> property arrays of D-Bus
  messages, the escaping of node and unit names into object path elements, and
  the validation of the unique bus names accepted as monitor peers.
\<close>

section \<open>Property arrays\<close>

text \<open>A variant carries its type signature; \<open>BrokenItem r\<close> is an entry at which
  the message reader reports the error \<open>r\<close>.\<close>

datatype variant =
    VString string
  | VUInt32 "32 word"
  | VUInt64 "64 word"
  | VBool bool
  | VOther string

fun value_type :: "variant \<Rightarrow> string" where
  "value_type (VString _) = ''s''"
| "value_type (VUInt32 _) = ''u''"
| "value_type (VUInt64 _) = ''t''"
| "value_type (VBool _) = ''b''"
| "value_type (VOther t) = t"

datatype prop_item = PropItem string variant | BrokenItem int

text \<open>The loop over the entries: the result (a negative error, 1 when the callback
  stopped the iteration, 0 at the end) and the callback's data.\<close>

fun bus_parse_properties_foreach ::
    "prop_item list \<Rightarrow> (string \<Rightarrow> variant \<Rightarrow> 'd \<Rightarrow> int \<times> 'd) \<Rightarrow> 'd \<Rightarrow> int \<times> 'd" where
  "bus_parse_properties_foreach [] cb d = (0, d)"
| "bus_parse_properties_foreach (BrokenItem r # items) cb d = (r, d)"
| "bus_parse_properties_foreach (PropItem key v # items) cb d =
     (let (r, d') = cb key v d
      in if r < 0 then (r, d')
         else if r = 1 then (1, d')
         else bus_parse_properties_foreach items cb d')"

definition bus_parse_property_string_cb ::
    "string \<Rightarrow> string \<Rightarrow> variant \<Rightarrow> cstring \<Rightarrow> int \<times> cstring" where
  "bus_parse_property_string_cb name key v d =
     (if name \<noteq> key then (2, d)
      else case v of VString s \<Rightarrow> (1, Some s) | _ \<Rightarrow> (- EIO, d))"

definition bus_parse_property_string :: "prop_item list \<Rightarrow> string \<Rightarrow> int \<times> cstring" where
  "bus_parse_property_string items name =
     (let (r, d) = bus_parse_properties_foreach items (bus_parse_property_string_cb name) None
      in if r < 0 then (r, d) else (if r = 0 then - ENOENT else 0, d))"

section \<open>Object path elements\<close>

definition hexchar :: "nat \<Rightarrow> char" where
  "hexchar x = ''0123456789abcdef'' ! (x mod 16)"

text \<open>The loop over the input; \<open>later\<close> is the test \<open>f > s\<close>.\<close>

fun bus_path_escape_from :: "bool \<Rightarrow> string \<Rightarrow> string" where
  "bus_path_escape_from later [] = []"
| "bus_path_escape_from later (f # s) =
     (if \<not> ascii_isalpha f \<and> \<not> (later \<and> ascii_isdigit f)
      then CHR ''_'' # hexchar (of_char f div 16) # hexchar (of_char f) # bus_path_escape_from True s
      else f # bus_path_escape_from True s)"

definition bus_path_escape :: "string \<Rightarrow> string" where
  "bus_path_escape s = (if s = [] then ''_'' else bus_path_escape_from False s)"

definition assemble_object_path_string :: "string \<Rightarrow> string \<Rightarrow> string" where
  "assemble_object_path_string pre name = pre @ ''/'' @ bus_path_escape name"

text \<open>The inverse, for the round trip (not part of the program).\<close>

definition unhex :: "char \<Rightarrow> nat" where
  "unhex c = (if ascii_isdigit c then of_char c - 48 else of_char c - 87)"

fun path_unescape_from :: "string \<Rightarrow> string" where
  "path_unescape_from (CHR ''_'' # h # l # s) =
     char_of (unhex h * 16 + unhex l) # path_unescape_from s"
| "path_unescape_from (c # s) = c # path_unescape_from s"
| "path_unescape_from [] = []"

definition path_unescape :: "string \<Rightarrow> string" where
  "path_unescape t = (if t = ''_'' then [] else path_unescape_from t)"

section \<open>Unique bus names\<close>

definition SD_BUS_MAXIMUM_NAME_LENGTH :: nat where
  "SD_BUS_MAXIMUM_NAME_LENGTH = 255"

text \<open>The scan after the colon; \<open>None\<close> when it returns false, otherwise the final
  flags.\<close>

fun bus_id_scan :: "string \<Rightarrow> bool \<Rightarrow> bool \<Rightarrow> (bool \<times> bool) option" where
  "bus_id_scan [] dot found_dot = Some (dot, found_dot)"
| "bus_id_scan (i # is) dot found_dot =
     (if i = CHR ''.'' then
        if dot then None else bus_id_scan is True True
      else if \<not> ascii_isalpha i \<and> \<not> ascii_isdigit i then None
      else bus_id_scan is False found_dot)"

definition bus_id_is_valid :: "cstring \<Rightarrow> bool" where
  "bus_id_is_valid name =
     (case name of
        None \<Rightarrow> False
      | Some s \<Rightarrow>
          if isempty name \<or> hd s \<noteq> CHR '':'' then False
          else case bus_id_scan (tl s) True False of
                 None \<Rightarrow> False
               | Some (dot, found_dot) \<Rightarrow>
                   if SD_BUS_MAXIMUM_NAME_LENGTH < length s then False
                   else if dot \<or> \<not> found_dot then False
                   else True)"

text \<open>A unique name: a colon and at least two alphanumeric segments joined by dots.\<close>

fun join_dots :: "string list \<Rightarrow> string" where
  "join_dots [] = []"
| "join_dots [s] = s"
| "join_dots (s # ss) = s @ CHR ''.'' # join_dots ss"

definition alnum_segment :: "string \<Rightarrow> bool" where
  "alnum_segment s = (s \<noteq> [] \<and> (\<forall>c \<in> set s. ascii_isalpha c \<or> ascii_isdigit c))"

definition unique_bus_name :: "string \<Rightarrow> bool" where
  "unique_bus_name s = (\<exists>segs. s = CHR '':'' # join_dots segs \<and> 2 \<le> length segs \<and>
     (\<forall>x \<in> set segs. alnum_segment x) \<and> length s \<le> 255)"

section \<open>Lemmas: property lookup\<close>

lemma foreach_string_skip:
  "(\<forall>it \<in> set items. \<exists>k v. it = PropItem k v \<and> k \<noteq> name) \<Longrightarrow>
   bus_parse_properties_foreach (items @ rest) (bus_parse_property_string_cb name) d =
   bus_parse_properties_foreach rest (bus_parse_property_string_cb name) d"
  by (induction items) (auto simp: bus_parse_property_string_cb_def)

text \<open>
  \<open>bus_parse_property_string\<close> reads the first entry with the wanted name: it
  returns 0 and the string when the entry holds a string, \<open>-EIO\<close> when it holds
  another type, the reader's error when an unreadable entry comes first, and
  \<open>-ENOENT\<close> when no entry has the name.
\<close>

theorem bus_parse_property_string_correct:
  assumes "\<forall>it \<in> set before. \<exists>k v. it = PropItem k v \<and> k \<noteq> name"
  shows "bus_parse_property_string (before @ PropItem name v # rest) name =
      (case v of VString s \<Rightarrow> (0, Some s) | _ \<Rightarrow> (- EIO, None)) \<and>
    bus_parse_property_string before name = (- ENOENT, None) \<and>
    (r < 0 \<longrightarrow> bus_parse_property_string (before @ BrokenItem r # rest) name = (r, None))"
proof -
  note skip = foreach_string_skip [OF assms]
  have "bus_parse_property_string (before @ PropItem name v # rest) name =
      (case v of VString s \<Rightarrow> (0, Some s) | _ \<Rightarrow> (- EIO, None))"
    by (cases v) (simp_all add: bus_parse_property_string_def skip bus_parse_property_string_cb_def EIO_def)
  moreover have "bus_parse_property_string before name = (- ENOENT, None)"
    using skip [of "[]"] by (simp add: bus_parse_property_string_def)
  ultimately show ?thesis
    by (simp add: bus_parse_property_string_def skip)
qed

theorem bus_parse_property_string_witness:
  "bus_parse_property_string [PropItem ''Id'' (VUInt32 7), PropItem ''SubState'' (VString ''running'')] ''SubState''
   = (0, Some ''running'')"
  using bus_parse_property_string_correct
    [of "[PropItem ''Id'' (VUInt32 7)]" "''SubState''" "VString ''running''" "[]"]
  by simp

section \<open>Lemmas: escaping\<close>

lemma hexchar_cases: "hexchar x \<in> set ''0123456789abcdef''"
  unfolding hexchar_def by (rule nth_mem) simp

lemma hexchar_ok: "ascii_isdigit (hexchar x) \<or> ascii_isalpha (hexchar x)"
  using hexchar_cases [of x] by (auto simp: ascii_isdigit_def ascii_isalpha_def less_eq_char_def)

lemma unhex_hexchar: "unhex (hexchar x) = x mod 16"
proof -
  have "list_all (\<lambda>y. unhex (''0123456789abcdef'' ! y) = y) [0..<16]"
    by code_simp
  moreover have "x mod 16 \<in> set [0..<16]" by simp
  ultimately show ?thesis
    unfolding hexchar_def list_all_iff by blast
qed

lemma hex_byte: "char_of (unhex (hexchar (of_char c div 16)) * 16 + unhex (hexchar (of_char c))) = (c :: char)"
proof -
  have "of_char c < (256 :: nat)"
    by (metis UNIV_I image_eqI range_nat_of_char atLeast0LessThan lessThan_iff)
  then have "of_char c div 16 mod 16 * 16 + of_char c mod 16 = (of_char c :: nat)"
    by (simp add: mod_less div_less_iff_less_mult)
  then show ?thesis by (simp add: unhex_hexchar)
qed

lemma underscore_escaped: "\<not> ascii_isalpha CHR ''_''" "\<not> ascii_isdigit CHR ''_''"
  by (auto simp: ascii_isalpha_def ascii_isdigit_def less_eq_char_def)

lemma path_unescape_plain: "c \<noteq> CHR ''_'' \<Longrightarrow> path_unescape_from (c # s) = c # path_unescape_from s"
  by (cases "c # s" rule: path_unescape_from.cases) auto

lemma path_unescape_from_escape: "path_unescape_from (bus_path_escape_from later s) = s"
proof (induction later s rule: bus_path_escape_from.induct)
  case (2 later f s)
  show ?case
  proof (cases "\<not> ascii_isalpha f \<and> \<not> (later \<and> ascii_isdigit f)")
    case True
    then show ?thesis using 2(1) by (simp add: hex_byte)
  next
    case False
    then have "f \<noteq> CHR ''_''" using underscore_escaped by metis
    then show ?thesis using False 2(2) path_unescape_plain [of f] by auto
  qed
qed simp

lemma escape_from_not_underscore: "bus_path_escape_from later s \<noteq> ''_''"
  by (induction later s rule: bus_path_escape_from.induct) (auto simp: underscore_escaped)

lemma escape_charset:
  "c \<in> set (bus_path_escape_from later s) \<Longrightarrow> ascii_isalpha c \<or> ascii_isdigit c \<or> c = CHR ''_''"
  by (induction later s rule: bus_path_escape_from.induct) (use hexchar_ok in \<open>auto split: if_splits\<close>)

lemma bus_path_escape_inj: "bus_path_escape s = bus_path_escape t \<longleftrightarrow> s = t"
  by (auto simp: bus_path_escape_def escape_from_not_underscore escape_from_not_underscore [symmetric] split: if_splits)
     (metis path_unescape_from_escape)

lemma escape_from_length: "length (bus_path_escape_from later s) \<le> 3 * length s"
  by (induction later s rule: bus_path_escape_from.induct) auto

lemma escape_from_nonempty: "s \<noteq> [] \<Longrightarrow> bus_path_escape_from later s \<noteq> []"
  by (cases s) auto

text \<open>
  C30.  The escaping of names into object paths loses nothing: it can be undone, so
  two different node or unit names never share an object path; its result is a
  valid path element (not empty, only letters, digits and underscores) and fits
  the buffer of three bytes per input byte that the function allocates.
\<close>

theorem bus_path_escape_correct:
  "path_unescape (bus_path_escape s) = s \<and> bus_path_escape s \<noteq> [] \<and>
   (\<forall>c \<in> set (bus_path_escape s). ascii_isalpha c \<or> ascii_isdigit c \<or> c = CHR ''_'') \<and>
   (s \<noteq> [] \<longrightarrow> length (bus_path_escape s) \<le> 3 * length s)"
  using path_unescape_from_escape escape_from_not_underscore escape_charset escape_from_length
    escape_from_nonempty
  by (auto simp: bus_path_escape_def path_unescape_def)

theorem bus_path_escape_witness:
  "bus_path_escape ''a-1'' = ''a_2d1'' \<and> length (bus_path_escape ''a-1'') \<le> 9 \<and>
   path_unescape ''a_2d1'' = ''a-1''"
  using bus_path_escape_correct [of "''a-1''"]
  by (simp add: bus_path_escape_def hexchar_def ascii_isalpha_def ascii_isdigit_def less_eq_char_def)

section \<open>Lemmas: unique names\<close>

lemma alnum_not_dot: "ascii_isalpha c \<or> ascii_isdigit c \<Longrightarrow> c \<noteq> CHR ''.''"
  by (auto simp: ascii_isalpha_def ascii_isdigit_def less_eq_char_def)

lemma scan_segment:
  "alnum_segment s \<Longrightarrow> bus_id_scan (s @ rest) dot fd = bus_id_scan rest False fd"
proof (induction s arbitrary: dot)
  case (Cons c s)
  then have "c \<noteq> CHR ''.''" "ascii_isalpha c \<or> ascii_isdigit c"
    using alnum_not_dot by (auto simp: alnum_segment_def)
  then show ?case
    using Cons by (cases s) (auto simp: alnum_segment_def)
qed (simp add: alnum_segment_def)

lemma scan_segments:
  "\<forall>x \<in> set segs. alnum_segment x \<Longrightarrow> segs \<noteq> [] \<Longrightarrow>
   bus_id_scan (join_dots segs) True fd = Some (False, fd \<or> 2 \<le> length segs)"
proof (induction segs arbitrary: fd rule: join_dots.induct)
  case (2 s)
  then show ?case using scan_segment [of s "[]"] by simp
next
  case (3 s t ss)
  then show ?case by (simp add: scan_segment)
qed simp

text \<open>What is left to read when the scan succeeds: the rest of the current segment,
  then whole segments.\<close>

lemma scan_complete:
  "bus_id_scan s dot fd = Some (False, fd') \<Longrightarrow>
   \<exists>seg segs. s = join_dots (seg # segs) \<and> (\<forall>c \<in> set seg. ascii_isalpha c \<or> ascii_isdigit c) \<and>
     (dot \<longrightarrow> seg \<noteq> []) \<and> (\<forall>x \<in> set segs. alnum_segment x) \<and> fd' = (fd \<or> segs \<noteq> [])"
proof (induction s dot fd rule: bus_id_scan.induct)
  case (1 dot fd)
  then show ?case by (auto intro!: exI [of _ "[]"])
next
  case (2 i "is" dot fd)
  show ?case
  proof (cases "i = CHR ''.''")
    case True
    then have "\<not> dot" and "bus_id_scan is True True = Some (False, fd')"
      using 2(3) by (auto split: if_splits)
    with 2(1) True obtain seg segs where *: "is = join_dots (seg # segs)" "seg \<noteq> []"
      "\<forall>c \<in> set seg. ascii_isalpha c \<or> ascii_isdigit c" "\<forall>x \<in> set segs. alnum_segment x" "fd'"
      by auto
    then show ?thesis
      using True \<open>\<not> dot\<close> by (intro exI [of _ "[]"] exI [of _ "seg # segs"]) (auto simp: alnum_segment_def)
  next
    case False
    then have an: "ascii_isalpha i \<or> ascii_isdigit i" and "bus_id_scan is False fd = Some (False, fd')"
      using 2(3) by (auto split: if_splits)
    with 2(2) False obtain seg segs where *: "is = join_dots (seg # segs)"
      "\<forall>c \<in> set seg. ascii_isalpha c \<or> ascii_isdigit c" "\<forall>x \<in> set segs. alnum_segment x"
      "fd' = (fd \<or> segs \<noteq> [])"
      by auto
    have "i # is = join_dots ((i # seg) # segs)"
      using *(1) by (cases segs) auto
    then show ?thesis
      using an * by (intro exI [of _ "i # seg"] exI [of _ segs]) auto
  qed
qed

text \<open>
  \<open>bus_id_is_valid\<close> accepts exactly the unique bus names: a colon, then at
  least two non-empty segments of ASCII letters and digits separated by single
  dots, at most 255 characters in all.
\<close>

theorem bus_id_is_valid_correct:
  "bus_id_is_valid name \<longleftrightarrow> (\<exists>s. name = Some s \<and> unique_bus_name s)"
proof
  assume "bus_id_is_valid name"
  then obtain s where s: "name = Some s" "s \<noteq> []" "hd s = CHR '':''"
    "bus_id_scan (tl s) True False = Some (False, True)" "length s \<le> 255"
    by (auto simp: bus_id_is_valid_def isempty_def SD_BUS_MAXIMUM_NAME_LENGTH_def
        split: option.splits if_splits)
  from scan_complete [OF s(4)] obtain seg segs where
    "tl s = join_dots (seg # segs)" "\<forall>x \<in> set (seg # segs). alnum_segment x" "segs \<noteq> []"
    by (auto simp: alnum_segment_def)
  then have "unique_bus_name s"
    unfolding unique_bus_name_def using s(2,3,5)
    by (intro exI [of _ "seg # segs"]) (cases s; cases segs; simp)
  then show "\<exists>s. name = Some s \<and> unique_bus_name s" using s(1) by blast
next
  assume "\<exists>s. name = Some s \<and> unique_bus_name s"
  then obtain s segs where s: "name = Some s" "s = CHR '':'' # join_dots segs" "2 \<le> length segs"
    "\<forall>x \<in> set segs. alnum_segment x" "length s \<le> 255"
    by (auto simp: unique_bus_name_def)
  then have "bus_id_scan (tl s) True False = Some (False, True)"
    using scan_segments [of segs False] by (cases segs) auto
  then show "bus_id_is_valid name"
    using s by (simp add: bus_id_is_valid_def isempty_def SD_BUS_MAXIMUM_NAME_LENGTH_def)
qed

end
