(* ===== verification/TimeUtil.thy ===== *)
theory TimeUtil
  imports BC_Prelude
begin

text \<open>
  \<open>libbluechi/common/time-util.c\<close>, the saturating addition and the timer reset of
  \<open>event-util.c\<close>, and the overflow-checked allocation size of \<open>common.h\<close>.  Times
  are \<open>uint64_t\<close> microseconds; \<open>time_t\<close> and \<open>long\<close> are signed 64 bit integers.
\<close>

section \<open>Time stamps\<close>

definition USEC_INFINITY :: "64 word" where "USEC_INFINITY = UINT64_MAX"
definition NSEC_PER_USEC :: "64 word" where "NSEC_PER_USEC = 1000"
definition USEC_PER_SEC :: "64 word" where "USEC_PER_SEC = 1000000"
definition USEC_PER_MSEC :: "64 word" where "USEC_PER_MSEC = 1000"

record timespec =
  tv_sec :: int
  tv_nsec :: int

definition timespec_wf :: "timespec \<Rightarrow> bool" where
  "timespec_wf ts = (LONG_MIN \<le> tv_sec ts \<and> tv_sec ts \<le> LONG_MAX \<and>
     LONG_MIN \<le> tv_nsec ts \<and> tv_nsec ts \<le> LONG_MAX)"

definition timespec_to_micros :: "timespec \<Rightarrow> 64 word" where
  "timespec_to_micros ts =
     (if tv_sec ts < 0 \<or> tv_nsec ts < 0 then USEC_INFINITY
      else if (UINT64_MAX - word_of_int (tv_nsec ts) div NSEC_PER_USEC) div USEC_PER_SEC
                < word_of_int (tv_sec ts)
      then USEC_INFINITY
      else word_of_int (tv_sec ts) * USEC_PER_SEC + word_of_int (tv_nsec ts) div NSEC_PER_USEC)"

definition finalize_time_interval_micros :: "64 word \<Rightarrow> 64 word \<Rightarrow> 64 word" where
  "finalize_time_interval_micros now start_time_micros = now - start_time_micros"

section \<open>Timer events\<close>

definition usec_add :: "64 word \<Rightarrow> 64 word \<Rightarrow> 64 word" where
  "usec_add a b = (if UINT64_MAX - b < a then UINT64_MAX else a + b)"

text \<open>An sd-event time source: its clock, due time, whether it is enabled.\<close>

record event_source =
  es_clock :: nat
  es_time :: "64 word"
  es_enabled :: bool

text \<open>The sd-event calls that can fail; \<open>ev c\<close> is the result of call \<open>c\<close>.\<close>

datatype event_call = EvNow | EvGetEnabled | EvGetClock | EvSetTime | EvSetAccuracy
  | EvSetUserdata | EvSetEnabled | EvAddTime | EvSetPriority | EvSetDescription | EvSetFloating

definition event_reset_time ::
    "(event_call \<Rightarrow> int) \<Rightarrow> event_source option \<Rightarrow> nat \<Rightarrow> 64 word \<Rightarrow> bool \<Rightarrow> bool
     \<Rightarrow> int \<times> event_source option" where
  "event_reset_time ev src clock usec has_description force_reset =
     (let finish = (\<lambda>src.
            if ev EvSetPriority < 0 then (ev EvSetPriority, src)
            else if has_description \<and> ev EvSetDescription < 0 then (ev EvSetDescription, src)
            else (0, src))
      in case src of
        Some s \<Rightarrow>
          if \<not> force_reset \<and> ev EvGetEnabled < 0 then (ev EvGetEnabled, src)
          else if \<not> force_reset \<and> es_enabled s then (0, src)
          else if ev EvGetClock < 0 then (ev EvGetClock, src)
          else if es_clock s \<noteq> clock then (ev EvGetClock, src)
          else if ev EvSetTime < 0 then (ev EvSetTime, src)
          else let s = s\<lparr>es_time := usec\<rparr> in
            if ev EvSetAccuracy < 0 then (ev EvSetAccuracy, Some s)
            else if ev EvSetUserdata < 0 then (- 1, Some s)
            else if ev EvSetEnabled < 0 then (ev EvSetEnabled, Some s)
            else finish (Some (s\<lparr>es_enabled := True\<rparr>))
      | None \<Rightarrow>
          if ev EvAddTime < 0 then (ev EvAddTime, None)
          else finish (Some \<lparr>es_clock = clock, es_time = usec, es_enabled = True\<rparr>))"

definition event_reset_time_relative ::
    "(event_call \<Rightarrow> int) \<Rightarrow> 64 word \<Rightarrow> event_source option \<Rightarrow> nat \<Rightarrow> 64 word \<Rightarrow> bool \<Rightarrow> bool
     \<Rightarrow> int \<times> event_source option" where
  "event_reset_time_relative ev usec_now src clock usec has_description force_reset =
     (if ev EvNow < 0 then (ev EvNow, src)
      else event_reset_time ev src clock (usec_add usec_now usec) has_description force_reset)"

section \<open>Allocation sizes\<close>

definition SIZE_MAX :: "64 word" where "SIZE_MAX = - 1"

text \<open>The number of bytes requested from \<open>calloc\<close>, \<open>None\<close> when the function returns
  NULL before it asks.\<close>

definition malloc0_array :: "64 word \<Rightarrow> 64 word \<Rightarrow> 64 word \<Rightarrow> 64 word option" where
  "malloc0_array base_size element_size n_elements =
     (if 0 < element_size \<and> SIZE_MAX div element_size < n_elements then None
      else let array_size = element_size * n_elements;
               total_size = base_size + array_size
           in if total_size < array_size then None
              else Some (if total_size = 0 then 1 else total_size))"

section \<open>Lemmas\<close>

lemma unat64_le: "unat (w :: 64 word) \<le> 2 ^ 64 - 1"
  using unsigned_less [of w, where ?'a = nat] by simp

lemma unat_UINT64_MAX_minus: "unat (UINT64_MAX - b) = 2 ^ 64 - 1 - unat b"
  by (subst unat_sub) (simp_all add: unat_UINT64_MAX)

text \<open>
  C26.  \<open>usec_add\<close> is the addition of unbounded numbers cut off at the largest
  64 bit value: it never wraps around to a time in the past.
\<close>

theorem usec_add_saturates:
  "unat (usec_add a b) = min (unat a + unat b) (2 ^ 64 - 1)"
proof (cases "UINT64_MAX - b < a")
  case True
  then have "2 ^ 64 - 1 - unat b < unat a"
    by (simp add: word_less_nat_alt unat_UINT64_MAX_minus)
  then show ?thesis using True by (simp add: usec_add_def unat_UINT64_MAX)
next
  case False
  then have "unat a \<le> 2 ^ 64 - 1 - unat b"
    by (simp add: word_less_nat_alt unat_UINT64_MAX_minus not_less)
  moreover have "unat b \<le> 2 ^ 64 - 1"
    by (rule unat64_le)
  ultimately have le: "unat a + unat b \<le> 2 ^ 64 - 1" by linarith
  then have "unat (a + b) = unat a + unat b"
    by (subst unat_add_lem [THEN iffD1]) simp_all
  then show ?thesis using False le by (simp add: usec_add_def min_absorb1)
qed

lemma unat_word_of_int_long:
  "0 \<le> i \<Longrightarrow> i \<le> LONG_MAX \<Longrightarrow> unat (word_of_int i :: 64 word) = nat i"
  by (simp add: LONG_MAX_def unat_eq_nat_uint uint_word_of_int_eq take_bit_int_eq_self)

text \<open>
  \<open>timespec_to_micros\<close> is exact: for a time that is not negative the result is
  the number of whole microseconds, cut off at \<open>USEC_INFINITY\<close> when it does not fit
  64 bits, and a negative component gives \<open>USEC_INFINITY\<close>.
\<close>

theorem timespec_to_micros_correct:
  assumes "timespec_wf ts"
  shows "unat (timespec_to_micros ts) =
    (if tv_sec ts < 0 \<or> tv_nsec ts < 0 then 2 ^ 64 - 1
     else min (nat (tv_sec ts) * 1000000 + nat (tv_nsec ts) div 1000) (2 ^ 64 - 1))"
proof (cases "tv_sec ts < 0 \<or> tv_nsec ts < 0")
  case True
  then show ?thesis by (auto simp: timespec_to_micros_def USEC_INFINITY_def unat_UINT64_MAX)
next
  case False
  define s where "s = (word_of_int (tv_sec ts) :: 64 word)"
  define n where "n = (word_of_int (tv_nsec ts) :: 64 word) div NSEC_PER_USEC"
  have s: "unat s = nat (tv_sec ts)"
    using False assms by (auto simp: s_def timespec_wf_def unat_word_of_int_long)
  have n: "unat n = nat (tv_nsec ts) div 1000"
    using False assms by (auto simp: n_def NSEC_PER_USEC_def timespec_wf_def unat_word_of_int_long unat_div)
  have n_le: "unat n \<le> 2 ^ 64 - 1" by (rule unat64_le)
  have guard: "(UINT64_MAX - n) div USEC_PER_SEC < s \<longleftrightarrow> 2 ^ 64 - 1 < unat s * 1000000 + unat n"
  proof -
    have "unat ((UINT64_MAX - n) div USEC_PER_SEC) = (2 ^ 64 - 1 - unat n) div 1000000"
      by (simp add: unat_div USEC_PER_SEC_def unat_UINT64_MAX_minus)
    then have "\<not> (UINT64_MAX - n) div USEC_PER_SEC < s \<longleftrightarrow> unat s \<le> (2 ^ 64 - 1 - unat n) div 1000000"
      by (simp add: word_less_nat_alt not_less)
    also have "\<dots> \<longleftrightarrow> unat s * 1000000 \<le> 2 ^ 64 - 1 - unat n"
      by (rule less_eq_div_iff_mult_less_eq) simp
    finally show ?thesis using n_le by linarith
  qed
  show ?thesis
  proof (cases "2 ^ 64 - 1 < unat s * 1000000 + unat n")
    case True
    then show ?thesis
      using False guard s n by (simp add: timespec_to_micros_def s_def [symmetric] n_def [symmetric]
          USEC_INFINITY_def unat_UINT64_MAX)
  next
    case fits: False
    have "unat (s * USEC_PER_SEC) = unat s * 1000000"
      using fits by (subst unat_mult_lem [THEN iffD1]) (simp_all add: USEC_PER_SEC_def)
    then have "unat (s * USEC_PER_SEC + n) = unat s * 1000000 + unat n"
      using fits by (subst unat_add_lem [THEN iffD1]) simp_all
    then show ?thesis
      using False fits guard s n by (simp add: timespec_to_micros_def s_def [symmetric] n_def [symmetric])
  qed
qed

theorem timespec_to_micros_witness:
  "timespec_wf \<lparr>tv_sec = 3, tv_nsec = 2500\<rparr> \<and>
   unat (timespec_to_micros \<lparr>tv_sec = 3, tv_nsec = 2500\<rparr>) = 3000002"
proof
  show wf: "timespec_wf \<lparr>tv_sec = 3, tv_nsec = 2500\<rparr>"
    by (simp add: timespec_wf_def LONG_MIN_def LONG_MAX_def)
  show "unat (timespec_to_micros \<lparr>tv_sec = 3, tv_nsec = 2500\<rparr>) = 3000002"
    using timespec_to_micros_correct [OF wf] by simp
qed

lemma event_reset_time_sets:
  assumes "\<forall>c. 0 \<le> ev c" "force \<or> (\<forall>s. src = Some s \<longrightarrow> \<not> es_enabled s)"
    "\<forall>s. src = Some s \<longrightarrow> es_clock s = clock"
  shows "event_reset_time_relative ev now src clock usec d force =
    (0, Some \<lparr>es_clock = clock, es_time = usec_add now usec, es_enabled = True\<rparr>)"
  using assms
  by (auto simp: event_reset_time_relative_def event_reset_time_def Let_def not_less [symmetric]
      split: option.splits)

text \<open>
  \<open>malloc0_array\<close> either refuses or asks for at least the exact number of bytes
  of the header and the array: neither the product nor the sum wraps around.
\<close>

theorem malloc0_array_no_overflow:
  "case malloc0_array base elem n of
     Some sz \<Rightarrow> unat sz = max 1 (unat base + unat elem * unat n)
   | None \<Rightarrow> 2 ^ 64 \<le> unat base + unat elem * unat n"
proof (cases "0 < elem \<and> SIZE_MAX div elem < n")
  case True
  then have "0 < unat elem" "(2 ^ 64 - 1) div unat elem < unat n"
    by (simp_all add: word_less_nat_alt unat_div SIZE_MAX_def flip: UINT64_MAX_def add: unat_UINT64_MAX)
  then have "2 ^ 64 - 1 < unat n * unat elem"
    by (simp add: div_less_iff_less_mult)
  then show ?thesis using True by (simp add: malloc0_array_def mult.commute)
next
  case False
  have "unat elem * unat n \<le> 2 ^ 64 - 1"
  proof (cases "elem = 0")
    case nz: False
    then have "unat n \<le> (2 ^ 64 - 1) div unat elem"
      using False by (simp add: word_less_nat_alt unat_div SIZE_MAX_def unat_gt_0 not_less
          flip: UINT64_MAX_def add: unat_UINT64_MAX)
    then show ?thesis
      using nz less_eq_div_iff_mult_less_eq [of "unat elem" "unat n" "2 ^ 64 - 1"]
      by (simp add: unat_gt_0 mult.commute)
  qed simp
  then have arr: "unat (elem * n) = unat elem * unat n"
    by (subst unat_mult_lem [THEN iffD1]) simp_all
  show ?thesis
  proof (cases "base + elem * n < elem * n")
    case True
    then have "2 ^ 64 \<le> unat base + unat elem * unat n"
      using unat_add_lem [of base "elem * n"] arr by (auto simp: word_less_nat_alt)
    then show ?thesis using False True by (simp add: malloc0_array_def Let_def)
  next
    case fits: False
    let ?t = "base + elem * n"
    have sum: "unat ?t = unat base + unat elem * unat n"
      using fits unat_plus_simple [of "elem * n" base] arr by (simp add: add.commute not_less word_le_nat_alt)
    have r: "malloc0_array base elem n = Some (if ?t = 0 then 1 else ?t)"
      using False fits by (simp add: malloc0_array_def Let_def)
    have "unat (if ?t = 0 then 1 else ?t) = max 1 (unat ?t)"
      by (cases "?t = 0") (simp_all add: unat_gt_0 Suc_le_eq max_absorb2)
    then show ?thesis unfolding r sum by simp
  qed
qed

end
