(* ===== verification/LList.thy ===== *)
theory LList
  imports BC_Prelude
begin

text \<open>
  \<open>libbluechi/common/list.h\<close>: the intrusive doubly linked lists that hold the
  nodes, jobs, monitors, subscriptions and proxies, at the level of their
  pointer fields.  The macros are translated over a heap of \<open>next\<close> and \<open>prev\<close>
  fields and a head pointer; a failed assertion is \<open>None\<close>, and the loops that
  look for an end are partial functions (\<open>None\<close> when they do not end).  The
  interface \<open>intrusive_list\<close> states what the rest of the program relies on, and
  the macros are shown to provide it, which justifies the lists of addresses
  used by the other theories.
\<close>

section \<open>The macros\<close>

record 'a llfields =
  ll_next :: "'a \<Rightarrow> 'a option"
  ll_prev :: "'a \<Rightarrow> 'a option"

text \<open>The fields and the head pointer.\<close>

type_synonym 'a ll = "'a llfields \<times> 'a option"

definition set_next :: "'a \<Rightarrow> 'a option \<Rightarrow> 'a llfields \<Rightarrow> 'a llfields" where
  "set_next x v h = h\<lparr>ll_next := (ll_next h)(x := v)\<rparr>"

definition set_prev :: "'a \<Rightarrow> 'a option \<Rightarrow> 'a llfields \<Rightarrow> 'a llfields" where
  "set_prev x v h = h\<lparr>ll_prev := (ll_prev h)(x := v)\<rparr>"

text \<open>An assignment through a pointer that is tested before.\<close>

definition if_set_prev :: "'a option \<Rightarrow> 'a option \<Rightarrow> 'a llfields \<Rightarrow> 'a llfields" where
  "if_set_prev p v h = (case p of None \<Rightarrow> h | Some x \<Rightarrow> set_prev x v h)"

definition LIST_INIT :: "'a \<Rightarrow> 'a ll \<Rightarrow> 'a ll" where
  "LIST_INIT item l = (set_prev item None (set_next item None (fst l)), snd l)"

definition LIST_PREPEND :: "'a \<Rightarrow> 'a ll \<Rightarrow> 'a ll" where
  "LIST_PREPEND item l =
     (let (h, head) = l;
          h = set_next item head h;
          h = if_set_prev (ll_next h item) (Some item) h;
          h = set_prev item None h
      in (h, Some item))"

partial_function (option) find_tail :: "'a llfields \<Rightarrow> 'a \<Rightarrow> 'a option" where
  "find_tail h item =
     (case ll_next h item of None \<Rightarrow> Some item | Some n \<Rightarrow> find_tail h n)"

definition LIST_FIND_TAIL :: "'a llfields \<Rightarrow> 'a option \<Rightarrow> 'a option option" where
  "LIST_FIND_TAIL h item =
     (case item of None \<Rightarrow> Some None | Some i \<Rightarrow> map_option Some (find_tail h i))"

partial_function (option) find_head :: "'a llfields \<Rightarrow> 'a \<Rightarrow> 'a option" where
  "find_head h item =
     (case ll_prev h item of None \<Rightarrow> Some item | Some n \<Rightarrow> find_head h n)"

definition LIST_FIND_HEAD :: "'a llfields \<Rightarrow> 'a option \<Rightarrow> 'a option option" where
  "LIST_FIND_HEAD h item =
     (case item of None \<Rightarrow> Some None | Some i \<Rightarrow> map_option Some (find_head h i))"

definition LIST_INSERT_AFTER :: "'a option \<Rightarrow> 'a \<Rightarrow> 'a ll \<Rightarrow> 'a ll" where
  "LIST_INSERT_AFTER a b l =
     (let (h, head) = l
      in case a of
           None \<Rightarrow>
             (let h = set_next b head h;
                  h = if_set_prev (ll_next h b) (Some b) h;
                  h = set_prev b None h
              in (h, Some b))
         | Some a \<Rightarrow>
             (let h = set_next b (ll_next h a) h;
                  h = if_set_prev (ll_next h b) (Some b) h;
                  h = set_prev b (Some a) h;
                  h = set_next a (Some b) h
              in (h, head)))"

definition LIST_APPEND :: "'a \<Rightarrow> 'a ll \<Rightarrow> 'a ll option" where
  "LIST_APPEND item l =
     map_option (\<lambda>tail. LIST_INSERT_AFTER tail item l) (LIST_FIND_TAIL (fst l) (snd l))"

definition LIST_REMOVE :: "'a \<Rightarrow> 'a ll \<Rightarrow> 'a ll option" where
  "LIST_REMOVE item l =
     (let (h, head) = l;
          h = if_set_prev (ll_next h item) (ll_prev h item) h;
          clear = (\<lambda>h. set_prev item None (set_next item None h))
      in case ll_prev h item of
           Some p \<Rightarrow> Some (clear (set_next p (ll_next h item) h), head)
         | None \<Rightarrow> if head \<noteq> Some item then None else Some (clear h, ll_next h item))"

definition LIST_INSERT_BEFORE :: "'a option \<Rightarrow> 'a \<Rightarrow> 'a ll \<Rightarrow> 'a ll option" where
  "LIST_INSERT_BEFORE a b l =
     (let (h, head) = l
      in case a of
           None \<Rightarrow>
             (case head of
                None \<Rightarrow> Some (set_prev b None (set_next b None h), Some b)
              | Some t \<Rightarrow>
                  map_option (\<lambda>tail. (set_next tail (Some b) (set_prev b (Some tail)
                      (set_next b None h)), head)) (find_tail h t))
         | Some a \<Rightarrow>
             (let h = set_prev b (ll_prev h a) h;
                  (h, head) = (case ll_prev h b of
                      Some p \<Rightarrow> (set_next p (Some b) h, head) | None \<Rightarrow> (h, Some b));
                  h = set_next b (Some a) h;
                  h = set_prev a (Some b) h
              in Some (h, head)))"

definition LIST_IS_EMPTY :: "'a ll \<Rightarrow> bool" where
  "LIST_IS_EMPTY l = (snd l = None)"

definition LIST_POP :: "'a ll \<Rightarrow> ('a option \<times> 'a ll) option" where
  "LIST_POP l =
     (case snd l of
        None \<Rightarrow> Some (None, l)
      | Some p \<Rightarrow> map_option (\<lambda>l'. (Some p, l')) (LIST_REMOVE p l))"

text \<open>The items a \<open>LIST_FOREACH\<close> visits, in order.\<close>

partial_function (option) foreach_from :: "'a llfields \<Rightarrow> 'a option \<Rightarrow> 'a list option" where
  "foreach_from h i =
     (case i of None \<Rightarrow> Some []
      | Some x \<Rightarrow> Option.bind (foreach_from h (ll_next h x)) (\<lambda>xs. Some (x # xs)))"

definition LIST_FOREACH :: "'a ll \<Rightarrow> 'a list option" where
  "LIST_FOREACH l = foreach_from (fst l) (snd l)"

text \<open>A list segment from \<open>a\<close> (whose predecessor is \<open>p\<close>) over \<open>xs\<close> to the last item
  \<open>l\<close>, followed by \<open>b\<close>.\<close>

fun dseg :: "'a llfields \<Rightarrow> 'a option \<Rightarrow> 'a option \<Rightarrow> 'a list \<Rightarrow> 'a option \<Rightarrow> 'a option \<Rightarrow> bool" where
  "dseg h p a [] l b = (a = b \<and> l = p)"
| "dseg h p a (x # xs) l b = (a = Some x \<and> ll_prev h x = p \<and> dseg h (Some x) (ll_next h x) xs l b)"

definition is_list :: "'a ll \<Rightarrow> 'a list \<Rightarrow> bool" where
  "is_list l xs = (distinct xs \<and> (\<exists>t. dseg (fst l) None (snd l) xs t None))"

definition unlinked :: "'a ll \<Rightarrow> 'a \<Rightarrow> bool" where
  "unlinked l x = (ll_next (fst l) x = None \<and> ll_prev (fst l) x = None \<and> snd l \<noteq> Some x)"

section \<open>Segments\<close>

lemma set_next_simps [simp]:
  "ll_next (set_next x v h) = (ll_next h)(x := v)" "ll_prev (set_next x v h) = ll_prev h"
  "ll_next (set_prev x v h) = ll_next h" "ll_prev (set_prev x v h) = (ll_prev h)(x := v)"
  by (simp_all add: set_next_def set_prev_def)

lemma if_set_prev_simps [simp]:
  "if_set_prev None v h = h" "if_set_prev (Some x) v h = set_prev x v h"
  "ll_next (if_set_prev q v h) = ll_next h"
  by (simp_all add: if_set_prev_def split: option.split)

lemma dseg_append:
  "dseg h p a (xs @ ys) l b \<longleftrightarrow> (\<exists>m c. dseg h p a xs m c \<and> dseg h m c ys l b)"
  by (induction xs arbitrary: p a) auto

lemma dseg_cong:
  "(\<And>x. x \<in> set xs \<Longrightarrow> ll_next h' x = ll_next h x \<and> ll_prev h' x = ll_prev h x) \<Longrightarrow>
   dseg h' p a xs l b = dseg h p a xs l b"
  by (induction xs arbitrary: p a) auto

lemma dseg_set_other [simp]:
  "x \<notin> set xs \<Longrightarrow> dseg (set_next x v h) p a xs l b = dseg h p a xs l b"
  "x \<notin> set xs \<Longrightarrow> dseg (set_prev x v h) p a xs l b = dseg h p a xs l b"
  by (rule dseg_cong; auto)+

lemma dseg_snocD:
  "dseg h p a (xs @ [x]) l b \<longleftrightarrow> l = Some x \<and> ll_next h x = b \<and> dseg h p a xs (ll_prev h x) (Some x)"
  by (auto simp: dseg_append)

lemma dseg_nil_start: "dseg h p a xs l b \<Longrightarrow> xs = [] \<Longrightarrow> a = b \<and> l = p"
  by simp

lemma dseg_first: "dseg h p a xs l b \<Longrightarrow> xs \<noteq> [] \<Longrightarrow> a = Some (hd xs)"
  by (cases xs) auto

lemma dseg_last: "dseg h p a xs l b \<Longrightarrow> xs \<noteq> [] \<Longrightarrow> l = Some (last xs)"
  by (cases xs rule: rev_cases) (auto simp: dseg_snocD)

text \<open>Redirecting the two ends of a segment.\<close>

lemma dseg_redirect_end:
  "dseg h p a (xs @ [x]) l b \<Longrightarrow> x \<notin> set xs \<Longrightarrow> dseg (set_next x c h) p a (xs @ [x]) (Some x) c"
  by (auto simp: dseg_append)

lemma dseg_redirect_start:
  "dseg h p a (x # xs) l b \<Longrightarrow> x \<notin> set xs \<Longrightarrow> dseg (set_prev x q h) q (Some x) (x # xs) l b"
  by auto

lemma find_tail_dseg:
  "dseg h p (Some x) (x # xs) l None \<Longrightarrow> find_tail h x = Some (last (x # xs))"
proof (induction xs arbitrary: p x)
  case Nil
  then show ?case by (subst find_tail.simps) simp
next
  case (Cons y xs)
  then show ?case by (subst find_tail.simps) simp
qed

lemma find_head_dseg:
  "dseg h None a (xs @ [x]) l b \<Longrightarrow> find_head h x = Some (hd (xs @ [x]))"
proof (induction xs arbitrary: x l b rule: rev_induct)
  case Nil
  then show ?case by (subst find_head.simps) (simp add: dseg_snocD)
next
  case (snoc y xs)
  have "dseg h None a (xs @ [y]) (ll_prev h x) (Some x)"
    using snoc.prems by (simp only: dseg_snocD)
  moreover from this have "ll_prev h x = Some y" by (simp only: dseg_snocD)
  ultimately have "dseg h None a (xs @ [y]) (Some y) (Some x)" "ll_prev h x = Some y" by simp_all
  then show ?case using snoc.IH by (subst find_head.simps) (simp add: hd_append)
qed

lemma foreach_dseg: "dseg h p a xs l None \<Longrightarrow> foreach_from h a = Some xs"
proof (induction xs arbitrary: p a)
  case Nil
  then show ?case by (subst foreach_from.simps) simp
next
  case (Cons x xs)
  then show ?case by (subst foreach_from.simps) auto
qed

section \<open>The macros on list segments\<close>

lemma LIST_APPEND_is_list:
  assumes l: "is_list l xs" and x: "x \<notin> set xs"
  shows "\<exists>l'. LIST_APPEND x l = Some l' \<and> is_list l' (xs @ [x])"
proof -
  obtain h head where lp: "l = (h, head)" by fastforce
  from l obtain t where seg: "dseg h None head xs t None" and d: "distinct xs"
    by (auto simp: is_list_def lp)
  show ?thesis
  proof (cases xs rule: rev_cases)
    case Nil
    then have "head = None" using seg by simp
    then show ?thesis
      by (auto simp: LIST_APPEND_def LIST_FIND_TAIL_def LIST_INSERT_AFTER_def lp is_list_def Nil Let_def)
  next
    case (snoc ys y)
    obtain z where head: "head = Some z" "xs = z # tl xs"
      using dseg_first [OF seg] snoc by (cases xs) auto
    have tail: "find_tail h z = Some y"
      using find_tail_dseg [of h None z "tl xs" t] seg unfolding head(1) head(2) [symmetric]
      by (simp add: snoc)
    have yn: "ll_next h y = None" using seg by (simp add: snoc dseg_snocD)
    let ?h = "set_next y (Some x) (set_prev x (Some y) (set_next x None h))"
    have app: "LIST_APPEND x l = Some (?h, head)"
      by (simp add: LIST_APPEND_def LIST_FIND_TAIL_def LIST_INSERT_AFTER_def lp head(1) tail yn Let_def)
    have "dseg (set_prev x (Some y) (set_next x None h)) None head (ys @ [y]) t None"
      using seg x by (simp add: snoc)
    then have "dseg ?h None head (ys @ [y]) (Some y) (Some x)"
      by (rule dseg_redirect_end) (use d snoc in auto)
    then have "dseg ?h None head (xs @ [x]) (Some x) None"
      using x snoc by (auto simp: dseg_append)
    then show ?thesis using app x d by (auto simp: is_list_def)
  qed
qed

lemma LIST_PREPEND_is_list:
  assumes l: "is_list l xs" and x: "x \<notin> set xs"
  shows "is_list (LIST_PREPEND x l) (x # xs)"
proof -
  obtain h head where lp: "l = (h, head)" by fastforce
  from l obtain t where seg: "dseg h None head xs t None" and d: "distinct xs"
    by (auto simp: is_list_def lp)
  show ?thesis
  proof (cases xs)
    case Nil
    then show ?thesis using seg by (auto simp: LIST_PREPEND_def lp is_list_def Let_def)
  next
    case (Cons y ys)
    let ?h = "set_prev y (Some x) (set_next x (Some y) h)"
    have "dseg (set_next x (Some y) h) None head (y # ys) t None"
      using seg x Cons by (metis dseg_set_other(1))
    then have "dseg ?h (Some x) (Some y) (y # ys) t None"
      by (rule dseg_redirect_start) (use d Cons in auto)
    then have "dseg (set_prev x None ?h) (Some x) (Some y) xs t None"
      using x Cons by (metis dseg_set_other(2))
    moreover have "LIST_PREPEND x l = (set_prev x None ?h, Some x)"
      using dseg_first [OF seg] by (simp add: LIST_PREPEND_def lp Let_def Cons)
    ultimately show ?thesis
      using x d Cons by (auto simp: is_list_def)
  qed
qed

lemma LIST_REMOVE_is_list:
  assumes l: "is_list l xs" and x: "x \<in> set xs"
  shows "\<exists>l'. LIST_REMOVE x l = Some l' \<and> is_list l' (remove1 x xs) \<and> unlinked l' x"
proof -
  obtain h head where lp: "l = (h, head)" by fastforce
  from x obtain ys zs where xs: "xs = ys @ x # zs" by (meson split_list)
  from l obtain t m where d: "distinct xs" and
    L: "dseg h None head ys m (Some x)" and px: "ll_prev h x = m" and
    R: "dseg h (Some x) (ll_next h x) zs t None"
    by (auto simp: is_list_def lp xs dseg_append)
  have nin: "x \<notin> set ys" "x \<notin> set zs" "distinct ys" "distinct zs" "set ys \<inter> set zs = {}"
    using d xs by auto
  have rem: "remove1 x xs = ys @ zs" using nin(1) by (simp add: xs remove1_append)
  let ?n = "ll_next h x"
  define h1 where "h1 = if_set_prev ?n m h"
  have R1: "\<exists>t'. dseg h1 m ?n zs t' None"
  proof (cases zs)
    case (Cons z zs')
    then have "?n = Some z" using R by simp
    then show ?thesis
      using dseg_redirect_start [of h "Some x" ?n z zs' t None m] R Cons nin(4) by (auto simp: h1_def)
  qed (use R in \<open>auto simp: h1_def\<close>)
  have n_notin: "?n \<noteq> Some y" if "y \<in> set ys \<or> y = x" for y
    using that R nin by (cases zs) auto
  have L1: "dseg h1 None head ys m (Some x)"
  proof (cases ?n)
    case (Some a)
    then have "a \<notin> set ys" using n_notin by blast
    then show ?thesis using L Some by (simp add: h1_def)
  qed (use L in \<open>simp add: h1_def\<close>)
  have keep: "ll_next h1 = ll_next h" "ll_prev h1 x = m"
    using px n_notin [of x] by (cases ?n; auto simp: h1_def)+
  let ?clear = "\<lambda>h. set_prev x None (set_next x None h)"
  show ?thesis
  proof (cases ys rule: rev_cases)
    case Nil
    then have "head = Some x" "m = None" using L by auto
    then have r: "LIST_REMOVE x l = Some (?clear h1, ?n)"
      using px keep by (simp add: LIST_REMOVE_def lp Let_def h1_def)
    have "is_list (?clear h1, ?n) (remove1 x xs)"
      using R1 nin \<open>m = None\<close> by (auto simp: is_list_def rem Nil)
    moreover have "unlinked (?clear h1, ?n) x" using n_notin [of x] by (simp add: unlinked_def)
    ultimately show ?thesis using r by blast
  next
    case (snoc ws w)
    then have m: "m = Some w" using dseg_last [OF L] by simp
    let ?h2 = "set_next w ?n h1"
    have r: "LIST_REMOVE x l = Some (?clear ?h2, head)"
      using px keep m by (simp add: LIST_REMOVE_def lp Let_def h1_def)
    have "dseg ?h2 None head ys (Some w) ?n"
      using dseg_redirect_end [of h1 None head ws w m "Some x" ?n] L1 snoc nin(3) by auto
    moreover have "\<exists>t'. dseg ?h2 (Some w) ?n zs t' None"
      using R1 m nin(5) snoc by auto
    ultimately have "\<exists>t'. dseg ?h2 None head (ys @ zs) t' None"
      by (auto simp: dseg_append)
    then have "is_list (?clear ?h2, head) (remove1 x xs)"
      using nin by (auto simp: is_list_def rem)
    moreover have "head \<noteq> Some x"
      using dseg_first [OF L] snoc nin(1) by (metis hd_in_set option.inject snoc_eq_iff_butlast)
    ultimately show ?thesis using r by (auto simp: unlinked_def)
  qed
qed

lemma LIST_REMOVE_unlinked: "unlinked l x \<Longrightarrow> LIST_REMOVE x l = None"
  by (cases l) (auto simp: unlinked_def LIST_REMOVE_def Let_def)

lemma LIST_INIT_is_list: "is_list l xs \<Longrightarrow> x \<notin> set xs \<Longrightarrow> is_list (LIST_INIT x l) xs \<and> unlinked (LIST_INIT x l) x"
proof -
  assume l: "is_list l xs" and x: "x \<notin> set xs"
  then have "snd l \<noteq> Some x"
    using dseg_first [of "fst l" None "snd l" xs _ None] by (cases xs) (auto simp: is_list_def)
  then show ?thesis
    using l x by (auto simp: LIST_INIT_def is_list_def unlinked_def)
qed

lemma LIST_FOREACH_is_list: "is_list l xs \<Longrightarrow> LIST_FOREACH l = Some xs"
  by (auto simp: is_list_def LIST_FOREACH_def foreach_dseg)

lemma LIST_IS_EMPTY_is_list: "is_list l xs \<Longrightarrow> LIST_IS_EMPTY l \<longleftrightarrow> xs = []"
  by (cases xs) (auto simp: is_list_def LIST_IS_EMPTY_def)

lemma LIST_INSERT_BEFORE_end:
  "a = None \<Longrightarrow> is_list l xs \<Longrightarrow> x \<notin> set xs \<Longrightarrow> ll_next (fst l) x = None \<Longrightarrow>
   \<exists>l'. LIST_INSERT_BEFORE a x l = Some l' \<and> is_list l' (xs @ [x])"
proof -
  assume a: "a = None" and l: "is_list l xs" and x: "x \<notin> set xs" and n: "ll_next (fst l) x = None"
  have "LIST_INSERT_BEFORE a x l = LIST_APPEND x l"
  proof (cases "snd l")
    case None
    then show ?thesis
      by (cases l) (simp add: a LIST_INSERT_BEFORE_def LIST_APPEND_def LIST_FIND_TAIL_def
          LIST_INSERT_AFTER_def Let_def)
  next
    case (Some t)
    have last: "ll_next (fst l) y = None" if "find_tail (fst l) t = Some y" for y
    proof -
      obtain q where seg: "dseg (fst l) None (Some t) xs q None" using l Some by (auto simp: is_list_def)
      then obtain ys where ys: "xs = t # ys" by (cases xs) auto
      then have "find_tail (fst l) t = Some (last xs)" using find_tail_dseg [of "fst l" None t ys q] seg by simp
      then have "y = last xs" using that by simp
      then show ?thesis
        using seg ys dseg_snocD [of "fst l" None "Some t" "butlast xs" "last xs" q None]
        by (metis append_butlast_last_id list.discI)
    qed
    show ?thesis
      using Some last by (cases l) (auto simp: a LIST_INSERT_BEFORE_def LIST_APPEND_def LIST_FIND_TAIL_def
          LIST_INSERT_AFTER_def Let_def option.map_comp comp_def intro: map_option_cong)
  qed
  then show ?thesis using LIST_APPEND_is_list [OF l x] by simp
qed

section \<open>The interface\<close>

text \<open>Operations on an abstract list, as the callers see them.\<close>

datatype 'a list_op = Add 'a | Del 'a

fun abs_op :: "'a list_op \<Rightarrow> 'a list \<Rightarrow> 'a list option" where
  "abs_op (Add x) xs = (if x \<in> set xs then None else Some (xs @ [x]))"
| "abs_op (Del x) xs = list_remove x xs"

fun run_op :: "('a \<Rightarrow> 'l \<Rightarrow> 'l option) \<Rightarrow> ('a \<Rightarrow> 'l \<Rightarrow> 'l option) \<Rightarrow> 'a list_op \<Rightarrow> 'l \<Rightarrow> 'l option" where
  "run_op app rem (Add x) = app x"
| "run_op app rem (Del x) = rem x"

locale intrusive_list =
  fixes lists :: "'l \<Rightarrow> 'a list \<Rightarrow> bool"
    and free :: "'l \<Rightarrow> 'a \<Rightarrow> bool"
    and app :: "'a \<Rightarrow> 'l \<Rightarrow> 'l option"
    and rem :: "'a \<Rightarrow> 'l \<Rightarrow> 'l option"
    and walk :: "'l \<Rightarrow> 'a list option"
    and none_left :: "'l \<Rightarrow> bool"
  assumes app_law: "lists l xs \<Longrightarrow> x \<notin> set xs \<Longrightarrow> \<exists>l'. app x l = Some l' \<and> lists l' (xs @ [x])"
    and rem_law: "lists l xs \<Longrightarrow> x \<in> set xs \<Longrightarrow> \<exists>l'. rem x l = Some l' \<and> lists l' (remove1 x xs) \<and> free l' x"
    and rem_free_law: "free l x \<Longrightarrow> rem x l = None"
    and walk_law: "lists l xs \<Longrightarrow> walk l = Some xs"
    and none_left_law: "lists l xs \<Longrightarrow> none_left l \<longleftrightarrow> xs = []"
begin

lemma lists_functional: "lists l xs \<Longrightarrow> lists l ys \<Longrightarrow> xs = ys"
  by (metis option.inject walk_law)

lemma remove_twice_aborts:
  "lists l xs \<Longrightarrow> x \<in> set xs \<Longrightarrow> Option.bind (rem x l) (rem x) = None"
  using rem_law rem_free_law by fastforce

lemma op_refines:
  assumes "lists l xs" "abs_op op xs = Some ys"
  shows "\<exists>l'. run_op app rem op l = Some l' \<and> lists l' ys"
proof (cases op)
  case (Add x)
  then show ?thesis using assms app_law by (auto split: if_splits)
next
  case (Del x)
  then show ?thesis using assms rem_law by (fastforce simp: list_remove_Some_iff)
qed

lemma ops_refine:
  "lists l xs \<Longrightarrow> foldo abs_op ops xs = Some ys \<Longrightarrow>
   \<exists>l'. foldo (run_op app rem) ops l = Some l' \<and> lists l' ys \<and> walk l' = Some ys"
proof (induction ops arbitrary: l xs)
  case Nil
  then show ?case using walk_law by auto
next
  case (Cons op ops)
  then obtain zs where "abs_op op xs = Some zs" "foldo abs_op ops zs = Some ys"
    by (auto simp: bind_eq_Some_conv)
  then show ?case using op_refines [OF Cons.prems(1)] Cons.IH by fastforce
qed

lemma drain: "lists l xs \<Longrightarrow> \<exists>l'. foldo rem xs l = Some l' \<and> none_left l'"
proof (induction xs arbitrary: l)
  case Nil
  then show ?case using none_left_law by auto
next
  case (Cons x xs)
  then obtain l' where "rem x l = Some l'" "lists l' xs"
    using rem_law [of l "x # xs" x] by auto
  then show ?case using Cons.IH by auto
qed

end

interpretation llist: intrusive_list is_list unlinked LIST_APPEND LIST_REMOVE LIST_FOREACH LIST_IS_EMPTY
proof (standard, goal_cases)
  case 1 then show ?case by (rule LIST_APPEND_is_list)
next
  case 2 then show ?case by (rule LIST_REMOVE_is_list)
next
  case 3 then show ?case by (rule LIST_REMOVE_unlinked)
next
  case 4 then show ?case by (rule LIST_FOREACH_is_list)
next
  case 5 then show ?case by (rule LIST_IS_EMPTY_is_list)
qed



text \<open>
  Removing an item from a list it is in succeeds and unlinks it; removing it a
  second time fails the assertion of \<open>LIST_REMOVE\<close> and aborts the program.
\<close>

theorem list_remove_once:
  assumes "is_list l xs" "x \<in> set xs"
  shows "(\<exists>l'. LIST_REMOVE x l = Some l' \<and> is_list l' (remove1 x xs)) \<and>
    Option.bind (LIST_REMOVE x l) (LIST_REMOVE x) = None"
  using llist.remove_twice_aborts [OF assms] LIST_REMOVE_is_list [OF assms] by blast

theorem list_remove_once_witness:
  "Option.bind (LIST_REMOVE 7 (\<lparr>ll_next = \<lambda>_. None, ll_prev = \<lambda>_. None\<rparr>, Some (7::nat)))
     (LIST_REMOVE 7) = None"
  using list_remove_once [of "(\<lparr>ll_next = \<lambda>_. None, ll_prev = \<lambda>_. None\<rparr>, Some (7::nat))" "[7]" 7]
  by (simp add: is_list_def)

end
