(* ===== verification/Log.thy ===== *)
theory Log
  imports StringUtil
begin

text \<open>Log levels and their names (\<open>libbluechi/log/log.c\<close>, \<open>log.h\<close>).  The enumeration has
  no negative member, so its values are unsigned 32-bit numbers.\<close>

type_synonym LogLevel = "32 word"

definition LOG_LEVEL_DEBUG :: LogLevel where "LOG_LEVEL_DEBUG = 0"
definition LOG_LEVEL_INFO :: LogLevel where "LOG_LEVEL_INFO = 1"
definition LOG_LEVEL_WARN :: LogLevel where "LOG_LEVEL_WARN = 2"
definition LOG_LEVEL_ERROR :: LogLevel where "LOG_LEVEL_ERROR = 3"
definition LOG_LEVEL_INVALID :: LogLevel where "LOG_LEVEL_INVALID = 4"

lemmas log_level_defs =
  LOG_LEVEL_DEBUG_def LOG_LEVEL_INFO_def LOG_LEVEL_WARN_def LOG_LEVEL_ERROR_def LOG_LEVEL_INVALID_def

definition BC_LOG_TARGET_JOURNALD :: string where "BC_LOG_TARGET_JOURNALD = ''journald''"
definition BC_LOG_TARGET_STDERR :: string where "BC_LOG_TARGET_STDERR = ''stderr''"
definition BC_LOG_TARGET_STDERR_FULL :: string where "BC_LOG_TARGET_STDERR_FULL = ''stderr-full''"

definition NUM_LOGLEVEL :: "32 word" where "NUM_LOGLEVEL = 5"

definition log_level_strings :: "string list" where
  "log_level_strings = [''DEBUG'', ''INFO'', ''WARN'', ''ERROR'', ''INVALID'']"

definition log_level_to_string :: "LogLevel \<Rightarrow> string" where
  "log_level_to_string l =
     (if l > NUM_LOGLEVEL - 1 then log_level_strings ! unat LOG_LEVEL_INVALID
      else log_level_strings ! unat l)"

definition string_to_log_level :: "cstring \<Rightarrow> LogLevel" where
  "string_to_log_level s =
     (case s of None \<Rightarrow> LOG_LEVEL_INVALID
      | Some l \<Rightarrow>
         if log_level_strings ! 0 = l then LOG_LEVEL_DEBUG
         else if log_level_strings ! 1 = l then LOG_LEVEL_INFO
         else if log_level_strings ! 2 = l then LOG_LEVEL_WARN
         else if log_level_strings ! 3 = l then LOG_LEVEL_ERROR
         else LOG_LEVEL_INVALID)"

text \<open>The priorities of \<open>syslog.h\<close>: 7 is \<open>LOG_DEBUG\<close>, 6 \<open>LOG_INFO\<close>, 4 \<open>LOG_WARNING\<close>,
  3 \<open>LOG_ERR\<close>.\<close>

definition log_level_syslog :: "int list" where
  "log_level_syslog = [7, 6, 4, 3]"

definition log_level_to_syslog :: "LogLevel \<Rightarrow> int" where
  "log_level_to_syslog lvl = (let l = (if lvl > LOG_LEVEL_ERROR then LOG_LEVEL_ERROR else lvl) in log_level_syslog ! unat l)"

definition valid_log_level :: "LogLevel \<Rightarrow> bool" where
  "valid_log_level l = (l < LOG_LEVEL_INVALID)"

lemma valid_log_level_cases:
  assumes "valid_log_level l"
  obtains "l = 0" | "l = 1" | "l = 2" | "l = 3"
proof -
  have "unat l < 4" using assms by (simp add: valid_log_level_def log_level_defs word_less_nat_alt)
  then consider "unat l = 0" | "unat l = 1" | "unat l = 2" | "unat l = 3" by linarith
  then show ?thesis
    by cases (auto intro: that simp: word_unat_eq_iff)
qed

lemma log_level_strings_nth:
  "log_level_to_string 0 = ''DEBUG''" "log_level_to_string 1 = ''INFO''"
  "log_level_to_string 2 = ''WARN''" "log_level_to_string 3 = ''ERROR''"
  by code_simp+

interpretation log_table: string_table log_level_to_string "\<lambda>s. string_to_log_level (Some s)"
  valid_log_level LOG_LEVEL_INVALID
proof unfold_locales
  fix l assume "valid_log_level l"
  then show "string_to_log_level (Some (log_level_to_string l)) = l"
    by (cases rule: valid_log_level_cases)
       (simp_all add: log_level_strings_nth string_to_log_level_def log_level_strings_def log_level_defs)
next
  fix s assume *: "\<And>l. valid_log_level l \<Longrightarrow> log_level_to_string l \<noteq> s"
  have "valid_log_level 0" "valid_log_level 1" "valid_log_level 2" "valid_log_level 3" by code_simp+
  then have "s \<noteq> ''DEBUG''" "s \<noteq> ''INFO''" "s \<noteq> ''WARN''" "s \<noteq> ''ERROR''"
    using * log_level_strings_nth by metis+
  then show "string_to_log_level (Some s) = LOG_LEVEL_INVALID"
    by (auto simp: string_to_log_level_def log_level_strings_def)
next
  show "\<not> valid_log_level LOG_LEVEL_INVALID" by (simp add: valid_log_level_def)
qed

lemma log_level_to_syslog_bounds: "3 \<le> log_level_to_syslog l \<and> log_level_to_syslog l \<le> 7"
proof (cases "l > LOG_LEVEL_ERROR")
  case True
  then show ?thesis by (simp add: log_level_to_syslog_def log_level_syslog_def LOG_LEVEL_ERROR_def)
next
  case False
  then have "unat l < 4" by (simp add: LOG_LEVEL_ERROR_def word_less_nat_alt)
  then have "log_level_to_syslog l \<in> {7, 6, 4, 3}" using False
    by (auto simp: log_level_to_syslog_def log_level_syslog_def less_Suc_eq numeral_eq_Suc)
  then show ?thesis by auto
qed

end
