(* ===== verification/Cfg.thy ===== *)
theory Cfg
  imports Log "HOL-Library.List_Lexorder"
begin

text \<open>The configuration store and its sources (\<open>libbluechi/common/cfg.c\<close>, \<open>cfg.h\<close>, defaults
  in \<open>protocol.h\<close>).  The hash map of options is an association list keyed by section and
  name; a stored option may have no value.  What the operating system, the ini parser
  and the hash map library do is a parameter.\<close>

section \<open>Option names and defaults\<close>

definition CFG_LOG_LEVEL :: string where "CFG_LOG_LEVEL = ''LogLevel''"
definition CFG_LOG_TARGET :: string where "CFG_LOG_TARGET = ''LogTarget''"
definition CFG_LOG_IS_QUIET :: string where "CFG_LOG_IS_QUIET = ''LogIsQuiet''"
definition CFG_CONTROLLER_USE_TCP :: string where "CFG_CONTROLLER_USE_TCP = ''UseTCP''"
definition CFG_CONTROLLER_USE_UDS :: string where "CFG_CONTROLLER_USE_UDS = ''UseUDS''"
definition CFG_CONTROLLER_HOST :: string where "CFG_CONTROLLER_HOST = ''ControllerHost''"
definition CFG_CONTROLLER_PORT :: string where "CFG_CONTROLLER_PORT = ''ControllerPort''"
definition CFG_CONTROLLER_ADDRESS :: string where "CFG_CONTROLLER_ADDRESS = ''ControllerAddress''"
definition CFG_ALLOWED :: string where "CFG_ALLOWED = ''Allowed''"
definition CFG_REQUIRED_SELINUX_CONTEXT :: string where "CFG_REQUIRED_SELINUX_CONTEXT = ''RequiredSelinuxContext''"
definition CFG_ALLOW_DEPENDENCIES_ON :: string where "CFG_ALLOW_DEPENDENCIES_ON = ''AllowDependenciesOn''"
definition CFG_NODE_NAME :: string where "CFG_NODE_NAME = ''NodeName''"
definition CFG_ALLOWED_NODE_NAMES :: string where "CFG_ALLOWED_NODE_NAMES = ''AllowedNodeNames''"
definition CFG_HEARTBEAT_INTERVAL :: string where "CFG_HEARTBEAT_INTERVAL = ''HeartbeatInterval''"
definition CFG_NODE_HEARTBEAT_THRESHOLD :: string where "CFG_NODE_HEARTBEAT_THRESHOLD = ''NodeHeartbeatThreshold''"
definition CFG_CONTROLLER_HEARTBEAT_THRESHOLD :: string where
  "CFG_CONTROLLER_HEARTBEAT_THRESHOLD = ''ControllerHeartbeatThreshold''"
definition CFG_IP_RECEIVE_ERRORS :: string where "CFG_IP_RECEIVE_ERRORS = ''IPReceiveErrors''"
definition CFG_TCP_KEEPALIVE_TIME :: string where "CFG_TCP_KEEPALIVE_TIME = ''TCPKeepAliveTime''"
definition CFG_TCP_KEEPALIVE_INTERVAL :: string where "CFG_TCP_KEEPALIVE_INTERVAL = ''TCPKeepAliveInterval''"
definition CFG_TCP_KEEPALIVE_COUNT :: string where "CFG_TCP_KEEPALIVE_COUNT = ''TCPKeepAliveCount''"
definition CFG_CONNECTION_RETRY_COUNT_UNTIL_QUIET :: string where
  "CFG_CONNECTION_RETRY_COUNT_UNTIL_QUIET = ''ConnectionRetryCountUntilQuiet''"

definition CFG_SECT_GLOBAL :: string where "CFG_SECT_GLOBAL = []"
definition CFG_SECT_BLUECHI :: string where "CFG_SECT_BLUECHI = ''bluechi-controller''"
definition CFG_SECT_NODE_PREFIX :: string where "CFG_SECT_NODE_PREFIX = ''node ''"
definition CFG_SECT_AGENT :: string where "CFG_SECT_AGENT = ''bluechi-agent''"

lemmas cfg_names =
  CFG_LOG_LEVEL_def CFG_LOG_TARGET_def CFG_LOG_IS_QUIET_def CFG_CONTROLLER_USE_TCP_def
  CFG_CONTROLLER_USE_UDS_def CFG_CONTROLLER_HOST_def CFG_CONTROLLER_PORT_def CFG_CONTROLLER_ADDRESS_def
  CFG_ALLOWED_def CFG_REQUIRED_SELINUX_CONTEXT_def CFG_ALLOW_DEPENDENCIES_ON_def CFG_NODE_NAME_def
  CFG_ALLOWED_NODE_NAMES_def CFG_HEARTBEAT_INTERVAL_def CFG_NODE_HEARTBEAT_THRESHOLD_def
  CFG_CONTROLLER_HEARTBEAT_THRESHOLD_def CFG_IP_RECEIVE_ERRORS_def CFG_TCP_KEEPALIVE_TIME_def
  CFG_TCP_KEEPALIVE_INTERVAL_def CFG_TCP_KEEPALIVE_COUNT_def CFG_CONNECTION_RETRY_COUNT_UNTIL_QUIET_def

definition CONTROLLER_DEFAULT_USE_TCP :: string where "CONTROLLER_DEFAULT_USE_TCP = ''true''"
definition CONTROLLER_DEFAULT_USE_UDS :: string where "CONTROLLER_DEFAULT_USE_UDS = ''true''"
definition BC_DEFAULT_PORT :: string where "BC_DEFAULT_PORT = ''842''"
definition BC_DEFAULT_HOST :: string where "BC_DEFAULT_HOST = ''127.0.0.1''"
definition BC_DEFAULT_TCP_KEEPALIVE_TIME :: string where "BC_DEFAULT_TCP_KEEPALIVE_TIME = ''1''"
definition BC_DEFAULT_TCP_KEEPALIVE_INTERVAL :: string where "BC_DEFAULT_TCP_KEEPALIVE_INTERVAL = ''1''"
definition BC_DEFAULT_TCP_KEEPALIVE_COUNT :: string where "BC_DEFAULT_TCP_KEEPALIVE_COUNT = ''6''"
definition BC_DEFAULT_IP_RECEIVE_ERROR :: string where "BC_DEFAULT_IP_RECEIVE_ERROR = ''true''"
definition AGENT_DEFAULT_HEARTBEAT_INTERVAL_MSEC :: string where "AGENT_DEFAULT_HEARTBEAT_INTERVAL_MSEC = ''2000''"
definition AGENT_DEFAULT_CONTROLLER_HEARTBEAT_THRESHOLD_MSEC :: string where
  "AGENT_DEFAULT_CONTROLLER_HEARTBEAT_THRESHOLD_MSEC = ''0''"
definition CONTROLLER_DEFAULT_HEARTBEAT_INTERVAL_MSEC :: string where "CONTROLLER_DEFAULT_HEARTBEAT_INTERVAL_MSEC = ''0''"
definition CONTROLLER_DEFAULT_NODE_HEARTBEAT_THRESHOLD_MSEC :: string where
  "CONTROLLER_DEFAULT_NODE_HEARTBEAT_THRESHOLD_MSEC = ''6000''"
definition AGENT_DEFAULT_CONNECTION_RETRY_COUNT_UNTIL_QUIET :: string where
  "AGENT_DEFAULT_CONNECTION_RETRY_COUNT_UNTIL_QUIET = ''10''"

section \<open>The store\<close>

type_synonym cfg_key = "string \<times> string"

record config =
  cfg_store :: "(cfg_key, cstring) hmap"
  default_section :: string

text \<open>What the code gets from outside: whether memory for an option can be had, the
  order in which a hash map is iterated, files and directories (a result of \<open>access\<close>
  is 0 or the errno, a directory is listed in the order of \<open>alphasort\<close>), the ini parser,
  the environment and the host name.\<close>

type_synonym ini_handler = "string \<Rightarrow> string \<Rightarrow> string \<Rightarrow> config \<Rightarrow> int \<times> config"

record cfg_env =
  ce_nomem :: "string \<Rightarrow> string \<Rightarrow> bool"
  ce_iter :: "(cfg_key, cstring) hmap \<Rightarrow> (cfg_key, cstring) hmap"
  ce_iter_sections :: "string list \<Rightarrow> string list"
  ce_access_r :: "string \<Rightarrow> int"
  ce_access_f :: "string \<Rightarrow> int"
  ce_readdir :: "string \<Rightarrow> int + string list"
  ini_parse :: "string \<Rightarrow> ini_handler \<Rightarrow> config \<Rightarrow> int \<times> config"
  ce_getenv :: "string \<Rightarrow> cstring"
  ce_hostname :: cstring

definition cfg_initialize :: config where
  "cfg_initialize = \<lparr>cfg_store = [], default_section = CFG_SECT_GLOBAL\<rparr>"

definition cfg_s_get_value :: "config \<Rightarrow> string \<Rightarrow> string \<Rightarrow> cstring" where
  "cfg_s_get_value c s n = (case map_of (cfg_store c) (s, n) of None \<Rightarrow> None | Some v \<Rightarrow> v)"

definition cfg_get_value :: "config \<Rightarrow> string \<Rightarrow> cstring" where
  "cfg_get_value c n = cfg_s_get_value c (default_section c) n"

definition stored_value :: "cstring \<Rightarrow> cstring" where
  "stored_value v = (case v of None \<Rightarrow> None | Some x \<Rightarrow> if 0 < length x then Some x else None)"

definition cfg_s_set_value :: "cfg_env \<Rightarrow> string \<Rightarrow> string \<Rightarrow> cstring \<Rightarrow> config \<Rightarrow> int \<times> config" where
  "cfg_s_set_value e s n v c =
     (if ce_nomem e s n then (- ENOMEM, c)
      else (0, c\<lparr>cfg_store := AList.update (s, n) (stored_value v) (cfg_store c)\<rparr>))"

definition cfg_set_value :: "cfg_env \<Rightarrow> string \<Rightarrow> cstring \<Rightarrow> config \<Rightarrow> int \<times> config" where
  "cfg_set_value e n v c = cfg_s_set_value e (default_section c) n v c"

definition cfg_get_default_section :: "config \<Rightarrow> string" where
  "cfg_get_default_section c = default_section c"

definition cfg_set_default_section :: "cstring \<Rightarrow> config \<Rightarrow> int \<times> config" where
  "cfg_set_default_section s c =
     (case s of None \<Rightarrow> (- EINVAL, c) | Some x \<Rightarrow> (0, c\<lparr>default_section := x\<rparr>))"

definition cfg_s_get_bool_value :: "config \<Rightarrow> string \<Rightarrow> string \<Rightarrow> bool" where
  "cfg_s_get_bool_value c s n =
     (case cfg_s_get_value c s n of None \<Rightarrow> False
      | Some v \<Rightarrow> streqi ''true'' v \<or> streqi ''t'' v \<or> streqi ''yes'' v \<or> streqi ''y'' v \<or> streqi ''on'' v)"

definition cfg_get_bool_value :: "config \<Rightarrow> string \<Rightarrow> bool" where
  "cfg_get_bool_value c n = cfg_s_get_bool_value c (default_section c) n"

section \<open>Loading\<close>

definition parsing_handler :: "cfg_env \<Rightarrow> ini_handler" where
  "parsing_handler e section name value c =
     (case cfg_s_get_value c section name of
        Some existing \<Rightarrow>
          (let (r, c') = cfg_s_set_value e section name (Some (strcat_dup existing value)) c
           in if r \<noteq> 0 then (0, c') else (1, c'))
      | None \<Rightarrow>
          (let (r, c') = cfg_s_set_value e section name (Some value) c
           in if r \<noteq> 0 then (0, c') else (1, c')))"

fun copy_options :: "cfg_env \<Rightarrow> (cfg_key, cstring) hmap \<Rightarrow> config \<Rightarrow> int \<times> config" where
  "copy_options e [] dst = (0, dst)"
| "copy_options e (((s, n), v) # opts) dst =
     (let (r, dst') = cfg_s_set_value e s n v dst
      in if r < 0 then (r, dst') else copy_options e opts dst')"

definition cfg_copy_overwrite :: "cfg_env \<Rightarrow> config \<Rightarrow> config \<Rightarrow> int \<times> config" where
  "cfg_copy_overwrite e src dst = copy_options e (ce_iter e (cfg_store src)) dst"

definition cfg_load_from_file :: "cfg_env \<Rightarrow> cstring \<Rightarrow> config \<Rightarrow> int \<times> config" where
  "cfg_load_from_file e config_file c =
     (case config_file of None \<Rightarrow> (- EINVAL, c)
      | Some f \<Rightarrow>
         if ce_access_r e f \<noteq> 0 then (- ce_access_r e f, c)
         else (let (r, tmp) = ini_parse e f (parsing_handler e) cfg_initialize
               in if r \<noteq> 0 then (r, c) else cfg_copy_overwrite e tmp c))"

definition is_file_name_ending_with_conf :: "string \<Rightarrow> bool" where
  "is_file_name_ending_with_conf d_name = ends_with (Some d_name) (Some ''.conf'')"

fun load_confd_files :: "cfg_env \<Rightarrow> string \<Rightarrow> string list \<Rightarrow> int \<Rightarrow> config \<Rightarrow> int \<times> config" where
  "load_confd_files e dir [] r c = (r, c)"
| "load_confd_files e dir (f # fs) r c =
     (let (r', c') = cfg_load_from_file e (Some (dir @ ''/'' @ f)) c
      in if r' < 0 then (r', c') else load_confd_files e dir fs r' c')"

definition cfg_load_from_dir :: "cfg_env \<Rightarrow> string \<Rightarrow> config \<Rightarrow> int \<times> config" where
  "cfg_load_from_dir e dir c =
     (if ce_access_f e dir \<noteq> 0 then (0, c)
      else case ce_readdir e dir of
        Inl errno \<Rightarrow> (- errno, c)
      | Inr entries \<Rightarrow> load_confd_files e dir (filter is_file_name_ending_with_conf entries) 0 c)"

definition env_options :: "(string \<times> string) list" where
  "env_options =
     [(''BC_LOG_LEVEL'', CFG_LOG_LEVEL), (''BC_LOG_TARGET'', CFG_LOG_TARGET), (''BC_LOG_IS_QUIET'', CFG_LOG_IS_QUIET)]"

fun load_env_options :: "cfg_env \<Rightarrow> (string \<times> string) list \<Rightarrow> config \<Rightarrow> int \<times> config" where
  "load_env_options e [] c = (0, c)"
| "load_env_options e ((var, name) # vs) c =
     (case ce_getenv e var of
        Some value \<Rightarrow>
          if 0 < length value then
            (let (r, c') = cfg_set_value e name (Some value) c
             in if r < 0 then (r, c') else load_env_options e vs c')
          else load_env_options e vs c
      | None \<Rightarrow> load_env_options e vs c)"

definition cfg_load_from_env :: "cfg_env \<Rightarrow> config \<Rightarrow> int \<times> config" where
  "cfg_load_from_env e c = load_env_options e env_options c"

definition load_default_file :: "cfg_env \<Rightarrow> cstring \<Rightarrow> config \<Rightarrow> int \<times> config" where
  "load_default_file e f c =
     (case f of None \<Rightarrow> (0, c)
      | Some _ \<Rightarrow> (let (r, c') = cfg_load_from_file e f c
                  in if r < 0 then (r, c') else if 0 < r then (- EINVAL, c') else (0, c')))"

definition load_custom_file :: "cfg_env \<Rightarrow> cstring \<Rightarrow> config \<Rightarrow> int \<times> config" where
  "load_custom_file e f c =
     (case f of None \<Rightarrow> (0, c)
      | Some _ \<Rightarrow> (let (r, c') = cfg_load_from_file e f c
                  in if r \<noteq> 0 \<and> r \<noteq> - ENOENT
                     then (if r < 0 then (r, c') else (- EINVAL, c')) else (0, c')))"

definition load_custom_dir :: "cfg_env \<Rightarrow> cstring \<Rightarrow> config \<Rightarrow> int \<times> config" where
  "load_custom_dir e d c =
     (case d of None \<Rightarrow> (0, c)
      | Some dir \<Rightarrow> (let (r, c') = cfg_load_from_dir e dir c
                    in if r < 0 then (r, c') else if 0 < r then (- EINVAL, c') else (0, c')))"

text \<open>The five sources in order.  The result of the environment is overwritten by that of
  the file named on the command line, when there is one.\<close>

definition cfg_load_complete_configuration ::
    "cfg_env \<Rightarrow> cstring \<Rightarrow> cstring \<Rightarrow> cstring \<Rightarrow> cstring \<Rightarrow> config \<Rightarrow> int \<times> config" where
  "cfg_load_complete_configuration e default_file custom_file custom_dir cli_file c =
     (let (r1, c1) = load_default_file e default_file c in
      if r1 < 0 then (r1, c1) else
      let (r2, c2) = load_custom_file e custom_file c1 in
      if r2 < 0 then (r2, c2) else
      let (r3, c3) = load_custom_dir e custom_dir c2 in
      if r3 < 0 then (r3, c3) else
      let (r4, c4) = cfg_load_from_env e c3 in
      case cli_file of None \<Rightarrow> (r4, c4) | Some _ \<Rightarrow> load_default_file e cli_file c4)"

section \<open>Sections and dump\<close>

fun collect_sections :: "(cfg_key, cstring) hmap \<Rightarrow> string list \<Rightarrow> string list" where
  "collect_sections [] acc = acc"
| "collect_sections (((s, n), v) # opts) acc =
     collect_sections opts (if s \<in> set acc then acc else acc @ [s])"

definition cfg_list_sections :: "cfg_env \<Rightarrow> config \<Rightarrow> string list" where
  "cfg_list_sections e c = sort (ce_iter_sections e (collect_sections (ce_iter e (cfg_store c)) []))"

fun dump_options :: "allocator \<Rightarrow> string \<Rightarrow> (cfg_key, cstring) hmap \<Rightarrow> StringBuilder \<Rightarrow> StringBuilder option" where
  "dump_options alloc section [] b = Some b"
| "dump_options alloc section (((s, n), v) # opts) b =
     (if s \<noteq> section then dump_options alloc section opts b
      else (let (ok, b') = string_builder_printf alloc b
                  (Some (n @ ''='' @ (case v of None \<Rightarrow> [] | Some x \<Rightarrow> x) @ [CHR 0x0A]))
            in if \<not> ok then None else dump_options alloc section opts b'))"

fun dump_sections :: "cfg_env \<Rightarrow> allocator \<Rightarrow> config \<Rightarrow> nat \<Rightarrow> string list \<Rightarrow> StringBuilder \<Rightarrow> StringBuilder option" where
  "dump_sections e alloc c i [] b = Some b"
| "dump_sections e alloc c i (section # ss) b =
     (let b1 = (if i \<noteq> 0 then snd (string_builder_append alloc b [CHR 0x0A]) else b);
          (ok, b2) = string_builder_printf alloc b1 (Some (''['' @ section @ '']'' @ [CHR 0x0A]))
      in if \<not> ok then None
         else Option.bind (dump_options alloc section (ce_iter e (cfg_store c)) b2)
                (dump_sections e alloc c (Suc i) ss))"

definition cfg_dump :: "cfg_env \<Rightarrow> allocator \<Rightarrow> config option \<Rightarrow> StringBuilder option" where
  "cfg_dump e alloc config =
     Option.bind config (\<lambda>c.
       Option.bind (string_builder_init alloc 0) (dump_sections e alloc c 0 (cfg_list_sections e c)))"

section \<open>Defaults\<close>

text \<open>A sequence of \<open>cfg_set_value\<close> calls that stops at the first error.\<close>

fun set_values :: "cfg_env \<Rightarrow> (string \<times> cstring) list \<Rightarrow> config \<Rightarrow> int \<times> config" where
  "set_values e [] c = (0, c)"
| "set_values e ((n, v) # vs) c =
     (let (r, c') = cfg_set_value e n v c in if r \<noteq> 0 then (r, c') else set_values e vs c')"

definition cfg_def_conf :: "cfg_env \<Rightarrow> config \<Rightarrow> int \<times> config" where
  "cfg_def_conf e = set_values e
     [(CFG_LOG_LEVEL, Some (log_level_to_string LOG_LEVEL_INFO)),
      (CFG_LOG_TARGET, Some BC_LOG_TARGET_JOURNALD),
      (CFG_LOG_IS_QUIET, None),
      (CFG_IP_RECEIVE_ERRORS, Some BC_DEFAULT_IP_RECEIVE_ERROR),
      (CFG_TCP_KEEPALIVE_TIME, Some BC_DEFAULT_TCP_KEEPALIVE_TIME),
      (CFG_TCP_KEEPALIVE_INTERVAL, Some BC_DEFAULT_TCP_KEEPALIVE_INTERVAL),
      (CFG_TCP_KEEPALIVE_COUNT, Some BC_DEFAULT_TCP_KEEPALIVE_COUNT)]"

definition cfg_agent_def_conf :: "cfg_env \<Rightarrow> config \<Rightarrow> int \<times> config" where
  "cfg_agent_def_conf e c =
     (let (r0, c0) = cfg_set_default_section (Some CFG_SECT_AGENT) c in
      if r0 \<noteq> 0 then (r0, c0) else
      let (r1, c1) = cfg_def_conf e c0 in
      if r1 \<noteq> 0 then (r1, c1) else
      set_values e
        [(CFG_NODE_NAME, ce_hostname e),
         (CFG_CONTROLLER_HOST, Some BC_DEFAULT_HOST),
         (CFG_HEARTBEAT_INTERVAL, Some AGENT_DEFAULT_HEARTBEAT_INTERVAL_MSEC),
         (CFG_CONTROLLER_HEARTBEAT_THRESHOLD, Some AGENT_DEFAULT_CONTROLLER_HEARTBEAT_THRESHOLD_MSEC),
         (CFG_CONTROLLER_PORT, Some BC_DEFAULT_PORT),
         (CFG_CONNECTION_RETRY_COUNT_UNTIL_QUIET, Some AGENT_DEFAULT_CONNECTION_RETRY_COUNT_UNTIL_QUIET)] c1)"

definition cfg_controller_def_conf :: "cfg_env \<Rightarrow> config \<Rightarrow> int \<times> config" where
  "cfg_controller_def_conf e c =
     (let (r0, c0) = cfg_set_default_section (Some CFG_SECT_BLUECHI) c in
      if r0 \<noteq> 0 then (r0, c0) else
      let (r1, c1) = cfg_def_conf e c0 in
      if r1 \<noteq> 0 then (r1, c1) else
      set_values e
        [(CFG_CONTROLLER_USE_TCP, Some CONTROLLER_DEFAULT_USE_TCP),
         (CFG_CONTROLLER_USE_UDS, Some CONTROLLER_DEFAULT_USE_UDS),
         (CFG_CONTROLLER_PORT, Some BC_DEFAULT_PORT),
         (CFG_ALLOWED_NODE_NAMES, Some ''''),
         (CFG_HEARTBEAT_INTERVAL, Some CONTROLLER_DEFAULT_HEARTBEAT_INTERVAL_MSEC),
         (CFG_NODE_HEARTBEAT_THRESHOLD, Some CONTROLLER_DEFAULT_NODE_HEARTBEAT_THRESHOLD_MSEC)] c1)"

section \<open>What the sources rely on\<close>

text \<open>Memory is available, and iterating a hash map visits every entry once.\<close>

definition cfg_env_ok :: "cfg_env \<Rightarrow> bool" where
  "cfg_env_ok e = ((\<forall>s n. \<not> ce_nomem e s n) \<and> (\<forall>m. mset (ce_iter e m) = mset m) \<and>
     (\<forall>ss. mset (ce_iter_sections e ss) = mset ss))"

text \<open>A successful run of the ini parser has called the handler on the options of the file,
  in the order of the file, and every call returned non-zero.\<close>

fun run_handler :: "ini_handler \<Rightarrow> (string \<times> string \<times> string) list \<Rightarrow> config \<Rightarrow> config option" where
  "run_handler h [] c = Some c"
| "run_handler h ((s, n, v) # ps) c =
     (let (r, c') = h s n v c in if r = 0 then None else run_handler h ps c')"

definition ini_parse_ok :: "cfg_env \<Rightarrow> (string \<Rightarrow> (string \<times> string \<times> string) list) \<Rightarrow> bool" where
  "ini_parse_ok e options =
     (\<forall>f h c c'. ini_parse e f h c = (0, c') \<longrightarrow> run_handler h (options f) c = Some c')"

section \<open>The store as a map\<close>

locale key_value_store =
  fixes get :: "'s \<Rightarrow> 'k \<Rightarrow> 'v" and set_to :: "'k \<Rightarrow> 'w \<Rightarrow> 's \<Rightarrow> 's" and norm :: "'w \<Rightarrow> 'v"
  assumes get_set: "get (set_to k v s) j = (if j = k then norm v else get s j)"
begin

lemma get_fold: "k \<notin> set (map fst kvs) \<Longrightarrow> get (fold (\<lambda>(k, v). set_to k v) kvs s) k = get s k"
  by (induction kvs arbitrary: s) (auto simp: get_set)

lemma get_fold_last:
  "k \<notin> set (map fst kvs') \<Longrightarrow> get (fold (\<lambda>(k, v). set_to k v) (kvs @ (k, v) # kvs') s) k = norm v"
  by (simp add: get_fold get_set)

lemma get_fold_distinct:
  "distinct (map fst kvs) \<Longrightarrow> (k, v) \<in> set kvs \<Longrightarrow> get (fold (\<lambda>(k, v). set_to k v) kvs s) k = norm v"
proof -
  assume d: "distinct (map fst kvs)" and "(k, v) \<in> set kvs"
  then obtain as bs where kvs: "kvs = as @ (k, v) # bs" by (auto dest: split_list)
  then have "k \<notin> set (map fst bs)" using d by auto
  then show ?thesis unfolding kvs by (rule get_fold_last)
qed

end

definition set_option_to :: "cfg_key \<Rightarrow> cstring \<Rightarrow> config \<Rightarrow> config" where
  "set_option_to k v c = c\<lparr>cfg_store := AList.update k (stored_value v) (cfg_store c)\<rparr>"

interpretation store: key_value_store "\<lambda>c k. cfg_s_get_value c (fst k) (snd k)" set_option_to stored_value
  by unfold_locales (auto simp: cfg_s_get_value_def set_option_to_def)

lemma cfg_s_set_value_ok: "cfg_env_ok e \<Longrightarrow> cfg_s_set_value e s n v c = (0, set_option_to (s, n) v c)"
  by (simp add: cfg_env_ok_def cfg_s_set_value_def set_option_to_def)

lemma default_section_set_option [simp]: "default_section (set_option_to k v c) = default_section c"
  by (simp add: set_option_to_def)

lemma default_section_fold [simp]:
  "default_section (fold (\<lambda>(k, v). set_option_to k v) kvs c) = default_section c"
  by (induction kvs arbitrary: c) auto

lemma set_values_ok:
  "cfg_env_ok e \<Longrightarrow> set_values e vs c =
     (0, fold (\<lambda>(k, v). set_option_to k v) (map (\<lambda>(n, v). ((default_section c, n), v)) vs) c)"
  by (induction vs arbitrary: c) (auto simp: cfg_set_value_def cfg_s_set_value_ok)

section \<open>The meaning of a file\<close>

text \<open>An option that a file sets several times has the concatenation of its values, and
  no value when that is empty.\<close>

definition file_values :: "(string \<times> string \<times> string) list \<Rightarrow> cfg_key \<Rightarrow> string list" where
  "file_values ps k = map (\<lambda>(s, n, v). v) (filter (\<lambda>(s, n, v). (s, n) = k) ps)"

definition file_layer :: "(string \<times> string \<times> string) list \<Rightarrow> cfg_key \<Rightarrow> cstring option" where
  "file_layer ps k =
     (if file_values ps k = [] then None else Some (stored_value (Some (concat (file_values ps k)))))"

definition value_at :: "config \<Rightarrow> cfg_key \<Rightarrow> string" where
  "value_at c k = (case map_of (cfg_store c) k of Some (Some x) \<Rightarrow> x | _ \<Rightarrow> [])"

lemma map_of_set_option [simp]: "map_of (cfg_store (set_option_to k v c)) = (map_of (cfg_store c))(k \<mapsto> stored_value v)"
  by (simp add: set_option_to_def)

lemma hmap_ok_set_option [simp]: "hmap_ok (cfg_store c) \<Longrightarrow> hmap_ok (cfg_store (set_option_to k v c))"
  by (simp add: set_option_to_def)

lemma stored_value_idem [simp]: "stored_value (stored_value v) = stored_value v"
  by (simp add: stored_value_def split: option.splits)

lemma value_at_set_option: "value_at (set_option_to k (Some x) c) j = (if j = k then x else value_at c j)"
  by (auto simp: value_at_def stored_value_def)

lemma parsing_handler_ok:
  assumes "cfg_env_ok e"
  shows "parsing_handler e s n v c = (1, set_option_to (s, n) (Some (value_at c (s, n) @ v)) c)"
  by (simp add: parsing_handler_def cfg_s_set_value_ok [OF assms] cfg_s_get_value_def value_at_def strcat_dup_def
      split: option.split)

lemma run_handler_ok:
  assumes "cfg_env_ok e" "run_handler (parsing_handler e) ps c = Some c'"
  shows "map_of (cfg_store c') k =
      (if file_values ps k = [] then map_of (cfg_store c) k
       else Some (stored_value (Some (value_at c k @ concat (file_values ps k)))))"
    and "hmap_ok (cfg_store c) \<Longrightarrow> hmap_ok (cfg_store c')"
  using assms(2)
proof (induction ps arbitrary: c)
  case (Cons p ps)
  obtain s n v where p: "p = (s, n, v)" by (cases p)
  have step: "run_handler (parsing_handler e) ps (set_option_to (s, n) (Some (value_at c (s, n) @ v)) c) = Some c'"
    if "run_handler (parsing_handler e) (p # ps) c = Some c'" for c
    using that by (simp add: p parsing_handler_ok [OF assms(1), of s n v c])
  {
    case 1
    show ?case using Cons.IH(1) [OF step [OF 1]] by (auto simp: p file_values_def value_at_set_option)
  next
    case 2
    show ?case using Cons.IH(2) [OF _ step [OF 2(2)]] 2(1) by simp
  }
qed (auto simp: file_values_def)

lemma copy_options_ok:
  assumes "cfg_env_ok e" "hmap_ok opts"
  shows "\<exists>d. copy_options e opts dst = (0, d) \<and> default_section d = default_section dst \<and>
    map_of (cfg_store d) = map_of (cfg_store dst) ++ (map_option stored_value \<circ> map_of opts)"
  using assms(2)
proof (induction opts arbitrary: dst)
  case (Cons o1 opts)
  obtain s n v where o1: "o1 = ((s, n), v)" by (metis surj_pair)
  let ?d = "set_option_to (s, n) v dst"
  have new: "map_of opts (s, n) = None" and ok: "hmap_ok opts"
    using Cons.prems by (auto simp: hmap_ok_def o1 map_of_eq_None_iff)
  from Cons.IH [OF ok] obtain d where d: "copy_options e opts ?d = (0, d)" "default_section d = default_section ?d"
    "map_of (cfg_store d) = map_of (cfg_store ?d) ++ (map_option stored_value \<circ> map_of opts)" by blast
  have "map_of (cfg_store d) = map_of (cfg_store dst) ++ (map_option stored_value \<circ> map_of (o1 # opts))"
    unfolding d(3) using new by (auto simp: o1 map_add_def fun_eq_iff split: option.split)
  moreover have "copy_options e (o1 # opts) dst = (0, d)" "default_section d = default_section dst"
    using d(1,2) by (simp_all add: o1 cfg_s_set_value_ok [OF assms(1)])
  ultimately show ?case by blast
qed (simp add: map_add_def comp_def)

lemma map_of_iter:
  assumes "cfg_env_ok e" "hmap_ok m"
  shows "map_of (ce_iter e m) = map_of m" "hmap_ok (ce_iter e m)"
proof -
  have m: "mset (ce_iter e m) = mset m" using assms(1) by (simp add: cfg_env_ok_def)
  then have "mset (map fst (ce_iter e m)) = mset (map fst m)" by simp
  then have d: "distinct (map fst (ce_iter e m))" using assms(2) unfolding hmap_ok_def
    by (metis mset_eq_imp_distinct_iff)
  then show "hmap_ok (ce_iter e m)" by (simp add: hmap_ok_def)
  show "map_of (ce_iter e m) = map_of m"
    using map_of_inject_set [OF d] assms(2) mset_eq_setD [OF m] by (simp add: hmap_ok_def)
qed

definition file_ok :: "cfg_env \<Rightarrow> string \<Rightarrow> bool" where
  "file_ok e f = (ce_access_r e f = 0 \<and> fst (ini_parse e f (parsing_handler e) cfg_initialize) = 0)"

definition source :: "cfg_env \<Rightarrow> (string \<Rightarrow> (string \<times> string \<times> string) list) \<Rightarrow> cstring \<Rightarrow> cfg_key \<Rightarrow> cstring option" where
  "source e options f = (case f of None \<Rightarrow> Map.empty | Some x \<Rightarrow> if file_ok e x then file_layer (options x) else Map.empty)"

lemma load_from_file_ok:
  assumes "cfg_env_ok e" "ini_parse_ok e options" "cfg_load_from_file e (Some f) c = (r, c')"
  shows "default_section c' = default_section c \<and> (r = 0 \<longleftrightarrow> file_ok e f) \<and>
    map_of (cfg_store c') = map_of (cfg_store c) ++ source e options (Some f)"
proof (cases "file_ok e f")
  case True
  then obtain tmp where ini: "ini_parse e f (parsing_handler e) cfg_initialize = (0, tmp)" and a: "ce_access_r e f = 0"
    by (metis file_ok_def prod.collapse)
  then have run: "run_handler (parsing_handler e) (options f) cfg_initialize = Some tmp"
    using assms(2) by (auto simp: ini_parse_ok_def)
  have tmp: "hmap_ok (cfg_store tmp)" using run_handler_ok(2) [OF assms(1) run] by (simp add: cfg_initialize_def)
  have "map_of (cfg_store tmp) = file_layer (options f)"
    using run_handler_ok(1) [OF assms(1) run] by (auto simp: cfg_initialize_def file_layer_def value_at_def)
  then have lay: "map_option stored_value \<circ> map_of (ce_iter e (cfg_store tmp)) = file_layer (options f)"
    by (auto simp: map_of_iter [OF assms(1) tmp] file_layer_def fun_eq_iff)
  have "copy_options e (ce_iter e (cfg_store tmp)) c = (r, c')"
    using assms(3) ini a by (simp add: cfg_load_from_file_def cfg_copy_overwrite_def)
  then show ?thesis
    using copy_options_ok [OF assms(1) map_of_iter(2) [OF assms(1) tmp], of c] lay True by (auto simp: source_def)
next
  case False
  then have "c' = c \<and> r \<noteq> 0"
    using assms(3) by (auto simp: cfg_load_from_file_def file_ok_def split: if_splits prod.splits)
  then show ?thesis using False by (simp add: source_def)
qed

section \<open>Applying options\<close>

text \<open>A step that returns false ends the function; an option without a value is skipped.\<close>

definition and_then :: "(bool \<times> 's) option \<Rightarrow> ('s \<Rightarrow> (bool \<times> 's) option) \<Rightarrow> (bool \<times> 's) option" where
  "and_then m k = Option.bind m (\<lambda>(ok, s). if ok then k s else Some (False, s))"

definition when_set :: "cstring \<Rightarrow> (string \<Rightarrow> 's \<Rightarrow> bool \<times> 's) \<Rightarrow> 's \<Rightarrow> (bool \<times> 's) option" where
  "when_set v f s = Some (case v of None \<Rightarrow> (True, s) | Some x \<Rightarrow> f x s)"

lemma and_then_True:
  "and_then m k = Some (True, s) \<longleftrightarrow> (\<exists>u. m = Some (True, u) \<and> k u = Some (True, s))"
  by (auto simp: and_then_def bind_eq_Some_conv split: if_splits)

lemma when_set_True: "when_set v f s = Some (True, t) \<longleftrightarrow> (v = None \<and> t = s) \<or> (\<exists>x. v = Some x \<and> f x s = (True, t))"
  by (cases v) (auto simp: when_set_def)

end
