(* ===== verification/Cfg_Props.thy ===== *)
theory Cfg_Props
  imports Cfg
begin

text \<open>Properties of the configuration: what a loaded configuration holds, in terms of its
  sources; the errors that are lost on the way; sections and defaults.\<close>

section \<open>The sources as layers\<close>

definition confd_files :: "cfg_env \<Rightarrow> cstring \<Rightarrow> string list" where
  "confd_files e d =
     (case d of None \<Rightarrow> []
      | Some dir \<Rightarrow>
         if ce_access_f e dir \<noteq> 0 then []
         else case ce_readdir e dir of Inl _ \<Rightarrow> []
              | Inr es \<Rightarrow> map (\<lambda>f. dir @ ''/'' @ f) (filter is_file_name_ending_with_conf es))"

definition env_layer :: "cfg_env \<Rightarrow> (string \<times> string) list \<Rightarrow> string \<Rightarrow> cfg_key \<Rightarrow> cstring option" where
  "env_layer e vs section k =
     map_of (rev (concat (map (\<lambda>(var, name). case ce_getenv e var of
        Some value \<Rightarrow> if value \<noteq> [] then [((section, name), Some value)] else []
      | None \<Rightarrow> []) vs))) k"

definition layers :: "cfg_env \<Rightarrow> (string \<Rightarrow> (string \<times> string \<times> string) list) \<Rightarrow> cstring \<Rightarrow> cstring \<Rightarrow> cstring \<Rightarrow>
    cstring \<Rightarrow> string \<Rightarrow> (cfg_key \<Rightarrow> cstring option) list" where
  "layers e options default_file custom_file custom_dir cli_file section =
     [source e options default_file, source e options custom_file] @
     map (\<lambda>f. source e options (Some f)) (confd_files e custom_dir) @
     [env_layer e env_options section, source e options cli_file]"

lemma load_default_file_ok:
  assumes "cfg_env_ok e" "ini_parse_ok e options" "load_default_file e f c = (r, c')" "0 \<le> r"
  shows "r = 0 \<and> default_section c' = default_section c \<and>
    map_of (cfg_store c') = map_of (cfg_store c) ++ source e options f"
proof (cases f)
  case None
  then show ?thesis using assms(3) by (simp add: load_default_file_def source_def)
next
  case (Some x)
  obtain r0 c0 where l: "cfg_load_from_file e (Some x) c = (r0, c0)" by fastforce
  then show ?thesis using load_from_file_ok [OF assms(1,2) l] assms(3,4) Some
    by (auto simp: load_default_file_def EINVAL_def split: if_splits)
qed

lemma load_custom_file_ok:
  assumes "cfg_env_ok e" "ini_parse_ok e options" "load_custom_file e f c = (r, c')" "0 \<le> r"
  shows "default_section c' = default_section c \<and>
    map_of (cfg_store c') = map_of (cfg_store c) ++ source e options f"
proof (cases f)
  case None
  then show ?thesis using assms(3) by (simp add: load_custom_file_def source_def)
next
  case (Some x)
  obtain r0 c0 where l: "cfg_load_from_file e (Some x) c = (r0, c0)" by fastforce
  then show ?thesis using load_from_file_ok [OF assms(1,2) l] assms(3,4) Some
    by (auto simp: load_custom_file_def EINVAL_def split: if_splits)
qed

lemma load_confd_files_ok:
  assumes "cfg_env_ok e" "ini_parse_ok e options" "load_confd_files e dir fs r0 c = (r, c')" "0 \<le> r"
  shows "default_section c' = default_section c \<and>
    map_of (cfg_store c') = foldl (++) (map_of (cfg_store c)) (map (\<lambda>f. source e options (Some (dir @ ''/'' @ f))) fs)"
  using assms(3)
proof (induction fs arbitrary: r0 c)
  case (Cons f fs)
  obtain r1 c1 where l: "cfg_load_from_file e (Some (dir @ ''/'' @ f)) c = (r1, c1)" by fastforce
  then have "load_confd_files e dir fs r1 c1 = (r, c')" using Cons.prems assms(4) by (auto split: if_splits)
  then show ?case using Cons.IH load_from_file_ok [OF assms(1,2) l] by auto
qed simp

lemma load_custom_dir_ok:
  assumes "cfg_env_ok e" "ini_parse_ok e options" "load_custom_dir e d c = (r, c')" "0 \<le> r"
  shows "default_section c' = default_section c \<and>
    map_of (cfg_store c') = foldl (++) (map_of (cfg_store c)) (map (\<lambda>f. source e options (Some f)) (confd_files e d))"
proof (cases d)
  case None
  then show ?thesis using assms(3) by (simp add: load_custom_dir_def confd_files_def)
next
  case (Some dir)
  obtain r0 c0 where l: "cfg_load_from_dir e dir c = (r0, c0)" by fastforce
  then have c: "c' = c0" "0 \<le> r0" using assms(3,4) Some by (auto simp: load_custom_dir_def EINVAL_def split: if_splits)
  show ?thesis
  proof (cases "ce_access_f e dir = 0")
    case True
    then show ?thesis
      using l c Some load_confd_files_ok [OF assms(1,2)]
      by (cases "ce_readdir e dir") (auto simp: cfg_load_from_dir_def confd_files_def comp_def)
  qed (use l c Some in \<open>auto simp: cfg_load_from_dir_def confd_files_def\<close>)
qed

lemma load_env_options_ok:
  assumes "cfg_env_ok e"
  shows "\<exists>c'. load_env_options e vs c = (0, c') \<and> default_section c' = default_section c \<and>
    map_of (cfg_store c') = map_of (cfg_store c) ++ env_layer e vs (default_section c)"
proof (induction vs arbitrary: c)
  case Nil
  then show ?case by (simp add: env_layer_def map_add_def)
next
  case (Cons v vs)
  obtain var name where v: "v = (var, name)" by (cases v)
  let ?d = "set_option_to (default_section c, name) (ce_getenv e var) c"
  show ?case
  proof (cases "ce_getenv e var")
    case None
    then show ?thesis using Cons by (simp add: v env_layer_def)
  next
    case (Some x)
    then show ?thesis using Cons [of c] Cons [of ?d]
      by (cases "x = []")
         (auto simp: v env_layer_def cfg_set_value_def cfg_s_set_value_ok [OF assms] stored_value_def
            map_add_def fun_eq_iff split: option.splits)
  qed
qed

text \<open>C17. Precedence of the configuration sources.  When loading succeeds, the configuration
  is the one it started from, overridden by the default file, the custom file, the files
  of the custom directory in alphabetical order, the environment, and the file named on
  the command line, in this order; within a file, repeated options are concatenated;
  the default section stays.  Files that cannot be read or parsed and whose error is
  tolerated contribute nothing.\<close>

theorem load_complete_layers:
  assumes "cfg_env_ok e" "ini_parse_ok e options"
    and "cfg_load_complete_configuration e default_file custom_file custom_dir cli_file c = (0, c')"
  shows "map_of (cfg_store c') = foldl (++) (map_of (cfg_store c))
      (layers e options default_file custom_file custom_dir cli_file (default_section c)) \<and>
    default_section c' = default_section c"
proof -
  obtain r1 c1 where 1: "load_default_file e default_file c = (r1, c1)" by fastforce
  obtain r2 c2 where 2: "load_custom_file e custom_file c1 = (r2, c2)" by fastforce
  obtain r3 c3 where 3: "load_custom_dir e custom_dir c2 = (r3, c3)" by fastforce
  obtain r4 c4 where 4: "cfg_load_from_env e c3 = (r4, c4)" by fastforce
  have ok: "0 \<le> r1" "0 \<le> r2" "0 \<le> r3"
    and last: "(case cli_file of None \<Rightarrow> (r4, c4) | Some _ \<Rightarrow> load_default_file e cli_file c4) = (0, c')"
    using assms(3) by (auto simp: cfg_load_complete_configuration_def 1 2 3 4 split: if_splits)
  have "load_default_file e cli_file c4 = (0, c')"
    using last load_env_options_ok [OF assms(1), of env_options c3] 4
    by (auto simp: load_default_file_def cfg_load_from_env_def split: option.splits)
  note 5 = load_default_file_ok [OF assms(1,2) this]
  show ?thesis
    using load_default_file_ok [OF assms(1,2) 1 ok(1)] load_custom_file_ok [OF assms(1,2) 2 ok(2)]
      load_custom_dir_ok [OF assms(1,2) 3 ok(3)] load_env_options_ok [OF assms(1), of env_options c3] 4 5
    by (simp add: layers_def cfg_load_from_env_def)
qed

text \<open>An environment with four files: a default file that sets an option twice, a
  directory with a broken and a good file, and a file for the command line.\<close>

definition example_options :: "string \<Rightarrow> (string \<times> string \<times> string) list" where
  "example_options f =
     (if f = ''/def'' then [(''s'', ''N'', ''a''), (''s'', ''N'', ''b''), (''s'', ''LogLevel'', ''WARN'')]
      else if f = ''/d/z.conf'' then [(''s'', ''P'', ''843'')]
      else if f = ''/cli'' then [(''s'', ''Q'', ''c'')]
      else [])"

definition example_parse :: "string \<Rightarrow> ini_handler \<Rightarrow> config \<Rightarrow> int \<times> config" where
  "example_parse f h c =
     (if f = ''/d/a.conf'' then (3, c)
      else case run_handler h (example_options f) c of None \<Rightarrow> (1, c) | Some c' \<Rightarrow> (0, c'))"

definition example_cfg_env :: cfg_env where
  "example_cfg_env =
     \<lparr>ce_nomem = \<lambda>_ _. False, ce_iter = rev, ce_iter_sections = rev,
      ce_access_r = \<lambda>f. if f \<in> {''/def'', ''/d/a.conf'', ''/d/z.conf'', ''/cli''} then 0 else ENOENT,
      ce_access_f = \<lambda>f. if f = ''/d'' then 0 else ENOENT,
      ce_readdir = \<lambda>d. Inr [''a.conf'', ''notes'', ''z.conf''],
      ini_parse = example_parse,
      ce_getenv = \<lambda>v. if v = ''BC_LOG_LEVEL'' then Some ''DEBUG'' else None,
      ce_hostname = Some ''host''\<rparr>"

lemma example_cfg_env_ok: "cfg_env_ok example_cfg_env" "ini_parse_ok example_cfg_env example_options"
  by (auto simp: cfg_env_ok_def example_cfg_env_def ini_parse_ok_def example_parse_def split: if_splits option.splits)

definition example_cfg0 :: config where
  "example_cfg0 = \<lparr>cfg_store = [((''s'', ''P''), Some ''842'')], default_section = ''s''\<rparr>"

definition example_cfg :: config where
  "example_cfg = snd (cfg_load_complete_configuration example_cfg_env (Some ''/def'') (Some ''/none'')
     (Some ''/d'') (Some ''/cli'') example_cfg0)"

lemma example_cfg_store:
  "cfg_load_complete_configuration example_cfg_env (Some ''/def'') (Some ''/none'') (Some ''/d'') (Some ''/cli'') example_cfg0 =
     (0, \<lparr>cfg_store = [((''s'', ''P''), Some ''843''), ((''s'', ''LogLevel''), Some ''DEBUG''), ((''s'', ''N''), Some ''ab''),
        ((''s'', ''Q''), Some ''c'')], default_section = ''s''\<rparr>)"
  by code_simp

theorem load_complete_layers_witness:
  "map_of (cfg_store example_cfg) = foldl (++) (map_of (cfg_store example_cfg0))
      (layers example_cfg_env example_options (Some ''/def'') (Some ''/none'') (Some ''/d'') (Some ''/cli'') ''s'') \<and>
   cfg_get_value example_cfg ''N'' = Some ''ab'' \<and> cfg_get_value example_cfg ''LogLevel'' = Some ''DEBUG'' \<and>
   cfg_get_value example_cfg ''P'' = Some ''843''"
proof -
  have "cfg_load_complete_configuration example_cfg_env (Some ''/def'') (Some ''/none'')
      (Some ''/d'') (Some ''/cli'') example_cfg0 = (0, example_cfg)" by (simp add: example_cfg_def example_cfg_store)
  note * = load_complete_layers [OF example_cfg_env_ok this]
  moreover have "default_section example_cfg0 = ''s''" by (simp add: example_cfg0_def)
  moreover have "cfg_get_value example_cfg ''N'' = Some ''ab''" "cfg_get_value example_cfg ''LogLevel'' = Some ''DEBUG''"
    "cfg_get_value example_cfg ''P'' = Some ''843''"
    by (simp_all add: example_cfg_def example_cfg_store cfg_get_value_def cfg_s_get_value_def)
  ultimately show ?thesis by simp
qed

section \<open>Lost errors\<close>

lemma load_confd_files_result:
  assumes "cfg_env_ok e" "ini_parse_ok e options"
    and "\<And>g. g \<in> set fs \<union> {f} \<Longrightarrow> ce_access_r e (dir @ ''/'' @ g) = 0 \<and>
        0 \<le> fst (ini_parse e (dir @ ''/'' @ g) (parsing_handler e) cfg_initialize)"
  shows "fst (load_confd_files e dir (fs @ [f]) r c) = 0 \<longleftrightarrow> file_ok e (dir @ ''/'' @ f)"
  using assms(3)
proof (induction fs arbitrary: r c)
  case Nil
  obtain r1 c1 where l: "cfg_load_from_file e (Some (dir @ ''/'' @ f)) c = (r1, c1)" by fastforce
  then show ?case using load_from_file_ok [OF assms(1,2) l] by simp
next
  case (Cons g fs)
  obtain r1 c1 where l: "cfg_load_from_file e (Some (dir @ ''/'' @ g)) c = (r1, c1)" by fastforce
  have "0 \<le> r1"
  proof (cases "file_ok e (dir @ ''/'' @ g)")
    case True
    then show ?thesis using load_from_file_ok [OF assms(1,2) l] by simp
  next
    case False
    then show ?thesis using l Cons.prems [of g]
      by (auto simp: cfg_load_from_file_def file_ok_def split: prod.splits if_splits)
  qed
  moreover have "fst (load_confd_files e dir (fs @ [f]) r1 c1) = 0 \<longleftrightarrow> file_ok e (dir @ ''/'' @ f)"
    by (rule Cons.IH) (use Cons.prems in auto)
  ultimately show ?case using l by simp
qed

text \<open>Errors in the configuration directory.  When all files of the directory can be read,
  loading it succeeds exactly when the last file parses: a syntax error in any other
  file is not reported, although that file contributes nothing.\<close>

theorem confd_errors_lost:
  assumes "cfg_env_ok e" "ini_parse_ok e options" "ce_access_f e dir = 0" "ce_readdir e dir = Inr entries"
    and "filter is_file_name_ending_with_conf entries = fs @ [f]"
    and "\<And>g. g \<in> set fs \<union> {f} \<Longrightarrow> ce_access_r e (dir @ ''/'' @ g) = 0 \<and>
        0 \<le> fst (ini_parse e (dir @ ''/'' @ g) (parsing_handler e) cfg_initialize)"
  shows "fst (cfg_load_from_dir e dir c) = 0 \<longleftrightarrow> file_ok e (dir @ ''/'' @ f)"
  using load_confd_files_result [OF assms(1,2,6)] assms(3,4,5) by (simp add: cfg_load_from_dir_def)

theorem confd_errors_lost_witness:
  "fst (cfg_load_from_dir example_cfg_env ''/d'' cfg_initialize) = 0 \<and>
   \<not> file_ok example_cfg_env ''/d/a.conf''"
proof -
  have 1: "file_ok example_cfg_env ''/d/z.conf''" "\<not> file_ok example_cfg_env ''/d/a.conf''"
    "ce_access_f example_cfg_env ''/d'' = 0"
    "filter is_file_name_ending_with_conf [''a.conf'', ''notes'', ''z.conf''] = [''a.conf''] @ [''z.conf'']"
    "ce_access_r example_cfg_env ''/d/a.conf'' = 0" "ce_access_r example_cfg_env ''/d/z.conf'' = 0"
    "0 \<le> fst (ini_parse example_cfg_env ''/d/a.conf'' (parsing_handler example_cfg_env) cfg_initialize)"
    "0 \<le> fst (ini_parse example_cfg_env ''/d/z.conf'' (parsing_handler example_cfg_env) cfg_initialize)"
    by code_simp+
  have 2: "ce_readdir example_cfg_env ''/d'' = Inr [''a.conf'', ''notes'', ''z.conf'']"
    by (simp add: example_cfg_env_def)
  show ?thesis using confd_errors_lost [OF example_cfg_env_ok 1(3) 2 1(4), of cfg_initialize] 1 by auto
qed

section \<open>Sections\<close>

lemma collect_sections_ok:
  "distinct acc \<Longrightarrow> distinct (collect_sections opts acc) \<and>
     set (collect_sections opts acc) = set acc \<union> (\<lambda>((s, n), v). s) ` set opts"
  by (induction opts acc rule: collect_sections.induct) auto

lemma cfg_list_sections_set:
  assumes "cfg_env_ok e"
  shows "sorted (cfg_list_sections e c) \<and> distinct (cfg_list_sections e c) \<and>
    set (cfg_list_sections e c) = fst ` dom (map_of (cfg_store c))"
proof -
  let ?opts = "ce_iter e (cfg_store c)" and ?ss = "collect_sections (ce_iter e (cfg_store c)) []"
  have "mset ?opts = mset (cfg_store c)" and m: "mset (ce_iter_sections e ?ss) = mset ?ss"
    using assms by (auto simp: cfg_env_ok_def)
  then have o: "set ?opts = set (cfg_store c)" by (auto dest: mset_eq_setD)
  have "distinct (ce_iter_sections e ?ss)" "set (ce_iter_sections e ?ss) = (\<lambda>((s, n), v). s) ` set (cfg_store c)"
    using collect_sections_ok [of "[]" ?opts] mset_eq_imp_distinct_iff [OF m] mset_eq_setD [OF m] o by simp_all
  moreover have "(\<lambda>((s, n), v). s) ` set (cfg_store c) = fst ` dom (map_of (cfg_store c))"
    by (force simp: dom_map_of_conv_image_fst)
  ultimately show ?thesis by (simp add: cfg_list_sections_def)
qed

text \<open>The sections of a configuration.  \<open>cfg_list_sections\<close> lists, in the order of
  \<open>strcmp\<close> and each once, the sections that have an option.\<close>

theorem cfg_list_sections_correct:
  assumes "cfg_env_ok e"
  shows "sorted_wrt (<) (cfg_list_sections e c) \<and>
    set (cfg_list_sections e c) = fst ` dom (map_of (cfg_store c))"
  using cfg_list_sections_set [OF assms] by (simp add: strict_sorted_iff)

theorem cfg_list_sections_witness:
  "sorted_wrt (<) (cfg_list_sections example_cfg_env example_cfg) \<and>
   set (cfg_list_sections example_cfg_env example_cfg) = {''s''}"
  using cfg_list_sections_correct [OF example_cfg_env_ok(1), of example_cfg]
  by (simp add: example_cfg_def example_cfg_store dom_map_of_conv_image_fst image_image del: map_of.simps)

end
