(* ===== verification/LogConf.thy ===== *)
theory LogConf
  imports Cfg
begin

text \<open>The process-wide logger (\<open>libbluechi/log/log.c\<close>): its settings, their initialisation
  from the configuration, and which messages are written.\<close>

text \<open>The three log functions; a null pointer is \<open>None\<close>.\<close>

datatype LogFn = bc_log_to_journald_with_location | bc_log_to_stderr_full_with_location | bc_log_to_stderr_with_location

record BcLogConfig =
  log_fn :: "LogFn option"
  level :: LogLevel
  is_quiet :: bool

definition log_target_to_str :: "LogFn option \<Rightarrow> cstring" where
  "log_target_to_str f =
     (if f = Some bc_log_to_stderr_with_location then Some BC_LOG_TARGET_STDERR
      else if f = Some bc_log_to_stderr_full_with_location then Some BC_LOG_TARGET_STDERR_FULL
      else if f = Some bc_log_to_journald_with_location then Some BC_LOG_TARGET_JOURNALD
      else None)"

definition bc_log_set_log_fn :: "LogFn option \<Rightarrow> BcLogConfig \<Rightarrow> BcLogConfig" where
  "bc_log_set_log_fn f l = l\<lparr>log_fn := f\<rparr>"
definition bc_log_get_log_fn :: "BcLogConfig \<Rightarrow> LogFn option" where
  "bc_log_get_log_fn l = log_fn l"
definition bc_log_set_level :: "LogLevel \<Rightarrow> BcLogConfig \<Rightarrow> BcLogConfig" where
  "bc_log_set_level v l = l\<lparr>level := v\<rparr>"
definition bc_log_get_level :: "BcLogConfig \<Rightarrow> LogLevel" where
  "bc_log_get_level l = level l"
definition bc_log_set_quiet :: "bool \<Rightarrow> BcLogConfig \<Rightarrow> BcLogConfig" where
  "bc_log_set_quiet q l = l\<lparr>is_quiet := q\<rparr>"
definition bc_log_get_quiet :: "BcLogConfig \<Rightarrow> bool" where
  "bc_log_get_quiet l = is_quiet l"

lemmas bc_log_setters = bc_log_set_log_fn_def bc_log_set_level_def bc_log_set_quiet_def

definition bc_log_init :: "config \<Rightarrow> BcLogConfig \<Rightarrow> BcLogConfig" where
  "bc_log_init c l0 =
     (let l1 = bc_log_set_quiet False (bc_log_set_log_fn (Some bc_log_to_journald_with_location)
                 (bc_log_set_level LOG_LEVEL_INFO l0));
          lvl = string_to_log_level (cfg_get_value c CFG_LOG_LEVEL);
          l2 = (if lvl \<noteq> LOG_LEVEL_INVALID then bc_log_set_level lvl l1 else l1);
          l3 = (case cfg_get_value c CFG_LOG_TARGET of
                  None \<Rightarrow> l2
                | Some target \<Rightarrow>
                    if streqi BC_LOG_TARGET_JOURNALD target then bc_log_set_log_fn (Some bc_log_to_journald_with_location) l2
                    else if streqi BC_LOG_TARGET_STDERR target then bc_log_set_log_fn (Some bc_log_to_stderr_with_location) l2
                    else if streqi BC_LOG_TARGET_STDERR_FULL target then
                      bc_log_set_log_fn (Some bc_log_to_stderr_full_with_location) l2
                    else l2)
      in case cfg_get_value c CFG_LOG_IS_QUIET of
           None \<Rightarrow> l3 | Some _ \<Rightarrow> bc_log_set_quiet (cfg_get_bool_value c CFG_LOG_IS_QUIET) l3)"

definition shouldLog :: "BcLogConfig \<Rightarrow> LogLevel \<Rightarrow> bool" where
  "shouldLog l lvl = (level l \<le> lvl \<and> \<not> is_quiet l \<and> log_fn l \<noteq> None)"

text \<open>What a log function is called with; \<open>None\<close> when nothing is written.\<close>

definition bc_log :: "BcLogConfig \<Rightarrow> LogLevel \<Rightarrow> string \<Rightarrow> string \<Rightarrow> (LogFn \<times> LogLevel \<times> string \<times> string) option" where
  "bc_log l lvl msg data = (if shouldLog l lvl then map_option (\<lambda>f. (f, lvl, msg, data)) (log_fn l) else None)"

text \<open>\<open>bc_logf\<close> and \<open>bc_log_with_data\<close>, given what \<open>vasprintf\<close> formats (\<open>None\<close>: it fails).\<close>

definition bc_logf :: "BcLogConfig \<Rightarrow> LogLevel \<Rightarrow> cstring \<Rightarrow> (LogFn \<times> LogLevel \<times> string \<times> string) option" where
  "bc_logf l lvl formatted =
     (if shouldLog l lvl then (case formatted of None \<Rightarrow> None | Some msg \<Rightarrow> map_option (\<lambda>f. (f, lvl, msg, [])) (log_fn l)) else None)"

definition bc_log_with_data ::
    "BcLogConfig \<Rightarrow> LogLevel \<Rightarrow> string \<Rightarrow> cstring \<Rightarrow> (LogFn \<times> LogLevel \<times> string \<times> string) option" where
  "bc_log_with_data l lvl msg formatted =
     (if shouldLog l lvl then (case formatted of None \<Rightarrow> None | Some data \<Rightarrow> map_option (\<lambda>f. (f, lvl, msg, data)) (log_fn l)) else None)"

lemma bc_log_init_fields:
  "level (bc_log_init c l) =
     (let lvl = string_to_log_level (cfg_get_value c CFG_LOG_LEVEL) in if lvl = LOG_LEVEL_INVALID then LOG_LEVEL_INFO else lvl)"
  "is_quiet (bc_log_init c l) = cfg_get_bool_value c CFG_LOG_IS_QUIET"
  "log_fn (bc_log_init c l) \<noteq> None"
  by (auto simp: bc_log_init_def bc_log_setters Let_def cfg_get_bool_value_def cfg_s_get_bool_value_def cfg_get_value_def
      split: option.splits)

lemma string_to_log_level_valid: "string_to_log_level v \<noteq> LOG_LEVEL_INVALID \<Longrightarrow> valid_log_level (string_to_log_level v)"
  by (auto simp: string_to_log_level_def valid_log_level_def log_level_defs split: option.splits)

text \<open>Logging as configured.  After initialisation a message is written exactly when logging
  is not configured as quiet and its level is at least the configured one (INFO when the
  configured level is missing or unknown); the level that is set is always a valid one, an
  error message passes every level, and a message is handed over unchanged.\<close>

theorem bc_log_filters:
  "map_option snd (bc_log (bc_log_init c l) lvl msg data) =
     (if \<not> cfg_get_bool_value c CFG_LOG_IS_QUIET \<and>
        (if string_to_log_level (cfg_get_value c CFG_LOG_LEVEL) = LOG_LEVEL_INVALID then LOG_LEVEL_INFO
         else string_to_log_level (cfg_get_value c CFG_LOG_LEVEL)) \<le> lvl
      then Some (lvl, msg, data) else None) \<and>
   valid_log_level (level (bc_log_init c l)) \<and> level (bc_log_init c l) \<le> LOG_LEVEL_ERROR"
proof -
  have v: "valid_log_level (level (bc_log_init c l))"
    using string_to_log_level_valid by (auto simp: bc_log_init_fields Let_def) (simp add: valid_log_level_def log_level_defs)
  then have e: "level (bc_log_init c l) \<le> LOG_LEVEL_ERROR"
    by (cases rule: valid_log_level_cases) (simp_all add: LOG_LEVEL_ERROR_def)
  obtain f where "log_fn (bc_log_init c l) = Some f" using bc_log_init_fields(3) [of c l] by auto
  then show ?thesis using v e
    by (auto simp: shouldLog_def bc_log_init_fields Let_def bc_log_def split: if_splits)
qed

end
