(* ===== verification/Socket.thy ===== *)
theory Socket
  imports ParseUtil
begin

text \<open>Options of peer sockets and the check of peer credentials (\<open>libbluechi/socket.c\<close>).
  System calls are parameters: their result and errno.\<close>

record SocketOptions =
  tcp_keepidle :: int
  tcp_keepintvl :: int
  tcp_keepcnt :: int
  ip_recv_err :: bool

definition socket_options_new :: SocketOptions where
  "socket_options_new = \<lparr>tcp_keepidle = 0, tcp_keepintvl = 0, tcp_keepcnt = 0, ip_recv_err = False\<rparr>"

definition MAX_TCP_KEEPIDLE :: int where "MAX_TCP_KEEPIDLE = 32767"
definition MAX_TCP_KEEPINTVL :: int where "MAX_TCP_KEEPINTVL = 32767"
definition MAX_TCP_KEEPCNT :: int where "MAX_TCP_KEEPCNT = 127"

lemmas tcp_limits = MAX_TCP_KEEPIDLE_def MAX_TCP_KEEPINTVL_def MAX_TCP_KEEPCNT_def

definition socket_options_set_tcp_keepidle :: "cstring \<Rightarrow> SocketOptions \<Rightarrow> int \<times> SocketOptions" where
  "socket_options_set_tcp_keepidle keepidle_s opts =
     (case parse_long keepidle_s of None \<Rightarrow> (- EINVAL, opts)
      | Some keepidle \<Rightarrow>
         if keepidle < 0 \<or> keepidle > MAX_TCP_KEEPIDLE then (- EINVAL, opts)
         else (0, opts\<lparr>tcp_keepidle := keepidle\<rparr>))"

definition socket_options_set_tcp_keepintvl :: "cstring \<Rightarrow> SocketOptions \<Rightarrow> int \<times> SocketOptions" where
  "socket_options_set_tcp_keepintvl keepintvl_s opts =
     (case parse_long keepintvl_s of None \<Rightarrow> (- EINVAL, opts)
      | Some keepintvl \<Rightarrow>
         if keepintvl < 0 \<or> keepintvl > MAX_TCP_KEEPINTVL then (- EINVAL, opts)
         else (0, opts\<lparr>tcp_keepintvl := keepintvl\<rparr>))"

definition socket_options_set_tcp_keepcnt :: "cstring \<Rightarrow> SocketOptions \<Rightarrow> int \<times> SocketOptions" where
  "socket_options_set_tcp_keepcnt keepcnt_s opts =
     (case parse_long keepcnt_s of None \<Rightarrow> (- EINVAL, opts)
      | Some keepcnt \<Rightarrow>
         if keepcnt < 0 \<or> keepcnt > MAX_TCP_KEEPCNT then (- EINVAL, opts)
         else (0, opts\<lparr>tcp_keepcnt := keepcnt\<rparr>))"

definition socket_options_set_ip_recverr :: "bool \<Rightarrow> SocketOptions \<Rightarrow> int \<times> SocketOptions" where
  "socket_options_set_ip_recverr recverr opts = (0, opts\<lparr>ip_recv_err := recverr\<rparr>)"

text \<open>The values that are ever stored fit the limits of the kernel.\<close>

definition socket_options_ok :: "SocketOptions \<Rightarrow> bool" where
  "socket_options_ok opts =
     (0 \<le> tcp_keepidle opts \<and> tcp_keepidle opts \<le> MAX_TCP_KEEPIDLE \<and>
      0 \<le> tcp_keepintvl opts \<and> tcp_keepintvl opts \<le> MAX_TCP_KEEPINTVL \<and>
      0 \<le> tcp_keepcnt opts \<and> tcp_keepcnt opts \<le> MAX_TCP_KEEPCNT)"

lemma socket_options_new_ok: "socket_options_ok socket_options_new"
  by (simp add: socket_options_ok_def socket_options_new_def tcp_limits)

lemma socket_setters_ok:
  assumes "socket_options_ok opts"
  shows "socket_options_ok (snd (socket_options_set_tcp_keepidle v opts))"
    "socket_options_ok (snd (socket_options_set_tcp_keepintvl v opts))"
    "socket_options_ok (snd (socket_options_set_tcp_keepcnt v opts))"
    "socket_options_ok (snd (socket_options_set_ip_recverr b opts))"
  using assms
  by (auto simp: socket_options_ok_def socket_options_set_tcp_keepidle_def socket_options_set_tcp_keepintvl_def
      socket_options_set_tcp_keepcnt_def socket_options_set_ip_recverr_def split: option.split)

section \<open>Applying the options\<close>

datatype sockopt = SO_IP_RECVERR | SO_TCP_NODELAY | SO_SO_KEEPALIVE | SO_TCP_KEEPIDLE | SO_TCP_KEEPINTVL | SO_TCP_KEEPCNT

text \<open>The domain of the socket, and the errno of \<open>setsockopt\<close> (0 on success).\<close>

record socket_env =
  se_domain :: int
  se_setsockopt :: "sockopt \<Rightarrow> int \<Rightarrow> int"

definition AF_INET :: int where "AF_INET = 2"
definition AF_INET6 :: int where "AF_INET6 = 10"

definition fd_is_socket_tcp :: "socket_env \<Rightarrow> bool" where
  "fd_is_socket_tcp e = (se_domain e = AF_INET \<or> se_domain e = AF_INET6)"

text \<open>The options that are set, in order; an option of value 0 keeps the system default.\<close>

definition sockopt_calls :: "SocketOptions \<Rightarrow> (sockopt \<times> int) list" where
  "sockopt_calls opts =
     (if ip_recv_err opts then [(SO_IP_RECVERR, 1)] else []) @
     [(SO_TCP_NODELAY, 1), (SO_SO_KEEPALIVE, 1)] @
     (if tcp_keepidle opts \<noteq> 0 then [(SO_TCP_KEEPIDLE, tcp_keepidle opts)] else []) @
     (if tcp_keepintvl opts \<noteq> 0 then [(SO_TCP_KEEPINTVL, tcp_keepintvl opts)] else []) @
     (if tcp_keepcnt opts \<noteq> 0 then [(SO_TCP_KEEPCNT, tcp_keepcnt opts)] else [])"

fun run_setsockopt :: "socket_env \<Rightarrow> (sockopt \<times> int) list \<Rightarrow> (sockopt \<times> int) list \<Rightarrow> int \<times> (sockopt \<times> int) list" where
  "run_setsockopt e [] done = (0, done)"
| "run_setsockopt e ((o1, v) # cs) done =
     (if se_setsockopt e o1 v \<noteq> 0 then (- se_setsockopt e o1 v, done)
      else run_setsockopt e cs (done @ [(o1, v)]))"

definition socket_set_options :: "socket_env \<Rightarrow> SocketOptions option \<Rightarrow> int \<times> (sockopt \<times> int) list" where
  "socket_set_options e opts =
     (if \<not> fd_is_socket_tcp e then (0, [])
      else case opts of None \<Rightarrow> (- EINVAL, []) | Some x \<Rightarrow> run_setsockopt e (sockopt_calls x) [])"

lemma run_setsockopt_all:
  "\<forall>(o1, v) \<in> set cs. se_setsockopt e o1 v = 0 \<Longrightarrow> run_setsockopt e cs done = (0, done @ cs)"
  by (induction e cs "done" rule: run_setsockopt.induct) auto

section \<open>Credentials of the peer\<close>

text \<open>\<open>getsockopt\<close> returns an errno or the size and the pid and uid of the peer.\<close>

definition UCRED_SIZE :: int where "UCRED_SIZE = 12"

definition fd_check_peercred :: "(int + int \<times> int \<times> int) \<Rightarrow> int \<Rightarrow> int" where
  "fd_check_peercred peer euid =
     (case peer of Inl errno \<Rightarrow> - errno
      | Inr (n, pid, uid) \<Rightarrow>
         if n \<noteq> UCRED_SIZE then - EIO
         else if pid \<le> 0 then - ENODATA
         else if uid \<noteq> 0 \<and> uid \<noteq> euid then - EPERM
         else 1)"

lemma fd_check_peercred_root_or_self:
  "fd_check_peercred (Inr (n, pid, uid)) euid = 1 \<longleftrightarrow> n = UCRED_SIZE \<and> 0 < pid \<and> (uid = 0 \<or> uid = euid)"
  by (auto simp: fd_check_peercred_def EIO_def ENODATA_def EPERM_def)

end
