(* ===== verification/Ctrl_Types.thy ===== *)
theory Ctrl_Types
  imports Protocol BusUtil TimeUtil
begin

text \<open>
  The data of \<open>bluechi-controller\<close> (the structs of \<open>controller.h\<close>, \<open>node.h\<close>,
  \<open>monitor.h\<close>, \<open>proxy_monitor.h\<close>, \<open>job.h\<close> and \<open>node.c\<close>) and the primitives its
  operations are built from.  Heap objects are records at addresses; a freed or
  never allocated address holds no object, so that reading it aborts.  The
  intrusive lists are lists of addresses (see the list theory).  What leaves the
  process is a trace of typed D-Bus messages.  The results of sd-bus calls, the
  clocks and the behaviour of the hash map library are a parameter, the
  environment, of every operation that uses them.
\<close>

section \<open>Addresses and messages\<close>

type_synonym addr = nat
type_synonym bus = nat
type_synonym msg_id = nat

text \<open>What a monitor or a proxy is told about a unit.\<close>

datatype unit_event =
    UnitNew string string string
  | UnitStateChanged string string string string string
  | UnitRemoved string string string
  | UnitPropertiesChanged string string string "prop_item list"
  | PeerRemoved string

datatype reply =
    ReplyOk
  | ReplyUInt32 "32 word"
  | ReplyPath string
  | ReplyBody nat
  | ReplyNodes "(string \<times> string \<times> string \<times> cstring) list"
  | ReplyFleet "(string \<times> nat) list"
  | ReplyError string string

text \<open>The answer of an agent to a request: an error (name, errno) or a body.\<close>

datatype answer = AnswerError string int | AnswerBody nat

datatype out_msg =
    JobNew "32 word" string
  | JobRemoved "32 word" string string string string
  | JobStateProp string
  | NodeStatusProp string
  | SystemStatusProp
  | AgentCall bus string "string list"
  | AgentHeartbeat bus
  | MonitorSignal string string unit_event
  | ProxyCall bus string string "string list"
  | StartUnitJobMetrics string string string "64 word" "64 word"
  | AgentJobMetrics string string string "64 word"
  | Reply msg_id reply

section \<open>Structs\<close>

datatype monitor_ref = MonitorRef addr | ProxyMonitorRef addr

record Subscription =
  sub_ref :: int
  sub_id :: "32 word"
  sub_monitor :: monitor_ref
  sub_node :: string
  sub_units :: "string list"

record MonitorPeer =
  peer_id :: "32 word"
  peer_name :: string

record Monitor =
  mon_ref :: int
  mon_id :: "32 word"
  mon_owner :: string
  mon_peers :: "MonitorPeer list"
  mon_export_slot :: bool
  mon_path :: string
  mon_subs :: "addr list"

record ProxyMonitor =
  pm_ref :: int
  pm_node :: addr
  pm_sub :: addr
  pm_added_dep :: bool
  pm_unit :: string
  pm_target :: "addr option"
  pm_path :: string

record UnitSubscriptions =
  us_subs :: "addr list"
  us_loaded :: bool
  us_active_state :: UnitActiveState
  us_substate :: cstring

record ProxyDependency =
  dep_unit :: string
  dep_n :: int

record Node =
  nd_ref :: int
  nd_export_slot :: bool
  nd_agent_bus :: "bus option"
  nd_internal_slot :: bool
  nd_disconnect_slot :: bool
  nd_metrics_slot :: bool
  nd_name :: cstring
  nd_required_selinux :: cstring
  nd_object_path :: cstring
  nd_peer_ip :: cstring
  nd_peer_selinux :: cstring
  nd_requests :: "addr list"
  nd_proxy_monitors :: "addr list"
  nd_deps :: "ProxyDependency list"
  nd_targets :: "string list"
  nd_unit_subs :: "(string, UnitSubscriptions) hmap"
  nd_last_seen :: "64 word"
  nd_last_seen_monotonic :: "64 word"
  nd_is_shutdown :: bool

record Job =
  job_refs :: int
  job_node :: addr
  job_st :: JobState
  job_id :: "32 word"
  job_path :: string
  job_type :: string
  job_unit :: string
  job_export_slot :: bool
  job_start_micros :: "64 word"
  job_end_micros :: "64 word"

text \<open>The state of a method call while the agent works on it: the callbacks an
  \<open>AgentRequest\<close> is created with, with their user data.\<close>

datatype request_cb =
    CbForward msg_id
  | CbForwardOk msg_id
  | CbLifecycle addr
  | CbJobCancel msg_id
  | CbFleet addr

record AgentRequest =
  req_ref :: int
  req_node :: addr
  req_method :: string
  req_args :: "string list"
  req_cb :: request_cb
  req_started :: bool
  req_cancelled :: bool

record JobSetup =
  js_ref :: int
  js_message :: msg_id
  js_job :: addr

record SubReq =
  sr_node :: "addr option"
  sr_m :: "answer option"
  sr_agent_req :: "addr option"

record AgentFleetRequest =
  fr_message :: msg_id
  fr_n_done :: int
  fr_capacity :: nat
  fr_sub_req :: "SubReq list"

text \<open>The controller; \<open>proxy_calls\<close> are the user data of the asynchronous proxy calls
  the bus library holds until their reply arrives.\<close>

record Controller =
  node_h :: "addr \<Rightarrow> Node option"
  sub_h :: "addr \<Rightarrow> Subscription option"
  mon_h :: "addr \<Rightarrow> Monitor option"
  pm_h :: "addr \<Rightarrow> ProxyMonitor option"
  job_h :: "addr \<Rightarrow> Job option"
  req_h :: "addr \<Rightarrow> AgentRequest option"
  setup_h :: "addr \<Rightarrow> JobSetup option"
  fleet_h :: "addr \<Rightarrow> AgentFleetRequest option"
  next_addr :: addr
  next_job_id :: "32 word"
  next_sub_id :: "32 word"
  next_monitor_id :: "32 word"
  next_peer_id :: "32 word"
  number_of_nodes :: int
  number_of_nodes_online :: int
  nodes :: "addr list"
  anonymous_nodes :: "addr list"
  jobs :: "addr list"
  monitors :: "addr list"
  all_subscriptions :: "addr list"
  metrics_enabled :: bool
  metrics_slot :: bool
  heartbeat_interval_msec :: int
  heartbeat_threshold_msec :: int
  proxy_calls :: "addr list"
  out :: "out_msg list"

definition controller_new :: Controller where
  "controller_new =
     \<lparr>node_h = \<lambda>_. None, sub_h = \<lambda>_. None, mon_h = \<lambda>_. None, pm_h = \<lambda>_. None,
      job_h = \<lambda>_. None, req_h = \<lambda>_. None, setup_h = \<lambda>_. None, fleet_h = \<lambda>_. None,
      next_addr = 1, next_job_id = 0, next_sub_id = 1, next_monitor_id = 0, next_peer_id = 0,
      number_of_nodes = 0, number_of_nodes_online = 0, nodes = [], anonymous_nodes = [],
      jobs = [], monitors = [], all_subscriptions = [], metrics_enabled = False,
      metrics_slot = False, heartbeat_interval_msec = 0, heartbeat_threshold_msec = 0,
      proxy_calls = [], out = []\<rparr>"

section \<open>The environment\<close>

text \<open>The sd-bus calls whose result decides a branch, by call site.\<close>

datatype bus_call =
    AddObjectVtable string
  | MatchSignal string
  | EmitProperties string
  | EmitSignal string
  | NewSignal string
  | SendTo string
  | SendAgent string
  | NewMethodCall string
  | CallAsync string
  | NewMethodReturn
  | SendReply
  | AppendOrCopy
  | SyncCall string

record env =
  bus_ret :: "bus_call \<Rightarrow> int"
  time_micros :: "64 word"
  time_micros_monotonic :: "64 word"
  hm_iter :: "string list \<Rightarrow> string list"
  hm_items :: "(addr \<Rightarrow> nat) \<Rightarrow> (addr \<Rightarrow> addr \<Rightarrow> bool) \<Rightarrow> addr list \<Rightarrow> addr list"
  peer_ip_address :: "bus \<Rightarrow> int \<times> cstring"
  peer_context :: "bus \<Rightarrow> cstring"
  unit_property :: "bus \<Rightarrow> string \<Rightarrow> string \<Rightarrow> int \<times> 64 word"

text \<open>All bus calls succeed.\<close>

definition bus_ok :: "env \<Rightarrow> bool" where
  "bus_ok e = (\<forall>c. 0 \<le> bus_ret e c)"

text \<open>The documented behaviour of the hash map library: the iteration visits every
  key once; a map filled by \<open>hashmap_set\<close> holds only inserted items, for every
  inserted item one that compares equal, and no two equal ones provided the hash
  function gives equal items the same hash.\<close>

definition hm_iter_ok :: "env \<Rightarrow> bool" where
  "hm_iter_ok e = (\<forall>ks. mset (hm_iter e ks) = mset ks)"

definition hm_items_ok :: "env \<Rightarrow> bool" where
  "hm_items_ok e = (\<forall>hash eq xs.
     set (hm_items e hash eq xs) \<subseteq> set xs \<and> distinct (hm_items e hash eq xs) \<and>
     (\<forall>x \<in> set xs. \<exists>y \<in> set (hm_items e hash eq xs). x = y \<or> eq x y) \<and>
     (equivp eq \<and> (\<forall>x y. eq x y \<longrightarrow> hash x = hash y) \<longrightarrow>
        (\<forall>x \<in> set (hm_items e hash eq xs). \<forall>y \<in> set (hm_items e hash eq xs). eq x y \<longrightarrow> x = y)))"

text \<open>A hash map that behaves so, and an environment in which every call succeeds.\<close>

definition hm_items_ref :: "(addr \<Rightarrow> nat) \<Rightarrow> (addr \<Rightarrow> addr \<Rightarrow> bool) \<Rightarrow> addr list \<Rightarrow> addr list" where
  "hm_items_ref hash eq xs =
     foldr (\<lambda>x ys. if \<exists>y \<in> set ys. x = y \<or> (hash x = hash y \<and> eq x y) then ys else x # ys) xs []"

definition ref_env :: env where
  "ref_env =
     \<lparr>bus_ret = \<lambda>_. 0, time_micros = 1000000, time_micros_monotonic = 1000000, hm_iter = id,
      hm_items = hm_items_ref, peer_ip_address = \<lambda>_. (0, Some ''127.0.0.1''),
      peer_context = \<lambda>_. None, unit_property = \<lambda>_ _ _. (0, 0)\<rparr>"

section \<open>Primitives\<close>

text \<open>A message leaves when the call that sends it succeeds.\<close>

definition emit :: "env \<Rightarrow> bus_call \<Rightarrow> out_msg \<Rightarrow> Controller \<Rightarrow> Controller" where
  "emit e c m s = (if bus_ret e c < 0 then s else s\<lparr>out := out s @ [m]\<rparr>)"

definition put :: "out_msg \<Rightarrow> Controller \<Rightarrow> Controller" where
  "put m s = s\<lparr>out := out s @ [m]\<rparr>"

text \<open>A NULL string is appended to a message as the empty string.\<close>

definition str_arg :: "cstring \<Rightarrow> string" where
  "str_arg c = (case c of None \<Rightarrow> [] | Some s \<Rightarrow> s)"

definition set_node :: "addr \<Rightarrow> Node \<Rightarrow> Controller \<Rightarrow> Controller" where
  "set_node n nd s = s\<lparr>node_h := (node_h s)(n := Some nd)\<rparr>"

definition set_sub :: "addr \<Rightarrow> Subscription \<Rightarrow> Controller \<Rightarrow> Controller" where
  "set_sub a v s = s\<lparr>sub_h := (sub_h s)(a := Some v)\<rparr>"

definition set_mon :: "addr \<Rightarrow> Monitor \<Rightarrow> Controller \<Rightarrow> Controller" where
  "set_mon a v s = s\<lparr>mon_h := (mon_h s)(a := Some v)\<rparr>"

definition set_pm :: "addr \<Rightarrow> ProxyMonitor \<Rightarrow> Controller \<Rightarrow> Controller" where
  "set_pm a v s = s\<lparr>pm_h := (pm_h s)(a := Some v)\<rparr>"

definition set_job :: "addr \<Rightarrow> Job \<Rightarrow> Controller \<Rightarrow> Controller" where
  "set_job a v s = s\<lparr>job_h := (job_h s)(a := Some v)\<rparr>"

definition set_req :: "addr \<Rightarrow> AgentRequest \<Rightarrow> Controller \<Rightarrow> Controller" where
  "set_req a v s = s\<lparr>req_h := (req_h s)(a := Some v)\<rparr>"

lemmas prim_defs = emit_def put_def set_node_def set_sub_def set_mon_def set_pm_def set_job_def
  set_req_def

definition online :: "Node \<Rightarrow> bool" where
  "online nd = (nd_name nd \<noteq> None \<and> nd_agent_bus nd \<noteq> None)"

lemma bus_okD [simp]: "bus_ok e \<Longrightarrow> \<not> bus_ret e c < 0"
  by (simp add: bus_ok_def not_less)

lemma emit_ok: "bus_ok e \<Longrightarrow> emit e c m s = put m s"
  by (simp add: emit_def put_def)

lemma hm_items_ref_props:
  "set (hm_items_ref hash eq xs) \<subseteq> set xs \<and> distinct (hm_items_ref hash eq xs) \<and>
   (\<forall>x \<in> set xs. \<exists>y \<in> set (hm_items_ref hash eq xs). x = y \<or> eq x y)"
  by (induction xs) (auto simp: hm_items_ref_def)

lemma hm_items_ref_dedup:
  assumes "equivp eq" "\<forall>x y. eq x y \<longrightarrow> hash x = hash y"
  shows "x \<in> set (hm_items_ref hash eq xs) \<Longrightarrow> y \<in> set (hm_items_ref hash eq xs) \<Longrightarrow> eq x y \<Longrightarrow> x = y"
proof (induction xs arbitrary: x y)
  case (Cons a xs)
  let ?ys = "hm_items_ref hash eq xs"
  have step: "hm_items_ref hash eq (a # xs) =
      (if \<exists>y \<in> set ?ys. a = y \<or> (hash a = hash y \<and> eq a y) then ?ys else a # ?ys)"
    unfolding hm_items_ref_def foldr.simps comp_def by (rule refl)
  have sym: "eq v w \<Longrightarrow> eq w v" for v w using assms(1) by (meson equivp_symp)
  show ?case
    using Cons assms(2) sym unfolding step by (auto split: if_splits)
qed (simp add: hm_items_ref_def)

lemma ref_env_ok: "bus_ok ref_env" "hm_iter_ok ref_env" "hm_items_ok ref_env"
  using hm_items_ref_props hm_items_ref_dedup
  by (auto simp: bus_ok_def hm_iter_ok_def hm_items_ok_def ref_env_def)

end
