(* ===== verification/Ctrl_Subscription.thy ===== *)
theory Ctrl_Subscription
  imports Ctrl_Types
begin

text \<open>
  Subscriptions: \<open>monitor.c\<close> (creation, the events sent to a monitor's owner and
  peers), \<open>proxy_monitor.c\<close> (the events sent to a proxy on an agent) and the
  per-node index of subscriptions by unit in \<open>node.c\<close>, with the agent being told
  of the first and the last subscription of a unit.
\<close>

section \<open>Events to monitors and proxies\<close>

text \<open>One signal: the message is created and filled, then sent to \<open>dest\<close>.\<close>

definition monitor_send :: "env \<Rightarrow> string \<Rightarrow> string \<Rightarrow> unit_event \<Rightarrow> string \<Rightarrow> Controller \<Rightarrow> Controller" where
  "monitor_send e name path ev dest s =
     (if bus_ret e (NewSignal name) < 0 \<or> bus_ret e AppendOrCopy < 0 then s
      else emit e (SendTo dest) (MonitorSignal dest path ev) s)"

definition monitor_send_all :: "env \<Rightarrow> string \<Rightarrow> unit_event \<Rightarrow> Monitor \<Rightarrow> Controller \<Rightarrow> Controller" where
  "monitor_send_all e name ev mo s =
     fold (monitor_send e name (mon_path mo) ev) (mon_owner mo # map peer_name (mon_peers mo)) s"

definition monitor_on_unit_property_changed ::
    "env \<Rightarrow> addr \<Rightarrow> string \<Rightarrow> string \<Rightarrow> string \<Rightarrow> prop_item list \<Rightarrow> Controller \<Rightarrow> Controller option" where
  "monitor_on_unit_property_changed e m node unit intf props s =
     do { mo \<leftarrow> mon_h s m;
          Some (monitor_send_all e ''UnitPropertiesChanged'' (UnitPropertiesChanged node unit intf props) mo s) }"

definition monitor_on_unit_new ::
    "env \<Rightarrow> addr \<Rightarrow> string \<Rightarrow> string \<Rightarrow> string \<Rightarrow> Controller \<Rightarrow> Controller option" where
  "monitor_on_unit_new e m node unit reason s =
     do { mo \<leftarrow> mon_h s m;
          Some (monitor_send_all e ''UnitNew'' (UnitNew node unit reason) mo s) }"

definition monitor_on_unit_state_changed ::
    "env \<Rightarrow> addr \<Rightarrow> string \<Rightarrow> string \<Rightarrow> string \<Rightarrow> string \<Rightarrow> string \<Rightarrow> Controller \<Rightarrow> Controller option" where
  "monitor_on_unit_state_changed e m node unit active_state substate reason s =
     do { mo \<leftarrow> mon_h s m;
          Some (monitor_send_all e ''UnitStateChanged''
                  (UnitStateChanged node unit active_state substate reason) mo s) }"

definition monitor_on_unit_removed ::
    "env \<Rightarrow> addr \<Rightarrow> string \<Rightarrow> string \<Rightarrow> string \<Rightarrow> Controller \<Rightarrow> Controller option" where
  "monitor_on_unit_removed e m node unit reason s =
     do { mo \<leftarrow> mon_h s m;
          Some (monitor_send_all e ''UnitRemoved'' (UnitRemoved node unit reason) mo s) }"

definition monitor_emit_peer_removed :: "env \<Rightarrow> Monitor \<Rightarrow> MonitorPeer \<Rightarrow> string \<Rightarrow> Controller \<Rightarrow> Controller" where
  "monitor_emit_peer_removed e mo peer reason s =
     monitor_send e ''PeerRemoved'' (mon_path mo) (PeerRemoved reason) (peer_name peer) s"

text \<open>An asynchronous method call on the proxy object of the requesting agent.  It takes
  a reference for its callback before it is made; a call without a bus fails.\<close>

definition proxy_monitor_call ::
    "env \<Rightarrow> addr \<Rightarrow> string \<Rightarrow> string list \<Rightarrow> Controller \<Rightarrow> Controller option" where
  "proxy_monitor_call e p method args s =
     do { pm \<leftarrow> pm_h s p;
          nd \<leftarrow> node_h s (pm_node pm);
          let s1 = set_pm p (pm\<lparr>pm_ref := pm_ref pm + 1\<rparr>) s;
          Some (case nd_agent_bus nd of
                  None \<Rightarrow> s1
                | Some b \<Rightarrow>
                    if bus_ret e (CallAsync method) < 0 then s1
                    else put (ProxyCall b (pm_path pm) method args)
                           (s1\<lparr>proxy_calls := proxy_calls s1 @ [p]\<rparr>)) }"

definition proxy_monitor_send_error :: "env \<Rightarrow> addr \<Rightarrow> string \<Rightarrow> Controller \<Rightarrow> Controller option" where
  "proxy_monitor_send_error e p message s = proxy_monitor_call e p ''Error'' [message] s"

definition proxy_monitor_send_state_changed ::
    "env \<Rightarrow> addr \<Rightarrow> string \<Rightarrow> string \<Rightarrow> string \<Rightarrow> Controller \<Rightarrow> Controller option" where
  "proxy_monitor_send_state_changed e p active_state substate reason s =
     proxy_monitor_call e p ''TargetStateChanged'' [active_state, substate, reason] s"

definition proxy_monitor_send_new :: "env \<Rightarrow> addr \<Rightarrow> string \<Rightarrow> Controller \<Rightarrow> Controller option" where
  "proxy_monitor_send_new e p reason s = proxy_monitor_call e p ''TargetNew'' [reason] s"

definition proxy_monitor_send_removed :: "env \<Rightarrow> addr \<Rightarrow> string \<Rightarrow> Controller \<Rightarrow> Controller option" where
  "proxy_monitor_send_removed e p reason s = proxy_monitor_call e p ''TargetRemoved'' [reason] s"

definition proxy_monitor_on_unit_new ::
    "env \<Rightarrow> addr \<Rightarrow> string \<Rightarrow> string \<Rightarrow> string \<Rightarrow> Controller \<Rightarrow> Controller option" where
  "proxy_monitor_on_unit_new e p node unit reason s = proxy_monitor_send_new e p reason s"

definition proxy_monitor_on_unit_state_changed ::
    "env \<Rightarrow> addr \<Rightarrow> string \<Rightarrow> string \<Rightarrow> string \<Rightarrow> string \<Rightarrow> string \<Rightarrow> Controller \<Rightarrow> Controller option" where
  "proxy_monitor_on_unit_state_changed e p node unit active_state substate reason s =
     proxy_monitor_send_state_changed e p active_state substate reason s"

definition proxy_monitor_on_unit_removed ::
    "env \<Rightarrow> addr \<Rightarrow> string \<Rightarrow> string \<Rightarrow> string \<Rightarrow> Controller \<Rightarrow> Controller option" where
  "proxy_monitor_on_unit_removed e p node unit reason s = proxy_monitor_send_removed e p reason s"

definition proxy_monitor_on_unit_property_changed ::
    "env \<Rightarrow> addr \<Rightarrow> string \<Rightarrow> string \<Rightarrow> string \<Rightarrow> prop_item list \<Rightarrow> Controller \<Rightarrow> Controller option" where
  "proxy_monitor_on_unit_property_changed e p node unit intf props s = Some s"

text \<open>The call through the handler pointers of a subscription: a monitor's or a proxy
  monitor's.\<close>

fun handle_monitor :: "env \<Rightarrow> addr \<Rightarrow> unit_event \<Rightarrow> Controller \<Rightarrow> Controller option" where
  "handle_monitor e m (UnitNew n u r) s = monitor_on_unit_new e m n u r s"
| "handle_monitor e m (UnitStateChanged n u a b r) s = monitor_on_unit_state_changed e m n u a b r s"
| "handle_monitor e m (UnitRemoved n u r) s = monitor_on_unit_removed e m n u r s"
| "handle_monitor e m (UnitPropertiesChanged n u i ps) s = monitor_on_unit_property_changed e m n u i ps s"
| "handle_monitor e m (PeerRemoved r) s = Some s"

fun handle_proxy_monitor :: "env \<Rightarrow> addr \<Rightarrow> unit_event \<Rightarrow> Controller \<Rightarrow> Controller option" where
  "handle_proxy_monitor e p (UnitNew n u r) s = proxy_monitor_on_unit_new e p n u r s"
| "handle_proxy_monitor e p (UnitStateChanged n u a b r) s = proxy_monitor_on_unit_state_changed e p n u a b r s"
| "handle_proxy_monitor e p (UnitRemoved n u r) s = proxy_monitor_on_unit_removed e p n u r s"
| "handle_proxy_monitor e p (UnitPropertiesChanged n u i ps) s =
     proxy_monitor_on_unit_property_changed e p n u i ps s"
| "handle_proxy_monitor e p (PeerRemoved r) s = Some s"

definition sub_handle :: "env \<Rightarrow> unit_event \<Rightarrow> addr \<Rightarrow> Controller \<Rightarrow> Controller option" where
  "sub_handle e ev a s =
     do { sub \<leftarrow> sub_h s a;
          case sub_monitor sub of
            MonitorRef m \<Rightarrow> handle_monitor e m ev s
          | ProxyMonitorRef p \<Rightarrow> handle_proxy_monitor e p ev s }"

section \<open>Subscription objects\<close>

definition subscription_new :: "string \<Rightarrow> monitor_ref \<Rightarrow> Controller \<Rightarrow> addr \<times> Controller" where
  "subscription_new node mref s =
     (let a = next_addr s;
          i = next_sub_id s + 1
      in (a, (set_sub a \<lparr>sub_ref = 1, sub_id = i, sub_monitor = mref, sub_node = node, sub_units = []\<rparr> s)
               \<lparr>next_addr := a + 1, next_sub_id := i\<rparr>))"

definition subscription_add_unit :: "addr \<Rightarrow> string \<Rightarrow> Controller \<Rightarrow> Controller option" where
  "subscription_add_unit a unit s =
     do { sub \<leftarrow> sub_h s a; Some (set_sub a (sub\<lparr>sub_units := sub_units sub @ [unit]\<rparr>) s) }"

definition subscription_has_node_wildcard :: "Subscription \<Rightarrow> bool" where
  "subscription_has_node_wildcard sub = (sub_node sub = SYMBOL_WILDCARD)"

definition subscription_ref :: "addr \<Rightarrow> Controller \<Rightarrow> Controller option" where
  "subscription_ref a s =
     do { sub \<leftarrow> sub_h s a; Some (set_sub a (sub\<lparr>sub_ref := sub_ref sub + 1\<rparr>) s) }"

definition monitor_incref :: "addr \<Rightarrow> Controller \<Rightarrow> Controller option" where
  "monitor_incref m s =
     do { mo \<leftarrow> mon_h s m; Some (set_mon m (mo\<lparr>mon_ref := mon_ref mo + 1\<rparr>) s) }"

definition monitor_unref :: "addr \<Rightarrow> Controller \<Rightarrow> Controller option" where
  "monitor_unref m s =
     do { mo \<leftarrow> mon_h s m;
          if mon_ref mo - 1 \<noteq> 0 then Some (set_mon m (mo\<lparr>mon_ref := mon_ref mo - 1\<rparr>) s)
          else Some (s\<lparr>mon_h := (mon_h s)(m := None)\<rparr>) }"

text \<open>The destructor calls \<open>free_monitor\<close>, set for monitors and NULL for proxy monitors.\<close>

definition subscription_unref :: "addr \<Rightarrow> Controller \<Rightarrow> Controller option" where
  "subscription_unref a s =
     do { sub \<leftarrow> sub_h s a;
          if sub_ref sub - 1 \<noteq> 0 then Some (set_sub a (sub\<lparr>sub_ref := sub_ref sub - 1\<rparr>) s)
          else do { s1 \<leftarrow> (case sub_monitor sub of
                              MonitorRef m \<Rightarrow> monitor_unref m s
                            | ProxyMonitorRef p \<Rightarrow> Some s);
                    Some (s1\<lparr>sub_h := (sub_h s1)(a := None)\<rparr>) } }"

definition create_monitor_subscription :: "addr \<Rightarrow> string \<Rightarrow> Controller \<Rightarrow> (addr \<times> Controller) option" where
  "create_monitor_subscription m node s =
     (let (a, s1) = subscription_new node (MonitorRef m) s
      in map_option (\<lambda>s2. (a, s2)) (monitor_incref m s1))"

definition create_proxy_monitor_subscription :: "addr \<Rightarrow> string \<Rightarrow> Controller \<Rightarrow> addr \<times> Controller" where
  "create_proxy_monitor_subscription p node s = subscription_new node (ProxyMonitorRef p) s"

section \<open>Telling the agent\<close>

definition node_has_agent :: "Node \<Rightarrow> bool" where
  "node_has_agent nd = (nd_agent_bus nd \<noteq> None)"

definition node_is_online :: "Node \<Rightarrow> bool" where
  "node_is_online nd = (nd_name nd \<noteq> None \<and> node_has_agent nd)"

definition send_agent_simple_message ::
    "env \<Rightarrow> Node \<Rightarrow> string \<Rightarrow> cstring \<Rightarrow> Controller \<Rightarrow> int \<times> Controller" where
  "send_agent_simple_message e nd method arg s =
     (case nd_agent_bus nd of
        None \<Rightarrow> (- EINVAL, s)
      | Some b \<Rightarrow>
          if bus_ret e (NewMethodCall method) < 0 then (bus_ret e (NewMethodCall method), s)
          else if arg \<noteq> None \<and> bus_ret e AppendOrCopy < 0 then (bus_ret e AppendOrCopy, s)
          else (bus_ret e (SendAgent method),
                emit e (SendAgent method) (AgentCall b method (case arg of None \<Rightarrow> [] | Some a \<Rightarrow> [a])) s))"

definition node_send_agent_subscribe :: "env \<Rightarrow> Node \<Rightarrow> string \<Rightarrow> Controller \<Rightarrow> Controller" where
  "node_send_agent_subscribe e nd unit s =
     (if \<not> node_has_agent nd then s else snd (send_agent_simple_message e nd ''Subscribe'' (Some unit) s))"

definition node_send_agent_unsubscribe :: "env \<Rightarrow> Node \<Rightarrow> string \<Rightarrow> Controller \<Rightarrow> Controller" where
  "node_send_agent_unsubscribe e nd unit s =
     (if \<not> node_has_agent nd then s else snd (send_agent_simple_message e nd ''Unsubscribe'' (Some unit) s))"

definition node_send_agent_subscribe_all :: "env \<Rightarrow> Node \<Rightarrow> Controller \<Rightarrow> Controller" where
  "node_send_agent_subscribe_all e nd s =
     fold (node_send_agent_subscribe e nd) (hm_iter e (map fst (nd_unit_subs nd))) s"

section \<open>The index of a node\<close>

definition new_usubs :: UnitSubscriptions where
  "new_usubs = \<lparr>us_subs = [], us_loaded = False, us_active_state = UNIT_ACTIVE_STATE_INVALID, us_substate = None\<rparr>"

definition node_subscribe_unit :: "env \<Rightarrow> addr \<Rightarrow> addr \<Rightarrow> string \<Rightarrow> Controller \<Rightarrow> Controller option" where
  "node_subscribe_unit e n a u s =
     do { nd \<leftarrow> node_h s n;
          let us = (case map_of (nd_unit_subs nd) u of None \<Rightarrow> new_usubs | Some us \<Rightarrow> us);
          let s1 = (if map_of (nd_unit_subs nd) u = None then node_send_agent_subscribe e nd u s else s);
          let s2 = set_node n (nd\<lparr>nd_unit_subs := AList.update u (us\<lparr>us_subs := us_subs us @ [a]\<rparr>)
                                                     (nd_unit_subs nd)\<rparr>) s1;
          if us_loaded us then
            do { s3 \<leftarrow> sub_handle e (UnitNew (str_arg (nd_name nd)) u ''virtual'') a s2;
                 if 0 \<le> us_active_state us then
                   sub_handle e (UnitStateChanged (str_arg (nd_name nd)) u
                       (active_state_to_string (us_active_state us))
                       (case us_substate us of None \<Rightarrow> ''invalid'' | Some b \<Rightarrow> b) ''virtual'') a s3
                 else Some s3 }
          else Some s2 }"

definition node_subscribe :: "env \<Rightarrow> addr \<Rightarrow> addr \<Rightarrow> Controller \<Rightarrow> Controller option" where
  "node_subscribe e n a s =
     do { sub \<leftarrow> sub_h s a; foldo (node_subscribe_unit e n a) (sub_units sub) s }"

definition node_unsubscribe_unit :: "env \<Rightarrow> addr \<Rightarrow> addr \<Rightarrow> string \<Rightarrow> Controller \<Rightarrow> Controller option" where
  "node_unsubscribe_unit e n a u s =
     do { nd \<leftarrow> node_h s n;
          case map_of (nd_unit_subs nd) u of
            None \<Rightarrow> Some s
          | Some us \<Rightarrow>
              if a \<notin> set (us_subs us) then Some s
              else let subs = remove1 a (us_subs us)
                   in if subs = [] then
                        Some (set_node n (nd\<lparr>nd_unit_subs := AList.delete u (nd_unit_subs nd)\<rparr>)
                                (node_send_agent_unsubscribe e nd u s))
                      else
                        Some (set_node n (nd\<lparr>nd_unit_subs :=
                                AList.update u (us\<lparr>us_subs := subs\<rparr>) (nd_unit_subs nd)\<rparr>) s) }"

definition node_unsubscribe :: "env \<Rightarrow> addr \<Rightarrow> addr \<Rightarrow> Controller \<Rightarrow> Controller option" where
  "node_unsubscribe e n a s =
     do { sub \<leftarrow> sub_h s a; foldo (node_unsubscribe_unit e n a) (sub_units sub) s }"

section \<open>Who is told about a unit\<close>

text \<open>The hash of a subscription is its address, the comparison is on the monitors.\<close>

definition subscription_hashmap_hash :: "addr \<Rightarrow> nat" where
  "subscription_hashmap_hash a = a"

definition subscription_hashmap_compare :: "Controller \<Rightarrow> addr \<Rightarrow> addr \<Rightarrow> bool" where
  "subscription_hashmap_compare s a b =
     (map_option sub_monitor (sub_h s a) = map_option sub_monitor (sub_h s b))"

definition matching_subs :: "Node \<Rightarrow> string \<Rightarrow> addr list" where
  "matching_subs nd unit =
     (case map_of (nd_unit_subs nd) unit of None \<Rightarrow> [] | Some us \<Rightarrow> us_subs us) @
     (if unit \<noteq> SYMBOL_WILDCARD then
        (case map_of (nd_unit_subs nd) SYMBOL_WILDCARD of None \<Rightarrow> [] | Some us \<Rightarrow> us_subs us)
      else [])"

definition node_compute_unique_monitor_subscriptions :: "env \<Rightarrow> Node \<Rightarrow> string \<Rightarrow> Controller \<Rightarrow> addr list" where
  "node_compute_unique_monitor_subscriptions e nd unit s =
     hm_items e subscription_hashmap_hash (subscription_hashmap_compare s) (matching_subs nd unit)"

definition notify_unit :: "env \<Rightarrow> addr \<Rightarrow> string \<Rightarrow> unit_event \<Rightarrow> Controller \<Rightarrow> Controller option" where
  "notify_unit e n unit ev s =
     do { nd \<leftarrow> node_h s n;
          foldo (sub_handle e ev) (node_compute_unique_monitor_subscriptions e nd unit s) s }"

section \<open>The controller's list of subscriptions\<close>

fun find_node_in :: "Controller \<Rightarrow> addr list \<Rightarrow> (Node \<Rightarrow> bool) \<Rightarrow> addr option" where
  "find_node_in s [] P = None"
| "find_node_in s (n # ns) P =
     (case node_h s n of
        None \<Rightarrow> find_node_in s ns P
      | Some nd \<Rightarrow> if P nd then Some n else find_node_in s ns P)"

definition controller_find_node :: "Controller \<Rightarrow> string \<Rightarrow> addr option" where
  "controller_find_node s name = find_node_in s (nodes s) (\<lambda>nd. nd_name nd = Some name)"

definition controller_find_node_by_path :: "Controller \<Rightarrow> string \<Rightarrow> addr option" where
  "controller_find_node_by_path s path = find_node_in s (nodes s) (\<lambda>nd. nd_object_path nd = Some path)"

definition controller_add_subscription :: "env \<Rightarrow> addr \<Rightarrow> Controller \<Rightarrow> Controller option" where
  "controller_add_subscription e a s =
     do { s1 \<leftarrow> subscription_ref a s;
          let s2 = s1\<lparr>all_subscriptions := all_subscriptions s1 @ [a]\<rparr>;
          sub \<leftarrow> sub_h s2 a;
          if subscription_has_node_wildcard sub
          then foldo (\<lambda>n. node_subscribe e n a) (nodes s2) s2
          else case controller_find_node s2 (sub_node sub) of
                 None \<Rightarrow> Some s2
               | Some n \<Rightarrow> node_subscribe e n a s2 }"

definition controller_remove_subscription :: "env \<Rightarrow> addr \<Rightarrow> Controller \<Rightarrow> Controller option" where
  "controller_remove_subscription e a s =
     do { sub \<leftarrow> sub_h s a;
          s1 \<leftarrow> (if subscription_has_node_wildcard sub
                 then foldo (\<lambda>n. node_unsubscribe e n a) (nodes s) s
                 else case controller_find_node s (sub_node sub) of
                        None \<Rightarrow> Some s
                      | Some n \<Rightarrow> node_unsubscribe e n a s);
          subs \<leftarrow> list_remove a (all_subscriptions s1);
          subscription_unref a (s1\<lparr>all_subscriptions := subs\<rparr>) }"

end
