(* ===== verification/Ctrl_Node.thy ===== *)
theory Ctrl_Node
  imports Ctrl_Subscription
begin

text \<open>
  Node objects of the controller (\<open>node.c\<close>): creation, proxy dependencies, the
  reference counted destruction of nodes and proxy monitors (which call each
  other: a dying node removes its proxy monitors, a dying proxy monitor drops its
  reference to the target node), and the attachment of an agent connection.
\<close>

section \<open>Creation\<close>

definition new_node :: "cstring \<Rightarrow> Node" where
  "new_node name =
     \<lparr>nd_ref = 1, nd_export_slot = False, nd_agent_bus = None, nd_internal_slot = False,
      nd_disconnect_slot = False, nd_metrics_slot = False, nd_name = name,
      nd_required_selinux = None,
      nd_object_path = map_option (assemble_object_path_string NODE_OBJECT_PATH_PREFIX) name,
      nd_peer_ip = None, nd_peer_selinux = None, nd_requests = [], nd_proxy_monitors = [],
      nd_deps = [], nd_targets = [], nd_unit_subs = [], nd_last_seen = 0,
      nd_last_seen_monotonic = 0, nd_is_shutdown = False\<rparr>"

definition node_new :: "cstring \<Rightarrow> Controller \<Rightarrow> addr \<times> Controller" where
  "node_new name s =
     (let n = next_addr s in (n, (set_node n (new_node name) s)\<lparr>next_addr := n + 1\<rparr>))"

definition node_ref :: "addr \<Rightarrow> Controller \<Rightarrow> Controller option" where
  "node_ref n s = do { nd \<leftarrow> node_h s n; Some (set_node n (nd\<lparr>nd_ref := nd_ref nd + 1\<rparr>) s) }"

definition node_set_required_selinux_context :: "addr \<Rightarrow> string \<Rightarrow> Controller \<Rightarrow> Controller option" where
  "node_set_required_selinux_context n ctx s =
     do { nd \<leftarrow> node_h s n; Some (set_node n (nd\<lparr>nd_required_selinux := Some ctx\<rparr>) s) }"

definition node_add_allowed_proxy_target :: "addr \<Rightarrow> string \<Rightarrow> Controller \<Rightarrow> Controller option" where
  "node_add_allowed_proxy_target n target s =
     do { nd \<leftarrow> node_h s n; Some (set_node n (nd\<lparr>nd_targets := nd_targets nd @ [target]\<rparr>) s) }"

definition node_find_allowed_proxy_target :: "Node \<Rightarrow> string \<Rightarrow> cstring" where
  "node_find_allowed_proxy_target nd name = List.find (\<lambda>t. t = name) (nd_targets nd)"

text \<open>The assertion on the name aborts; the result says whether the vtable was added.\<close>

definition node_export :: "env \<Rightarrow> addr \<Rightarrow> Controller \<Rightarrow> (bool \<times> Controller) option" where
  "node_export e n s =
     do { nd \<leftarrow> node_h s n;
          if nd_name nd = None then None
          else if bus_ret e (AddObjectVtable ''Node'') < 0 then Some (False, s)
          else Some (True, set_node n (nd\<lparr>nd_export_slot := True\<rparr>) s) }"

definition node_get_status :: "Node \<Rightarrow> string" where
  "node_get_status nd = (if node_has_agent nd then ''online'' else ''offline'')"

section \<open>Proxy dependencies\<close>

definition node_start_proxy_dependency :: "env \<Rightarrow> Node \<Rightarrow> ProxyDependency \<Rightarrow> Controller \<Rightarrow> Controller" where
  "node_start_proxy_dependency e nd dep s =
     (if \<not> node_has_agent nd then s
      else snd (send_agent_simple_message e nd ''StartDep'' (Some (dep_unit dep)) s))"

definition node_start_proxy_dependency_all :: "env \<Rightarrow> Node \<Rightarrow> Controller \<Rightarrow> Controller" where
  "node_start_proxy_dependency_all e nd s = fold (node_start_proxy_dependency e nd) (nd_deps nd) s"

definition node_stop_proxy_dependency :: "env \<Rightarrow> Node \<Rightarrow> ProxyDependency \<Rightarrow> Controller \<Rightarrow> Controller" where
  "node_stop_proxy_dependency e nd dep s =
     (if \<not> node_has_agent nd then s
      else snd (send_agent_simple_message e nd ''StopDep'' (Some (dep_unit dep)) s))"

definition node_find_proxy_dependency :: "ProxyDependency list \<Rightarrow> string \<Rightarrow> ProxyDependency option" where
  "node_find_proxy_dependency deps unit = List.find (\<lambda>d. dep_unit d = unit) deps"

text \<open>An update in place of the first dependency on \<open>unit\<close>.\<close>

fun update_dep :: "string \<Rightarrow> (ProxyDependency \<Rightarrow> ProxyDependency) \<Rightarrow> ProxyDependency list \<Rightarrow> ProxyDependency list" where
  "update_dep unit f [] = []"
| "update_dep unit f (d # ds) = (if dep_unit d = unit then f d # ds else d # update_dep unit f ds)"

fun remove_dep :: "string \<Rightarrow> ProxyDependency list \<Rightarrow> ProxyDependency list" where
  "remove_dep unit [] = []"
| "remove_dep unit (d # ds) = (if dep_unit d = unit then ds else d # remove_dep unit ds)"

definition node_add_proxy_dependency :: "env \<Rightarrow> addr \<Rightarrow> string \<Rightarrow> Controller \<Rightarrow> (int \<times> Controller) option" where
  "node_add_proxy_dependency e n unit s =
     do { nd \<leftarrow> node_h s n;
          case node_find_proxy_dependency (nd_deps nd) unit of
            Some dep \<Rightarrow>
              (let nd' = nd\<lparr>nd_deps := update_dep unit (\<lambda>d. d\<lparr>dep_n := dep_n d + 1\<rparr>) (nd_deps nd)\<rparr>
               in Some (0, node_start_proxy_dependency e nd' dep (set_node n nd' s)))
          | None \<Rightarrow>
              (let dep = \<lparr>dep_unit = unit, dep_n = 1\<rparr>;
                   nd' = nd\<lparr>nd_deps := nd_deps nd @ [dep]\<rparr>
               in Some (0, node_start_proxy_dependency e nd' dep (set_node n nd' s))) }"

definition node_remove_proxy_dependency :: "env \<Rightarrow> addr \<Rightarrow> string \<Rightarrow> Controller \<Rightarrow> (int \<times> Controller) option" where
  "node_remove_proxy_dependency e n unit s =
     do { nd \<leftarrow> node_h s n;
          case node_find_proxy_dependency (nd_deps nd) unit of
            None \<Rightarrow> Some (- ENOENT, s)
          | Some dep \<Rightarrow>
              if dep_n dep - 1 = 0 then
                Some (0, set_node n (nd\<lparr>nd_deps := remove_dep unit (nd_deps nd)\<rparr>)
                           (node_stop_proxy_dependency e nd dep s))
              else
                Some (0, set_node n (nd\<lparr>nd_deps := update_dep unit (\<lambda>d. d\<lparr>dep_n := dep_n d - 1\<rparr>)
                                                    (nd_deps nd)\<rparr>) s) }"

section \<open>Proxy monitors\<close>

definition proxy_monitor_new :: "addr \<Rightarrow> string \<Rightarrow> string \<Rightarrow> string \<Rightarrow> Controller \<Rightarrow> (addr \<times> Controller) option" where
  "proxy_monitor_new n target_node_name unit path s =
     (let p = next_addr s;
          s1 = s\<lparr>next_addr := p + 1\<rparr>;
          (a, s2) = create_proxy_monitor_subscription p target_node_name s1;
          s3 = set_pm p \<lparr>pm_ref = 1, pm_node = n, pm_sub = a, pm_added_dep = False, pm_unit = unit,
                         pm_target = None, pm_path = path\<rparr> s2
      in map_option (\<lambda>s4. (p, s4)) (subscription_add_unit a unit s3))"

definition proxy_monitor_incref :: "addr \<Rightarrow> Controller \<Rightarrow> Controller option" where
  "proxy_monitor_incref p s =
     do { pm \<leftarrow> pm_h s p; Some (set_pm p (pm\<lparr>pm_ref := pm_ref pm + 1\<rparr>) s) }"

definition proxy_monitor_set_target_node :: "env \<Rightarrow> addr \<Rightarrow> addr \<Rightarrow> Controller \<Rightarrow> (int \<times> Controller) option" where
  "proxy_monitor_set_target_node e p target s =
     do { s1 \<leftarrow> node_ref target s;
          pm \<leftarrow> pm_h s1 p;
          let s2 = set_pm p (pm\<lparr>pm_target := Some target\<rparr>) s1;
          (r, s3) \<leftarrow> node_add_proxy_dependency e target (pm_unit pm) s2;
          if r < 0 then Some (r, s3)
          else do { pm \<leftarrow> pm_h s3 p; Some (0, set_pm p (pm\<lparr>pm_added_dep := True\<rparr>) s3) } }"

definition proxy_monitor_drop_dep :: "env \<Rightarrow> addr \<Rightarrow> Controller \<Rightarrow> Controller option" where
  "proxy_monitor_drop_dep e p s =
     do { pm \<leftarrow> pm_h s p;
          if pm_added_dep pm then
            do { t \<leftarrow> pm_target pm;
                 (r, s1) \<leftarrow> node_remove_proxy_dependency e t (pm_unit pm) s;
                 pm \<leftarrow> pm_h s1 p;
                 Some (set_pm p (pm\<lparr>pm_added_dep := False\<rparr>) s1) }
          else Some s }"

definition proxy_monitor_close :: "env \<Rightarrow> addr \<Rightarrow> Controller \<Rightarrow> Controller option" where
  "proxy_monitor_close e p s = proxy_monitor_drop_dep e p s"

section \<open>Agent connections\<close>

definition node_unset_agent_bus :: "env \<Rightarrow> addr \<Rightarrow> Controller \<Rightarrow> Controller option" where
  "node_unset_agent_bus e n s =
     do { nd \<leftarrow> node_h s n;
          let was_online = (nd_name nd \<noteq> None \<and> node_has_agent nd);
          let s1 = set_node n (nd\<lparr>nd_disconnect_slot := False, nd_internal_slot := False,
                                 nd_metrics_slot := False, nd_agent_bus := None,
                                 nd_peer_selinux := None, nd_peer_ip := None\<rparr>) s;
          Some (if was_online
                then emit e (EmitProperties ''Status'') (NodeStatusProp (str_arg (nd_object_path nd))) s1
                else s1) }"

definition NAMED_NODE_SIGNALS :: "string list" where
  "NAMED_NODE_SIGNALS = [''JobDone'', ''JobStateChanged'', ''UnitPropertiesChanged'', ''UnitNew'',
     ''UnitStateChanged'', ''UnitRemoved'', ''ProxyNew'', ''ProxyRemoved'']"

text \<open>The attachment of a connection.  On a named node the signal matches are added one
  after the other; the first that fails makes the function return false.\<close>

definition node_set_agent_bus :: "env \<Rightarrow> addr \<Rightarrow> bus \<Rightarrow> Controller \<Rightarrow> (bool \<times> Controller) option" where
  "node_set_agent_bus e n b s =
     do { nd \<leftarrow> node_h s n;
          if nd_agent_bus nd \<noteq> None then Some (False, s)
          else do {
            let (r, ip) = peer_ip_address e b;
            let nd1 = nd\<lparr>nd_agent_bus := Some b,
                         nd_peer_ip := (if r < 0 \<and> r \<noteq> - EINVAL then nd_peer_ip nd else ip),
                         nd_peer_selinux := (case peer_context e b of
                             None \<Rightarrow> nd_peer_selinux nd | Some con \<Rightarrow> parse_selinux_type con)\<rparr>;
            let s1 = set_node n nd1 s;
            (ok, nd2, s2) \<leftarrow>
              (case nd_name nd of
                 None \<Rightarrow>
                   if bus_ret e (AddObjectVtable ''internal.Controller'') < 0
                   then map_option (\<lambda>s2. (False, nd1, s2)) (node_unset_agent_bus e n s1)
                   else let nd2 = nd1\<lparr>nd_internal_slot := True\<rparr> in Some (True, nd2, set_node n nd2 s1)
               | Some _ \<Rightarrow>
                   if \<exists>sig \<in> set NAMED_NODE_SIGNALS. bus_ret e (MatchSignal sig) < 0
                   then Some (False, nd1, s1)
                   else let s2 = emit e (EmitProperties ''Status'') (NodeStatusProp (str_arg (nd_object_path nd1))) s1
                        in if bus_ret e (MatchSignal ''Heartbeat'') < 0 then Some (False, nd1, s2)
                           else Some (True, nd1, s2));
            if \<not> ok then Some (False, s2)
            else if bus_ret e (MatchSignal ''Disconnected'') < 0
            then map_option (\<lambda>s3. (False, s3)) (node_unset_agent_bus e n s2)
            else let nd3 = nd2\<lparr>nd_disconnect_slot := True\<rparr>;
                     s3 = set_node n nd3 s2
                 in Some (True, node_start_proxy_dependency_all e nd3 (node_send_agent_subscribe_all e nd3 s3)) } }"

section \<open>Destruction\<close>

text \<open>Freeing the subscription index asserts that no entry is left with subscribers.\<close>

definition unit_subscriptions_free_ok :: "(string, UnitSubscriptions) hmap \<Rightarrow> bool" where
  "unit_subscriptions_free_ok m = (\<forall>(u, us) \<in> set m. us_subs us = [])"

datatype unref_call =
    NodeUnref addr
  | RemoveProxyMonitor addr addr
  | ProxyMonitorUnref addr

lemma foldo_mono [partial_function_mono]:
  assumes "\<And>x s. mono_option (\<lambda>f. B x s f)"
  shows "mono_option (\<lambda>f. foldo (\<lambda>x s. B x s f) xs s)"
proof (induction xs arbitrary: s)
  case Nil
  then show ?case by (simp add: option.const_mono)
next
  case (Cons x xs)
  show ?case using bind_mono [OF assms Cons] by simp
qed

text \<open>The three mutually recursive functions as one.\<close>

partial_function (option) unref_run :: "env \<Rightarrow> unref_call \<Rightarrow> Controller \<Rightarrow> Controller option" where
  "unref_run e c s =
     (case c of
        NodeUnref n \<Rightarrow>
          do { nd \<leftarrow> node_h s n;
               if nd_ref nd - 1 \<noteq> 0 then Some (set_node n (nd\<lparr>nd_ref := nd_ref nd - 1\<rparr>) s)
               else do {
                 s1 \<leftarrow> foldo (\<lambda>p s. unref_run e (RemoveProxyMonitor n p) s) (nd_proxy_monitors nd)
                         (set_node n (nd\<lparr>nd_ref := 0\<rparr>) s);
                 s2 \<leftarrow> node_unset_agent_bus e n s1;
                 nd2 \<leftarrow> node_h s2 n;
                 if unit_subscriptions_free_ok (nd_unit_subs nd2)
                 then Some (s2\<lparr>node_h := (node_h s2)(n := None)\<rparr>) else None } }
      | RemoveProxyMonitor n p \<Rightarrow>
          do { s1 \<leftarrow> proxy_monitor_close e p s;
               pm \<leftarrow> pm_h s1 p;
               s2 \<leftarrow> controller_remove_subscription e (pm_sub pm) s1;
               nd \<leftarrow> node_h s2 n;
               pms \<leftarrow> list_remove p (nd_proxy_monitors nd);
               unref_run e (ProxyMonitorUnref p) (set_node n (nd\<lparr>nd_proxy_monitors := pms\<rparr>) s2) }
      | ProxyMonitorUnref p \<Rightarrow>
          do { pm \<leftarrow> pm_h s p;
               if pm_ref pm - 1 \<noteq> 0 then Some (set_pm p (pm\<lparr>pm_ref := pm_ref pm - 1\<rparr>) s)
               else do {
                 s2 \<leftarrow> (case pm_target pm of
                           None \<Rightarrow> Some (set_pm p (pm\<lparr>pm_ref := 0\<rparr>) s)
                         | Some t \<Rightarrow>
                             do { s1 \<leftarrow> proxy_monitor_drop_dep e p (set_pm p (pm\<lparr>pm_ref := 0\<rparr>) s);
                                  unref_run e (NodeUnref t) s1 });
                 s3 \<leftarrow> subscription_unref (pm_sub pm) s2;
                 Some (s3\<lparr>pm_h := (pm_h s3)(p := None)\<rparr>) } })"

declare unref_run.simps [code]

definition node_unref :: "env \<Rightarrow> addr \<Rightarrow> Controller \<Rightarrow> Controller option" where
  "node_unref e n = unref_run e (NodeUnref n)"

definition node_remove_proxy_monitor :: "env \<Rightarrow> addr \<Rightarrow> addr \<Rightarrow> Controller \<Rightarrow> Controller option" where
  "node_remove_proxy_monitor e n p = unref_run e (RemoveProxyMonitor n p)"

definition proxy_monitor_unref :: "env \<Rightarrow> addr \<Rightarrow> Controller \<Rightarrow> Controller option" where
  "proxy_monitor_unref e p = unref_run e (ProxyMonitorUnref p)"

end
