(* ===== verification/Ctrl_Request.thy ===== *)
theory Ctrl_Request
  imports Ctrl_Node
begin

text \<open>
  Jobs (\<open>job.c\<close>, the job list of \<open>controller.c\<close>, \<open>metrics.c\<close>) and requests to agents:
  the \<open>AgentRequest\<close> of \<open>node.c\<close> with the callbacks that answer the client, the job
  set-up of the unit life cycle methods, and the fleet requests of \<open>controller.c\<close> that
  ask all online nodes and answer once.
\<close>

section \<open>Jobs\<close>

definition JOB_OBJECT_PATH_PREFIX :: string where
  "JOB_OBJECT_PATH_PREFIX = ''/org/eclipse/bluechi/job''"

definition job_new :: "addr \<Rightarrow> string \<Rightarrow> string \<Rightarrow> Controller \<Rightarrow> addr \<times> Controller" where
  "job_new n unit type s =
     (let j = next_addr s;
          i = next_job_id s + 1
      in (j, (set_job j \<lparr>job_refs = 1, job_node = n, job_st = JOB_WAITING, job_id = i,
                job_path = JOB_OBJECT_PATH_PREFIX @ ''/'' @ decimal (unat i), job_type = type,
                job_unit = unit, job_export_slot = False, job_start_micros = 0, job_end_micros = 0\<rparr> s)
               \<lparr>next_addr := j + 1, next_job_id := i\<rparr>))"

definition job_ref :: "addr \<Rightarrow> Controller \<Rightarrow> Controller option" where
  "job_ref j s = do { jb \<leftarrow> job_h s j; Some (set_job j (jb\<lparr>job_refs := job_refs jb + 1\<rparr>) s) }"

definition job_unref :: "addr \<Rightarrow> Controller \<Rightarrow> Controller option" where
  "job_unref j s =
     do { jb \<leftarrow> job_h s j;
          if job_refs jb - 1 \<noteq> 0 then Some (set_job j (jb\<lparr>job_refs := job_refs jb - 1\<rparr>) s)
          else Some (s\<lparr>job_h := (job_h s)(j := None)\<rparr>) }"

definition job_export :: "env \<Rightarrow> addr \<Rightarrow> Controller \<Rightarrow> (bool \<times> Controller) option" where
  "job_export e j s =
     do { jb \<leftarrow> job_h s j;
          nd \<leftarrow> node_h s (job_node jb);
          if bus_ret e (AddObjectVtable ''Job'') < 0 then Some (False, s)
          else Some (True, set_job j (jb\<lparr>job_export_slot := True\<rparr>) s) }"

definition job_set_state :: "env \<Rightarrow> addr \<Rightarrow> JobState \<Rightarrow> Controller \<Rightarrow> Controller option" where
  "job_set_state e j st s =
     do { jb \<leftarrow> job_h s j;
          nd \<leftarrow> node_h s (job_node jb);
          Some (emit e (EmitProperties ''State'') (JobStateProp (job_path jb))
                  (set_job j (jb\<lparr>job_st := st\<rparr>) s)) }"

definition controller_add_job :: "env \<Rightarrow> addr \<Rightarrow> Controller \<Rightarrow> (bool \<times> Controller) option" where
  "controller_add_job e j s =
     do { (ok, s1) \<leftarrow> job_export e j s;
          if \<not> ok then Some (False, s1)
          else do {
            jb \<leftarrow> job_h s1 j;
            if bus_ret e (EmitSignal ''JobNew'') < 0 then Some (False, s1)
            else do {
              s2 \<leftarrow> job_ref j (put (JobNew (job_id jb) (job_path jb)) s1);
              Some (True, s2\<lparr>jobs := jobs s2 @ [j]\<rparr>) } } }"

definition node_method_get_unit_uint64_property_sync :: "env \<Rightarrow> Node \<Rightarrow> string \<Rightarrow> string \<Rightarrow> int \<times> 64 word" where
  "node_method_get_unit_uint64_property_sync e nd unit prop =
     (case nd_agent_bus nd of None \<Rightarrow> (- EINVAL, 0) | Some b \<Rightarrow> unit_property e b unit prop)"

definition metrics_produce_job_report :: "env \<Rightarrow> addr \<Rightarrow> Controller \<Rightarrow> Controller option" where
  "metrics_produce_job_report e j s =
     do { jb \<leftarrow> job_h s j;
          nd \<leftarrow> node_h s (job_node jb);
          let (r1, inactive_exit) =
            node_method_get_unit_uint64_property_sync e nd (job_unit jb) ''InactiveExitTimestampMonotonic'';
          let (r2, active_enter) =
            node_method_get_unit_uint64_property_sync e nd (job_unit jb) ''ActiveEnterTimestampMonotonic'';
          if r1 < 0 then Some s
          else if r2 < 0 then Some s
          else Some (emit e (EmitSignal ''StartUnitJobMetrics'')
                 (StartUnitJobMetrics (str_arg (nd_name nd)) (job_path jb) (job_unit jb)
                    (job_end_micros jb - job_start_micros jb) (active_enter - inactive_exit)) s) }"

definition controller_remove_job :: "env \<Rightarrow> addr \<Rightarrow> string \<Rightarrow> Controller \<Rightarrow> Controller option" where
  "controller_remove_job e j result s =
     do { jb \<leftarrow> job_h s j;
          nd \<leftarrow> node_h s (job_node jb);
          let s1 = emit e (EmitSignal ''JobRemoved'')
                 (JobRemoved (job_id jb) (job_path jb) (str_arg (nd_name nd)) (job_unit jb) result) s;
          js \<leftarrow> list_remove j (jobs s1);
          let s2 = s1\<lparr>jobs := js\<rparr>;
          s3 \<leftarrow> (if metrics_enabled s2 \<and> job_type jb = ''start'' then metrics_produce_job_report e j s2
                 else Some s2);
          job_unref j s3 }"

text \<open>The first job of the list with the id; reading a freed job aborts.\<close>

fun find_job :: "Controller \<Rightarrow> addr list \<Rightarrow> 32 word \<Rightarrow> addr option option" where
  "find_job s [] i = Some None"
| "find_job s (j # js) i =
     do { jb \<leftarrow> job_h s j; if job_id jb = i then Some (Some j) else find_job s js i }"

definition controller_job_state_changed :: "env \<Rightarrow> 32 word \<Rightarrow> string \<Rightarrow> Controller \<Rightarrow> Controller option" where
  "controller_job_state_changed e i state s =
     do { f \<leftarrow> find_job s (jobs s) i;
          case f of None \<Rightarrow> Some s
          | Some j \<Rightarrow> job_set_state e j (job_state_from_string state) s }"

definition controller_finish_job :: "env \<Rightarrow> 32 word \<Rightarrow> string \<Rightarrow> Controller \<Rightarrow> Controller option" where
  "controller_finish_job e i result s =
     do { f \<leftarrow> find_job s (jobs s) i;
          case f of None \<Rightarrow> Some s
          | Some j \<Rightarrow>
              do { jb \<leftarrow> job_h s j;
                   controller_remove_job e j result
                     (if metrics_enabled s then set_job j (jb\<lparr>job_end_micros := time_micros e\<rparr>) s else s) } }"

section \<open>Job set-up\<close>

definition set_setup :: "addr \<Rightarrow> JobSetup \<Rightarrow> Controller \<Rightarrow> Controller" where
  "set_setup a v s = s\<lparr>setup_h := (setup_h s)(a := Some v)\<rparr>"

definition job_setup_new :: "msg_id \<Rightarrow> addr \<Rightarrow> string \<Rightarrow> string \<Rightarrow> Controller \<Rightarrow> addr \<times> Controller" where
  "job_setup_new m n unit type s =
     (let a = next_addr s;
          (j, s1) = job_new n unit type (s\<lparr>next_addr := a + 1\<rparr>)
      in (a, set_setup a \<lparr>js_ref = 1, js_message = m, js_job = j\<rparr> s1))"

definition job_setup_ref :: "addr \<Rightarrow> Controller \<Rightarrow> Controller option" where
  "job_setup_ref a s = do { js \<leftarrow> setup_h s a; Some (set_setup a (js\<lparr>js_ref := js_ref js + 1\<rparr>) s) }"

definition job_setup_unref :: "addr \<Rightarrow> Controller \<Rightarrow> Controller option" where
  "job_setup_unref a s =
     do { js \<leftarrow> setup_h s a;
          if js_ref js - 1 \<noteq> 0 then Some (set_setup a (js\<lparr>js_ref := js_ref js - 1\<rparr>) s)
          else do { s1 \<leftarrow> job_unref (js_job js) s;
                    Some (s1\<lparr>setup_h := (setup_h s1)(a := None)\<rparr>) } }"

section \<open>Requests\<close>

definition agent_request_ref :: "addr \<Rightarrow> Controller \<Rightarrow> Controller option" where
  "agent_request_ref r s = do { rq \<leftarrow> req_h s r; Some (set_req r (rq\<lparr>req_ref := req_ref rq + 1\<rparr>) s) }"

fun free_userdata :: "request_cb \<Rightarrow> Controller \<Rightarrow> Controller option" where
  "free_userdata (CbLifecycle a) s = job_setup_unref a s"
| "free_userdata _ s = Some s"

definition agent_request_unref :: "env \<Rightarrow> addr \<Rightarrow> Controller \<Rightarrow> Controller option" where
  "agent_request_unref e r s =
     do { rq \<leftarrow> req_h s r;
          if req_ref rq - 1 \<noteq> 0 then Some (set_req r (rq\<lparr>req_ref := req_ref rq - 1\<rparr>) s)
          else do {
            s1 \<leftarrow> free_userdata (req_cb rq) s;
            nd \<leftarrow> node_h s1 (req_node rq);
            reqs \<leftarrow> list_remove r (nd_requests nd);
            s2 \<leftarrow> node_unref e (req_node rq) (set_node (req_node rq) (nd\<lparr>nd_requests := reqs\<rparr>) s1);
            Some (s2\<lparr>req_h := (req_h s2)(r := None)\<rparr>) } }"

text \<open>The request, or the error of creating its message.\<close>

definition node_create_request ::
    "env \<Rightarrow> addr \<Rightarrow> string \<Rightarrow> string list \<Rightarrow> request_cb \<Rightarrow> Controller \<Rightarrow> ((int + addr) \<times> Controller) option" where
  "node_create_request e n method args cb s =
     do { nd \<leftarrow> node_h s n;
          if nd_agent_bus nd = None then Some (Inl (- EINVAL), s)
          else if bus_ret e (NewMethodCall method) < 0 then Some (Inl (bus_ret e (NewMethodCall method)), s)
          else let r = next_addr s
               in Some (Inr r,
                   (set_req r \<lparr>req_ref = 1, req_node = n, req_method = method, req_args = args, req_cb = cb,
                               req_started = False, req_cancelled = False\<rparr>
                     (set_node n (nd\<lparr>nd_ref := nd_ref nd + 1, nd_requests := nd_requests nd @ [r]\<rparr>) s))
                   \<lparr>next_addr := r + 1\<rparr>) }"

definition agent_request_start :: "env \<Rightarrow> addr \<Rightarrow> Controller \<Rightarrow> (int \<times> Controller) option" where
  "agent_request_start e r s =
     do { rq \<leftarrow> req_h s r;
          nd \<leftarrow> node_h s (req_node rq);
          case nd_agent_bus nd of
            None \<Rightarrow> Some (- EINVAL, s)
          | Some b \<Rightarrow>
              if bus_ret e (CallAsync (req_method rq)) < 0 then Some (bus_ret e (CallAsync (req_method rq)), s)
              else Some (1, put (AgentCall b (req_method rq) (req_args rq))
                              (set_req r (rq\<lparr>req_ref := req_ref rq + 1, req_started := True\<rparr>) s)) }"

section \<open>Fleet requests\<close>

definition set_fleet :: "addr \<Rightarrow> AgentFleetRequest \<Rightarrow> Controller \<Rightarrow> Controller" where
  "set_fleet f v s = s\<lparr>fleet_h := (fleet_h s)(f := Some v)\<rparr>"

text \<open>The release of one entry: the pointers are cleared as they are released.\<close>

definition set_sub_req :: "addr \<Rightarrow> nat \<Rightarrow> (SubReq \<Rightarrow> SubReq) \<Rightarrow> Controller \<Rightarrow> Controller option" where
  "set_sub_req f i g s =
     do { fr \<leftarrow> fleet_h s f;
          if i < length (fr_sub_req fr)
          then Some (set_fleet f (fr\<lparr>fr_sub_req := (fr_sub_req fr)[i := g (fr_sub_req fr ! i)]\<rparr>) s)
          else None }"

definition free_sub_req :: "env \<Rightarrow> addr \<Rightarrow> nat \<Rightarrow> Controller \<Rightarrow> Controller option" where
  "free_sub_req e f i s =
     do { fr \<leftarrow> fleet_h s f;
          sr \<leftarrow> (if i < length (fr_sub_req fr) then Some (fr_sub_req fr ! i) else None);
          s1 \<leftarrow> (case sr_node sr of
                    None \<Rightarrow> Some s
                  | Some n \<Rightarrow> do { s1 \<leftarrow> node_unref e n s; set_sub_req f i (\<lambda>sr. sr\<lparr>sr_node := None\<rparr>) s1 });
          case sr_agent_req sr of
            None \<Rightarrow> Some s1
          | Some r \<Rightarrow> do { s2 \<leftarrow> agent_request_unref e r s1;
                           set_sub_req f i (\<lambda>sr. sr\<lparr>sr_agent_req := None\<rparr>) s2 } }"

definition agent_fleet_request_free :: "env \<Rightarrow> addr \<Rightarrow> Controller \<Rightarrow> Controller option" where
  "agent_fleet_request_free e f s =
     do { fr \<leftarrow> fleet_h s f;
          s1 \<leftarrow> foldo (free_sub_req e f) [0..<length (fr_sub_req fr)] s;
          Some (s1\<lparr>fleet_h := (fleet_h s1)(f := None)\<rparr>) }"

text \<open>The reply of a list method: the answers of the nodes in order; the first error
  answer makes the whole request fail.\<close>

fun encode_reply :: "Controller \<Rightarrow> SubReq list \<Rightarrow> (string \<times> nat) list \<Rightarrow> (int + (string \<times> nat) list) option" where
  "encode_reply s [] acc = Some (Inr acc)"
| "encode_reply s (sr # srs) acc =
     do { n \<leftarrow> sr_node sr;
          nd \<leftarrow> node_h s n;
          case sr_m sr of
            None \<Rightarrow> encode_reply s srs acc
          | Some (AnswerError name errno) \<Rightarrow> Some (Inl (- errno))
          | Some (AnswerBody b) \<Rightarrow> encode_reply s srs (acc @ [(str_arg (nd_name nd), b)]) }"

definition SD_BUS_ERROR_FAILED :: string where
  "SD_BUS_ERROR_FAILED = ''org.freedesktop.DBus.Error.Failed''"

definition agent_fleet_request_done :: "env \<Rightarrow> addr \<Rightarrow> Controller \<Rightarrow> Controller option" where
  "agent_fleet_request_done e f s =
     do { fr \<leftarrow> fleet_h s f;
          s1 \<leftarrow> (if bus_ret e NewMethodReturn < 0
                 then Some (put (Reply (fr_message fr)
                        (ReplyError SD_BUS_ERROR_FAILED ''Failed to create a reply message'')) s)
                 else do {
                   enc \<leftarrow> (if bus_ret e AppendOrCopy < 0 then Some (Inl (bus_ret e AppendOrCopy))
                          else encode_reply s (fr_sub_req fr) []);
                   Some (case enc of
                      Inl r \<Rightarrow> put (Reply (fr_message fr)
                        (ReplyError SD_BUS_ERROR_FAILED ''Request to at least one node failed'')) s
                    | Inr ans \<Rightarrow> emit e SendReply (Reply (fr_message fr) (ReplyFleet ans)) s) });
          agent_fleet_request_free e f s1 }"

definition agent_fleet_request_maybe_done :: "env \<Rightarrow> addr \<Rightarrow> Controller \<Rightarrow> Controller option" where
  "agent_fleet_request_maybe_done e f s =
     do { fr \<leftarrow> fleet_h s f;
          if fr_n_done fr = int (length (fr_sub_req fr)) then agent_fleet_request_done e f s else Some s }"

fun record_answer :: "addr \<Rightarrow> answer \<Rightarrow> SubReq list \<Rightarrow> SubReq list option" where
  "record_answer r ans [] = None"
| "record_answer r ans (sr # srs) =
     (if sr_agent_req sr = Some r then Some (sr\<lparr>sr_m := Some ans\<rparr> # srs)
      else map_option (Cons sr) (record_answer r ans srs))"

definition agent_fleet_request_callback :: "env \<Rightarrow> addr \<Rightarrow> addr \<Rightarrow> answer \<Rightarrow> Controller \<Rightarrow> Controller option" where
  "agent_fleet_request_callback e f r ans s =
     do { fr \<leftarrow> fleet_h s f;
          srs \<leftarrow> record_answer r ans (fr_sub_req fr);
          agent_fleet_request_maybe_done e f
            (set_fleet f (fr\<lparr>fr_sub_req := srs, fr_n_done := fr_n_done fr + 1\<rparr>) s) }"

section \<open>Callbacks\<close>

text \<open>\<open>method_list_units_callback\<close>, \<open>method_list_unit_files_callback\<close> and the passthrough
  callback: forward the answer to the client.\<close>

definition forward_callback :: "env \<Rightarrow> bool \<Rightarrow> msg_id \<Rightarrow> answer \<Rightarrow> Controller \<Rightarrow> Controller" where
  "forward_callback e copy m ans s =
     (case ans of
        AnswerError name errno \<Rightarrow> put (Reply m (ReplyError name ''forwarded'')) s
      | AnswerBody b \<Rightarrow>
          if bus_ret e NewMethodReturn < 0
          then put (Reply m (ReplyError SD_BUS_ERROR_FAILED ''Failed to create a reply message'')) s
          else if copy \<and> bus_ret e AppendOrCopy < 0
          then put (Reply m (ReplyError SD_BUS_ERROR_FAILED ''Failed to copy the bus message'')) s
          else emit e SendReply (Reply m (if copy then ReplyBody b else ReplyOk)) s)"

text \<open>The failure of \<open>controller_add_job\<close> is answered on the agent's message, not on
  the client's: the client gets no reply.\<close>

definition unit_lifecycle_method_callback :: "env \<Rightarrow> addr \<Rightarrow> answer \<Rightarrow> Controller \<Rightarrow> Controller option" where
  "unit_lifecycle_method_callback e a ans s =
     do { js \<leftarrow> setup_h s a;
          case ans of
            AnswerError name errno \<Rightarrow> Some (put (Reply (js_message js) (ReplyError name ''forwarded'')) s)
          | AnswerBody b \<Rightarrow>
              do { (ok, s1) \<leftarrow> controller_add_job e (js_job js) s;
                   if \<not> ok then Some s1
                   else do { jb \<leftarrow> job_h s1 (js_job js);
                             Some (put (Reply (js_message js) (ReplyPath (job_path jb))) s1) } } }"

fun run_callback :: "env \<Rightarrow> addr \<Rightarrow> request_cb \<Rightarrow> answer \<Rightarrow> Controller \<Rightarrow> Controller option" where
  "run_callback e r (CbForward m) ans s = Some (forward_callback e True m ans s)"
| "run_callback e r (CbForwardOk m) ans s = Some (forward_callback e False m ans s)"
| "run_callback e r (CbLifecycle a) ans s = unit_lifecycle_method_callback e a ans s"
| "run_callback e r (CbJobCancel m) ans s = Some s"
| "run_callback e r (CbFleet f) ans s = agent_fleet_request_callback e f r ans s"

definition agent_request_callback :: "env \<Rightarrow> addr \<Rightarrow> answer \<Rightarrow> Controller \<Rightarrow> Controller option" where
  "agent_request_callback e r ans s =
     do { rq \<leftarrow> req_h s r;
          s1 \<leftarrow> (if req_cancelled rq then Some s else run_callback e r (req_cb rq) ans s);
          agent_request_unref e r s1 }"

definition agent_request_cancel :: "env \<Rightarrow> addr \<Rightarrow> Controller \<Rightarrow> Controller option" where
  "agent_request_cancel e r s =
     do { rq \<leftarrow> req_h s r;
          s1 \<leftarrow> run_callback e r (req_cb rq) (AnswerError SD_BUS_ERROR_FAILED EACCES)
                  (set_req r (rq\<lparr>req_cancelled := True\<rparr>) s);
          agent_request_unref e r s1 }"

definition node_shutdown :: "env \<Rightarrow> addr \<Rightarrow> Controller \<Rightarrow> Controller option" where
  "node_shutdown e n s =
     do { nd \<leftarrow> node_h s n;
          foldo (agent_request_cancel e) (nd_requests nd) (set_node n (nd\<lparr>nd_is_shutdown := True\<rparr>) s) }"

end
