(* ===== verification/Ctrl_Conn.thy ===== *)
theory Ctrl_Conn
  imports Ctrl_Request
begin

text \<open>
  Connections and events of the controller: the node lists and counters, the system
  status, registration and disconnection of agents, the signals agents send, proxies,
  heartbeats (\<open>node.c\<close>, \<open>controller.c\<close>).
\<close>

section \<open>Node lists and the system status\<close>

definition controller_add_node :: "cstring \<Rightarrow> Controller \<Rightarrow> addr \<times> Controller" where
  "controller_add_node name s =
     (let (n, s1) = node_new name s
      in (n, if name \<noteq> None
             then s1\<lparr>number_of_nodes := number_of_nodes s1 + 1, nodes := nodes s1 @ [n]\<rparr>
             else s1\<lparr>anonymous_nodes := anonymous_nodes s1 @ [n]\<rparr>))"

definition controller_get_system_status :: "Controller \<Rightarrow> string" where
  "controller_get_system_status s =
     (if number_of_nodes_online s = 0 then ''down''
      else if number_of_nodes_online s = number_of_nodes s then ''up''
      else ''degraded'')"

definition controller_check_system_status :: "env \<Rightarrow> int \<Rightarrow> Controller \<Rightarrow> Controller" where
  "controller_check_system_status e prev s =
     (let diff = number_of_nodes_online s - prev
      in if prev = 0 \<or> prev = number_of_nodes s \<or> prev + diff = number_of_nodes s \<or> prev + diff = 0
         then emit e (EmitProperties ''SystemStatus'') SystemStatusProp s
         else s)"

definition controller_remove_node :: "env \<Rightarrow> addr \<Rightarrow> Controller \<Rightarrow> Controller option" where
  "controller_remove_node e n s =
     do { nd \<leftarrow> node_h s n;
          s1 \<leftarrow> (if nd_name nd \<noteq> None
                 then map_option (\<lambda>ns. s\<lparr>number_of_nodes := number_of_nodes s - 1, nodes := ns\<rparr>)
                        (list_remove n (nodes s))
                 else map_option (\<lambda>ns. s\<lparr>anonymous_nodes := ns\<rparr>) (list_remove n (anonymous_nodes s)));
          s2 \<leftarrow> (if node_is_online nd
                 then map_option (\<lambda>s2. s2\<lparr>number_of_nodes_online := number_of_nodes_online s2 - 1\<rparr>)
                        (node_shutdown e n s1)
                 else Some s1);
          node_unref e n s2 }"

text \<open>A new connection, once the peer bus exists: an anonymous node that can only register.\<close>

definition controller_accept_node_connection :: "env \<Rightarrow> bus \<Rightarrow> Controller \<Rightarrow> (int \<times> Controller) option" where
  "controller_accept_node_connection e b s =
     (let (n, s1) = controller_add_node None s
      in do { (ok, s2) \<leftarrow> node_set_agent_bus e n b s1;
              if ok then Some (0, s2)
              else map_option (\<lambda>s3. (- 1, s3)) (controller_remove_node e n s2) })"

section \<open>Metrics on a node\<close>

definition metrics_node_signal_matching_register :: "env \<Rightarrow> addr \<Rightarrow> Controller \<Rightarrow> (bool \<times> Controller) option" where
  "metrics_node_signal_matching_register e n s =
     do { nd \<leftarrow> node_h s n;
          if bus_ret e (MatchSignal ''AgentJobMetrics'') < 0 then Some (False, s)
          else Some (True, set_node n (nd\<lparr>nd_metrics_slot := True\<rparr>) s) }"

definition node_enable_metrics :: "env \<Rightarrow> addr \<Rightarrow> Controller \<Rightarrow> Controller option" where
  "node_enable_metrics e n s =
     do { nd \<leftarrow> node_h s n;
          if \<not> node_has_agent nd then Some s
          else map_option snd (metrics_node_signal_matching_register e n
                 (snd (send_agent_simple_message e nd ''EnableMetrics'' None s))) }"

definition node_disable_metrics :: "env \<Rightarrow> addr \<Rightarrow> Controller \<Rightarrow> Controller option" where
  "node_disable_metrics e n s =
     do { nd \<leftarrow> node_h s n;
          if \<not> node_has_agent nd then Some s
          else Some (set_node n (nd\<lparr>nd_metrics_slot := False\<rparr>)
                 (snd (send_agent_simple_message e nd ''DisableMetrics'' None s))) }"

definition node_metrics_match_agent_job ::
    "env \<Rightarrow> addr \<Rightarrow> string \<Rightarrow> string \<Rightarrow> 64 word \<Rightarrow> Controller \<Rightarrow> Controller option" where
  "node_metrics_match_agent_job e n unit method t s =
     do { nd \<leftarrow> node_h s n;
          Some (emit e (EmitSignal ''AgentJobMetrics'')
                  (AgentJobMetrics (str_arg (nd_name nd)) unit method t) s) }"

section \<open>Registration\<close>

definition SD_BUS_ERROR_ADDRESS_IN_USE :: string where
  "SD_BUS_ERROR_ADDRESS_IN_USE = ''org.freedesktop.DBus.Error.AddressInUse''"
definition SD_BUS_ERROR_SERVICE_UNKNOWN :: string where
  "SD_BUS_ERROR_SERVICE_UNKNOWN = ''org.freedesktop.DBus.Error.ServiceUnknown''"
definition SD_BUS_ERROR_ACCESS_DENIED :: string where
  "SD_BUS_ERROR_ACCESS_DENIED = ''org.freedesktop.DBus.Error.AccessDenied''"
definition SD_BUS_ERROR_INVALID_ARGS :: string where
  "SD_BUS_ERROR_INVALID_ARGS = ''org.freedesktop.DBus.Error.InvalidArgs''"

definition node_method_register :: "env \<Rightarrow> addr \<Rightarrow> string \<Rightarrow> Controller \<Rightarrow> (reply \<times> Controller) option" where
  "node_method_register e n name s =
     do { nd \<leftarrow> node_h s n;
          if nd_name nd \<noteq> None
          then Some (ReplyError SD_BUS_ERROR_ADDRESS_IN_USE ''Can't register twice'', s)
          else case controller_find_node s name of
            None \<Rightarrow> Some (ReplyError SD_BUS_ERROR_SERVICE_UNKNOWN ''Unexpected node name'', s)
          | Some nn \<Rightarrow>
              do { named \<leftarrow> node_h s nn;
                   if nd_required_selinux named \<noteq> None \<and>
                      (nd_peer_selinux nd = None \<or> nd_peer_selinux nd \<noteq> nd_required_selinux named)
                   then Some (ReplyError SD_BUS_ERROR_ACCESS_DENIED ''Node name not allowed'', s)
                   else if node_has_agent named
                   then Some (ReplyError SD_BUS_ERROR_ADDRESS_IN_USE ''The node is already connected'', s)
                   else do {
                     b \<leftarrow> nd_agent_bus nd;
                     let s1 = set_node nn (named\<lparr>nd_last_seen := time_micros e,
                                               nd_last_seen_monotonic := time_micros_monotonic e\<rparr>) s;
                     (ok, s2) \<leftarrow> node_set_agent_bus e nn b s1;
                     if \<not> ok
                     then Some (ReplyError SD_BUS_ERROR_FAILED ''Internal error: Couldn't set agent bus'', s2)
                     else do {
                       s3 \<leftarrow> (if metrics_enabled s2 then node_enable_metrics e nn s2 else Some s2);
                       s4 \<leftarrow> node_unset_agent_bus e n s3;
                       let prev = number_of_nodes_online s4;
                       Some (ReplyOk, controller_check_system_status e prev
                               (s4\<lparr>number_of_nodes_online := prev + 1\<rparr>)) } } } }"

section \<open>Signals from the agent\<close>

definition set_usubs :: "addr \<Rightarrow> string \<Rightarrow> (UnitSubscriptions \<Rightarrow> UnitSubscriptions) \<Rightarrow> Controller \<Rightarrow> Controller option" where
  "set_usubs n unit f s =
     do { nd \<leftarrow> node_h s n;
          Some (case map_of (nd_unit_subs nd) unit of
                  None \<Rightarrow> s
                | Some us \<Rightarrow> set_node n (nd\<lparr>nd_unit_subs := AList.update unit (f us) (nd_unit_subs nd)\<rparr>) s) }"

definition node_name_arg :: "Controller \<Rightarrow> addr \<Rightarrow> string" where
  "node_name_arg s n = (case node_h s n of None \<Rightarrow> [] | Some nd \<Rightarrow> str_arg (nd_name nd))"

definition node_match_job_state_changed :: "env \<Rightarrow> 32 word \<Rightarrow> string \<Rightarrow> Controller \<Rightarrow> Controller option" where
  "node_match_job_state_changed e i state s = controller_job_state_changed e i state s"

definition node_match_job_done :: "env \<Rightarrow> 32 word \<Rightarrow> string \<Rightarrow> Controller \<Rightarrow> Controller option" where
  "node_match_job_done e i result s = controller_finish_job e i result s"

definition node_match_unit_properties_changed ::
    "env \<Rightarrow> addr \<Rightarrow> string \<Rightarrow> string \<Rightarrow> prop_item list \<Rightarrow> Controller \<Rightarrow> Controller option" where
  "node_match_unit_properties_changed e n unit intf props s =
     notify_unit e n unit (UnitPropertiesChanged (node_name_arg s n) unit intf props) s"

definition node_match_unit_new :: "env \<Rightarrow> addr \<Rightarrow> string \<Rightarrow> string \<Rightarrow> Controller \<Rightarrow> Controller option" where
  "node_match_unit_new e n unit reason s =
     do { s1 \<leftarrow> set_usubs n unit (\<lambda>us.
                  if is_wildcard unit
                  then us\<lparr>us_loaded := True, us_active_state := UNIT_ACTIVE, us_substate := Some ''running''\<rparr>
                  else us\<lparr>us_loaded := True\<rparr>) s;
          notify_unit e n unit (UnitNew (node_name_arg s1 n) unit reason) s1 }"

definition node_match_unit_state_changed ::
    "env \<Rightarrow> addr \<Rightarrow> string \<Rightarrow> string \<Rightarrow> string \<Rightarrow> string \<Rightarrow> Controller \<Rightarrow> Controller option" where
  "node_match_unit_state_changed e n unit active_state substate reason s =
     do { s1 \<leftarrow> set_usubs n unit (\<lambda>us. us\<lparr>us_loaded := True,
                  us_active_state := active_state_from_string active_state,
                  us_substate := Some substate\<rparr>) s;
          notify_unit e n unit
            (UnitStateChanged (node_name_arg s1 n) unit active_state substate reason) s1 }"

definition node_match_unit_removed :: "env \<Rightarrow> addr \<Rightarrow> string \<Rightarrow> Controller \<Rightarrow> Controller option" where
  "node_match_unit_removed e n unit s =
     do { s1 \<leftarrow> set_usubs n unit (\<lambda>us. us\<lparr>us_loaded := False\<rparr>) s;
          notify_unit e n unit (UnitRemoved (node_name_arg s1 n) unit ''real'') s1 }"

definition node_match_heartbeat :: "env \<Rightarrow> addr \<Rightarrow> Controller \<Rightarrow> Controller option" where
  "node_match_heartbeat e n s =
     do { nd \<leftarrow> node_h s n;
          Some (if time_micros e = USEC_INFINITY \<or> time_micros_monotonic e = USEC_INFINITY then s
                else set_node n (nd\<lparr>nd_last_seen := time_micros e,
                                   nd_last_seen_monotonic := time_micros_monotonic e\<rparr>) s) }"

section \<open>Proxies\<close>

text \<open>The search compares the names of the target nodes; it aborts on a proxy monitor
  without a target.\<close>

fun find_proxy_monitor_in :: "Controller \<Rightarrow> addr list \<Rightarrow> string \<Rightarrow> string \<Rightarrow> addr option option" where
  "find_proxy_monitor_in s [] target unit = Some None"
| "find_proxy_monitor_in s (p # ps) target unit =
     do { pm \<leftarrow> pm_h s p;
          t \<leftarrow> pm_target pm;
          tn \<leftarrow> node_h s t;
          if nd_name tn = Some target \<and> pm_unit pm = unit then Some (Some p)
          else find_proxy_monitor_in s ps target unit }"

definition node_find_proxy_monitor :: "Controller \<Rightarrow> addr \<Rightarrow> string \<Rightarrow> string \<Rightarrow> addr option option" where
  "node_find_proxy_monitor s n target unit =
     do { nd \<leftarrow> node_h s n; find_proxy_monitor_in s (nd_proxy_monitors nd) target unit }"

text \<open>The tail of a proxy request whose target exists and is allowed: an old proxy monitor
  is replaced, the target node referenced, the subscription added.\<close>

definition proxy_new_accept ::
    "env \<Rightarrow> addr \<Rightarrow> addr \<Rightarrow> addr \<Rightarrow> addr option \<Rightarrow> Controller \<Rightarrow> Controller option" where
  "proxy_new_accept e n p t old s1 =
     do { s2 \<leftarrow> (case old of None \<Rightarrow> Some s1 | Some q \<Rightarrow> node_remove_proxy_monitor e n q s1);
          (r, s3) \<leftarrow> proxy_monitor_set_target_node e p t s2;
          if r < 0 then
            do { s4 \<leftarrow> proxy_monitor_send_error e p ''Failed to add proxy dependency'' s3;
                 proxy_monitor_unref e p s4 }
          else do {
            pm \<leftarrow> pm_h s3 p;
            s4 \<leftarrow> controller_add_subscription e (pm_sub pm) s3;
            s5 \<leftarrow> proxy_monitor_incref p s4;
            nd5 \<leftarrow> node_h s5 n;
            proxy_monitor_unref e p
              (set_node n (nd5\<lparr>nd_proxy_monitors := nd_proxy_monitors nd5 @ [p]\<rparr>) s5) } }"

definition node_on_match_proxy_new ::
    "env \<Rightarrow> addr \<Rightarrow> string \<Rightarrow> string \<Rightarrow> string \<Rightarrow> Controller \<Rightarrow> Controller option" where
  "node_on_match_proxy_new e n target unit path s =
     do { nd \<leftarrow> node_h s n;
          (p, s1) \<leftarrow> proxy_monitor_new n target unit path s;
          case controller_find_node s1 target of
            None \<Rightarrow>
              do { s2 \<leftarrow> proxy_monitor_send_error e p ''No such node'' s1; proxy_monitor_unref e p s2 }
          | Some t \<Rightarrow>
              if node_find_allowed_proxy_target nd target = None then
                do { s2 \<leftarrow> proxy_monitor_send_error e p ''Proxy on node not allowed'' s1;
                     proxy_monitor_unref e p s2 }
              else do {
                old \<leftarrow> node_find_proxy_monitor s1 n target unit;
                proxy_new_accept e n p t old s1 } }"

definition node_on_match_proxy_removed :: "env \<Rightarrow> addr \<Rightarrow> string \<Rightarrow> string \<Rightarrow> Controller \<Rightarrow> Controller option" where
  "node_on_match_proxy_removed e n target unit s =
     do { old \<leftarrow> node_find_proxy_monitor s n target unit;
          case old of None \<Rightarrow> Some s | Some p \<Rightarrow> node_remove_proxy_monitor e n p s }"

text \<open>The reply to a proxy call: the callback drops the reference of the call.\<close>

definition proxy_monitor_call_callback :: "env \<Rightarrow> addr \<Rightarrow> Controller \<Rightarrow> Controller option" where
  "proxy_monitor_call_callback e p s =
     do { calls \<leftarrow> list_remove p (proxy_calls s); proxy_monitor_unref e p (s\<lparr>proxy_calls := calls\<rparr>) }"

section \<open>Disconnection\<close>

text \<open>The virtual events for one unit of the index.\<close>

definition disconnect_unit :: "env \<Rightarrow> addr \<Rightarrow> string \<Rightarrow> Controller \<Rightarrow> Controller option" where
  "disconnect_unit e n u s =
     do { nd \<leftarrow> node_h s n;
          us \<leftarrow> map_of (nd_unit_subs nd) u;
          if \<not> us_loaded us then Some s
          else do {
            let send_state_change = (0 \<le> us_active_state us \<and> us_active_state us \<noteq> UNIT_INACTIVE);
            let us' = (if send_state_change
                       then us\<lparr>us_active_state := UNIT_INACTIVE, us_substate := Some ''agent-offline'',
                               us_loaded := False\<rparr>
                       else us\<lparr>us_loaded := False\<rparr>);
            let s1 = set_node n (nd\<lparr>nd_unit_subs := AList.update u us' (nd_unit_subs nd)\<rparr>) s;
            s2 \<leftarrow> (if send_state_change
                   then notify_unit e n u (UnitStateChanged (str_arg (nd_name nd)) u
                          (active_state_to_string (us_active_state us')) (str_arg (us_substate us'))
                          ''virtual'') s1
                   else Some s1);
            notify_unit e n u (UnitRemoved (str_arg (nd_name nd)) u ''virtual'') s2 } }"

text \<open>The removal of the jobs of a disconnected node: \<open>ja\<close> is the job, no signal is sent.\<close>

definition disconnect_job :: "addr \<Rightarrow> addr \<Rightarrow> Controller \<Rightarrow> Controller option" where
  "disconnect_job n j s =
     do { nd \<leftarrow> node_h s n;
          jb \<leftarrow> job_h s j;
          jn \<leftarrow> node_h s (job_node jb);
          if nd_name jn = nd_name nd
          then do { js \<leftarrow> list_remove j (jobs s); job_unref j (s\<lparr>jobs := js\<rparr>) }
          else Some s }"

definition node_disconnect :: "env \<Rightarrow> addr \<Rightarrow> Controller \<Rightarrow> Controller option" where
  "node_disconnect e n s =
     do { nd \<leftarrow> node_h s n;
          s1 \<leftarrow> foldo (disconnect_unit e n) (hm_iter e (map fst (nd_unit_subs nd))) s;
          nd1 \<leftarrow> node_h s1 n;
          s2 \<leftarrow> foldo (node_remove_proxy_monitor e n) (nd_proxy_monitors nd1) s1;
          if nd_name nd = None then controller_remove_node e n s2
          else do {
            s3 \<leftarrow> foldo (disconnect_job n) (jobs s2) s2;
            s4 \<leftarrow> node_unset_agent_bus e n s3;
            let prev = number_of_nodes_online s4;
            Some (controller_check_system_status e prev (s4\<lparr>number_of_nodes_online := prev - 1\<rparr>)) } }"

section \<open>Heartbeats\<close>


text \<open>True when the node is still taken to be alive.\<close>

definition node_is_live :: "Controller \<Rightarrow> Node \<Rightarrow> 64 word \<Rightarrow> bool" where
  "node_is_live s nd now =
     (if heartbeat_threshold_msec s \<le> 0 then True
      else if now = 0 then True
      else if now < nd_last_seen_monotonic nd then True
      else \<not> word_of_int (heartbeat_threshold_msec s) * USEC_PER_MSEC < now - nd_last_seen_monotonic nd)"

definition controller_check_node_liveness :: "env \<Rightarrow> addr \<Rightarrow> 64 word \<Rightarrow> Controller \<Rightarrow> (bool \<times> Controller) option" where
  "controller_check_node_liveness e n now s =
     do { nd \<leftarrow> node_h s n;
          if node_is_live s nd now then Some (True, s)
          else map_option (\<lambda>s1. (False, s1)) (node_disconnect e n s) }"

definition heartbeat_node :: "env \<Rightarrow> addr \<Rightarrow> Controller \<Rightarrow> Controller option" where
  "heartbeat_node e n s =
     do { nd \<leftarrow> node_h s n;
          if \<not> node_is_online nd then Some s
          else do {
            (live, s1) \<leftarrow> controller_check_node_liveness e n (time_micros_monotonic e) s;
            if \<not> live then Some s1
            else case nd_agent_bus nd of
                   None \<Rightarrow> Some s1
                 | Some b \<Rightarrow> Some (emit e (EmitSignal ''Heartbeat'') (AgentHeartbeat b) s1) } }"

text \<open>The timer callback visits the nodes and arms the timer again.\<close>

definition controller_heartbeat_timer_callback ::
    "env \<Rightarrow> (event_call \<Rightarrow> int) \<Rightarrow> 64 word \<Rightarrow> event_source option \<Rightarrow> Controller
     \<Rightarrow> (int \<times> event_source option \<times> Controller) option" where
  "controller_heartbeat_timer_callback e ev usec_now src s =
     do { s1 \<leftarrow> foldo (heartbeat_node e) (nodes s) s;
          let (r, src') = event_reset_time_relative ev usec_now src 7
                (word_of_int (heartbeat_interval_msec s1) * USEC_PER_MSEC) True False;
          Some (if r < 0 then r else 0, src', s1) }"

end
