(* ===== verification/Ctrl_Methods.thy ===== *)
theory Ctrl_Methods
  imports Ctrl_Conn
begin

text \<open>
  The D-Bus methods of the controller: the Monitor interface (\<open>monitor.c\<close>), the Node
  interface (\<open>node.c\<close>), the Job interface (\<open>job.c\<close>) and the Controller interface
  (\<open>controller.c\<close>), the clean-up when a client leaves, and the shutdown.  A method
  that answers at once returns its reply; one that answers later returns \<open>None\<close> in
  that place and replies through the trace.
\<close>

section \<open>Monitors\<close>

definition MONITOR_OBJECT_PATH_PREFIX :: string where
  "MONITOR_OBJECT_PATH_PREFIX = ''/org/eclipse/bluechi/monitor''"

definition monitor_new :: "string \<Rightarrow> Controller \<Rightarrow> addr \<times> Controller" where
  "monitor_new owner s =
     (let m = next_addr s;
          i = next_monitor_id s + 1
      in (m, (set_mon m \<lparr>mon_ref = 1, mon_id = i, mon_owner = owner, mon_peers = [], mon_export_slot = False,
                mon_path = MONITOR_OBJECT_PATH_PREFIX @ ''/'' @ decimal (unat i), mon_subs = []\<rparr> s)
               \<lparr>next_addr := m + 1, next_monitor_id := i\<rparr>))"

definition monitor_export :: "env \<Rightarrow> addr \<Rightarrow> Controller \<Rightarrow> (bool \<times> Controller) option" where
  "monitor_export e m s =
     do { mo \<leftarrow> mon_h s m;
          if bus_ret e (AddObjectVtable ''Monitor'') < 0 then Some (False, s)
          else Some (True, set_mon m (mo\<lparr>mon_export_slot := True\<rparr>) s) }"

text \<open>One round of the two loops of \<open>monitor_close\<close>.\<close>

definition monitor_drop_sub :: "env \<Rightarrow> addr \<Rightarrow> addr \<Rightarrow> Controller \<Rightarrow> Controller option" where
  "monitor_drop_sub e m a s =
     do { s1 \<leftarrow> controller_remove_subscription e a s;
          mo \<leftarrow> mon_h s1 m;
          subs \<leftarrow> list_remove a (mon_subs mo);
          subscription_unref a (set_mon m (mo\<lparr>mon_subs := subs\<rparr>) s1) }"

definition monitor_drop_peer :: "env \<Rightarrow> addr \<Rightarrow> MonitorPeer \<Rightarrow> Controller \<Rightarrow> Controller option" where
  "monitor_drop_peer e m peer s =
     do { mo \<leftarrow> mon_h s m;
          peers \<leftarrow> list_remove peer (mon_peers mo);
          Some (set_mon m (mo\<lparr>mon_peers := peers\<rparr>)
                  (monitor_emit_peer_removed e mo peer ''monitor closed'' s)) }"

definition monitor_close :: "env \<Rightarrow> addr \<Rightarrow> Controller \<Rightarrow> Controller option" where
  "monitor_close e m s =
     do { mo \<leftarrow> mon_h s m;
          s1 \<leftarrow> foldo (monitor_drop_sub e m) (mon_subs mo) s;
          s2 \<leftarrow> foldo (monitor_drop_peer e m) (mon_peers mo) s1;
          mo2 \<leftarrow> mon_h s2 m;
          Some (set_mon m (mo2\<lparr>mon_export_slot := False\<rparr>) s2) }"

definition controller_remove_monitor :: "addr \<Rightarrow> Controller \<Rightarrow> Controller option" where
  "controller_remove_monitor m s =
     do { ms \<leftarrow> list_remove m (monitors s); monitor_unref m (s\<lparr>monitors := ms\<rparr>) }"

definition monitor_method_close :: "env \<Rightarrow> addr \<Rightarrow> Controller \<Rightarrow> (reply \<times> Controller) option" where
  "monitor_method_close e m s =
     do { s1 \<leftarrow> monitor_incref m s;
          mo \<leftarrow> mon_h s1 m;
          if \<not> mon_export_slot mo
          then map_option (\<lambda>s2. (ReplyError SD_BUS_ERROR_FAILED ''Monitor already closed'', s2)) (monitor_unref m s1)
          else do {
            s2 \<leftarrow> monitor_close e m s1;
            s3 \<leftarrow> controller_remove_monitor m s2;
            map_option (\<lambda>s4. (ReplyOk, s4)) (monitor_unref m s3) } }"

text \<open>Subscribing to a list of units of a node; the single unit method passes one unit.
  The local reference taken at creation is dropped on return.\<close>

definition monitor_method_subscribe_list ::
    "env \<Rightarrow> addr \<Rightarrow> string \<Rightarrow> string list \<Rightarrow> Controller \<Rightarrow> (reply \<times> Controller) option" where
  "monitor_method_subscribe_list e m node units s =
     do { (a, s1) \<leftarrow> create_monitor_subscription m node s;
          s2 \<leftarrow> foldo (subscription_add_unit a) units s1;
          s3 \<leftarrow> subscription_ref a s2;
          mo \<leftarrow> mon_h s3 m;
          s4 \<leftarrow> controller_add_subscription e a (set_mon m (mo\<lparr>mon_subs := mon_subs mo @ [a]\<rparr>) s3);
          sub \<leftarrow> sub_h s4 a;
          map_option (\<lambda>s5. (ReplyUInt32 (sub_id sub), s5)) (subscription_unref a s4) }"

definition monitor_method_subscribe ::
    "env \<Rightarrow> addr \<Rightarrow> string \<Rightarrow> string \<Rightarrow> Controller \<Rightarrow> (reply \<times> Controller) option" where
  "monitor_method_subscribe e m node unit s = monitor_method_subscribe_list e m node [unit] s"

fun find_subscription :: "Controller \<Rightarrow> addr list \<Rightarrow> 32 word \<Rightarrow> addr option option" where
  "find_subscription s [] i = Some None"
| "find_subscription s (a # as) i =
     do { sub \<leftarrow> sub_h s a; if sub_id sub = i then Some (Some a) else find_subscription s as i }"

definition monitor_find_subscription :: "Controller \<Rightarrow> addr \<Rightarrow> 32 word \<Rightarrow> addr option option" where
  "monitor_find_subscription s m i = do { mo \<leftarrow> mon_h s m; find_subscription s (mon_subs mo) i }"

definition monitor_method_unsubscribe :: "env \<Rightarrow> addr \<Rightarrow> 32 word \<Rightarrow> Controller \<Rightarrow> (reply \<times> Controller) option" where
  "monitor_method_unsubscribe e m i s =
     do { found \<leftarrow> monitor_find_subscription s m i;
          case found of
            None \<Rightarrow> Some (ReplyError SD_BUS_ERROR_FAILED ''Subscription not found'', s)
          | Some a \<Rightarrow> map_option (\<lambda>s1. (ReplyOk, s1)) (monitor_drop_sub e m a s) }"

definition monitor_has_peer_with_name :: "Monitor \<Rightarrow> string \<Rightarrow> bool" where
  "monitor_has_peer_with_name mo name =
     (if mon_owner mo = name then True else \<exists>p \<in> set (mon_peers mo). peer_name p = name)"

definition monitor_add_peer :: "addr \<Rightarrow> string \<Rightarrow> Controller \<Rightarrow> (32 word \<times> Controller) option" where
  "monitor_add_peer m name s =
     do { mo \<leftarrow> mon_h s m;
          let i = next_peer_id s + 1;
          Some (i, (set_mon m (mo\<lparr>mon_peers := mon_peers mo @ [\<lparr>peer_id = i, peer_name = name\<rparr>]\<rparr>) s)
                     \<lparr>next_peer_id := i\<rparr>) }"

definition monitor_method_add_peer :: "addr \<Rightarrow> string \<Rightarrow> Controller \<Rightarrow> (reply \<times> Controller) option" where
  "monitor_method_add_peer m name s =
     (if \<not> bus_id_is_valid (Some name)
      then Some (ReplyError SD_BUS_ERROR_INVALID_ARGS ''Peer name is not a valid bus name'', s)
      else do {
        mo \<leftarrow> mon_h s m;
        if monitor_has_peer_with_name mo name
        then Some (ReplyError SD_BUS_ERROR_INVALID_ARGS ''Peer name has already been added'', s)
        else do { (i, s1) \<leftarrow> monitor_add_peer m name s; Some (ReplyUInt32 i, s1) } })"

definition monitor_find_peer :: "Monitor \<Rightarrow> 32 word \<Rightarrow> MonitorPeer option" where
  "monitor_find_peer mo i = List.find (\<lambda>p. peer_id p = i) (mon_peers mo)"

definition monitor_method_remove_peer ::
    "env \<Rightarrow> addr \<Rightarrow> 32 word \<Rightarrow> string \<Rightarrow> Controller \<Rightarrow> (reply \<times> Controller) option" where
  "monitor_method_remove_peer e m i reason s =
     do { mo \<leftarrow> mon_h s m;
          case monitor_find_peer mo i of
            None \<Rightarrow> Some (ReplyError SD_BUS_ERROR_FAILED ''Peer with ID not found'', s)
          | Some peer \<Rightarrow>
              Some (ReplyOk, set_mon m (mo\<lparr>mon_peers := remove1 peer (mon_peers mo)\<rparr>)
                               (monitor_emit_peer_removed e mo peer reason s)) }"

section \<open>Requests to one node\<close>

text \<open>Create and start; a request that cannot be started is dropped again.\<close>

definition start_or_drop :: "env \<Rightarrow> addr \<Rightarrow> Controller \<Rightarrow> (int \<times> Controller) option" where
  "start_or_drop e r s =
     do { (res, s1) \<leftarrow> agent_request_start e r s;
          if res < 0 then map_option (\<lambda>s2. (res, s2)) (agent_request_unref e r s1) else Some (res, s1) }"

definition node_request_list ::
    "env \<Rightarrow> string \<Rightarrow> addr \<Rightarrow> request_cb \<Rightarrow> Controller \<Rightarrow> (addr option \<times> Controller) option" where
  "node_request_list e method n cb s =
     do { nd \<leftarrow> node_h s n;
          if \<not> node_has_agent nd then Some (None, s)
          else do {
            (c, s1) \<leftarrow> node_create_request e n method [] cb s;
            case c of
              Inl err \<Rightarrow> Some (None, s1)
            | Inr r \<Rightarrow> do { (res, s2) \<leftarrow> start_or_drop e r s1;
                            Some (if res < 0 then None else Some r, s2) } } }"

definition node_request_list_units :: "env \<Rightarrow> addr \<Rightarrow> request_cb \<Rightarrow> Controller \<Rightarrow> (addr option \<times> Controller) option" where
  "node_request_list_units e n cb s = node_request_list e ''ListUnits'' n cb s"

definition node_request_list_unit_files :: "env \<Rightarrow> addr \<Rightarrow> request_cb \<Rightarrow> Controller \<Rightarrow> (addr option \<times> Controller) option" where
  "node_request_list_unit_files e n cb s = node_request_list e ''ListUnitFiles'' n cb s"

definition REPLY_SHUTDOWN :: reply where
  "REPLY_SHUTDOWN = ReplyError SD_BUS_ERROR_FAILED ''Request not allowed: node is in shutdown state''"

definition node_method_list ::
    "env \<Rightarrow> string \<Rightarrow> addr \<Rightarrow> msg_id \<Rightarrow> Controller \<Rightarrow> (reply option \<times> Controller) option" where
  "node_method_list e method n m s =
     do { nd \<leftarrow> node_h s n;
          if nd_is_shutdown nd then Some (Some REPLY_SHUTDOWN, s)
          else do {
            (r, s1) \<leftarrow> node_request_list e method n (CbForward m) s;
            case r of
              None \<Rightarrow> Some (Some (ReplyError SD_BUS_ERROR_FAILED ''List not found''), s1)
            | Some r \<Rightarrow> map_option (\<lambda>s2. (None, s2)) (agent_request_unref e r s1) } }"

definition node_method_list_units :: "env \<Rightarrow> addr \<Rightarrow> msg_id \<Rightarrow> Controller \<Rightarrow> (reply option \<times> Controller) option" where
  "node_method_list_units e n m s = node_method_list e ''ListUnits'' n m s"

definition node_method_list_unit_files :: "env \<Rightarrow> addr \<Rightarrow> msg_id \<Rightarrow> Controller \<Rightarrow> (reply option \<times> Controller) option" where
  "node_method_list_unit_files e n m s = node_method_list e ''ListUnitFiles'' n m s"

text \<open>The common shape of the methods handed to the agent: create the request, fill its
  message, start it, drop the local reference.\<close>

definition submit_request ::
    "env \<Rightarrow> addr \<Rightarrow> string \<Rightarrow> string list \<Rightarrow> request_cb \<Rightarrow> Controller \<Rightarrow> (reply option \<times> Controller) option" where
  "submit_request e n method args cb s =
     do { (c, s1) \<leftarrow> node_create_request e n method args cb s;
          case c of
            Inl err \<Rightarrow>
              map_option (\<lambda>s2. (Some (ReplyError SD_BUS_ERROR_FAILED ''Failed to create an agent request''), s2))
                (free_userdata cb s1)
          | Inr r \<Rightarrow>
              if bus_ret e AppendOrCopy < 0
              then map_option (\<lambda>s2. (Some (ReplyError SD_BUS_ERROR_FAILED ''Failed to fill the message''), s2))
                     (agent_request_unref e r s1)
              else do {
                (res, s2) \<leftarrow> agent_request_start e r s1;
                s3 \<leftarrow> agent_request_unref e r s2;
                Some (if res < 0 then Some (ReplyError SD_BUS_ERROR_FAILED ''Failed to call the method'') else None,
                      s3) } }"

definition node_method_set_unit_properties ::
    "env \<Rightarrow> addr \<Rightarrow> msg_id \<Rightarrow> string list \<Rightarrow> Controller \<Rightarrow> (reply option \<times> Controller) option" where
  "node_method_set_unit_properties e n m args s =
     do { nd \<leftarrow> node_h s n;
          if nd_is_shutdown nd then Some (Some REPLY_SHUTDOWN, s)
          else submit_request e n ''SetUnitProperties'' args (CbForwardOk m) s }"

definition node_method_passthrough_to_agent ::
    "env \<Rightarrow> addr \<Rightarrow> string \<Rightarrow> msg_id \<Rightarrow> string list \<Rightarrow> Controller \<Rightarrow> (reply option \<times> Controller) option" where
  "node_method_passthrough_to_agent e n member m args s =
     do { nd \<leftarrow> node_h s n;
          if nd_is_shutdown nd then Some (Some REPLY_SHUTDOWN, s)
          else submit_request e n member args (CbForward m) s }"

definition node_run_unit_lifecycle_method ::
    "env \<Rightarrow> addr \<Rightarrow> msg_id \<Rightarrow> string \<Rightarrow> string \<Rightarrow> string \<Rightarrow> string \<Rightarrow> Controller \<Rightarrow> (reply option \<times> Controller) option" where
  "node_run_unit_lifecycle_method e n m jtype method unit mode s =
     do { nd \<leftarrow> node_h s n;
          if nd_is_shutdown nd then Some (Some REPLY_SHUTDOWN, s)
          else do {
            let (a, s1) = job_setup_new m n unit jtype s;
            js \<leftarrow> setup_h s1 a;
            jb \<leftarrow> job_h s1 (js_job js);
            let s2 = (if metrics_enabled s1 then set_job (js_job js) (jb\<lparr>job_start_micros := time_micros e\<rparr>) s1 else s1);
            s3 \<leftarrow> job_setup_ref a s2;
            (rep, s4) \<leftarrow> submit_request e n method [unit, mode, decimal (unat (job_id jb))] (CbLifecycle a) s3;
            map_option (\<lambda>s5. (rep, s5)) (job_setup_unref a s4) } }"

definition node_method_start_unit :: "env \<Rightarrow> addr \<Rightarrow> msg_id \<Rightarrow> string \<Rightarrow> string \<Rightarrow> Controller \<Rightarrow> (reply option \<times> Controller) option" where
  "node_method_start_unit e n m unit mode s = node_run_unit_lifecycle_method e n m ''start'' ''StartUnit'' unit mode s"

definition node_method_stop_unit :: "env \<Rightarrow> addr \<Rightarrow> msg_id \<Rightarrow> string \<Rightarrow> string \<Rightarrow> Controller \<Rightarrow> (reply option \<times> Controller) option" where
  "node_method_stop_unit e n m unit mode s = node_run_unit_lifecycle_method e n m ''stop'' ''StopUnit'' unit mode s"

definition node_method_restart_unit :: "env \<Rightarrow> addr \<Rightarrow> msg_id \<Rightarrow> string \<Rightarrow> string \<Rightarrow> Controller \<Rightarrow> (reply option \<times> Controller) option" where
  "node_method_restart_unit e n m unit mode s = node_run_unit_lifecycle_method e n m ''restart'' ''RestartUnit'' unit mode s"

definition node_method_reload_unit :: "env \<Rightarrow> addr \<Rightarrow> msg_id \<Rightarrow> string \<Rightarrow> string \<Rightarrow> Controller \<Rightarrow> (reply option \<times> Controller) option" where
  "node_method_reload_unit e n m unit mode s = node_run_unit_lifecycle_method e n m ''reload'' ''ReloadUnit'' unit mode s"

definition job_method_cancel :: "env \<Rightarrow> addr \<Rightarrow> msg_id \<Rightarrow> Controller \<Rightarrow> (reply \<times> Controller) option" where
  "job_method_cancel e j m s =
     do { jb \<leftarrow> job_h s j;
          (rep, s1) \<leftarrow> submit_request e (job_node jb) ''JobCancel'' [decimal (unat (job_id jb))] (CbJobCancel m) s;
          Some (case rep of None \<Rightarrow> ReplyOk | Some err \<Rightarrow> err, s1) }"

section \<open>Requests to all nodes\<close>

text \<open>One node of the loop: an entry beyond the allocated array would be written out of
  bounds.\<close>

definition fleet_add_node :: "env \<Rightarrow> string \<Rightarrow> addr \<Rightarrow> addr \<Rightarrow> Controller \<Rightarrow> Controller option" where
  "fleet_add_node e method f n s =
     do { (r, s1) \<leftarrow> node_request_list e method n (CbFleet f) s;
          case r of
            None \<Rightarrow> Some s1
          | Some r \<Rightarrow>
              do { s2 \<leftarrow> node_ref n s1;
                   fr \<leftarrow> fleet_h s2 f;
                   if length (fr_sub_req fr) < fr_capacity fr
                   then Some (set_fleet f (fr\<lparr>fr_sub_req := fr_sub_req fr @
                                 [\<lparr>sr_node = Some n, sr_m = None, sr_agent_req = Some r\<rparr>]\<rparr>) s2)
                   else None } }"

definition SUB_REQ_SIZE :: "64 word" where "SUB_REQ_SIZE = 24"
definition FLEET_SIZE :: "64 word" where "FLEET_SIZE = 24"

definition agent_fleet_request_start :: "env \<Rightarrow> string \<Rightarrow> msg_id \<Rightarrow> Controller \<Rightarrow> (reply option \<times> Controller) option" where
  "agent_fleet_request_start e method m s =
     (case malloc0_array FLEET_SIZE SUB_REQ_SIZE (word_of_int (number_of_nodes s)) of
        None \<Rightarrow> Some (Some (ReplyError ''org.freedesktop.DBus.Error.NoMemory'' ''Out of memory''), s)
      | Some _ \<Rightarrow>
          (let f = next_addr s;
               s1 = (set_fleet f \<lparr>fr_message = m, fr_n_done = 0, fr_capacity = nat (number_of_nodes s),
                                  fr_sub_req = []\<rparr> s)\<lparr>next_addr := f + 1\<rparr>
           in do { s2 \<leftarrow> foldo (fleet_add_node e method f) (nodes s1) s1;
                   map_option (\<lambda>s3. (None, s3)) (agent_fleet_request_maybe_done e f s2) }))"

definition controller_method_list_units :: "env \<Rightarrow> msg_id \<Rightarrow> Controller \<Rightarrow> (reply option \<times> Controller) option" where
  "controller_method_list_units e m s = agent_fleet_request_start e ''ListUnits'' m s"

definition controller_method_list_unit_files :: "env \<Rightarrow> msg_id \<Rightarrow> Controller \<Rightarrow> (reply option \<times> Controller) option" where
  "controller_method_list_unit_files e m s = agent_fleet_request_start e ''ListUnitFiles'' m s"

section \<open>The Controller interface\<close>

fun encode_nodes :: "Controller \<Rightarrow> addr list \<Rightarrow> (string \<times> string \<times> string \<times> cstring) list option" where
  "encode_nodes s [] = Some []"
| "encode_nodes s (n # ns) =
     do { nd \<leftarrow> node_h s n;
          rest \<leftarrow> encode_nodes s ns;
          Some ((str_arg (nd_name nd), str_arg (nd_object_path nd), node_get_status nd, nd_peer_ip nd) # rest) }"

definition controller_method_list_nodes :: "Controller \<Rightarrow> reply option" where
  "controller_method_list_nodes s = map_option ReplyNodes (encode_nodes s (nodes s))"

definition controller_method_get_node :: "string \<Rightarrow> Controller \<Rightarrow> reply option" where
  "controller_method_get_node name s =
     (case controller_find_node s name of
        None \<Rightarrow> Some (ReplyError SD_BUS_ERROR_SERVICE_UNKNOWN ''Node not found'')
      | Some n \<Rightarrow> do { nd \<leftarrow> node_h s n; Some (ReplyPath (str_arg (nd_object_path nd))) })"

text \<open>The monitor is kept only when the reply with its path was sent; an error before that is
  answered on the reply that does not exist, so the client gets none.\<close>

definition controller_method_create_monitor :: "env \<Rightarrow> string \<Rightarrow> Controller \<Rightarrow> (reply option \<times> Controller) option" where
  "controller_method_create_monitor e sender s =
     (let (m, s1) = monitor_new sender s
      in do { (ok, s2) \<leftarrow> monitor_export e m s1;
              mo \<leftarrow> mon_h s2 m;
              if \<not> ok \<or> bus_ret e NewMethodReturn < 0 \<or> bus_ret e AppendOrCopy < 0 \<or> bus_ret e SendReply < 0
              then map_option (\<lambda>s3. (None, s3)) (monitor_unref m s2)
              else do {
                s3 \<leftarrow> monitor_incref m s2;
                map_option (\<lambda>s4. (Some (ReplyPath (mon_path mo)), s4))
                  (monitor_unref m (s3\<lparr>monitors := monitors s3 @ [m]\<rparr>)) } })"

definition SD_BUS_ERROR_INCONSISTENT_MESSAGE :: string where
  "SD_BUS_ERROR_INCONSISTENT_MESSAGE = ''org.freedesktop.DBus.Error.InconsistentMessage''"

definition controller_method_metrics_enable :: "env \<Rightarrow> Controller \<Rightarrow> (reply \<times> Controller) option" where
  "controller_method_metrics_enable e s =
     (if metrics_enabled s
      then Some (ReplyError SD_BUS_ERROR_INCONSISTENT_MESSAGE ''Metrics already enabled'', s)
      else if bus_ret e (AddObjectVtable ''Metrics'') < 0
      then Some (ReplyError SD_BUS_ERROR_FAILED ''Failed to register metrics service'', s)
      else map_option (\<lambda>s1. (ReplyOk, s1))
             (foldo (node_enable_metrics e) (nodes s) (s\<lparr>metrics_slot := True, metrics_enabled := True\<rparr>)))"

definition controller_method_metrics_disable :: "env \<Rightarrow> Controller \<Rightarrow> (reply \<times> Controller) option" where
  "controller_method_metrics_disable e s =
     (if \<not> metrics_enabled s
      then Some (ReplyError SD_BUS_ERROR_INCONSISTENT_MESSAGE ''Metrics already disabled'', s)
      else map_option (\<lambda>s1. (ReplyOk, s1))
             (foldo (node_disable_metrics e) (nodes s) (s\<lparr>metrics_slot := False, metrics_enabled := False\<rparr>)))"

text \<open>The filter in front of every public method: a call on the Node interface of an offline
  node is answered with an error and not dispatched.\<close>

definition BC_BUS_ERROR_OFFLINE :: string where "BC_BUS_ERROR_OFFLINE = ''org.eclipse.bluechi.Offline''"

definition controller_dbus_filter :: "cstring \<Rightarrow> string \<Rightarrow> Controller \<Rightarrow> reply option" where
  "controller_dbus_filter iface path s =
     (if iface = Some NODE_INTERFACE then
        (case controller_find_node_by_path s path of
           None \<Rightarrow> None
         | Some n \<Rightarrow>
             (case node_h s n of
                Some nd \<Rightarrow> if \<not> node_has_agent nd then Some (ReplyError BC_BUS_ERROR_OFFLINE ''Node is offline'') else None
              | None \<Rightarrow> None))
      else None)"

section \<open>Clients that leave, and the shutdown\<close>

definition drop_client_monitor :: "env \<Rightarrow> string \<Rightarrow> addr \<Rightarrow> Controller \<Rightarrow> Controller option" where
  "drop_client_monitor e client m s =
     do { mo \<leftarrow> mon_h s m;
          if mon_owner mo = client
          then do { s1 \<leftarrow> monitor_close e m s; controller_remove_monitor m s1 }
          else Some s }"

definition controller_client_disconnected :: "env \<Rightarrow> string \<Rightarrow> Controller \<Rightarrow> Controller option" where
  "controller_client_disconnected e client s = foldo (drop_client_monitor e client) (monitors s) s"

definition controller_name_owner_changed :: "env \<Rightarrow> string \<Rightarrow> string \<Rightarrow> Controller \<Rightarrow> Controller option" where
  "controller_name_owner_changed e name new_owner s =
     (if name \<noteq> [] \<and> hd name = CHR '':'' \<and> new_owner = []
      then controller_client_disconnected e name s else Some s)"

definition controller_stop :: "env \<Rightarrow> Controller \<Rightarrow> Controller option" where
  "controller_stop e s =
     do { s1 \<leftarrow> foldo (\<lambda>j. controller_remove_job e j ''cancelled due to shutdown'') (jobs s) s;
          s2 \<leftarrow> foldo (controller_remove_subscription e) (all_subscriptions s1) s1;
          s3 \<leftarrow> foldo controller_remove_monitor (monitors s2) s2;
          let status_changed = 0 < number_of_nodes_online s3;
          s4 \<leftarrow> foldo (controller_remove_node e) (nodes s3) s3;
          s5 \<leftarrow> foldo (controller_remove_node e) (anonymous_nodes s4) s4;
          Some (if status_changed then controller_check_system_status e (number_of_nodes_online s5) s5 else s5) }"

text \<open>The assertions of \<open>controller_unref\<close>.\<close>

definition controller_unref_ok :: "Controller \<Rightarrow> bool" where
  "controller_unref_ok s = (jobs s = [] \<and> all_subscriptions s = [] \<and> monitors s = [] \<and> nodes s = [] \<and>
     anonymous_nodes s = [])"

end
