(* ===== verification/Ctrl_Inv.thy ===== *)
theory Ctrl_Inv
  imports Ctrl_Conn
begin

text \<open>
  The connection invariants of the controller.  Their subject is the \<open>core\<close> of a
  state: the node lists, the two counters, and per node object its name, connection,
  disconnect match and reference count, together with who holds references to nodes
  (proxy monitors, requests, fleet requests).  Most operations leave the core as it
  is; those that change it are characterised exactly.
\<close>

section \<open>The core of a state\<close>

record core =
  c_nodes :: "addr list"
  c_anon :: "addr list"
  c_count :: int
  c_online :: int
  c_node :: "addr \<Rightarrow> (cstring \<times> bus option \<times> bool \<times> int) option"
  c_pm :: "addr \<Rightarrow> addr option option"
  c_req :: "addr \<Rightarrow> addr option"
  c_fleet :: "addr \<Rightarrow> addr option list option"
  c_next :: addr

definition node_core :: "Node \<Rightarrow> cstring \<times> bus option \<times> bool \<times> int" where
  "node_core nd = (nd_name nd, nd_agent_bus nd, nd_disconnect_slot nd, nd_ref nd)"

definition core_of :: "Controller \<Rightarrow> core" where
  "core_of s = \<lparr>c_nodes = nodes s, c_anon = anonymous_nodes s, c_count = number_of_nodes s,
     c_online = number_of_nodes_online s, c_node = \<lambda>n. map_option node_core (node_h s n),
     c_pm = \<lambda>p. map_option pm_target (pm_h s p), c_req = \<lambda>r. map_option req_node (req_h s r),
     c_fleet = \<lambda>f. map_option (\<lambda>fr. map sr_node (fr_sub_req fr)) (fleet_h s f),
     c_next = next_addr s\<rparr>"

text \<open>References to node \<open>n\<close> held by the object at address \<open>a\<close>, and by all objects.\<close>

definition held_at :: "core \<Rightarrow> addr \<Rightarrow> addr \<Rightarrow> int" where
  "held_at c n a =
     (if c_pm c a = Some (Some n) then 1 else 0) + (if c_req c a = Some n then 1 else 0) +
     (case c_fleet c a of None \<Rightarrow> 0 | Some ns \<Rightarrow> int (count_list ns (Some n)))"

definition held :: "core \<Rightarrow> addr \<Rightarrow> int" where
  "held c n = (\<Sum>a < c_next c. held_at c n a)"

definition core_online :: "core \<Rightarrow> addr \<Rightarrow> bool" where
  "core_online c n = (\<exists>nm b d r. c_node c n = Some (Some nm, Some b, d, r))"

definition core_name :: "core \<Rightarrow> addr \<Rightarrow> cstring" where
  "core_name c n = (case c_node c n of None \<Rightarrow> None | Some (nm, _) \<Rightarrow> nm)"

text \<open>Addresses that were never handed out hold nothing, and nothing refers to them.\<close>

definition core_fresh :: "core \<Rightarrow> bool" where
  "core_fresh c = (\<forall>a \<ge> c_next c. c_node c a = None \<and> c_pm c a = None \<and> c_req c a = None \<and>
     c_fleet c a = None \<and>
     (\<forall>b. c_pm c b \<noteq> Some (Some a) \<and> c_req c b \<noteq> Some a \<and> (\<forall>ns. c_fleet c b = Some ns \<longrightarrow> Some a \<notin> set ns)))"

text \<open>The invariant: the lists are disjoint and hold live nodes, named (by different names)
  and anonymous; every listed node has a reference more than the holders account for; a named node
  with a disconnect match has a connection; the counters count.\<close>

definition core_inv :: "core \<Rightarrow> bool" where
  "core_inv c =
     (distinct (c_nodes c @ c_anon c) \<and> distinct (map (core_name c) (c_nodes c)) \<and>
      (\<forall>n \<in> set (c_nodes c). \<exists>nm b d r. c_node c n = Some (Some nm, b, d, r) \<and>
          1 + held c n \<le> r \<and> (d \<longrightarrow> b \<noteq> None)) \<and>
      (\<forall>n \<in> set (c_anon c). \<exists>b d r. c_node c n = Some (None, b, d, r) \<and> 1 + held c n \<le> r) \<and>
      c_count c = int (length (c_nodes c)) \<and>
      c_online c = int (length (filter (core_online c) (c_nodes c))) \<and>
      core_fresh c)"

text \<open>The steps that keep every connection: lists, counters, names and connections stay,
  and no listed node loses more references than its holders give up.\<close>

definition core_frame :: "core \<Rightarrow> core \<Rightarrow> bool" where
  "core_frame c c' =
     (c_nodes c' = c_nodes c \<and> c_anon c' = c_anon c \<and> c_count c' = c_count c \<and>
      c_online c' = c_online c \<and> (core_fresh c \<longrightarrow> core_fresh c') \<and>
      (\<forall>n \<in> set (c_nodes c @ c_anon c). \<forall>nm b d r. c_node c n = Some (nm, b, d, r) \<longrightarrow>
         (\<exists>r'. c_node c' n = Some (nm, b, d, r') \<and> r - held c n \<le> r' - held c' n)))"

lemma core_frame_refl [simp]: "core_frame c c"
  by (simp add: core_frame_def)

lemma core_frame_trans [trans]:
  assumes "core_frame a b" "core_frame b c"
  shows "core_frame a c"
proof -
  have "\<exists>r'. c_node c n = Some (nm, bu, d, r') \<and> r - held a n \<le> r' - held c n"
    if n: "n \<in> set (c_nodes a @ c_anon a)" "c_node a n = Some (nm, bu, d, r)" for n nm bu d r
  proof -
    obtain r1 where r1: "c_node b n = Some (nm, bu, d, r1)" "r - held a n \<le> r1 - held b n"
      using assms(1) n unfolding core_frame_def by blast
    moreover have "n \<in> set (c_nodes b @ c_anon b)"
      using assms(1) n(1) by (simp add: core_frame_def)
    ultimately obtain r2 where "c_node c n = Some (nm, bu, d, r2)" "r1 - held b n \<le> r2 - held c n"
      using assms(2) unfolding core_frame_def by blast
    then show ?thesis using r1(2) by auto
  qed
  then show ?thesis using assms unfolding core_frame_def by simp
qed

lemma core_frame_online:
  assumes "core_inv c" "core_frame c c'"
  shows "filter (core_online c') (c_nodes c') = filter (core_online c) (c_nodes c)"
proof -
  have "core_online c' n = core_online c n" if n: "n \<in> set (c_nodes c)" for n
  proof -
    obtain nm b d r where "c_node c n = Some (Some nm, b, d, r)"
      using assms(1) n unfolding core_inv_def by blast
    moreover from this obtain r' where "c_node c' n = Some (Some nm, b, d, r')"
      using assms(2) n unfolding core_frame_def by (metis UnCI set_append)
    ultimately show ?thesis by (simp add: core_online_def)
  qed
  moreover have "c_nodes c' = c_nodes c" using assms(2) by (simp add: core_frame_def)
  ultimately show ?thesis by (simp cong: filter_cong)
qed

lemma core_frame_names:
  assumes "core_inv c" "core_frame c c'"
  shows "map (core_name c') (c_nodes c') = map (core_name c) (c_nodes c)"
proof -
  have "core_name c' n = core_name c n" if n: "n \<in> set (c_nodes c)" for n
  proof -
    obtain nm b d r where "c_node c n = Some (Some nm, b, d, r)"
      using assms(1) n unfolding core_inv_def by blast
    moreover from this obtain r' where "c_node c' n = Some (Some nm, b, d, r')"
      using assms(2) n unfolding core_frame_def by (metis UnCI set_append)
    ultimately show ?thesis by (simp add: core_name_def)
  qed
  moreover have "c_nodes c' = c_nodes c" using assms(2) by (simp add: core_frame_def)
  ultimately show ?thesis by simp
qed

lemma core_frame_inv:
  assumes inv: "core_inv c" and fr: "core_frame c c'"
  shows "core_inv c'"
proof -
  have same: "c_nodes c' = c_nodes c" "c_anon c' = c_anon c" "c_count c' = c_count c" "c_online c' = c_online c"
    using fr by (simp_all add: core_frame_def)
  have named: "\<exists>nm b d r. c_node c' n = Some (Some nm, b, d, r) \<and> 1 + held c' n \<le> r \<and> (d \<longrightarrow> b \<noteq> None)"
    if n: "n \<in> set (c_nodes c)" for n
  proof -
    obtain nm b d r where o: "c_node c n = Some (Some nm, b, d, r)" "1 + held c n \<le> r" "d \<longrightarrow> b \<noteq> None"
      using inv n unfolding core_inv_def by blast
    then obtain r' where "c_node c' n = Some (Some nm, b, d, r')" "r - held c n \<le> r' - held c' n"
      using fr n unfolding core_frame_def by (metis UnCI set_append)
    then show ?thesis using o by auto
  qed
  have anon: "\<exists>b d r. c_node c' n = Some (None, b, d, r) \<and> 1 + held c' n \<le> r"
    if n: "n \<in> set (c_anon c)" for n
  proof -
    obtain b d r where o: "c_node c n = Some (None, b, d, r)" "1 + held c n \<le> r"
      using inv n unfolding core_inv_def by blast
    then obtain r' where "c_node c' n = Some (None, b, d, r')" "r - held c n \<le> r' - held c' n"
      using fr n unfolding core_frame_def by (metis UnCI set_append)
    then show ?thesis using o by auto
  qed
  have "core_fresh c'" using inv fr by (simp add: core_inv_def core_frame_def)
  moreover have "c_online c' = int (length (filter (core_online c') (c_nodes c')))"
    using core_frame_online [OF inv fr] same inv by (simp add: core_inv_def)
  moreover have "distinct (map (core_name c') (c_nodes c'))"
    using core_frame_names [OF inv fr] inv by (simp add: core_inv_def)
  ultimately show ?thesis
    using named anon same inv unfolding core_inv_def by simp
qed

section \<open>Counting the holders\<close>

lemma sum_lessThan_upd:
  fixes f g :: "nat \<Rightarrow> int"
  assumes "\<And>a. a \<noteq> p \<Longrightarrow> g a = f a" "p < k"
  shows "(\<Sum>a<k. g a) = (\<Sum>a<k. f a) - f p + g p"
proof -
  have "(\<Sum>a<k. g a) = g p + (\<Sum>a \<in> {..<k} - {p}. g a)"
    using assms(2) by (simp add: sum.remove)
  also have "(\<Sum>a \<in> {..<k} - {p}. g a) = (\<Sum>a \<in> {..<k} - {p}. f a)"
    using assms(1) by (intro sum.cong) auto
  also have "\<dots> = (\<Sum>a<k. f a) - f p"
    using assms(2) by (simp add: sum.remove [of "{..<k}" p])
  finally show ?thesis by simp
qed

text \<open>An object changes at one address, below the allocation mark.\<close>

lemma held_change:
  assumes "p < c_next c" "c_next c' = c_next c" "\<And>a. a \<noteq> p \<Longrightarrow> held_at c' n a = held_at c n a"
  shows "held c' n = held c n - held_at c n p + held_at c' n p"
  unfolding held_def assms(2) by (rule sum_lessThan_upd [OF assms(3,1)])

lemma held_fresh: "core_fresh c \<Longrightarrow> c_next c \<le> a \<Longrightarrow> held_at c n a = 0"
  by (simp add: core_fresh_def held_at_def)

text \<open>A new object at the allocation mark.\<close>

lemma held_alloc:
  assumes "c_next c' = c_next c + 1" "\<And>a. a < c_next c \<Longrightarrow> held_at c' n a = held_at c n a"
  shows "held c' n = held c n + held_at c' n (c_next c)"
proof -
  have "held c' n = (\<Sum>a < c_next c. held_at c' n a) + held_at c' n (c_next c)"
    by (simp add: held_def assms(1))
  also have "(\<Sum>a < c_next c. held_at c' n a) = (\<Sum>a < c_next c. held_at c n a)"
    by (rule sum.cong) (simp_all add: assms(2))
  finally show ?thesis by (simp add: held_def)
qed

lemma held_at_nonneg [simp]: "0 \<le> held_at c n a"
  by (simp add: held_at_def split: option.split)

lemma held_nonneg [simp]: "0 \<le> held c n"
  by (simp add: held_def sum_nonneg)

lemma held_at_le: "a < c_next c \<Longrightarrow> held_at c n a \<le> held c n"
  unfolding held_def by (rule member_le_sum) auto

text \<open>A listed node that some object holds survives the loss of a reference.\<close>

lemma listed_ref:
  assumes "core_inv c" "n \<in> set (c_nodes c @ c_anon c)" "core_fresh c" "0 < held_at c n a"
  shows "\<exists>nm b d r. c_node c n = Some (nm, b, d, r) \<and> 2 \<le> r"
proof -
  have "a < c_next c" using held_fresh [OF assms(3), of a n] assms(4) by (cases "a < c_next c") auto
  then have "1 \<le> held c n" using held_at_le [of a c n] assms(4) by linarith
  then show ?thesis using assms(1,2) unfolding core_inv_def by fastforce
qed

section \<open>What leaves the core unchanged\<close>

lemma core_set_node:
  "node_h s n = Some nd \<Longrightarrow> node_core nd' = node_core nd \<Longrightarrow> core_of (set_node n nd' s) = core_of s"
  by (auto simp: core_of_def set_node_def)

lemma core_set_pm:
  "pm_h s p = Some pm \<Longrightarrow> pm_target pm' = pm_target pm \<Longrightarrow> core_of (set_pm p pm' s) = core_of s"
  by (auto simp: core_of_def set_pm_def)

lemma core_set_req:
  "req_h s r = Some rq \<Longrightarrow> req_node rq' = req_node rq \<Longrightarrow> core_of (set_req r rq' s) = core_of s"
  by (auto simp: core_of_def set_req_def)

lemma core_set_node_fields [simp]:
  assumes "node_h s n = Some nd"
  shows "core_of (set_node n (nd\<lparr>nd_unit_subs := us\<rparr>) s) = core_of s"
    "core_of (set_node n (nd\<lparr>nd_deps := ds\<rparr>) s) = core_of s"
    "core_of (set_node n (nd\<lparr>nd_requests := rs\<rparr>) s) = core_of s"
    "core_of (set_node n (nd\<lparr>nd_proxy_monitors := ps\<rparr>) s) = core_of s"
    "core_of (set_node n (nd\<lparr>nd_metrics_slot := b\<rparr>) s) = core_of s"
    "core_of (set_node n (nd\<lparr>nd_is_shutdown := b\<rparr>) s) = core_of s"
    "core_of (set_node n (nd\<lparr>nd_last_seen := t, nd_last_seen_monotonic := t'\<rparr>) s) = core_of s"
  by (rule core_set_node [OF assms]; simp add: node_core_def)+

lemma core_set_pm_fields [simp]:
  assumes "pm_h s p = Some pm"
  shows "core_of (set_pm p (pm\<lparr>pm_ref := r\<rparr>) s) = core_of s"
    "core_of (set_pm p (pm\<lparr>pm_added_dep := b\<rparr>) s) = core_of s"
  by (rule core_set_pm [OF assms]; simp)+

lemma core_set_req_fields [simp]:
  assumes "req_h s r = Some rq"
  shows "core_of (set_req r (rq\<lparr>req_ref := i\<rparr>) s) = core_of s"
    "core_of (set_req r (rq\<lparr>req_cancelled := b\<rparr>) s) = core_of s"
    "core_of (set_req r (rq\<lparr>req_ref := i, req_started := b\<rparr>) s) = core_of s"
  by (rule core_set_req [OF assms]; simp)+

lemma core_simps [simp]:
  "core_of (emit e c m s) = core_of s"
  "core_of (put m s) = core_of s"
  "core_of (set_sub a v s) = core_of s"
  "core_of (set_mon a v' s) = core_of s"
  "core_of (set_job a v'' s) = core_of s"
  "core_of (set_setup a js s) = core_of s"
  "core_of (s\<lparr>sub_h := x1\<rparr>) = core_of s"
  "core_of (s\<lparr>mon_h := x2\<rparr>) = core_of s"
  "core_of (s\<lparr>job_h := x3\<rparr>) = core_of s"
  "core_of (s\<lparr>setup_h := x4\<rparr>) = core_of s"
  "core_of (s\<lparr>jobs := x5\<rparr>) = core_of s"
  "core_of (s\<lparr>monitors := x6\<rparr>) = core_of s"
  "core_of (s\<lparr>all_subscriptions := x7\<rparr>) = core_of s"
  "core_of (s\<lparr>proxy_calls := x8\<rparr>) = core_of s"
  "core_of (s\<lparr>next_sub_id := x9\<rparr>) = core_of s"
  "core_of (s\<lparr>next_job_id := x10\<rparr>) = core_of s"
  "core_of (s\<lparr>next_monitor_id := x11\<rparr>) = core_of s"
  "core_of (s\<lparr>next_peer_id := x12\<rparr>) = core_of s"
  "core_of (s\<lparr>metrics_enabled := x13\<rparr>) = core_of s"
  "core_of (s\<lparr>metrics_slot := x14\<rparr>) = core_of s"
  by (simp_all add: core_of_def prim_defs set_setup_def)

lemma heap_reads [simp]:
  "node_h (emit e c m s) = node_h s" "pm_h (emit e c m s) = pm_h s" "sub_h (emit e c m s) = sub_h s"
  "mon_h (emit e c m s) = mon_h s" "req_h (emit e c m s) = req_h s"
  "node_h (put m s) = node_h s" "pm_h (put m s) = pm_h s" "sub_h (put m s) = sub_h s"
  "mon_h (put m s) = mon_h s" "req_h (put m s) = req_h s"
  "node_h (set_node n nd s) = (node_h s)(n \<mapsto> nd)" "pm_h (set_node n nd s) = pm_h s"
  "sub_h (set_node n nd s) = sub_h s" "mon_h (set_node n nd s) = mon_h s" "req_h (set_node n nd s) = req_h s"
  "pm_h (set_pm p pm s) = (pm_h s)(p \<mapsto> pm)" "node_h (set_pm p pm s) = node_h s"
  "sub_h (set_sub a v s) = (sub_h s)(a \<mapsto> v)" "node_h (set_sub a v s) = node_h s"
  "pm_h (set_sub a v s) = pm_h s"
  "mon_h (set_mon a mo s) = (mon_h s)(a \<mapsto> mo)" "node_h (set_mon a mo s) = node_h s"
  "req_h (set_req r rq s) = (req_h s)(r \<mapsto> rq)" "node_h (set_req r rq s) = node_h s"
  by (simp_all add: prim_defs)

lemma foldo_core:
  assumes "foldo f xs s = Some t"
    and "\<And>x s t. x \<in> set xs \<Longrightarrow> f x s = Some t \<Longrightarrow> core_of t = core_of s"
  shows "core_of t = core_of s"
  using foldo_invariant [OF assms(1), where P = "\<lambda>u. core_of u = core_of s"] assms(2) by auto

lemma monitor_send_core [simp]: "core_of (monitor_send e name path ev d s) = core_of s"
  by (simp add: monitor_send_def)

lemma monitor_send_all_core [simp]: "core_of (monitor_send_all e name ev mo s) = core_of s"
  unfolding monitor_send_all_def by (rule fold_proj_eq) simp

lemma proxy_monitor_call_core: "proxy_monitor_call e p m args s = Some t \<Longrightarrow> core_of t = core_of s"
  by (auto simp: proxy_monitor_call_def bind_eq_Some_conv Let_def core_set_pm split: option.splits if_splits)

lemmas handler_defs = monitor_on_unit_new_def monitor_on_unit_removed_def
  monitor_on_unit_state_changed_def monitor_on_unit_property_changed_def
  proxy_monitor_on_unit_new_def proxy_monitor_on_unit_removed_def
  proxy_monitor_on_unit_state_changed_def proxy_monitor_on_unit_property_changed_def
  proxy_monitor_send_new_def proxy_monitor_send_removed_def proxy_monitor_send_state_changed_def

lemma handle_core:
  "handle_monitor e m ev s = Some t \<Longrightarrow> core_of t = core_of s"
  "handle_proxy_monitor e p ev s = Some t \<Longrightarrow> core_of t = core_of s"
  by (cases ev; auto simp: handler_defs bind_eq_Some_conv dest: proxy_monitor_call_core)+

lemma sub_handle_core: "sub_handle e ev a s = Some t \<Longrightarrow> core_of t = core_of s"
  by (cases "sub_h s a") (auto simp: sub_handle_def dest: handle_core split: monitor_ref.splits)

lemma send_agent_core [simp]: "core_of (snd (send_agent_simple_message e nd m arg s)) = core_of s"
  by (auto simp: send_agent_simple_message_def split: option.splits)

lemma send_agent_node [simp]: "node_h (snd (send_agent_simple_message e nd m arg s)) = node_h s"
  by (auto simp: send_agent_simple_message_def split: option.splits)

lemma agent_subscribe_core [simp]:
  "core_of (node_send_agent_subscribe e nd u s) = core_of s" "node_h (node_send_agent_subscribe e nd u s) = node_h s"
  "core_of (node_send_agent_unsubscribe e nd u s) = core_of s" "node_h (node_send_agent_unsubscribe e nd u s) = node_h s"
  "core_of (node_send_agent_subscribe_all e nd s) = core_of s"
  "core_of (node_start_proxy_dependency e nd d s) = core_of s"
  "core_of (node_stop_proxy_dependency e nd d s) = core_of s"
  "node_h (node_stop_proxy_dependency e nd d s) = node_h s"
  "core_of (node_start_proxy_dependency_all e nd s) = core_of s"
proof -
  show 1: "core_of (node_send_agent_subscribe e nd u s) = core_of s" for u s
    by (simp add: node_send_agent_subscribe_def)
  show 2: "core_of (node_start_proxy_dependency e nd d s) = core_of s" for d s
    by (simp add: node_start_proxy_dependency_def)
  show "core_of (node_send_agent_subscribe_all e nd s) = core_of s"
    unfolding node_send_agent_subscribe_all_def by (rule fold_proj_eq) (rule 1)
  show "core_of (node_start_proxy_dependency_all e nd s) = core_of s"
    unfolding node_start_proxy_dependency_all_def by (rule fold_proj_eq) (rule 2)
qed (simp_all add: node_send_agent_subscribe_def node_send_agent_unsubscribe_def node_stop_proxy_dependency_def)

lemma node_subscribe_unit_core: "node_subscribe_unit e n a u s = Some t \<Longrightarrow> core_of t = core_of s"
  by (auto simp: node_subscribe_unit_def bind_eq_Some_conv Let_def split: if_splits
      dest!: sub_handle_core)

lemma node_subscribe_core:
  assumes "node_subscribe e n a s = Some t"
  shows "core_of t = core_of s"
  using assms unfolding node_subscribe_def
  by (clarsimp simp: bind_eq_Some_conv) (erule foldo_core, erule node_subscribe_unit_core)

lemma node_unsubscribe_unit_core: "node_unsubscribe_unit e n a u s = Some t \<Longrightarrow> core_of t = core_of s"
  by (auto simp: node_unsubscribe_unit_def bind_eq_Some_conv Let_def split: if_splits option.splits)

lemma node_unsubscribe_core:
  assumes "node_unsubscribe e n a s = Some t"
  shows "core_of t = core_of s"
  using assms unfolding node_unsubscribe_def
  by (clarsimp simp: bind_eq_Some_conv) (erule foldo_core, erule node_unsubscribe_unit_core)

lemma notify_unit_core:
  assumes "notify_unit e n u ev s = Some t"
  shows "core_of t = core_of s"
  using assms unfolding notify_unit_def
  by (clarsimp simp: bind_eq_Some_conv) (erule foldo_core, erule sub_handle_core)

lemma sub_refs_core:
  "subscription_ref a s = Some t \<Longrightarrow> core_of t = core_of s"
  "subscription_add_unit a u s = Some t \<Longrightarrow> core_of t = core_of s"
  "monitor_incref m s = Some t \<Longrightarrow> core_of t = core_of s"
  "monitor_unref m s = Some t \<Longrightarrow> core_of t = core_of s"
  by (auto simp: subscription_ref_def subscription_add_unit_def monitor_incref_def monitor_unref_def
      bind_eq_Some_conv split: if_splits)

lemma subscription_unref_core: "subscription_unref a s = Some t \<Longrightarrow> core_of t = core_of s"
  by (auto simp: subscription_unref_def bind_eq_Some_conv dest: sub_refs_core
      split: if_splits monitor_ref.splits)

lemma controller_add_subscription_core:
  assumes "controller_add_subscription e a s = Some t"
  shows "core_of t = core_of s"
proof -
  from assms obtain s1 s2 sub where s1: "subscription_ref a s = Some s1"
    and s2: "s2 = s1\<lparr>all_subscriptions := all_subscriptions s1 @ [a]\<rparr>"
    and rest: "(if subscription_has_node_wildcard sub then foldo (\<lambda>n. node_subscribe e n a) (nodes s2) s2
        else case controller_find_node s2 (sub_node sub) of None \<Rightarrow> Some s2
             | Some n \<Rightarrow> node_subscribe e n a s2) = Some t"
    unfolding controller_add_subscription_def Let_def bind_eq_Some_conv by blast
  have "core_of t = core_of s2"
    using rest foldo_core [of "\<lambda>n. node_subscribe e n a" "nodes s2" s2 t]
    by (auto split: if_splits option.splits dest: node_subscribe_core)
  then show ?thesis using sub_refs_core(1) [OF s1] s2 by simp
qed

lemma controller_remove_subscription_core:
  assumes "controller_remove_subscription e a s = Some t"
  shows "core_of t = core_of s"
proof -
  from assms obtain sub s1 subs where
    un: "(if subscription_has_node_wildcard sub then foldo (\<lambda>n. node_unsubscribe e n a) (nodes s) s
          else case controller_find_node s (sub_node sub) of None \<Rightarrow> Some s
               | Some n \<Rightarrow> node_unsubscribe e n a s) = Some s1"
    and un2: "subscription_unref a (s1\<lparr>all_subscriptions := subs\<rparr>) = Some t"
    unfolding controller_remove_subscription_def bind_eq_Some_conv by blast
  have "core_of s1 = core_of s"
    using un foldo_core [of "\<lambda>n. node_unsubscribe e n a" "nodes s" s s1]
    by (auto split: if_splits option.splits dest: node_unsubscribe_core)
  then show ?thesis using subscription_unref_core [OF un2] by simp
qed

lemma proxy_dependency_core:
  "node_add_proxy_dependency e n u s = Some (r, t) \<Longrightarrow> core_of t = core_of s"
  "node_remove_proxy_dependency e n u s = Some (r, t) \<Longrightarrow> core_of t = core_of s"
  by (auto simp: node_add_proxy_dependency_def node_remove_proxy_dependency_def bind_eq_Some_conv Let_def
      split: option.splits if_splits)

lemma proxy_monitor_drop_dep_core: "proxy_monitor_drop_dep e p s = Some t \<Longrightarrow> core_of t = core_of s"
  by (auto simp: proxy_monitor_drop_dep_def bind_eq_Some_conv dest!: proxy_dependency_core(2)
      split: if_splits)

lemma job_core:
  "job_ref j s = Some t \<Longrightarrow> core_of t = core_of s"
  "job_unref j s = Some t \<Longrightarrow> core_of t = core_of s"
  "job_export e j s = Some (ok, t) \<Longrightarrow> core_of t = core_of s"
  "job_set_state e j st s = Some t \<Longrightarrow> core_of t = core_of s"
  "metrics_produce_job_report e j s = Some t \<Longrightarrow> core_of t = core_of s"
  by (auto simp: job_ref_def job_unref_def job_export_def job_set_state_def metrics_produce_job_report_def
      bind_eq_Some_conv Let_def case_prod_beta split: if_splits)

lemma controller_job_core:
  "controller_add_job e j s = Some (ok, t) \<Longrightarrow> core_of t = core_of s"
  "controller_remove_job e j res s = Some t \<Longrightarrow> core_of t = core_of s"
  by (auto simp: controller_add_job_def controller_remove_job_def bind_eq_Some_conv Let_def
      dest!: job_core split: if_splits)

lemma controller_job_event_core:
  "controller_job_state_changed e i st s = Some t \<Longrightarrow> core_of t = core_of s"
  "controller_finish_job e i res s = Some t \<Longrightarrow> core_of t = core_of s"
  by (auto simp: controller_job_state_changed_def controller_finish_job_def bind_eq_Some_conv
      dest!: job_core(4) controller_job_core(2) split: option.splits if_splits)

lemma setup_core:
  "job_setup_ref a s = Some t \<Longrightarrow> core_of t = core_of s"
  "job_setup_unref a s = Some t \<Longrightarrow> core_of t = core_of s"
  "free_userdata cb s = Some t \<Longrightarrow> core_of t = core_of s"
proof -
  show *: "job_setup_unref a s = Some t \<Longrightarrow> core_of t = core_of s" for a s t
    by (auto simp: job_setup_unref_def bind_eq_Some_conv dest!: job_core(2) split: if_splits)
  show "job_setup_ref a s = Some t \<Longrightarrow> core_of t = core_of s"
    by (auto simp: job_setup_ref_def bind_eq_Some_conv)
  show "free_userdata cb s = Some t \<Longrightarrow> core_of t = core_of s"
    by (cases cb) (auto dest: *)
qed

lemma lifecycle_callback_core:
  "unit_lifecycle_method_callback e a ans s = Some t \<Longrightarrow> core_of t = core_of s"
  by (cases ans) (auto simp: unit_lifecycle_method_callback_def bind_eq_Some_conv
      dest!: controller_job_core(1) split: if_splits)

lemma forward_callback_core [simp]: "core_of (forward_callback e c m ans s) = core_of s"
  by (simp add: forward_callback_def split: answer.split)

end
