(* ===== verification/Ctrl_Frame.thy ===== *)
theory Ctrl_Frame
  imports Ctrl_Inv
begin

text \<open>
  The operations that move references to nodes (destruction of proxy monitors and
  nodes, requests, fleet requests, proxies) keep every connection: each is shown to
  satisfy the frame relation on the core.
\<close>

definition listed :: "Controller \<Rightarrow> addr \<Rightarrow> bool" where
  "listed s n = (n \<in> set (nodes s @ anonymous_nodes s))"

lemma core_fields [simp]:
  "c_nodes (core_of s) = nodes s" "c_anon (core_of s) = anonymous_nodes s"
  "c_count (core_of s) = number_of_nodes s" "c_online (core_of s) = number_of_nodes_online s"
  "c_node (core_of s) n = map_option node_core (node_h s n)"
  "c_pm (core_of s) p = map_option pm_target (pm_h s p)"
  "c_req (core_of s) r = map_option req_node (req_h s r)"
  "c_fleet (core_of s) f = map_option (\<lambda>fr. map sr_node (fr_sub_req fr)) (fleet_h s f)"
  "c_next (core_of s) = next_addr s"
  by (simp_all add: core_of_def)

lemma core_eq_lists:
  "core_of t = core_of s \<Longrightarrow> nodes t = nodes s \<and> anonymous_nodes t = anonymous_nodes s"
  by (metis core_fields(1,2))

lemma core_frame_lists:
  "core_frame (core_of s) (core_of t) \<Longrightarrow> listed t n = listed s n"
  by (simp add: core_frame_def listed_def)

lemma core_frame_eq: "core_of t = core_of s \<Longrightarrow> core_frame (core_of s) (core_of t)"
  by simp

lemma held_mono:
  assumes "c_next c' = c_next c" "\<And>a. held_at c' n a \<le> held_at c n a"
  shows "held c' n \<le> held c n"
  unfolding held_def assms(1) by (rule sum_mono) (rule assms(2))

section \<open>Primitive changes\<close>

text \<open>A node outside the lists may change or go.\<close>

lemma frame_unlisted_node:
  assumes "\<not> listed s n" "node_h s n \<noteq> None"
  shows "core_frame (core_of s) (core_of (s\<lparr>node_h := (node_h s)(n := v)\<rparr>))"
proof -
  let ?t = "s\<lparr>node_h := (node_h s)(n := v)\<rparr>"
  have "held (core_of ?t) m = held (core_of s) m" for m
    by (simp add: held_def held_at_def)
  moreover have "core_fresh (core_of s) \<longrightarrow> core_fresh (core_of ?t)"
    using assms(2) by (auto simp: core_fresh_def)
  ultimately show ?thesis
    using assms(1) by (auto simp: core_frame_def listed_def)
qed

lemma frame_unlisted_set_node:
  "\<not> listed s n \<Longrightarrow> node_h s n \<noteq> None \<Longrightarrow> core_frame (core_of s) (core_of (set_node n nd s))"
  unfolding set_node_def by (rule frame_unlisted_node)

text \<open>A proxy monitor, request or fleet request goes: holders only get fewer.\<close>

lemma frame_free_pm: "core_frame (core_of s) (core_of (s\<lparr>pm_h := (pm_h s)(p := None)\<rparr>))"
  (is "core_frame _ (core_of ?t)")
proof -
  have "held (core_of ?t) n \<le> held (core_of s) n" for n
    by (rule held_mono) (auto simp: held_at_def)
  then show ?thesis
    by (auto simp: core_frame_def core_fresh_def)
qed

text \<open>The changes of single objects, on the core.\<close>

lemma core_of_set_node:
  "core_of (set_node n nd s) = (core_of s)\<lparr>c_node := (c_node (core_of s))(n := Some (node_core nd))\<rparr>"
  by (auto simp: core_of_def set_node_def)

lemma core_of_free_node:
  "core_of (s\<lparr>node_h := (node_h s)(n := None)\<rparr>) = (core_of s)\<lparr>c_node := (c_node (core_of s))(n := None)\<rparr>"
  by (auto simp: core_of_def)

lemma core_of_free_pm:
  "core_of (s\<lparr>pm_h := (pm_h s)(p := None)\<rparr>) = (core_of s)\<lparr>c_pm := (c_pm (core_of s))(p := None)\<rparr>"
  by (auto simp: core_of_def)

lemma core_of_free_req:
  "core_of (s\<lparr>req_h := (req_h s)(r := None)\<rparr>) = (core_of s)\<lparr>c_req := (c_req (core_of s))(r := None)\<rparr>"
  by (auto simp: core_of_def)

lemma core_of_free_fleet:
  "core_of (s\<lparr>fleet_h := (fleet_h s)(r := None)\<rparr>) = (core_of s)\<lparr>c_fleet := (c_fleet (core_of s))(r := None)\<rparr>"
  by (auto simp: core_of_def)

text \<open>A holder of \<open>n\<close> at address \<open>a\<close> gives up one reference.\<close>

lemma frame_release:
  assumes nd: "c_node c n = Some (nm, b, d, r)" and held: "0 < held_at c n a" and fresh: "core_fresh c"
    and t: "c_nodes c' = c_nodes c" "c_anon c' = c_anon c" "c_count c' = c_count c" "c_online c' = c_online c"
      "c_next c' = c_next c" "c_node c' = (c_node c)(n := Some (nm, b, d, r - 1))"
    and at: "\<And>b m. b \<noteq> a \<Longrightarrow> held_at c' m b = held_at c m b"
      "\<And>m. held_at c' m a = held_at c m a - (if m = n then 1 else 0)" "core_fresh c'"
  shows "core_frame c c'"
proof -
  have a: "a < c_next c"
    using held_fresh [OF fresh, of a n] held by (cases "a < c_next c") auto
  have H: "held c' m = held c m - (if m = n then 1 else 0)" for m
    using held_change [OF a t(5) at(1)] at(2) by simp
  show ?thesis
    using t at(3) nd H unfolding core_frame_def by auto
qed

section \<open>Destruction of proxy monitors and nodes\<close>

text \<open>The node after its connection is taken away.\<close>

definition disconnected_node :: "Node \<Rightarrow> Node" where
  "disconnected_node nd = nd\<lparr>nd_disconnect_slot := False, nd_internal_slot := False,
     nd_metrics_slot := False, nd_agent_bus := None, nd_peer_selinux := None, nd_peer_ip := None\<rparr>"

lemma node_unset_agent_bus_core:
  assumes "node_unset_agent_bus e n s = Some t"
  shows "\<exists>nd. node_h s n = Some nd \<and> core_of t = core_of (set_node n (disconnected_node nd) s)"
  using assms
  by (auto simp: node_unset_agent_bus_def bind_eq_Some_conv Let_def disconnected_node_def
      split: if_splits)

lemma node_unset_agent_bus_unlisted:
  assumes "node_unset_agent_bus e n s = Some t" "\<not> listed s n"
  shows "core_frame (core_of s) (core_of t)"
  using node_unset_agent_bus_core [OF assms(1)] frame_unlisted_set_node [OF assms(2)] by auto

lemma foldo_frame:
  assumes "foldo f xs s = Some t" "core_inv (core_of s)"
    and "\<And>x s t. x \<in> set xs \<Longrightarrow> core_inv (core_of s) \<Longrightarrow> f x s = Some t \<Longrightarrow> core_frame (core_of s) (core_of t)"
  shows "core_frame (core_of s) (core_of t)"
proof -
  have "core_inv (core_of t) \<and> core_frame (core_of s) (core_of t)"
  proof (rule foldo_invariant [OF assms(1), where P = "\<lambda>u. core_inv (core_of u) \<and> core_frame (core_of s) (core_of u)"])
    fix x u v
    assume "x \<in> set xs" "f x u = Some v" and u: "core_inv (core_of u) \<and> core_frame (core_of s) (core_of u)"
    then have "core_frame (core_of u) (core_of v)" using assms(3) by blast
    then show "core_inv (core_of v) \<and> core_frame (core_of s) (core_of v)"
      using u core_frame_inv core_frame_trans by blast
  qed (use assms(2) in simp)
  then show ?thesis by simp
qed

definition unref_ok :: "unref_call \<Rightarrow> Controller \<Rightarrow> Controller \<Rightarrow> bool" where
  "unref_ok c s t =
     (case c of
        NodeUnref n \<Rightarrow>
          (\<forall>nd. node_h s n = Some nd \<and> nd_ref nd \<noteq> 1 \<longrightarrow> t = set_node n (nd\<lparr>nd_ref := nd_ref nd - 1\<rparr>) s) \<and>
          (core_inv (core_of s) \<and> \<not> listed s n \<longrightarrow> core_frame (core_of s) (core_of t))
      | _ \<Rightarrow> core_inv (core_of s) \<longrightarrow> core_frame (core_of s) (core_of t))"

lemma NodeUnref_zero_frame:
  assumes inv: "core_inv (core_of s)" and nl: "\<not> listed s n" and nd: "node_h s n = Some nd"
    and f: "foldo (\<lambda>p. run (RemoveProxyMonitor n p)) ps (set_node n (nd\<lparr>nd_ref := 0\<rparr>) s) = Some s1"
    and run: "\<And>p s t. run (RemoveProxyMonitor n p) s = Some t \<Longrightarrow> unref_ok (RemoveProxyMonitor n p) s t"
    and u: "node_unset_agent_bus e n s1 = Some s2" "node_h s2 n \<noteq> None"
  shows "core_frame (core_of s) (core_of (s2\<lparr>node_h := (node_h s2)(n := None)\<rparr>))"
proof -
  let ?s0 = "set_node n (nd\<lparr>nd_ref := 0\<rparr>) s"
  have f0: "core_frame (core_of s) (core_of ?s0)"
    using frame_unlisted_set_node [OF nl] nd by simp
  have f1: "core_frame (core_of ?s0) (core_of s1)"
    by (rule foldo_frame [OF f core_frame_inv [OF inv f0]]) (auto dest!: run simp: unref_ok_def)
  have nl1: "\<not> listed s1 n"
    using nl core_frame_lists [OF f0] core_frame_lists [OF f1] by simp
  have f2: "core_frame (core_of s1) (core_of s2)"
    by (rule node_unset_agent_bus_unlisted [OF u(1) nl1])
  have "core_frame (core_of s2) (core_of (s2\<lparr>node_h := (node_h s2)(n := None)\<rparr>))"
    using frame_unlisted_node [OF _ u(2)] nl1 core_frame_lists [OF f2] by simp
  then show ?thesis using f0 f1 f2 core_frame_trans by blast
qed

text \<open>The end of a proxy monitor whose target is a listed node.\<close>

lemma pm_release_frame:
  assumes inv: "core_inv (core_of s)" and pm: "pm_h s p = Some pm" "pm_target pm = Some n"
    and l: "listed s n" and s1: "core_of s1 = core_of s"
    and run: "\<And>nd. node_h s1 n = Some nd \<Longrightarrow> nd_ref nd \<noteq> 1 \<Longrightarrow> s2 = set_node n (nd\<lparr>nd_ref := nd_ref nd - 1\<rparr>) s1"
    and s3: "core_of s3 = core_of s2"
  shows "core_frame (core_of s) (core_of (s3\<lparr>pm_h := (pm_h s3)(p := None)\<rparr>))"
proof -
  let ?c = "core_of s"
  have fresh: "core_fresh ?c" using inv by (simp add: core_inv_def)
  have at: "0 < held_at ?c n p"
    using pm by (auto simp: held_at_def add_pos_nonneg split: option.split)
  obtain nm b d r where nd: "c_node ?c n = Some (nm, b, d, r)" "2 \<le> r"
    using listed_ref [OF inv _ fresh at] l by (auto simp: listed_def)
  then have "c_node (core_of s1) n = Some (nm, b, d, r)" by (simp only: s1)
  then obtain nd1 where nd1: "node_h s1 n = Some nd1" "node_core nd1 = (nm, b, d, r)" by auto
  then have s2: "s2 = set_node n (nd1\<lparr>nd_ref := nd_ref nd1 - 1\<rparr>) s1"
    using run nd(2) by (simp add: node_core_def)
  have upd: "node_core (nd1\<lparr>nd_ref := nd_ref nd1 - 1\<rparr>) = (nm, b, d, r - 1)"
    using nd1(2) by (auto simp: node_core_def)
  have c': "core_of (s3\<lparr>pm_h := (pm_h s3)(p := None)\<rparr>) =
      ?c\<lparr>c_node := (c_node ?c)(n := Some (nm, b, d, r - 1)), c_pm := (c_pm ?c)(p := None)\<rparr>"
    by (simp only: core_of_free_pm s3 s2 core_of_set_node s1 upd) simp
  show ?thesis unfolding c'
    by (rule frame_release [OF nd(1) at fresh]) (use pm fresh nd in \<open>auto simp: held_at_def core_fresh_def\<close>)
qed

text \<open>One unfolding of the recursion, for any functions \<open>run\<close> that satisfy the
  specification.\<close>

lemma unref_run_ok:
  assumes "unref_run e c s = Some t"
  shows "unref_ok c s t"
proof (rule unref_run.raw_induct [where P = "\<lambda>e c s t. unref_ok c s t", OF _ assms], goal_cases)
  case (1 run e c s t)
  note IH = 1(1) and body = 1(2)
  show ?case
  proof (cases c)
    case (NodeUnref n)
    then obtain nd where nd: "node_h s n = Some nd" using body by (auto simp: bind_eq_Some_conv)
    show ?thesis
    proof (cases "nd_ref nd = 1")
      case False
      then have t: "t = set_node n (nd\<lparr>nd_ref := nd_ref nd - 1\<rparr>) s" using body nd NodeUnref by simp
      then show ?thesis
        using nd False frame_unlisted_set_node by (auto simp: unref_ok_def NodeUnref)
    next
      case True
      then obtain s1 s2 where "foldo (\<lambda>p. run e (RemoveProxyMonitor n p)) (nd_proxy_monitors nd)
            (set_node n (nd\<lparr>nd_ref := 0\<rparr>) s) = Some s1"
        "node_unset_agent_bus e n s1 = Some s2" "node_h s2 n \<noteq> None"
        "t = s2\<lparr>node_h := (node_h s2)(n := None)\<rparr>"
        using body nd NodeUnref by (auto simp: bind_eq_Some_conv split: if_splits)
      then show ?thesis
        using nd True NodeUnref_zero_frame [of s n nd "run e", OF _ _ nd _ IH] by (auto simp: unref_ok_def NodeUnref)
    qed
  next
    case (RemoveProxyMonitor n p)
    from body [unfolded RemoveProxyMonitor unref_call.case bind_eq_Some_conv]
    obtain s1 pm s2 nd pms where "proxy_monitor_close e p s = Some s1" "pm_h s1 p = Some pm"
      and rem: "controller_remove_subscription e (pm_sub pm) s1 = Some s2" "node_h s2 n = Some nd"
      and r: "run e (ProxyMonitorUnref p) (set_node n (nd\<lparr>nd_proxy_monitors := pms\<rparr>) s2) = Some t"
      by blast
    then have "core_of (set_node n (nd\<lparr>nd_proxy_monitors := pms\<rparr>) s2) = core_of s"
      using controller_remove_subscription_core [OF rem(1)]
      by (simp add: proxy_monitor_close_def proxy_monitor_drop_dep_core)
    then show ?thesis using IH [OF r] by (simp add: unref_ok_def RemoveProxyMonitor)
  next
    case (ProxyMonitorUnref p)
    then obtain pm where pm: "pm_h s p = Some pm" using body by (auto simp: bind_eq_Some_conv)
    show ?thesis
    proof (cases "pm_ref pm = 1")
      case False
      then show ?thesis using body pm ProxyMonitorUnref by (auto simp: unref_ok_def)
    next
      case True
      let ?s0 = "set_pm p (pm\<lparr>pm_ref := 0\<rparr>) s"
      from True obtain s2 s3 where s2: "(case pm_target pm of None \<Rightarrow> Some ?s0
            | Some t \<Rightarrow> proxy_monitor_drop_dep e p ?s0 \<bind> run e (NodeUnref t)) = Some s2"
        and s3: "subscription_unref (pm_sub pm) s2 = Some s3" and t: "t = s3\<lparr>pm_h := (pm_h s3)(p := None)\<rparr>"
        using body pm ProxyMonitorUnref by (auto simp: bind_eq_Some_conv)
      have c0: "core_of ?s0 = core_of s" and c3: "core_of s3 = core_of s2"
        using pm subscription_unref_core [OF s3] by simp_all
      have "core_frame (core_of s) (core_of t)" if inv: "core_inv (core_of s)"
      proof (cases "pm_target pm")
        case None
        then have "core_of s3 = core_of s" using s2 c0 c3 by simp
        then show ?thesis using frame_free_pm [of s3 p] t by simp
      next
        case (Some n)
        then obtain s1 where s1: "proxy_monitor_drop_dep e p ?s0 = Some s1" "run e (NodeUnref n) s1 = Some s2"
          using s2 by (auto simp: bind_eq_Some_conv)
        have c1: "core_of s1 = core_of s" using proxy_monitor_drop_dep_core [OF s1(1)] c0 by simp
        note run = IH [OF s1(2), unfolded unref_ok_def, simplified]
        show ?thesis
        proof (cases "listed s n")
          case True
          show ?thesis unfolding t
            by (rule pm_release_frame [OF inv pm Some True c1 _ c3]) (use run in blast)
        next
          case False
          then have "core_frame (core_of s1) (core_of s2)"
            using run inv c1 core_eq_lists [OF c1] by (simp add: listed_def)
          then show ?thesis
            using core_frame_trans [OF _ frame_free_pm [of s3 p]] c1 c3 t by simp
        qed
      qed
      then show ?thesis by (simp add: unref_ok_def ProxyMonitorUnref)
    qed
  qed
qed

lemma node_unref_unlisted:
  "node_unref e n s = Some t \<Longrightarrow> core_inv (core_of s) \<Longrightarrow> \<not> listed s n \<Longrightarrow> core_frame (core_of s) (core_of t)"
  unfolding node_unref_def by (drule unref_run_ok) (simp add: unref_ok_def)

lemma node_remove_proxy_monitor_frame:
  "node_remove_proxy_monitor e n p s = Some t \<Longrightarrow> core_inv (core_of s) \<Longrightarrow> core_frame (core_of s) (core_of t)"
  unfolding node_remove_proxy_monitor_def by (drule unref_run_ok) (simp add: unref_ok_def)

lemma proxy_monitor_unref_frame:
  "proxy_monitor_unref e p s = Some t \<Longrightarrow> core_inv (core_of s) \<Longrightarrow> core_frame (core_of s) (core_of t)"
  unfolding proxy_monitor_unref_def by (drule unref_run_ok) (simp add: unref_ok_def)

section \<open>Requests\<close>

text \<open>Holders only get fewer, nothing else changes.\<close>

definition core_drop :: "core \<Rightarrow> core \<Rightarrow> bool" where
  "core_drop c c' =
     (c_nodes c' = c_nodes c \<and> c_anon c' = c_anon c \<and> c_count c' = c_count c \<and> c_online c' = c_online c \<and>
      c_next c' = c_next c \<and> c_node c' = c_node c \<and> (core_fresh c \<longrightarrow> core_fresh c') \<and>
      (\<forall>m b. held_at c' m b \<le> held_at c m b))"

lemma core_drop_frame: "core_drop c c' \<Longrightarrow> core_frame c c'"
  using held_mono [of c' c] by (fastforce simp: core_drop_def core_frame_def)

text \<open>A holder of \<open>n\<close> at \<open>a\<close> calls \<open>node_unref\<close> and then gives its reference up.\<close>

lemma node_unref_release:
  assumes inv: "core_inv (core_of s)" and at: "0 < held_at (core_of s) n a"
    and run: "node_unref e n s = Some s1" and drop: "core_drop (core_of s1) c'"
    and exact: "\<And>x m b. core_of s1 = (core_of s)\<lparr>c_node := x\<rparr> \<Longrightarrow>
      held_at c' m b = held_at (core_of s) m b - (if m = n \<and> b = a then 1 else 0)"
  shows "core_frame (core_of s) c'"
proof (cases "listed s n")
  case False
  then show ?thesis
    using node_unref_unlisted [OF run inv] core_drop_frame [OF drop] core_frame_trans by blast
next
  case True
  let ?c = "core_of s"
  have fresh: "core_fresh ?c" using inv by (simp add: core_inv_def)
  obtain nm b d r where nd: "c_node ?c n = Some (nm, b, d, r)" "2 \<le> r"
    using listed_ref [OF inv _ fresh at] True by (auto simp: listed_def)
  then obtain nd1 where nd1: "node_h s n = Some nd1" "node_core nd1 = (nm, b, d, r)" by auto
  then have s1: "s1 = set_node n (nd1\<lparr>nd_ref := nd_ref nd1 - 1\<rparr>) s"
    using unref_run_ok [OF run [unfolded node_unref_def]] nd(2) by (simp add: unref_ok_def node_core_def)
  have upd: "node_core (nd1\<lparr>nd_ref := nd_ref nd1 - 1\<rparr>) = (nm, b, d, r - 1)"
    using nd1(2) by (auto simp: node_core_def)
  have c1: "core_of s1 = ?c\<lparr>c_node := (c_node ?c)(n := Some (nm, b, d, r - 1))\<rparr>"
    by (simp only: s1 core_of_set_node upd)
  have "core_fresh (core_of s1)" using fresh nd(1) by (auto simp: c1 core_fresh_def)
  then have "core_fresh c'" using drop by (simp add: core_drop_def)
  then show ?thesis
    by (intro frame_release [OF nd(1) at fresh]) (use drop exact [OF c1] c1 in \<open>simp_all add: core_drop_def\<close>)
qed

lemma held_at_free:
  "held_at (c\<lparr>c_req := (c_req c)(r := None)\<rparr>) m b = held_at c m b - (if b = r \<and> c_req c r = Some m then 1 else 0)"
  "held_at (c\<lparr>c_node := x\<rparr>) m b = held_at c m b"
  by (auto simp: held_at_def)

lemma core_drop_free:
  "core_drop c (c\<lparr>c_req := (c_req c)(r := None)\<rparr>)"
  "core_drop c (c\<lparr>c_fleet := (c_fleet c)(r := None)\<rparr>)"
  by (auto simp: core_drop_def core_fresh_def held_at_def split: option.split)

lemma agent_request_unref_frame:
  assumes run: "agent_request_unref e r s = Some t" and inv: "core_inv (core_of s)"
  shows "core_frame (core_of s) (core_of t)"
proof -
  obtain rq where rq: "req_h s r = Some rq" using run by (auto simp: agent_request_unref_def bind_eq_Some_conv)
  show ?thesis
  proof (cases "req_ref rq = 1")
    case False
    then show ?thesis using run rq by (auto simp: agent_request_unref_def)
  next
    case True
    let ?n = "req_node rq"
    from True obtain s1 nd reqs s2 where s1: "free_userdata (req_cb rq) s = Some s1" "node_h s1 ?n = Some nd"
      and s2: "node_unref e ?n (set_node ?n (nd\<lparr>nd_requests := reqs\<rparr>) s1) = Some s2"
      and t: "t = s2\<lparr>req_h := (req_h s2)(r := None)\<rparr>"
      using run rq by (auto simp: agent_request_unref_def bind_eq_Some_conv)
    let ?s1 = "set_node ?n (nd\<lparr>nd_requests := reqs\<rparr>) s1"
    have c1: "core_of ?s1 = core_of s" using setup_core(3) [OF s1(1)] s1(2) by simp
    have at: "0 < held_at (core_of ?s1) ?n r"
      unfolding c1 using rq by (auto simp: held_at_def add_pos_nonneg add_nonneg_pos split: option.split)
    have n: "c_req (core_of s) r = Some ?n" using rq by simp
    have "core_frame (core_of ?s1) (core_of t)"
      unfolding t core_of_free_req
    proof (rule node_unref_release [OF _ at s2 core_drop_free(1)])
      show "core_inv (core_of ?s1)" using inv by (simp only: c1)
    next
      fix x m b
      assume "core_of s2 = (core_of ?s1)\<lparr>c_node := x\<rparr>"
      then have eq: "core_of s2 = (core_of s)\<lparr>c_node := x\<rparr>" by (simp only: c1)
      show "held_at ((core_of s2)\<lparr>c_req := (c_req (core_of s2))(r := None)\<rparr>) m b =
          held_at (core_of ?s1) m b - (if m = ?n \<and> b = r then 1 else 0)"
        unfolding held_at_free(1) unfolding eq c1 held_at_free(2) using n by auto
    qed
    then show ?thesis by (simp only: c1)
  qed
qed

lemma node_create_request_frame:
  assumes run: "node_create_request e n m args cb s = Some (res, t)" and inv: "core_inv (core_of s)"
  shows "core_frame (core_of s) (core_of t)"
proof (cases res)
  case (Inl err)
  then have "t = s"
    using run by (auto simp: node_create_request_def bind_eq_Some_conv Let_def split: if_splits)
  then show ?thesis by simp
next
  case (Inr r)
  define rq where "rq = \<lparr>req_ref = 1, req_node = n, req_method = m, req_args = args, req_cb = cb,
      req_started = False, req_cancelled = False\<rparr>"
  have rq: "req_node rq = n" by (simp add: rq_def)
  from Inr obtain nd where nd: "node_h s n = Some nd" and
    t: "t = (set_req (next_addr s) rq (set_node n (nd\<lparr>nd_ref := nd_ref nd + 1,
        nd_requests := nd_requests nd @ [next_addr s]\<rparr>) s))\<lparr>next_addr := next_addr s + 1\<rparr>"
    using run by (auto simp: node_create_request_def bind_eq_Some_conv Let_def rq_def split: if_splits)
  let ?c = "core_of s" and ?k = "next_addr s"
  have fresh: "core_fresh ?c" using inv by (simp add: core_inv_def)
  obtain nm b d rf where core: "node_core nd = (nm, b, d, rf)" by (cases "node_core nd") auto
  have c': "core_of t = ?c\<lparr>c_node := (c_node ?c)(n := Some (nm, b, d, rf + 1)),
      c_req := (c_req ?c)(?k := Some n), c_next := ?k + 1\<rparr>"
    using core rq by (auto simp: t core_of_def set_req_def set_node_def node_core_def)
  have at: "held_at (core_of t) m ?k = (if m = n then 1 else 0)" for m
    using fresh by (auto simp: c' held_at_def core_fresh_def)
  have H: "held (core_of t) m = held ?c m + (if m = n then 1 else 0)" for m
    using held_alloc [of "core_of t" ?c m] at by (simp add: c' held_at_def)
  have "n < ?k" using fresh nd by (metis core_fields(5,9) core_fresh_def not_le option.simps(3) option.simps(9))
  then have "core_fresh (core_of t)" using fresh by (auto simp: c' core_fresh_def)
  then show ?thesis
    using nd core H unfolding core_frame_def by (auto simp: c')
qed

lemma agent_request_start_core: "agent_request_start e r s = Some (res, t) \<Longrightarrow> core_of t = core_of s"
  by (auto simp: agent_request_start_def bind_eq_Some_conv split: option.splits if_splits)

section \<open>Fleet requests\<close>

lemma core_of_set_fleet:
  "core_of (set_fleet f fr s) = (core_of s)\<lparr>c_fleet := (c_fleet (core_of s))(f := Some (map sr_node (fr_sub_req fr)))\<rparr>"
  by (auto simp: core_of_def set_fleet_def)

lemma count_list_update:
  "i < length xs \<Longrightarrow> int (count_list (xs[i := v]) x) =
     int (count_list xs x) - (if xs ! i = x then 1 else 0) + (if v = x then 1 else 0)"
proof (induction xs arbitrary: i)
  case (Cons y ys)
  show ?case
  proof (cases i)
    case 0
    then show ?thesis by simp
  next
    case (Suc j)
    then show ?thesis using Cons.IH [of j] Cons.prems by (cases "y = x") simp_all
  qed
qed simp

lemma set_sub_req_node_None:
  assumes "set_sub_req f i (\<lambda>sr. sr\<lparr>sr_node := None\<rparr>) s = Some t"
  shows "\<exists>xs. c_fleet (core_of s) f = Some xs \<and> i < length xs \<and>
    core_of t = (core_of s)\<lparr>c_fleet := (c_fleet (core_of s))(f := Some (xs[i := None]))\<rparr>"
proof -
  obtain fr where fr: "fleet_h s f = Some fr" "i < length (fr_sub_req fr)"
    "t = set_fleet f (fr\<lparr>fr_sub_req := (fr_sub_req fr)[i := (fr_sub_req fr ! i)\<lparr>sr_node := None\<rparr>]\<rparr>) s"
    using assms by (auto simp: set_sub_req_def bind_eq_Some_conv split: if_splits)
  then show ?thesis
    by (intro exI [of _ "map sr_node (fr_sub_req fr)"]) (simp add: core_of_set_fleet map_update)
qed

lemma set_sub_req_req_core:
  "set_sub_req f i (\<lambda>sr. sr\<lparr>sr_agent_req := None\<rparr>) s = Some t \<Longrightarrow> core_of t = core_of s"
  by (auto simp: set_sub_req_def bind_eq_Some_conv core_of_set_fleet map_update split: if_splits
      intro!: core.equality) (auto simp: list_update_same_conv)

lemma core_drop_fleet:
  "c_fleet c f = Some xs \<Longrightarrow> i < length xs \<Longrightarrow> core_drop c (c\<lparr>c_fleet := (c_fleet c)(f := Some (xs[i := None]))\<rparr>)"
  by (auto simp: core_drop_def core_fresh_def held_at_def count_list_update
      dest!: subsetD [OF set_update_subset_insert])

lemma free_sub_req_node_frame:
  assumes fr: "fleet_h s f = Some fr" "i < length (fr_sub_req fr)" "sr_node (fr_sub_req fr ! i) = Some n"
    and inv: "core_inv (core_of s)" and s1: "node_unref e n s = Some s1"
    and t: "set_sub_req f i (\<lambda>sr. sr\<lparr>sr_node := None\<rparr>) s1 = Some t"
  shows "core_frame (core_of s) (core_of t)"
proof -
  from set_sub_req_node_None [OF t] obtain xs where xs: "c_fleet (core_of s1) f = Some xs" "i < length xs"
    and ct: "core_of t = (core_of s1)\<lparr>c_fleet := (c_fleet (core_of s1))(f := Some (xs[i := None]))\<rparr>"
    by blast
  have mem: "Some n \<in> set (map sr_node (fr_sub_req fr))"
    using fr(2,3) by (metis image_eqI list.set_map nth_mem)
  then have "0 < count_list (map sr_node (fr_sub_req fr)) (Some n)"
    using count_list_0_iff gr0I by metis
  then have at: "0 < held_at (core_of s) n f"
    using fr(1) by (auto simp: held_at_def add_nonneg_pos)
  show ?thesis unfolding ct
  proof (rule node_unref_release [OF inv at s1 core_drop_fleet [OF xs]])
    fix x m b
    assume eq: "core_of s1 = (core_of s)\<lparr>c_node := x\<rparr>"
    then have "xs = map sr_node (fr_sub_req fr)" using xs(1) fr(1) by simp
    then show "held_at ((core_of s1)\<lparr>c_fleet := (c_fleet (core_of s1))(f := Some (xs[i := None]))\<rparr>) m b =
        held_at (core_of s) m b - (if m = n \<and> b = f then 1 else 0)"
      using fr count_list_update [of i xs None "Some m"] by (auto simp: eq held_at_def)
  qed
qed

lemma free_sub_req_frame:
  assumes run: "free_sub_req e f i s = Some t" and inv: "core_inv (core_of s)"
  shows "core_frame (core_of s) (core_of t)"
proof -
  from run obtain fr s1 where fr: "fleet_h s f = Some fr" "i < length (fr_sub_req fr)"
    and s1: "(case sr_node (fr_sub_req fr ! i) of None \<Rightarrow> Some s
        | Some n \<Rightarrow> node_unref e n s \<bind> set_sub_req f i (\<lambda>sr. sr\<lparr>sr_node := None\<rparr>)) = Some s1"
    and t: "(case sr_agent_req (fr_sub_req fr ! i) of None \<Rightarrow> Some s1
        | Some r \<Rightarrow> agent_request_unref e r s1 \<bind> set_sub_req f i (\<lambda>sr. sr\<lparr>sr_agent_req := None\<rparr>)) = Some t"
    by (auto simp: free_sub_req_def bind_eq_Some_conv split: if_splits)
  have f1: "core_frame (core_of s) (core_of s1)"
    using s1 free_sub_req_node_frame [OF fr _ inv] by (auto simp: bind_eq_Some_conv split: option.splits)
  have "core_frame (core_of s1) (core_of t)"
    using t agent_request_unref_frame [OF _ core_frame_inv [OF inv f1]] set_sub_req_req_core
    by (fastforce simp: bind_eq_Some_conv split: option.splits)
  then show ?thesis using f1 core_frame_trans by blast
qed

lemma agent_fleet_request_free_frame:
  assumes run: "agent_fleet_request_free e f s = Some t" and inv: "core_inv (core_of s)"
  shows "core_frame (core_of s) (core_of t)"
proof -
  from run obtain fr s1 where f: "foldo (free_sub_req e f) [0..<length (fr_sub_req fr)] s = Some s1"
    and t: "t = s1\<lparr>fleet_h := (fleet_h s1)(f := None)\<rparr>" and "fleet_h s f = Some fr"
    by (auto simp: agent_fleet_request_free_def bind_eq_Some_conv)
  have "core_frame (core_of s) (core_of s1)"
    by (rule foldo_frame [OF f inv]) (rule free_sub_req_frame)
  then show ?thesis
    unfolding t core_of_free_fleet using core_drop_frame [OF core_drop_free(2)] core_frame_trans by blast
qed

lemma agent_fleet_request_done_frame:
  assumes run: "agent_fleet_request_done e f s = Some t" and inv: "core_inv (core_of s)"
  shows "core_frame (core_of s) (core_of t)"
proof -
  from run obtain fr s1 where "fleet_h s f = Some fr" and
    s1: "(if bus_ret e NewMethodReturn < 0 then Some (put (Reply (fr_message fr)
            (ReplyError SD_BUS_ERROR_FAILED ''Failed to create a reply message'')) s)
          else (if bus_ret e AppendOrCopy < 0 then Some (Inl (bus_ret e AppendOrCopy))
                else encode_reply s (fr_sub_req fr) []) \<bind> (\<lambda>enc. Some (case enc of
            Inl r \<Rightarrow> put (Reply (fr_message fr) (ReplyError SD_BUS_ERROR_FAILED ''Request to at least one node failed'')) s
          | Inr ans \<Rightarrow> emit e SendReply (Reply (fr_message fr) (ReplyFleet ans)) s))) = Some s1"
    and t: "agent_fleet_request_free e f s1 = Some t"
    unfolding agent_fleet_request_done_def bind_eq_Some_conv by blast
  have "core_of s1 = core_of s"
    using s1 by (cases "encode_reply s (fr_sub_req fr) []") (auto split: if_splits sum.split_asm)
  then show ?thesis using agent_fleet_request_free_frame [OF t] inv by simp
qed

lemma agent_fleet_request_maybe_done_frame:
  "agent_fleet_request_maybe_done e f s = Some t \<Longrightarrow> core_inv (core_of s) \<Longrightarrow> core_frame (core_of s) (core_of t)"
  by (auto simp: agent_fleet_request_maybe_done_def bind_eq_Some_conv dest: agent_fleet_request_done_frame
      split: if_splits)

lemma record_answer_nodes: "record_answer r ans srs = Some srs' \<Longrightarrow> map sr_node srs' = map sr_node srs"
  by (induction srs arbitrary: srs') (auto split: if_splits)

lemma core_set_fleet_same:
  "fleet_h s f = Some fr \<Longrightarrow> map sr_node (fr_sub_req fr') = map sr_node (fr_sub_req fr) \<Longrightarrow>
   core_of (set_fleet f fr' s) = core_of s"
  by (auto simp: core_of_def set_fleet_def)

lemma agent_fleet_request_callback_frame:
  assumes run: "agent_fleet_request_callback e f r ans s = Some t" and inv: "core_inv (core_of s)"
  shows "core_frame (core_of s) (core_of t)"
proof -
  from run obtain fr srs where fr: "fleet_h s f = Some fr" "record_answer r ans (fr_sub_req fr) = Some srs"
    and t: "agent_fleet_request_maybe_done e f
      (set_fleet f (fr\<lparr>fr_sub_req := srs, fr_n_done := fr_n_done fr + 1\<rparr>) s) = Some t"
    by (auto simp: agent_fleet_request_callback_def bind_eq_Some_conv)
  have "core_of (set_fleet f (fr\<lparr>fr_sub_req := srs, fr_n_done := fr_n_done fr + 1\<rparr>) s) = core_of s"
    by (rule core_set_fleet_same [OF fr(1)]) (simp add: record_answer_nodes [OF fr(2)])
  then show ?thesis using agent_fleet_request_maybe_done_frame [OF t] inv by simp
qed

section \<open>Answers\<close>

lemma run_callback_frame:
  "run_callback e r cb ans s = Some t \<Longrightarrow> core_inv (core_of s) \<Longrightarrow> core_frame (core_of s) (core_of t)"
  by (cases cb) (auto dest: lifecycle_callback_core agent_fleet_request_callback_frame)

lemma agent_request_callback_frame:
  assumes run: "agent_request_callback e r ans s = Some t" and inv: "core_inv (core_of s)"
  shows "core_frame (core_of s) (core_of t)"
proof -
  from run obtain rq s1 where "req_h s r = Some rq" and
    cb: "(if req_cancelled rq then Some s else run_callback e r (req_cb rq) ans s) = Some s1"
    and t: "agent_request_unref e r s1 = Some t"
    unfolding agent_request_callback_def bind_eq_Some_conv by blast
  have s1: "core_frame (core_of s) (core_of s1)"
    using cb inv run_callback_frame [of e r "req_cb rq" ans s s1] by (auto split: if_splits)
  show ?thesis
    using core_frame_trans [OF s1 agent_request_unref_frame [OF t core_frame_inv [OF inv s1]]] .
qed

lemma agent_request_cancel_frame:
  assumes run: "agent_request_cancel e r s = Some t" and inv: "core_inv (core_of s)"
  shows "core_frame (core_of s) (core_of t)"
proof -
  from run obtain rq s1 where rq: "req_h s r = Some rq" and
    s1: "run_callback e r (req_cb rq) (AnswerError SD_BUS_ERROR_FAILED EACCES)
      (set_req r (rq\<lparr>req_cancelled := True\<rparr>) s) = Some s1" and t: "agent_request_unref e r s1 = Some t"
    by (auto simp: agent_request_cancel_def bind_eq_Some_conv)
  have "core_frame (core_of s) (core_of s1)"
    using run_callback_frame [OF s1] rq inv by simp
  then show ?thesis
    using agent_request_unref_frame [OF t] core_frame_inv [OF inv] core_frame_trans by blast
qed

lemma node_shutdown_frame:
  assumes run: "node_shutdown e n s = Some t" and inv: "core_inv (core_of s)"
  shows "core_frame (core_of s) (core_of t)"
proof -
  from run obtain nd where nd: "node_h s n = Some nd" and
    f: "foldo (agent_request_cancel e) (nd_requests nd) (set_node n (nd\<lparr>nd_is_shutdown := True\<rparr>) s) = Some t"
    by (auto simp: node_shutdown_def bind_eq_Some_conv)
  have "core_frame (core_of (set_node n (nd\<lparr>nd_is_shutdown := True\<rparr>) s)) (core_of t)"
    by (rule foldo_frame [OF f]) (use nd inv agent_request_cancel_frame in auto)
  then show ?thesis using nd by simp
qed

section \<open>Allocation of other objects\<close>

lemma frame_grow:
  assumes "core_inv c" "c_next c \<le> k"
  shows "core_frame c (c\<lparr>c_next := k\<rparr>)"
proof -
  have fresh: "core_fresh c" using assms(1) by (simp add: core_inv_def)
  have "held (c\<lparr>c_next := k\<rparr>) n = held c n" for n
  proof -
    have "held (c\<lparr>c_next := k\<rparr>) n = (\<Sum>a<k. held_at c n a)"
      by (simp add: held_def held_at_def)
    also have "\<dots> = (\<Sum>a<c_next c. held_at c n a)"
      using assms(2) held_fresh [OF fresh] by (intro sum.mono_neutral_right) auto
    finally show ?thesis by (simp add: held_def)
  qed
  moreover have "core_fresh (c\<lparr>c_next := k\<rparr>)" using fresh assms(2) by (auto simp: core_fresh_def)
  ultimately show ?thesis by (simp add: core_frame_def)
qed

lemma core_of_next: "core_of (s\<lparr>next_addr := k\<rparr>) = (core_of s)\<lparr>c_next := k\<rparr>"
  by (simp add: core_of_def)

lemma subscription_new_core:
  "subscription_new node mref s = (a, t) \<Longrightarrow>
   a = next_addr s \<and> core_of t = (core_of s)\<lparr>c_next := next_addr s + 1\<rparr> \<and> pm_h t = pm_h s \<and> node_h t = node_h s"
  by (auto simp: subscription_new_def Let_def core_of_next core_of_def set_sub_def)

lemma create_monitor_subscription_frame:
  assumes run: "create_monitor_subscription m node s = Some (a, t)" and inv: "core_inv (core_of s)"
  shows "core_frame (core_of s) (core_of t)"
proof -
  from run obtain s1 where s1: "subscription_new node (MonitorRef m) s = (a, s1)" "monitor_incref m s1 = Some t"
    by (auto simp: create_monitor_subscription_def split: prod.splits)
  then show ?thesis
    using subscription_new_core [OF s1(1)] sub_refs_core(3) [OF s1(2)] frame_grow [OF inv, of "next_addr s + 1"]
    by simp
qed

lemma proxy_monitor_new_frame:
  assumes run: "proxy_monitor_new n target u path s = Some (p, t)" and inv: "core_inv (core_of s)"
  shows "core_frame (core_of s) (core_of t)"
proof -
  let ?k = "next_addr s"
  obtain a s2 where s2: "subscription_new target (ProxyMonitorRef ?k) (s\<lparr>next_addr := ?k + 1\<rparr>) = (a, s2)"
    by fastforce
  define pm where "pm = \<lparr>pm_ref = 1, pm_node = n, pm_sub = a, pm_added_dep = False, pm_unit = u,
      pm_target = None, pm_path = path\<rparr>"
  have t: "p = ?k" "subscription_add_unit a u (set_pm ?k pm s2) = Some t"
    using run s2 by (auto simp: proxy_monitor_new_def create_proxy_monitor_subscription_def pm_def Let_def)
  have c2: "core_of s2 = (core_of s)\<lparr>c_next := ?k + 2\<rparr>"
    using subscription_new_core [OF s2] by (simp add: core_of_next)
  have "core_of t = core_of (set_pm ?k pm s2)"
    using sub_refs_core(2) [OF t(2)] .
  also have "\<dots> = (core_of s)\<lparr>c_next := ?k + 2, c_pm := (c_pm (core_of s))(?k := Some None)\<rparr>"
  proof -
    have "core_of (set_pm ?k pm s2) = (core_of s2)\<lparr>c_pm := (c_pm (core_of s2))(?k := Some None)\<rparr>"
      by (auto simp: core_of_def set_pm_def pm_def)
    then show ?thesis by (simp add: c2)
  qed
  finally have ct: "core_of t = (core_of s)\<lparr>c_next := ?k + 2, c_pm := (c_pm (core_of s))(?k := Some None)\<rparr>" .
  let ?g = "(core_of s)\<lparr>c_next := ?k + 2\<rparr>"
  have g: "core_frame (core_of s) ?g" by (rule frame_grow [OF inv]) simp
  have "held_at (core_of t) m b = held_at ?g m b" for m b
    using inv by (auto simp: ct held_at_def core_inv_def core_fresh_def)
  then have "held (core_of t) m = held ?g m" for m
    by (simp add: held_def ct)
  then have "core_frame ?g (core_of t)"
    by (auto simp: core_frame_def ct core_fresh_def)
  then show ?thesis using g core_frame_trans by blast
qed

section \<open>Proxies\<close>

lemma core_of_set_pm:
  "core_of (set_pm p pm s) = (core_of s)\<lparr>c_pm := (c_pm (core_of s))(p := Some (pm_target pm))\<rparr>"
  by (auto simp: core_of_def set_pm_def)

text \<open>A proxy monitor takes a reference to its target.\<close>

lemma frame_acquire:
  assumes "core_fresh c" "c_node c n = Some (nm, b, d, r)" "c_pm c p \<noteq> None"
  shows "core_frame c (c\<lparr>c_node := (c_node c)(n := Some (nm, b, d, r + 1)), c_pm := (c_pm c)(p := Some (Some n))\<rparr>)"
    (is "core_frame c ?c")
proof -
  have p: "p < c_next c" using assms(1,3) by (metis core_fresh_def not_le)
  have "held ?c m = held c m - held_at c m p + held_at ?c m p" for m
    by (rule held_change [OF p]) (auto simp: held_at_def)
  then have "held ?c m \<le> held c m + (if m = n then 1 else 0)" for m
    by (auto simp: held_at_def)
  moreover have "core_fresh ?c" using assms by (auto simp: core_fresh_def)
  moreover have "\<exists>r'. c_node ?c m = Some (nm', b', d', r') \<and> r0 - held c m \<le> r' - held ?c m"
    if "c_node c m = Some (nm', b', d', r0)" for m nm' b' d' r0
    using that assms(2) calculation(1) [of m] by (cases "m = n") auto
  ultimately show ?thesis by (simp add: core_frame_def)
qed

lemma proxy_monitor_set_target_node_frame:
  assumes run: "proxy_monitor_set_target_node e p n s = Some (r, t)" and inv: "core_inv (core_of s)"
  shows "core_frame (core_of s) (core_of t)"
proof -
  from run obtain s1 pm r3 s3 where s1: "node_ref n s = Some s1" "pm_h s1 p = Some pm"
    and s3: "node_add_proxy_dependency e n (pm_unit pm) (set_pm p (pm\<lparr>pm_target := Some n\<rparr>) s1) = Some (r3, s3)"
    and t: "core_of t = core_of s3"
    by (auto simp: proxy_monitor_set_target_node_def bind_eq_Some_conv Let_def split: if_splits)
  from s1(1) obtain nd where nd: "node_h s n = Some nd" "s1 = set_node n (nd\<lparr>nd_ref := nd_ref nd + 1\<rparr>) s"
    by (auto simp: node_ref_def bind_eq_Some_conv)
  obtain nm b d rf where core: "node_core nd = (nm, b, d, rf)" by (cases "node_core nd") auto
  then have upd: "node_core (nd\<lparr>nd_ref := nd_ref nd + 1\<rparr>) = (nm, b, d, rf + 1)" by (auto simp: node_core_def)
  have "core_of t = (core_of s)\<lparr>c_node := (c_node (core_of s))(n := Some (nm, b, d, rf + 1)),
      c_pm := (c_pm (core_of s))(p := Some (Some n))\<rparr>"
    unfolding t proxy_dependency_core(1) [OF s3] core_of_set_pm nd(2) core_of_set_node upd by simp
  moreover have "core_fresh (core_of s)" "c_node (core_of s) n = Some (nm, b, d, rf)" "c_pm (core_of s) p \<noteq> None"
    using inv nd core s1(2) by (auto simp: core_inv_def)
  ultimately show ?thesis using frame_acquire by metis
qed

lemma proxy_monitor_incref_core: "proxy_monitor_incref p s = Some t \<Longrightarrow> core_of t = core_of s"
  by (auto simp: proxy_monitor_incref_def bind_eq_Some_conv)

lemma send_error_unref_frame:
  assumes "proxy_monitor_send_error e p msg s = Some s1" "proxy_monitor_unref e p s1 = Some t"
    and inv: "core_inv (core_of s)"
  shows "core_frame (core_of s) (core_of t)"
proof -
  have "core_of s1 = core_of s"
    using assms(1) by (simp add: proxy_monitor_send_error_def proxy_monitor_call_core)
  then show ?thesis using proxy_monitor_unref_frame [OF assms(2)] inv by simp
qed

lemma node_on_match_proxy_removed_frame:
  "node_on_match_proxy_removed e n target u s = Some t \<Longrightarrow> core_inv (core_of s) \<Longrightarrow> core_frame (core_of s) (core_of t)"
  by (auto simp: node_on_match_proxy_removed_def bind_eq_Some_conv dest: node_remove_proxy_monitor_frame
      split: option.splits)

lemma proxy_monitor_call_callback_frame:
  "proxy_monitor_call_callback e p s = Some t \<Longrightarrow> core_inv (core_of s) \<Longrightarrow> core_frame (core_of s) (core_of t)"
  by (auto simp: proxy_monitor_call_callback_def bind_eq_Some_conv dest!: proxy_monitor_unref_frame)

text \<open>The part of a proxy request after all checks.\<close>

lemma proxy_new_accept_frame:
  assumes run: "proxy_new_accept e n p tn old s1 = Some t" and inv: "core_inv (core_of s1)"
  shows "core_frame (core_of s1) (core_of t)"
proof -
  from run obtain s2 r s3 where s2: "(case old of None \<Rightarrow> Some s1 | Some q \<Rightarrow> node_remove_proxy_monitor e n q s1) = Some s2"
    and s3: "proxy_monitor_set_target_node e p tn s2 = Some (r, s3)"
    unfolding proxy_new_accept_def bind_eq_Some_conv by force
  note rest = run [unfolded proxy_new_accept_def s2 bind.bind_lunit s3 prod.case]
  have f2: "core_frame (core_of s1) (core_of s2)"
    using s2 node_remove_proxy_monitor_frame [OF _ inv] by (auto split: option.splits)
  have i2: "core_inv (core_of s2)" by (rule core_frame_inv [OF inv f2])
  have f3: "core_frame (core_of s2) (core_of s3)"
    by (rule proxy_monitor_set_target_node_frame [OF s3 i2])
  have i3: "core_inv (core_of s3)" by (rule core_frame_inv [OF i2 f3])
  have "core_frame (core_of s3) (core_of t)"
  proof (cases "r < 0")
    case True
    then show ?thesis
      using rest send_error_unref_frame [OF _ _ i3] by (auto simp: bind_eq_Some_conv)
  next
    case False
    then obtain pm s4 s5 nd5 where s5: "pm_h s3 p = Some pm" "controller_add_subscription e (pm_sub pm) s3 = Some s4"
      "proxy_monitor_incref p s4 = Some s5" "node_h s5 n = Some nd5"
      and t: "proxy_monitor_unref e p (set_node n (nd5\<lparr>nd_proxy_monitors := nd_proxy_monitors nd5 @ [p]\<rparr>) s5) = Some t"
      using rest by (auto simp: bind_eq_Some_conv)
    have "core_of (set_node n (nd5\<lparr>nd_proxy_monitors := nd_proxy_monitors nd5 @ [p]\<rparr>) s5) = core_of s3"
      using s5 controller_add_subscription_core [OF s5(2)] proxy_monitor_incref_core [OF s5(3)] by simp
    then show ?thesis using proxy_monitor_unref_frame [OF t] i3 by simp
  qed
  then show ?thesis using f2 f3 core_frame_trans by blast
qed

lemma node_on_match_proxy_new_frame:
  assumes run: "node_on_match_proxy_new e n target u path s = Some t" and inv: "core_inv (core_of s)"
  shows "core_frame (core_of s) (core_of t)"
proof -
  from run obtain nd p s1 where nd: "node_h s n = Some nd" and new: "proxy_monitor_new n target u path s = Some (p, s1)"
    by (auto simp: node_on_match_proxy_new_def bind_eq_Some_conv)
  have f1: "core_frame (core_of s) (core_of s1)" by (rule proxy_monitor_new_frame [OF new inv])
  have i1: "core_inv (core_of s1)" by (rule core_frame_inv [OF inv f1])
  note body = run [unfolded node_on_match_proxy_new_def nd bind.bind_lunit new prod.case]
  have "core_frame (core_of s1) (core_of t)"
  proof (cases "controller_find_node s1 target")
    case None
    then show ?thesis using body send_error_unref_frame [OF _ _ i1] by (auto simp: bind_eq_Some_conv)
  next
    case (Some tn)
    show ?thesis
    proof (cases "node_find_allowed_proxy_target nd target = None")
      case True
      then show ?thesis using Some body send_error_unref_frame [OF _ _ i1] by (auto simp: bind_eq_Some_conv)
    next
      case False
      then obtain old where "proxy_new_accept e n p tn old s1 = Some t"
        using body Some by (auto simp: bind_eq_Some_conv)
      then show ?thesis by (rule proxy_new_accept_frame [OF _ i1])
    qed
  qed
  then show ?thesis using f1 core_frame_trans by blast
qed

end
