(* ===== verification/Ctrl_Reach.thy ===== *)
theory Ctrl_Reach
  imports Ctrl_Frame Ctrl_Methods
begin

text \<open>
  The controller as a transition system: the initial states (the configured nodes, all
  offline), one transition per event the program reacts to, and the invariant that
  every reachable state satisfies: the counters count, the lists hold live nodes with
  different names, and the reported system status is the true one.
\<close>

section \<open>Initial states and events\<close>

text \<open>The loop of \<open>controller_apply_config\<close> over the allowed node names.\<close>

definition add_expected_node :: "string \<Rightarrow> Controller \<Rightarrow> Controller" where
  "add_expected_node name s =
     (if controller_find_node s name = None then snd (controller_add_node (Some name) s) else s)"

definition initial_state :: "string list \<Rightarrow> Controller" where
  "initial_state names = fold add_expected_node names controller_new"

text \<open>The states the configuration code can produce: nodes are added, get SELinux
  contexts and allowed proxy targets, and the heartbeat times are set.\<close>

inductive configured :: "Controller \<Rightarrow> bool" where
  new: "configured controller_new"
| node: "configured s \<Longrightarrow> configured (add_expected_node name s)"
| selinux: "configured s \<Longrightarrow> node_set_required_selinux_context n ctx s = Some t \<Longrightarrow> configured t"
| target: "configured s \<Longrightarrow> node_add_allowed_proxy_target n target s = Some t \<Longrightarrow> configured t"
| interval: "configured s \<Longrightarrow> configured (s\<lparr>heartbeat_interval_msec := i\<rparr>)"
| threshold: "configured s \<Longrightarrow> configured (s\<lparr>heartbeat_threshold_msec := i\<rparr>)"

lemma configured_initial: "configured (initial_state names)"
  unfolding initial_state_def by (rule fold_invariant) (auto intro: configured.intros)

text \<open>The events.  A handler runs only while the slot or connection it is registered on
  exists: registration on the internal slot of an anonymous node, signals on the bus of a
  named node, the disconnect match on its slot, an answer while the request is started, a
  method of a monitor while it is exported.\<close>

definition signal_source :: "Controller \<Rightarrow> addr \<Rightarrow> bool" where
  "signal_source s n = (n \<in> set (nodes s) \<and> (\<exists>nd. node_h s n = Some nd \<and> nd_agent_bus nd \<noteq> None))"

inductive cstep :: "env \<Rightarrow> Controller \<Rightarrow> Controller \<Rightarrow> bool" for e :: env where
  accept: "controller_accept_node_connection e b s = Some (r, t) \<Longrightarrow> cstep e s t"
| register: "n \<in> set (anonymous_nodes s) \<Longrightarrow> node_h s n = Some nd \<Longrightarrow> nd_internal_slot nd \<Longrightarrow>
    node_method_register e n name s = Some (rep, t) \<Longrightarrow> cstep e s t"
| disconnected: "listed s n \<Longrightarrow> node_h s n = Some nd \<Longrightarrow> nd_disconnect_slot nd \<Longrightarrow>
    node_disconnect e n s = Some t \<Longrightarrow> cstep e s t"
| job_done: "signal_source s n \<Longrightarrow> node_match_job_done e i res s = Some t \<Longrightarrow> cstep e s t"
| job_state: "signal_source s n \<Longrightarrow> node_match_job_state_changed e i st s = Some t \<Longrightarrow> cstep e s t"
| unit_props: "signal_source s n \<Longrightarrow> node_match_unit_properties_changed e n u i ps s = Some t \<Longrightarrow> cstep e s t"
| unit_new: "signal_source s n \<Longrightarrow> node_match_unit_new e n u r s = Some t \<Longrightarrow> cstep e s t"
| unit_state: "signal_source s n \<Longrightarrow> node_match_unit_state_changed e n u a b r s = Some t \<Longrightarrow> cstep e s t"
| unit_removed: "signal_source s n \<Longrightarrow> node_match_unit_removed e n u s = Some t \<Longrightarrow> cstep e s t"
| proxy_new: "signal_source s n \<Longrightarrow> node_on_match_proxy_new e n tn u p s = Some t \<Longrightarrow> cstep e s t"
| proxy_removed: "signal_source s n \<Longrightarrow> node_on_match_proxy_removed e n tn u s = Some t \<Longrightarrow> cstep e s t"
| heartbeat: "signal_source s n \<Longrightarrow> node_match_heartbeat e n s = Some t \<Longrightarrow> cstep e s t"
| agent_metrics: "signal_source s n \<Longrightarrow> node_metrics_match_agent_job e n u m d s = Some t \<Longrightarrow> cstep e s t"
| proxy_reply: "proxy_monitor_call_callback e p s = Some t \<Longrightarrow> cstep e s t"
| answer: "req_h s r = Some rq \<Longrightarrow> req_started rq \<Longrightarrow> agent_request_callback e r ans s = Some t \<Longrightarrow> cstep e s t"
| timer: "controller_heartbeat_timer_callback e ev now src s = Some (r, src', t) \<Longrightarrow> cstep e s t"
| create_monitor: "controller_method_create_monitor e sender s = Some (rep, t) \<Longrightarrow> cstep e s t"
| mon_subscribe: "monitor_method_subscribe_list e m node us s = Some (rep, t) \<Longrightarrow> cstep e s t"
| mon_unsubscribe: "monitor_method_unsubscribe e m i s = Some (rep, t) \<Longrightarrow> cstep e s t"
| mon_add_peer: "monitor_method_add_peer m name s = Some (rep, t) \<Longrightarrow> cstep e s t"
| mon_remove_peer: "monitor_method_remove_peer e m i reason s = Some (rep, t) \<Longrightarrow> cstep e s t"
| mon_close: "monitor_method_close e m s = Some (rep, t) \<Longrightarrow> cstep e s t"
| client_gone: "controller_name_owner_changed e name new_owner s = Some t \<Longrightarrow> cstep e s t"
| list_one: "n \<in> set (nodes s) \<Longrightarrow> node_method_list e method n mi s = Some (rep, t) \<Longrightarrow> cstep e s t"
| set_props: "n \<in> set (nodes s) \<Longrightarrow> node_method_set_unit_properties e n mi args s = Some (rep, t) \<Longrightarrow> cstep e s t"
| passthrough: "n \<in> set (nodes s) \<Longrightarrow> node_method_passthrough_to_agent e n member mi args s = Some (rep, t) \<Longrightarrow> cstep e s t"
| lifecycle: "n \<in> set (nodes s) \<Longrightarrow> node_run_unit_lifecycle_method e n mi ty method u mode s = Some (rep, t) \<Longrightarrow> cstep e s t"
| job_cancel: "j \<in> set (jobs s) \<Longrightarrow> job_method_cancel e j mi s = Some (rep, t) \<Longrightarrow> cstep e s t"
| list_all: "agent_fleet_request_start e method mi s = Some (rep, t) \<Longrightarrow> cstep e s t"
| metrics_on: "controller_method_metrics_enable e s = Some (rep, t) \<Longrightarrow> cstep e s t"
| metrics_off: "controller_method_metrics_disable e s = Some (rep, t) \<Longrightarrow> cstep e s t"

text \<open>States reachable when the bus library's calls succeed.\<close>

inductive reachable :: "Controller \<Rightarrow> bool" where
  init: "configured s \<Longrightarrow> reachable s"
| step: "reachable s \<Longrightarrow> bus_ok e \<Longrightarrow> cstep e s t \<Longrightarrow> reachable t"

inductive_cases cstep_cases: "cstep e s t"

section \<open>Events that keep every connection\<close>

lemma set_usubs_core: "set_usubs n u f s = Some t \<Longrightarrow> core_of t = core_of s"
  by (auto simp: set_usubs_def bind_eq_Some_conv split: option.splits)

lemma unit_signal_core:
  "node_match_unit_properties_changed e n u i ps s = Some t \<Longrightarrow> core_of t = core_of s"
  "node_match_unit_new e n u r s = Some t \<Longrightarrow> core_of t = core_of s"
  "node_match_unit_state_changed e n u a b r s = Some t \<Longrightarrow> core_of t = core_of s"
  "node_match_unit_removed e n u s = Some t \<Longrightarrow> core_of t = core_of s"
  "node_match_heartbeat e n s = Some t \<Longrightarrow> core_of t = core_of s"
  "node_metrics_match_agent_job e n u m d s = Some t \<Longrightarrow> core_of t = core_of s"
  by (auto simp: node_match_unit_properties_changed_def node_match_unit_new_def
      node_match_unit_state_changed_def node_match_unit_removed_def node_match_heartbeat_def
      node_metrics_match_agent_job_def bind_eq_Some_conv split: if_splits
      dest!: set_usubs_core notify_unit_core)

lemma job_signal_core:
  "node_match_job_done e i res s = Some t \<Longrightarrow> core_of t = core_of s"
  "node_match_job_state_changed e i st s = Some t \<Longrightarrow> core_of t = core_of s"
  by (auto simp: node_match_job_done_def node_match_job_state_changed_def dest: controller_job_event_core)

lemma metrics_node_core:
  "node_enable_metrics e n s = Some t \<Longrightarrow> core_of t = core_of s"
  "node_disable_metrics e n s = Some t \<Longrightarrow> core_of t = core_of s"
  by (auto simp: node_enable_metrics_def node_disable_metrics_def metrics_node_signal_matching_register_def
      bind_eq_Some_conv split: if_splits)

lemma metrics_method_core:
  "controller_method_metrics_enable e s = Some (rep, t) \<Longrightarrow> core_of t = core_of s"
  "controller_method_metrics_disable e s = Some (rep, t) \<Longrightarrow> core_of t = core_of s"
  using foldo_core [OF _ metrics_node_core(1)] foldo_core [OF _ metrics_node_core(2)]
  by (fastforce simp: controller_method_metrics_enable_def controller_method_metrics_disable_def
      split: if_splits)+

lemma monitor_drop_core:
  "monitor_drop_sub e m a s = Some t \<Longrightarrow> core_of t = core_of s"
  "monitor_drop_peer e m p s = Some t \<Longrightarrow> core_of t = core_of s"
  by (auto simp: monitor_drop_sub_def monitor_drop_peer_def bind_eq_Some_conv monitor_emit_peer_removed_def
      dest!: controller_remove_subscription_core subscription_unref_core)

lemma monitor_close_core:
  assumes "monitor_close e m s = Some t"
  shows "core_of t = core_of s"
proof -
  from assms obtain mo s1 s2 where f: "foldo (monitor_drop_sub e m) (mon_subs mo) s = Some s1"
    "foldo (monitor_drop_peer e m) (mon_peers mo) s1 = Some s2" and t: "core_of t = core_of s2"
    and "mon_h s m = Some mo"
    by (auto simp: monitor_close_def bind_eq_Some_conv)
  have "core_of s1 = core_of s" by (rule foldo_core [OF f(1)]) (rule monitor_drop_core(1))
  moreover have "core_of s2 = core_of s1" by (rule foldo_core [OF f(2)]) (rule monitor_drop_core(2))
  ultimately show ?thesis using t by simp
qed

lemma controller_remove_monitor_core: "controller_remove_monitor m s = Some t \<Longrightarrow> core_of t = core_of s"
  by (auto simp: controller_remove_monitor_def bind_eq_Some_conv dest!: sub_refs_core(4))

lemma monitor_method_core:
  "monitor_method_close e m s = Some (rep, t) \<Longrightarrow> core_of t = core_of s"
  "monitor_method_unsubscribe e m i s = Some (rep, t) \<Longrightarrow> core_of t = core_of s"
  "monitor_method_add_peer m name s = Some (rep, t) \<Longrightarrow> core_of t = core_of s"
  "monitor_method_remove_peer e m i reason s = Some (rep, t) \<Longrightarrow> core_of t = core_of s"
  by (auto simp: monitor_method_close_def monitor_method_unsubscribe_def monitor_method_add_peer_def
      monitor_add_peer_def monitor_method_remove_peer_def monitor_emit_peer_removed_def bind_eq_Some_conv Let_def
      dest!: sub_refs_core monitor_close_core controller_remove_monitor_core monitor_drop_core(1)
      split: if_splits option.splits)

lemma client_gone_core: "controller_name_owner_changed e name o' s = Some t \<Longrightarrow> core_of t = core_of s"
proof -
  have one: "drop_client_monitor e c m s = Some t \<Longrightarrow> core_of t = core_of s" for c m s t
    by (auto simp: drop_client_monitor_def bind_eq_Some_conv
        dest!: monitor_close_core controller_remove_monitor_core split: if_splits)
  assume "controller_name_owner_changed e name o' s = Some t"
  then show ?thesis
    by (auto simp: controller_name_owner_changed_def controller_client_disconnected_def
        dest!: foldo_core [OF _ one] split: if_splits)
qed

lemma monitor_new_core:
  "monitor_new owner s = (m, t) \<Longrightarrow> core_of t = (core_of s)\<lparr>c_next := next_addr s + 1\<rparr>"
  by (auto simp: monitor_new_def Let_def core_of_def set_mon_def)

lemma create_monitor_frame:
  assumes run: "controller_method_create_monitor e sender s = Some (rep, t)" and inv: "core_inv (core_of s)"
  shows "core_frame (core_of s) (core_of t)"
proof -
  obtain m s1 where s1: "monitor_new sender s = (m, s1)" by fastforce
  have "core_of t = core_of s1"
    using run s1 by (auto simp: controller_method_create_monitor_def monitor_export_def bind_eq_Some_conv
        dest!: sub_refs_core(3,4) split: if_splits)
  then show ?thesis using monitor_new_core [OF s1] frame_grow [OF inv, of "next_addr s + 1"] by simp
qed

lemma subscribe_list_frame:
  assumes run: "monitor_method_subscribe_list e m node us s = Some (rep, t)" and inv: "core_inv (core_of s)"
  shows "core_frame (core_of s) (core_of t)"
proof -
  from run obtain a s1 s2 s3 mo s4 sub where s1: "create_monitor_subscription m node s = Some (a, s1)"
    and s2: "foldo (subscription_add_unit a) us s1 = Some s2" and s3: "subscription_ref a s2 = Some s3"
    "mon_h s3 m = Some mo"
    and s4: "controller_add_subscription e a (set_mon m (mo\<lparr>mon_subs := mon_subs mo @ [a]\<rparr>) s3) = Some s4"
    and t: "sub_h s4 a = Some sub" "subscription_unref a s4 = Some t"
    by (auto simp: monitor_method_subscribe_list_def bind_eq_Some_conv)
  have "core_of s2 = core_of s1" by (rule foldo_core [OF s2]) (rule sub_refs_core(2))
  then have "core_of t = core_of s1"
    using sub_refs_core(1) [OF s3(1)] controller_add_subscription_core [OF s4] subscription_unref_core [OF t(2)] by simp
  then show ?thesis using create_monitor_subscription_frame [OF s1 inv] by simp
qed

section \<open>Requests\<close>

lemma start_or_drop_frame:
  assumes "start_or_drop e r s = Some (res, t)" and inv: "core_inv (core_of s)"
  shows "core_frame (core_of s) (core_of t)"
proof -
  from assms(1) obtain r1 s1 where s1: "agent_request_start e r s = Some (r1, s1)"
    and t: "(if r1 < 0 then map_option (\<lambda>s2. (r1, s2)) (agent_request_unref e r s1) else Some (r1, s1)) = Some (res, t)"
    by (auto simp: start_or_drop_def bind_eq_Some_conv)
  have "core_of s1 = core_of s" by (rule agent_request_start_core [OF s1])
  then show ?thesis using t inv agent_request_unref_frame [of e r s1] by (auto split: if_splits)
qed

lemma node_request_list_frame:
  assumes run: "node_request_list e method n cb s = Some (r, t)" and inv: "core_inv (core_of s)"
  shows "core_frame (core_of s) (core_of t)"
proof (cases "t = s")
  case False
  then obtain c s1 where s1: "node_create_request e n method [] cb s = Some (c, s1)"
    and t: "(case c of Inl err \<Rightarrow> Some (None, s1) | Inr r \<Rightarrow> start_or_drop e r s1 \<bind>
      (\<lambda>(res, s2). Some (if res < 0 then None else Some r, s2))) = Some (r, t)"
    using run by (auto simp: node_request_list_def bind_eq_Some_conv split: if_splits)
  have f: "core_frame (core_of s) (core_of s1)" by (rule node_create_request_frame [OF s1 inv])
  have "core_frame (core_of s1) (core_of t)"
    using t start_or_drop_frame [OF _ core_frame_inv [OF inv f]] by (auto simp: bind_eq_Some_conv split: sum.splits)
  then show ?thesis using f core_frame_trans by blast
qed simp

lemma submit_request_frame:
  assumes run: "submit_request e n method args cb s = Some (rep, t)" and inv: "core_inv (core_of s)"
  shows "core_frame (core_of s) (core_of t)"
proof -
  from run obtain c s1 where s1: "node_create_request e n method args cb s = Some (c, s1)"
    by (auto simp: submit_request_def bind_eq_Some_conv)
  note body = run [unfolded submit_request_def s1 bind.bind_lunit prod.case]
  have f: "core_frame (core_of s) (core_of s1)" by (rule node_create_request_frame [OF s1 inv])
  have i1: "core_inv (core_of s1)" by (rule core_frame_inv [OF inv f])
  have "core_frame (core_of s1) (core_of t)"
  proof (cases c)
    case (Inl err)
    then show ?thesis using body setup_core(3) by auto
  next
    case (Inr r)
    show ?thesis
    proof (cases "bus_ret e AppendOrCopy < 0")
      case True
      then show ?thesis using body Inr agent_request_unref_frame [OF _ i1] by auto
    next
      case False
      then obtain res s2 where s2: "agent_request_start e r s1 = Some (res, s2)" "agent_request_unref e r s2 = Some t"
        using body Inr by (auto simp: bind_eq_Some_conv)
      then show ?thesis using agent_request_unref_frame [OF s2(2)] agent_request_start_core [OF s2(1)] i1 by simp
    qed
  qed
  then show ?thesis using f core_frame_trans by blast
qed

lemma node_method_frame:
  assumes inv: "core_inv (core_of s)"
  shows "node_method_list e method n mi s = Some (rep, t) \<Longrightarrow> core_frame (core_of s) (core_of t)"
    "node_method_set_unit_properties e n mi args s = Some (rep, t) \<Longrightarrow> core_frame (core_of s) (core_of t)"
    "node_method_passthrough_to_agent e n member mi args s = Some (rep, t) \<Longrightarrow> core_frame (core_of s) (core_of t)"
    "job_method_cancel e j mi s = Some (rep', t) \<Longrightarrow> core_frame (core_of s) (core_of t)"
proof -
  assume "node_method_list e method n mi s = Some (rep, t)"
  then consider "t = s" | r s1 where "node_request_list e method n (CbForward mi) s = Some (r, s1)"
      "t = s1 \<or> (\<exists>q. r = Some q \<and> agent_request_unref e q s1 = Some t)"
    by (auto simp: node_method_list_def bind_eq_Some_conv split: if_splits option.splits)
  then show "core_frame (core_of s) (core_of t)"
  proof cases
    case 2
    then show ?thesis
      using node_request_list_frame [OF 2(1) inv] agent_request_unref_frame core_frame_inv [OF inv] core_frame_trans
      by blast
  qed simp
qed (auto simp: node_method_set_unit_properties_def node_method_passthrough_to_agent_def job_method_cancel_def
      bind_eq_Some_conv dest!: submit_request_frame [OF _ inv] split: if_splits)

lemma job_setup_new_core:
  "job_setup_new m n u ty s = (a, t) \<Longrightarrow> core_of t = (core_of s)\<lparr>c_next := next_addr s + 2\<rparr>"
  by (auto simp: job_setup_new_def job_new_def Let_def core_of_def set_setup_def set_job_def)

lemma lifecycle_frame:
  assumes run: "node_run_unit_lifecycle_method e n mi ty method u mode s = Some (rep, t)"
    and inv: "core_inv (core_of s)"
  shows "core_frame (core_of s) (core_of t)"
proof (cases "t = s")
  case False
  obtain a s1 where s1: "job_setup_new mi n u ty s = (a, s1)" by fastforce
  let ?s2 = "\<lambda>js jb. if metrics_enabled s1 then set_job (js_job js) (jb\<lparr>job_start_micros := time_micros e\<rparr>) s1 else s1"
  obtain js jb s3 rep4 s4 where s2: "setup_h s1 a = Some js" "job_h s1 (js_job js) = Some jb"
    and s3: "job_setup_ref a (?s2 js jb) = Some s3"
    and s4: "submit_request e n method [u, mode, decimal (unat (job_id jb))] (CbLifecycle a) s3 = Some (rep4, s4)"
    and t: "job_setup_unref a s4 = Some t"
    using run s1 False
    by (cases "metrics_enabled s1")
      (auto simp: node_run_unit_lifecycle_method_def bind_eq_Some_conv Let_def split: if_splits)
  have "core_of (?s2 js jb) = core_of s1" by simp
  then have "core_of s3 = (core_of s)\<lparr>c_next := next_addr s + 2\<rparr>"
    using job_setup_new_core [OF s1] setup_core(1) [OF s3] by simp
  then have f: "core_frame (core_of s) (core_of s3)" using frame_grow [OF inv, of "next_addr s + 2"] by simp
  have "core_frame (core_of s3) (core_of t)"
    using submit_request_frame [OF s4 core_frame_inv [OF inv f]] setup_core(2) [OF t] by simp
  then show ?thesis using f core_frame_trans by blast
qed simp

lemma frame_acquire_fleet:
  assumes "core_fresh c" "c_node c n = Some (nm, b, d, r)" "c_fleet c f = Some xs"
  shows "core_frame c (c\<lparr>c_node := (c_node c)(n := Some (nm, b, d, r + 1)), c_fleet := (c_fleet c)(f := Some (xs @ [Some n]))\<rparr>)"
    (is "core_frame c ?c")
proof -
  have p: "f < c_next c" using assms(1,3) by (metis core_fresh_def not_le option.simps(3))
  have "held ?c m = held c m - held_at c m f + held_at ?c m f" for m
    by (rule held_change [OF p]) (auto simp: held_at_def)
  then have H: "held ?c m = held c m + (if m = n then 1 else 0)" for m
    using assms(3) by (auto simp: held_at_def)
  have "core_fresh ?c" using assms by (auto simp: core_fresh_def)
  then show ?thesis using H assms(2) by (simp add: core_frame_def)
qed

lemma fleet_add_node_frame:
  assumes run: "fleet_add_node e method f n s = Some t" and inv: "core_inv (core_of s)"
  shows "core_frame (core_of s) (core_of t)"
proof -
  from run obtain r s1 where s1: "node_request_list e method n (CbFleet f) s = Some (r, s1)"
    by (auto simp: fleet_add_node_def bind_eq_Some_conv)
  have f: "core_frame (core_of s) (core_of s1)" by (rule node_request_list_frame [OF s1 inv])
  have i1: "core_inv (core_of s1)" by (rule core_frame_inv [OF inv f])
  have "core_frame (core_of s1) (core_of t)"
  proof (cases r)
    case None
    then show ?thesis using run s1 by (simp add: fleet_add_node_def)
  next
    case (Some q)
    then obtain nd fr where nd: "node_h s1 n = Some nd" and fr: "fleet_h s1 f = Some fr"
      and t: "t = set_fleet f (fr\<lparr>fr_sub_req := fr_sub_req fr @
         [\<lparr>sr_node = Some n, sr_m = None, sr_agent_req = Some q\<rparr>]\<rparr>) (set_node n (nd\<lparr>nd_ref := nd_ref nd + 1\<rparr>) s1)"
      using run s1 by (auto simp: fleet_add_node_def node_ref_def bind_eq_Some_conv set_node_def split: if_splits)
    obtain nm b d rf where core: "node_core nd = (nm, b, d, rf)" by (cases "node_core nd") auto
    then have upd: "node_core (nd\<lparr>nd_ref := nd_ref nd + 1\<rparr>) = (nm, b, d, rf + 1)" by (auto simp: node_core_def)
    have "core_of t = (core_of s1)\<lparr>c_node := (c_node (core_of s1))(n := Some (nm, b, d, rf + 1)),
        c_fleet := (c_fleet (core_of s1))(f := Some (map sr_node (fr_sub_req fr) @ [Some n]))\<rparr>"
      unfolding t core_of_set_fleet core_of_set_node upd by simp
    moreover have "core_fresh (core_of s1)" using i1 by (simp add: core_inv_def)
    ultimately show ?thesis
      using frame_acquire_fleet [of "core_of s1" n nm b d rf f "map sr_node (fr_sub_req fr)"] nd core fr by simp
  qed
  then show ?thesis using f core_frame_trans by blast
qed

lemma fleet_start_frame:
  assumes run: "agent_fleet_request_start e method mi s = Some (rep, t)" and inv: "core_inv (core_of s)"
  shows "core_frame (core_of s) (core_of t)"
proof (cases "malloc0_array FLEET_SIZE SUB_REQ_SIZE (word_of_int (number_of_nodes s))")
  case None
  then show ?thesis using run by (simp add: agent_fleet_request_start_def)
next
  case (Some sz)
  let ?k = "next_addr s"
  let ?s1 = "(set_fleet ?k \<lparr>fr_message = mi, fr_n_done = 0, fr_capacity = nat (number_of_nodes s),
      fr_sub_req = []\<rparr> s)\<lparr>next_addr := ?k + 1\<rparr>"
  from Some run obtain s2 where s2: "foldo (fleet_add_node e method ?k) (nodes ?s1) ?s1 = Some s2"
    and t: "agent_fleet_request_maybe_done e ?k s2 = Some t"
    by (auto simp: agent_fleet_request_start_def Let_def bind_eq_Some_conv)
  let ?g = "(core_of s)\<lparr>c_next := ?k + 1\<rparr>"
  have c1: "core_of ?s1 = ?g\<lparr>c_fleet := (c_fleet ?g)(?k := Some [])\<rparr>"
    by (auto simp: core_of_def set_fleet_def)
  have "held_at (core_of ?s1) m b = held_at ?g m b" for m b
    using inv unfolding c1 by (auto simp: held_at_def core_inv_def core_fresh_def)
  then have "held (core_of ?s1) m = held ?g m" for m
    by (simp add: held_def c1)
  then have "core_frame ?g (core_of ?s1)"
    unfolding c1 by (auto simp: core_frame_def core_fresh_def)
  then have f1: "core_frame (core_of s) (core_of ?s1)"
    using frame_grow [OF inv, of "?k + 1"] core_frame_trans by auto
  have i1: "core_inv (core_of ?s1)" by (rule core_frame_inv [OF inv f1])
  have f2: "core_frame (core_of ?s1) (core_of s2)"
    by (rule foldo_frame [OF s2 i1]) (rule fleet_add_node_frame)
  have "core_frame (core_of s2) (core_of t)"
    by (rule agent_fleet_request_maybe_done_frame [OF t core_frame_inv [OF i1 f2]])
  then show ?thesis using f1 f2 core_frame_trans by blast
qed

section \<open>Connecting\<close>

text \<open>With a working bus, attaching a connection to a node without one succeeds and changes
  only that node.\<close>

lemma node_set_agent_bus_ok:
  assumes "bus_ok e" "node_h s n = Some nd" "nd_agent_bus nd = None"
  shows "\<exists>t nd'. node_set_agent_bus e n b s = Some (True, t) \<and> core_of t = core_of (set_node n nd' s) \<and>
    node_core nd' = (nd_name nd, Some b, True, nd_ref nd)"
proof -
  have ok: "\<not> bus_ret e c < 0" for c using assms(1) by (simp add: bus_ok_def not_less)
  obtain r ip where ip: "peer_ip_address e b = (r, ip)" by fastforce
  show ?thesis
    by (cases "nd_name nd")
      (auto simp: node_set_agent_bus_def assms(2,3) ip ok Let_def node_core_def core_of_set_node
        intro!: exI [of _ "nd\<lparr>nd_agent_bus := Some b, nd_disconnect_slot := True\<rparr>"])
qed

end
