(* ===== verification/Ctrl_Safety.thy ===== *)
theory Ctrl_Safety
  imports Ctrl_Reach
begin

text \<open>
  The connection invariant of the controller: connecting, registering, disconnecting and
  the heartbeat timer keep it, so every reachable state satisfies it.
\<close>

section \<open>Changes of a single node\<close>

lemma held_node_upd [simp]:
  "held (c\<lparr>c_node := x\<rparr>) n = held c n" "held (c\<lparr>c_online := i\<rparr>) n = held c n"
  "held (c\<lparr>c_count := i\<rparr>) n = held c n" "held (c\<lparr>c_nodes := l\<rparr>) n = held c n"
  "held (c\<lparr>c_anon := l\<rparr>) n = held c n"
  by (simp_all add: held_def held_at_def)

text \<open>The connection of a listed node changes; the online counter follows.\<close>

definition bus_weight :: "cstring \<Rightarrow> bus option \<Rightarrow> int" where
  "bus_weight nm b = (if nm \<noteq> None \<and> b \<noteq> None then 1 else 0)"

lemma core_inv_rewire:
  assumes inv: "core_inv c" and n: "n \<in> set (c_nodes c @ c_anon c)"
    and old: "c_node c n = Some (nm, b, d, r)" and d: "nm \<noteq> None \<Longrightarrow> d' \<Longrightarrow> b' \<noteq> None"
  shows "core_inv (c\<lparr>c_node := (c_node c)(n := Some (nm, b', d', r)),
    c_online := c_online c + bus_weight nm b' - bus_weight nm b\<rparr>)" (is "core_inv ?c")
proof -
  let ?P = "\<lambda>v. \<exists>nm b d r. v = Some (Some nm, Some b, d, r :: int)"
  have on: "core_online c = (\<lambda>n. ?P (c_node c n))" "core_online ?c = (\<lambda>m. ?P (((c_node c)(n := Some (nm, b', d', r))) m))"
    by (auto simp: core_online_def fun_eq_iff)
  have dist: "distinct (c_nodes c)" using inv by (simp add: core_inv_def)
  have "int (length (filter (core_online ?c) (c_nodes c))) =
      int (length (filter (core_online c) (c_nodes c))) + bus_weight nm b' - bus_weight nm b"
  proof (cases "n \<in> set (c_nodes c)")
    case True
    then obtain a where nm: "nm = Some a" using inv old unfolding core_inv_def by fastforce
    have cnt: "int (length (filter (core_online ?c) (c_nodes c))) = int (length (filter (core_online c) (c_nodes c))) +
        (if ?P (Some (nm, b', d', r)) then 1 else 0) - (if ?P (c_node c n) then 1 else 0)"
      unfolding on by (rule count_heap_upd [OF dist True, of ?P])
    show ?thesis
      by (subst cnt, cases b; cases b') (auto simp: nm old bus_weight_def)
  next
    case False
    then have "nm = None" using inv old n unfolding core_inv_def by fastforce
    moreover have "filter (core_online ?c) (c_nodes c) = filter (core_online c) (c_nodes c)"
      unfolding on by (rule filter_heap_upd_notin [OF False])
    ultimately show ?thesis by (simp add: bus_weight_def)
  qed
  moreover have "core_name ?c = core_name c"
    using old by (auto simp: core_name_def fun_eq_iff)
  moreover have "core_fresh c" using inv by (simp add: core_inv_def)
  then have "core_fresh ?c" using old by (auto simp: core_fresh_def)
  moreover have "\<exists>nm b d r. c_node ?c m = Some (Some nm, b, d, r) \<and> 1 + held c m \<le> r \<and> (d \<longrightarrow> b \<noteq> None)"
    if m: "m \<in> set (c_nodes c)" for m
    using inv m old d unfolding core_inv_def by (cases "m = n") fastforce+
  moreover have "\<exists>b d r. c_node ?c m = Some (None, b, d, r) \<and> 1 + held c m \<le> r"
    if m: "m \<in> set (c_anon c)" for m
    using inv m old unfolding core_inv_def by (cases "m = n") fastforce+
  ultimately show ?thesis using inv by (simp add: core_inv_def)
qed

lemma core_inv_rewire_anon:
  assumes "core_inv c" "n \<in> set (c_anon c)" "c_node c n = Some (None, b, d, r)"
  shows "core_inv (c\<lparr>c_node := (c_node c)(n := Some (None, b', d', r))\<rparr>)"
proof -
  have "c\<lparr>c_node := x, c_online := c_online c\<rparr> = c\<lparr>c_node := x\<rparr>" for x by simp
  then show ?thesis using core_inv_rewire [OF assms(1) _ assms(3), of d' b'] assms(2) by (simp add: bus_weight_def)
qed

text \<open>A new node joins one of the lists.\<close>

definition core_add :: "cstring \<Rightarrow> core \<Rightarrow> core" where
  "core_add nm c =
     (let k = c_next c; c1 = c\<lparr>c_node := (c_node c)(k := Some (nm, None, False, 1)), c_next := k + 1\<rparr>
      in if nm = None then c1\<lparr>c_anon := c_anon c @ [k]\<rparr>
         else c1\<lparr>c_nodes := c_nodes c @ [k], c_count := c_count c + 1\<rparr>)"

lemma core_add_fields:
  "c_next (core_add nm c) = c_next c + 1" "c_pm (core_add nm c) = c_pm c" "c_req (core_add nm c) = c_req c"
  "c_fleet (core_add nm c) = c_fleet c" "c_online (core_add nm c) = c_online c"
  "c_node (core_add nm c) = (c_node c)(c_next c := Some (nm, None, False, 1))"
  by (simp_all add: core_add_def Let_def)

lemma core_add_held:
  assumes "core_fresh c"
  shows "held (core_add nm c) m = held c m" "held c (c_next c) = 0" "core_fresh (core_add nm c)"
proof -
  have at: "held_at (core_add nm c) m a = held_at c m a" for m a by (simp add: held_at_def core_add_fields)
  have "held (core_add nm c) m = held c m + held_at (core_add nm c) m (c_next c)"
    by (rule held_alloc) (simp_all add: core_add_fields at)
  then show "held (core_add nm c) m = held c m"
    using held_fresh [OF assms, of "c_next c" m] by (simp add: at)
  show "held c (c_next c) = 0"
    using assms unfolding held_def held_at_def core_fresh_def
    by (intro sum.neutral) (auto split: option.split simp: count_list_0_iff)
  show "core_fresh (core_add nm c)" using assms by (auto simp: core_fresh_def core_add_fields)
qed

lemma core_inv_add:
  assumes inv: "core_inv c" and nm: "nm \<noteq> None \<Longrightarrow> nm \<notin> core_name c ` set (c_nodes c)"
  shows "core_inv (core_add nm c)" (is "core_inv ?c")
proof -
  have fresh: "core_fresh c" using inv by (simp add: core_inv_def)
  note H = core_add_held [OF fresh]
  have live: "m < c_next c" if "m \<in> set (c_nodes c @ c_anon c)" for m
    using that inv fresh unfolding core_inv_def core_fresh_def by (metis Un_iff not_le option.simps(3) set_append)
  have old: "c_node ?c m = c_node c m" if "m \<in> set (c_nodes c @ c_anon c)" for m
    using live [OF that] by (simp add: core_add_fields)
  have same: "core_online ?c m = core_online c m" "core_name ?c m = core_name c m" if "m \<in> set (c_nodes c)" for m
    using that old unfolding core_online_def core_name_def by (metis UnCI set_append)+
  have k: "core_online ?c (c_next c) = False" "core_name ?c (c_next c) = nm"
    by (simp_all add: core_online_def core_name_def core_add_fields)
  have "filter (core_online ?c) (c_nodes c) = filter (core_online c) (c_nodes c)"
    by (rule filter_cong [OF refl same(1)])
  moreover
  have names: "map (core_name ?c) (c_nodes c) = map (core_name c) (c_nodes c)"
    by (rule map_cong [OF refl same(2)])
  then have "distinct (map (core_name ?c) (c_nodes c))" "core_name ?c ` set (c_nodes c) = core_name c ` set (c_nodes c)"
    using inv by (simp only: core_inv_def, metis list.set_map)
  moreover have "c_next c \<notin> set (c_nodes c @ c_anon c)" using live by blast
  moreover have "\<exists>nm b d r. c_node ?c m = Some (Some nm, b, d, r) \<and> 1 + held ?c m \<le> r \<and> (d \<longrightarrow> b \<noteq> None)"
    if m: "m \<in> set (c_nodes c)" for m
    using inv m old [of m] unfolding core_inv_def H(1) by auto
  moreover have "\<exists>b d r. c_node ?c m = Some (None, b, d, r) \<and> 1 + held ?c m \<le> r"
    if m: "m \<in> set (c_anon c)" for m
    using inv m old [of m] unfolding core_inv_def H(1) by auto
  moreover have "c_node ?c (c_next c) = Some (nm, None, False, 1)" "held ?c (c_next c) = 0"
    by (simp_all add: core_add_fields H)
  moreover have "c_nodes ?c = (if nm = None then c_nodes c else c_nodes c @ [c_next c])"
    "c_anon ?c = (if nm = None then c_anon c @ [c_next c] else c_anon c)"
    "c_count ?c = (if nm = None then c_count c else c_count c + 1)"
    by (simp_all add: core_add_def Let_def)
  ultimately show ?thesis
    unfolding core_inv_def using inv nm H(3) k
    by (cases nm) (auto simp: core_inv_def core_add_fields)
qed

section \<open>Connecting and registering\<close>

lemma controller_add_node_core:
  "controller_add_node name s = (n, t) \<Longrightarrow>
   n = next_addr s \<and> core_of t = core_add name (core_of s) \<and> node_h t n = Some (new_node name)"
  by (auto simp: controller_add_node_def node_new_def Let_def core_add_def core_of_def set_node_def
      node_core_def new_node_def)

lemma core_eq_node:
  "core_of t = core_of s \<Longrightarrow> node_h s n = Some nd \<Longrightarrow> \<exists>nd'. node_h t n = Some nd' \<and> node_core nd' = node_core nd"
  by (metis core_fields(5) map_option_eq_Some)

lemma accept_inv:
  assumes ok: "bus_ok e" and run: "controller_accept_node_connection e b s = Some (r, t)" and inv: "core_inv (core_of s)"
  shows "core_inv (core_of t)"
proof -
  obtain n s1 where s1: "controller_add_node None s = (n, s1)" by fastforce
  note n = controller_add_node_core [OF s1]
  have i1: "core_inv (core_of s1)" using n core_inv_add [OF inv, of None] by simp
  obtain t2 nd' where t2: "node_set_agent_bus e n b s1 = Some (True, t2)" "core_of t2 = core_of (set_node n nd' s1)"
      "node_core nd' = (None, Some b, True, 1)"
    using node_set_agent_bus_ok [OF ok, of s1 n "new_node None" b] n by (auto simp: new_node_def)
  have "t = t2" using run s1 t2(1) by (simp add: controller_accept_node_connection_def)
  moreover have "n \<in> set (c_anon (core_of s1))" using n by (auto simp: core_add_def Let_def)
  moreover have "c_node (core_of s1) n = Some (None, None, False, 1)" using n by (simp only: core_add_fields) simp
  ultimately show ?thesis
    using core_inv_rewire_anon [OF i1, of n None False 1 "Some b" True] t2(2,3) by (simp add: core_of_set_node)
qed

text \<open>The steps of a successful registration.\<close>

lemma register_cases:
  assumes run: "node_method_register e n name s = Some (rep, t)" and "rep \<noteq> ReplyOk \<Longrightarrow> t \<noteq> s"
  obtains nd nn named b ok s2 where "node_h s n = Some nd" "nd_name nd = None"
    "controller_find_node s name = Some nn" "node_h s nn = Some named" "nd_agent_bus named = None"
    "nd_agent_bus nd = Some b"
    "node_set_agent_bus e nn b (set_node nn (named\<lparr>nd_last_seen := time_micros e,
       nd_last_seen_monotonic := time_micros_monotonic e\<rparr>) s) = Some (ok, s2)"
    "\<not> ok \<longrightarrow> t = s2"
    "ok \<longrightarrow> (\<exists>s3 s4. (if metrics_enabled s2 then node_enable_metrics e nn s2 else Some s2) = Some s3 \<and>
       node_unset_agent_bus e n s3 = Some s4 \<and>
       t = controller_check_system_status e (number_of_nodes_online s4)
             (s4\<lparr>number_of_nodes_online := number_of_nodes_online s4 + 1\<rparr>))"
  using assms
  by (auto simp: node_method_register_def bind_eq_Some_conv Let_def node_has_agent_def
      split: if_splits option.splits)

lemma find_node_in_Some:
  "find_node_in s ns P = Some n \<Longrightarrow> n \<in> set ns \<and> (\<exists>nd. node_h s n = Some nd \<and> P nd)"
  by (induction ns) (auto split: option.splits if_splits)

lemma controller_find_node_Some:
  "controller_find_node s name = Some n \<Longrightarrow> n \<in> set (nodes s) \<and> (\<exists>nd. node_h s n = Some nd \<and> nd_name nd = Some name)"
  unfolding controller_find_node_def by (rule find_node_in_Some)

lemma find_node_in_None: "find_node_in s ns P = None \<longleftrightarrow> (\<forall>n \<in> set ns. \<forall>nd. node_h s n = Some nd \<longrightarrow> \<not> P nd)"
  by (induction ns) (auto split: option.splits)

lemma controller_find_node_None:
  "controller_find_node s name = None \<longleftrightarrow> (\<forall>n \<in> set (nodes s). \<forall>nd. node_h s n = Some nd \<longrightarrow> nd_name nd \<noteq> Some name)"
  unfolding controller_find_node_def by (rule find_node_in_None)

lemma controller_check_system_status_core [simp]: "core_of (controller_check_system_status e prev s) = core_of s"
  by (simp add: controller_check_system_status_def Let_def)

lemma core_of_online: "core_of (s\<lparr>number_of_nodes_online := i\<rparr>) = (core_of s)\<lparr>c_online := i\<rparr>"
  by (simp add: core_of_def)

text \<open>The core after a successful registration of \<open>n\<close> under a configured name.\<close>

lemma register_core:
  assumes ok: "bus_ok e" and run: "node_method_register e n name s = Some (rep, t)" and change: "rep \<noteq> ReplyOk \<Longrightarrow> t \<noteq> s"
  obtains nn b r d r' where "controller_find_node s name = Some nn"
    "c_node (core_of s) n = Some (None, Some b, d, r)"
    "\<exists>d'. c_node (core_of s) nn = Some (Some name, None, d', r')"
    "core_of t = (core_of s)\<lparr>c_node := (c_node (core_of s))(nn := Some (Some name, Some b, True, r'), n := Some (None, None, False, r)),
        c_online := c_online (core_of s) + 1\<rparr>"
proof -
  from run change obtain nd nn named b ok2 s2 where nd: "node_h s n = Some nd" "nd_name nd = None"
    and nn: "controller_find_node s name = Some nn" "node_h s nn = Some named" "nd_agent_bus named = None"
    and b: "nd_agent_bus nd = Some b"
    and s2: "node_set_agent_bus e nn b (set_node nn (named\<lparr>nd_last_seen := time_micros e,
       nd_last_seen_monotonic := time_micros_monotonic e\<rparr>) s) = Some (ok2, s2)" (is "node_set_agent_bus e nn b ?s1 = _")
    and rest: "ok2 \<longrightarrow> (\<exists>s3 s4. (if metrics_enabled s2 then node_enable_metrics e nn s2 else Some s2) = Some s3 \<and>
       node_unset_agent_bus e n s3 = Some s4 \<and>
       t = controller_check_system_status e (number_of_nodes_online s4)
             (s4\<lparr>number_of_nodes_online := number_of_nodes_online s4 + 1\<rparr>))"
    by (rule register_cases)
  have name: "nd_name named = Some name" using controller_find_node_Some [OF nn(1)] nn(2) by simp
  have c1: "core_of ?s1 = core_of s" using nn(2) by simp
  have ne: "nn \<noteq> n" using name nd nn(2) by auto
  obtain nd' where ok2: ok2 and c2: "core_of s2 = core_of (set_node nn nd' ?s1)"
      and nd': "node_core nd' = (Some name, Some b, True, nd_ref named)"
    using node_set_agent_bus_ok [OF ok, of ?s1 nn _ b] s2 nn name by auto
  obtain s3 s4 where s3: "(if metrics_enabled s2 then node_enable_metrics e nn s2 else Some s2) = Some s3"
    and s4: "node_unset_agent_bus e n s3 = Some s4"
    and t: "t = controller_check_system_status e (number_of_nodes_online s4)
             (s4\<lparr>number_of_nodes_online := number_of_nodes_online s4 + 1\<rparr>)" using rest ok2 by auto
  have c3: "core_of s3 = (core_of s)\<lparr>c_node := (c_node (core_of s))(nn := Some (Some name, Some b, True, nd_ref named))\<rparr>"
    using s3 metrics_node_core(1) [of e nn s2 s3] c2 c1 nd' by (auto simp: core_of_set_node split: if_splits)
  obtain nd3 where nd3: "node_h s3 n = Some nd3" and c4: "core_of s4 = core_of (set_node n (disconnected_node nd3) s3)"
    using node_unset_agent_bus_core [OF s4] by auto
  have "c_node (core_of s3) n = Some (node_core nd)" using c3 ne nd(1) by simp
  then have nd3': "node_core nd3 = node_core nd" using nd3 by simp
  then have d3: "node_core (disconnected_node nd3) = (None, None, False, nd_ref nd)"
    using nd(2) by (simp add: node_core_def disconnected_node_def)
  have "number_of_nodes_online s4 = number_of_nodes_online s" using c4 c3 by (metis core_fields(4) core_of_set_node core.select_convs(4) core.surjective core.update_convs(5))
  then have ct: "core_of t = (core_of s)\<lparr>c_node := (c_node (core_of s))(nn := Some (Some name, Some b, True, nd_ref named), n := Some (None, None, False, nd_ref nd)),
        c_online := c_online (core_of s) + 1\<rparr>"
    unfolding t using c4 c3 d3 by (simp add: core_of_online core_of_set_node)
  show thesis
    by (rule that [OF nn(1) _ _ ct]) (use nd b nn name in \<open>auto simp: node_core_def\<close>)
qed

lemma register_inv:
  assumes ok: "bus_ok e" and run: "node_method_register e n name s = Some (rep, t)"
    and n: "n \<in> set (anonymous_nodes s)" and inv: "core_inv (core_of s)"
  shows "core_inv (core_of t)"
proof (cases "rep \<noteq> ReplyOk \<longrightarrow> t \<noteq> s")
  case True
  then have "rep \<noteq> ReplyOk \<Longrightarrow> t \<noteq> s" by simp
  then obtain nn b r d d' r' where nn: "controller_find_node s name = Some nn"
    and old: "c_node (core_of s) n = Some (None, Some b, d, r)" "c_node (core_of s) nn = Some (Some name, None, d', r')"
    and ct: "core_of t = (core_of s)\<lparr>c_node := (c_node (core_of s))(nn := Some (Some name, Some b, True, r'), n := Some (None, None, False, r)),
        c_online := c_online (core_of s) + 1\<rparr>"
    using register_core [OF ok run] by metis
  let ?c1 = "(core_of s)\<lparr>c_node := (c_node (core_of s))(nn := Some (Some name, Some b, True, r')),
        c_online := c_online (core_of s) + 1\<rparr>"
  have "nn \<in> set (nodes s)" using controller_find_node_Some [OF nn] by simp
  then have i1: "core_inv ?c1"
    using core_inv_rewire [OF inv _ old(2), of True "Some b"] by (simp add: bus_weight_def)
  have "nn \<noteq> n" using old by auto
  then have "c_node ?c1 n = Some (None, Some b, d, r)" using old(1) by simp
  then show ?thesis
    using core_inv_rewire [OF i1, of n None "Some b" d r False None] n by (simp add: ct bus_weight_def)
qed (use inv in auto)

section \<open>Disconnecting\<close>

lemma disconnect_unit_core: "disconnect_unit e n u s = Some t \<Longrightarrow> core_of t = core_of s"
  by (auto simp: disconnect_unit_def bind_eq_Some_conv Let_def dest!: notify_unit_core split: if_splits)

lemma disconnect_job_core: "disconnect_job n j s = Some t \<Longrightarrow> core_of t = core_of s"
  by (auto simp: disconnect_job_def bind_eq_Some_conv dest!: job_core(2) split: if_splits)

lemma core_inv_remove_anon:
  assumes "core_inv c"
  shows "core_inv (c\<lparr>c_anon := remove1 n (c_anon c)\<rparr>)"
proof -
  have "core_online (c\<lparr>c_anon := l\<rparr>) = core_online c" "core_name (c\<lparr>c_anon := l\<rparr>) = core_name c"
    "core_fresh (c\<lparr>c_anon := l\<rparr>) = core_fresh c" for l
    by (simp_all add: core_online_def core_name_def core_fresh_def fun_eq_iff)
  then show ?thesis
    using assms unfolding core_inv_def by (auto simp: distinct_remove1_set)
qed

lemma core_of_anon: "core_of (s\<lparr>anonymous_nodes := l\<rparr>) = (core_of s)\<lparr>c_anon := l\<rparr>"
  by (simp add: core_of_def)

text \<open>An anonymous node goes for good.\<close>

lemma remove_anon_inv:
  assumes run: "controller_remove_node e n s = Some t" and nd: "node_h s n = Some nd" "nd_name nd = None"
    and inv: "core_inv (core_of s)"
  shows "core_inv (core_of t) \<and> nodes t = nodes s"
proof -
  from run nd obtain ns where ns: "list_remove n (anonymous_nodes s) = Some ns"
    and t: "node_unref e n (s\<lparr>anonymous_nodes := ns\<rparr>) = Some t" (is "node_unref e n ?s1 = _")
    by (auto simp: controller_remove_node_def bind_eq_Some_conv node_is_online_def)
  have ns: "ns = remove1 n (anonymous_nodes s)" "n \<in> set (anonymous_nodes s)"
    using ns by (simp_all add: list_remove_Some_iff)
  have i1: "core_inv (core_of ?s1)" using core_inv_remove_anon [OF inv, of n] by (simp add: ns core_of_anon)
  have "\<not> listed ?s1 n"
    using inv ns by (auto simp: listed_def core_inv_def distinct_remove1_set)
  then have f: "core_frame (core_of ?s1) (core_of t)" by (rule node_unref_unlisted [OF t i1])
  then have "nodes t = nodes s" by (simp add: core_frame_def)
  then show ?thesis using core_frame_inv [OF i1 f] by simp
qed

text \<open>A named node goes offline.\<close>

lemma unset_named_inv:
  assumes s4: "node_unset_agent_bus e n s3 = Some s4" and nd: "c_node (core_of s3) n = Some (Some nm, Some b, d, r)"
    and n: "n \<in> set (nodes s3)" and inv: "core_inv (core_of s3)"
  shows "core_inv ((core_of s4)\<lparr>c_online := c_online (core_of s4) - 1\<rparr>)"
proof -
  obtain nd3 where nd3: "node_h s3 n = Some nd3" "core_of s4 = core_of (set_node n (disconnected_node nd3) s3)"
    using node_unset_agent_bus_core [OF s4] by auto
  then have "node_core (disconnected_node nd3) = (Some nm, None, False, r)"
    using nd by (simp add: node_core_def disconnected_node_def)
  then have c4: "core_of s4 = (core_of s3)\<lparr>c_node := (c_node (core_of s3))(n := Some (Some nm, None, False, r))\<rparr>"
    using nd3(2) by (simp add: core_of_set_node)
  have "n \<in> set (c_nodes (core_of s3) @ c_anon (core_of s3))" using n by simp
  from core_inv_rewire [OF inv this nd, of False None]
  show ?thesis by (simp add: c4 bus_weight_def)
qed

lemma core_frame_node:
  assumes "core_frame (core_of s) (core_of t)" "listed s n" "node_h s n = Some nd" "node_core nd = (nm, b, d, r)"
  shows "\<exists>r'. c_node (core_of t) n = Some (nm, b, d, r')"
proof -
  have "n \<in> set (c_nodes (core_of s) @ c_anon (core_of s))" using assms(2) by (simp add: listed_def)
  moreover have "c_node (core_of s) n = Some (nm, b, d, r)" using assms(3,4) by simp
  ultimately show ?thesis using assms(1) unfolding core_frame_def by blast
qed

lemma node_disconnect_inv:
  assumes run: "node_disconnect e n s = Some t" and l: "listed s n" and nd: "node_h s n = Some nd"
    and on: "nd_name nd \<noteq> None \<Longrightarrow> nd_agent_bus nd \<noteq> None" and inv: "core_inv (core_of s)"
  shows "core_inv (core_of t) \<and> nodes t = nodes s"
proof -
  from run nd obtain s1 nd1 s2 where
    s1: "foldo (disconnect_unit e n) (hm_iter e (map fst (nd_unit_subs nd))) s = Some s1" "node_h s1 n = Some nd1"
    and s2: "foldo (node_remove_proxy_monitor e n) (nd_proxy_monitors nd1) s1 = Some s2"
    and rest: "(if nd_name nd = None then controller_remove_node e n s2
          else do {
            s3 \<leftarrow> foldo (disconnect_job n) (jobs s2) s2;
            s4 \<leftarrow> node_unset_agent_bus e n s3;
            Some (controller_check_system_status e (number_of_nodes_online s4)
              (s4\<lparr>number_of_nodes_online := number_of_nodes_online s4 - 1\<rparr>)) }) = Some t"
    unfolding node_disconnect_def Let_def by (auto simp: bind_eq_Some_conv)
  have c1: "core_of s1 = core_of s" by (rule foldo_core [OF s1(1)]) (rule disconnect_unit_core)
  have "core_inv (core_of s1)" using c1 inv by simp
  from foldo_frame [OF s2 this] have f2: "core_frame (core_of s) (core_of s2)"
    using node_remove_proxy_monitor_frame c1 by metis
  have i2: "core_inv (core_of s2)" by (rule core_frame_inv [OF inv f2])
  have l2: "nodes s2 = nodes s" using f2 by (simp add: core_frame_def)
  obtain nm b d r where core: "node_core nd = (nm, b, d, r)" by (cases "node_core nd") auto
  then obtain r2 where n2: "c_node (core_of s2) n = Some (nm, b, d, r2)"
    using core_frame_node [OF f2 l nd] by auto
  have nm: "nm = nd_name nd" "b = nd_agent_bus nd" using core by (simp_all add: node_core_def)
  show ?thesis
  proof (cases "nd_name nd")
    case None
    obtain nd2 where "node_h s2 n = Some nd2" "nd_name nd2 = None"
      using n2 None nm by (auto simp: node_core_def)
    then show ?thesis using rest None remove_anon_inv [OF _ _ _ i2] l2 by simp
  next
    case (Some a)
    then obtain bb where b: "b = Some bb" using on nm by auto
    from Some rest obtain s3 s4 where s3: "foldo (disconnect_job n) (jobs s2) s2 = Some s3"
      and s4: "node_unset_agent_bus e n s3 = Some s4"
      and t: "t = controller_check_system_status e (number_of_nodes_online s4)
              (s4\<lparr>number_of_nodes_online := number_of_nodes_online s4 - 1\<rparr>)"
      by (auto simp: bind_eq_Some_conv)
    have c3: "core_of s3 = core_of s2" by (rule foldo_core [OF s3]) (rule disconnect_job_core)
    have "n \<notin> set (anonymous_nodes s2)" using i2 n2 nm Some unfolding core_inv_def by fastforce
    then have "n \<in> set (nodes s3)" using core_frame_lists [OF f2, of n] l core_eq_lists [OF c3] by (simp add: listed_def)
    then have i4: "core_inv (core_of t)"
      using unset_named_inv [OF s4, of a bb d r2] c3 n2 nm Some b i2 by (simp add: t core_of_online)
    have "nodes t = nodes s3"
      using s4 unfolding t
      by (auto simp: node_unset_agent_bus_def controller_check_system_status_def Let_def emit_def set_node_def
          bind_eq_Some_conv)
    then show ?thesis using i4 c3 l2 core_eq_lists [OF c3] by simp
  qed
qed

section \<open>The heartbeat timer\<close>

lemma heartbeat_node_inv:
  assumes run: "heartbeat_node e n s = Some t" and n: "n \<in> set (nodes s)" and inv: "core_inv (core_of s)"
  shows "core_inv (core_of t) \<and> nodes t = nodes s"
proof -
  obtain nd where nd: "node_h s n = Some nd" using run by (auto simp: heartbeat_node_def bind_eq_Some_conv)
  consider "core_of t = core_of s" | "node_is_online nd" "node_disconnect e n s = Some t"
    using run nd
    by (auto simp: heartbeat_node_def controller_check_node_liveness_def bind_eq_Some_conv
        split: if_splits option.splits)
  then show ?thesis
  proof cases
    case 1
    then show ?thesis using inv core_eq_lists [OF 1] by simp
  next
    case 2
    have "nd_name nd \<noteq> None \<Longrightarrow> nd_agent_bus nd \<noteq> None"
      using 2(1) by (simp add: node_is_online_def node_has_agent_def)
    moreover have "listed s n" using n by (simp add: listed_def)
    ultimately show ?thesis using node_disconnect_inv [OF 2(2) _ nd] inv by blast
  qed
qed

lemma timer_inv:
  assumes run: "controller_heartbeat_timer_callback e ev now src s = Some (r, src', t)" and inv: "core_inv (core_of s)"
  shows "core_inv (core_of t)"
proof -
  have f: "foldo (heartbeat_node e) (nodes s) s = Some t"
    using run by (auto simp: controller_heartbeat_timer_callback_def bind_eq_Some_conv Let_def case_prod_beta)
  have "core_inv (core_of t) \<and> nodes t = nodes s"
    by (rule foldo_invariant [OF f]) (use inv heartbeat_node_inv in auto)
  then show ?thesis by simp
qed

section \<open>Reachable states\<close>

lemma add_expected_node_inv:
  assumes "core_inv (core_of s)"
  shows "core_inv (core_of (add_expected_node name s))"
proof (cases "controller_find_node s name")
  case None
  have "Some name \<notin> core_name (core_of s) ` set (nodes s)"
    using None by (auto simp: controller_find_node_None core_name_def node_core_def split: option.splits)
  then show ?thesis
    using controller_add_node_core [of "Some name" s] core_inv_add [OF assms, of "Some name"] None
    by (cases "controller_add_node (Some name) s") (simp add: add_expected_node_def)
qed (use assms in \<open>simp add: add_expected_node_def\<close>)

lemma config_core:
  "node_set_required_selinux_context n ctx s = Some t \<Longrightarrow> core_of t = core_of s"
  "node_add_allowed_proxy_target n target s = Some t \<Longrightarrow> core_of t = core_of s"
  "core_of (s\<lparr>heartbeat_interval_msec := i\<rparr>) = core_of s" "core_of (s\<lparr>heartbeat_threshold_msec := i\<rparr>) = core_of s"
  by (auto simp: node_set_required_selinux_context_def node_add_allowed_proxy_target_def bind_eq_Some_conv
      core_of_def set_node_def node_core_def fun_eq_iff)

lemma configured_inv: "configured s \<Longrightarrow> core_inv (core_of s)"
proof (induction rule: configured.induct)
  case new
  then show ?case by (simp add: core_inv_def controller_new_def core_of_def core_fresh_def)
qed (auto simp: config_core add_expected_node_inv)

lemma cstep_inv:
  assumes "cstep e s t" "bus_ok e" "core_inv (core_of s)"
  shows "core_inv (core_of t)"
  using assms(1)
proof cases
  case (disconnected n nd)
  have "nd_name nd \<noteq> None \<Longrightarrow> nd_agent_bus nd \<noteq> None"
    using disconnected assms(3) by (auto simp: core_inv_def listed_def node_core_def) 
  then show ?thesis using node_disconnect_inv [OF disconnected(4,1,2)] assms(3) by simp
next
  case (accept b r)
  then show ?thesis using accept_inv assms by blast
next
  case (register n nd name rep)
  then show ?thesis using register_inv assms by blast
next
  case (timer ev now src r src')
  then show ?thesis using timer_inv assms by blast
next
  case (create_monitor sender rep)
  then show ?thesis using create_monitor_frame core_frame_inv assms(3) by blast
next
  case (mon_subscribe m node us rep)
  then show ?thesis using subscribe_list_frame core_frame_inv assms(3) by blast
next
  case (proxy_new n tn u p)
  then show ?thesis using node_on_match_proxy_new_frame core_frame_inv assms(3) by blast
next
  case (proxy_removed n tn u)
  then show ?thesis using node_on_match_proxy_removed_frame core_frame_inv assms(3) by blast
next
  case (proxy_reply p)
  then show ?thesis using proxy_monitor_call_callback_frame core_frame_inv assms(3) by blast
next
  case (answer r rq ans)
  then show ?thesis using agent_request_callback_frame core_frame_inv assms(3) by blast
next
  case (list_one n me mi rep)
  then show ?thesis using node_method_frame(1) core_frame_inv assms(3) by blast
next
  case (set_props n mi args rep)
  then show ?thesis using node_method_frame(2) core_frame_inv assms(3) by blast
next
  case (passthrough n member mi args rep)
  then show ?thesis using node_method_frame(3) core_frame_inv assms(3) by blast
next
  case (job_cancel j mi rep)
  then show ?thesis using node_method_frame(4) core_frame_inv assms(3) by blast
next
  case (lifecycle n mi ty me u mode rep)
  then show ?thesis using lifecycle_frame core_frame_inv assms(3) by blast
next
  case (list_all me mi rep)
  then show ?thesis using fleet_start_frame core_frame_inv assms(3) by blast
qed (use assms(3) in \<open>auto dest: unit_signal_core job_signal_core metrics_method_core monitor_method_core client_gone_core\<close>)

interpretation controller: event_system configured
  "\<lambda>s t. \<exists>e. bus_ok e \<and> cstep e s t" "\<lambda>s. core_inv (core_of s)"
  by unfold_locales (auto intro: configured_inv cstep_inv)

lemma reachable_run:
  "reachable s \<Longrightarrow> \<exists>i. configured i \<and> (\<lambda>s t. \<exists>e. bus_ok e \<and> cstep e s t)\<^sup>*\<^sup>* i s"
proof (induction rule: reachable.induct)
  case (step s e t)
  then show ?case by (metis (mono_tags, lifting) rtranclp.rtrancl_into_rtrancl)
qed blast

lemma reachable_inv: "reachable s \<Longrightarrow> core_inv (core_of s)"
  using reachable_run controller.run_inv by blast

text \<open>The invariant in terms of the state.\<close>

definition online_nodes :: "Controller \<Rightarrow> addr list" where
  "online_nodes s = filter (\<lambda>n. \<exists>nd. node_h s n = Some nd \<and> node_is_online nd) (nodes s)"

lemma core_online_iff: "core_online (core_of s) = (\<lambda>n. \<exists>nd. node_h s n = Some nd \<and> node_is_online nd)"
  by (auto simp: core_online_def node_core_def node_is_online_def node_has_agent_def fun_eq_iff)

lemma inv_counters:
  assumes "core_inv (core_of s)"
  shows "number_of_nodes s = int (length (nodes s))" "number_of_nodes_online s = int (length (online_nodes s))"
  using assms by (simp_all add: core_inv_def online_nodes_def core_online_iff)

lemma inv_listed:
  assumes "core_inv (core_of s)" "n \<in> set (nodes s)"
  obtains nd name where "node_h s n = Some nd" "nd_name nd = Some name"
proof -
  from assms have "\<exists>nm b d r. c_node (core_of s) n = Some (Some nm, b, d, r)"
    unfolding core_inv_def by (metis core_fields(1))
  then show thesis using that by (auto simp: node_core_def)
qed

lemma inv_names:
  assumes inv: "core_inv (core_of s)" and m: "m \<in> set (nodes s)" "n \<in> set (nodes s)"
    and nd: "node_h s m = Some ndm" "node_h s n = Some ndn" "nd_name ndm = nd_name ndn"
  shows "m = n"
proof -
  have "inj_on (core_name (core_of s)) (set (nodes s))"
    using inv by (simp add: core_inv_def distinct_map)
  moreover have "core_name (core_of s) m = core_name (core_of s) n"
    using nd by (simp add: core_name_def node_core_def)
  ultimately show ?thesis using m by (auto dest: inj_onD)
qed

lemma find_node_unique:
  assumes "core_inv (core_of s)" "n \<in> set (nodes s)" "node_h s n = Some nd" "nd_name nd = Some name"
  shows "controller_find_node s name = Some n"
proof (cases "controller_find_node s name")
  case None
  then show ?thesis using assms by (auto simp: controller_find_node_None)
next
  case (Some m)
  then show ?thesis using controller_find_node_Some [OF Some] inv_names [OF assms(1), of m n] assms by auto
qed

end
