(* ===== verification/Ctrl_Props.thy ===== *)
theory Ctrl_Props
  imports Ctrl_Safety
begin

text \<open>
  What the connection handling of the controller guarantees: truthful counters and status,
  exact status signals, registration and disconnection.  The witnesses run the program on a
  controller with two configured nodes.
\<close>

section \<open>An example run\<close>

text \<open>Two configured nodes; an agent connects and registers as the second.\<close>

definition example_start :: Controller where
  "example_start = initial_state [''laptop'', ''pi'']"

definition example_accepted :: Controller where
  "example_accepted = snd (the (controller_accept_node_connection ref_env 7 example_start))"

definition example_registered :: Controller where
  "example_registered = snd (the (node_method_register ref_env 3 ''pi'' example_accepted))"

lemma the_snd: "map_option fst m = Some x \<Longrightarrow> m = Some (x, snd (the m))"
  by (cases m) auto

lemma example_accept: "controller_accept_node_connection ref_env 7 example_start = Some (0, example_accepted)"
  unfolding example_accepted_def by (rule the_snd) code_simp

lemma example_register: "node_method_register ref_env 3 ''pi'' example_accepted = Some (ReplyOk, example_registered)"
  unfolding example_registered_def by (rule the_snd) code_simp

lemma example_reachable: "reachable example_start" "reachable example_accepted" "reachable example_registered"
proof -
  show 0: "reachable example_start" unfolding example_start_def by (rule reachable.init [OF configured_initial])
  show 1: "reachable example_accepted"
    by (rule reachable.step [OF 0 ref_env_ok(1)]) (rule cstep.accept [OF example_accept])
  have "3 \<in> set (anonymous_nodes example_accepted)" by code_simp
  moreover have "node_h example_accepted 3 \<noteq> None" "nd_internal_slot (the (node_h example_accepted 3))" by code_simp+
  ultimately show "reachable example_registered"
    using reachable.step [OF 1 ref_env_ok(1) cstep.register [OF _ _ _ example_register]] by (metis option.collapse)
qed

section \<open>Counters and status\<close>

text \<open>
  C1.  In every reachable state the counters tell the truth: the number of nodes is the
  length of the node list, the number of online nodes is the number of listed nodes that
  have a name and a connection; every listed node is a live object (no dangling pointer)
  and no two listed nodes have the same name.
\<close>

theorem reachable_counters:
  assumes "reachable s"
  shows "number_of_nodes s = int (length (nodes s)) \<and>
    number_of_nodes_online s = int (length (online_nodes s)) \<and>
    (\<forall>n \<in> set (nodes s @ anonymous_nodes s). node_h s n \<noteq> None) \<and>
    distinct (map (\<lambda>n. Option.bind (node_h s n) nd_name) (nodes s))"
proof -
  have inv: "core_inv (core_of s)" by (rule reachable_inv [OF assms])
  have "node_h s n \<noteq> None" if "n \<in> set (nodes s @ anonymous_nodes s)" for n
    using inv that unfolding core_inv_def by fastforce
  moreover have "core_name (core_of s) = (\<lambda>n. Option.bind (node_h s n) nd_name)"
    by (auto simp: core_name_def node_core_def fun_eq_iff split: option.splits)
  then have "distinct (map (\<lambda>n. Option.bind (node_h s n) nd_name) (nodes s))"
    using inv by (simp add: core_inv_def)
  ultimately show ?thesis using inv_counters [OF inv] by blast
qed

theorem reachable_counters_witness:
  "number_of_nodes example_registered = 2 \<and> number_of_nodes_online example_registered = 1 \<and>
   online_nodes example_registered = [2] \<and> nodes example_registered = [1, 2]"
proof -
  have "nodes example_registered = [1, 2]" "number_of_nodes_online example_registered = 1" by code_simp+
  moreover have "node_is_online (the (node_h example_registered 2))" "\<not> node_is_online (the (node_h example_registered 1))"
    "node_h example_registered 1 \<noteq> None" "node_h example_registered 2 \<noteq> None"
    by code_simp+
  ultimately show ?thesis using reachable_counters [OF example_reachable(3)] by (auto simp: online_nodes_def)
qed

text \<open>
  C2.  In every reachable state the status the controller reports is the true one:
  \<open>down\<close> when no configured node is connected, \<open>up\<close> when there is one and all are
  connected, \<open>degraded\<close> otherwise.
\<close>

theorem system_status_true:
  assumes "reachable s"
  shows "controller_get_system_status s =
    (if online_nodes s = [] then ''down''
     else if \<forall>n \<in> set (nodes s). \<exists>nd. node_h s n = Some nd \<and> node_is_online nd then ''up'' else ''degraded'')"
proof -
  have "length (online_nodes s) = length (nodes s) \<longleftrightarrow>
      (\<forall>n \<in> set (nodes s). \<exists>nd. node_h s n = Some nd \<and> node_is_online nd)"
    unfolding online_nodes_def by (rule length_filter_all)
  then show ?thesis using inv_counters [OF reachable_inv [OF assms]] by (simp add: controller_get_system_status_def)
qed

theorem system_status_true_witness:
  "controller_get_system_status example_start = ''down'' \<and> online_nodes example_start = []"
proof -
  have "controller_get_system_status example_start = ''down''" by code_simp
  then show ?thesis using system_status_true [OF example_reachable(1)] by (simp split: if_splits)
qed

text \<open>
  A change of the online counter by one is announced exactly when it changes the
  status string: the guard of \<open>controller_check_system_status\<close> neither misses a
  change nor signals without one.
\<close>

theorem status_signal_exact:
  assumes "bus_ok e" "0 \<le> prev" "prev \<le> number_of_nodes s" "0 \<le> number_of_nodes_online s"
    "number_of_nodes_online s \<le> number_of_nodes s" "\<bar>number_of_nodes_online s - prev\<bar> = 1"
  shows "out (controller_check_system_status e prev s) = out s @
    (if controller_get_system_status s = controller_get_system_status (s\<lparr>number_of_nodes_online := prev\<rparr>)
     then [] else [SystemStatusProp])"
  using assms
  by (auto simp: controller_check_system_status_def controller_get_system_status_def Let_def emit_def)

theorem status_signal_exact_witness:
  "out (controller_check_system_status ref_env 0 (example_start\<lparr>number_of_nodes_online := 1\<rparr>)) = [SystemStatusProp]"
proof -
  have "number_of_nodes example_start = 2" "out example_start = []" by code_simp+
  then show ?thesis
    using status_signal_exact [OF ref_env_ok(1), of 0 "example_start\<lparr>number_of_nodes_online := 1\<rparr>"]
    by (simp add: controller_get_system_status_def)
qed

section \<open>Registration\<close>

text \<open>The condition under which a connected anonymous node may take a name.\<close>

definition may_register :: "Controller \<Rightarrow> Node \<Rightarrow> string \<Rightarrow> bool" where
  "may_register s nd name =
     (\<exists>m \<in> set (nodes s). \<exists>md. node_h s m = Some md \<and> nd_name md = Some name \<and> nd_agent_bus md = None \<and>
        (nd_required_selinux md = None \<or> nd_peer_selinux nd = nd_required_selinux md))"

lemma node_enable_metrics_total: "node_h s n \<noteq> None \<Longrightarrow> \<exists>t. node_enable_metrics e n s = Some t"
  by (auto simp: node_enable_metrics_def metrics_node_signal_matching_register_def split: if_split)

lemma register_succeeds:
  assumes ok: "bus_ok e" and nd: "node_h s n = Some nd" "nd_name nd = None" "nd_agent_bus nd = Some b"
    and m: "controller_find_node s name = Some m" "node_h s m = Some md" "nd_agent_bus md = None"
      "nd_required_selinux md = None \<or> nd_peer_selinux nd = nd_required_selinux md"
  shows "\<exists>t. node_method_register e n name s = Some (ReplyOk, t)"
proof -
  let ?s1 = "set_node m (md\<lparr>nd_last_seen := time_micros e, nd_last_seen_monotonic := time_micros_monotonic e\<rparr>) s"
  obtain s2 nd' where s2: "node_set_agent_bus e m b ?s1 = Some (True, s2)" "core_of s2 = core_of (set_node m nd' ?s1)"
    using node_set_agent_bus_ok [OF ok, of ?s1 m _ b] m by auto
  have "m \<noteq> n" using controller_find_node_Some [OF m(1)] nd by auto
  then have "node_h s2 m \<noteq> None" "node_h s2 n \<noteq> None"
    using arg_cong [OF s2(2), of "\<lambda>c. c_node c m"] arg_cong [OF s2(2), of "\<lambda>c. c_node c n"] nd(1) by auto
  moreover from this obtain s3 where s3: "(if metrics_enabled s2 then node_enable_metrics e m s2 else Some s2) = Some s3"
    using node_enable_metrics_total [of s2 m e] by (cases "metrics_enabled s2") auto
  moreover from this have "core_of s3 = core_of s2" using metrics_node_core(1) by (auto split: if_splits)
  ultimately have "node_h s3 n \<noteq> None" by (metis core_fields(5) option.map_disc_iff)
  then have "\<exists>s4. node_unset_agent_bus e n s3 = Some s4" by (auto simp: node_unset_agent_bus_def Let_def)
  then show ?thesis
    using nd m s2(1) s3 by (auto simp: node_method_register_def node_has_agent_def Let_def)
qed

text \<open>
  C8.  An anonymous connection is accepted under a name exactly when the name is
  configured, its node has no connection yet, and the SELinux type required for it (if
  any) is the one of the peer; otherwise the client gets an error and the state of the
  controller is unchanged.
\<close>

theorem register_admission:
  assumes "reachable s" "bus_ok e" "n \<in> set (anonymous_nodes s)" "node_h s n = Some nd" "nd_agent_bus nd = Some b"
  shows "if may_register s nd name
    then \<exists>t. node_method_register e n name s = Some (ReplyOk, t)
    else \<exists>err text. node_method_register e n name s = Some (ReplyError err text, s)"
proof -
  have inv: "core_inv (core_of s)" by (rule reachable_inv [OF assms(1)])
  have anon: "nd_name nd = None" using inv assms(3,4) unfolding core_inv_def by (fastforce simp: node_core_def)
  show ?thesis
  proof (cases "may_register s nd name")
    case True
    then show ?thesis
      using find_node_unique [OF inv] register_succeeds [OF assms(2,4) anon assms(5)] by (auto simp: may_register_def)
  next
    case False
    show ?thesis
    proof (cases "controller_find_node s name")
      case (Some m)
      then obtain md where m: "m \<in> set (nodes s)" "node_h s m = Some md" "nd_name md = Some name"
        using controller_find_node_Some by blast
      then have "nd_agent_bus md \<noteq> None \<or> (nd_required_selinux md \<noteq> None \<and> nd_peer_selinux nd \<noteq> nd_required_selinux md)"
        using False by (auto simp: may_register_def)
      then show ?thesis
        using Some anon assms(4) m False by (cases "nd_agent_bus md") (auto simp: node_method_register_def node_has_agent_def)
    qed (use False anon assms(4) in \<open>simp add: node_method_register_def\<close>)
  qed
qed

theorem register_admission_witness:
  "\<exists>t. node_method_register ref_env 3 ''pi'' example_accepted = Some (ReplyOk, t)"
proof -
  have "3 \<in> set (anonymous_nodes example_accepted)" "node_h example_accepted 3 \<noteq> None"
    "nd_agent_bus (the (node_h example_accepted 3)) = Some 7" by code_simp+
  moreover have "2 \<in> set (nodes example_accepted)" "node_h example_accepted 2 \<noteq> None"
    "nd_name (the (node_h example_accepted 2)) = Some ''pi''" "nd_agent_bus (the (node_h example_accepted 2)) = None"
    "nd_required_selinux (the (node_h example_accepted 2)) = None" by code_simp+
  ultimately have "may_register example_accepted (the (node_h example_accepted 3)) ''pi''"
    unfolding may_register_def by (metis option.collapse)
  then show ?thesis
    using register_admission [OF example_reachable(2) ref_env_ok(1), of 3 "the (node_h example_accepted 3)" 7 "''pi''"]
      \<open>3 \<in> _\<close> \<open>node_h example_accepted 3 \<noteq> None\<close> \<open>nd_agent_bus _ = Some 7\<close> by auto
qed

text \<open>The connections of the listed nodes: who is behind which name.\<close>

definition connection :: "Controller \<Rightarrow> addr \<Rightarrow> (cstring \<times> bus option) option" where
  "connection s n = map_option (\<lambda>nd. (nd_name nd, nd_agent_bus nd)) (node_h s n)"

lemma connection_core: "connection s n = map_option (\<lambda>(nm, b, d, r). (nm, b)) (c_node (core_of s) n)"
  by (simp add: connection_def node_core_def option.map_comp comp_def)

text \<open>
  C9.  A successful registration moves the connection from the anonymous node to the node
  of that name, which was not connected: the online counter grows by one, and all other
  nodes keep their names and connections.
\<close>

theorem register_moves_connection:
  assumes "reachable s" "bus_ok e" "node_method_register e n name s = Some (ReplyOk, t)"
  shows "\<exists>m b. controller_find_node s name = Some m \<and> m \<noteq> n \<and>
    connection s n = Some (None, Some b) \<and> connection s m = Some (Some name, None) \<and>
    connection t = (connection s)(m \<mapsto> (Some name, Some b), n \<mapsto> (None, None)) \<and>
    nodes t = nodes s \<and> anonymous_nodes t = anonymous_nodes s \<and>
    number_of_nodes_online t = number_of_nodes_online s + 1"
proof -
  obtain m b r d r' where m: "controller_find_node s name = Some m"
    and old: "c_node (core_of s) n = Some (None, Some b, d, r)" "\<exists>d. c_node (core_of s) m = Some (Some name, None, d, r')"
    and ct: "core_of t = (core_of s)\<lparr>c_node := (c_node (core_of s))(m := Some (Some name, Some b, True, r'), n := Some (None, None, False, r)),
        c_online := c_online (core_of s) + 1\<rparr>"
    using register_core [OF assms(2,3)] by metis
  have "m \<noteq> n" using old by auto
  moreover have "connection s n = Some (None, Some b)" "connection s m = Some (Some name, None)"
    using old by (force simp only: connection_core option.map prod.case)+
  moreover have "connection t x = ((connection s)(m \<mapsto> (Some name, Some b), n \<mapsto> (None, None))) x" for x
    by (simp add: connection_core ct del: core_fields)
  then have "connection t = (connection s)(m \<mapsto> (Some name, Some b), n \<mapsto> (None, None))" by (rule ext)
  moreover have "nodes t = nodes s" "anonymous_nodes t = anonymous_nodes s"
    "number_of_nodes_online t = number_of_nodes_online s + 1"
    using arg_cong [OF ct, of c_nodes] arg_cong [OF ct, of c_anon] arg_cong [OF ct, of c_online] by simp_all
  ultimately show ?thesis using m by blast
qed

theorem register_moves_connection_witness:
  "connection example_registered 2 = Some (Some ''pi'', Some 7) \<and> connection example_registered 3 = Some (None, None)"
proof -
  have "controller_find_node example_accepted ''pi'' = Some 2" "connection example_accepted 3 = Some (None, Some 7)"
    by code_simp+
  then show ?thesis
    using register_moves_connection [OF example_reachable(2) ref_env_ok(1) example_register] by auto
qed



end
