(* ===== verification/Ctrl_Disconnect.thy ===== *)
theory Ctrl_Disconnect
  imports Ctrl_Props
begin

text \<open>
  Disconnection and liveness: what is left of a node that goes offline, the arithmetic of
  the heartbeat check, and the shutdown of the controller.
\<close>

section \<open>The example run continued\<close>

text \<open>A client starts a unit on the connected node; the agent answers, so that the job exists.\<close>

definition example_started :: Controller where
  "example_started = snd (the (node_method_start_unit ref_env 2 11 ''a.service'' ''replace'' example_registered))"

definition example_job :: Controller where
  "example_job = the (agent_request_callback ref_env 6 (AnswerBody 1) example_started)"

lemma example_start_unit:
  "node_run_unit_lifecycle_method ref_env 2 11 ''start'' ''StartUnit'' ''a.service'' ''replace'' example_registered = Some (None, example_started)"
  unfolding example_started_def node_method_start_unit_def by (rule the_snd) code_simp

lemma the_Some: "m \<noteq> None \<Longrightarrow> m = Some (the m)"
  by simp

lemma example_answer: "agent_request_callback ref_env 6 (AnswerBody 1) example_started = Some example_job"
  unfolding example_job_def by (rule the_Some) code_simp

lemma example_job_reachable: "reachable example_job"
proof -
  have "2 \<in> set (nodes example_registered)" by code_simp
  then have "reachable example_started"
    by (intro reachable.step [OF example_reachable(3) ref_env_ok(1)] cstep.lifecycle [OF _ example_start_unit])
  moreover have "req_h example_started 6 \<noteq> None" "req_started (the (req_h example_started 6))" by code_simp+
  ultimately show ?thesis
    using reachable.step [OF _ ref_env_ok(1) cstep.answer [OF _ _ example_answer]] by (metis option.collapse)
qed

section \<open>Jobs of a disconnected node\<close>

text \<open>Jobs and nodes along the loop over the jobs: node objects are not touched, a job that is
  still there belongs to the same node.\<close>

definition jobs_kept :: "Controller \<Rightarrow> Controller \<Rightarrow> bool" where
  "jobs_kept s t = (node_h t = node_h s \<and>
     (\<forall>j jb. job_h t j = Some jb \<longrightarrow> (\<exists>jb0. job_h s j = Some jb0 \<and> job_node jb0 = job_node jb)))"

definition job_owner :: "Controller \<Rightarrow> addr \<Rightarrow> cstring option" where
  "job_owner s j = do { jb \<leftarrow> job_h s j; nd \<leftarrow> node_h s (job_node jb); Some (nd_name nd) }"

lemma jobs_kept_refl [simp]: "jobs_kept s s"
  by (simp add: jobs_kept_def)

lemma jobs_kept_trans: "jobs_kept s t \<Longrightarrow> jobs_kept t u \<Longrightarrow> jobs_kept s u"
  by (fastforce simp: jobs_kept_def)

lemma jobs_kept_owner: "jobs_kept s t \<Longrightarrow> job_owner t j = Some x \<Longrightarrow> job_owner s j = Some x"
  by (fastforce simp: jobs_kept_def job_owner_def bind_eq_Some_conv)

lemma disconnect_job_spec:
  assumes "disconnect_job n j s = Some t" "node_h s n = Some nd"
  shows "jobs_kept s t \<and> job_owner s j \<noteq> None \<and>
    mset (jobs t) = mset (jobs s) - (if job_owner s j = Some (nd_name nd) then {#j#} else {#})"
proof -
  from assms obtain jb jn where jb: "job_h s j = Some jb" "node_h s (job_node jb) = Some jn"
    and t: "(if nd_name jn = nd_name nd then do { js \<leftarrow> list_remove j (jobs s); job_unref j (s\<lparr>jobs := js\<rparr>) }
          else Some s) = Some t"
    by (auto simp: disconnect_job_def bind_eq_Some_conv)
  have own: "job_owner s j = Some (nd_name jn)" using jb by (simp add: job_owner_def)
  show ?thesis
  proof (cases "nd_name jn = nd_name nd")
    case True
    then have "jobs t = remove1 j (jobs s)" "node_h t = node_h s"
      "job_h t = (job_h s)(j := if job_refs jb - 1 \<noteq> 0 then Some (jb\<lparr>job_refs := job_refs jb - 1\<rparr>) else None)"
      using t jb by (auto simp: job_unref_def list_remove_Some_iff set_job_def bind_eq_Some_conv split: if_splits)
    then show ?thesis using own True jb by (auto simp: jobs_kept_def)
  qed (use t own in simp)
qed

lemma disconnect_jobs_live:
  assumes "foldo (disconnect_job n) xs s = Some t" "node_h s n = Some nd" "k \<in> set xs"
  shows "job_owner s k \<noteq> None"
  using assms
proof (induction xs arbitrary: s)
  case (Cons j xs)
  obtain u where u: "disconnect_job n j s = Some u" "foldo (disconnect_job n) xs u = Some t"
    using Cons.prems(1) by (auto split: Option.bind_splits)
  note 1 = disconnect_job_spec [OF u(1) Cons.prems(2)]
  have "node_h u n = Some nd" using 1 Cons.prems(2) by (simp add: jobs_kept_def)
  then show ?case using Cons.IH [OF u(2)] Cons.prems(3) 1 jobs_kept_owner by fastforce
qed simp

lemma disconnect_jobs_spec:
  assumes "foldo (disconnect_job n) xs s = Some t" "node_h s n = Some nd"
  shows "jobs_kept s t \<and> mset (jobs t) = mset (jobs s) - mset (filter (\<lambda>j. job_owner s j = Some (nd_name nd)) xs)"
  using assms
proof (induction xs arbitrary: s)
  case (Cons j xs)
  obtain u where u: "disconnect_job n j s = Some u" "foldo (disconnect_job n) xs u = Some t"
    using Cons.prems(1) by (auto split: Option.bind_splits)
  have 1: "jobs_kept s u" "job_owner s j \<noteq> None"
    "mset (jobs u) = mset (jobs s) - (if job_owner s j = Some (nd_name nd) then {#j#} else {#})"
    using disconnect_job_spec [OF u(1) Cons.prems(2)] by auto
  then have "node_h u n = Some nd" using Cons.prems(2) by (simp add: jobs_kept_def)
  note IH = Cons.IH [OF u(2) this]
  have "job_owner u k = job_owner s k" if "k \<in> set xs" for k
    using disconnect_jobs_live [OF u(2) \<open>node_h u n = Some nd\<close> that] jobs_kept_owner [OF 1(1)] by fastforce
  then have "filter (\<lambda>j. job_owner u j = Some (nd_name nd)) xs = filter (\<lambda>j. job_owner s j = Some (nd_name nd)) xs"
    by (simp cong: filter_cong)
  then have "mset (jobs t) = mset (jobs u) - mset (filter (\<lambda>j. job_owner s j = Some (nd_name nd)) xs)"
    using IH by simp
  then have "mset (jobs t) = mset (jobs s) - mset (filter (\<lambda>j. job_owner s j = Some (nd_name nd)) (j # xs))"
    unfolding 1(3) by (cases "job_owner s j = Some (nd_name nd)") simp_all
  then show ?case using IH jobs_kept_trans [OF 1(1)] by blast
qed simp

section \<open>Disconnecting a named node\<close>

lemma node_unset_agent_bus_fields:
  assumes "node_unset_agent_bus e n s = Some t"
  shows "\<exists>nd. node_h s n = Some nd \<and> node_h t = (node_h s)(n \<mapsto> disconnected_node nd) \<and> jobs t = jobs s \<and> job_h t = job_h s"
proof -
  obtain nd where nd: "node_h s n = Some nd" using assms by (auto simp: node_unset_agent_bus_def bind_eq_Some_conv)
  let ?s1 = "set_node n (disconnected_node nd) s"
  have "(if nd_name nd \<noteq> None \<and> node_has_agent nd
       then emit e (EmitProperties ''Status'') (NodeStatusProp (str_arg (nd_object_path nd))) ?s1 else ?s1) = t"
    using assms nd by (auto simp: node_unset_agent_bus_def Let_def disconnected_node_def)
  then show ?thesis using nd by (auto simp: emit_def set_node_def)
qed

lemma node_unset_agent_bus_owner:
  assumes "node_unset_agent_bus e n s = Some t"
  shows "jobs t = jobs s" "job_owner t j = job_owner s j"
proof -
  obtain nd where "node_h s n = Some nd" "node_h t = (node_h s)(n \<mapsto> disconnected_node nd)" "jobs t = jobs s" "job_h t = job_h s"
    using node_unset_agent_bus_fields [OF assms] by blast
  then show "jobs t = jobs s" "job_owner t j = job_owner s j"
    by (auto simp: job_owner_def disconnected_node_def split: Option.bind_split)
qed

lemma node_disconnect_named:
  assumes run: "node_disconnect e n s = Some t" and nd: "node_h s n = Some nd" "nd_name nd \<noteq> None"
    and inv: "core_inv (core_of s)"
  obtains s2 s3 s4 where "core_frame (core_of s) (core_of s2)" "foldo (disconnect_job n) (jobs s2) s2 = Some s3"
    "node_unset_agent_bus e n s3 = Some s4" "core_of s3 = core_of s2"
    "t = controller_check_system_status e (number_of_nodes_online s4)
       (s4\<lparr>number_of_nodes_online := number_of_nodes_online s4 - 1\<rparr>)"
proof -
  from run nd obtain s1 nd1 s2 s3 s4 where
    s1: "foldo (disconnect_unit e n) (hm_iter e (map fst (nd_unit_subs nd))) s = Some s1" "node_h s1 n = Some nd1"
    and s2: "foldo (node_remove_proxy_monitor e n) (nd_proxy_monitors nd1) s1 = Some s2"
    and s3: "foldo (disconnect_job n) (jobs s2) s2 = Some s3" and s4: "node_unset_agent_bus e n s3 = Some s4"
    and t: "t = controller_check_system_status e (number_of_nodes_online s4)
       (s4\<lparr>number_of_nodes_online := number_of_nodes_online s4 - 1\<rparr>)"
    unfolding node_disconnect_def Let_def by (auto simp: bind_eq_Some_conv)
  have c1: "core_of s1 = core_of s" by (rule foldo_core [OF s1(1)]) (rule disconnect_unit_core)
  have "core_inv (core_of s1)" using c1 inv by simp
  from foldo_frame [OF s2 this] have f2: "core_frame (core_of s) (core_of s2)"
    using node_remove_proxy_monitor_frame c1 by metis
  moreover have "core_of s3 = core_of s2" by (rule foldo_core [OF s3]) (rule disconnect_job_core)
  ultimately show thesis using that s3 s4 t by blast
qed

lemma connection_frame:
  "core_frame (core_of s) (core_of t) \<Longrightarrow> listed s n \<Longrightarrow> node_h s n \<noteq> None \<Longrightarrow> connection t n = connection s n"
  using core_frame_node [of s t n] by (cases "node_core (the (node_h s n))") (fastforce simp: connection_core)

lemma connection_unset:
  assumes "node_unset_agent_bus e n s = Some t" "node_h s n = Some nd"
  shows "connection t = (connection s)(n \<mapsto> (nd_name nd, None))"
  using node_unset_agent_bus_fields [OF assms(1)] assms(2)
  by (auto simp: connection_def disconnected_node_def fun_eq_iff)



section \<open>Liveness\<close>

text \<open>
  The heartbeat check is exact on the 64-bit clock: with a positive threshold that does
  not overflow when converted to microseconds, a node is taken to be dead exactly when more
  than the threshold has passed since its last heartbeat; an unreadable clock (0) and a clock
  behind the last heartbeat keep it alive.
\<close>

theorem liveness_window:
  assumes "0 < heartbeat_threshold_msec s" "heartbeat_threshold_msec s \<le> 18446744073709551"
  shows "node_is_live s nd now \<longleftrightarrow>
    now = 0 \<or> uint now \<le> uint (nd_last_seen_monotonic nd) + heartbeat_threshold_msec s * 1000"
proof -
  let ?last = "nd_last_seen_monotonic nd" and ?t = "heartbeat_threshold_msec s"
  have thr: "uint (word_of_int ?t * USEC_PER_MSEC :: 64 word) = ?t * 1000"
    using assms by (simp add: USEC_PER_MSEC_def uint_word_arith_bintrs take_bit_int_eq_self_iff uint_word_of_int)
  show ?thesis
  proof (cases "now < ?last")
    case True
    then show ?thesis using assms(1) by (auto simp: node_is_live_def word_less_def)
  next
    case False
    then have "uint (now - ?last) = uint now - uint ?last" by (simp add: uint_minus_simple_alt word_le_def not_less)
    then show ?thesis using assms(1) False by (auto simp: node_is_live_def word_less_def thr)
  qed
qed

theorem liveness_window_witness:
  "\<not> node_is_live (example_registered\<lparr>heartbeat_threshold_msec := 500\<rparr>) (the (node_h example_registered 2)) 1500001 \<and>
   node_is_live (example_registered\<lparr>heartbeat_threshold_msec := 500\<rparr>) (the (node_h example_registered 2)) 1500000"
proof -
  have "uint (nd_last_seen_monotonic (the (node_h example_registered 2))) = 1000000" by code_simp
  then show ?thesis
    using liveness_window [of "example_registered\<lparr>heartbeat_threshold_msec := 500\<rparr>" "the (node_h example_registered 2)"]
    by simp
qed

section \<open>Shutdown\<close>

text \<open>The connected node asks for a proxy of a unit on the other node, which its configuration
  allows.\<close>

definition example_proxy :: Controller where
  "example_proxy = the (do { s1 \<leftarrow> node_add_allowed_proxy_target 2 ''laptop'' example_registered;
     node_on_match_proxy_new ref_env 2 ''laptop'' ''db.service'' ''/proxy/1'' s1 })"


end
