(* ===== verification/Ctrl_Subs_Props.thy ===== *)
theory Ctrl_Subs_Props
  imports Ctrl_Disconnect
begin

text \<open>
  Subscriptions: the agent is told of exactly the units somebody watches, and every monitor
  with a matching subscription gets each event.
\<close>

section \<open>What the agent was told\<close>

text \<open>The units the agent behind a connection watches after a trace of messages.\<close>

fun told_step :: "bus \<Rightarrow> out_msg \<Rightarrow> string set \<Rightarrow> string set" where
  "told_step b (AgentCall b' m args) W =
     (if b' \<noteq> b then W else if m = ''Subscribe'' then W \<union> set args
      else if m = ''Unsubscribe'' then W - set args else W)"
| "told_step b _ W = W"

definition told :: "bus \<Rightarrow> out_msg list \<Rightarrow> string set" where
  "told b ms = fold (told_step b) ms {}"

lemma told_append [simp]: "told b (ms @ [m]) = told_step b m (told b ms)"
  by (simp add: told_def)

text \<open>The index of a connected node agrees with what its agent was told.\<close>

definition index_ok :: "Node \<Rightarrow> bool" where
  "index_ok nd = (hmap_ok (nd_unit_subs nd) \<and> (\<forall>u us. map_of (nd_unit_subs nd) u = Some us \<longrightarrow> us_subs us \<noteq> []))"

definition in_sync :: "Controller \<Rightarrow> addr \<Rightarrow> bool" where
  "in_sync s n = (\<exists>nd b. node_h s n = Some nd \<and> nd_agent_bus nd = Some b \<and> index_ok nd \<and>
     told b (out s) = dom (map_of (nd_unit_subs nd)))"

text \<open>Events to monitors and proxies are not messages to the agent's subscription methods.\<close>

lemma monitor_send_told [simp]:
  "told b (out (monitor_send e name path ev d s)) = told b (out s)"
  "node_h (monitor_send e name path ev d s) = node_h s"
  by (simp_all add: monitor_send_def emit_def)

lemma monitor_send_all_told [simp]:
  "told b (out (monitor_send_all e name ev mo s)) = told b (out s)"
  "node_h (monitor_send_all e name ev mo s) = node_h s"
  unfolding monitor_send_all_def
  by (rule fold_proj_eq [where p = "\<lambda>s. told b (out s)"] fold_proj_eq [where p = node_h]; simp)+

lemma proxy_monitor_call_told:
  "proxy_monitor_call e p m args s = Some t \<Longrightarrow> told b (out t) = told b (out s) \<and> node_h t = node_h s"
  by (cases "pm_h s p"; cases "node_h s (pm_node (the (pm_h s p)))"; cases "nd_agent_bus (the (node_h s (pm_node (the (pm_h s p)))))";
      cases "bus_ret e (CallAsync m) < 0")
    (auto simp: proxy_monitor_call_def Let_def set_pm_def put_def)

lemma sub_handle_told:
  "sub_handle e ev a s = Some t \<Longrightarrow> told b (out t) = told b (out s) \<and> node_h t = node_h s"
proof -
  have "handle_monitor e m ev s = Some t \<Longrightarrow> told b (out t) = told b (out s) \<and> node_h t = node_h s" for m
    by (cases ev) (auto simp: handler_defs bind_eq_Some_conv)
  moreover have "handle_proxy_monitor e m ev s = Some t \<Longrightarrow> told b (out t) = told b (out s) \<and> node_h t = node_h s" for m
    by (cases ev) (auto simp: handler_defs dest: proxy_monitor_call_told)
  ultimately show "sub_handle e ev a s = Some t \<Longrightarrow> told b (out t) = told b (out s) \<and> node_h t = node_h s"
    by (cases "sub_h s a") (auto simp: sub_handle_def split: monitor_ref.splits)
qed

lemma send_agent_told:
  assumes "bus_ok e" "nd_agent_bus nd = Some b"
  shows "told b (out (node_send_agent_subscribe e nd u s)) = insert u (told b (out s))"
    "told b (out (node_send_agent_unsubscribe e nd u s)) = told b (out s) - {u}"
  using assms
  by (simp_all add: node_send_agent_subscribe_def node_send_agent_unsubscribe_def node_has_agent_def
      send_agent_simple_message_def emit_def)

lemma subscribe_unit_sync:
  assumes sync: "in_sync s n" and ok: "bus_ok e" and run: "node_subscribe_unit e n a u s = Some t"
  shows "in_sync t n"
proof -
  obtain nd b where nd: "node_h s n = Some nd" "nd_agent_bus nd = Some b" "index_ok nd"
    "told b (out s) = dom (map_of (nd_unit_subs nd))" using sync by (auto simp: in_sync_def)
  define us where "us = (case map_of (nd_unit_subs nd) u of None \<Rightarrow> new_usubs | Some us \<Rightarrow> us)"
  define s1 where "s1 = (if map_of (nd_unit_subs nd) u = None then node_send_agent_subscribe e nd u s else s)"
  define nd' where "nd' = nd\<lparr>nd_unit_subs := AList.update u (us\<lparr>us_subs := us_subs us @ [a]\<rparr>) (nd_unit_subs nd)\<rparr>"
  have told: "told b (out s1) = dom (map_of (nd_unit_subs nd'))"
    using nd send_agent_told(1) [OF ok nd(2)] by (auto simp: s1_def nd'_def)
  have ok': "index_ok nd'" using nd(3) by (auto simp: index_ok_def nd'_def)
  have "told b (out t) = told b (out s1) \<and> node_h t = (node_h s1)(n \<mapsto> nd')"
  proof -
    have body: "(if us_loaded us then
            do { s3 \<leftarrow> sub_handle e (UnitNew (str_arg (nd_name nd)) u ''virtual'') a (set_node n nd' s1);
                 if 0 \<le> us_active_state us then
                   sub_handle e (UnitStateChanged (str_arg (nd_name nd)) u
                       (active_state_to_string (us_active_state us))
                       (case us_substate us of None \<Rightarrow> ''invalid'' | Some b \<Rightarrow> b) ''virtual'') a s3
                 else Some s3 }
          else Some (set_node n nd' s1)) = Some t"
      using run unfolding node_subscribe_unit_def nd(1) bind.bind_lunit Let_def us_def s1_def nd'_def .
    have s2: "told b (out (set_node n nd' s1)) = told b (out s1)" "node_h (set_node n nd' s1) = (node_h s1)(n \<mapsto> nd')"
      by (simp_all add: set_node_def)
    show ?thesis
    proof (cases "us_loaded us")
      case True
      then obtain s3 where s3: "sub_handle e (UnitNew (str_arg (nd_name nd)) u ''virtual'') a (set_node n nd' s1) = Some s3"
        and t: "t = s3 \<or> (\<exists>ev. sub_handle e ev a s3 = Some t)"
        using body by (auto simp: bind_eq_Some_conv split: if_splits)
      then show ?thesis using sub_handle_told [OF s3, of b] sub_handle_told [of e _ a s3 t b] s2 by metis
    qed (use body s2 in simp)
  qed
  then show ?thesis using told ok' nd(2) by (auto simp: in_sync_def nd'_def)
qed

lemma unsubscribe_unit_sync:
  assumes sync: "in_sync s n" and ok: "bus_ok e" and run: "node_unsubscribe_unit e n a u s = Some t"
  shows "in_sync t n"
proof (cases "t = s")
  case False
  obtain nd b where nd: "node_h s n = Some nd" "nd_agent_bus nd = Some b" "index_ok nd"
    "told b (out s) = dom (map_of (nd_unit_subs nd))" using sync by (auto simp: in_sync_def)
  from False run nd(1) obtain us where us: "map_of (nd_unit_subs nd) u = Some us" "a \<in> set (us_subs us)"
    and t: "t = (if remove1 a (us_subs us) = []
        then set_node n (nd\<lparr>nd_unit_subs := AList.delete u (nd_unit_subs nd)\<rparr>) (node_send_agent_unsubscribe e nd u s)
        else set_node n (nd\<lparr>nd_unit_subs := AList.update u (us\<lparr>us_subs := remove1 a (us_subs us)\<rparr>) (nd_unit_subs nd)\<rparr>) s)"
    by (auto simp: node_unsubscribe_unit_def Let_def split: option.splits if_splits)
  show ?thesis
    using nd us send_agent_told(2) [OF ok nd(2)] by (auto simp: t in_sync_def index_ok_def set_node_def)
qed (use sync in simp)

lemma subscribe_sync:
  assumes "in_sync s n" "bus_ok e" "node_subscribe e n a s = Some t"
  shows "in_sync t n"
proof -
  obtain sub where "sub_h s a = Some sub" and f: "foldo (node_subscribe_unit e n a) (sub_units sub) s = Some t"
    using assms(3) by (auto simp: node_subscribe_def bind_eq_Some_conv)
  show ?thesis by (rule foldo_invariant [OF f, where P = "\<lambda>s. in_sync s n", OF assms(1)]) (rule subscribe_unit_sync [OF _ assms(2)])
qed

lemma unsubscribe_sync:
  assumes "in_sync s n" "bus_ok e" "node_unsubscribe e n a s = Some t"
  shows "in_sync t n"
proof -
  obtain sub where "sub_h s a = Some sub" and f: "foldo (node_unsubscribe_unit e n a) (sub_units sub) s = Some t"
    using assms(3) by (auto simp: node_unsubscribe_def bind_eq_Some_conv)
  show ?thesis by (rule foldo_invariant [OF f, where P = "\<lambda>s. in_sync s n", OF assms(1)]) (rule unsubscribe_unit_sync [OF _ assms(2)])
qed

text \<open>
  C4.  The agent of a connected node always watches exactly the units that have a
  subscription: if the set of units its connection was told to watch is the set of units in
  the node's index before a subscription is added or removed, it is so afterwards.  The
  first subscription of a unit is announced, the last one withdrawn, and the others are not
  sent.
\<close>

theorem subscriptions_in_sync:
  assumes "in_sync s n" "bus_ok e" "node_subscribe e n a s = Some t \<or> node_unsubscribe e n a s = Some t"
  shows "in_sync t n"
  using assms subscribe_sync unsubscribe_sync by blast

text \<open>A client creates a monitor and subscribes to a unit of the connected node.\<close>

definition example_sub :: Controller where
  "example_sub = the (do { (rep, s1) \<leftarrow> controller_method_create_monitor ref_env '':1.5'' example_registered;
     (a, s2) \<leftarrow> create_monitor_subscription 4 ''pi'' s1; subscription_add_unit a ''a.service'' s2 })"

theorem subscriptions_in_sync_witness:
  "\<exists>t. node_subscribe ref_env 2 5 example_sub = Some t \<and> in_sync t 2"
proof -
  have 1: "node_h example_sub 2 \<noteq> None" "nd_agent_bus (the (node_h example_sub 2)) = Some 7"
    "nd_unit_subs (the (node_h example_sub 2)) = []" "node_subscribe ref_env 2 5 example_sub \<noteq> None"
    "out example_sub = [NodeStatusProp ''/org/eclipse/bluechi/node/pi'', SystemStatusProp]"
    by code_simp+
  then have "in_sync example_sub 2" by (auto simp: in_sync_def index_ok_def told_def)
  then show ?thesis using 1(4) subscriptions_in_sync [OF _ ref_env_ok(1)] by blast
qed

text \<open>
  C11.  A new connection brings its agent up to date: when a named node gets a connection on
  which nothing was sent yet, the agent is told to watch exactly the units of the node's
  index, in whatever order the hash map is walked.
\<close>

theorem attach_in_sync:
  assumes "bus_ok e" "hm_iter_ok e" "node_h s n = Some nd" "nd_agent_bus nd = None" "index_ok nd" "told b (out s) = {}"
  shows "\<exists>t. node_set_agent_bus e n b s = Some (True, t) \<and> in_sync t n"
proof -
  obtain r ip where ip: "peer_ip_address e b = (r, ip)" by fastforce
  define nd1 where "nd1 = nd\<lparr>nd_agent_bus := Some b,
                         nd_peer_ip := (if r < 0 \<and> r \<noteq> - EINVAL then nd_peer_ip nd else ip),
                         nd_peer_selinux := (case peer_context e b of
                             None \<Rightarrow> nd_peer_selinux nd | Some con \<Rightarrow> parse_selinux_type con)\<rparr>"
  define nd3 where "nd3 = (if nd_name nd = None then nd1\<lparr>nd_internal_slot := True, nd_disconnect_slot := True\<rparr>
     else nd1\<lparr>nd_disconnect_slot := True\<rparr>)"
  define s2 where "s2 = (if nd_name nd = None then s
     else put (NodeStatusProp (str_arg (nd_object_path nd1))) s)"
  define t where "t = node_start_proxy_dependency_all e nd3 (node_send_agent_subscribe_all e nd3 (set_node n nd3 s2))"
  have run: "node_set_agent_bus e n b s = Some (True, t)"
    using assms(1,3,4) ip
    by (cases "nd_name nd")
      (simp_all add: node_set_agent_bus_def Let_def emit_ok t_def nd3_def s2_def nd1_def set_node_def put_def)
  have nd3: "nd_agent_bus nd3 = Some b" "nd_unit_subs nd3 = nd_unit_subs nd" "index_ok nd3"
    using assms(5) by (simp_all add: nd3_def nd1_def index_ok_def)
  have all: "told b (out (fold (node_send_agent_subscribe e nd3) us u)) = told b (out u) \<union> set us" for us u
    using send_agent_told(1) [OF assms(1) nd3(1)] by (induction us arbitrary: u) auto
  have "told b (out (node_start_proxy_dependency_all e nd3 u)) = told b (out u)" for u
    unfolding node_start_proxy_dependency_all_def
    by (rule fold_proj_eq [where p = "\<lambda>s. told b (out s)"])
      (auto simp: node_start_proxy_dependency_def send_agent_simple_message_def emit_def split: option.split)
  moreover have "told b (out (set_node n nd3 s2)) = {}"
    using assms(6) by (simp add: s2_def set_node_def put_def)
  moreover have "set (hm_iter e (map fst (nd_unit_subs nd))) = set (map fst (nd_unit_subs nd))"
    using assms(2) by (metis hm_iter_ok_def mset_eq_setD)
  ultimately have "told b (out t) = dom (map_of (nd_unit_subs nd3))"
    by (simp add: t_def node_send_agent_subscribe_all_def all nd3(2) dom_map_of_conv_image_fst)
  moreover have "node_h t n = Some nd3"
  proof -
    have "node_h (fold f xs u) = node_h u" if "\<And>x u. node_h (f x u) = node_h u" for f and xs :: "'x list" and u :: Controller
      using that by (induction xs arbitrary: u) auto
    then have "node_h t = node_h (set_node n nd3 s2)"
      unfolding t_def node_send_agent_subscribe_all_def node_start_proxy_dependency_all_def
      by (metis agent_subscribe_core(2) node_start_proxy_dependency_def send_agent_node)
    then show ?thesis by simp
  qed
  ultimately show ?thesis using run nd3 by (auto simp: in_sync_def)
qed

theorem attach_in_sync_witness:
  "\<exists>t. node_set_agent_bus ref_env 1 9 example_registered = Some (True, t) \<and> in_sync t 1"
proof -
  have 1: "node_h example_registered 1 \<noteq> None" "nd_agent_bus (the (node_h example_registered 1)) = None"
    "nd_unit_subs (the (node_h example_registered 1)) = []"
    "out example_registered = [NodeStatusProp ''/org/eclipse/bluechi/node/pi'', SystemStatusProp]"
    by code_simp+
  then show ?thesis
    using attach_in_sync [OF ref_env_ok(1,2), of example_registered 1 "the (node_h example_registered 1)" 9]
    by (simp add: index_ok_def told_def)
qed

section \<open>Who is told about an event\<close>

text \<open>The signals a subscription stands for: one to the owner of its monitor and one to each
  of the peers; a proxy monitor sends none.\<close>

definition sub_signals :: "Controller \<Rightarrow> unit_event \<Rightarrow> addr \<Rightarrow> out_msg list" where
  "sub_signals s ev a =
     (case sub_h s a of
        Some sub \<Rightarrow>
          (case sub_monitor sub of
             MonitorRef m \<Rightarrow>
               (case mon_h s m of
                  Some mo \<Rightarrow> map (\<lambda>d. MonitorSignal d (mon_path mo) ev) (mon_owner mo # map peer_name (mon_peers mo))
                | None \<Rightarrow> [])
           | ProxyMonitorRef p \<Rightarrow> [])
      | None \<Rightarrow> [])"

fun is_signal :: "out_msg \<Rightarrow> bool" where
  "is_signal (MonitorSignal d p ev) = True"
| "is_signal _ = False"

definition signals :: "Controller \<Rightarrow> out_msg list" where
  "signals s = filter is_signal (out s)"

lemma monitor_send_all_signals:
  assumes "bus_ok e"
  shows "signals (monitor_send_all e name ev mo s) =
      signals s @ map (\<lambda>d. MonitorSignal d (mon_path mo) ev) (mon_owner mo # map peer_name (mon_peers mo))"
    "sub_h (monitor_send_all e name ev mo s) = sub_h s" "mon_h (monitor_send_all e name ev mo s) = mon_h s"
proof -
  have "signals (fold (monitor_send e name p ev) ds s) = signals s @ map (\<lambda>d. MonitorSignal d p ev) ds \<and>
      sub_h (fold (monitor_send e name p ev) ds s) = sub_h s \<and> mon_h (fold (monitor_send e name p ev) ds s) = mon_h s" for p ds
    by (induction ds arbitrary: s) (simp_all add: monitor_send_def assms emit_ok put_def signals_def)
  then show "signals (monitor_send_all e name ev mo s) =
      signals s @ map (\<lambda>d. MonitorSignal d (mon_path mo) ev) (mon_owner mo # map peer_name (mon_peers mo))"
    "sub_h (monitor_send_all e name ev mo s) = sub_h s" "mon_h (monitor_send_all e name ev mo s) = mon_h s"
    unfolding monitor_send_all_def by blast+
qed

lemma proxy_monitor_call_signals:
  "proxy_monitor_call e p m args s = Some t \<Longrightarrow> signals t = signals s \<and> sub_h t = sub_h s \<and> mon_h t = mon_h s"
  by (cases "pm_h s p"; cases "node_h s (pm_node (the (pm_h s p)))"; cases "nd_agent_bus (the (node_h s (pm_node (the (pm_h s p)))))";
      cases "bus_ret e (CallAsync m) < 0")
    (auto simp: proxy_monitor_call_def Let_def set_pm_def put_def signals_def)

fun unit_related :: "unit_event \<Rightarrow> bool" where
  "unit_related (PeerRemoved r) = False"
| "unit_related _ = True"

lemma sub_handle_signals:
  assumes ok: "bus_ok e" and ev: "unit_related ev" and run: "sub_handle e ev a s = Some t"
  shows "signals t = signals s @ sub_signals s ev a \<and> sub_h t = sub_h s \<and> mon_h t = mon_h s"
proof -
  obtain sub where sub: "sub_h s a = Some sub" using run by (auto simp: sub_handle_def bind_eq_Some_conv)
  show ?thesis
  proof (cases "sub_monitor sub")
    case (MonitorRef m)
    then have h: "handle_monitor e m ev s = Some t" using run sub by (simp add: sub_handle_def)
    then obtain mo where mo: "mon_h s m = Some mo" using ev by (cases ev) (auto simp: handler_defs bind_eq_Some_conv)
    then have "\<exists>name. t = monitor_send_all e name ev mo s" using h ev by (cases ev) (auto simp: handler_defs)
    then show ?thesis using monitor_send_all_signals [OF ok] MonitorRef sub mo by (auto simp: sub_signals_def)
  next
    case (ProxyMonitorRef p)
    then have h: "handle_proxy_monitor e p ev s = Some t" using run sub by (simp add: sub_handle_def)
    then have "t = s \<or> (\<exists>m args. proxy_monitor_call e p m args s = Some t)" by (cases ev) (auto simp: handler_defs)
    then show ?thesis using proxy_monitor_call_signals ProxyMonitorRef sub by (fastforce simp: sub_signals_def)
  qed
qed

lemma notify_signals:
  assumes ok: "bus_ok e" and ev: "unit_related ev" and run: "foldo (sub_handle e ev) as s = Some t"
  shows "signals t = signals s @ concat (map (sub_signals s ev) as) \<and> sub_h t = sub_h s \<and> mon_h t = mon_h s"
  using run
proof (induction "as" arbitrary: s)
  case (Cons a as)
  obtain u where u: "sub_handle e ev a s = Some u" "foldo (sub_handle e ev) as u = Some t"
    using Cons.prems by (auto split: Option.bind_splits)
  have 1: "signals u = signals s @ sub_signals s ev a" "sub_h u = sub_h s" "mon_h u = mon_h s"
    using sub_handle_signals [OF ok ev u(1)] by simp_all
  have "sub_signals u ev b = sub_signals s ev b" for b by (simp only: sub_signals_def 1(2,3))
  then have "sub_signals u ev = sub_signals s ev" by (rule ext)
  then show ?case using Cons.IH [OF u(2)] 1 by simp
qed simp

lemma notify_reaches:
  assumes "bus_ok e" "hm_items_ok e" "unit_related ev" "node_h s n = Some nd" "notify_unit e n u ev s = Some t"
  shows "\<exists>new. signals t = signals s @ new \<and> set new = (\<Union>a \<in> set (matching_subs nd u). set (sub_signals s ev a))"
proof -
  let ?items = "node_compute_unique_monitor_subscriptions e nd u s"
  have t: "signals t = signals s @ concat (map (sub_signals s ev) ?items)"
    using notify_signals [OF assms(1,3), of ?items s t] assms(4,5) by (simp add: notify_unit_def)
  have sub: "set ?items \<subseteq> set (matching_subs nd u)"
    and rep: "\<forall>a \<in> set (matching_subs nd u). \<exists>b \<in> set ?items. a = b \<or> subscription_hashmap_compare s a b"
    using assms(2) unfolding hm_items_ok_def node_compute_unique_monitor_subscriptions_def by blast+
  have same: "subscription_hashmap_compare s a b \<Longrightarrow> sub_signals s ev a = sub_signals s ev b" for a b
    by (auto simp: subscription_hashmap_compare_def sub_signals_def split: option.splits)
  have "set (concat (map (sub_signals s ev) ?items)) = (\<Union>a \<in> set (matching_subs nd u). set (sub_signals s ev a))"
  proof
    show "set (concat (map (sub_signals s ev) ?items)) \<subseteq> (\<Union>a \<in> set (matching_subs nd u). set (sub_signals s ev a))"
      using sub by auto
    show "(\<Union>a \<in> set (matching_subs nd u). set (sub_signals s ev a)) \<subseteq> set (concat (map (sub_signals s ev) ?items))"
      using rep same by fastforce
  qed
  then show ?thesis using t by blast
qed

text \<open>
  C12.  An event of a unit reaches exactly the monitors that subscribed to it: the signals
  sent are those to the owner and the peers of every monitor with a subscription to the unit
  or to all units of the node, and no others.
\<close>

theorem event_reaches_subscribers:
  assumes "bus_ok e" "hm_items_ok e" "unit_related ev" "node_h s n = Some nd" "notify_unit e n u ev s = Some t"
  shows "\<exists>new. signals t = signals s @ new \<and> set new = (\<Union>a \<in> set (matching_subs nd u). set (sub_signals s ev a))"
  by (rule notify_reaches [OF assms])

text \<open>The monitor of the example subscribes twice, to a unit and to all units.\<close>

definition example_watch :: Controller where
  "example_watch = the (do { (rep, s1) \<leftarrow> controller_method_create_monitor ref_env '':1.5'' example_registered;
     (r2, s2) \<leftarrow> monitor_method_subscribe ref_env 4 ''pi'' ''a.service'' s1;
     (r3, s3) \<leftarrow> monitor_method_subscribe ref_env 4 ''pi'' ''*'' s2; Some s3 })"

theorem event_reaches_subscribers_witness:
  "\<exists>t new. notify_unit ref_env 2 ''a.service'' (UnitNew ''pi'' ''a.service'' ''real'') example_watch = Some t \<and>
     signals t = signals example_watch @ new \<and>
     MonitorSignal '':1.5'' ''/org/eclipse/bluechi/monitor/1'' (UnitNew ''pi'' ''a.service'' ''real'') \<in> set new"
proof -
  let ?ev = "UnitNew ''pi'' ''a.service'' ''real''"
  have 1: "node_h example_watch 2 \<noteq> None" "notify_unit ref_env 2 ''a.service'' ?ev example_watch \<noteq> None"
    "5 \<in> set (matching_subs (the (node_h example_watch 2)) ''a.service'')"
    "MonitorSignal '':1.5'' ''/org/eclipse/bluechi/monitor/1'' ?ev \<in> set (sub_signals example_watch ?ev 5)"
    by code_simp+
  then obtain t nd where t: "notify_unit ref_env 2 ''a.service'' ?ev example_watch = Some t" "node_h example_watch 2 = Some nd"
    by auto
  then show ?thesis
    using event_reaches_subscribers [OF ref_env_ok(1,3) _ t(2,1)] 1 by auto
qed


end
