(* ===== verification/Ctrl_Jobs_Props.thy ===== *)
theory Ctrl_Jobs_Props
  imports Ctrl_Subs_Props
begin

text \<open>
  Lifetimes, jobs and fleet requests: reference counted objects live exactly as long as their
  references, a finished job is announced and forgotten, and a request to all nodes is
  answered once.
\<close>

section \<open>Reference counted objects\<close>

interpretation sub_rc: refcounted "\<lambda>s a. map_option sub_ref (sub_h s a)" subscription_ref subscription_unref
proof (unfold_locales, goal_cases)
  case (4 s a t)
  then obtain sub where sub: "sub_h s a = Some sub" "sub_ref sub = 1" by auto
  have "sub_h u = sub_h s" if "monitor_unref m s = Some u" for m u
    using that by (auto simp: monitor_unref_def bind_eq_Some_conv set_mon_def split: if_splits)
  then show ?case using 4 sub
    by (auto simp: subscription_unref_def bind_eq_Some_conv fun_eq_iff split: monitor_ref.splits)
qed (auto simp: subscription_ref_def subscription_unref_def set_sub_def fun_eq_iff)

interpretation mon_rc: refcounted "\<lambda>s a. map_option mon_ref (mon_h s a)" monitor_incref monitor_unref
  by unfold_locales (auto simp: monitor_incref_def monitor_unref_def set_mon_def fun_eq_iff)

interpretation job_rc: refcounted "\<lambda>s a. map_option job_refs (job_h s a)" job_ref job_unref
  by unfold_locales (auto simp: job_ref_def job_unref_def set_job_def fun_eq_iff)

interpretation setup_rc: refcounted "\<lambda>s a. map_option js_ref (setup_h s a)" job_setup_ref job_setup_unref
proof (unfold_locales, goal_cases)
  case (4 s a t)
  then obtain js where js: "setup_h s a = Some js" "js_ref js = 1" by auto
  have "setup_h u = setup_h s" if "job_unref j s = Some u" for j u
    using that by (auto simp: job_unref_def bind_eq_Some_conv set_job_def split: if_splits)
  then show ?case using 4 js by (auto simp: job_setup_unref_def bind_eq_Some_conv fun_eq_iff)
qed (auto simp: job_setup_ref_def job_setup_unref_def set_setup_def fun_eq_iff)

text \<open>
  A job lives exactly as long as references to it: releasing fewer references than it has
  keeps it, the last release frees it, other jobs are not affected, and after that neither a
  release nor a new reference is possible.
\<close>

theorem job_lifetime:
  assumes "job_h s j = Some jb" "0 < job_refs jb" "itero k (job_unref j) s = Some t"
  shows "(int k < job_refs jb \<longrightarrow> map_option job_refs (job_h t j) = Some (job_refs jb - int k)) \<and>
    (int k = job_refs jb \<longrightarrow> job_h t j = None \<and> job_unref j t = None \<and> job_ref j t = None) \<and>
    int k \<le> job_refs jb \<and>
    (\<forall>i. i \<noteq> j \<longrightarrow> map_option job_refs (job_h t i) = map_option job_refs (job_h s i))"
proof -
  have c: "map_option job_refs (job_h s j) = Some (job_refs jb)" using assms(1) by simp
  consider "int k < job_refs jb" | "int k = job_refs jb" | "job_refs jb < int k" by linarith
  then show ?thesis
  proof cases
    case 1
    then show ?thesis using job_rc.decref_many [OF c 1] assms(3) by (auto simp: fun_eq_iff split: if_splits)
  next
    case 2
    then have "nat (job_refs jb) = k" by simp
    then show ?thesis using job_rc.decref_all [OF c assms(2)] assms(3) 2 by (auto simp: fun_eq_iff split: if_splits)
  next
    case 3
    have k: "k = nat (job_refs jb) + Suc (k - nat (job_refs jb) - 1)" using 3 assms(2) by linarith
    have "itero k (job_unref j) s = None"
    proof (cases "itero (nat (job_refs jb)) (job_unref j) s")
      case (Some u)
      then show ?thesis using job_rc.decref_all [OF c assms(2) Some] by (subst k, subst job_rc.itero_add) simp
    qed (subst k, subst job_rc.itero_add, simp)
    then show ?thesis using assms(3) by simp
  qed
qed

theorem job_lifetime_witness:
  "\<exists>t. itero 1 (job_unref 5) example_job = Some t \<and> job_h t 5 = None \<and> job_unref 5 t = None"
proof -
  have "job_h example_job 5 \<noteq> None" "job_refs (the (job_h example_job 5)) = 1" "itero 1 (job_unref 5) example_job \<noteq> None"
    by code_simp+
  then obtain jb t where "job_h example_job 5 = Some jb" "job_refs jb = 1" "itero 1 (job_unref 5) example_job = Some t"
    by auto
  then show ?thesis using job_lifetime [of example_job 5 jb 1 t] by auto
qed

section \<open>Jobs\<close>

text \<open>The job list of a running controller: live jobs on live nodes, with different ids.\<close>

definition live_job :: "Controller \<Rightarrow> addr \<Rightarrow> bool" where
  "live_job s j = (\<exists>jb nd. job_h s j = Some jb \<and> 0 < job_refs jb \<and> node_h s (job_node jb) = Some nd)"

definition job_ids :: "Controller \<Rightarrow> 32 word list" where
  "job_ids s = map (\<lambda>j. job_id (the (job_h s j))) (jobs s)"

definition jobs_ok :: "Controller \<Rightarrow> bool" where
  "jobs_ok s = ((\<forall>j \<in> set (jobs s). live_job s j) \<and> distinct (job_ids s))"

text \<open>The \<open>JobRemoved\<close> signals: id, object path, node, unit and result.\<close>

fun removals :: "out_msg list \<Rightarrow> (32 word \<times> string \<times> string \<times> string \<times> string) list" where
  "removals [] = []"
| "removals (JobRemoved i p n u r # ms) = (i, p, n, u, r) # removals ms"
| "removals (m # ms) = removals ms"

definition removed_ids :: "out_msg list \<Rightarrow> 32 word list" where
  "removed_ids ms = map fst (removals ms)"

lemma removals_append [simp]: "removals (xs @ ys) = removals xs @ removals ys"
  by (induction xs rule: removals.induct) auto

lemma find_job_ok:
  assumes "\<forall>j \<in> set js. job_h s j \<noteq> None"
  shows "find_job s js i = Some (List.find (\<lambda>j. job_id (the (job_h s j)) = i) js)"
  using assms by (induction js) auto

lemma find_Some_split: "List.find P xs = Some x \<Longrightarrow> P x \<and> x \<in> set xs"
  by (auto simp: find_Some_iff)

lemma find_distinct: "distinct (map f xs) \<Longrightarrow> x \<in> set xs \<Longrightarrow> List.find (\<lambda>y. f y = f x) xs = Some x"
  by (induction xs) (auto simp: image_iff)

lemma metrics_report_fields:
  assumes "job_h s j = Some jb" "node_h s (job_node jb) = Some nd"
  shows "\<exists>t. metrics_produce_job_report e j s = Some t \<and> jobs t = jobs s \<and> job_h t = job_h s \<and> node_h t = node_h s \<and>
    removals (out t) = removals (out s)"
  using assms by (auto simp: metrics_produce_job_report_def Let_def case_prod_beta emit_def)

lemma controller_remove_job_effect:
  assumes ok: "bus_ok e" and j: "j \<in> set (jobs s)" "job_h s j = Some jb" "node_h s (job_node jb) = Some nd"
  shows "\<exists>t. controller_remove_job e j res s = Some t \<and> jobs t = remove1 j (jobs s) \<and>
    (\<forall>i. i \<noteq> j \<longrightarrow> job_h t i = job_h s i) \<and> node_h t = node_h s \<and>
    removals (out t) = removals (out s) @ [(job_id jb, job_path jb, str_arg (nd_name nd), job_unit jb, res)]"
proof -
  define s2 where "s2 = (put (JobRemoved (job_id jb) (job_path jb) (str_arg (nd_name nd)) (job_unit jb) res) s)\<lparr>jobs := remove1 j (jobs s)\<rparr>"
  have s2: "job_h s2 = job_h s" "node_h s2 = node_h s" "jobs s2 = remove1 j (jobs s)" "metrics_enabled s2 = metrics_enabled s"
    "removals (out s2) = removals (out s) @ [(job_id jb, job_path jb, str_arg (nd_name nd), job_unit jb, res)]"
    by (simp_all add: s2_def put_def)
  obtain s3 where s3: "(if metrics_enabled s2 \<and> job_type jb = ''start'' then metrics_produce_job_report e j s2 else Some s2) = Some s3"
    "jobs s3 = jobs s2" "job_h s3 = job_h s2" "node_h s3 = node_h s2" "removals (out s3) = removals (out s2)"
    using metrics_report_fields [of s2 j jb nd e] j s2 by (cases "metrics_enabled s2 \<and> job_type jb = ''start''") auto
  have "controller_remove_job e j res s = job_unref j s3"
    using j s3(1) unfolding s2_def
    by (cases "metrics_enabled s \<and> job_type jb = ''start''")
      (auto simp: controller_remove_job_def emit_ok [OF ok] list_remove_def put_def Let_def)
  moreover have "\<exists>t. job_unref j s3 = Some t \<and> jobs t = jobs s3 \<and> (\<forall>i. i \<noteq> j \<longrightarrow> job_h t i = job_h s3 i) \<and>
      node_h t = node_h s3 \<and> out t = out s3"
    using j s3 s2 by (auto simp: job_unref_def set_job_def)
  ultimately show ?thesis using s3 s2 by auto
qed

lemma finish_job_effect:
  assumes ok: "bus_ok e" "jobs_ok s" and j: "j \<in> set (jobs s)" "job_h s j = Some jb" "node_h s (job_node jb) = Some nd"
  shows "\<exists>t. controller_finish_job e (job_id jb) res s = Some t \<and> jobs t = remove1 j (jobs s) \<and>
    (\<forall>k. k \<noteq> j \<longrightarrow> job_h t k = job_h s k) \<and> node_h t = node_h s \<and>
    removals (out t) = removals (out s) @ [(job_id jb, job_path jb, str_arg (nd_name nd), job_unit jb, res)]"
proof -
  let ?id = "\<lambda>j. job_id (the (job_h s j))"
  have "find_job s (jobs s) (job_id jb) = Some (List.find (\<lambda>k. ?id k = job_id jb) (jobs s))"
    by (rule find_job_ok) (use ok(2) in \<open>auto simp: jobs_ok_def live_job_def\<close>)
  moreover have "List.find (\<lambda>k. ?id k = job_id jb) (jobs s) = Some j"
    using ok(2) j(1,2) find_distinct [of ?id "jobs s" j] by (simp add: jobs_ok_def job_ids_def)
  ultimately have find: "find_job s (jobs s) (job_id jb) = Some (Some j)" by simp
  define s1 where "s1 = (if metrics_enabled s then set_job j (jb\<lparr>job_end_micros := time_micros e\<rparr>) s else s)"
  then obtain jb1 where jb1: "job_h s1 j = Some jb1" "job_node jb1 = job_node jb" "job_id jb1 = job_id jb"
      "job_path jb1 = job_path jb" "job_unit jb1 = job_unit jb"
    using j by (cases "metrics_enabled s") (auto simp: set_job_def)
  have s1: "jobs s1 = jobs s" "node_h s1 = node_h s" "out s1 = out s" "\<forall>k. k \<noteq> j \<longrightarrow> job_h s1 k = job_h s k"
    by (auto simp: s1_def set_job_def)
  obtain t where t: "controller_remove_job e j res s1 = Some t" "jobs t = remove1 j (jobs s)"
    "\<forall>k. k \<noteq> j \<longrightarrow> job_h t k = job_h s k" "node_h t = node_h s"
    "removals (out t) = removals (out s) @ [(job_id jb, job_path jb, str_arg (nd_name nd), job_unit jb, res)]"
    using controller_remove_job_effect [OF ok(1), of j s1 jb1 nd res] j jb1 s1 by auto
  moreover have "controller_finish_job e (job_id jb) res s = Some t"
    using find j(2) t(1) by (simp add: controller_finish_job_def s1_def)
  ultimately show ?thesis by blast
qed

text \<open>
  When an agent reports that a job is done, the controller announces the removal of
  exactly that job and forgets it: with live jobs of different ids, the call returns, the ids
  of the remaining jobs are those before without the finished one in the same order, a
  \<open>JobRemoved\<close> signal is sent for it, and an unknown id changes nothing.
\<close>

theorem finish_job_exact:
  assumes "bus_ok e" "jobs_ok s"
  shows "\<exists>t. controller_finish_job e i res s = Some t \<and> jobs_ok t \<and> job_ids t = filter (\<lambda>k. k \<noteq> i) (job_ids s) \<and>
    removed_ids (out t) = removed_ids (out s) @ (if i \<in> set (job_ids s) then [i] else [])"
proof -
  let ?id = "\<lambda>j. job_id (the (job_h s j))"
  have live: "\<forall>j \<in> set (jobs s). live_job s j" and dist: "distinct (map ?id (jobs s))"
    using assms(2) by (auto simp: jobs_ok_def job_ids_def)
  have find: "find_job s (jobs s) i = Some (List.find (\<lambda>j. ?id j = i) (jobs s))"
    by (rule find_job_ok) (use live in \<open>auto simp: live_job_def\<close>)
  show ?thesis
  proof (cases "List.find (\<lambda>j. ?id j = i) (jobs s)")
    case None
    then have "i \<notin> set (job_ids s)" by (auto simp: find_None_iff job_ids_def)
    moreover from this have "filter (\<lambda>k. k \<noteq> i) (job_ids s) = job_ids s" by (auto simp: filter_id_conv)
    ultimately show ?thesis using assms(2) find None by (auto simp: controller_finish_job_def)
  next
    case (Some j)
    then have j: "j \<in> set (jobs s)" "?id j = i" using find_Some_split [OF Some] by auto
    then obtain jb nd where jb: "job_h s j = Some jb" "node_h s (job_node jb) = Some nd" "job_id jb = i"
      using live by (auto simp: live_job_def)
    obtain t where run: "controller_finish_job e i res s = Some t" and t: "jobs t = remove1 j (jobs s)"
      "\<forall>k. k \<noteq> j \<longrightarrow> job_h t k = job_h s k" "node_h t = node_h s" "removed_ids (out t) = removed_ids (out s) @ [i]"
      using finish_job_effect [OF assms j(1) jb(1,2), of res] jb(3) by (auto simp: removed_ids_def)
    have dj: "distinct (jobs s)" using dist by (simp add: distinct_map)
    then have others: "remove1 j (jobs s) = filter (\<lambda>k. ?id k \<noteq> i) (jobs s)"
      unfolding distinct_remove1_removeAll [OF dj] removeAll_filter_not_eq
      using dist j by (intro filter_cong) (auto simp: distinct_map inj_on_def)
    have ids: "job_ids t = map ?id (jobs t)"
      using t(1,2) dj by (auto simp: job_ids_def)
    then have ids': "job_ids t = filter (\<lambda>k. k \<noteq> i) (job_ids s)"
      by (simp add: t(1) others job_ids_def filter_map comp_def)
    moreover have "live_job t k" if "k \<in> set (jobs t)" for k
      using that live t(1,2,3) dj by (auto simp: live_job_def)
    moreover have "distinct (job_ids t)" using ids' dist by (simp add: job_ids_def)
    moreover have "i \<in> set (job_ids s)" using j by (auto simp: job_ids_def)
    ultimately show ?thesis using run t(4) by (auto simp: jobs_ok_def)
  qed
qed

theorem finish_job_exact_witness:
  "\<exists>t. controller_finish_job ref_env 1 ''done'' example_job = Some t \<and> job_ids t = [] \<and> removed_ids (out t) = [1]"
proof -
  have 1: "jobs example_job = [5]" "job_h example_job 5 \<noteq> None" "job_refs (the (job_h example_job 5)) = 1"
    "node_h example_job (job_node (the (job_h example_job 5))) \<noteq> None" "job_ids example_job = [1]"
    "removed_ids (out example_job) = []"
    by code_simp+
  then have "jobs_ok example_job" by (auto simp: jobs_ok_def live_job_def)
  then show ?thesis using finish_job_exact [OF ref_env_ok(1), of example_job 1 "''done''"] 1 by auto
qed

section \<open>Replies\<close>

fun is_reply :: "out_msg \<Rightarrow> bool" where
  "is_reply (Reply m r) = True"
| "is_reply _ = False"

definition replies :: "Controller \<Rightarrow> out_msg list" where
  "replies s = filter is_reply (out s)"

lemma replies_simps [simp]:
  "replies (put m s) = replies s @ (if is_reply m then [m] else [])"
  "\<not> is_reply m \<Longrightarrow> replies (emit e c m s) = replies s"
  "replies (set_node n nd s) = replies s" "replies (set_pm p pm s) = replies s" "replies (set_sub a sub s) = replies s"
  "replies (set_mon a mo s) = replies s" "replies (set_req r rq s) = replies s" "replies (set_setup a js s) = replies s"
  "replies (set_job j jb s) = replies s" "replies (set_fleet f fr s) = replies s"
  "replies (s\<lparr>sub_h := x1\<rparr>) = replies s" "replies (s\<lparr>mon_h := x2\<rparr>) = replies s" "replies (s\<lparr>job_h := x3\<rparr>) = replies s"
  "replies (s\<lparr>setup_h := x4\<rparr>) = replies s" "replies (s\<lparr>all_subscriptions := x5\<rparr>) = replies s"
  "replies (s\<lparr>node_h := x6\<rparr>) = replies s" "replies (s\<lparr>pm_h := x7\<rparr>) = replies s" "replies (s\<lparr>req_h := x8\<rparr>) = replies s"
  "replies (s\<lparr>fleet_h := x9\<rparr>) = replies s"
  by (auto simp: replies_def prim_defs set_setup_def set_fleet_def)

text \<open>What clients wait for: replies and the ends of jobs.\<close>

fun is_notice :: "out_msg \<Rightarrow> bool" where
  "is_notice (Reply m r) = True"
| "is_notice (JobRemoved i p n u r) = True"
| "is_notice _ = False"

definition notices :: "Controller \<Rightarrow> out_msg list" where
  "notices s = filter is_notice (out s)"

lemma replies_of_notices: "replies s = filter is_reply (notices s)"
proof -
  have "filter is_reply ms = filter is_reply (filter is_notice ms)" for ms
    by (induction ms rule: removals.induct) auto
  then show ?thesis by (simp add: replies_def notices_def)
qed

lemma removals_of_notices: "removals (out s) = removals (notices s)"
proof -
  have "removals ms = removals (filter is_notice ms)" for ms
    by (induction ms rule: removals.induct) auto
  then show ?thesis by (simp add: notices_def)
qed

lemma notices_simps [simp]:
  "notices (put m s) = notices s @ (if is_notice m then [m] else [])"
  "\<not> is_notice m \<Longrightarrow> notices (emit e c m s) = notices s"
  "notices (set_node n nd s) = notices s" "notices (set_pm p pm s) = notices s" "notices (set_sub a sub s) = notices s"
  "notices (set_mon a mo s) = notices s" "notices (set_req r rq s) = notices s" "notices (set_setup a js s) = notices s"
  "notices (set_job j jb s) = notices s" "notices (set_fleet f fr s) = notices s"
  "notices (s\<lparr>sub_h := x1\<rparr>) = notices s" "notices (s\<lparr>mon_h := x2\<rparr>) = notices s" "notices (s\<lparr>job_h := x3\<rparr>) = notices s"
  "notices (s\<lparr>setup_h := x4\<rparr>) = notices s" "notices (s\<lparr>all_subscriptions := x5\<rparr>) = notices s"
  "notices (s\<lparr>node_h := x6\<rparr>) = notices s" "notices (s\<lparr>pm_h := x7\<rparr>) = notices s" "notices (s\<lparr>req_h := x8\<rparr>) = notices s"
  "notices (s\<lparr>fleet_h := x9\<rparr>) = notices s"
  by (auto simp: notices_def prim_defs set_setup_def set_fleet_def)

lemma foldo_notices:
  assumes "foldo f xs s = Some t" "\<And>x s t. x \<in> set xs \<Longrightarrow> f x s = Some t \<Longrightarrow> notices t = notices s"
  shows "notices t = notices s"
  using foldo_invariant [OF assms(1), where P = "\<lambda>u. notices u = notices s"] assms(2) by auto

text \<open>Nothing that releases objects answers a client or announces the end of a job.\<close>

lemma send_agent_notices [simp]: "notices (snd (send_agent_simple_message e nd m arg s)) = notices s"
  by (auto simp: send_agent_simple_message_def split: option.splits)

lemma send_unsubscribe_notices [simp]: "notices (node_send_agent_unsubscribe e nd u s) = notices s"
  by (simp add: node_send_agent_unsubscribe_def)

lemma node_unsubscribe_unit_notices:
  assumes "node_unsubscribe_unit e n a u s = Some t"
  shows "notices t = notices s"
proof -
  obtain nd where nd: "node_h s n = Some nd" using assms by (auto simp: node_unsubscribe_unit_def bind_eq_Some_conv)
  show ?thesis
  proof (cases "map_of (nd_unit_subs nd) u")
    case (Some us)
    then show ?thesis
      using assms nd by (cases "a \<in> set (us_subs us)"; cases "remove1 a (us_subs us) = []")
        (simp_all add: node_unsubscribe_unit_def Let_def, auto)
  qed (use assms nd in \<open>simp add: node_unsubscribe_unit_def\<close>)
qed

lemma node_unsubscribe_notices: "node_unsubscribe e n a s = Some t \<Longrightarrow> notices t = notices s"
proof -
  assume "node_unsubscribe e n a s = Some t"
  then obtain sub where "sub_h s a = Some sub" and f: "foldo (node_unsubscribe_unit e n a) (sub_units sub) s = Some t"
    by (auto simp: node_unsubscribe_def bind_eq_Some_conv)
  show ?thesis
    by (rule foldo_notices [OF f]) (rule node_unsubscribe_unit_notices)
qed

lemma subscription_unref_notices: "subscription_unref a s = Some t \<Longrightarrow> notices t = notices s"
proof -
  have "monitor_unref m s = Some t \<Longrightarrow> notices t = notices s" for m s t
    by (auto simp: monitor_unref_def bind_eq_Some_conv split: if_splits)
  then show "subscription_unref a s = Some t \<Longrightarrow> notices t = notices s"
    by (cases "sub_h s a") (auto simp: subscription_unref_def bind_eq_Some_conv split: if_splits monitor_ref.splits)
qed

lemma controller_remove_subscription_notices:
  assumes "controller_remove_subscription e a s = Some t"
  shows "notices t = notices s"
proof -
  from assms obtain sub s1 subs where
    un: "(if subscription_has_node_wildcard sub then foldo (\<lambda>n. node_unsubscribe e n a) (nodes s) s
          else case controller_find_node s (sub_node sub) of None \<Rightarrow> Some s
               | Some n \<Rightarrow> node_unsubscribe e n a s) = Some s1"
    and un2: "subscription_unref a (s1\<lparr>all_subscriptions := subs\<rparr>) = Some t"
    unfolding controller_remove_subscription_def bind_eq_Some_conv by blast
  have "notices s1 = notices s"
    using un foldo_notices [of "\<lambda>n. node_unsubscribe e n a" "nodes s" s s1]
    by (auto split: if_splits option.splits dest: node_unsubscribe_notices)
  then show ?thesis using subscription_unref_notices [OF un2] by simp
qed

lemma proxy_monitor_drop_dep_notices: "proxy_monitor_drop_dep e p s = Some t \<Longrightarrow> notices t = notices s"
proof -
  have "node_remove_proxy_dependency e n u s = Some (r, t) \<Longrightarrow> notices t = notices s" for n u s r t
    by (auto simp: node_remove_proxy_dependency_def bind_eq_Some_conv node_stop_proxy_dependency_def split: option.splits if_splits)
  then show "proxy_monitor_drop_dep e p s = Some t \<Longrightarrow> notices t = notices s"
    by (auto simp: proxy_monitor_drop_dep_def bind_eq_Some_conv split: if_splits)
qed

lemma node_unset_agent_bus_notices: "node_unset_agent_bus e n s = Some t \<Longrightarrow> notices t = notices s"
  by (auto simp: node_unset_agent_bus_def bind_eq_Some_conv Let_def)

lemma unref_run_notices:
  assumes "unref_run e c s = Some t"
  shows "notices t = notices s"
proof (rule unref_run.raw_induct [where P = "\<lambda>e c s t. notices t = notices s", OF _ assms], goal_cases)
  case (1 run e c s t)
  note IH = 1(1) and body = 1(2)
  show ?case
  proof (cases c)
    case (NodeUnref n)
    then obtain nd where nd: "node_h s n = Some nd" using body by (auto simp: bind_eq_Some_conv)
    show ?thesis
    proof (cases "nd_ref nd = 1")
      case True
      then obtain s1 s2 where f: "foldo (\<lambda>p. run e (RemoveProxyMonitor n p)) (nd_proxy_monitors nd)
            (set_node n (nd\<lparr>nd_ref := 0\<rparr>) s) = Some s1"
        and "node_unset_agent_bus e n s1 = Some s2" "t = s2\<lparr>node_h := (node_h s2)(n := None)\<rparr>"
        using body nd NodeUnref by (auto simp: bind_eq_Some_conv split: if_splits)
      moreover have "notices s1 = notices s" using foldo_notices [OF f IH] by simp
      ultimately show ?thesis using node_unset_agent_bus_notices by fastforce
    qed (use body nd NodeUnref in auto)
  next
    case (RemoveProxyMonitor n p)
    from body [unfolded RemoveProxyMonitor unref_call.case bind_eq_Some_conv]
    obtain s1 pm s2 nd pms where "proxy_monitor_close e p s = Some s1" "pm_h s1 p = Some pm"
      and "controller_remove_subscription e (pm_sub pm) s1 = Some s2" "node_h s2 n = Some nd"
      and r: "run e (ProxyMonitorUnref p) (set_node n (nd\<lparr>nd_proxy_monitors := pms\<rparr>) s2) = Some t"
      by blast
    then show ?thesis
      using IH [OF r] controller_remove_subscription_notices proxy_monitor_drop_dep_notices
      by (fastforce simp: proxy_monitor_close_def)
  next
    case (ProxyMonitorUnref p)
    then obtain pm where pm: "pm_h s p = Some pm" using body by (auto simp: bind_eq_Some_conv)
    show ?thesis
    proof (cases "pm_ref pm = 1")
      case True
      let ?s0 = "set_pm p (pm\<lparr>pm_ref := 0\<rparr>) s"
      from True obtain s2 s3 where s2: "(case pm_target pm of None \<Rightarrow> Some ?s0
            | Some t \<Rightarrow> proxy_monitor_drop_dep e p ?s0 \<bind> run e (NodeUnref t)) = Some s2"
        and s3: "subscription_unref (pm_sub pm) s2 = Some s3" and t: "t = s3\<lparr>pm_h := (pm_h s3)(p := None)\<rparr>"
        using body pm ProxyMonitorUnref by (auto simp: bind_eq_Some_conv)
      have "notices s2 = notices s"
        using s2 IH proxy_monitor_drop_dep_notices by (cases "pm_target pm") (fastforce simp: bind_eq_Some_conv)+
      then show ?thesis using subscription_unref_notices [OF s3] t by simp
    qed (use body pm ProxyMonitorUnref in auto)
  qed
qed

lemma foldo_replies:
  assumes "foldo f xs s = Some t" "\<And>x s t. x \<in> set xs \<Longrightarrow> f x s = Some t \<Longrightarrow> replies t = replies s"
  shows "replies t = replies s"
  using foldo_invariant [OF assms(1), where P = "\<lambda>u. replies u = replies s"] assms(2) by auto

lemma unref_run_replies: "unref_run e c s = Some t \<Longrightarrow> replies t = replies s"
  by (simp add: replies_of_notices unref_run_notices)

lemma agent_request_unref_replies: "agent_request_unref e r s = Some t \<Longrightarrow> replies t = replies s"
proof -
  have js: "job_setup_unref a s = Some t \<Longrightarrow> replies t = replies s" for a s t
    by (auto simp: job_setup_unref_def job_unref_def bind_eq_Some_conv split: if_splits)
  have "free_userdata cb s = Some t \<Longrightarrow> replies t = replies s" for cb s t
    by (cases cb) (auto dest: js)
  then show "agent_request_unref e r s = Some t \<Longrightarrow> replies t = replies s"
    by (auto simp: agent_request_unref_def bind_eq_Some_conv node_unref_def dest!: unref_run_replies split: if_splits)
qed

lemma agent_fleet_request_free_replies: "agent_fleet_request_free e f s = Some t \<Longrightarrow> replies t = replies s"
proof -
  have sr: "set_sub_req f i g s = Some t \<Longrightarrow> replies t = replies s" for f i g s t
    by (auto simp: set_sub_req_def bind_eq_Some_conv split: if_splits)
  have one: "free_sub_req e f i s = Some t \<Longrightarrow> replies t = replies s" for i s t
  proof -
    assume "free_sub_req e f i s = Some t"
    then obtain x :: SubReq and s1 where
      s1: "(case sr_node x of None \<Rightarrow> Some s
            | Some n \<Rightarrow> do { s1 \<leftarrow> node_unref e n s; set_sub_req f i (\<lambda>sr. sr\<lparr>sr_node := None\<rparr>) s1 }) = Some s1"
      and t: "(case sr_agent_req x of None \<Rightarrow> Some s1
            | Some r \<Rightarrow> do { s2 \<leftarrow> agent_request_unref e r s1; set_sub_req f i (\<lambda>sr. sr\<lparr>sr_agent_req := None\<rparr>) s2 }) = Some t"
      unfolding free_sub_req_def bind_eq_Some_conv by blast
    have "replies s1 = replies s"
      using s1 by (cases "sr_node x") (auto simp: bind_eq_Some_conv node_unref_def dest!: sr unref_run_replies)
    moreover have "replies t = replies s1"
      using t by (cases "sr_agent_req x") (auto simp: bind_eq_Some_conv dest!: sr agent_request_unref_replies)
    ultimately show ?thesis by simp
  qed
  show "agent_fleet_request_free e f s = Some t \<Longrightarrow> replies t = replies s"
    by (auto simp: agent_fleet_request_free_def bind_eq_Some_conv dest!: foldo_replies [OF _ one])
qed

section \<open>Requests to all nodes\<close>

definition answered :: "SubReq \<Rightarrow> bool" where
  "answered sr = (sr_m sr \<noteq> None)"

definition failed :: "SubReq \<Rightarrow> bool" where
  "failed sr = (\<exists>name err. sr_m sr = Some (AnswerError name err))"

definition sub_answer :: "Controller \<Rightarrow> SubReq \<Rightarrow> string \<times> nat" where
  "sub_answer s sr = (node_name_arg s (the (sr_node sr)), case sr_m sr of Some (AnswerBody b) \<Rightarrow> b | _ \<Rightarrow> 0)"

text \<open>A fleet request in progress: the counter counts the answers, each entry has its own request.\<close>

definition fleet_ok :: "AgentFleetRequest \<Rightarrow> bool" where
  "fleet_ok fr = (fr_n_done fr = int (length (filter answered (fr_sub_req fr))) \<and>
     distinct (map sr_agent_req (fr_sub_req fr)))"

lemma encode_reply_spec:
  "encode_reply s srs acc = Some res \<Longrightarrow> \<forall>sr \<in> set srs. answered sr \<Longrightarrow>
   (if \<exists>sr \<in> set srs. failed sr then \<exists>x. res = Inl x else res = Inr (acc @ map (sub_answer s) srs))"
proof (induction srs arbitrary: acc)
  case (Cons sr srs)
  obtain n nd where n: "sr_node sr = Some n" "node_h s n = Some nd" using Cons.prems(1) by (auto simp: bind_eq_Some_conv)
  obtain a where a: "sr_m sr = Some a" using Cons.prems(2) by (auto simp: answered_def)
  show ?case
  proof (cases a)
    case (AnswerError name err)
    then show ?thesis using Cons.prems n a by (auto simp: failed_def)
  next
    case (AnswerBody b)
    then have "encode_reply s srs (acc @ [(str_arg (nd_name nd), b)]) = Some res" using Cons.prems(1) n a by simp
    from Cons.IH [OF this] show ?thesis
      using Cons.prems(2) n a AnswerBody by (auto simp: failed_def sub_answer_def node_name_arg_def split: if_splits)
  qed
qed simp

lemma record_answer_count:
  "record_answer r ans srs = Some srs' \<Longrightarrow> \<forall>sr \<in> set srs. sr_agent_req sr = Some r \<longrightarrow> \<not> answered sr \<Longrightarrow>
   length (filter answered srs') = Suc (length (filter answered srs)) \<and> map sr_agent_req srs' = map sr_agent_req srs"
  by (induction srs arbitrary: srs') (auto simp: answered_def split: if_splits)

lemma agent_fleet_request_done_reply:
  assumes ok: "bus_ok e" and run: "agent_fleet_request_done e f s = Some t" and fr: "fleet_h s f = Some fr"
    and all: "\<forall>sr \<in> set (fr_sub_req fr). answered sr"
  shows "replies t = replies s @ [Reply (fr_message fr)
    (if \<exists>sr \<in> set (fr_sub_req fr). failed sr
     then ReplyError SD_BUS_ERROR_FAILED ''Request to at least one node failed''
     else ReplyFleet (map (sub_answer s) (fr_sub_req fr)))]"
proof -
  from run fr ok obtain enc where enc: "encode_reply s (fr_sub_req fr) [] = Some enc"
    and t: "agent_fleet_request_free e f (case enc of
       Inl r \<Rightarrow> put (Reply (fr_message fr) (ReplyError SD_BUS_ERROR_FAILED ''Request to at least one node failed'')) s
     | Inr ans \<Rightarrow> emit e SendReply (Reply (fr_message fr) (ReplyFleet ans)) s) = Some t"
    by (auto simp: agent_fleet_request_done_def bind_eq_Some_conv)
  have "replies t = replies (case enc of
       Inl r \<Rightarrow> put (Reply (fr_message fr) (ReplyError SD_BUS_ERROR_FAILED ''Request to at least one node failed'')) s
     | Inr ans \<Rightarrow> emit e SendReply (Reply (fr_message fr) (ReplyFleet ans)) s)"
    by (rule agent_fleet_request_free_replies [OF t])
  then show ?thesis
    using encode_reply_spec [OF enc all] by (auto simp: emit_ok [OF ok] split: if_splits)
qed


text \<open>A client asks for the units of all nodes; one node is online.\<close>

definition example_fleet :: Controller where
  "example_fleet = snd (the (controller_method_list_units ref_env 21 example_registered))"


end
