(* ===== verification/Ctrl_Config.thy ===== *)
theory Ctrl_Config
  imports Ctrl_Props Cfg_Props LogConf Socket
begin

text \<open>Applying the configuration to the controller (\<open>controller/controller.c\<close>): the settings
  that the event model does not use, the configured nodes with their requirements, and
  the log level methods.\<close>

section \<open>Settings\<close>

text \<open>The fields of the controller that only its start-up reads.\<close>

record ControllerSettings =
  use_uds :: bool
  use_tcp :: bool
  port :: "16 word"
  peer_socket_options :: SocketOptions
  ctl_config :: config

type_synonym ctl = "ControllerSettings \<times> Controller"

definition controller_set_use_tcp :: "bool \<Rightarrow> ctl \<Rightarrow> bool \<times> ctl" where
  "controller_set_use_tcp v c = (True, (fst c)\<lparr>use_tcp := v\<rparr>, snd c)"

definition controller_set_use_uds :: "bool \<Rightarrow> ctl \<Rightarrow> bool \<times> ctl" where
  "controller_set_use_uds v c = (True, (fst c)\<lparr>use_uds := v\<rparr>, snd c)"

definition controller_set_port :: "string \<Rightarrow> ctl \<Rightarrow> bool \<times> ctl" where
  "controller_set_port port_s c =
     (case parse_port (Some port_s) of None \<Rightarrow> (False, c) | Some p \<Rightarrow> (True, (fst c)\<lparr>port := p\<rparr>, snd c))"

definition controller_set_heartbeat_interval :: "string \<Rightarrow> ctl \<Rightarrow> bool \<times> ctl" where
  "controller_set_heartbeat_interval interval_msec c =
     (case parse_long (Some interval_msec) of None \<Rightarrow> (False, c)
      | Some i \<Rightarrow> (True, fst c, (snd c)\<lparr>heartbeat_interval_msec := i\<rparr>))"

definition controller_set_heartbeat_threshold :: "string \<Rightarrow> ctl \<Rightarrow> bool \<times> ctl" where
  "controller_set_heartbeat_threshold threshold_msec c =
     (case parse_long (Some threshold_msec) of None \<Rightarrow> (False, c)
      | Some i \<Rightarrow> (True, fst c, (snd c)\<lparr>heartbeat_threshold_msec := i\<rparr>))"

text \<open>\<open>controller_parse_config\<close>: the standard files are arguments.\<close>

definition controller_parse_config :: "cfg_env \<Rightarrow> string \<Rightarrow> string \<Rightarrow> string \<Rightarrow> cstring \<Rightarrow> ctl \<Rightarrow> bool \<times> ctl" where
  "controller_parse_config e default_file etc_file etc_dir configfile c =
     (let (r1, cfg1) = cfg_controller_def_conf e cfg_initialize in
      if r1 \<noteq> 0 then (False, (fst c)\<lparr>ctl_config := cfg1\<rparr>, snd c)
      else let (r2, cfg2) = cfg_load_complete_configuration e (Some default_file) (Some etc_file) (Some etc_dir) configfile cfg1
           in (r2 = 0, (fst c)\<lparr>ctl_config := cfg2\<rparr>, snd c))"

section \<open>Applying the configuration\<close>

definition set_socket_option :: "(SocketOptions \<Rightarrow> int \<times> SocketOptions) \<Rightarrow> ctl \<Rightarrow> bool \<times> ctl" where
  "set_socket_option f c =
     (let (r, opts) = f (peer_socket_options (fst c)) in (\<not> r < 0, (fst c)\<lparr>peer_socket_options := opts\<rparr>, snd c))"

definition apply_expected_nodes :: "config \<Rightarrow> Controller \<Rightarrow> Controller" where
  "apply_expected_nodes cfg s =
     (case cfg_get_value cfg CFG_ALLOWED_NODE_NAMES of None \<Rightarrow> s
      | Some names \<Rightarrow> fold add_expected_node (tokens names) s)"

definition apply_node_options :: "config \<Rightarrow> string \<Rightarrow> addr \<Rightarrow> Controller \<Rightarrow> Controller option" where
  "apply_node_options cfg section n s =
     Option.bind
       (case cfg_s_get_value cfg section CFG_REQUIRED_SELINUX_CONTEXT of None \<Rightarrow> Some s
        | Some ctx \<Rightarrow> node_set_required_selinux_context n ctx s)
       (\<lambda>s1. case cfg_s_get_value cfg section CFG_ALLOW_DEPENDENCIES_ON of None \<Rightarrow> Some s1
             | Some targets \<Rightarrow> foldo (node_add_allowed_proxy_target n) (tokens targets) s1)"

definition apply_section :: "config \<Rightarrow> string \<Rightarrow> Controller \<Rightarrow> Controller option" where
  "apply_section cfg section s =
     (if \<not> str_has_prefix section CFG_SECT_NODE_PREFIX then Some s
      else let node_name = drop (length CFG_SECT_NODE_PREFIX) section in
        case controller_find_node s node_name of
          Some n \<Rightarrow> apply_node_options cfg section n s
        | None \<Rightarrow>
            if \<not> cfg_s_get_bool_value cfg section CFG_ALLOWED then Some s
            else let (n, s1) = controller_add_node (Some node_name) s in apply_node_options cfg section n s1)"

definition apply_nodes :: "cfg_env \<Rightarrow> ctl \<Rightarrow> (bool \<times> ctl) option" where
  "apply_nodes e c =
     (let cfg = ctl_config (fst c)
      in map_option (\<lambda>s. (True, fst c, s))
           (foldo (apply_section cfg) (cfg_list_sections e cfg) (apply_expected_nodes cfg (snd c))))"

definition controller_apply_config :: "cfg_env \<Rightarrow> ctl \<Rightarrow> (bool \<times> ctl) option" where
  "controller_apply_config e c =
     (let cfg = ctl_config (fst c) in
      and_then (Some (controller_set_use_tcp (cfg_get_bool_value cfg CFG_CONTROLLER_USE_TCP) c)) (\<lambda>c.
      and_then (Some (controller_set_use_uds (cfg_get_bool_value cfg CFG_CONTROLLER_USE_UDS) c)) (\<lambda>c.
      and_then (when_set (cfg_get_value cfg CFG_CONTROLLER_PORT) controller_set_port c) (\<lambda>c.
      and_then (apply_nodes e c) (\<lambda>c.
      and_then (when_set (cfg_get_value cfg CFG_HEARTBEAT_INTERVAL) controller_set_heartbeat_interval c) (\<lambda>c.
      and_then (when_set (cfg_get_value cfg CFG_NODE_HEARTBEAT_THRESHOLD) controller_set_heartbeat_threshold c) (\<lambda>c.
      and_then (when_set (cfg_get_value cfg CFG_TCP_KEEPALIVE_TIME)
                 (\<lambda>v. set_socket_option (socket_options_set_tcp_keepidle (Some v))) c) (\<lambda>c.
      and_then (when_set (cfg_get_value cfg CFG_TCP_KEEPALIVE_INTERVAL)
                 (\<lambda>v. set_socket_option (socket_options_set_tcp_keepintvl (Some v))) c) (\<lambda>c.
      and_then (when_set (cfg_get_value cfg CFG_TCP_KEEPALIVE_COUNT)
                 (\<lambda>v. set_socket_option (socket_options_set_tcp_keepcnt (Some v))) c) (\<lambda>c.
      Some (set_socket_option (socket_options_set_ip_recverr (cfg_get_bool_value cfg CFG_IP_RECEIVE_ERRORS)) c)))))))))))"

section \<open>Log levels over the bus\<close>

definition controller_method_set_log_level :: "string \<Rightarrow> BcLogConfig \<Rightarrow> reply \<times> BcLogConfig" where
  "controller_method_set_log_level lvl l =
     (let loglevel = string_to_log_level (Some lvl)
      in if loglevel = LOG_LEVEL_INVALID then (ReplyError SD_BUS_ERROR_INVALID_ARGS ''Invalid input for log level'', l)
         else (ReplyOk, bc_log_set_level loglevel l))"

text \<open>An invalid level is answered with success, forwarded nevertheless, and answered again.\<close>

definition node_method_set_log_level :: "env \<Rightarrow> addr \<Rightarrow> msg_id \<Rightarrow> string \<Rightarrow> Controller \<Rightarrow> Controller option" where
  "node_method_set_log_level e n m lvl s =
     Option.bind (node_h s n) (\<lambda>nd.
       if string_to_log_level (Some lvl) = LOG_LEVEL_INVALID \<and> bus_ret e SendReply < 0
       then Some (put (Reply m (ReplyError SD_BUS_ERROR_INVALID_ARGS ''Invalid argument for the log level invalid'')) s)
       else let s1 = (if string_to_log_level (Some lvl) = LOG_LEVEL_INVALID then put (Reply m ReplyOk) s else s)
            in case nd_agent_bus nd of
                 None \<Rightarrow> Some (put (Reply m (ReplyError SD_BUS_ERROR_FAILED ''Failed to call a method to set the log level'')) s1)
               | Some b \<Rightarrow>
                   if bus_ret e (SyncCall ''SetLogLevel'') < 0
                   then Some (put (Reply m (ReplyError SD_BUS_ERROR_FAILED ''Failed to call a method to set the log level'')) s1)
                   else Some (emit e SendReply (Reply m ReplyOk) (put (AgentCall b ''SetLogLevel'' [lvl]) s1)))"

section \<open>Properties over the bus\<close>

text \<open>What reading a property returns; a string that is not set is read as the empty string.\<close>

definition controller_property_get_status :: "Controller \<Rightarrow> string" where
  "controller_property_get_status s = controller_get_system_status s"

definition controller_property_get_loglevel :: "BcLogConfig \<Rightarrow> string" where
  "controller_property_get_loglevel l = log_level_to_string (bc_log_get_level l)"

definition controller_property_get_log_target :: "BcLogConfig \<Rightarrow> string" where
  "controller_property_get_log_target l = str_arg (log_target_to_str (bc_log_get_log_fn l))"

definition node_property_get_status :: "addr \<Rightarrow> Controller \<Rightarrow> string option" where
  "node_property_get_status n s = map_option node_get_status (node_h s n)"

definition node_property_get_peer_ip :: "addr \<Rightarrow> Controller \<Rightarrow> string option" where
  "node_property_get_peer_ip n s = map_option (\<lambda>nd. str_arg (nd_peer_ip nd)) (node_h s n)"

definition job_property_get_nodename :: "addr \<Rightarrow> Controller \<Rightarrow> string option" where
  "job_property_get_nodename j s =
     Option.bind (job_h s j) (\<lambda>jb. map_option (\<lambda>nd. str_arg (nd_name nd)) (node_h s (job_node jb)))"

definition job_property_get_state :: "addr \<Rightarrow> Controller \<Rightarrow> string option" where
  "job_property_get_state j s = map_option (\<lambda>jb. job_state_to_string (job_st jb)) (job_h s j)"

text \<open>The level that was set is the level that is read.\<close>

lemma log_level_set_get:
  assumes "controller_method_set_log_level lvl l = (ReplyOk, l')"
  shows "string_to_log_level (Some (controller_property_get_loglevel l')) = string_to_log_level (Some lvl)"
  using assms string_to_log_level_valid [of "Some lvl"] log_table.from_to
  by (auto simp: controller_method_set_log_level_def controller_property_get_loglevel_def bc_log_get_level_def bc_log_setters Let_def
      split: if_splits)

section \<open>Lemmas\<close>

lemma tokens_Nil [simp]: "tokens [] = []"
  by (subst tokens.simps) (simp add: strtok_comma_def)

lemma tokens_comma [simp]: "tokens (CHR '','' # s) = tokens s"
  by (subst (1 2) tokens.simps) (simp add: strtok_comma_def)

text \<open>The tokens are the non-empty pieces between the commas.\<close>

lemma tokens_piece:
  assumes "CHR '','' \<notin> set t" "t \<noteq> []"
  shows "tokens t = [t]" "tokens (t @ CHR '','' # rest) = t # tokens rest"
proof -
  have a: "dropWhile (\<lambda>c. c = CHR '','') t = t" using assms by (cases t) auto
  have b: "dropWhile (\<lambda>c. c = CHR '','') (t @ CHR '','' # rest) = t @ CHR '','' # rest" using assms by (cases t) auto
  have c: "takeWhile (\<lambda>c. c \<noteq> CHR '','') t = t" "dropWhile (\<lambda>c. c \<noteq> CHR '','') t = []"
    using assms(1) by (auto simp: takeWhile_eq_all_conv dropWhile_eq_Nil_conv)
  have d: "takeWhile (\<lambda>c. c \<noteq> CHR '','') (t @ CHR '','' # rest) = t"
      "dropWhile (\<lambda>c. c \<noteq> CHR '','') (t @ CHR '','' # rest) = CHR '','' # rest"
    using assms(1) by (auto simp: takeWhile_append dropWhile_append c)
  show "tokens t = [t]"
    using assms(2) by (subst tokens.simps) (simp add: strtok_comma_def a c)
  show "tokens (t @ CHR '','' # rest) = t # tokens rest"
    using assms(2) by (subst tokens.simps) (simp add: strtok_comma_def b d)
qed

lemma foldo_targets:
  "node_h s n = Some nd \<Longrightarrow>
     foldo (node_add_allowed_proxy_target n) ts s = Some (set_node n (nd\<lparr>nd_targets := nd_targets nd @ ts\<rparr>) s)"
proof (induction ts arbitrary: s nd)
  case Nil
  then show ?case by (simp add: set_node_def fun_upd_idem)
next
  case (Cons t ts)
  let ?nd = "nd\<lparr>nd_targets := nd_targets nd @ [t]\<rparr>"
  have "node_h (set_node n ?nd s) n = Some ?nd" by (simp add: set_node_def)
  then show ?case using Cons.IH [of "set_node n ?nd s" ?nd] Cons.prems
    by (simp add: node_add_allowed_proxy_target_def set_node_def)
qed

definition section_targets :: "config \<Rightarrow> string \<Rightarrow> string list" where
  "section_targets cfg section =
     (case cfg_s_get_value cfg section CFG_ALLOW_DEPENDENCIES_ON of None \<Rightarrow> [] | Some v \<Rightarrow> tokens v)"

lemma apply_node_options_ok:
  assumes "node_h s n = Some nd" "nd_required_selinux nd = None" "nd_targets nd = []"
  shows "apply_node_options cfg section n s = Some (set_node n
    (nd\<lparr>nd_required_selinux := cfg_s_get_value cfg section CFG_REQUIRED_SELINUX_CONTEXT,
        nd_targets := section_targets cfg section\<rparr>) s)"
proof -
  let ?v = "cfg_s_get_value cfg section CFG_REQUIRED_SELINUX_CONTEXT"
  let ?nd = "nd\<lparr>nd_required_selinux := ?v\<rparr>" and ?s = "set_node n (nd\<lparr>nd_required_selinux := ?v\<rparr>) s"
  have 1: "(case ?v of None \<Rightarrow> Some s | Some ctx \<Rightarrow> node_set_required_selinux_context n ctx s) = Some ?s"
    using assms by (auto simp: node_set_required_selinux_context_def set_node_def fun_upd_idem split: option.split)
  have 2: "node_h ?s n = Some ?nd" by (simp add: set_node_def)
  show ?thesis
    using assms(2,3) foldo_targets [OF 2] foldo_targets [OF 2, of "[]"]
    by (auto simp: apply_node_options_def 1 section_targets_def set_node_def split: option.split)
qed

text \<open>The configured nodes after the sections in \<open>seen\<close>: all offline, and each with the
  requirements of its section once that was read.\<close>

definition node_conf_ok :: "config \<Rightarrow> string set \<Rightarrow> Node \<Rightarrow> bool" where
  "node_conf_ok cfg seen nd =
     (nd_agent_bus nd = None \<and>
      (let section = CFG_SECT_NODE_PREFIX @ the (nd_name nd)
       in if section \<in> seen
          then nd_required_selinux nd = cfg_s_get_value cfg section CFG_REQUIRED_SELINUX_CONTEXT \<and>
               nd_targets nd = section_targets cfg section
          else nd_required_selinux nd = None \<and> nd_targets nd = []))"

definition conf_ok :: "config \<Rightarrow> string set \<Rightarrow> Controller \<Rightarrow> bool" where
  "conf_ok cfg seen s =
     (configured s \<and> (\<forall>n \<in> set (nodes s). \<forall>nd. node_h s n = Some nd \<longrightarrow> node_conf_ok cfg seen nd))"

definition known :: "Controller \<Rightarrow> string set" where
  "known s = {name. controller_find_node s name \<noteq> None}"

lemma in_known: "name \<in> known s \<longleftrightarrow> (\<exists>n \<in> set (nodes s). map_option nd_name (node_h s n) = Some (Some name))"
  by (auto simp: known_def controller_find_node_None simp del: not_None_eq)

lemma known_cong:
  "nodes t = nodes s \<Longrightarrow> (\<And>n. map_option nd_name (node_h t n) = map_option nd_name (node_h s n)) \<Longrightarrow> known t = known s"
  by (auto simp: in_known)

lemma configured_known:
  assumes "conf_ok cfg seen s" "n \<in> set (nodes s)"
  obtains nd name where "node_h s n = Some nd" "nd_name nd = Some name" "node_conf_ok cfg seen nd"
  using assms configured_inv inv_listed by (metis conf_ok_def)

lemma fresh_node:
  assumes "configured s"
  shows "next_addr s \<notin> set (nodes s)" "node_h s (next_addr s) = None"
  using configured_inv [OF assms] by (auto simp: core_inv_def core_fresh_def core_of_def)

lemma add_expected_node_new:
  assumes "controller_find_node s name = None"
  shows "add_expected_node name s = (set_node (next_addr s) (new_node (Some name)) s)
      \<lparr>next_addr := next_addr s + 1, number_of_nodes := number_of_nodes s + 1, nodes := nodes s @ [next_addr s]\<rparr>"
    and "controller_add_node (Some name) s = (next_addr s, add_expected_node name s)"
  using assms by (simp_all add: add_expected_node_def controller_add_node_def node_new_def set_node_def Let_def)

lemma new_node_name [simp]: "nd_name (new_node name) = name"
  by (simp add: new_node_def)

lemma add_expected_node_ok:
  assumes "conf_ok cfg seen s" "name \<in> known s \<or> CFG_SECT_NODE_PREFIX @ name \<notin> seen"
  shows "conf_ok cfg seen (add_expected_node name s) \<and> known (add_expected_node name s) = insert name (known s)"
proof (cases "controller_find_node s name")
  case None
  let ?n = "next_addr s"
  note t = add_expected_node_new(1) [OF None]
  have fr: "?n \<notin> set (nodes s)" using fresh_node assms(1) by (simp add: conf_ok_def)
  have new: "node_conf_ok cfg seen (new_node (Some name))"
    using assms(2) None by (simp add: node_conf_ok_def new_node_def known_def)
  have "conf_ok cfg seen (add_expected_node name s)"
    using assms(1) fr new configured.node [of s name] by (auto simp: conf_ok_def t set_node_def)
  moreover have "known (add_expected_node name s) = insert name (known s)"
  proof -
    have "map_option nd_name (node_h (add_expected_node name s) n) = map_option nd_name (node_h s n)"
      if "n \<in> set (nodes s)" for n using that fr by (auto simp: t set_node_def)
    moreover have "nodes (add_expected_node name s) = nodes s @ [?n]"
      "map_option nd_name (node_h (add_expected_node name s) ?n) = Some (Some name)" by (simp_all add: t set_node_def)
    ultimately show ?thesis by (auto simp: in_known simp del: map_option_eq_Some)
  qed
  ultimately show ?thesis by blast
next
  case (Some n)
  then show ?thesis using assms(1) by (auto simp: add_expected_node_def known_def)
qed

lemma apply_expected_nodes_ok:
  assumes "conf_ok cfg {} s"
  shows "conf_ok cfg {} (apply_expected_nodes cfg s) \<and>
    known (apply_expected_nodes cfg s) = known s \<union>
      (case cfg_get_value cfg CFG_ALLOWED_NODE_NAMES of None \<Rightarrow> {} | Some names \<Rightarrow> set (tokens names))"
proof -
  have "conf_ok cfg {} (fold add_expected_node ns s) \<and> known (fold add_expected_node ns s) = known s \<union> set ns" for ns
    using assms
  proof (induction ns arbitrary: s)
    case (Cons name ns)
    then show ?case using Cons.IH [of "add_expected_node name s"] add_expected_node_ok [of cfg "{}" s name] by auto
  qed simp
  then show ?thesis using assms by (auto simp: apply_expected_nodes_def split: option.split)
qed

lemma apply_node_options_configured:
  assumes "configured s" "apply_node_options cfg section n s = Some t"
  shows "configured t"
proof -
  from assms(2) obtain s1 where
    s1: "(case cfg_s_get_value cfg section CFG_REQUIRED_SELINUX_CONTEXT of None \<Rightarrow> Some s
        | Some ctx \<Rightarrow> node_set_required_selinux_context n ctx s) = Some s1"
    and t: "(case cfg_s_get_value cfg section CFG_ALLOW_DEPENDENCIES_ON of None \<Rightarrow> Some s1
        | Some targets \<Rightarrow> foldo (node_add_allowed_proxy_target n) (tokens targets) s1) = Some t"
    unfolding apply_node_options_def bind_eq_Some_conv by blast
  have "configured s1" using s1 assms(1) by (auto intro: configured.selinux split: option.splits)
  then show ?thesis using t
    by (auto split: option.splits elim!: foldo_invariant [where P = configured] intro: configured.target)
qed

lemma apply_options_found:
  assumes ok: "conf_ok cfg seen s" and sect: "CFG_SECT_NODE_PREFIX @ name \<notin> seen"
    and find: "controller_find_node s name = Some n"
  shows "\<exists>t. apply_node_options cfg (CFG_SECT_NODE_PREFIX @ name) n s = Some t \<and>
    conf_ok cfg (insert (CFG_SECT_NODE_PREFIX @ name) seen) t \<and> known t = known s"
proof -
  let ?sect = "CFG_SECT_NODE_PREFIX @ name"
  obtain nd where n: "n \<in> set (nodes s)" and nd: "node_h s n = Some nd" "nd_name nd = Some name"
    using controller_find_node_Some [OF find] by blast
  have off: "nd_agent_bus nd = None" "nd_required_selinux nd = None" "nd_targets nd = []"
    using ok n nd sect by (auto simp: conf_ok_def node_conf_ok_def)
  define nd' where "nd' = nd\<lparr>nd_required_selinux := cfg_s_get_value cfg ?sect CFG_REQUIRED_SELINUX_CONTEXT,
        nd_targets := section_targets cfg ?sect\<rparr>"
  have t: "apply_node_options cfg ?sect n s = Some (set_node n nd' s)"
    using apply_node_options_ok [OF nd(1) off(2,3)] by (simp add: nd'_def)
  have inv: "core_inv (core_of s)" using ok by (simp add: conf_ok_def configured_inv)
  have other: "node_conf_ok cfg (insert ?sect seen) md"
    if m: "m \<in> set (nodes s)" "m \<noteq> n" "node_h s m = Some md" for m md
  proof -
    have "nd_name md \<noteq> Some name" using inv_names [OF inv m(1) n m(3) nd(1)] m(2) nd(2) by auto
    moreover obtain nm where "nd_name md = Some nm" using inv_listed [OF inv m(1)] m(3) by auto
    ultimately have "CFG_SECT_NODE_PREFIX @ the (nd_name md) \<noteq> ?sect" by auto
    then show ?thesis using ok m by (auto simp: conf_ok_def node_conf_ok_def Let_def)
  qed
  have "node_conf_ok cfg (insert ?sect seen) nd'" using off nd by (simp add: node_conf_ok_def nd'_def)
  then have "conf_ok cfg (insert ?sect seen) (set_node n nd' s)"
    using apply_node_options_configured [OF _ t] ok other by (auto simp: conf_ok_def set_node_def)
  moreover have "known (set_node n nd' s) = known s"
    by (rule known_cong) (use nd in \<open>auto simp: set_node_def nd'_def\<close>)
  ultimately show ?thesis using t by blast
qed

lemma prefix_section: "str_has_prefix section p \<longleftrightarrow> (\<exists>name. section = p @ name)"
  by (auto simp: str_has_prefix_def strneq_take) (metis append_take_drop_id)

lemma apply_section_ok:
  assumes ok: "conf_ok cfg seen s" and sect: "section \<notin> seen"
  shows "\<exists>t. apply_section cfg section s = Some t \<and> conf_ok cfg (insert section seen) t \<and>
    known t = known s \<union> {name. section = CFG_SECT_NODE_PREFIX @ name \<and> cfg_s_get_bool_value cfg section CFG_ALLOWED}"
proof (cases "str_has_prefix section CFG_SECT_NODE_PREFIX")
  case False
  then have "CFG_SECT_NODE_PREFIX @ name \<noteq> section" for name by (auto simp: prefix_section)
  then have "conf_ok cfg (insert section seen) s"
    using ok by (auto simp: conf_ok_def node_conf_ok_def Let_def)
  then show ?thesis using False by (auto simp: apply_section_def prefix_section)
next
  case True
  then obtain name where name: "section = CFG_SECT_NODE_PREFIX @ name" by (auto simp: prefix_section)
  show ?thesis
  proof (cases "controller_find_node s name")
    case (Some n)
    then have "name \<in> known s" by (simp add: known_def)
    then show ?thesis using apply_options_found [OF ok _ Some] sect True Some
      by (auto simp: apply_section_def name)
  next
    case None
    show ?thesis
    proof (cases "cfg_s_get_bool_value cfg section CFG_ALLOWED")
      case True
      let ?s = "add_expected_node name s"
      note add = add_expected_node_new [OF None]
      have ok1: "conf_ok cfg seen ?s \<and> known ?s = insert name (known s)"
        using add_expected_node_ok [OF ok] sect name by blast
      then have "core_inv (core_of ?s)" by (simp add: conf_ok_def configured_inv)
      moreover have "next_addr s \<in> set (nodes ?s)" "node_h ?s (next_addr s) = Some (new_node (Some name))"
        by (simp_all add: add(1) set_node_def)
      ultimately have "controller_find_node ?s name = Some (next_addr s)"
        by (rule find_node_unique) simp
      then show ?thesis
        using apply_options_found [of cfg seen ?s name "next_addr s"] ok1 sect \<open>str_has_prefix _ _\<close> None True
        by (auto simp: apply_section_def name add(2))
    next
      case False
      then have "conf_ok cfg (insert section seen) s"
        using ok None by (auto simp: conf_ok_def node_conf_ok_def Let_def name controller_find_node_None)
          (metis configured_inv inv_listed option.sel option.inject)+
      then show ?thesis using False None \<open>str_has_prefix _ _\<close> by (auto simp: apply_section_def name)
    qed
  qed
qed

lemma apply_sections_ok:
  assumes "conf_ok cfg seen s" "distinct sections" "set sections \<inter> seen = {}"
  shows "\<exists>t. foldo (apply_section cfg) sections s = Some t \<and> conf_ok cfg (seen \<union> set sections) t \<and>
    known t = known s \<union> {name. CFG_SECT_NODE_PREFIX @ name \<in> set sections \<and>
      cfg_s_get_bool_value cfg (CFG_SECT_NODE_PREFIX @ name) CFG_ALLOWED}"
  using assms
proof (induction sections arbitrary: s seen)
  case (Cons sect ss)
  then obtain u where u: "apply_section cfg sect s = Some u" "conf_ok cfg (insert sect seen) u"
    "known u = known s \<union> {name. sect = CFG_SECT_NODE_PREFIX @ name \<and> cfg_s_get_bool_value cfg sect CFG_ALLOWED}"
    using apply_section_ok [of cfg seen s sect] by auto
  from Cons.IH [OF u(2)] Cons.prems obtain t where "foldo (apply_section cfg) ss u = Some t"
    "conf_ok cfg (insert sect seen \<union> set ss) t" "known t = known u \<union> {name. CFG_SECT_NODE_PREFIX @ name \<in> set ss \<and>
      cfg_s_get_bool_value cfg (CFG_SECT_NODE_PREFIX @ name) CFG_ALLOWED}" by auto
  then show ?case using u by auto
qed simp

lemma conf_ok_new: "conf_ok cfg {} controller_new" "known controller_new = {}"
proof -
  have "nodes controller_new = []" by (simp add: controller_new_def)
  then show "conf_ok cfg {} controller_new" "known controller_new = {}"
    by (auto simp: conf_ok_def in_known intro: configured.new)
qed

lemma section_listed:
  assumes "cfg_env_ok e" "cfg_s_get_value cfg section name \<noteq> None"
  shows "section \<in> set (cfg_list_sections e cfg)"
proof -
  have "(section, name) \<in> dom (map_of (cfg_store cfg))"
    using assms(2) by (auto simp: cfg_s_get_value_def split: option.splits)
  then show ?thesis using cfg_list_sections_set [OF assms(1)] by force
qed

definition allowed_node :: "config \<Rightarrow> string \<Rightarrow> bool" where
  "allowed_node cfg name =
     ((case cfg_get_value cfg CFG_ALLOWED_NODE_NAMES of None \<Rightarrow> False | Some names \<Rightarrow> name \<in> set (tokens names)) \<or>
      cfg_s_get_bool_value cfg (CFG_SECT_NODE_PREFIX @ name) CFG_ALLOWED)"

lemma apply_nodes_ok:
  assumes "cfg_env_ok e"
  shows "\<exists>s. apply_nodes e (st, controller_new) = Some (True, st, s) \<and>
    conf_ok (ctl_config st) (set (cfg_list_sections e (ctl_config st))) s \<and> known s = {name. allowed_node (ctl_config st) name}"
proof -
  let ?cfg = "ctl_config st"
  let ?s = "apply_expected_nodes ?cfg controller_new"
  have 1: "conf_ok ?cfg {} ?s" "known ?s = (case cfg_get_value ?cfg CFG_ALLOWED_NODE_NAMES of None \<Rightarrow> {} | Some names \<Rightarrow> set (tokens names))"
    using apply_expected_nodes_ok [OF conf_ok_new(1), of ?cfg] by (simp_all add: conf_ok_new)
  have "distinct (cfg_list_sections e ?cfg)" using cfg_list_sections_set [OF assms] by simp
  from apply_sections_ok [OF 1(1) this] obtain t where t: "foldo (apply_section ?cfg) (cfg_list_sections e ?cfg) ?s = Some t"
    "conf_ok ?cfg (set (cfg_list_sections e ?cfg)) t"
    "known t = known ?s \<union> {name. CFG_SECT_NODE_PREFIX @ name \<in> set (cfg_list_sections e ?cfg) \<and>
      cfg_s_get_bool_value ?cfg (CFG_SECT_NODE_PREFIX @ name) CFG_ALLOWED}" by auto
  have "CFG_SECT_NODE_PREFIX @ name \<in> set (cfg_list_sections e ?cfg)"
    if "cfg_s_get_bool_value ?cfg (CFG_SECT_NODE_PREFIX @ name) CFG_ALLOWED" for name
    using that section_listed [OF assms, of ?cfg "CFG_SECT_NODE_PREFIX @ name" CFG_ALLOWED]
    by (auto simp: cfg_s_get_bool_value_def split: option.splits)
  then have "known t = {name. allowed_node ?cfg name}"
    unfolding t(3) 1(2) by (auto simp: allowed_node_def split: option.splits)
  then show ?thesis using t(1,2) by (simp add: apply_nodes_def)
qed

text \<open>What the steps after the nodes leave of the controller.\<close>

definition same_nodes :: "ctl \<Rightarrow> ctl \<Rightarrow> bool" where
  "same_nodes c c' = ((configured (snd c) \<longrightarrow> configured (snd c')) \<and> nodes (snd c') = nodes (snd c) \<and>
     node_h (snd c') = node_h (snd c))"

lemma same_nodes_setters:
  "controller_set_heartbeat_interval i c = (True, c') \<Longrightarrow> same_nodes c c'"
  "controller_set_heartbeat_threshold i c = (True, c') \<Longrightarrow> same_nodes c c'"
  "set_socket_option f c = (True, c') \<Longrightarrow> same_nodes c c'"
  by (auto simp: same_nodes_def controller_set_heartbeat_interval_def controller_set_heartbeat_threshold_def
      set_socket_option_def case_prod_beta intro: configured.interval configured.threshold split: option.splits)

lemma same_nodes_trans [trans]: "same_nodes s t \<Longrightarrow> same_nodes t u \<Longrightarrow> same_nodes s u"
  by (auto simp: same_nodes_def)

lemma when_set_same_nodes:
  assumes "when_set v f c = Some (True, c')" "\<And>x c'. f x c = (True, c') \<Longrightarrow> same_nodes c c'"
  shows "same_nodes c c'"
  using assms(1) unfolding when_set_True
proof (elim disjE exE conjE)
  assume "c' = c"
  then show ?thesis by (simp add: same_nodes_def)
qed (rule assms(2))

lemma settings_before_nodes:
  "controller_set_use_tcp v c = (True, c') \<Longrightarrow> ctl_config (fst c') = ctl_config (fst c) \<and> snd c' = snd c"
  "controller_set_use_uds v c = (True, c') \<Longrightarrow> ctl_config (fst c') = ctl_config (fst c) \<and> snd c' = snd c"
  "when_set p controller_set_port c = Some (True, c') \<Longrightarrow> ctl_config (fst c') = ctl_config (fst c) \<and> snd c' = snd c"
  by (auto simp: controller_set_use_tcp_def controller_set_use_uds_def controller_set_port_def when_set_True split: option.splits)

lemma controller_apply_config_nodes_part:
  assumes "controller_apply_config e c = Some (True, c')"
  shows "\<exists>c1 c2. apply_nodes e c1 = Some (True, c2) \<and> ctl_config (fst c1) = ctl_config (fst c) \<and> snd c1 = snd c \<and> same_nodes c2 c'"
proof -
  let ?v = "cfg_get_value (ctl_config (fst c))"
  from assms obtain a1 a2 c1 c2 c3 c4 c5 c6 c7 where
    a: "controller_set_use_tcp (cfg_get_bool_value (ctl_config (fst c)) CFG_CONTROLLER_USE_TCP) c = (True, a1)"
      "controller_set_use_uds (cfg_get_bool_value (ctl_config (fst c)) CFG_CONTROLLER_USE_UDS) a1 = (True, a2)"
      "when_set (?v CFG_CONTROLLER_PORT) controller_set_port a2 = Some (True, c1)"
    and 1: "apply_nodes e c1 = Some (True, c2)"
    and 2: "when_set (?v CFG_HEARTBEAT_INTERVAL) controller_set_heartbeat_interval c2 = Some (True, c3)"
    and 3: "when_set (?v CFG_NODE_HEARTBEAT_THRESHOLD) controller_set_heartbeat_threshold c3 = Some (True, c4)"
    and 4: "when_set (?v CFG_TCP_KEEPALIVE_TIME) (\<lambda>v. set_socket_option (socket_options_set_tcp_keepidle (Some v))) c4 = Some (True, c5)"
    and 5: "when_set (?v CFG_TCP_KEEPALIVE_INTERVAL) (\<lambda>v. set_socket_option (socket_options_set_tcp_keepintvl (Some v))) c5 = Some (True, c6)"
    and 6: "when_set (?v CFG_TCP_KEEPALIVE_COUNT) (\<lambda>v. set_socket_option (socket_options_set_tcp_keepcnt (Some v))) c6 = Some (True, c7)"
    and 7: "set_socket_option (socket_options_set_ip_recverr (cfg_get_bool_value (ctl_config (fst c)) CFG_IP_RECEIVE_ERRORS)) c7
              = (True, c')"
    unfolding controller_apply_config_def Let_def and_then_True option.inject by blast
  have "same_nodes c2 c3" by (rule when_set_same_nodes [OF 2]) (rule same_nodes_setters)
  also have "same_nodes c3 c4" by (rule when_set_same_nodes [OF 3]) (rule same_nodes_setters)
  also have "same_nodes c4 c5" by (rule when_set_same_nodes [OF 4]) (rule same_nodes_setters)
  also have "same_nodes c5 c6" by (rule when_set_same_nodes [OF 5]) (rule same_nodes_setters)
  also have "same_nodes c6 c7" by (rule when_set_same_nodes [OF 6]) (rule same_nodes_setters)
  also have "same_nodes c7 c'" by (rule same_nodes_setters(3) [OF 7])
  finally show ?thesis
    using 1 settings_before_nodes(1) [OF a(1)] settings_before_nodes(2) [OF a(2)] settings_before_nodes(3) [OF a(3)]
    by (intro exI [of _ c1] exI [of _ c2]) simp
qed

text \<open>C18. The configured nodes.  When the configuration is applied successfully, the controller is
  in a start state whose nodes are exactly those that \<open>AllowedNodeNames\<close> lists or whose
  section says \<open>Allowed\<close>; each of them is offline, requires the SELinux context of its
  section and may depend on the nodes its section lists.\<close>

theorem controller_apply_config_nodes:
  assumes "cfg_env_ok e" "controller_apply_config e (st, controller_new) = Some (True, st', s)"
  shows "reachable s \<and> {name. controller_find_node s name \<noteq> None} = {name. allowed_node (ctl_config st) name} \<and>
    (\<forall>name n. controller_find_node s name = Some n \<longrightarrow>
      (\<exists>nd. node_h s n = Some nd \<and> nd_agent_bus nd = None \<and>
         nd_required_selinux nd = cfg_s_get_value (ctl_config st) (CFG_SECT_NODE_PREFIX @ name) CFG_REQUIRED_SELINUX_CONTEXT \<and>
         nd_targets nd = section_targets (ctl_config st) (CFG_SECT_NODE_PREFIX @ name)))"
proof -
  let ?cfg = "ctl_config st" and ?ss = "set (cfg_list_sections e (ctl_config st))"
  from controller_apply_config_nodes_part [OF assms(2)] obtain st1 c2 where
    1: "apply_nodes e (st1, controller_new) = Some (True, c2)" "ctl_config st1 = ?cfg" and same: "same_nodes c2 (st', s)"
    by (metis fst_conv prod.collapse snd_conv)
  then have 2: "conf_ok ?cfg ?ss (snd c2)" "known (snd c2) = {name. allowed_node ?cfg name}"
    using apply_nodes_ok [OF assms(1), of st1] by auto
  have "known s = known (snd c2)" by (rule known_cong) (use same in \<open>auto simp: same_nodes_def\<close>)
  moreover have ok: "conf_ok ?cfg ?ss s" using 2(1) same by (auto simp: conf_ok_def same_nodes_def)
  moreover have "\<exists>nd. node_h s n = Some nd \<and> nd_agent_bus nd = None \<and>
      nd_required_selinux nd = cfg_s_get_value ?cfg (CFG_SECT_NODE_PREFIX @ name) CFG_REQUIRED_SELINUX_CONTEXT \<and>
      nd_targets nd = section_targets ?cfg (CFG_SECT_NODE_PREFIX @ name)"
    if f: "controller_find_node s name = Some n" for name n
  proof -
    obtain nd where n: "n \<in> set (nodes s)" "node_h s n = Some nd" "nd_name nd = Some name"
      using controller_find_node_Some [OF f] by blast
    have "node_conf_ok ?cfg ?ss nd" using ok n by (auto simp: conf_ok_def)
    then show ?thesis
      using n section_listed [OF assms(1), of ?cfg "CFG_SECT_NODE_PREFIX @ name" CFG_REQUIRED_SELINUX_CONTEXT]
        section_listed [OF assms(1), of ?cfg "CFG_SECT_NODE_PREFIX @ name" CFG_ALLOW_DEPENDENCIES_ON]
      by (cases "cfg_s_get_value ?cfg (CFG_SECT_NODE_PREFIX @ name) CFG_REQUIRED_SELINUX_CONTEXT")
         (auto simp: node_conf_ok_def section_targets_def Let_def split: if_splits option.splits)
  qed
  ultimately show ?thesis using 2(2) by (auto simp: known_def conf_ok_def intro: reachable.init)
qed

definition example_settings :: ControllerSettings where
  "example_settings =
     \<lparr>use_uds = False, use_tcp = False, port = 0, peer_socket_options = socket_options_new,
      ctl_config = \<lparr>cfg_store = [((''c'', ''AllowedNodeNames''), Some ''a,,b''), ((''node x'', ''Allowed''), Some ''Yes''),
         ((''node a'', ''RequiredSelinuxContext''), Some ''t'')], default_section = ''c''\<rparr>\<rparr>"

theorem controller_apply_config_nodes_witness:
  "\<exists>st s. controller_apply_config example_cfg_env (example_settings, controller_new) = Some (True, st, s) \<and>
     controller_find_node s ''x'' \<noteq> None \<and> controller_find_node s ''b'' \<noteq> None \<and> controller_find_node s ''y'' = None"
proof -
  let ?r = "controller_apply_config example_cfg_env (example_settings, controller_new)"
  have "?r \<noteq> None" "fst (the ?r)" by code_simp+
  then obtain st s where r: "?r = Some (True, st, s)" by (cases ?r) (auto simp: prod_eq_iff)
  have "allowed_node (ctl_config example_settings) ''x''" "allowed_node (ctl_config example_settings) ''b''"
    "\<not> allowed_node (ctl_config example_settings) ''y''"
    by code_simp+
  then show ?thesis using controller_apply_config_nodes [OF example_cfg_env_ok(1) r] r by blast
qed

text \<open>Setting the log level of an agent.  With a working bus, a valid level is forwarded to the
  agent and answered once.  An invalid level is forwarded all the same, and the client's one
  call is answered twice, both times with success.\<close>

theorem set_log_level_replies:
  assumes "bus_ok e" "node_h s n = Some nd" "nd_agent_bus nd = Some b"
  shows "\<exists>t. node_method_set_log_level e n m lvl s = Some t \<and>
    out t = out s @ (if string_to_log_level (Some lvl) = LOG_LEVEL_INVALID then [Reply m ReplyOk] else []) @
      [AgentCall b ''SetLogLevel'' [lvl], Reply m ReplyOk]"
  using assms by (simp add: node_method_set_log_level_def put_def emit_def bus_ok_def)

theorem set_log_level_replies_witness:
  "\<exists>t. node_method_set_log_level ref_env 2 9 ''LOUD'' example_registered = Some t \<and>
    out t = out example_registered @ [Reply 9 ReplyOk, AgentCall 7 ''SetLogLevel'' [''LOUD''], Reply 9 ReplyOk]"
proof -
  have "node_h example_registered 2 \<noteq> None" "nd_agent_bus (the (node_h example_registered 2)) = Some 7"
    "string_to_log_level (Some ''LOUD'') = LOG_LEVEL_INVALID" by code_simp+
  then obtain nd where "node_h example_registered 2 = Some nd" "nd_agent_bus nd = Some 7"
    "string_to_log_level (Some ''LOUD'') = LOG_LEVEL_INVALID" by auto
  then show ?thesis using set_log_level_replies [OF ref_env_ok(1), of example_registered 2 nd 7 9 "''LOUD''"] by simp
qed

end
