(* ===== verification/Network.thy ===== *)
theory Network
  imports Socket
begin

text \<open>Addresses and connections: \<open>libbluechi/common/network.c\<close> and the functions of
  \<open>libbluechi/bus/bus.c\<close> that open a bus.  Name resolution, the conversions of the C library between
  addresses and their notation, and the results of sd-bus are given by the environment.\<close>

section \<open>Addresses\<close>

text \<open>\<open>resolve_addr\<close> returns a status other than 0, or the family and address of the first result.  A
  conversion to text or \<open>asprintf\<close> fails without memory.\<close>

record net_env =
  inet_pton4 :: "string \<Rightarrow> nat option"
  inet_ntop4 :: "nat \<Rightarrow> string"
  inet_pton6 :: "string \<Rightarrow> nat option"
  inet_ntop6 :: "nat \<Rightarrow> string"
  resolve_addr :: "string \<Rightarrow> int + int \<times> nat"
  ntop_mem :: bool
  asprintf_mem :: bool

definition is_ipv4 :: "net_env \<Rightarrow> cstring \<Rightarrow> bool" where
  "is_ipv4 N domain = (case domain of None \<Rightarrow> False | Some s \<Rightarrow> inet_pton4 N s \<noteq> None)"

definition is_ipv6 :: "net_env \<Rightarrow> cstring \<Rightarrow> bool" where
  "is_ipv6 N domain = (case domain of None \<Rightarrow> False | Some s \<Rightarrow> inet_pton6 N s \<noteq> None)"

definition typesafe_inet_ntop4 :: "net_env \<Rightarrow> nat \<Rightarrow> cstring" where
  "typesafe_inet_ntop4 N addr = (if ntop_mem N then Some (inet_ntop4 N addr) else None)"

definition typesafe_inet_ntop6 :: "net_env \<Rightarrow> nat \<Rightarrow> cstring" where
  "typesafe_inet_ntop6 N addr = (if ntop_mem N then Some (inet_ntop6 N addr) else None)"

text \<open>The result and the address written to \<open>ip_address\<close>; nothing is written for an address.\<close>

definition get_address :: "net_env \<Rightarrow> cstring \<Rightarrow> int \<times> cstring" where
  "get_address N domain =
     (case domain of
        None \<Rightarrow> (- EINVAL, None)
      | Some d \<Rightarrow>
          if is_ipv4 N domain \<or> is_ipv6 N domain then (0, None)
          else case resolve_addr N d of
            Inl status \<Rightarrow> (status, None)
          | Inr (family, addr) \<Rightarrow>
              if family = AF_INET then
                (case typesafe_inet_ntop4 N addr of None \<Rightarrow> (- ENOMEM, None) | Some s \<Rightarrow> (0, Some s))
              else if family = AF_INET6 then
                (case typesafe_inet_ntop6 N addr of None \<Rightarrow> (- ENOMEM, None) | Some s \<Rightarrow> (0, Some s))
              else (- EFAULT, None))"

text \<open>Socket addresses, with the port in host order; \<open>%s\<close> prints a null pointer as \<open>(null)\<close>.\<close>

record sockaddr_in =
  sin_addr :: nat
  sin_port :: "16 word"

definition print_tcp_address :: "net_env \<Rightarrow> cstring \<Rightarrow> 16 word \<Rightarrow> cstring" where
  "print_tcp_address N host port =
     (if asprintf_mem N
      then Some (''tcp:host='' @ (case host of None \<Rightarrow> ''(null)'' | Some h \<Rightarrow> h) @ '',port='' @ decimal (unat port))
      else None)"

definition assemble_tcp_address :: "net_env \<Rightarrow> sockaddr_in option \<Rightarrow> cstring" where
  "assemble_tcp_address N addr =
     (case addr of None \<Rightarrow> None
      | Some sa \<Rightarrow> print_tcp_address N (typesafe_inet_ntop4 N (sin_addr sa)) (sin_port sa))"

definition assemble_tcp_address_v6 :: "net_env \<Rightarrow> sockaddr_in option \<Rightarrow> cstring" where
  "assemble_tcp_address_v6 N addr =
     (case addr of None \<Rightarrow> None
      | Some sa \<Rightarrow> print_tcp_address N (typesafe_inet_ntop6 N (sin_addr sa)) (sin_port sa))"

definition get_hostname :: "string option \<Rightarrow> string" where
  "get_hostname gethostname = (case gethostname of None \<Rightarrow> [] | Some h \<Rightarrow> h)"

section \<open>Opening a bus\<close>

datatype bus_call =
    BusNew | BusSetTrusted | BusSetAddress string | BusStart | BusAttachEvent | BusDetachEvent
  | BusSetFd | BusSetServer | BusNegotiateCreds | BusSetAnonymous | BusSetSender | BusAddVtable
  | BusOpenSystem | BusOpenUser | BusDefaultSystem | BusGetFd

text \<open>The calls of an opener in order: the first that fails ends it.\<close>

fun first_failure :: "(bus_call \<Rightarrow> int) \<Rightarrow> bus_call list \<Rightarrow> int" where
  "first_failure ret [] = 0"
| "first_failure ret (c # cs) = (if ret c < 0 then ret c else first_failure ret cs)"

definition peer_bus_new :: "(bus_call \<Rightarrow> int) \<Rightarrow> bool \<Rightarrow> bool" where
  "peer_bus_new ret has_event = (has_event \<and> 0 \<le> first_failure ret [BusNew, BusSetTrusted])"

definition peer_bus_open :: "(bus_call \<Rightarrow> int) \<Rightarrow> bool \<Rightarrow> cstring \<Rightarrow> bool" where
  "peer_bus_open ret has_event dbus_server_addr =
     (case dbus_server_addr of None \<Rightarrow> False
      | Some addr \<Rightarrow> peer_bus_new ret has_event \<and> 0 \<le> first_failure ret [BusSetAddress addr, BusStart, BusAttachEvent])"

definition peer_bus_close :: "(bus_call \<Rightarrow> int) \<Rightarrow> bool \<Rightarrow> int" where
  "peer_bus_close ret open_bus = (if open_bus \<and> ret BusDetachEvent < 0 then ret BusDetachEvent else 0)"

definition peer_bus_open_server :: "(bus_call \<Rightarrow> int) \<Rightarrow> bool \<Rightarrow> bool" where
  "peer_bus_open_server ret has_event =
     (peer_bus_new ret has_event \<and>
      0 \<le> first_failure ret [BusSetFd, BusSetServer, BusNegotiateCreds, BusSetAnonymous, BusSetSender, BusStart,
                            BusAddVtable, BusAttachEvent])"

definition system_bus_open :: "(bus_call \<Rightarrow> int) \<Rightarrow> bool" where
  "system_bus_open ret = (0 \<le> first_failure ret [BusOpenSystem, BusAttachEvent])"

definition user_bus_open :: "(bus_call \<Rightarrow> int) \<Rightarrow> bool" where
  "user_bus_open ret = (0 \<le> first_failure ret [BusOpenUser, BusAttachEvent])"

definition systemd_bus_new :: "(bus_call \<Rightarrow> int) \<Rightarrow> int \<Rightarrow> (int + int \<times> int \<times> int) \<Rightarrow> int" where
  "systemd_bus_new ret euid peer =
     (if euid \<noteq> 0 then (if ret BusDefaultSystem < 0 then ret BusDefaultSystem else 1)
      else let r = first_failure ret [BusNew, BusSetAddress ''unix:path=/run/systemd/private'', BusStart, BusGetFd]
           in if r < 0 then r
              else let c = fd_check_peercred peer euid in if c < 0 then c else 1)"

definition systemd_bus_open :: "(bus_call \<Rightarrow> int) \<Rightarrow> int \<Rightarrow> (int + int \<times> int \<times> int) \<Rightarrow> bool" where
  "systemd_bus_open ret euid peer = (0 \<le> systemd_bus_new ret euid peer \<and> \<not> ret BusAttachEvent < 0)"

lemma first_failure_iff: "0 \<le> first_failure ret cs \<longleftrightarrow> (\<forall>c \<in> set cs. 0 \<le> ret c)"
  by (induction cs) auto

text \<open>The address and port of a peer; \<open>getpeername\<close> gives an errno or the family, address and port.\<close>

definition get_peer_ip_address ::
    "net_env \<Rightarrow> (bus_call \<Rightarrow> int) \<Rightarrow> socket_env \<Rightarrow> (int + int \<times> nat \<times> 16 word) \<Rightarrow> int \<times> cstring \<times> 16 word" where
  "get_peer_ip_address N ret S peer =
     (if ret BusGetFd < 0 then (ret BusGetFd, None, 0)
      else if \<not> fd_is_socket_tcp S then (- EINVAL, None, 0)
      else case peer of
        Inl errno \<Rightarrow> (- errno, None, 0)
      | Inr (family, addr, port) \<Rightarrow>
          if family = AF_INET then (0, typesafe_inet_ntop4 N addr, port)
          else if family = AF_INET6 then (0, typesafe_inet_ntop6 N addr, port)
          else (- EINVAL, None, 0))"

section \<open>The contract of the C library\<close>

text \<open>Notation and address determine each other, no text is an address of both families, and memory is
  available.\<close>

definition inet_ok :: "net_env \<Rightarrow> bool" where
  "inet_ok N = ((\<forall>a. inet_pton4 N (inet_ntop4 N a) = Some a) \<and> (\<forall>a. inet_pton6 N (inet_ntop6 N a) = Some a) \<and>
     (\<forall>s. inet_pton4 N s = None \<or> inet_pton6 N s = None) \<and> ntop_mem N \<and> asprintf_mem N)"

end
