(* ===== verification/Agent_Types.thy ===== *)
theory Agent_Types
  imports LogConf Network BusUtil Protocol TimeUtil
begin

text \<open>The state of the agent: the structs of \<open>agent/agent.h\<close>, \<open>agent/agent.c\<close> and
  \<open>agent/proxy.h\<close>, and what it gets from outside.\<close>

type_synonym aref = nat
type_synonym amsg = nat

section \<open>Messages the agent sends\<close>

text \<open>The answer of systemd to a call: an error, an object path, or another body.\<close>

datatype systemd_answer = SdError string | SdPath string | SdBody nat

text \<open>Replies of the agent; \<open>AForward\<close> copies an answer of systemd.\<close>

datatype areply = AOk | AForward systemd_answer | AError string string

datatype agent_out =
    SigJobDone nat "32 word" string
  | SigJobStateChanged nat "32 word" string
  | SigUnitNew nat string string
  | SigUnitRemoved nat string
  | SigUnitStateChanged nat string string string string
  | SigUnitPropertiesChanged nat string string "prop_item list"
  | SigHeartbeat nat
  | SigProxyNew nat string string string
  | SigProxyRemoved nat string string
  | SigJobMetrics nat string string "64 word"
  | PropStatus
  | PropControllerAddress
  | CallRegister nat cstring
  | CallSystemd aref string string string "string list"
  | AReply amsg areply

section \<open>Structs\<close>

datatype AgentConnectionState =
    AGENT_CONNECTION_STATE_DISCONNECTED
  | AGENT_CONNECTION_STATE_CONNECTED
  | AGENT_CONNECTION_STATE_RETRY
  | AGENT_CONNECTION_STATE_CONNECTING

record AgentUnitInfo =
  ui_unit :: string
  ui_subscribed :: bool
  ui_loaded :: bool
  ui_active_state :: UnitActiveState
  ui_substate :: cstring

record AgentJobOp =
  op_ref :: int
  op_job_id :: "32 word"
  op_start_micros :: "64 word"
  op_unit :: string
  op_method :: string

text \<open>The callbacks a request is started with; \<open>CbCopy\<close> stands for the functions that
  forward the reply of systemd to the caller.\<close>

datatype systemd_cb = CbCopy | CbUnitLifecycle | CbDep | CbCancel | CbStopProxy

record SystemdRequest =
  sr_ref :: int
  sr_request_message :: "amsg option"
  sr_path :: string
  sr_iface :: string
  sr_method :: string
  sr_args :: "string list"
  sr_userdata :: "aref option"
  sr_slot :: "systemd_cb option"

text \<open>A tracked job: the object path of the systemd job and the \<open>AgentJobOp\<close> of its callback
  \<open>agent_job_done\<close>.\<close>

record JobTracker =
  jt_path :: string
  jt_op :: aref

record ProxyService =
  px_ref :: int
  px_id :: "32 word"
  px_agent :: bool
  px_node_name :: string
  px_unit_name :: string
  px_local_service_name :: string
  px_request_message :: "amsg option"
  px_sent_new_proxy :: bool
  px_dont_stop_proxy :: bool
  px_sent_successful_ready :: bool
  px_export_slot :: "nat option"
  px_object_path :: string

record Agent =
  ag_ref :: int
  ag_name :: cstring
  ag_host :: cstring
  ag_port :: int
  ag_systemd_user :: bool
  ag_controller_address :: cstring
  ag_assembled_address :: cstring
  ag_heartbeat_interval_msec :: int
  ag_controller_heartbeat_threshold_msec :: int
  ag_state :: AgentConnectionState
  ag_retry_count :: "64 word"
  ag_last_seen :: "64 word"
  ag_last_seen_monotonic :: "64 word"
  ag_disconnect_timestamp :: "64 word"
  ag_disconnect_timestamp_monotonic :: "64 word"
  ag_retry_count_until_quiet :: "64 word"
  ag_socket_options :: SocketOptions
  ag_peer_dbus :: "nat option"
  ag_register_slot :: bool
  ag_metrics_enabled :: bool
  ag_metrics_slot :: bool
  ag_requests :: "aref list"
  ag_tracked_jobs :: "JobTracker list"
  ag_proxies :: "aref list"
  ag_unit_infos :: "(string, AgentUnitInfo) hmap"
  ag_wildcard :: bool
  ag_config :: config
  ag_log :: BcLogConfig
  ag_req_h :: "aref \<Rightarrow> SystemdRequest option"
  ag_op_h :: "aref \<Rightarrow> AgentJobOp option"
  ag_px_h :: "aref \<Rightarrow> ProxyService option"
  ag_next :: aref
  ag_next_bus :: nat
  ag_next_proxy_id :: "32 word"
  ag_out :: "agent_out list"

definition agent_new :: Agent where
  "agent_new =
     \<lparr>ag_ref = 1, ag_name = None, ag_host = None, ag_port = 0, ag_systemd_user = False, ag_controller_address = None,
      ag_assembled_address = None, ag_heartbeat_interval_msec = 0, ag_controller_heartbeat_threshold_msec = 0,
      ag_state = AGENT_CONNECTION_STATE_DISCONNECTED, ag_retry_count = 0, ag_last_seen = 0,
      ag_last_seen_monotonic = 0, ag_disconnect_timestamp = 0, ag_disconnect_timestamp_monotonic = 0,
      ag_retry_count_until_quiet = 0, ag_socket_options = socket_options_new, ag_peer_dbus = None,
      ag_register_slot = False, ag_metrics_enabled = False, ag_metrics_slot = False, ag_requests = [],
      ag_tracked_jobs = [], ag_proxies = [], ag_unit_infos = [], ag_wildcard = False,
      ag_config = cfg_initialize, ag_log = \<lparr>log_fn = None, level = 0, is_quiet = False\<rparr>,
      ag_req_h = \<lambda>_. None, ag_op_h = \<lambda>_. None, ag_px_h = \<lambda>_. None, ag_next = 1, ag_next_bus = 1,
      ag_next_proxy_id = 0, ag_out = []\<rparr>"

section \<open>The environment\<close>

datatype agent_call =
    AEmit string
  | AEmitProps string
  | ANewCall string
  | AAppend
  | ACallAsync string
  | ANewReturn
  | ACopy
  | ARead
  | ASend
  | AMatch string
  | AAddVtable string
  | ARequestName
  | ACall string
  | AShutdownSignals
  | AEventLoop
  | ABus bus_call

record aenv =
  a_ret :: "agent_call \<Rightarrow> int"
  a_time :: "64 word"
  a_time_monotonic :: "64 word"
  a_net :: net_env
  a_euid :: int
  a_user_api_bus :: bool
  a_peercred :: "int + int \<times> int \<times> int"

definition abus_ok :: "aenv \<Rightarrow> bool" where
  "abus_ok e = (\<forall>c. 0 \<le> a_ret e c)"

lemma abus_okD [simp]: "abus_ok e \<Longrightarrow> \<not> a_ret e c < 0"
  by (simp add: abus_ok_def not_less)

definition aput :: "agent_out \<Rightarrow> Agent \<Rightarrow> Agent" where
  "aput m a = a\<lparr>ag_out := ag_out a @ [m]\<rparr>"

text \<open>A signal on the peer bus: it fails without a connection; the result of the call and
  the new state.\<close>

definition emit_peer :: "aenv \<Rightarrow> string \<Rightarrow> (nat \<Rightarrow> agent_out) \<Rightarrow> Agent \<Rightarrow> int \<times> Agent" where
  "emit_peer e name m a =
     (case ag_peer_dbus a of None \<Rightarrow> (- EINVAL, a)
      | Some b \<Rightarrow> (a_ret e (AEmit name), if a_ret e (AEmit name) < 0 then a else aput (m b) a))"

text \<open>A property change on the API bus.\<close>

definition emit_property :: "aenv \<Rightarrow> string \<Rightarrow> agent_out \<Rightarrow> Agent \<Rightarrow> Agent" where
  "emit_property e name m a = (if a_ret e (AEmitProps name) < 0 then a else aput m a)"

definition set_areq :: "aref \<Rightarrow> SystemdRequest \<Rightarrow> Agent \<Rightarrow> Agent" where
  "set_areq r q a = a\<lparr>ag_req_h := (ag_req_h a)(r \<mapsto> q)\<rparr>"

definition set_aop :: "aref \<Rightarrow> AgentJobOp \<Rightarrow> Agent \<Rightarrow> Agent" where
  "set_aop r q a = a\<lparr>ag_op_h := (ag_op_h a)(r \<mapsto> q)\<rparr>"

definition set_apx :: "aref \<Rightarrow> ProxyService \<Rightarrow> Agent \<Rightarrow> Agent" where
  "set_apx r q a = a\<lparr>ag_px_h := (ag_px_h a)(r \<mapsto> q)\<rparr>"

definition agent_is_connected :: "Agent \<Rightarrow> bool" where
  "agent_is_connected a = (ag_state a = AGENT_CONNECTION_STATE_CONNECTED)"

definition agent_is_online :: "Agent \<Rightarrow> string" where
  "agent_is_online a = (if agent_is_connected a then ''online'' else ''offline'')"

lemmas agent_state_simps = aput_def emit_peer_def emit_property_def set_areq_def set_aop_def set_apx_def

end
