(* ===== verification/Agent_Units.thy ===== *)
theory Agent_Units
  imports Agent_Types
begin

text \<open>The units an agent knows (\<open>agent/agent.c\<close>): the table of unit infos, the signals of
  systemd that update it, and the subscriptions of the controller.\<close>

definition SYSTEMD_OBJECT_PATH :: string where "SYSTEMD_OBJECT_PATH = ''/org/freedesktop/systemd1''"
definition SYSTEMD_UNIT_IFACE :: string where "SYSTEMD_UNIT_IFACE = ''org.freedesktop.systemd1.Unit''"
definition BUS_ERROR_FAILED :: string where "BUS_ERROR_FAILED = ''org.freedesktop.DBus.Error.Failed''"

definition areply :: "aenv \<Rightarrow> amsg \<Rightarrow> areply \<Rightarrow> Agent \<Rightarrow> Agent" where
  "areply e m r a = (if a_ret e ASend < 0 then a else aput (AReply m r) a)"

definition make_unit_path :: "string \<Rightarrow> string" where
  "make_unit_path unit = strcat_dup (SYSTEMD_OBJECT_PATH @ ''/unit/'') (bus_path_escape unit)"

section \<open>Unit infos\<close>

definition unit_info_get_substate :: "AgentUnitInfo \<Rightarrow> string" where
  "unit_info_get_substate info = (case ui_substate info of Some s \<Rightarrow> s | None \<Rightarrow> ''invalid'')"

text \<open>Reading a value that is not a string fails with \<open>-ENXIO\<close>.\<close>

definition ENXIO :: int where "ENXIO = 6"

definition unit_info_update_state_cb ::
    "string \<Rightarrow> variant \<Rightarrow> UnitActiveState \<times> string \<Rightarrow> int \<times> UnitActiveState \<times> string" where
  "unit_info_update_state_cb key v d =
     (if key \<noteq> ''ActiveState'' \<and> key \<noteq> ''SubState'' \<and> value_type v \<noteq> ''s'' then (2, d)
      else case v of
        VString value \<Rightarrow>
          (0, if key = ''ActiveState'' then (active_state_from_string value, snd d)
              else if key = ''SubState'' then (fst d, value) else d)
      | _ \<Rightarrow> (- ENXIO, d))"

definition unit_info_update_state :: "prop_item list \<Rightarrow> AgentUnitInfo \<Rightarrow> bool \<times> AgentUnitInfo" where
  "unit_info_update_state items info =
     (let (r, active, sub) = bus_parse_properties_foreach items unit_info_update_state_cb
            (ui_active_state info, unit_info_get_substate info)
      in if r < 0 then (False, info)
         else let info1 = (if active \<noteq> ui_active_state info then info\<lparr>ui_active_state := active\<rparr> else info);
                  info2 = (if sub \<noteq> unit_info_get_substate info1 then info1\<lparr>ui_substate := Some sub\<rparr> else info1)
              in (active \<noteq> ui_active_state info \<or> sub \<noteq> unit_info_get_substate info1, info2))"

definition agent_get_unit_info :: "Agent \<Rightarrow> string \<Rightarrow> AgentUnitInfo option" where
  "agent_get_unit_info a path = map_of (ag_unit_infos a) path"

definition set_unit_info :: "string \<Rightarrow> AgentUnitInfo \<Rightarrow> Agent \<Rightarrow> Agent" where
  "set_unit_info path info a = a\<lparr>ag_unit_infos := AList.update path info (ag_unit_infos a)\<rparr>"

definition agent_update_unit_infos_for :: "string \<Rightarrow> AgentUnitInfo \<Rightarrow> Agent \<Rightarrow> Agent" where
  "agent_update_unit_infos_for path info a =
     (if \<not> ui_subscribed info \<and> \<not> ui_loaded info
      then a\<lparr>ag_unit_infos := AList.delete path (ag_unit_infos a)\<rparr> else a)"

definition agent_ensure_unit_info :: "string \<Rightarrow> Agent \<Rightarrow> AgentUnitInfo \<times> Agent" where
  "agent_ensure_unit_info unit a =
     (case agent_get_unit_info a (make_unit_path unit) of
        Some info \<Rightarrow> (info, a)
      | None \<Rightarrow>
          let info = \<lparr>ui_unit = unit, ui_subscribed = False, ui_loaded = False, ui_active_state = - 1, ui_substate = None\<rparr>
          in (info, set_unit_info (make_unit_path unit) info a))"

section \<open>Signals to the controller\<close>

definition agent_emit_unit_new :: "aenv \<Rightarrow> AgentUnitInfo \<Rightarrow> string \<Rightarrow> Agent \<Rightarrow> Agent" where
  "agent_emit_unit_new e info reason a =
     snd (emit_peer e ''UnitNew'' (\<lambda>b. SigUnitNew b (ui_unit info) reason) a)"

definition agent_emit_unit_removed :: "aenv \<Rightarrow> AgentUnitInfo \<Rightarrow> Agent \<Rightarrow> Agent" where
  "agent_emit_unit_removed e info a =
     snd (emit_peer e ''UnitRemoved'' (\<lambda>b. SigUnitRemoved b (ui_unit info)) a)"

definition agent_emit_unit_state_changed :: "aenv \<Rightarrow> AgentUnitInfo \<Rightarrow> string \<Rightarrow> Agent \<Rightarrow> Agent" where
  "agent_emit_unit_state_changed e info reason a =
     snd (emit_peer e ''UnitStateChanged''
       (\<lambda>b. SigUnitStateChanged b (ui_unit info) (active_state_to_string (ui_active_state info))
              (unit_info_get_substate info) reason) a)"

section \<open>Subscriptions\<close>

definition agent_method_subscribe :: "aenv \<Rightarrow> amsg \<Rightarrow> string \<Rightarrow> Agent \<Rightarrow> Agent" where
  "agent_method_subscribe e m unit a =
     (if is_wildcard unit then
        (if ag_wildcard a then areply e m (AError BUS_ERROR_FAILED ''Already wildcard subscribed'') a
         else areply e m AOk
           (agent_emit_unit_new e
              \<lparr>ui_unit = unit, ui_subscribed = True, ui_loaded = True,
               ui_active_state = UNIT_ACTIVE_STATE_INVALID, ui_substate = None\<rparr> ''virtual''
              (a\<lparr>ag_wildcard := True\<rparr>)))
      else
        let (info, a1) = agent_ensure_unit_info unit a
        in if ui_subscribed info then areply e m (AError BUS_ERROR_FAILED ''Already subscribed'') a1
           else let info1 = info\<lparr>ui_subscribed := True\<rparr>;
                    a2 = set_unit_info (make_unit_path unit) info1 a1;
                    a3 = (if ui_loaded info1 then
                            let a3 = agent_emit_unit_new e info1 ''virtual'' a2
                            in if ui_active_state info1 \<noteq> UNIT_ACTIVE_STATE_INVALID
                               then agent_emit_unit_state_changed e info1 ''virtual'' a3 else a3
                          else a2)
                in areply e m AOk a3)"

definition agent_method_unsubscribe :: "aenv \<Rightarrow> amsg \<Rightarrow> string \<Rightarrow> Agent \<Rightarrow> Agent" where
  "agent_method_unsubscribe e m unit a =
     (if is_wildcard unit then
        (if \<not> ag_wildcard a then areply e m (AError BUS_ERROR_FAILED ''No wildcard subscription active'') a
         else areply e m AOk (a\<lparr>ag_wildcard := False\<rparr>))
      else
        case agent_get_unit_info a (make_unit_path unit) of
          None \<Rightarrow> areply e m (AError BUS_ERROR_FAILED ''Not subscribed'') a
        | Some info \<Rightarrow>
            if \<not> ui_subscribed info then areply e m (AError BUS_ERROR_FAILED ''Not subscribed'') a
            else let info1 = info\<lparr>ui_subscribed := False\<rparr>
                 in areply e m AOk
                      (agent_update_unit_infos_for (make_unit_path unit) info1
                         (set_unit_info (make_unit_path unit) info1 a)))"

section \<open>Signals of systemd\<close>

definition agent_match_unit_changed :: "aenv \<Rightarrow> string \<Rightarrow> string \<Rightarrow> prop_item list \<Rightarrow> Agent \<Rightarrow> Agent" where
  "agent_match_unit_changed e path interface items a =
     (case agent_get_unit_info a path of
        None \<Rightarrow> a
      | Some info \<Rightarrow>
          let (state_changed, info1) =
                (if interface = SYSTEMD_UNIT_IFACE then unit_info_update_state items info else (False, info));
              a1 = set_unit_info path info1 a;
              a2 = (if state_changed \<and> (ui_subscribed info1 \<or> ag_wildcard a)
                    then agent_emit_unit_state_changed e info1 ''real'' a1 else a1)
          in if \<not> ui_subscribed info1 \<and> \<not> ag_wildcard a then a2
             else if a_ret e (ANewCall ''UnitPropertiesChanged'') < 0 \<or> a_ret e AAppend < 0 \<or> a_ret e ACopy < 0 then a2
             else snd (emit_peer e ''UnitPropertiesChanged'' (\<lambda>b. SigUnitPropertiesChanged b (ui_unit info1) interface items) a2))"

definition agent_match_unit_new :: "aenv \<Rightarrow> string \<Rightarrow> Agent \<Rightarrow> Agent" where
  "agent_match_unit_new e unit_name a =
     (let (info, a1) = agent_ensure_unit_info unit_name a;
          info1 = info\<lparr>ui_loaded := True, ui_active_state := UNIT_INACTIVE, ui_substate := Some ''dead''\<rparr>;
          a2 = set_unit_info (make_unit_path unit_name) info1 a1
      in if ui_subscribed info1 \<or> ag_wildcard a then agent_emit_unit_new e info1 ''real'' a2 else a2)"

definition agent_match_unit_removed :: "aenv \<Rightarrow> string \<Rightarrow> Agent \<Rightarrow> Agent" where
  "agent_match_unit_removed e path a =
     (case agent_get_unit_info a path of
        None \<Rightarrow> a
      | Some info \<Rightarrow>
          let info1 = info\<lparr>ui_loaded := False, ui_active_state := UNIT_ACTIVE_STATE_INVALID, ui_substate := None\<rparr>;
              a1 = set_unit_info path info1 a;
              a2 = (if ui_subscribed info1 \<or> ag_wildcard a then agent_emit_unit_removed e info1 a1 else a1)
          in agent_update_unit_infos_for path info1 a2)"

text \<open>The reply of \<open>ListUnits\<close>: name, active state, sub state and object path of each unit.
  A unit whose path is not the one computed from its name fails an assertion.\<close>

definition init_unit :: "string \<times> string \<times> string \<times> string \<Rightarrow> Agent \<Rightarrow> Agent option" where
  "init_unit u a =
     (let (name, active_state, sub_state, object_path) = u;
          (info, a1) = agent_ensure_unit_info name a
      in if make_unit_path name \<noteq> object_path then None
         else Some (set_unit_info (make_unit_path name)
                (info\<lparr>ui_loaded := True, ui_active_state := active_state_from_string active_state,
                      ui_substate := Some sub_state\<rparr>) a1))"

definition agent_init_units :: "(string \<times> string \<times> string \<times> string) list \<Rightarrow> Agent \<Rightarrow> Agent option" where
  "agent_init_units us a = foldo init_unit us a"

section \<open>The table as two sets\<close>

definition subscribed_units :: "Agent \<Rightarrow> string set" where
  "subscribed_units a = {u. \<exists>info. agent_get_unit_info a (make_unit_path u) = Some info \<and> ui_subscribed info}"

definition loaded_units :: "Agent \<Rightarrow> string set" where
  "loaded_units a = {u. \<exists>info. agent_get_unit_info a (make_unit_path u) = Some info \<and> ui_loaded info}"

text \<open>Every entry is under the path of its unit and of interest.\<close>

definition units_ok :: "Agent \<Rightarrow> bool" where
  "units_ok a = (\<forall>path info. agent_get_unit_info a path = Some info \<longrightarrow>
     path = make_unit_path (ui_unit info) \<and> (ui_subscribed info \<or> ui_loaded info))"

lemma make_unit_path_eq [simp]: "make_unit_path u = make_unit_path v \<longleftrightarrow> u = v"
  by (auto simp: make_unit_path_def strcat_dup_def bus_path_escape_inj)

lemma get_set_unit_info [simp]:
  "agent_get_unit_info (set_unit_info p i a) q = (if q = p then Some i else agent_get_unit_info a q)"
  by (simp add: agent_get_unit_info_def set_unit_info_def)

lemma get_delete_unit_info [simp]:
  "agent_get_unit_info (agent_update_unit_infos_for p i a) q =
     (if \<not> ui_subscribed i \<and> \<not> ui_loaded i \<and> q = p then None else agent_get_unit_info a q)"
  by (auto simp: agent_get_unit_info_def agent_update_unit_infos_for_def)

text \<open>What emitting and replying leave alone.\<close>

lemma agent_out_frame [simp]:
  "ag_unit_infos (aput m a) = ag_unit_infos a" "ag_wildcard (aput m a) = ag_wildcard a"
  "ag_peer_dbus (aput m a) = ag_peer_dbus a"
  "ag_unit_infos (areply e q r a) = ag_unit_infos a" "ag_wildcard (areply e q r a) = ag_wildcard a"
  "ag_peer_dbus (areply e q r a) = ag_peer_dbus a"
  "ag_unit_infos (snd (emit_peer e n s a)) = ag_unit_infos a" "ag_wildcard (snd (emit_peer e n s a)) = ag_wildcard a"
  "ag_peer_dbus (snd (emit_peer e n s a)) = ag_peer_dbus a"
  by (simp_all add: aput_def areply_def emit_peer_def split: option.split)

lemmas agent_emit_defs = agent_emit_unit_new_def agent_emit_unit_removed_def agent_emit_unit_state_changed_def

lemma agent_emit_frame [simp]:
  "ag_unit_infos (agent_emit_unit_new e i r a) = ag_unit_infos a" "ag_wildcard (agent_emit_unit_new e i r a) = ag_wildcard a"
  "ag_unit_infos (agent_emit_unit_removed e i a) = ag_unit_infos a" "ag_wildcard (agent_emit_unit_removed e i a) = ag_wildcard a"
  "ag_unit_infos (agent_emit_unit_state_changed e i r a) = ag_unit_infos a"
  "ag_wildcard (agent_emit_unit_state_changed e i r a) = ag_wildcard a"
  by (simp_all add: agent_emit_defs)

lemma get_unit_info_cong: "ag_unit_infos a = ag_unit_infos b \<Longrightarrow> agent_get_unit_info a = agent_get_unit_info b"
  by (simp add: agent_get_unit_info_def fun_eq_iff)

lemma set_unit_info_frame [simp]:
  "ag_wildcard (set_unit_info p i a) = ag_wildcard a" "ag_peer_dbus (set_unit_info p i a) = ag_peer_dbus a"
  "ag_out (set_unit_info p i a) = ag_out a"
  "ag_wildcard (agent_update_unit_infos_for p i a) = ag_wildcard a"
  "ag_peer_dbus (agent_update_unit_infos_for p i a) = ag_peer_dbus a"
  "ag_out (agent_update_unit_infos_for p i a) = ag_out a"
  by (simp_all add: set_unit_info_def agent_update_unit_infos_for_def)

lemma get_unit_info_frame [simp]:
  "agent_get_unit_info (areply e q r a) = agent_get_unit_info a"
  "agent_get_unit_info (snd (emit_peer e n s a)) = agent_get_unit_info a"
  "agent_get_unit_info (agent_emit_unit_new e i r' a) = agent_get_unit_info a"
  "agent_get_unit_info (agent_emit_unit_removed e i a) = agent_get_unit_info a"
  "agent_get_unit_info (agent_emit_unit_state_changed e i r' a) = agent_get_unit_info a"
  "agent_get_unit_info (a\<lparr>ag_wildcard := w\<rparr>) = agent_get_unit_info a"
  by (rule get_unit_info_cong, simp)+

lemma ensure_unit_info:
  assumes "agent_ensure_unit_info u a = (info, a1)"
  shows "agent_get_unit_info a1 = (agent_get_unit_info a)(make_unit_path u \<mapsto> info)" "ag_wildcard a1 = ag_wildcard a"
    "ag_peer_dbus a1 = ag_peer_dbus a" "ag_out a1 = ag_out a"
    "agent_get_unit_info a (make_unit_path u) = Some info \<or>
     agent_get_unit_info a (make_unit_path u) = None \<and> ui_unit info = u \<and> \<not> ui_subscribed info \<and> \<not> ui_loaded info"
  using assms by (auto simp: agent_ensure_unit_info_def Let_def fun_eq_iff split: option.splits)

end
