(* ===== verification/Agent_Requests.thy ===== *)
theory Agent_Requests
  imports Agent_Units "HOL-Library.Monad_Syntax"
begin

text \<open>Requests of the agent to systemd and the jobs it follows (\<open>agent/agent.c\<close>).  An
  operation that uses a freed object or fails an assertion aborts (\<open>None\<close>).\<close>

definition SYSTEMD_MANAGER_IFACE :: string where "SYSTEMD_MANAGER_IFACE = ''org.freedesktop.systemd1.Manager''"
definition SYSTEMD_JOB_IFACE :: string where "SYSTEMD_JOB_IFACE = ''org.freedesktop.systemd1.Job''"
definition PROPERTIES_IFACE :: string where "PROPERTIES_IFACE = ''org.freedesktop.DBus.Properties''"
definition BUS_ERROR_INVALID_ARGS :: string where "BUS_ERROR_INVALID_ARGS = ''org.freedesktop.DBus.Error.InvalidArgs''"

section \<open>Reference counts\<close>

definition agent_ref :: "Agent \<Rightarrow> Agent option" where
  "agent_ref a = (if 0 < ag_ref a then Some (a\<lparr>ag_ref := ag_ref a + 1\<rparr>) else None)"

definition agent_unref :: "Agent \<Rightarrow> Agent option" where
  "agent_unref a =
     (if \<not> 0 < ag_ref a then None
      else if ag_ref a - 1 \<noteq> 0 then Some (a\<lparr>ag_ref := ag_ref a - 1\<rparr>)
      else if ag_proxies a \<noteq> [] then None
      else Some (a\<lparr>ag_ref := 0, ag_unit_infos := [], ag_register_slot := False, ag_metrics_slot := False, ag_peer_dbus := None\<rparr>))"

definition agent_job_op_ref :: "aref \<Rightarrow> Agent \<Rightarrow> Agent option" where
  "agent_job_op_ref r a = do { op \<leftarrow> ag_op_h a r; Some (set_aop r (op\<lparr>op_ref := op_ref op + 1\<rparr>) a) }"

definition agent_job_op_unref :: "aref \<Rightarrow> Agent \<Rightarrow> Agent option" where
  "agent_job_op_unref r a =
     do { op \<leftarrow> ag_op_h a r;
          if op_ref op - 1 \<noteq> 0 then Some (set_aop r (op\<lparr>op_ref := op_ref op - 1\<rparr>) a)
          else map_option (\<lambda>a1. a1\<lparr>ag_op_h := (ag_op_h a1)(r := None)\<rparr>) (agent_unref a) }"

definition agent_job_new :: "32 word \<Rightarrow> string \<Rightarrow> string \<Rightarrow> Agent \<Rightarrow> (aref \<times> Agent) option" where
  "agent_job_new job_id unit meth a =
     do { a1 \<leftarrow> agent_ref a;
          let r = ag_next a1;
          Some (r, (set_aop r \<lparr>op_ref = 1, op_job_id = job_id, op_start_micros = 0, op_unit = unit, op_method = meth\<rparr> a1)
                     \<lparr>ag_next := r + 1\<rparr>) }"

section \<open>Requests\<close>

definition systemd_request_ref :: "aref \<Rightarrow> Agent \<Rightarrow> Agent option" where
  "systemd_request_ref r a = do { q \<leftarrow> ag_req_h a r; Some (set_areq r (q\<lparr>sr_ref := sr_ref q + 1\<rparr>) a) }"

definition systemd_request_unref :: "aref \<Rightarrow> Agent \<Rightarrow> Agent option" where
  "systemd_request_unref r a =
     do { q \<leftarrow> ag_req_h a r;
          if sr_ref q - 1 \<noteq> 0 then Some (set_areq r (q\<lparr>sr_ref := sr_ref q - 1\<rparr>) a)
          else do {
            a1 \<leftarrow> (case sr_userdata q of None \<Rightarrow> Some a | Some op \<Rightarrow> agent_job_op_unref op a);
            rs \<leftarrow> list_remove r (ag_requests a1);
            a2 \<leftarrow> agent_unref (a1\<lparr>ag_requests := rs\<rparr>);
            Some (a2\<lparr>ag_req_h := (ag_req_h a2)(r := None)\<rparr>) } }"

definition agent_create_request_full ::
    "aenv \<Rightarrow> amsg option \<Rightarrow> string \<Rightarrow> string \<Rightarrow> string \<Rightarrow> Agent \<Rightarrow> (aref option \<times> Agent) option" where
  "agent_create_request_full e m object_path iface meth a =
     do { a1 \<leftarrow> agent_ref a;
          let r = ag_next a1;
          let a2 = (set_areq r \<lparr>sr_ref = 1, sr_request_message = m, sr_path = object_path, sr_iface = iface,
                       sr_method = meth, sr_args = [], sr_userdata = None, sr_slot = None\<rparr> a1)
                     \<lparr>ag_next := r + 1, ag_requests := ag_requests a1 @ [r]\<rparr>;
          if a_ret e (ANewCall meth) < 0 then map_option (\<lambda>a3. (None, a3)) (systemd_request_unref r a2)
          else Some (Some r, a2) }"

definition agent_create_request :: "aenv \<Rightarrow> amsg option \<Rightarrow> string \<Rightarrow> Agent \<Rightarrow> (aref option \<times> Agent) option" where
  "agent_create_request e m meth a = agent_create_request_full e m SYSTEMD_OBJECT_PATH SYSTEMD_MANAGER_IFACE meth a"

definition systemd_request_set_userdata :: "aref \<Rightarrow> aref \<Rightarrow> Agent \<Rightarrow> Agent option" where
  "systemd_request_set_userdata r op a = do { q \<leftarrow> ag_req_h a r; Some (set_areq r (q\<lparr>sr_userdata := Some op\<rparr>) a) }"

definition systemd_request_start :: "aenv \<Rightarrow> aref \<Rightarrow> systemd_cb \<Rightarrow> Agent \<Rightarrow> (bool \<times> Agent) option" where
  "systemd_request_start e r cb a =
     do { q \<leftarrow> ag_req_h a r;
          a1 \<leftarrow> (case sr_userdata q of None \<Rightarrow> Some a
                 | Some p \<Rightarrow> do { op \<leftarrow> ag_op_h a p; Some (set_aop p (op\<lparr>op_start_micros := a_time e\<rparr>) a) });
          if a_ret e (ACallAsync (sr_method q)) < 0 then Some (False, a1)
          else Some (True, aput (CallSystemd r (sr_path q) (sr_iface q) (sr_method q) (sr_args q))
                 (set_areq r (q\<lparr>sr_slot := Some cb, sr_ref := sr_ref q + 1\<rparr>) a1)) }"

text \<open>The shape of the methods that ask systemd: create the request, fill it (the calls in
  \<open>fill\<close> may fail), start it, and drop the reference of the method.  Errors go to the caller.\<close>

definition submit_systemd ::
    "aenv \<Rightarrow> amsg \<Rightarrow> string \<Rightarrow> string \<Rightarrow> string \<Rightarrow> string list \<Rightarrow> agent_call list \<Rightarrow> systemd_cb \<Rightarrow> Agent \<Rightarrow> Agent option" where
  "submit_systemd e m object_path iface meth args fill cb a =
     do { (ro, a1) \<leftarrow> agent_create_request_full e (Some m) object_path iface meth a;
          case ro of
            None \<Rightarrow> Some (areply e m (AError BUS_ERROR_FAILED ''Failed to create a systemd request'') a1)
          | Some r \<Rightarrow>
              do { q \<leftarrow> ag_req_h a1 r;
                   a2 \<leftarrow> (if \<exists>c \<in> set fill. a_ret e c < 0
                          then Some (areply e m (AError BUS_ERROR_FAILED ''Failed to append to the message'') a1)
                          else do { (ok, a3) \<leftarrow> systemd_request_start e r cb (set_areq r (q\<lparr>sr_args := args\<rparr>) a1);
                                    Some (if ok then a3
                                          else areply e m (AError BUS_ERROR_FAILED ''Failed to start systemd request'') a3) });
                   systemd_request_unref r a2 } }"

definition agent_method_passthrough_to_systemd :: "aenv \<Rightarrow> amsg \<Rightarrow> string \<Rightarrow> string list \<Rightarrow> Agent \<Rightarrow> Agent option" where
  "agent_method_passthrough_to_systemd e m member args a =
     submit_systemd e m SYSTEMD_OBJECT_PATH SYSTEMD_MANAGER_IFACE member args [ACopy] CbCopy a"

definition agent_method_list_units :: "aenv \<Rightarrow> amsg \<Rightarrow> Agent \<Rightarrow> Agent option" where
  "agent_method_list_units e m a =
     submit_systemd e m SYSTEMD_OBJECT_PATH SYSTEMD_MANAGER_IFACE ''ListUnits'' [] [] CbCopy a"

definition agent_method_list_unit_files :: "aenv \<Rightarrow> amsg \<Rightarrow> Agent \<Rightarrow> Agent option" where
  "agent_method_list_unit_files e m a =
     submit_systemd e m SYSTEMD_OBJECT_PATH SYSTEMD_MANAGER_IFACE ''ListUnitFiles'' [] [] CbCopy a"

definition unit_object_path :: "string \<Rightarrow> string" where
  "unit_object_path unit = assemble_object_path_string (SYSTEMD_OBJECT_PATH @ ''/unit'') unit"

definition agent_method_get_unit_properties :: "aenv \<Rightarrow> amsg \<Rightarrow> string \<Rightarrow> string \<Rightarrow> Agent \<Rightarrow> Agent option" where
  "agent_method_get_unit_properties e m unit interface a =
     submit_systemd e m (unit_object_path unit) PROPERTIES_IFACE ''GetAll'' [interface] [AAppend] CbCopy a"

definition agent_method_get_unit_property :: "aenv \<Rightarrow> amsg \<Rightarrow> string \<Rightarrow> string \<Rightarrow> string \<Rightarrow> Agent \<Rightarrow> Agent option" where
  "agent_method_get_unit_property e m unit interface property a =
     submit_systemd e m (unit_object_path unit) PROPERTIES_IFACE ''Get'' [interface, property] [AAppend] CbCopy a"

definition agent_method_set_unit_properties :: "aenv \<Rightarrow> amsg \<Rightarrow> string \<Rightarrow> string list \<Rightarrow> Agent \<Rightarrow> Agent option" where
  "agent_method_set_unit_properties e m unit args a =
     submit_systemd e m (unit_object_path unit) SYSTEMD_UNIT_IFACE ''SetProperties'' args [AAppend, ACopy] CbCopy a"

definition agent_method_freeze_unit :: "aenv \<Rightarrow> amsg \<Rightarrow> string \<Rightarrow> Agent \<Rightarrow> Agent option" where
  "agent_method_freeze_unit e m unit a =
     submit_systemd e m (unit_object_path unit) SYSTEMD_UNIT_IFACE ''Freeze'' [] [] CbCopy a"

definition agent_method_thaw_unit :: "aenv \<Rightarrow> amsg \<Rightarrow> string \<Rightarrow> Agent \<Rightarrow> Agent option" where
  "agent_method_thaw_unit e m unit a =
     submit_systemd e m (unit_object_path unit) SYSTEMD_UNIT_IFACE ''Thaw'' [] [] CbCopy a"

definition get_dep_unit :: "string \<Rightarrow> string" where
  "get_dep_unit unit_name = strcat_dup ''bluechi-dep@'' unit_name"

definition agent_method_start_dep :: "aenv \<Rightarrow> amsg \<Rightarrow> string \<Rightarrow> Agent \<Rightarrow> Agent option" where
  "agent_method_start_dep e m unit a =
     submit_systemd e m SYSTEMD_OBJECT_PATH SYSTEMD_MANAGER_IFACE ''StartUnit'' [get_dep_unit unit, ''replace''] [AAppend] CbDep a"

definition agent_method_stop_dep :: "aenv \<Rightarrow> amsg \<Rightarrow> string \<Rightarrow> Agent \<Rightarrow> Agent option" where
  "agent_method_stop_dep e m unit a =
     submit_systemd e m SYSTEMD_OBJECT_PATH SYSTEMD_MANAGER_IFACE ''StopUnit'' [get_dep_unit unit, ''replace''] [AAppend] CbDep a"

section \<open>Jobs\<close>

definition agent_run_unit_lifecycle_method ::
    "aenv \<Rightarrow> amsg \<Rightarrow> string \<Rightarrow> string \<Rightarrow> string \<Rightarrow> 32 word \<Rightarrow> Agent \<Rightarrow> Agent option" where
  "agent_run_unit_lifecycle_method e m meth name mode job_id a =
     do { (ro, a1) \<leftarrow> agent_create_request e (Some m) meth a;
          case ro of
            None \<Rightarrow> Some (areply e m (AError BUS_ERROR_FAILED ''Failed to create a systemd request'') a1)
          | Some r \<Rightarrow>
              do { (op, a2) \<leftarrow> agent_job_new job_id name meth a1;
                   a3 \<leftarrow> agent_job_op_ref op a2;
                   a4 \<leftarrow> systemd_request_set_userdata r op a3;
                   q \<leftarrow> ag_req_h a4 r;
                   a5 \<leftarrow> (if a_ret e AAppend < 0
                          then Some (areply e m (AError BUS_ERROR_FAILED ''Failed to append name and mode to the message'') a4)
                          else do { (ok, a6) \<leftarrow> systemd_request_start e r CbUnitLifecycle (set_areq r (q\<lparr>sr_args := [name, mode]\<rparr>) a4);
                                    Some (if ok then a6
                                          else areply e m (AError BUS_ERROR_FAILED ''Failed to start a systemd request'') a6) });
                   a7 \<leftarrow> agent_job_op_unref op a5;
                   systemd_request_unref r a7 } }"

definition agent_track_job :: "string \<Rightarrow> aref \<Rightarrow> Agent \<Rightarrow> Agent" where
  "agent_track_job path op a = a\<lparr>ag_tracked_jobs := \<lparr>jt_path = path, jt_op = op\<rparr> # ag_tracked_jobs a\<rparr>"

definition agent_send_job_metrics :: "aenv \<Rightarrow> string \<Rightarrow> string \<Rightarrow> 64 word \<Rightarrow> Agent \<Rightarrow> Agent" where
  "agent_send_job_metrics e unit meth t a =
     snd (emit_peer e ''AgentJobMetrics'' (\<lambda>b. SigJobMetrics b unit meth t) a)"

definition agent_job_done :: "aenv \<Rightarrow> string \<Rightarrow> aref \<Rightarrow> Agent \<Rightarrow> Agent option" where
  "agent_job_done e result r a =
     do { op \<leftarrow> ag_op_h a r;
          let a1 = (if ag_metrics_enabled a
                    then agent_send_job_metrics e (op_unit op) (op_method op)
                           (finalize_time_interval_micros (a_time e) (op_start_micros op)) a
                    else a);
          Some (snd (emit_peer e ''JobDone'' (\<lambda>b. SigJobDone b (op_job_id op) result) a1)) }"

text \<open>Answers of systemd.\<close>

definition forward_answer :: "aenv \<Rightarrow> amsg option \<Rightarrow> systemd_answer \<Rightarrow> Agent \<Rightarrow> Agent" where
  "forward_answer e mo ans a =
     (case mo of None \<Rightarrow> a
      | Some m \<Rightarrow>
         (case ans of
            SdError n \<Rightarrow> areply e m (AForward ans) a
          | _ \<Rightarrow> (if a_ret e ANewReturn < 0 \<or> a_ret e ACopy < 0 then a else areply e m (AForward ans) a)))"

definition agent_unit_lifecycle_method_callback :: "aenv \<Rightarrow> SystemdRequest \<Rightarrow> systemd_answer \<Rightarrow> Agent \<Rightarrow> Agent option" where
  "agent_unit_lifecycle_method_callback e q ans a =
     do { m \<leftarrow> sr_request_message q;
          case ans of
            SdError n \<Rightarrow> Some (areply e m (AForward ans) a)
          | SdBody b \<Rightarrow> Some (areply e m (AError BUS_ERROR_FAILED ''Failed to read the object path of the job'') a)
          | SdPath path \<Rightarrow>
              do { op \<leftarrow> sr_userdata q;
                   a1 \<leftarrow> agent_job_op_ref op a;
                   Some (areply e m AOk (agent_track_job path op a1)) } }"

definition job_cancel_callback :: "aenv \<Rightarrow> SystemdRequest \<Rightarrow> systemd_answer \<Rightarrow> Agent \<Rightarrow> Agent option" where
  "job_cancel_callback e q ans a =
     do { m \<leftarrow> sr_request_message q;
          case ans of
            SdError n \<Rightarrow> Some (areply e m (AForward ans) a)
          | _ \<Rightarrow> Some (if a_ret e ANewReturn < 0
                       then areply e m (AError BUS_ERROR_FAILED ''Failed to create a reply message'') a
                       else areply e m AOk a) }"

definition systemd_callback :: "aenv \<Rightarrow> aref \<Rightarrow> systemd_answer \<Rightarrow> Agent \<Rightarrow> Agent option" where
  "systemd_callback e r ans a =
     do { q \<leftarrow> ag_req_h a r;
          cb \<leftarrow> sr_slot q;
          a1 \<leftarrow> (case cb of
                   CbCopy \<Rightarrow> Some (forward_answer e (sr_request_message q) ans a)
                 | CbUnitLifecycle \<Rightarrow> agent_unit_lifecycle_method_callback e q ans a
                 | CbDep \<Rightarrow> Some a
                 | CbCancel \<Rightarrow> job_cancel_callback e q ans a
                 | CbStopProxy \<Rightarrow> Some a);
          systemd_request_unref r a1 }"

text \<open>Signals of systemd about jobs.\<close>

fun find_tracker :: "(JobTracker \<Rightarrow> bool) \<Rightarrow> JobTracker list \<Rightarrow> JobTracker option" where
  "find_tracker P [] = None"
| "find_tracker P (t # ts) = (if P t then Some t else find_tracker P ts)"

definition agent_match_job_changed :: "aenv \<Rightarrow> string \<Rightarrow> string \<Rightarrow> prop_item list \<Rightarrow> Agent \<Rightarrow> Agent option" where
  "agent_match_job_changed e object_path interface items a =
     (if interface \<noteq> SYSTEMD_JOB_IFACE then Some a
      else case find_tracker (\<lambda>t. jt_path t = object_path) (ag_tracked_jobs a) of
        None \<Rightarrow> Some a
      | Some t \<Rightarrow>
          do { op \<leftarrow> ag_op_h a (jt_op t);
               let (r, state) = bus_parse_property_string items ''State'';
               Some (if r < 0 then a
                     else snd (emit_peer e ''JobStateChanged''
                            (\<lambda>b. SigJobStateChanged b (op_job_id op) (case state of Some s \<Rightarrow> s | None \<Rightarrow> [])) a)) })"

definition agent_match_job_removed :: "aenv \<Rightarrow> string \<Rightarrow> string \<Rightarrow> Agent \<Rightarrow> Agent option" where
  "agent_match_job_removed e job_path result a =
     (case find_tracker (\<lambda>t. jt_path t = job_path) (ag_tracked_jobs a) of
        None \<Rightarrow> Some a
      | Some t \<Rightarrow>
          do { a1 \<leftarrow> agent_job_done e result (jt_op t) (a\<lparr>ag_tracked_jobs := remove1 t (ag_tracked_jobs a)\<rparr>);
               agent_job_op_unref (jt_op t) a1 })"

text \<open>Cancelling a job: the method answers at once, and the callback of the request answers the
  same call again.\<close>

fun find_tracker_by_id :: "Agent \<Rightarrow> 32 word \<Rightarrow> JobTracker list \<Rightarrow> JobTracker option option" where
  "find_tracker_by_id a i [] = Some None"
| "find_tracker_by_id a i (t # ts) =
     do { op \<leftarrow> ag_op_h a (jt_op t); if op_job_id op = i then Some (Some t) else find_tracker_by_id a i ts }"

definition agent_find_jobtracker_by_bluechi_id :: "Agent \<Rightarrow> 32 word \<Rightarrow> JobTracker option option" where
  "agent_find_jobtracker_by_bluechi_id a i = find_tracker_by_id a i (ag_tracked_jobs a)"

definition agent_method_job_cancel :: "aenv \<Rightarrow> amsg \<Rightarrow> 32 word \<Rightarrow> Agent \<Rightarrow> Agent option" where
  "agent_method_job_cancel e m i a =
     do { f \<leftarrow> agent_find_jobtracker_by_bluechi_id a i;
          case f of
            None \<Rightarrow> Some (areply e m (AError BUS_ERROR_FAILED ''No job with this ID found'') a)
          | Some t \<Rightarrow>
              do { (ro, a1) \<leftarrow> agent_create_request_full e (Some m) (jt_path t) SYSTEMD_JOB_IFACE ''Cancel'' a;
                   case ro of
                     None \<Rightarrow> Some (areply e m (AError BUS_ERROR_FAILED ''Failed to create a systemd request'') a1)
                   | Some r \<Rightarrow>
                       do { (ok, a2) \<leftarrow> systemd_request_start e r CbCancel a1;
                            systemd_request_unref r
                              (if ok then areply e m AOk a2
                               else areply e m (AError BUS_ERROR_FAILED ''Failed to start systemd request'') a2) } } }"

section \<open>Metrics and log level\<close>

definition agent_method_enable_metrics :: "aenv \<Rightarrow> amsg \<Rightarrow> Agent \<Rightarrow> Agent" where
  "agent_method_enable_metrics e m a =
     (if ag_metrics_enabled a then areply e m (AError BUS_ERROR_INVALID_ARGS ''Metrics already enabled'') a
      else let a1 = a\<lparr>ag_metrics_enabled := True\<rparr>
           in if a_ret e (AAddVtable ''Metrics'') < 0 then a1
              else areply e m AOk (a1\<lparr>ag_metrics_slot := True\<rparr>))"

definition agent_method_disable_metrics :: "aenv \<Rightarrow> amsg \<Rightarrow> Agent \<Rightarrow> Agent" where
  "agent_method_disable_metrics e m a =
     (if \<not> ag_metrics_enabled a then areply e m (AError BUS_ERROR_INVALID_ARGS ''Metrics already disabled'') a
      else areply e m AOk (a\<lparr>ag_metrics_enabled := False, ag_metrics_slot := False\<rparr>))"

definition agent_method_set_log_level :: "aenv \<Rightarrow> amsg \<Rightarrow> string \<Rightarrow> Agent \<Rightarrow> Agent" where
  "agent_method_set_log_level e m lvl a =
     (let loglevel = string_to_log_level (Some lvl)
      in if loglevel = LOG_LEVEL_INVALID then areply e m (AError BUS_ERROR_FAILED ''Invalid input for log level'') a
         else areply e m AOk (a\<lparr>ag_log := bc_log_set_level loglevel (ag_log a)\<rparr>))"

end
