(* ===== verification/Agent_Refs.thy ===== *)
theory Agent_Refs
  imports Agent_Requests
begin

text \<open>The reference counts of the agent: between two events every request waits for its
  answer, every \<open>AgentJobOp\<close> is held by a request or a tracked job, and the agent counts
  its requests and operations.  Every event keeps this and never uses a freed object.\<close>

section \<open>The invariant\<close>

definition waiting :: "SystemdRequest \<Rightarrow> bool" where
  "waiting q = (sr_ref q = 1 \<and> sr_slot q \<noteq> None \<and>
     (sr_slot q \<notin> {Some CbDep, Some CbStopProxy} \<longrightarrow> sr_request_message q \<noteq> None) \<and>
     (sr_slot q = Some CbUnitLifecycle \<longrightarrow> sr_userdata q \<noteq> None))"

definition op_holders :: "Agent \<Rightarrow> aref \<Rightarrow> nat" where
  "op_holders a p =
     length (filter (\<lambda>r. map_option sr_userdata (ag_req_h a r) = Some (Some p)) (ag_requests a)) +
     length (filter (\<lambda>t. jt_op t = p) (ag_tracked_jobs a))"

definition refs_ok :: "Agent \<Rightarrow> bool" where
  "refs_ok a =
     (distinct (ag_requests a) \<and> dom (ag_req_h a) = set (ag_requests a) \<and>
      (\<forall>r q. ag_req_h a r = Some q \<longrightarrow> waiting q) \<and>
      (\<forall>p. ag_op_h a p = None \<longrightarrow> op_holders a p = 0) \<and>
      (\<forall>p op. ag_op_h a p = Some op \<longrightarrow> 0 < op_holders a p \<and> op_ref op = int (op_holders a p)) \<and>
      finite (dom (ag_op_h a)) \<and>
      ag_ref a = 1 + int (length (ag_requests a)) + int (card (dom (ag_op_h a))) \<and>
      (\<forall>r \<ge> ag_next a. ag_req_h a r = None \<and> ag_op_h a r = None))"

text \<open>What only sends messages keeps the invariant.\<close>

definition refs_of :: "Agent \<Rightarrow> int \<times> aref list \<times> (aref \<Rightarrow> SystemdRequest option) \<times> (aref \<Rightarrow> AgentJobOp option) \<times> JobTracker list \<times> aref" where
  "refs_of a = (ag_ref a, ag_requests a, ag_req_h a, ag_op_h a, ag_tracked_jobs a, ag_next a)"

lemma refs_of_fields:
  assumes "refs_of a = refs_of b"
  shows "ag_ref a = ag_ref b" "ag_requests a = ag_requests b" "ag_req_h a = ag_req_h b" "ag_op_h a = ag_op_h b"
    "ag_tracked_jobs a = ag_tracked_jobs b" "ag_next a = ag_next b"
  using assms by (simp_all add: refs_of_def)

lemma op_holders_cong: "refs_of a = refs_of b \<Longrightarrow> op_holders a = op_holders b"
  by (simp add: refs_of_def op_holders_def fun_eq_iff)

lemma refs_ok_cong: "refs_of a = refs_of b \<Longrightarrow> refs_ok a = refs_ok b"
  using refs_of_fields [of a b] op_holders_cong [of a b] by (simp add: refs_ok_def)

lemma refs_of_out [simp]:
  "refs_of (aput m a) = refs_of a" "refs_of (areply e q r a) = refs_of a" "refs_of (snd (emit_peer e n s a)) = refs_of a"
  "refs_of (emit_property e n m a) = refs_of a"
  by (simp_all add: refs_of_def aput_def areply_def emit_peer_def emit_property_def split: option.split)

lemma refs_fields_out [simp]:
  "ag_ref (areply e q r a) = ag_ref a" "ag_requests (areply e q r a) = ag_requests a" "ag_req_h (areply e q r a) = ag_req_h a"
  "ag_op_h (areply e q r a) = ag_op_h a" "ag_tracked_jobs (areply e q r a) = ag_tracked_jobs a" "ag_next (areply e q r a) = ag_next a"
  "ag_ref (aput m a) = ag_ref a" "ag_requests (aput m a) = ag_requests a" "ag_req_h (aput m a) = ag_req_h a"
  "ag_op_h (aput m a) = ag_op_h a" "ag_tracked_jobs (aput m a) = ag_tracked_jobs a" "ag_next (aput m a) = ag_next a"
  using refs_of_fields [OF refs_of_out(2), of e q r a] refs_of_fields [OF refs_of_out(1), of m a] by auto

lemma refs_ok_pos: "refs_ok a \<Longrightarrow> 0 < ag_ref a"
  by (simp add: refs_ok_def)

section \<open>Making and dropping requests\<close>

lemma fresh_ref:
  assumes "refs_ok a"
  shows "ag_next a \<notin> set (ag_requests a)" "ag_req_h a (ag_next a) = None" "ag_op_h a (ag_next a) = None"
proof -
  show "ag_req_h a (ag_next a) = None" "ag_op_h a (ag_next a) = None" using assms by (simp_all add: refs_ok_def)
  then have "ag_next a \<notin> dom (ag_req_h a)" by (simp add: domIff)
  then show "ag_next a \<notin> set (ag_requests a)" using assms unfolding refs_ok_def by blast
qed

definition with_request :: "aref \<Rightarrow> SystemdRequest \<Rightarrow> Agent \<Rightarrow> Agent" where
  "with_request r q a = a\<lparr>ag_ref := ag_ref a + 1, ag_req_h := (ag_req_h a)(r \<mapsto> q), ag_requests := ag_requests a @ [r], ag_next := r + 1\<rparr>"

lemma create_request_result:
  assumes "refs_ok a"
  shows "agent_create_request_full e m path iface meth a =
    (if a_ret e (ANewCall meth) < 0 then Some (None, a\<lparr>ag_next := ag_next a + 1\<rparr>)
     else Some (Some (ag_next a), with_request (ag_next a)
       \<lparr>sr_ref = 1, sr_request_message = m, sr_path = path, sr_iface = iface, sr_method = meth, sr_args = [],
        sr_userdata = None, sr_slot = None\<rparr> a))"
proof -
  have fresh: "ag_req_h a (ag_next a) = None" "ag_next a \<notin> set (ag_requests a)" and pos: "0 < ag_ref a"
    using fresh_ref [OF assms] refs_ok_pos [OF assms] by simp_all
  have "(ag_req_h a)(ag_next a := None) = ag_req_h a" using fresh by (simp add: fun_upd_idem)
  moreover have "remove1 (ag_next a) (ag_requests a @ [ag_next a]) = ag_requests a"
    using fresh(2) by (simp add: remove1_append)
  ultimately show ?thesis
    using pos by (simp add: agent_create_request_full_def agent_ref_def Let_def systemd_request_unref_def set_areq_def
        list_remove_def agent_unref_def with_request_def)
qed

lemma refs_ok_next: "refs_ok a \<Longrightarrow> refs_ok (a\<lparr>ag_next := ag_next a + 1\<rparr>)"
  by (auto simp: refs_ok_def op_holders_def)

lemma op_holders_with_request:
  "r \<notin> set (ag_requests a) \<Longrightarrow>
     op_holders (with_request r q a) p = op_holders a p + (if sr_userdata q = Some p then 1 else 0)"
proof -
  assume r: "r \<notin> set (ag_requests a)"
  have "filter (\<lambda>s. map_option sr_userdata (((ag_req_h a)(r \<mapsto> q)) s) = Some (Some p)) (ag_requests a) =
      filter (\<lambda>s. map_option sr_userdata (ag_req_h a s) = Some (Some p)) (ag_requests a)"
    by (rule filter_cong) (use r in auto)
  then show ?thesis by (simp add: op_holders_def with_request_def)
qed

lemma refs_ok_with_request:
  assumes "refs_ok a" "waiting q" "sr_userdata q = None"
  shows "refs_ok (with_request (ag_next a) q a)"
  using assms fresh_ref [OF assms(1)] op_holders_with_request [of "ag_next a" a q]
  by (auto simp: refs_ok_def with_request_def waiting_def)

lemma drop_new_request:
  assumes "refs_ok a" "refs_of b = refs_of (with_request (ag_next a) q a)" "sr_ref q = 1" "sr_userdata q = None"
  shows "\<exists>t. systemd_request_unref (ag_next a) b = Some t \<and> refs_of t = refs_of (a\<lparr>ag_next := ag_next a + 1\<rparr>)"
proof -
  have f: "ag_req_h b = (ag_req_h a)(ag_next a \<mapsto> q)" "ag_requests b = ag_requests a @ [ag_next a]" "ag_ref b = ag_ref a + 1"
    "ag_op_h b = ag_op_h a" "ag_tracked_jobs b = ag_tracked_jobs a" "ag_next b = ag_next a + 1"
    using refs_of_fields [OF assms(2)] by (simp_all add: with_request_def)
  have r: "remove1 (ag_next a) (ag_requests b) = ag_requests a" "(ag_req_h a)(ag_next a := None) = ag_req_h a"
    using fresh_ref [OF assms(1)] by (simp_all add: f remove1_append fun_upd_idem)
  show ?thesis
    using f r refs_ok_pos [OF assms(1)] assms(3,4)
    by (simp add: systemd_request_unref_def list_remove_def agent_unref_def refs_of_def)
qed

lemma submit_systemd_refs:
  assumes "refs_ok a" "cb \<noteq> CbUnitLifecycle"
  shows "\<exists>t. submit_systemd e m path iface meth args fill cb a = Some t \<and> refs_ok t"
proof -
  let ?r = "ag_next a"
  let ?q = "\<lparr>sr_ref = 1, sr_request_message = Some m, sr_path = path, sr_iface = iface, sr_method = meth, sr_args = [],
        sr_userdata = None, sr_slot = None\<rparr>"
  note cr = create_request_result [OF assms(1)]
  have dropped: "\<exists>t. systemd_request_unref ?r b = Some t \<and> refs_ok t"
    if "refs_of b = refs_of (with_request ?r q a)" "sr_ref q = 1" "sr_userdata q = None" for b q
    using drop_new_request [OF assms(1) that] refs_ok_cong refs_ok_next [OF assms(1)] by metis
  consider "a_ret e (ANewCall meth) < 0" | "\<not> a_ret e (ANewCall meth) < 0" "\<exists>c \<in> set fill. a_ret e c < 0"
    | "\<not> a_ret e (ANewCall meth) < 0" "\<not> (\<exists>c \<in> set fill. a_ret e c < 0)" "a_ret e (ACallAsync meth) < 0"
    | "\<not> a_ret e (ANewCall meth) < 0" "\<not> (\<exists>c \<in> set fill. a_ret e c < 0)" "\<not> a_ret e (ACallAsync meth) < 0" by blast
  then show ?thesis
  proof cases
    case 1
    then show ?thesis using refs_ok_next [OF assms(1)] refs_ok_cong [OF refs_of_out(2)]
      by (simp add: submit_systemd_def cr)
  next
    case 2
    then show ?thesis using dropped [of _ ?q] by (simp add: submit_systemd_def cr with_request_def)
  next
    case 3
    have "refs_of (areply e m (AError BUS_ERROR_FAILED ''Failed to start systemd request'')
        (set_areq ?r (?q\<lparr>sr_args := args\<rparr>) (with_request ?r ?q a))) = refs_of (with_request ?r (?q\<lparr>sr_args := args\<rparr>) a)"
      by (simp add: refs_of_def set_areq_def with_request_def)
    from dropped [OF this] 3 show ?thesis
      by (simp add: submit_systemd_def cr systemd_request_start_def with_request_def set_areq_def)
  next
    case 4
    let ?q' = "?q\<lparr>sr_args := args, sr_slot := Some cb\<rparr>"
    have "refs_ok (with_request ?r ?q' a)"
      using assms by (intro refs_ok_with_request) (auto simp: waiting_def)
    moreover have "\<exists>t. submit_systemd e m path iface meth args fill cb a = Some t \<and> refs_of t = refs_of (with_request ?r ?q' a)"
      using 4 by (simp add: submit_systemd_def cr systemd_request_start_def systemd_request_unref_def with_request_def
          set_areq_def refs_of_def)
    ultimately show ?thesis using refs_ok_cong by metis
  qed
qed

section \<open>Operations\<close>

text \<open>The invariant while \<open>d p\<close> further references to operation \<open>p\<close> are held.\<close>

definition refs_gen :: "(aref \<Rightarrow> nat) \<Rightarrow> Agent \<Rightarrow> bool" where
  "refs_gen d a =
     (distinct (ag_requests a) \<and> dom (ag_req_h a) = set (ag_requests a) \<and>
      (\<forall>r q. ag_req_h a r = Some q \<longrightarrow> waiting q) \<and>
      (\<forall>p. ag_op_h a p = None \<longrightarrow> op_holders a p + d p = 0) \<and>
      (\<forall>p op. ag_op_h a p = Some op \<longrightarrow> 0 < op_holders a p + d p \<and> op_ref op = int (op_holders a p + d p)) \<and>
      finite (dom (ag_op_h a)) \<and>
      ag_ref a = 1 + int (length (ag_requests a)) + int (card (dom (ag_op_h a))) \<and>
      (\<forall>r \<ge> ag_next a. ag_req_h a r = None \<and> ag_op_h a r = None))"

lemma refs_ok_gen: "refs_ok a \<longleftrightarrow> refs_gen (\<lambda>_. 0) a"
  by (simp add: refs_ok_def refs_gen_def)

lemma refs_gen_cong: "refs_of a = refs_of b \<Longrightarrow> refs_gen d a = refs_gen d b"
  using refs_of_fields [of a b] op_holders_cong [of a b] by (simp add: refs_gen_def)

definition op_dropped :: "aref \<Rightarrow> AgentJobOp \<Rightarrow> Agent \<Rightarrow> Agent" where
  "op_dropped p op a =
     (if op_ref op = 1 then a\<lparr>ag_ref := ag_ref a - 1, ag_op_h := (ag_op_h a)(p := None)\<rparr>
      else a\<lparr>ag_op_h := (ag_op_h a)(p \<mapsto> op\<lparr>op_ref := op_ref op - 1\<rparr>)\<rparr>)"

lemma op_unref_result:
  assumes "ag_op_h a p = Some op" "1 < ag_ref a"
  shows "agent_job_op_unref p a = Some (op_dropped p op a)"
  using assms by (auto simp: agent_job_op_unref_def op_dropped_def agent_unref_def set_aop_def)

lemma op_holders_op_dropped [simp]: "op_holders (op_dropped p op a) = op_holders a"
  by (auto simp: op_holders_def op_dropped_def fun_eq_iff)

lemma op_dropped_refs:
  assumes inv: "refs_gen (\<lambda>x. if x = p then 1 else 0) a" and op: "ag_op_h a p = Some op"
  shows "refs_ok (op_dropped p op a)"
proof -
  have h: "op_ref op = int (op_holders a p) + 1" using inv op by (simp add: refs_gen_def)
  have c: "card (dom (ag_op_h a)) = card (dom ((ag_op_h a)(p := None))) + 1"
  proof -
    have "finite (dom (ag_op_h a))" "p \<in> dom (ag_op_h a)" using inv op by (auto simp: refs_gen_def)
    then show ?thesis using card.remove [of "dom (ag_op_h a)" p] by (simp add: dom_fun_upd)
  qed
  have others: "x \<noteq> p \<Longrightarrow> ag_op_h a x = None \<Longrightarrow> op_holders a x = 0"
    "x \<noteq> p \<Longrightarrow> ag_op_h a x = Some y \<Longrightarrow> 0 < op_holders a x \<and> op_ref y = int (op_holders a x)" for x y
    using inv by (force simp: refs_gen_def)+
  show ?thesis
  proof (cases "op_ref op = 1")
    case True
    then have "op_dropped p op a = a\<lparr>ag_ref := ag_ref a - 1, ag_op_h := (ag_op_h a)(p := None)\<rparr>" by (simp add: op_dropped_def)
    moreover have "op_holders a p = 0" using True h by simp
    ultimately show ?thesis
      using inv c others op_holders_op_dropped [of p op a] by (auto simp: refs_gen_def refs_ok_def split: if_splits)
  next
    case False
    then have "op_dropped p op a = a\<lparr>ag_op_h := (ag_op_h a)(p \<mapsto> op\<lparr>op_ref := op_ref op - 1\<rparr>)\<rparr>" by (simp add: op_dropped_def)
    moreover have "insert p (dom (ag_op_h a)) = dom (ag_op_h a)" using op by auto
    ultimately show ?thesis
      using inv h False others op op_holders_op_dropped [of p op a] by (auto simp: refs_gen_def refs_ok_def split: if_splits)
  qed
qed

lemma op_unref_refs:
  assumes inv: "refs_gen (\<lambda>x. if x = p then 1 else 0) a" and op: "ag_op_h a p = Some op"
  shows "\<exists>t. agent_job_op_unref p a = Some t \<and> refs_ok t"
proof -
  have "0 < card (dom (ag_op_h a))" using inv op by (auto simp: refs_gen_def card_gt_0_iff)
  then have "1 < ag_ref a" using inv by (simp add: refs_gen_def)
  then show ?thesis using op_unref_result [OF op] op_dropped_refs [OF inv op] by simp
qed

definition request_removed :: "aref \<Rightarrow> Agent \<Rightarrow> Agent" where
  "request_removed r a = a\<lparr>ag_ref := ag_ref a - 1, ag_requests := remove1 r (ag_requests a), ag_req_h := (ag_req_h a)(r := None)\<rparr>"

lemma request_removed_fields [simp]:
  "ag_ref (request_removed r a) = ag_ref a - 1" "ag_requests (request_removed r a) = remove1 r (ag_requests a)"
  "ag_req_h (request_removed r a) = (ag_req_h a)(r := None)" "ag_op_h (request_removed r a) = ag_op_h a"
  "ag_tracked_jobs (request_removed r a) = ag_tracked_jobs a" "ag_next (request_removed r a) = ag_next a"
  by (simp_all add: request_removed_def)

lemma op_holders_removed:
  assumes "distinct (ag_requests a)" "r \<in> set (ag_requests a)" "ag_req_h a r = Some q"
  shows "op_holders a p = op_holders (request_removed r a) p + (if sr_userdata q = Some p then 1 else 0)"
proof -
  let ?P = "\<lambda>h s. map_option sr_userdata (h s) = Some (Some p)"
  have "filter (?P ((ag_req_h a)(r := None))) (remove1 r (ag_requests a)) = filter (?P (ag_req_h a)) (remove1 r (ag_requests a))"
    by (rule filter_cong) (use assms(1) in auto)
  then have "length (filter (?P ((ag_req_h a)(r := None))) (remove1 r (ag_requests a))) =
      (if ?P (ag_req_h a) r then length (filter (?P (ag_req_h a)) (ag_requests a)) - 1
       else length (filter (?P (ag_req_h a)) (ag_requests a)))"
    using assms(2) by (simp add: length_filter_remove1 del: map_option_eq_Some)
  moreover have "?P (ag_req_h a) r \<Longrightarrow> 0 < length (filter (?P (ag_req_h a)) (ag_requests a))"
    using assms(2) by (simp add: filter_empty_conv del: map_option_eq_Some) blast
  ultimately show ?thesis using assms(3) by (auto simp: op_holders_def request_removed_def)
qed

lemma request_removed_refs:
  assumes "refs_ok a" "ag_req_h a r = Some q"
  shows "refs_gen (\<lambda>p. if sr_userdata q = Some p then 1 else 0) (request_removed r a)"
proof -
  have r: "r \<in> set (ag_requests a)" "distinct (ag_requests a)" using assms by (auto simp: refs_ok_def)
  note h = op_holders_removed [OF r(2,1) assms(2)]
  have "length (remove1 r (ag_requests a)) = length (ag_requests a) - 1" using r(1) by (simp add: length_remove1)
  then have "int (length (remove1 r (ag_requests a))) = int (length (ag_requests a)) - 1"
    using length_pos_if_in_set [OF r(1)] by linarith
  moreover have "dom ((ag_req_h a)(r := None)) = set (remove1 r (ag_requests a))"
    using assms(1) r(2) by (auto simp: refs_ok_def distinct_remove1_set)
  ultimately show ?thesis
    using assms(1) unfolding refs_gen_def h [symmetric] refs_ok_def request_removed_fields by auto
qed

lemma request_unref_refs:
  assumes inv: "refs_ok a" and q: "ag_req_h a r = Some q"
  shows "\<exists>t. systemd_request_unref r a = Some t \<and> refs_ok t"
proof -
  have r: "r \<in> set (ag_requests a)" and w: "sr_ref q = 1" using inv q by (auto simp: refs_ok_def waiting_def)
  note g = request_removed_refs [OF inv q]
  have len: "0 < length (ag_requests a)" using r by (cases "ag_requests a") auto
  show ?thesis
  proof (cases "sr_userdata q")
    case None
    have "1 < ag_ref a" using inv len unfolding refs_ok_def by linarith
    then have "systemd_request_unref r a = Some (request_removed r a)"
      using q w r None by (simp add: systemd_request_unref_def list_remove_def agent_unref_def request_removed_def)
    then show ?thesis using g None by (simp add: refs_ok_gen)
  next
    case (Some p)
    have "op_holders a p \<noteq> 0" using op_holders_removed [of a r q p] inv r q Some by (auto simp: refs_ok_def)
    then obtain op where op: "ag_op_h a p = Some op" using inv by (cases "ag_op_h a p") (auto simp: refs_ok_def)
    have "0 < card (dom (ag_op_h a))" using inv op by (auto simp: refs_ok_def card_gt_0_iff)
    then have ref: "2 < ag_ref a" using inv len unfolding refs_ok_def by linarith
    have "systemd_request_unref r a = Some (op_dropped p op (request_removed r a))"
      using q w Some r ref op_unref_result [OF op]
      by (auto simp: systemd_request_unref_def list_remove_def agent_unref_def op_dropped_def request_removed_def)
    moreover have "ag_op_h (request_removed r a) p = Some op" using op by (simp add: request_removed_def)
    moreover have "(\<lambda>x. if sr_userdata q = Some x then 1 else 0 :: nat) = (\<lambda>x. if x = p then 1 else 0)" using Some by auto
    ultimately show ?thesis using op_dropped_refs [of p "request_removed r a" op] g by simp
  qed
qed

lemma track_refs:
  assumes "refs_ok a" "ag_op_h a p = Some op"
  shows "refs_ok (agent_track_job path p (set_aop p (op\<lparr>op_ref := op_ref op + 1\<rparr>) a))"
proof -
  have "op_holders (agent_track_job path p (set_aop p (op\<lparr>op_ref := op_ref op + 1\<rparr>) a)) x =
      op_holders a x + (if x = p then 1 else 0)" for x
    by (simp add: op_holders_def agent_track_job_def set_aop_def)
  moreover have "insert p (dom (ag_op_h a)) = dom (ag_op_h a)" using assms(2) by auto
  ultimately show ?thesis using assms
    by (auto simp: refs_ok_def agent_track_job_def set_aop_def split: if_splits)
qed

section \<open>Events\<close>

lemma lifecycle_callback_refs:
  assumes inv: "refs_ok a" and q: "ag_req_h a r = Some q" "sr_slot q = Some CbUnitLifecycle"
  shows "\<exists>t. agent_unit_lifecycle_method_callback e q ans a = Some t \<and> refs_ok t \<and> ag_req_h t = ag_req_h a"
proof -
  have w: "waiting q" using inv q by (simp add: refs_ok_def)
  then obtain m p where m: "sr_request_message q = Some m" "sr_userdata q = Some p"
    using q(2) by (auto simp: waiting_def)
  have "r \<in> set (ag_requests a)" "distinct (ag_requests a)" using inv q(1) by (auto simp: refs_ok_def)
  then have "op_holders a p \<noteq> 0" using op_holders_removed [of a r q p] q(1) m(2) by simp
  then obtain op where op: "ag_op_h a p = Some op" using inv by (cases "ag_op_h a p") (auto simp: refs_ok_def)
  show ?thesis
  proof (cases ans)
    case (SdPath path)
    have "refs_ok (areply e m AOk (agent_track_job path p (set_aop p (op\<lparr>op_ref := op_ref op + 1\<rparr>) a)))"
      using track_refs [OF inv op] refs_ok_cong [OF refs_of_out(2)] by blast
    then show ?thesis using SdPath m op
      by (simp add: agent_unit_lifecycle_method_callback_def agent_job_op_ref_def agent_track_job_def set_aop_def)
  qed (use inv m refs_ok_cong [OF refs_of_out(2)] in \<open>simp_all add: agent_unit_lifecycle_method_callback_def\<close>)
qed

lemma systemd_callback_refs:
  assumes inv: "refs_ok a" and q: "ag_req_h a r = Some q"
  shows "\<exists>t. systemd_callback e r ans a = Some t \<and> refs_ok t"
proof -
  have w: "waiting q" using inv q by (simp add: refs_ok_def)
  then obtain cb where cb: "sr_slot q = Some cb" by (auto simp: waiting_def)
  let ?act = "case cb of CbCopy \<Rightarrow> Some (forward_answer e (sr_request_message q) ans a)
                 | CbUnitLifecycle \<Rightarrow> agent_unit_lifecycle_method_callback e q ans a
                 | CbDep \<Rightarrow> Some a | CbCancel \<Rightarrow> job_cancel_callback e q ans a | CbStopProxy \<Rightarrow> Some a"
  have fwd: "refs_of (forward_answer e mo ans a) = refs_of a" for mo
    by (simp add: forward_answer_def split: option.split systemd_answer.split)
  have "\<exists>b. ?act = Some b \<and> refs_ok b \<and> ag_req_h b r = Some q"
  proof (cases cb)
    case CbCopy
    then show ?thesis using inv q refs_ok_cong [OF fwd] refs_of_fields(3) [OF fwd] by simp
  next
    case CbUnitLifecycle
    then obtain t where "agent_unit_lifecycle_method_callback e q ans a = Some t" "refs_ok t" "ag_req_h t = ag_req_h a"
      using lifecycle_callback_refs [OF inv q] cb by auto
    then show ?thesis using CbUnitLifecycle q by simp
  next
    case CbCancel
    then obtain m where m: "sr_request_message q = Some m" using w cb by (auto simp: waiting_def)
    then obtain rep where "job_cancel_callback e q ans a = Some (areply e m rep a)"
      by (cases ans; cases "a_ret e ANewReturn < 0") (auto simp: job_cancel_callback_def)
    then show ?thesis using CbCancel inv q refs_ok_cong [OF refs_of_out(2)] by simp
  qed (use inv q in simp_all)
  then obtain b where b: "?act = Some b" "refs_ok b" "ag_req_h b r = Some q" by blast
  then show ?thesis using request_unref_refs [OF b(2,3)] q cb by (simp add: systemd_callback_def)
qed

lemma find_tracker_Some: "find_tracker P ts = Some t \<Longrightarrow> t \<in> set ts \<and> P t"
  by (induction ts) (auto split: if_splits)

lemma tracked_op_live:
  assumes "refs_ok a" "t \<in> set (ag_tracked_jobs a)"
  obtains op where "ag_op_h a (jt_op t) = Some op"
proof -
  have "0 < length (filter (\<lambda>s. jt_op s = jt_op t) (ag_tracked_jobs a))"
    using assms(2) by (auto simp: filter_empty_conv)
  then have "op_holders a (jt_op t) \<noteq> 0" unfolding op_holders_def by linarith
  then show thesis using assms(1) that by (cases "ag_op_h a (jt_op t)") (auto simp: refs_ok_def)
qed

lemma untrack_refs:
  assumes "refs_ok a" "t \<in> set (ag_tracked_jobs a)"
  shows "refs_gen (\<lambda>x. if x = jt_op t then 1 else 0) (a\<lparr>ag_tracked_jobs := remove1 t (ag_tracked_jobs a)\<rparr>)"
proof -
  let ?b = "a\<lparr>ag_tracked_jobs := remove1 t (ag_tracked_jobs a)\<rparr>"
  have h: "op_holders ?b x + (if x = jt_op t then 1 else 0) = op_holders a x" for x
  proof -
    have "x = jt_op t \<Longrightarrow> 0 < length (filter (\<lambda>s. jt_op s = x) (ag_tracked_jobs a))"
      using assms(2) by (auto simp: filter_empty_conv)
    then show ?thesis using assms(2) by (auto simp: op_holders_def length_filter_remove1)
  qed
  show ?thesis using assms(1) unfolding refs_gen_def h refs_ok_def by simp
qed

lemma job_done_result:
  assumes "ag_op_h a p = Some op"
  shows "\<exists>t. agent_job_done e result p a = Some t \<and> refs_of t = refs_of a"
  using assms by (simp add: agent_job_done_def agent_send_job_metrics_def Let_def)

lemma job_removed_refs:
  assumes "refs_ok a"
  shows "\<exists>t. agent_match_job_removed e path result a = Some t \<and> refs_ok t"
proof (cases "find_tracker (\<lambda>t. jt_path t = path) (ag_tracked_jobs a)")
  case None
  then show ?thesis using assms by (simp add: agent_match_job_removed_def)
next
  case (Some t)
  let ?b = "a\<lparr>ag_tracked_jobs := remove1 t (ag_tracked_jobs a)\<rparr>"
  note t = find_tracker_Some [OF Some]
  obtain op where op: "ag_op_h a (jt_op t) = Some op" using tracked_op_live assms t by blast
  then obtain c where c: "agent_job_done e result (jt_op t) ?b = Some c" "refs_of c = refs_of ?b"
    using job_done_result [of ?b "jt_op t" op e result] by auto
  have "refs_gen (\<lambda>x. if x = jt_op t then 1 else 0) c" "ag_op_h c (jt_op t) = Some op"
    using untrack_refs [OF assms] t refs_gen_cong [OF c(2)] refs_of_fields(4) [OF c(2)] op by auto
  then show ?thesis using op_unref_refs Some c(1) by (simp add: agent_match_job_removed_def)
qed

text \<open>A method that creates a request with an operation.\<close>

definition with_op :: "aref \<Rightarrow> AgentJobOp \<Rightarrow> Agent \<Rightarrow> Agent" where
  "with_op p op a = a\<lparr>ag_ref := ag_ref a + 1, ag_op_h := (ag_op_h a)(p \<mapsto> op), ag_next := p + 1\<rparr>"

lemma refs_ok_with_op:
  assumes inv: "refs_ok a" and q: "waiting q" "sr_userdata q = Some (ag_next a + 1)" and op: "op_ref op = 1"
  shows "refs_ok (with_op (ag_next a + 1) op (with_request (ag_next a) q a))"
proof -
  let ?p = "ag_next a + 1" and ?t = "with_op (ag_next a + 1) op (with_request (ag_next a) q a)"
  note fresh = fresh_ref [OF inv]
  have p: "ag_op_h a ?p = None" "op_holders a ?p = 0" using inv by (auto simp: refs_ok_def)
  have "op_holders ?t x = op_holders (with_request (ag_next a) q a) x" for x
    by (simp add: op_holders_def with_op_def)
  then have h: "op_holders ?t x = op_holders a x + (if x = ?p then 1 else 0)" for x
    using op_holders_with_request [OF fresh(1)] q(2) by simp
  have c: "card (insert ?p (dom (ag_op_h a))) = card (dom (ag_op_h a)) + 1"
    using inv p(1) by (simp add: refs_ok_def domIff)
  have f: "ag_requests ?t = ag_requests a @ [ag_next a]" "ag_req_h ?t = (ag_req_h a)(ag_next a \<mapsto> q)"
    "ag_op_h ?t = (ag_op_h a)(?p \<mapsto> op)" "ag_ref ?t = ag_ref a + 2" "ag_next ?t = ag_next a + 2"
    by (simp_all add: with_op_def with_request_def)
  show ?thesis
    using inv fresh q(1) op p c unfolding refs_ok_def h f by (auto split: if_splits)
qed

lemma run_lifecycle_result:
  assumes inv: "refs_ok a"
  shows "\<exists>t. agent_run_unit_lifecycle_method e m meth name mode job_id a = Some t \<and>
    (if a_ret e (ANewCall meth) < 0 then refs_of t = refs_of (a\<lparr>ag_next := ag_next a + 1\<rparr>)
     else if a_ret e AAppend < 0 \<or> a_ret e (ACallAsync meth) < 0 then refs_of t = refs_of (a\<lparr>ag_next := ag_next a + 2\<rparr>)
     else \<exists>q op. refs_of t = refs_of (with_op (ag_next a + 1) op (with_request (ag_next a) q a)) \<and> waiting q \<and>
       sr_userdata q = Some (ag_next a + 1) \<and> op_ref op = 1 \<and> op_job_id op = job_id \<and> sr_slot q = Some CbUnitLifecycle)"
proof -
  note cr = create_request_result [OF inv]
  have pos: "0 < ag_ref a" using refs_ok_pos [OF inv] .
  have fr: "remove1 (ag_next a) (ag_requests a @ [ag_next a]) = ag_requests a"
    "(ag_req_h a)(ag_next a := None) = ag_req_h a" "(ag_op_h a)(Suc (ag_next a) := None) = ag_op_h a"
    using fresh_ref [OF inv] inv by (auto simp: remove1_append fun_upd_idem refs_ok_def)
  consider "a_ret e (ANewCall meth) < 0" | "\<not> a_ret e (ANewCall meth) < 0" "a_ret e AAppend < 0"
    | "\<not> a_ret e (ANewCall meth) < 0" "\<not> a_ret e AAppend < 0" "a_ret e (ACallAsync meth) < 0"
    | "\<not> a_ret e (ANewCall meth) < 0" "\<not> a_ret e AAppend < 0" "\<not> a_ret e (ACallAsync meth) < 0" by blast
  then show ?thesis
  proof cases
    case 1
    then show ?thesis by (simp add: agent_run_unit_lifecycle_method_def agent_create_request_def cr)
  next
    case 2
    then show ?thesis using pos fr
      by (simp add: agent_run_unit_lifecycle_method_def agent_create_request_def cr agent_job_new_def agent_ref_def
          with_request_def Let_def set_aop_def agent_job_op_ref_def systemd_request_set_userdata_def set_areq_def
          agent_job_op_unref_def systemd_request_unref_def agent_unref_def list_remove_def refs_of_def)
  next
    case 3
    then show ?thesis using pos fr
      by (simp add: agent_run_unit_lifecycle_method_def agent_create_request_def cr agent_job_new_def agent_ref_def
          with_request_def Let_def set_aop_def agent_job_op_ref_def systemd_request_set_userdata_def set_areq_def
          agent_job_op_unref_def systemd_request_unref_def agent_unref_def list_remove_def refs_of_def systemd_request_start_def)
  next
    case 4
    let ?q = "\<lparr>sr_ref = 1, sr_request_message = Some m, sr_path = SYSTEMD_OBJECT_PATH, sr_iface = SYSTEMD_MANAGER_IFACE,
      sr_method = meth, sr_args = [name, mode], sr_userdata = Some (ag_next a + 1), sr_slot = Some CbUnitLifecycle\<rparr>"
    let ?op = "\<lparr>op_ref = 1, op_job_id = job_id, op_start_micros = a_time e, op_unit = name, op_method = meth\<rparr>"
    have "\<exists>t. agent_run_unit_lifecycle_method e m meth name mode job_id a = Some t \<and>
      refs_of t = refs_of (with_op (ag_next a + 1) ?op (with_request (ag_next a) ?q a))"
      using 4 pos
      by (simp add: agent_run_unit_lifecycle_method_def agent_create_request_def cr agent_job_new_def agent_ref_def
          with_request_def with_op_def Let_def set_aop_def agent_job_op_ref_def systemd_request_set_userdata_def set_areq_def
          agent_job_op_unref_def systemd_request_unref_def refs_of_def systemd_request_start_def)
    moreover have "waiting ?q" by (simp add: waiting_def)
    ultimately show ?thesis using 4 by (simp del: One_nat_def) (metis AgentJobOp.select_convs(1,2) SystemdRequest.select_convs(7,8))
  qed
qed

lemma run_lifecycle_refs:
  assumes "refs_ok a"
  shows "\<exists>t. agent_run_unit_lifecycle_method e m meth name mode job_id a = Some t \<and> refs_ok t"
proof -
  have "refs_ok (a\<lparr>ag_next := ag_next a + 2\<rparr>)" using refs_ok_next [OF refs_ok_next [OF assms]] by simp
  then show ?thesis
    using run_lifecycle_result [OF assms, of e m meth name mode job_id] refs_ok_next [OF assms] refs_ok_with_op [OF assms]
      refs_ok_cong by (metis (no_types, lifting))
qed

lemma find_by_id_live:
  assumes "\<And>t. t \<in> set ts \<Longrightarrow> ag_op_h a (jt_op t) \<noteq> None"
  shows "\<exists>f. find_tracker_by_id a i ts = Some f \<and> (\<forall>t. f = Some t \<longrightarrow> t \<in> set ts)"
  using assms
proof (induction ts)
  case (Cons t ts)
  then obtain op where "ag_op_h a (jt_op t) = Some op" by fastforce
  then show ?case using Cons by auto
qed simp

lemma job_cancel_result:
  assumes inv: "refs_ok a"
  shows "\<exists>t. agent_method_job_cancel e m i a = Some t \<and> refs_ok t"
proof -
  obtain f where f: "agent_find_jobtracker_by_bluechi_id a i = Some f"
    using find_by_id_live [of "ag_tracked_jobs a" a i] tracked_op_live [OF inv]
    by (metis agent_find_jobtracker_by_bluechi_id_def option.distinct(1))
  let ?r = "ag_next a"
  note cr = create_request_result [OF inv]
  show ?thesis
  proof (cases f)
    case None
    then show ?thesis using f inv refs_ok_cong [OF refs_of_out(2)] by (simp add: agent_method_job_cancel_def)
  next
    case (Some t)
    let ?q = "\<lparr>sr_ref = 1, sr_request_message = Some m, sr_path = jt_path t, sr_iface = SYSTEMD_JOB_IFACE,
        sr_method = ''Cancel'', sr_args = [], sr_userdata = None, sr_slot = None\<rparr>"
    consider "a_ret e (ANewCall ''Cancel'') < 0"
      | "\<not> a_ret e (ANewCall ''Cancel'') < 0" "a_ret e (ACallAsync ''Cancel'') < 0"
      | "\<not> a_ret e (ANewCall ''Cancel'') < 0" "\<not> a_ret e (ACallAsync ''Cancel'') < 0" by blast
    then show ?thesis
    proof cases
      case 1
      then show ?thesis using f Some refs_ok_next [OF inv] refs_ok_cong [OF refs_of_out(2)]
        by (simp add: agent_method_job_cancel_def cr)
    next
      case 2
      have "refs_of (areply e m (AError BUS_ERROR_FAILED ''Failed to start systemd request'') (with_request ?r ?q a)) =
        refs_of (with_request ?r ?q a)" by simp
      from drop_new_request [OF inv this] obtain b where b: "systemd_request_unref ?r (areply e m
          (AError BUS_ERROR_FAILED ''Failed to start systemd request'') (with_request ?r ?q a)) = Some b"
        "refs_of b = refs_of (a\<lparr>ag_next := ag_next a + 1\<rparr>)" by auto
      have "refs_ok b" using refs_ok_next [OF inv] refs_ok_cong [OF b(2)] by simp
      then show ?thesis using 2 f Some b(1)
        by (simp add: agent_method_job_cancel_def cr systemd_request_start_def with_request_def)
    next
      case 3
      let ?q' = "?q\<lparr>sr_slot := Some CbCancel\<rparr>"
      have "refs_ok (with_request ?r ?q' a)" using inv by (intro refs_ok_with_request) (auto simp: waiting_def)
      moreover have "\<exists>t. agent_method_job_cancel e m i a = Some t \<and> refs_of t = refs_of (with_request ?r ?q' a)"
        using 3 f Some by (simp add: agent_method_job_cancel_def cr systemd_request_start_def with_request_def
            systemd_request_unref_def set_areq_def refs_of_def)
      ultimately show ?thesis using refs_ok_cong by metis
    qed
  qed
qed

lemma job_changed_refs:
  assumes "refs_ok a"
  shows "\<exists>t. agent_match_job_changed e path ifc items a = Some t \<and> refs_of t = refs_of a"
proof (cases "ifc \<noteq> SYSTEMD_JOB_IFACE \<or> find_tracker (\<lambda>t. jt_path t = path) (ag_tracked_jobs a) = None")
  case False
  then obtain t where t: "find_tracker (\<lambda>t. jt_path t = path) (ag_tracked_jobs a) = Some t" "ifc = SYSTEMD_JOB_IFACE" by auto
  obtain op where "ag_op_h a (jt_op t) = Some op" using tracked_op_live assms find_tracker_Some [OF t(1)] by blast
  then show ?thesis using t by (simp add: agent_match_job_changed_def case_prod_beta Let_def)
qed (auto simp: agent_match_job_changed_def)

end
