(* ===== verification/Agent_Proxy.thy ===== *)
theory Agent_Proxy
  imports Agent_Refs
begin

text \<open>The proxies of an agent (\<open>agent/proxy.c\<close>, \<open>agent/agent.c\<close>): a local service waits until the unit
  of another node has started, and is stopped when that unit stops.\<close>

definition INTERNAL_PROXY_OBJECT_PATH_PREFIX :: string where
  "INTERNAL_PROXY_OBJECT_PATH_PREFIX = ''/org/eclipse/bluechi/internal/proxy''"
definition BC_BUS_ERROR_ACTIVATION_FAILED :: string where
  "BC_BUS_ERROR_ACTIVATION_FAILED = ''org.eclipse.bluechi.ActivationFailed''"

section \<open>Proxies\<close>

definition proxy_service_new ::
    "string \<Rightarrow> string \<Rightarrow> string \<Rightarrow> amsg \<Rightarrow> Agent \<Rightarrow> aref \<times> Agent" where
  "proxy_service_new local_service_name node unit m a =
     (let i = ag_next_proxy_id a + 1; p = ag_next a
      in (p, (set_apx p \<lparr>px_ref = 1, px_id = i, px_agent = True, px_node_name = node, px_unit_name = unit,
                px_local_service_name = local_service_name, px_request_message = Some m, px_sent_new_proxy = False,
                px_dont_stop_proxy = False, px_sent_successful_ready = False, px_export_slot = None,
                px_object_path = INTERNAL_PROXY_OBJECT_PATH_PREFIX @ ''/'' @ decimal (unat i)\<rparr> a)
              \<lparr>ag_next := p + 1, ag_next_proxy_id := i\<rparr>))"

definition proxy_service_ref :: "aref \<Rightarrow> Agent \<Rightarrow> Agent option" where
  "proxy_service_ref p a = do { px \<leftarrow> ag_px_h a p; Some (set_apx p (px\<lparr>px_ref := px_ref px + 1\<rparr>) a) }"

text \<open>The assertion sees a linked proxy only by its neighbours.\<close>

definition proxy_service_unref :: "aref \<Rightarrow> Agent \<Rightarrow> Agent option" where
  "proxy_service_unref p a =
     do { px \<leftarrow> ag_px_h a p;
          if px_ref px - 1 \<noteq> 0 then Some (set_apx p (px\<lparr>px_ref := px_ref px - 1\<rparr>) a)
          else if p \<in> set (ag_proxies a) \<and> 1 < length (ag_proxies a) then None
          else Some (a\<lparr>ag_px_h := (ag_px_h a)(p := None)\<rparr>) }"

definition proxy_service_export :: "aenv \<Rightarrow> aref \<Rightarrow> Agent \<Rightarrow> (bool \<times> Agent) option" where
  "proxy_service_export e p a =
     do { px \<leftarrow> ag_px_h a p;
          case ag_peer_dbus a of
            None \<Rightarrow> Some (False, a)
          | Some b \<Rightarrow>
              if a_ret e (AAddVtable ''Proxy'') < 0 then Some (False, a)
              else Some (True, set_apx p (px\<lparr>px_export_slot := Some b\<rparr>) a) }"

definition proxy_service_unexport :: "aref \<Rightarrow> Agent \<Rightarrow> Agent option" where
  "proxy_service_unexport p a = do { px \<leftarrow> ag_px_h a p; Some (set_apx p (px\<lparr>px_export_slot := None\<rparr>) a) }"

definition proxy_service_emit_proxy_new :: "aenv \<Rightarrow> aref \<Rightarrow> Agent \<Rightarrow> (int \<times> Agent) option" where
  "proxy_service_emit_proxy_new e p a =
     do { px \<leftarrow> ag_px_h a p;
          if \<not> agent_is_connected a then Some (- ENOTCONN, a)
          else let (res, a1) = emit_peer e ''ProxyNew''
                     (\<lambda>b. SigProxyNew b (px_node_name px) (px_unit_name px) (px_object_path px)) a
               in Some (res, if 0 \<le> res then set_apx p (px\<lparr>px_sent_new_proxy := True\<rparr>) a1 else a1) }"

definition proxy_service_emit_proxy_removed :: "aenv \<Rightarrow> aref \<Rightarrow> Agent \<Rightarrow> (int \<times> Agent) option" where
  "proxy_service_emit_proxy_removed e p a =
     do { px \<leftarrow> ag_px_h a p;
          if \<not> px_sent_new_proxy px then Some (0, a)
          else if \<not> agent_is_connected a then Some (- ENOTCONN, a)
          else Some (emit_peer e ''ProxyRemoved'' (\<lambda>b. SigProxyRemoved b (px_node_name px) (px_unit_name px)) a) }"

text \<open>Stopping the local service through systemd, once.\<close>

definition agent_stop_local_proxy_service :: "aenv \<Rightarrow> aref \<Rightarrow> Agent \<Rightarrow> (int \<times> Agent) option" where
  "agent_stop_local_proxy_service e p a =
     do { px \<leftarrow> ag_px_h a p;
          if px_dont_stop_proxy px then Some (0, a)
          else do {
            (ro, a1) \<leftarrow> agent_create_request e None ''StopUnit'' (set_apx p (px\<lparr>px_dont_stop_proxy := True\<rparr>) a);
            case ro of
              None \<Rightarrow> Some (- ENOMEM, a1)
            | Some r \<Rightarrow>
                do { q \<leftarrow> ag_req_h a1 r;
                     (res, a2) \<leftarrow>
                       (if a_ret e AAppend < 0 then Some (- ENOMEM, a1)
                        else do { (ok, a3) \<leftarrow> systemd_request_start e r CbStopProxy
                                    (set_areq r (q\<lparr>sr_args := [px_local_service_name px, ''replace'']\<rparr>) a1);
                                  Some (if ok then 0 else - EIO, a3) });
                     a4 \<leftarrow> systemd_request_unref r a2;
                     Some (res, a4) } } }"

definition agent_remove_proxy :: "aenv \<Rightarrow> aref \<Rightarrow> bool \<Rightarrow> Agent \<Rightarrow> Agent option" where
  "agent_remove_proxy e p emit_removed a =
     do { px \<leftarrow> ag_px_h a p;
          if \<not> px_agent px then None
          else do {
            a1 \<leftarrow> (if emit_removed then map_option snd (proxy_service_emit_proxy_removed e p a) else Some a);
            let a2 = (case px_request_message px of
                        None \<Rightarrow> a1
                      | Some m \<Rightarrow> set_apx p (px\<lparr>px_request_message := None\<rparr>)
                          (areply e m (AError BUS_ERROR_FAILED ''Proxy service stopped'') a1));
            a3 \<leftarrow> (if px_sent_successful_ready px then map_option snd (agent_stop_local_proxy_service e p a2) else Some a2);
            a4 \<leftarrow> proxy_service_unexport p a3;
            ps \<leftarrow> list_remove p (ag_proxies a4);
            px' \<leftarrow> ag_px_h a4 p;
            proxy_service_unref p (set_apx p (px'\<lparr>px_agent := False\<rparr>) (a4\<lparr>ag_proxies := ps\<rparr>)) } }"

section \<open>Messages of the controller about the target\<close>

definition proxy_service_initial_state_reached :: "aenv \<Rightarrow> aref \<Rightarrow> bool \<Rightarrow> Agent \<Rightarrow> Agent option" where
  "proxy_service_initial_state_reached e p success a =
     do { px \<leftarrow> ag_px_h a p;
          m \<leftarrow> px_request_message px;
          let px1 = px\<lparr>px_sent_successful_ready := px_sent_successful_ready px \<or> success, px_request_message := None\<rparr>;
          let a1 = set_apx p px1 (areply e m
                (if success then AOk else AError BC_BUS_ERROR_ACTIVATION_FAILED ''Proxy service failed to start'') a);
          if \<not> px_sent_successful_ready px1 then agent_remove_proxy e p True a1 else Some a1 }"

definition proxy_service_target_stopped :: "aenv \<Rightarrow> aref \<Rightarrow> Agent \<Rightarrow> Agent option" where
  "proxy_service_target_stopped e p a =
     do { px \<leftarrow> ag_px_h a p;
          if px_request_message px \<noteq> None then None else agent_remove_proxy e p True a }"

text \<open>A handler holds a reference to the proxy while it runs.\<close>

definition with_proxy_ref :: "aenv \<Rightarrow> aref \<Rightarrow> amsg \<Rightarrow> string \<Rightarrow> (ProxyService \<Rightarrow> Agent \<Rightarrow> Agent option) \<Rightarrow> Agent \<Rightarrow> Agent option" where
  "with_proxy_ref e p m no_agent act a =
     do { a1 \<leftarrow> proxy_service_ref p a;
          px \<leftarrow> ag_px_h a1 p;
          a2 \<leftarrow> (if \<not> px_agent px then Some (areply e m (AError BUS_ERROR_FAILED no_agent) a1)
                 else do { a3 \<leftarrow> act px a1; Some (areply e m AOk a3) });
          proxy_service_unref p a2 }"

definition proxy_service_method_target_state_changed ::
    "aenv \<Rightarrow> aref \<Rightarrow> amsg \<Rightarrow> string \<Rightarrow> string \<Rightarrow> Agent \<Rightarrow> Agent option" where
  "proxy_service_method_target_state_changed e p m active_state_str reason a =
     with_proxy_ref e p m ''Failed to get the proxy agent'' (\<lambda>px a1.
       let active_state = active_state_from_string active_state_str;
           stopped = (active_state = UNIT_FAILED \<or> active_state = UNIT_INACTIVE) \<and> reason = ''real''
       in if px_request_message px \<noteq> None then
            (if active_state = UNIT_ACTIVE then proxy_service_initial_state_reached e p True a1
             else if stopped then proxy_service_initial_state_reached e p False a1
             else Some a1)
          else if px_sent_successful_ready px then
            (if stopped then proxy_service_target_stopped e p a1 else Some a1)
          else Some a1) a"

definition proxy_service_method_target_new :: "aenv \<Rightarrow> aref \<Rightarrow> amsg \<Rightarrow> Agent \<Rightarrow> Agent option" where
  "proxy_service_method_target_new e p m a = with_proxy_ref e p m ''Internal error'' (\<lambda>px a1. Some a1) a"

definition proxy_service_method_target_removed :: "aenv \<Rightarrow> aref \<Rightarrow> amsg \<Rightarrow> string \<Rightarrow> Agent \<Rightarrow> Agent option" where
  "proxy_service_method_target_removed e p m reason a =
     with_proxy_ref e p m ''Failed to get the proxy agent'' (\<lambda>px a1.
       if px_request_message px \<noteq> None \<and> reason = ''real'' then proxy_service_initial_state_reached e p False a1
       else Some a1) a"

definition proxy_service_method_error :: "aenv \<Rightarrow> aref \<Rightarrow> amsg \<Rightarrow> Agent \<Rightarrow> Agent option" where
  "proxy_service_method_error e p m a =
     with_proxy_ref e p m ''Failed to get the proxy agent'' (\<lambda>px a1. proxy_service_initial_state_reached e p False a1) a"

section \<open>Requests of the local service\<close>

fun find_proxy_in :: "Agent \<Rightarrow> (ProxyService \<Rightarrow> bool) \<Rightarrow> aref list \<Rightarrow> aref option option" where
  "find_proxy_in a P [] = Some None"
| "find_proxy_in a P (p # ps) =
     do { px \<leftarrow> ag_px_h a p; if P px then Some (Some p) else find_proxy_in a P ps }"

definition agent_find_proxy :: "Agent \<Rightarrow> string \<Rightarrow> string \<Rightarrow> string \<Rightarrow> aref option option" where
  "agent_find_proxy a local_service_name node_name unit_name =
     find_proxy_in a (\<lambda>px. px_local_service_name px = local_service_name \<and> px_node_name px = node_name \<and>
        px_unit_name px = unit_name) (ag_proxies a)"

text \<open>The result of the handler; an error reply to the message that was never created fails
  with \<open>-EINVAL\<close>.\<close>

definition agent_method_create_proxy :: "aenv \<Rightarrow> amsg \<Rightarrow> string \<Rightarrow> string \<Rightarrow> string \<Rightarrow> Agent \<Rightarrow> (int \<times> Agent) option" where
  "agent_method_create_proxy e m local_service_name node_name unit_name a =
     do { old \<leftarrow> agent_find_proxy a local_service_name node_name unit_name;
          if old \<noteq> None then Some (- EINVAL, a)
          else do {
            let (p, a1) = proxy_service_new local_service_name node_name unit_name m a;
            (ok, a2) \<leftarrow> proxy_service_export e p a1;
            if \<not> ok then map_option (\<lambda>a3. (- EINVAL, a3)) (proxy_service_unref p a2)
            else do {
              (r, a3) \<leftarrow> proxy_service_emit_proxy_new e p a2;
              if r < 0 \<and> r \<noteq> - ENOTCONN
              then map_option (\<lambda>a4. (0, a4))
                     (proxy_service_unref p (areply e m (AError BUS_ERROR_FAILED ''Failed to emit a proxy service'') a3))
              else do { a4 \<leftarrow> proxy_service_ref p a3;
                        a5 \<leftarrow> proxy_service_unref p (a4\<lparr>ag_proxies := ag_proxies a4 @ [p]\<rparr>);
                        Some (1, a5) } } } }"

definition agent_method_remove_proxy :: "aenv \<Rightarrow> amsg \<Rightarrow> string \<Rightarrow> string \<Rightarrow> string \<Rightarrow> Agent \<Rightarrow> Agent option" where
  "agent_method_remove_proxy e m local_service_name node_name unit_name a =
     do { f \<leftarrow> agent_find_proxy a local_service_name node_name unit_name;
          case f of
            None \<Rightarrow> Some (areply e m AOk a)
          | Some p \<Rightarrow>
              do { px \<leftarrow> ag_px_h a p;
                   a1 \<leftarrow> agent_remove_proxy e p True (set_apx p (px\<lparr>px_dont_stop_proxy := True\<rparr>) a);
                   Some (areply e m AOk a1) } }"

end
