(* ===== verification/Agent_Conn.thy ===== *)
theory Agent_Conn
  imports Agent_Proxy
begin

text \<open>The connection of an agent to the controller (\<open>agent/agent.c\<close>): its configuration, the address it connects
  to, registration, heartbeats in both directions, reconnecting, start and stop.\<close>

section \<open>Settings\<close>

definition agent_set_port :: "string \<Rightarrow> Agent \<Rightarrow> bool \<times> Agent" where
  "agent_set_port port_s a =
     (case parse_port (Some port_s) of None \<Rightarrow> (False, a) | Some p \<Rightarrow> (True, a\<lparr>ag_port := uint p\<rparr>))"

definition agent_set_controller_address :: "string \<Rightarrow> Agent \<Rightarrow> bool \<times> Agent" where
  "agent_set_controller_address address a = (True, a\<lparr>ag_controller_address := Some address\<rparr>)"

definition agent_set_assembled_controller_address :: "string \<Rightarrow> Agent \<Rightarrow> bool \<times> Agent" where
  "agent_set_assembled_controller_address address a = (True, a\<lparr>ag_assembled_address := Some address\<rparr>)"

definition agent_set_host :: "string \<Rightarrow> Agent \<Rightarrow> bool \<times> Agent" where
  "agent_set_host host a = (True, a\<lparr>ag_host := Some host\<rparr>)"

definition agent_set_name :: "string \<Rightarrow> Agent \<Rightarrow> bool \<times> Agent" where
  "agent_set_name name a = (True, a\<lparr>ag_name := Some name\<rparr>)"

definition agent_set_heartbeat_interval :: "string \<Rightarrow> Agent \<Rightarrow> bool \<times> Agent" where
  "agent_set_heartbeat_interval interval_msec a =
     (case parse_long (Some interval_msec) of None \<Rightarrow> (False, a) | Some i \<Rightarrow> (True, a\<lparr>ag_heartbeat_interval_msec := i\<rparr>))"

definition agent_set_controller_heartbeat_threshold :: "string \<Rightarrow> Agent \<Rightarrow> bool \<times> Agent" where
  "agent_set_controller_heartbeat_threshold threshold_msec a =
     (case parse_long (Some threshold_msec) of None \<Rightarrow> (False, a)
      | Some i \<Rightarrow> (True, a\<lparr>ag_controller_heartbeat_threshold_msec := i\<rparr>))"

definition agent_set_systemd_user :: "bool \<Rightarrow> Agent \<Rightarrow> Agent" where
  "agent_set_systemd_user systemd_user a = a\<lparr>ag_systemd_user := systemd_user\<rparr>"

text \<open>The \<open>long\<close> that was read is stored as \<open>uint64_t\<close>.\<close>

definition agent_set_connection_retry_count_until_quiet :: "string \<Rightarrow> Agent \<Rightarrow> bool \<times> Agent" where
  "agent_set_connection_retry_count_until_quiet retry_count_s a =
     (case parse_long (Some retry_count_s) of None \<Rightarrow> (False, a)
      | Some i \<Rightarrow> (True, a\<lparr>ag_retry_count_until_quiet := word_of_int i\<rparr>))"

text \<open>The standard files, whose places the build sets, are arguments.\<close>

definition agent_parse_config :: "cfg_env \<Rightarrow> string \<Rightarrow> string \<Rightarrow> string \<Rightarrow> cstring \<Rightarrow> Agent \<Rightarrow> bool \<times> Agent" where
  "agent_parse_config e default_file etc_file etc_dir configfile a =
     (let (r1, cfg1) = cfg_agent_def_conf e cfg_initialize in
      if r1 < 0 then (False, a\<lparr>ag_config := cfg1\<rparr>)
      else let (r2, cfg2) = cfg_load_complete_configuration e (Some default_file) (Some etc_file) (Some etc_dir) configfile cfg1
           in (r2 = 0, a\<lparr>ag_config := cfg2\<rparr>))"

definition agent_set_socket_option :: "(SocketOptions \<Rightarrow> int \<times> SocketOptions) \<Rightarrow> Agent \<Rightarrow> bool \<times> Agent" where
  "agent_set_socket_option f a =
     (let (r, opts) = f (ag_socket_options a) in (\<not> r < 0, a\<lparr>ag_socket_options := opts\<rparr>))"

definition agent_apply_config :: "Agent \<Rightarrow> (bool \<times> Agent) option" where
  "agent_apply_config a =
     (let cfg = ag_config a in
      and_then (when_set (cfg_get_value cfg CFG_NODE_NAME) agent_set_name a) (\<lambda>a.
      and_then (when_set (cfg_get_value cfg CFG_CONTROLLER_HOST) agent_set_host a) (\<lambda>a.
      and_then (when_set (cfg_get_value cfg CFG_CONTROLLER_PORT) agent_set_port a) (\<lambda>a.
      and_then (when_set (cfg_get_value cfg CFG_CONTROLLER_ADDRESS) agent_set_controller_address a) (\<lambda>a.
      and_then (when_set (cfg_get_value cfg CFG_HEARTBEAT_INTERVAL) agent_set_heartbeat_interval a) (\<lambda>a.
      and_then (when_set (cfg_get_value cfg CFG_CONTROLLER_HEARTBEAT_THRESHOLD) agent_set_controller_heartbeat_threshold a) (\<lambda>a.
      and_then (when_set (cfg_get_value cfg CFG_CONNECTION_RETRY_COUNT_UNTIL_QUIET)
                 agent_set_connection_retry_count_until_quiet a) (\<lambda>a.
      and_then (when_set (cfg_get_value cfg CFG_TCP_KEEPALIVE_TIME)
                 (\<lambda>v. agent_set_socket_option (socket_options_set_tcp_keepidle (Some v))) a) (\<lambda>a.
      and_then (when_set (cfg_get_value cfg CFG_TCP_KEEPALIVE_INTERVAL)
                 (\<lambda>v. agent_set_socket_option (socket_options_set_tcp_keepintvl (Some v))) a) (\<lambda>a.
      and_then (when_set (cfg_get_value cfg CFG_TCP_KEEPALIVE_COUNT)
                 (\<lambda>v. agent_set_socket_option (socket_options_set_tcp_keepcnt (Some v))) a) (\<lambda>a.
      Some (agent_set_socket_option (socket_options_set_ip_recverr (cfg_get_bool_value cfg CFG_IP_RECEIVE_ERRORS)) a))))))))))))"

section \<open>The address of the controller\<close>

definition ensure_assembled_controller_address :: "aenv \<Rightarrow> Agent \<Rightarrow> bool \<times> Agent" where
  "ensure_assembled_controller_address e a =
     (let N = a_net e in
      case ag_assembled_address a of
        Some _ \<Rightarrow> (True, a)
      | None \<Rightarrow>
        (case ag_controller_address a of
           Some addr \<Rightarrow> agent_set_assembled_controller_address addr a
         | None \<Rightarrow>
           (case ag_host a of
              None \<Rightarrow> (False, a)
            | Some host \<Rightarrow>
                let host_is_ipv4 = is_ipv4 N (Some host);
                    host_is_ipv6 = is_ipv6 N (Some host);
                    (r, resolved) = (if \<not> host_is_ipv4 \<and> \<not> host_is_ipv6 then get_address N (Some host) else (0, None));
                    ip_address = (if \<not> host_is_ipv4 \<and> \<not> host_is_ipv6 then resolved else Some host);
                    port = word_of_int (ag_port a)
                in if r < 0 then (False, a)
                   else if host_is_ipv4 \<or> is_ipv4 N ip_address then
                     (case Option.bind ip_address (inet_pton4 N) of
                        None \<Rightarrow> (False, a)
                      | Some addr \<Rightarrow>
                          (case assemble_tcp_address N (Some \<lparr>sin_addr = addr, sin_port = port\<rparr>) of
                             None \<Rightarrow> (False, a) | Some s \<Rightarrow> agent_set_assembled_controller_address s a))
                   else if host_is_ipv6 \<or> is_ipv6 N ip_address then
                     (case Option.bind ip_address (inet_pton6 N) of
                        None \<Rightarrow> (False, a)
                      | Some addr \<Rightarrow>
                          (case assemble_tcp_address_v6 N (Some \<lparr>sin_addr = addr, sin_port = port\<rparr>) of
                             None \<Rightarrow> (False, a) | Some s \<Rightarrow> agent_set_assembled_controller_address s a))
                   else (False, a))))"

section \<open>Connecting\<close>

definition agent_peer_bus_close :: "Agent \<Rightarrow> Agent" where
  "agent_peer_bus_close a = a\<lparr>ag_register_slot := False, ag_peer_dbus := None\<rparr>"

text \<open>The socket options are applied to the new bus; their result is not used.\<close>

definition agent_connect :: "aenv \<Rightarrow> Agent \<Rightarrow> bool \<times> Agent" where
  "agent_connect e a =
     (let a1 = a\<lparr>ag_state := AGENT_CONNECTION_STATE_CONNECTING\<rparr>
      in if \<not> peer_bus_open (\<lambda>c. a_ret e (ABus c)) True (ag_assembled_address a1) then (False, a1\<lparr>ag_peer_dbus := None\<rparr>)
         else let b = ag_next_bus a1;
                  a2 = a1\<lparr>ag_peer_dbus := Some b, ag_next_bus := b + 1\<rparr>
              in if a_ret e (AAddVtable ''Agent'') < 0 then (False, a2)
                 else if a_ret e (ACallAsync ''Register'') < 0 then (False, a2)
                 else (True, aput (CallRegister b (ag_name a2)) (a2\<lparr>ag_register_slot := True\<rparr>)))"

definition agent_reconnect :: "aenv \<Rightarrow> Agent \<Rightarrow> bool \<times> Agent" where
  "agent_reconnect e a =
     (let old = ag_assembled_address a;
          (ok, a1) = ensure_assembled_controller_address e (a\<lparr>ag_assembled_address := None\<rparr>)
      in if \<not> ok then (False, a1)
         else let a2 = (case (ag_assembled_address a1, old) of
                          (Some new, Some prev) \<Rightarrow>
                            if new \<noteq> prev then emit_property e ''ControllerAddress'' PropControllerAddress a1 else a1
                        | _ \<Rightarrow> a1)
              in agent_connect e (agent_peer_bus_close a2))"

definition agent_disconnected :: "aenv \<Rightarrow> Agent \<Rightarrow> Agent" where
  "agent_disconnected e a =
     (let a1 = emit_property e ''Status'' PropStatus (a\<lparr>ag_state := AGENT_CONNECTION_STATE_RETRY\<rparr>);
          a2 = a1\<lparr>ag_disconnect_timestamp := a_time e, ag_disconnect_timestamp_monotonic := a_time_monotonic e\<rparr>
      in snd (agent_reconnect e a2))"

section \<open>Registration\<close>

text \<open>The result of the function is read as a boolean: an error of the controller, returned as \<open>-EPERM\<close>, counts as
  success.  The reply body is empty.\<close>

definition reemit_proxy_new :: "aenv \<Rightarrow> aref \<Rightarrow> Agent \<Rightarrow> Agent option" where
  "reemit_proxy_new e p a = map_option snd (proxy_service_emit_proxy_new e p a)"

definition agent_process_register_callback :: "aenv \<Rightarrow> bool \<Rightarrow> Agent \<Rightarrow> (bool \<times> Agent) option" where
  "agent_process_register_callback e is_error a =
     (if is_error then Some (True, a)
      else if a_ret e ARead < 0 then Some (False, a)
      else
        let a1 = a\<lparr>ag_log := bc_log_set_quiet (cfg_get_bool_value (ag_config a) CFG_LOG_IS_QUIET) (ag_log a),
                   ag_state := AGENT_CONNECTION_STATE_CONNECTED, ag_retry_count := 0, ag_last_seen := a_time e,
                   ag_last_seen_monotonic := a_time_monotonic e, ag_disconnect_timestamp := 0,
                   ag_disconnect_timestamp_monotonic := 0\<rparr>;
            a2 = emit_property e ''Status'' PropStatus a1
        in if a_ret e (AMatch ''Heartbeat'') < 0 then Some (False, a2)
           else if a_ret e (AMatch ''Disconnected'') < 0 then Some (False, a2)
           else map_option (\<lambda>a3. (True, a3)) (foldo (reemit_proxy_new e) (ag_proxies a2) a2))"

definition agent_register_callback :: "aenv \<Rightarrow> bool \<Rightarrow> Agent \<Rightarrow> Agent option" where
  "agent_register_callback e is_error a =
     (if ag_state a \<noteq> AGENT_CONNECTION_STATE_CONNECTING then Some (a\<lparr>ag_register_slot := False\<rparr>)
      else do { (ok, a1) \<leftarrow> agent_process_register_callback e is_error a;
                Some (if ok then a1 else a1\<lparr>ag_state := AGENT_CONNECTION_STATE_RETRY\<rparr>) })"

section \<open>Heartbeats\<close>

definition agent_check_controller_liveness :: "aenv \<Rightarrow> Agent \<Rightarrow> bool \<times> Agent" where
  "agent_check_controller_liveness e a =
     (let now = a_time_monotonic e in
      if ag_controller_heartbeat_threshold_msec a \<le> 0 then (True, a)
      else if now = USEC_INFINITY then (True, a)
      else if now < ag_last_seen_monotonic a then (True, a)
      else if word_of_int (ag_controller_heartbeat_threshold_msec a) * USEC_PER_MSEC < now - ag_last_seen_monotonic a
      then (False, agent_disconnected e a)
      else (True, a))"

text \<open>The work of the timer callback before it arms the timer again.\<close>

definition heartbeat_tick :: "aenv \<Rightarrow> Agent \<Rightarrow> Agent" where
  "heartbeat_tick e a =
     (let a1 = (if ag_state a = AGENT_CONNECTION_STATE_CONNECTING
                then a\<lparr>ag_register_slot := False, ag_state := AGENT_CONNECTION_STATE_RETRY\<rparr> else a);
          (live, a2) = (if ag_state a1 = AGENT_CONNECTION_STATE_CONNECTED then agent_check_controller_liveness e a1 else (False, a1))
      in if live then snd (emit_peer e ''Heartbeat'' SigHeartbeat a2)
         else if ag_state a2 = AGENT_CONNECTION_STATE_RETRY then
           let a3 = a2\<lparr>ag_retry_count := ag_retry_count a2 + 1\<rparr>;
               a4 = (if ag_retry_count a3 = ag_retry_count_until_quiet a3 then a3\<lparr>ag_log := bc_log_set_quiet True (ag_log a3)\<rparr> else a3)
           in snd (agent_reconnect e a4)
         else a2)"

definition agent_reset_heartbeat_timer ::
    "(event_call \<Rightarrow> int) \<Rightarrow> 64 word \<Rightarrow> event_source option \<Rightarrow> Agent \<Rightarrow> int \<times> event_source option" where
  "agent_reset_heartbeat_timer ev usec_now src a =
     event_reset_time_relative ev usec_now src 7 (word_of_int (ag_heartbeat_interval_msec a) * USEC_PER_MSEC) True False"

definition agent_heartbeat_timer_callback ::
    "aenv \<Rightarrow> (event_call \<Rightarrow> int) \<Rightarrow> 64 word \<Rightarrow> event_source option \<Rightarrow> Agent \<Rightarrow> int \<times> event_source option \<times> Agent" where
  "agent_heartbeat_timer_callback e ev usec_now src a =
     (let a1 = heartbeat_tick e a;
          (r, src') = agent_reset_heartbeat_timer ev usec_now src a1
      in (if r < 0 then r else 0, src', a1))"

text \<open>The result of making the source floating is not modelled.\<close>

definition agent_setup_heartbeat_timer ::
    "(event_call \<Rightarrow> int) \<Rightarrow> 64 word \<Rightarrow> Agent \<Rightarrow> int \<times> event_source option" where
  "agent_setup_heartbeat_timer ev usec_now a =
     (if ag_heartbeat_interval_msec a \<le> 0 then (0, None)
      else let (r, src) = agent_reset_heartbeat_timer ev usec_now None a
           in if r < 0 then (r, None) else (ev EvSetFloating, if ev EvSetFloating < 0 then None else src))"

definition agent_match_heartbeat :: "aenv \<Rightarrow> Agent \<Rightarrow> int \<times> Agent" where
  "agent_match_heartbeat e a =
     (if a_time e = USEC_INFINITY \<or> a_time_monotonic e = USEC_INFINITY then (0, a)
      else (1, a\<lparr>ag_last_seen := a_time e, ag_last_seen_monotonic := a_time_monotonic e\<rparr>))"

section \<open>Requests on the local bus\<close>

definition agent_method_switch_controller :: "aenv \<Rightarrow> amsg \<Rightarrow> string \<Rightarrow> Agent \<Rightarrow> Agent" where
  "agent_method_switch_controller e m dbus_address a =
     (if ag_assembled_address a = Some dbus_address
      then areply e m (AError BUS_ERROR_FAILED ''Failed to switch controller because already connected to the controller'') a
      else let a1 = snd (agent_set_controller_address dbus_address (snd (agent_set_assembled_controller_address dbus_address a)));
               a2 = emit_property e ''ControllerAddress'' PropControllerAddress a1
           in areply e m AOk (agent_disconnected e a2))"

definition agent_property_get_status :: "Agent \<Rightarrow> string" where
  "agent_property_get_status a = agent_is_online a"

definition agent_property_get_log_level :: "Agent \<Rightarrow> string" where
  "agent_property_get_log_level a = log_level_to_string (bc_log_get_level (ag_log a))"

definition agent_property_get_log_target :: "Agent \<Rightarrow> cstring" where
  "agent_property_get_log_target a = log_target_to_str (bc_log_get_log_fn (ag_log a))"

section \<open>Start and stop\<close>

text \<open>The calls of the start, in order, up to the list of units; \<open>user\<close> chooses the user bus, as the build may for the public API.\<close>

definition start_calls :: "bool \<Rightarrow> aenv \<Rightarrow> bool" where
  "start_calls user e =
     (let bus = (\<lambda>c. a_ret e (ABus c))
      in (if user \<or> a_user_api_bus e then user_bus_open bus else system_bus_open bus) \<and>
         \<not> a_ret e (AAddVtable ''PublicAgent'') < 0 \<and> \<not> a_ret e ARequestName < 0 \<and>
         (if user then user_bus_open bus else systemd_bus_open bus (a_euid e) (a_peercred e)) \<and>
         \<not> a_ret e (ACall ''Subscribe'') < 0 \<and>
         \<not> a_ret e (AMatch ''JobChanged'') < 0 \<and> \<not> a_ret e (AMatch ''UnitChanged'') < 0 \<and>
         \<not> a_ret e (AMatch ''UnitNew'') < 0 \<and> \<not> a_ret e (AMatch ''UnitRemoved'') < 0 \<and>
         \<not> a_ret e (AMatch ''JobRemoved'') < 0 \<and> \<not> a_ret e (ACall ''ListUnits'') < 0)"

text \<open>The state in which the event loop starts (\<open>True\<close>), or the failure; \<open>units\<close> is the reply of \<open>ListUnits\<close>.\<close>

definition agent_start ::
    "aenv \<Rightarrow> (event_call \<Rightarrow> int) \<Rightarrow> 64 word \<Rightarrow> (string \<times> string \<times> string \<times> string) list \<Rightarrow> Agent \<Rightarrow> (bool \<times> event_source option \<times> Agent) option" where
  "agent_start e ev usec_now units a =
     (if ag_name a = None then Some (False, None, a)
      else let (ok, a1) = ensure_assembled_controller_address e a
           in if \<not> ok then Some (False, None, a1)
              else if \<not> start_calls (ag_systemd_user a1) e then Some (False, None, a1)
              else do {
                a2 \<leftarrow> agent_init_units units a1;
                if a_ret e AShutdownSignals < 0 then Some (False, None, a2)
                else let (r, src) = agent_setup_heartbeat_timer ev usec_now a2
                     in if r < 0 then Some (False, src, a2)
                        else let (connected, a3) = agent_connect e a2;
                                 a4 = (if connected then a3 else a3\<lparr>ag_state := AGENT_CONNECTION_STATE_RETRY\<rparr>)
                             in Some (True, src, a4) })"

definition agent_stop :: "aenv \<Rightarrow> Agent \<Rightarrow> Agent option" where
  "agent_stop e a =
     (let a1 = emit_property e ''Status'' PropStatus
                 ((agent_peer_bus_close a)\<lparr>ag_state := AGENT_CONNECTION_STATE_DISCONNECTED\<rparr>)
      in foldo (\<lambda>p. agent_remove_proxy e p False) (ag_proxies a1) a1)"

end
