(* ===== verification/Agent_Units_Props.thy ===== *)
theory Agent_Units_Props
  imports Agent_Units
begin

text \<open>The unit table of the agent implements two sets and a flag, and its signals tell the
  controller exactly about the units it asked for.\<close>

section \<open>The table as two sets\<close>

lemma table_update:
  assumes "agent_get_unit_info a' = (agent_get_unit_info a)(make_unit_path u \<mapsto> i)"
  shows "subscribed_units a' = (if ui_subscribed i then insert u (subscribed_units a) else subscribed_units a - {u})"
    "loaded_units a' = (if ui_loaded i then insert u (loaded_units a) else loaded_units a - {u})"
    "units_ok a \<Longrightarrow> ui_unit i = u \<Longrightarrow> ui_subscribed i \<or> ui_loaded i \<Longrightarrow> units_ok a'"
  unfolding subscribed_units_def loaded_units_def units_ok_def assms by (auto split: if_splits)

lemma table_delete:
  assumes "agent_get_unit_info a' = (agent_get_unit_info a)(make_unit_path u := None)"
  shows "subscribed_units a' = subscribed_units a - {u}" "loaded_units a' = loaded_units a - {u}"
    "units_ok a \<Longrightarrow> units_ok a'"
  unfolding subscribed_units_def loaded_units_def units_ok_def assms by (auto split: if_splits)

lemma table_same:
  assumes "agent_get_unit_info a' = agent_get_unit_info a"
  shows "subscribed_units a' = subscribed_units a" "loaded_units a' = loaded_units a" "units_ok a' = units_ok a"
  unfolding subscribed_units_def loaded_units_def units_ok_def assms by auto

lemma in_table:
  assumes "agent_get_unit_info a (make_unit_path u) = Some i"
  shows "u \<in> subscribed_units a \<longleftrightarrow> ui_subscribed i" "u \<in> loaded_units a \<longleftrightarrow> ui_loaded i"
    "units_ok a \<Longrightarrow> ui_unit i = u" "units_ok a \<Longrightarrow> ui_subscribed i \<or> ui_loaded i"
proof -
  show "ui_unit i = u" if "units_ok a"
    using that assms unfolding units_ok_def by (metis make_unit_path_eq)
qed (use assms in \<open>auto simp: subscribed_units_def loaded_units_def units_ok_def\<close>)

lemma is_wildcard_iff: "is_wildcard u \<longleftrightarrow> u = ''*''"
  by (simp add: is_wildcard_def SYMBOL_WILDCARD_def)

lemma not_in_table:
  assumes "agent_get_unit_info a (make_unit_path u) = None"
  shows "u \<notin> subscribed_units a" "u \<notin> loaded_units a"
  using assms by (auto simp: subscribed_units_def loaded_units_def)

text \<open>The abstract state: the subscribed units, the loaded units, whether all are subscribed.\<close>

type_synonym watch = "string set \<times> string set \<times> bool"

definition watch_of :: "Agent \<Rightarrow> watch" where
  "watch_of a = (subscribed_units a, loaded_units a, ag_wildcard a)"

definition spec_subscribe :: "string \<Rightarrow> watch \<Rightarrow> watch" where
  "spec_subscribe u w = (let (S, L, all) = w in if u = ''*'' then (S, L, True) else (insert u S, L, all))"

definition spec_unsubscribe :: "string \<Rightarrow> watch \<Rightarrow> watch" where
  "spec_unsubscribe u w = (let (S, L, all) = w in if u = ''*'' then (S, L, False) else (S - {u}, L, all))"

definition spec_load :: "string \<Rightarrow> watch \<Rightarrow> watch" where
  "spec_load u w = (let (S, L, all) = w in (S, insert u L, all))"

definition spec_unload :: "string \<Rightarrow> watch \<Rightarrow> watch" where
  "spec_unload u w = (let (S, L, all) = w in (S, L - {u}, all))"

lemma subscribe_refines:
  assumes "units_ok a"
  shows "units_ok (agent_method_subscribe e m u a) \<and> watch_of (agent_method_subscribe e m u a) = spec_subscribe u (watch_of a)"
proof (cases "is_wildcard u")
  case True
  then have g: "agent_get_unit_info (agent_method_subscribe e m u a) = agent_get_unit_info a"
    and "ag_wildcard (agent_method_subscribe e m u a)"
    by (simp_all add: agent_method_subscribe_def)
  then show ?thesis using assms True table_same [OF g] by (simp add: watch_of_def spec_subscribe_def is_wildcard_iff)
next
  case False
  obtain info a1 where en: "agent_ensure_unit_info u a = (info, a1)" by fastforce
  note en' = ensure_unit_info [OF en]
  have "agent_get_unit_info (agent_method_subscribe e m u a) =
      (agent_get_unit_info a)(make_unit_path u \<mapsto> info\<lparr>ui_subscribed := True\<rparr>)"
    using False en' by (auto simp: agent_method_subscribe_def en Let_def fun_eq_iff)
  note t = table_update [OF this]
  have "ui_unit info = u" using en'(5) in_table(3) assms by blast
  moreover have "(if ui_loaded info then insert u (loaded_units a) else loaded_units a - {u}) = loaded_units a"
    using en'(5) in_table(2) not_in_table(2) by (auto split: if_splits)
  moreover have "ag_wildcard (agent_method_subscribe e m u a) = ag_wildcard a"
    using False en'(2) by (simp add: agent_method_subscribe_def en Let_def)
  moreover have "u \<noteq> ''*''" using False by (simp add: is_wildcard_iff)
  ultimately show ?thesis using t assms by (simp add: watch_of_def spec_subscribe_def)
qed

lemma unsubscribe_refines:
  assumes "units_ok a"
  shows "units_ok (agent_method_unsubscribe e m u a) \<and> watch_of (agent_method_unsubscribe e m u a) = spec_unsubscribe u (watch_of a)"
proof (cases "is_wildcard u")
  case True
  then have g: "agent_get_unit_info (agent_method_unsubscribe e m u a) = agent_get_unit_info a"
    and "\<not> ag_wildcard (agent_method_unsubscribe e m u a)"
    by (simp_all add: agent_method_unsubscribe_def)
  then show ?thesis using assms True table_same [OF g] by (simp add: watch_of_def spec_unsubscribe_def is_wildcard_iff)
next
  case False
  then have w: "ag_wildcard (agent_method_unsubscribe e m u a) = ag_wildcard a" "u \<noteq> ''*''"
    by (simp_all add: agent_method_unsubscribe_def Let_def is_wildcard_iff split: option.split)
  consider "u \<notin> subscribed_units a" | i where "agent_get_unit_info a (make_unit_path u) = Some i" "ui_subscribed i"
    by (auto simp: subscribed_units_def)
  then show ?thesis
  proof cases
    case 1
    then have g: "agent_get_unit_info (agent_method_unsubscribe e m u a) = agent_get_unit_info a"
      using False by (auto simp: agent_method_unsubscribe_def subscribed_units_def split: option.split)
    then show ?thesis using assms w 1 table_same [OF g] by (simp add: watch_of_def spec_unsubscribe_def)
  next
    case (2 i)
    let ?a = "agent_method_unsubscribe e m u a"
    have g: "agent_get_unit_info ?a = (agent_get_unit_info a)(make_unit_path u :=
        if ui_loaded i then Some (i\<lparr>ui_subscribed := False\<rparr>) else None)"
      using False 2 by (auto simp: agent_method_unsubscribe_def Let_def fun_eq_iff)
    show ?thesis
    proof (cases "ui_loaded i")
      case True
      then show ?thesis using table_update [of ?a a u "i\<lparr>ui_subscribed := False\<rparr>"] g assms in_table [OF 2(1)] w
        by (auto simp: watch_of_def spec_unsubscribe_def)
    next
      case False
      then show ?thesis using table_delete [of ?a a u] g assms in_table [OF 2(1)] w
        by (auto simp: watch_of_def spec_unsubscribe_def)
    qed
  qed
qed

lemma unit_new_refines:
  assumes "units_ok a"
  shows "units_ok (agent_match_unit_new e u a) \<and> watch_of (agent_match_unit_new e u a) = spec_load u (watch_of a)"
proof -
  obtain info a1 where en: "agent_ensure_unit_info u a = (info, a1)" by fastforce
  note en' = ensure_unit_info [OF en]
  have "agent_get_unit_info (agent_match_unit_new e u a) = (agent_get_unit_info a)(make_unit_path u \<mapsto>
      info\<lparr>ui_loaded := True, ui_active_state := UNIT_INACTIVE, ui_substate := Some ''dead''\<rparr>)"
    using en' by (auto simp: agent_match_unit_new_def en Let_def fun_eq_iff)
  note t = table_update [OF this]
  have "ui_unit info = u" using en'(5) in_table(3) assms by blast
  moreover have "(if ui_subscribed info then insert u (subscribed_units a) else subscribed_units a - {u}) = subscribed_units a"
    using en'(5) in_table(1) not_in_table(1) by (auto split: if_splits)
  moreover have "ag_wildcard (agent_match_unit_new e u a) = ag_wildcard a"
    using en'(2) by (simp add: agent_match_unit_new_def en Let_def)
  ultimately show ?thesis using t assms by (simp add: watch_of_def spec_load_def)
qed

lemma unit_removed_refines:
  assumes "units_ok a"
  shows "units_ok (agent_match_unit_removed e (make_unit_path u) a) \<and>
    watch_of (agent_match_unit_removed e (make_unit_path u) a) = spec_unload u (watch_of a)"
proof (cases "agent_get_unit_info a (make_unit_path u)")
  case None
  then show ?thesis using assms not_in_table(2) by (simp add: agent_match_unit_removed_def watch_of_def spec_unload_def)
next
  case (Some i)
  let ?a = "agent_match_unit_removed e (make_unit_path u) a"
  let ?i = "i\<lparr>ui_loaded := False, ui_active_state := UNIT_ACTIVE_STATE_INVALID, ui_substate := None\<rparr>"
  have g: "agent_get_unit_info ?a = (agent_get_unit_info a)(make_unit_path u := if ui_subscribed i then Some ?i else None)"
    using Some by (auto simp: agent_match_unit_removed_def Let_def fun_eq_iff)
  have w: "ag_wildcard ?a = ag_wildcard a" using Some by (simp add: agent_match_unit_removed_def Let_def)
  show ?thesis
  proof (cases "ui_subscribed i")
    case True
    then show ?thesis using table_update [of ?a a u ?i] g assms in_table [OF Some] w
      by (auto simp: watch_of_def spec_unload_def)
  next
    case False
    then show ?thesis using table_delete [of ?a a u] g assms in_table [OF Some] w
      by (auto simp: watch_of_def spec_unload_def)
  qed
qed

lemma unit_info_update_state_flags:
  "unit_info_update_state items i = (c, j) \<Longrightarrow>
     ui_unit j = ui_unit i \<and> ui_subscribed j = ui_subscribed i \<and> ui_loaded j = ui_loaded i"
  by (auto simp: unit_info_update_state_def Let_def split: prod.splits if_splits)

lemma unit_changed_refines:
  assumes "units_ok a"
  shows "units_ok (agent_match_unit_changed e p ifc items a) \<and> watch_of (agent_match_unit_changed e p ifc items a) = watch_of a"
proof (cases "agent_get_unit_info a p")
  case None
  then show ?thesis using assms by (simp add: agent_match_unit_changed_def)
next
  case (Some i)
  then have p: "p = make_unit_path (ui_unit i)" using assms by (simp add: units_ok_def)
  obtain c j where j: "(if ifc = SYSTEMD_UNIT_IFACE then unit_info_update_state items i else (False, i)) = (c, j)" by fastforce
  then have f: "ui_unit j = ui_unit i" "ui_subscribed j = ui_subscribed i" "ui_loaded j = ui_loaded i"
    using unit_info_update_state_flags [of items i c j] by (auto split: if_splits)
  have g: "agent_get_unit_info (agent_match_unit_changed e p ifc items a) = (agent_get_unit_info a)(p \<mapsto> j)"
    using Some by (auto simp: agent_match_unit_changed_def j Let_def fun_eq_iff)
  have "ag_wildcard (agent_match_unit_changed e p ifc items a) = ag_wildcard a"
    using Some by (auto simp: agent_match_unit_changed_def j Let_def)
  then show ?thesis
    using table_update [OF g [unfolded p]] assms f Some in_table [of a "ui_unit i" i]
    by (auto simp: watch_of_def p)
qed

text \<open>C14. The unit table of the agent.  Subscribe, unsubscribe, the signals of systemd about new and
  removed units and changed properties implement the operations on a set of subscribed
  units, a set of loaded units and a flag for all units; the table holds exactly the units
  in one of the sets, each under its own object path.\<close>

theorem agent_unit_table:
  assumes "units_ok a"
  shows "(units_ok (agent_method_subscribe e m u a) \<and> watch_of (agent_method_subscribe e m u a) = spec_subscribe u (watch_of a)) \<and>
    (units_ok (agent_method_unsubscribe e m u a) \<and> watch_of (agent_method_unsubscribe e m u a) = spec_unsubscribe u (watch_of a)) \<and>
    (units_ok (agent_match_unit_new e u a) \<and> watch_of (agent_match_unit_new e u a) = spec_load u (watch_of a)) \<and>
    (units_ok (agent_match_unit_removed e (make_unit_path u) a) \<and>
      watch_of (agent_match_unit_removed e (make_unit_path u) a) = spec_unload u (watch_of a)) \<and>
    (units_ok (agent_match_unit_changed e p ifc items a) \<and> watch_of (agent_match_unit_changed e p ifc items a) = watch_of a) \<and>
    dom (agent_get_unit_info a) = make_unit_path ` (subscribed_units a \<union> loaded_units a)"
proof -
  have "p \<in> make_unit_path ` (subscribed_units a \<union> loaded_units a)" if i: "agent_get_unit_info a p = Some i" for p i
  proof -
    have "p = make_unit_path (ui_unit i)" "ui_subscribed i \<or> ui_loaded i" using assms i by (auto simp: units_ok_def)
    then show ?thesis using in_table [of a "ui_unit i" i] i by auto
  qed
  then have "dom (agent_get_unit_info a) = make_unit_path ` (subscribed_units a \<union> loaded_units a)"
    by (auto simp: subscribed_units_def loaded_units_def)
  then show ?thesis
    using subscribe_refines [OF assms] unsubscribe_refines [OF assms] unit_new_refines [OF assms]
      unit_removed_refines [OF assms] unit_changed_refines [OF assms] by simp
qed

text \<open>An environment in which every call succeeds: the address \<open>n\<close> of version 4 is written as \<open>n + 1\<close> points, that of
  version 6 as \<open>n + 1\<close> colons, and the host \<open>h\<close> has the address 1.\<close>

definition ref_net :: net_env where
  "ref_net =
     \<lparr>inet_pton4 = \<lambda>s. if set s \<subseteq> {CHR ''.''} \<and> s \<noteq> [] then Some (length s - 1) else None,
      inet_ntop4 = \<lambda>n. replicate (n + 1) (CHR ''.''),
      inet_pton6 = \<lambda>s. if set s \<subseteq> {CHR '':''} \<and> s \<noteq> [] then Some (length s - 1) else None,
      inet_ntop6 = \<lambda>n. replicate (n + 1) (CHR '':''),
      resolve_addr = \<lambda>s. if s = ''h'' then Inr (AF_INET, 1) else Inl (- 2), ntop_mem = True, asprintf_mem = True\<rparr>"

definition ref_aenv :: aenv where
  "ref_aenv = \<lparr>a_ret = \<lambda>_. 0, a_time = 5000000, a_time_monotonic = 3000000, a_net = ref_net, a_euid = 0, a_user_api_bus = False, a_peercred = Inl 1\<rparr>"

lemma ref_aenv_ok: "abus_ok ref_aenv"
  by (simp add: abus_ok_def ref_aenv_def)

text \<open>An agent with a connection to the controller and one loaded unit.\<close>

definition example_agent :: Agent where
  "example_agent = agent_match_unit_new ref_aenv ''db'' (agent_new\<lparr>ag_peer_dbus := Some 1\<rparr>)"

lemma example_agent_units: "units_ok example_agent" "watch_of example_agent = ({}, {''db''}, False)"
proof -
  have "units_ok (agent_new\<lparr>ag_peer_dbus := Some 1\<rparr>)" "watch_of (agent_new\<lparr>ag_peer_dbus := Some 1\<rparr>) = ({}, {}, False)"
    by (simp_all add: units_ok_def watch_of_def subscribed_units_def loaded_units_def agent_get_unit_info_def agent_new_def)
  then show "units_ok example_agent" "watch_of example_agent = ({}, {''db''}, False)"
    using unit_new_refines [of "agent_new\<lparr>ag_peer_dbus := Some 1\<rparr>" ref_aenv "''db''"]
    by (simp_all add: example_agent_def spec_load_def)
qed

theorem agent_unit_table_witness:
  "watch_of (agent_method_subscribe ref_aenv 3 ''web'' example_agent) = ({''web''}, {''db''}, False) \<and>
   watch_of (agent_match_unit_removed ref_aenv (make_unit_path ''db'') example_agent) = ({}, {}, False)"
  using agent_unit_table [OF example_agent_units(1), of ref_aenv 3 "''web''"]
    agent_unit_table [OF example_agent_units(1), of ref_aenv 3 "''db''"]
  by (simp add: example_agent_units(2) spec_subscribe_def spec_unload_def)

section \<open>Signals\<close>

lemma emit_peer_ok:
  "abus_ok e \<Longrightarrow> ag_peer_dbus a = Some b \<Longrightarrow> snd (emit_peer e n s a) = aput (s b) a"
  by (simp add: emit_peer_def)

lemma areply_ok: "abus_ok e \<Longrightarrow> areply e m r a = aput (AReply m r) a"
  by (simp add: areply_def)

lemma aput_out [simp]: "ag_out (aput m a) = ag_out a @ [m]"
  by (simp add: aput_def)

lemma agent_emit_ok:
  assumes "abus_ok e" "ag_peer_dbus a = Some b"
  shows "agent_emit_unit_new e i r a = aput (SigUnitNew b (ui_unit i) r) a"
    "agent_emit_unit_removed e i a = aput (SigUnitRemoved b (ui_unit i)) a"
    "agent_emit_unit_state_changed e i r a =
       aput (SigUnitStateChanged b (ui_unit i) (active_state_to_string (ui_active_state i)) (unit_info_get_substate i) r) a"
  by (simp_all add: agent_emit_defs emit_peer_ok [OF assms])

definition interesting :: "string \<Rightarrow> Agent \<Rightarrow> bool" where
  "interesting u a = (u \<in> subscribed_units a \<or> ag_wildcard a)"

text \<open>What a fresh subscription of a unit reports: its presence and state, when it is loaded.\<close>

definition virtual_signals :: "nat \<Rightarrow> AgentUnitInfo \<Rightarrow> agent_out list" where
  "virtual_signals b i =
     (if \<not> ui_loaded i then []
      else SigUnitNew b (ui_unit i) ''virtual'' #
        (if ui_active_state i = UNIT_ACTIVE_STATE_INVALID then []
         else [SigUnitStateChanged b (ui_unit i) (active_state_to_string (ui_active_state i)) (unit_info_get_substate i) ''virtual'']))"

lemma subscribe_signals:
  assumes ok: "abus_ok e" "units_ok a" "ag_peer_dbus a = Some b" and u: "u \<noteq> ''*''"
  shows "ag_out (agent_method_subscribe e m u a) = ag_out a @
    (if u \<in> subscribed_units a then [AReply m (AError BUS_ERROR_FAILED ''Already subscribed'')]
     else (case agent_get_unit_info a (make_unit_path u) of None \<Rightarrow> [] | Some i \<Rightarrow> virtual_signals b i) @ [AReply m AOk])"
proof -
  obtain i a1 where en: "agent_ensure_unit_info u a = (i, a1)" by fastforce
  note en' = ensure_unit_info [OF en]
  have w: "\<not> is_wildcard u" using u by (simp add: is_wildcard_iff)
  have s: "u \<in> subscribed_units a \<longleftrightarrow> ui_subscribed i" using en'(5) in_table(1) not_in_table(1) by blast
  have pd: "ag_peer_dbus (set_unit_info p j a1) = Some b" for p j using en'(3) ok(3) by simp
  have v: "(case agent_get_unit_info a (make_unit_path u) of None \<Rightarrow> [] | Some i \<Rightarrow> virtual_signals b i) = virtual_signals b i"
    using en'(5) by (auto simp: virtual_signals_def)
  show ?thesis
    using en'(3,4) ok(3) unfolding v s
    by (simp add: agent_method_subscribe_def w en Let_def areply_ok [OF ok(1)] agent_emit_ok [OF ok(1)] virtual_signals_def
        unit_info_get_substate_def)
qed

lemma unit_new_signals:
  assumes ok: "abus_ok e" "units_ok a" "ag_peer_dbus a = Some b"
  shows "ag_out (agent_match_unit_new e u a) = ag_out a @ (if interesting u a then [SigUnitNew b u ''real''] else [])"
proof -
  obtain i a1 where en: "agent_ensure_unit_info u a = (i, a1)" by fastforce
  note en' = ensure_unit_info [OF en]
  have s: "u \<in> subscribed_units a \<longleftrightarrow> ui_subscribed i" using en'(5) in_table(1) not_in_table(1) by blast
  have "ui_unit i = u" using en'(5) in_table(3) ok(2) by blast
  then show ?thesis
    using en'(3,4) ok(3) by (simp add: agent_match_unit_new_def en Let_def agent_emit_ok [OF ok(1)] interesting_def s)
qed

lemma unit_removed_signals:
  assumes ok: "abus_ok e" "units_ok a" "ag_peer_dbus a = Some b"
  shows "ag_out (agent_match_unit_removed e (make_unit_path u) a) = ag_out a @
    (if u \<in> subscribed_units a \<union> loaded_units a \<and> interesting u a then [SigUnitRemoved b u] else [])"
proof (cases "agent_get_unit_info a (make_unit_path u)")
  case None
  then show ?thesis using not_in_table by (simp add: agent_match_unit_removed_def)
next
  case (Some i)
  then show ?thesis using in_table [OF Some] ok
    by (auto simp: agent_match_unit_removed_def Let_def agent_emit_ok [OF ok(1)] interesting_def)
qed

lemma unit_changed_signals:
  assumes ok: "abus_ok e" "units_ok a" "ag_peer_dbus a = Some b"
    and i: "agent_get_unit_info a (make_unit_path u) = Some i" and j: "unit_info_update_state items i = (changed, j)"
  shows "ag_out (agent_match_unit_changed e (make_unit_path u) SYSTEMD_UNIT_IFACE items a) = ag_out a @
    (if interesting u a then
       (if changed then [SigUnitStateChanged b u (active_state_to_string (ui_active_state j)) (unit_info_get_substate j) ''real'']
        else []) @ [SigUnitPropertiesChanged b u SYSTEMD_UNIT_IFACE items]
     else [])"
  using in_table [OF i] unit_info_update_state_flags [OF j] ok
  by (simp add: agent_match_unit_changed_def i j Let_def agent_emit_ok [OF ok(1)] emit_peer_ok [OF ok(1)] interesting_def)

text \<open>The signals of the agent.  With a connection to the controller, an event of a unit is forwarded
  exactly when the controller subscribed to the unit or to all units: a new unit, a removed
  unit that was known, a change of state, and every change of properties; a first
  subscription reports the unit and its state when it is loaded, and is confirmed.\<close>

theorem agent_unit_signals:
  assumes "abus_ok e" "units_ok a" "ag_peer_dbus a = Some b"
  shows "ag_out (agent_match_unit_new e u a) = ag_out a @ (if interesting u a then [SigUnitNew b u ''real''] else []) \<and>
    ag_out (agent_match_unit_removed e (make_unit_path u) a) = ag_out a @
      (if u \<in> subscribed_units a \<union> loaded_units a \<and> interesting u a then [SigUnitRemoved b u] else []) \<and>
    (\<forall>i j changed. agent_get_unit_info a (make_unit_path u) = Some i \<longrightarrow> unit_info_update_state items i = (changed, j) \<longrightarrow>
      ag_out (agent_match_unit_changed e (make_unit_path u) SYSTEMD_UNIT_IFACE items a) = ag_out a @
        (if interesting u a then
           (if changed then [SigUnitStateChanged b u (active_state_to_string (ui_active_state j)) (unit_info_get_substate j) ''real'']
            else []) @ [SigUnitPropertiesChanged b u SYSTEMD_UNIT_IFACE items]
         else [])) \<and>
    (u \<noteq> ''*'' \<longrightarrow> u \<notin> subscribed_units a \<longrightarrow> ag_out (agent_method_subscribe e m u a) = ag_out a @
      (case agent_get_unit_info a (make_unit_path u) of None \<Rightarrow> [] | Some i \<Rightarrow> virtual_signals b i) @ [AReply m AOk])"
  using unit_new_signals [OF assms] unit_removed_signals [OF assms] unit_changed_signals [OF assms] subscribe_signals [OF assms]
  by (simp add: subset_iff)

lemma example_agent_facts:
  "ag_peer_dbus example_agent = Some 1" "ag_out example_agent = []"
  "agent_get_unit_info example_agent (make_unit_path ''db'') =
     Some \<lparr>ui_unit = ''db'', ui_subscribed = False, ui_loaded = True, ui_active_state = UNIT_INACTIVE, ui_substate = Some ''dead''\<rparr>"
  by (simp_all add: example_agent_def agent_match_unit_new_def agent_ensure_unit_info_def agent_get_unit_info_def
      agent_new_def set_unit_info_def Let_def)

theorem agent_unit_signals_witness:
  "ag_out (agent_method_subscribe ref_aenv 3 ''db'' example_agent) =
     [SigUnitNew 1 ''db'' ''virtual'', SigUnitStateChanged 1 ''db'' ''inactive'' ''dead'' ''virtual'', AReply 3 AOk] \<and>
   ag_out (agent_match_unit_new ref_aenv ''db'' example_agent) = []"
proof -
  have i: "active_state_to_string UNIT_INACTIVE = ''inactive''" "UNIT_INACTIVE \<noteq> UNIT_ACTIVE_STATE_INVALID" by code_simp+
  have s: "subscribed_units example_agent = {}" "\<not> ag_wildcard example_agent"
    using example_agent_units(2) by (auto simp: watch_of_def)
  show ?thesis
    using agent_unit_signals [OF ref_aenv_ok example_agent_units(1) example_agent_facts(1), of "''db''" _ 3] s i
    by (simp add: example_agent_facts virtual_signals_def unit_info_get_substate_def interesting_def)
qed

end
