(* ===== verification/Agent_Proxy_Props.thy ===== *)
theory Agent_Proxy_Props
  imports Agent_Proxy Agent_Units_Props
begin

text \<open>What a proxy promises: it answers the local service once, when the unit on the other node has
  reached its first state, and stops the local service when that unit stops.\<close>

section \<open>What an operation on requests keeps\<close>

definition keeps :: "Agent \<Rightarrow> Agent \<Rightarrow> bool" where
  "keeps a t = (ag_proxies t = ag_proxies a \<and> ag_px_h t = ag_px_h a \<and> ag_next a \<le> ag_next t \<and>
     ag_unit_infos t = ag_unit_infos a \<and> ag_wildcard t = ag_wildcard a \<and> ag_state t = ag_state a \<and>
     ag_peer_dbus t = ag_peer_dbus a \<and> ag_register_slot t = ag_register_slot a \<and> ag_next_bus t = ag_next_bus a)"

lemma keeps_refl [simp]: "keeps a a"
  by (simp add: keeps_def)

lemma keeps_trans: "keeps a b \<Longrightarrow> keeps b c \<Longrightarrow> keeps a c"
  by (simp add: keeps_def)

lemma keeps_out [simp]:
  "keeps a (aput m b) = keeps a b" "keeps a (areply e q r b) = keeps a b"
  "keeps a (snd (emit_peer e n s b)) = keeps a b" "keeps a (emit_property e n m b) = keeps a b"
  by (simp_all add: keeps_def aput_def areply_def emit_peer_def emit_property_def split: option.split)

lemma keeps_refs_upd [simp]:
  "keeps a (b\<lparr>ag_requests := x\<rparr>) = keeps a b" "keeps a (b\<lparr>ag_req_h := h\<rparr>) = keeps a b"
  "keeps a (b\<lparr>ag_op_h := g\<rparr>) = keeps a b" "keeps a (b\<lparr>ag_ref := i\<rparr>) = keeps a b"
  "keeps a (b\<lparr>ag_tracked_jobs := ts\<rparr>) = keeps a b" "keeps a (set_areq r q b) = keeps a b" "keeps a (set_aop p op b) = keeps a b"
  by (simp_all add: keeps_def set_areq_def set_aop_def)

lemma with_request_keeps [simp]: "keeps a (with_request (ag_next a) q a)"
  by (simp add: keeps_def with_request_def)

lemma agent_unref_keeps: "agent_unref a = Some t \<Longrightarrow> 1 < ag_ref a \<Longrightarrow> keeps a t"
  by (auto simp: agent_unref_def split: if_splits)

section \<open>The invariant of the proxies\<close>

text \<open>Every live proxy is listed once and held by the list; it waits for the first state of its target
  as long as the request of the local service is open.\<close>

definition proxies_ok :: "Agent \<Rightarrow> bool" where
  "proxies_ok a =
     (distinct (ag_proxies a) \<and> dom (ag_px_h a) = set (ag_proxies a) \<and> (\<forall>p \<in> set (ag_proxies a). p < ag_next a) \<and>
      (\<forall>p px. ag_px_h a p = Some px \<longrightarrow> px_ref px = 1 \<and> px_agent px \<and> \<not> px_dont_stop_proxy px \<and>
         (px_request_message px = None \<longleftrightarrow> px_sent_successful_ready px)))"

lemma proxies_ok_keeps: "proxies_ok a \<Longrightarrow> keeps a t \<Longrightarrow> proxies_ok t"
  by (auto simp: proxies_ok_def keeps_def)

lemma proxies_okD:
  assumes "proxies_ok a" "ag_px_h a p = Some px"
  shows "p \<in> set (ag_proxies a)" "distinct (ag_proxies a)" "px_ref px = 1" "px_agent px" "\<not> px_dont_stop_proxy px"
    "px_request_message px = None \<longleftrightarrow> px_sent_successful_ready px"
  using assms by (auto simp: proxies_ok_def)

section \<open>Removing a proxy\<close>

definition stop_call :: "ProxyService \<Rightarrow> aref \<Rightarrow> agent_out" where
  "stop_call px r = CallSystemd r SYSTEMD_OBJECT_PATH SYSTEMD_MANAGER_IFACE ''StopUnit'' [px_local_service_name px, ''replace'']"

lemma stop_local_result:
  assumes inv: "refs_ok a" and px: "ag_px_h a p = Some px" "\<not> px_dont_stop_proxy px"
  shows "\<exists>res t. agent_stop_local_proxy_service e p a = Some (res, t) \<and> refs_ok t \<and>
    keeps (set_apx p (px\<lparr>px_dont_stop_proxy := True\<rparr>) a) t \<and>
    (abus_ok e \<longrightarrow> ag_out t = ag_out a @ [stop_call px (ag_next a)])"
proof -
  let ?a = "set_apx p (px\<lparr>px_dont_stop_proxy := True\<rparr>) a" and ?r = "ag_next a"
  let ?q = "\<lparr>sr_ref = 1, sr_request_message = None, sr_path = SYSTEMD_OBJECT_PATH, sr_iface = SYSTEMD_MANAGER_IFACE,
    sr_method = ''StopUnit'', sr_args = [], sr_userdata = None, sr_slot = None\<rparr>"
  let ?q' = "?q\<lparr>sr_args := [px_local_service_name px, ''replace'']\<rparr>"
  have a: "refs_of ?a = refs_of a" by (simp add: refs_of_def set_apx_def)
  have inv': "refs_ok ?a" using inv refs_ok_cong [OF a] by simp
  have nx: "ag_next ?a = ag_next a" by (simp add: set_apx_def)
  note cr = create_request_result [OF inv', unfolded nx]
  have gone: "\<exists>t. systemd_request_unref ?r b = Some t \<and> refs_ok t \<and> keeps ?a t"
    if "refs_of b = refs_of (with_request ?r q ?a)" "sr_ref q = 1" "sr_userdata q = None" "keeps ?a b" for b q
  proof -
    note d = drop_new_request [OF inv', unfolded nx, OF that(1-3)]
    then obtain t where t: "systemd_request_unref ?r b = Some t" "refs_of t = refs_of (?a\<lparr>ag_next := ?r + 1\<rparr>)" by blast
    have f: "ag_req_h b ?r = Some q" "ag_ref b = ag_ref a + 1"
      using refs_of_fields [OF that(1)] by (simp_all add: with_request_def set_apx_def)
    then have "keeps b t" using t(1) that(2,3) refs_ok_pos [OF inv]
      by (auto simp: systemd_request_unref_def bind_eq_Some_conv agent_unref_def)
    then show ?thesis using t keeps_trans [OF that(4)] refs_ok_next [OF inv', unfolded nx] refs_ok_cong by metis
  qed
  consider "a_ret e (ANewCall ''StopUnit'') < 0" | "\<not> a_ret e (ANewCall ''StopUnit'') < 0" "a_ret e AAppend < 0"
    | "\<not> a_ret e (ANewCall ''StopUnit'') < 0" "\<not> a_ret e AAppend < 0" "a_ret e (ACallAsync ''StopUnit'') < 0"
    | "\<not> a_ret e (ANewCall ''StopUnit'') < 0" "\<not> a_ret e AAppend < 0" "\<not> a_ret e (ACallAsync ''StopUnit'') < 0" by blast
  then show ?thesis
  proof cases
    case 1
    moreover have "keeps ?a (?a\<lparr>ag_next := ?r + 1\<rparr>)" by (simp add: keeps_def set_apx_def)
    ultimately show ?thesis using px refs_ok_next [OF inv', unfolded nx]
      by (auto simp: agent_stop_local_proxy_service_def agent_create_request_def cr)
  next
    case 2
    then show ?thesis using px gone [of "with_request ?r ?q ?a" ?q] with_request_keeps [of ?a]
      by (auto simp: agent_stop_local_proxy_service_def agent_create_request_def cr with_request_def nx)
  next
    case 3
    have "refs_of (set_areq ?r ?q' (with_request ?r ?q ?a)) = refs_of (with_request ?r ?q' ?a)"
      by (simp add: refs_of_def set_areq_def with_request_def)
    from gone [OF this] obtain t where "systemd_request_unref ?r (set_areq ?r ?q' (with_request ?r ?q ?a)) = Some t"
      "refs_ok t" "keeps ?a t" using with_request_keeps [of ?a] nx by auto
    moreover have "ag_req_h (with_request ?r ?q ?a) ?r = Some ?q" "ag_req_h (set_areq ?r ?q' (with_request ?r ?q ?a)) ?r = Some ?q'"
      by (simp_all add: with_request_def set_areq_def)
    ultimately show ?thesis using 3 px
      by (simp add: agent_stop_local_proxy_service_def agent_create_request_def cr systemd_request_start_def) (metis abus_okD)
  next
    case 4
    let ?w = "?q'\<lparr>sr_slot := Some CbStopProxy\<rparr>"
    have "refs_ok (with_request ?r ?w ?a)" using refs_ok_with_request [OF inv'] by (simp add: waiting_def nx)
    moreover have "\<exists>t. agent_stop_local_proxy_service e p a = Some (0, t) \<and> refs_of t = refs_of (with_request ?r ?w ?a) \<and>
        keeps ?a t \<and> ag_out t = ag_out a @ [stop_call px ?r]"
      using 4 px by (simp add: agent_stop_local_proxy_service_def agent_create_request_def cr [unfolded set_apx_def]
          systemd_request_start_def with_request_def systemd_request_unref_def set_areq_def refs_of_def keeps_def aput_def set_apx_def stop_call_def)
    ultimately show ?thesis using refs_ok_cong by metis
  qed
qed

text \<open>The messages of a removal: the controller hears of it if it knows the proxy, an open request of the
  local service fails, and a service that was told it is ready is stopped.\<close>

definition removed_signal :: "Agent \<Rightarrow> ProxyService \<Rightarrow> agent_out list" where
  "removed_signal a px =
     (case ag_peer_dbus a of
        Some b \<Rightarrow> if px_sent_new_proxy px \<and> agent_is_connected a then [SigProxyRemoved b (px_node_name px) (px_unit_name px)] else []
      | None \<Rightarrow> [])"

definition removal_out :: "bool \<Rightarrow> Agent \<Rightarrow> ProxyService \<Rightarrow> agent_out list" where
  "removal_out emit a px =
     (if emit then removed_signal a px else []) @
     (case px_request_message px of Some m \<Rightarrow> [AReply m (AError BUS_ERROR_FAILED ''Proxy service stopped'')] | None \<Rightarrow> []) @
     (if px_sent_successful_ready px \<and> \<not> px_dont_stop_proxy px then [stop_call px (ag_next a)] else [])"

definition without_proxy :: "aref \<Rightarrow> ProxyService option \<Rightarrow> Agent \<Rightarrow> Agent" where
  "without_proxy p rest a = a\<lparr>ag_proxies := remove1 p (ag_proxies a), ag_px_h := (ag_px_h a)(p := rest)\<rparr>"

lemma emit_removed_result:
  assumes "ag_px_h a p = Some px"
  shows "\<exists>r t. proxy_service_emit_proxy_removed e p a = Some (r, t) \<and> refs_of t = refs_of a \<and> keeps a t \<and> ag_px_h t = ag_px_h a \<and>
    (abus_ok e \<longrightarrow> ag_out t = ag_out a @ removed_signal a px)"
proof -
  let ?s = "emit_peer e ''ProxyRemoved'' (\<lambda>b. SigProxyRemoved b (px_node_name px) (px_unit_name px)) a"
  have "refs_of (snd ?s) = refs_of a" "keeps a (snd ?s)" by simp_all
  moreover have "ag_px_h (snd ?s) = ag_px_h a" using \<open>keeps a (snd ?s)\<close> by (simp add: keeps_def)
  moreover have "abus_ok e \<Longrightarrow> ag_out (snd ?s) = ag_out a @
      (case ag_peer_dbus a of Some b \<Rightarrow> [SigProxyRemoved b (px_node_name px) (px_unit_name px)] | None \<Rightarrow> [])"
    by (simp add: emit_peer_def split: option.split)
  ultimately show ?thesis using assms
    by (cases "px_sent_new_proxy px"; cases "agent_is_connected a"; cases "ag_peer_dbus a")
      (auto simp: proxy_service_emit_proxy_removed_def removed_signal_def prod_eq_iff)
qed

lemma refs_ok_px [simp]: "refs_ok (set_apx p px a) = refs_ok a" "refs_ok (a\<lparr>ag_px_h := h\<rparr>) = refs_ok a"
  "refs_ok (a\<lparr>ag_proxies := ps\<rparr>) = refs_ok a" "refs_ok (areply e m r a) = refs_ok a"
  by (rule refs_ok_cong, simp add: refs_of_def set_apx_def)+

lemma set_apx_fields [simp]:
  "ag_px_h (set_apx p px a) = (ag_px_h a)(p \<mapsto> px)" "ag_proxies (set_apx p px a) = ag_proxies a" "ag_next (set_apx p px a) = ag_next a"
  "ag_unit_infos (set_apx p px a) = ag_unit_infos a" "ag_wildcard (set_apx p px a) = ag_wildcard a" "ag_state (set_apx p px a) = ag_state a"
  "ag_peer_dbus (set_apx p px a) = ag_peer_dbus a" "ag_register_slot (set_apx p px a) = ag_register_slot a"
  "ag_next_bus (set_apx p px a) = ag_next_bus a" "ag_register_slot (areply e m r a) = ag_register_slot a"
  "ag_next_bus (areply e m r a) = ag_next_bus a" "ag_out (set_apx p px a) = ag_out a" "ag_px_h (areply e m r a) = ag_px_h a"
  "ag_proxies (areply e m r a) = ag_proxies a" "ag_state (areply e m r a) = ag_state a"
  by (simp_all add: set_apx_def areply_def aput_def)

text \<open>The last steps of a removal: from a state in which the proxy is still exported and listed.\<close>

lemma remove_finish:
  assumes "refs_ok a" "ag_px_h a p = Some px" "p \<in> set (ag_proxies a)" "distinct (ag_proxies a)" "px_ref px = 1 \<or> px_ref px = 2"
  shows "\<exists>px' t. do { a4 \<leftarrow> proxy_service_unexport p a; ps \<leftarrow> list_remove p (ag_proxies a4); px' \<leftarrow> ag_px_h a4 p;
      proxy_service_unref p (set_apx p (px'\<lparr>px_agent := False\<rparr>) (a4\<lparr>ag_proxies := ps\<rparr>)) } = Some t \<and> refs_ok t \<and>
    keeps (without_proxy p (if px_ref px = 1 then None else Some px') a) t \<and> px_ref px' = 1 \<and> \<not> px_agent px' \<and> ag_out t = ag_out a"
proof -
  let ?px = "px\<lparr>px_export_slot := None, px_agent := False, px_ref := 1\<rparr>"
  have "p \<notin> set (remove1 p (ag_proxies a))" using assms(4) by simp
  then have "\<exists>t. do { a4 \<leftarrow> proxy_service_unexport p a; ps \<leftarrow> list_remove p (ag_proxies a4); px' \<leftarrow> ag_px_h a4 p;
      proxy_service_unref p (set_apx p (px'\<lparr>px_agent := False\<rparr>) (a4\<lparr>ag_proxies := ps\<rparr>)) } = Some t \<and> refs_of t = refs_of a \<and>
    keeps (without_proxy p (if px_ref px = 1 then None else Some ?px) a) t \<and> ag_out t = ag_out a"
    using assms(2,3,5)
    by (elim disjE) (simp_all add: proxy_service_unexport_def list_remove_def proxy_service_unref_def set_apx_def keeps_def
        without_proxy_def refs_of_def)
  then obtain t where t: "do { a4 \<leftarrow> proxy_service_unexport p a; ps \<leftarrow> list_remove p (ag_proxies a4); px' \<leftarrow> ag_px_h a4 p;
      proxy_service_unref p (set_apx p (px'\<lparr>px_agent := False\<rparr>) (a4\<lparr>ag_proxies := ps\<rparr>)) } = Some t" "refs_of t = refs_of a"
    "keeps (without_proxy p (if px_ref px = 1 then None else Some ?px) a) t" "ag_out t = ag_out a" by blast
  have "refs_ok t" using assms(1) refs_ok_cong [OF t(2)] by simp
  then show ?thesis using t by (intro exI [of _ ?px] exI [of _ t]) simp
qed

lemma remove_proxy_result:
  assumes inv: "refs_ok a" and px: "ag_px_h a p = Some px" "px_agent px" "px_ref px = 1 \<or> px_ref px = 2"
    and l: "p \<in> set (ag_proxies a)" "distinct (ag_proxies a)"
  shows "\<exists>px' t. agent_remove_proxy e p emit a = Some t \<and> refs_ok t \<and>
    keeps (without_proxy p (if px_ref px = 1 then None else Some px') a) t \<and> px_ref px' = 1 \<and> \<not> px_agent px' \<and>
    (abus_ok e \<longrightarrow> ag_out t = ag_out a @ removal_out emit a px)"
proof -
  obtain a1 where a1: "(if emit then map_option snd (proxy_service_emit_proxy_removed e p a) else Some a) = Some a1"
    "refs_of a1 = refs_of a" "keeps a a1" "ag_px_h a1 = ag_px_h a"
    "abus_ok e \<longrightarrow> ag_out a1 = ag_out a @ (if emit then removed_signal a px else [])"
    using emit_removed_result [OF px(1), of e] by (cases emit) auto
  let ?a2 = "case px_request_message px of None \<Rightarrow> a1
    | Some m \<Rightarrow> set_apx p (px\<lparr>px_request_message := None\<rparr>) (areply e m (AError BUS_ERROR_FAILED ''Proxy service stopped'') a1)"
  obtain px2 where a2: "refs_ok ?a2" "ag_px_h ?a2 = (ag_px_h a)(p \<mapsto> px2)" "keeps (a\<lparr>ag_px_h := (ag_px_h a)(p \<mapsto> px2)\<rparr>) ?a2"
    "ag_next ?a2 = ag_next a" "px2 = px\<lparr>px_request_message := None\<rparr>"
    "abus_ok e \<longrightarrow> ag_out ?a2 = ag_out a1 @
       (case px_request_message px of Some m \<Rightarrow> [AReply m (AError BUS_ERROR_FAILED ''Proxy service stopped'')] | None \<Rightarrow> [])"
  proof (cases "px_request_message px")
    case None
    then have "px = px\<lparr>px_request_message := None\<rparr>" by simp
    then show thesis using that [of px] None a1 px(1) inv refs_ok_cong [OF a1(2)] refs_of_fields(6) [OF a1(2)]
      by (simp add: fun_upd_idem keeps_def)
  next
    case (Some m)
    then show thesis using that a1 inv refs_ok_cong [OF a1(2)] refs_of_fields(6) [OF a1(2)]
      by (simp add: keeps_def areply_ok)
  qed
  obtain px3 a3 where a3: "(if px_sent_successful_ready px then map_option snd (agent_stop_local_proxy_service e p ?a2) else Some ?a2) = Some a3"
    "refs_ok a3" "keeps (a\<lparr>ag_px_h := (ag_px_h a)(p \<mapsto> px3)\<rparr>) a3" "px_ref px3 = px_ref px" "px_agent px3"
    "abus_ok e \<longrightarrow> ag_out a3 = ag_out a @ removal_out emit a px"
  proof (cases "px_sent_successful_ready px \<and> \<not> px_dont_stop_proxy px")
    case True
    then obtain res t where t: "agent_stop_local_proxy_service e p ?a2 = Some (res, t)" "refs_ok t"
      "keeps (set_apx p (px2\<lparr>px_dont_stop_proxy := True\<rparr>) ?a2) t"
      "abus_ok e \<longrightarrow> ag_out t = ag_out ?a2 @ [stop_call px2 (ag_next a)]"
      using stop_local_result [OF a2(1), of p px2 e] a2(2,4,5) by auto
    have "stop_call px2 (ag_next a) = stop_call px (ag_next a)" using a2(5) by (simp add: stop_call_def)
    then show thesis using that [of t "px2\<lparr>px_dont_stop_proxy := True\<rparr>"] t True a2 a1(5) px(2)
      by (simp add: keeps_def removal_out_def)
  next
    case False
    moreover have "px_dont_stop_proxy px \<Longrightarrow> agent_stop_local_proxy_service e p ?a2 = Some (0, ?a2)"
      using a2(2,5) by (simp add: agent_stop_local_proxy_service_def)
    ultimately show thesis using that [of ?a2 px2] a2 a1(5) px(2) by (auto simp: removal_out_def)
  qed
  have "ag_px_h a3 p = Some px3" "ag_proxies a3 = ag_proxies a" using a3(3) by (simp_all add: keeps_def)
  from remove_finish [OF a3(2) this(1)] this l px(3) a3(4) obtain px' t where
    "do { a4 \<leftarrow> proxy_service_unexport p a3; ps \<leftarrow> list_remove p (ag_proxies a4); px' \<leftarrow> ag_px_h a4 p;
      proxy_service_unref p (set_apx p (px'\<lparr>px_agent := False\<rparr>) (a4\<lparr>ag_proxies := ps\<rparr>)) } = Some t" "refs_ok t"
    "keeps (without_proxy p (if px_ref px = 1 then None else Some px') a3) t" "px_ref px' = 1" "\<not> px_agent px'" "ag_out t = ag_out a3"
    by auto
  then show ?thesis using px a1(1) a3 by (auto simp: agent_remove_proxy_def Let_def keeps_def without_proxy_def)
qed

section \<open>The handlers of a proxy\<close>

definition after_proxy :: "aref \<Rightarrow> ProxyService option \<Rightarrow> Agent \<Rightarrow> Agent" where
  "after_proxy p new a = (case new of Some px \<Rightarrow> set_apx p px a | None \<Rightarrow> without_proxy p None a)"

definition px_fine :: "ProxyService \<Rightarrow> bool" where
  "px_fine px = (px_ref px = 1 \<and> px_agent px \<and> \<not> px_dont_stop_proxy px \<and>
     (px_request_message px = None \<longleftrightarrow> px_sent_successful_ready px))"

lemma proxies_ok_after:
  assumes "proxies_ok a" "ag_px_h a p = Some px" "keeps (after_proxy p new a) t" "\<And>x. new = Some x \<Longrightarrow> px_fine x"
  shows "proxies_ok t"
proof (cases new)
  case None
  have "p \<in> set (ag_proxies a)" "distinct (ag_proxies a)" using proxies_okD [OF assms(1,2)] by simp_all
  then show ?thesis using assms None
    by (auto simp: proxies_ok_def keeps_def after_proxy_def without_proxy_def distinct_remove1_set split: if_splits dest: notin_set_remove1)
next
  case (Some x)
  have "p \<in> set (ag_proxies a)" "distinct (ag_proxies a)" using proxies_okD [OF assms(1,2)] by simp_all
  then show ?thesis using assms Some
    by (auto simp: proxies_ok_def keeps_def after_proxy_def px_fine_def split: if_splits)
qed

lemma px_ref_idem: "px_ref x = n \<Longrightarrow> x\<lparr>px_ref := n\<rparr> = x"
  by simp

lemma px_ready_ref:
  "x\<lparr>px_sent_successful_ready := True, px_request_message := None, px_ref := n\<rparr> =
   x\<lparr>px_ref := n, px_sent_successful_ready := True, px_request_message := None\<rparr>"
  by simp

text \<open>The reference a handler holds is dropped at its end: a proxy removed in between is freed then.\<close>

definition held :: "aref \<Rightarrow> ProxyService option \<Rightarrow> Agent \<Rightarrow> Agent \<Rightarrow> bool" where
  "held p new a b =
     (case new of Some px \<Rightarrow> px_ref px = 1 \<and> keeps (set_apx p (px\<lparr>px_ref := 2\<rparr>) a) b
      | None \<Rightarrow> \<exists>px'. px_ref px' = 1 \<and> keeps (without_proxy p (Some px') a) b)"

lemma with_proxy_ref_result:
  assumes ok: "proxies_ok a" and px: "ag_px_h a p = Some px"
    and act: "act (px\<lparr>px_ref := 2\<rparr>) (set_apx p (px\<lparr>px_ref := 2\<rparr>) a) = Some b" and b: "refs_ok b" "held p new a b"
  shows "\<exists>t. with_proxy_ref e p m txt act a = Some t \<and> refs_ok t \<and> keeps (after_proxy p new a) t \<and>
    (abus_ok e \<longrightarrow> ag_out t = ag_out b @ [AReply m AOk])"
proof -
  note f = proxies_okD [OF ok px]
  have start: "with_proxy_ref e p m txt act a = proxy_service_unref p (areply e m AOk b)"
    using f(3,4) px act by (simp add: with_proxy_ref_def proxy_service_ref_def)
  show ?thesis
  proof (cases new)
    case None
    then obtain px' where px': "px_ref px' = 1" "keeps (without_proxy p (Some px') a) b" using b(2) by (auto simp: held_def)
    have "p \<notin> set (ag_proxies b)" using px'(2) f(2) by (simp add: keeps_def without_proxy_def)
    then show ?thesis using start px' b(1) None areply_ok [of e m AOk b]
      by (auto simp: proxy_service_unref_def keeps_def without_proxy_def after_proxy_def)
  next
    case (Some x)
    then have x: "px_ref x = 1" "keeps (set_apx p (x\<lparr>px_ref := 2\<rparr>) a) b" using b(2) by (auto simp: held_def)
    then show ?thesis using start b(1) Some areply_ok [of e m AOk b]
      by (simp add: proxy_service_unref_def keeps_def after_proxy_def px_ref_idem)
  qed
qed

lemma initial_state_result:
  assumes inv: "refs_ok a" and ok: "proxies_ok a" and px: "ag_px_h a p = Some px" "px_request_message px = Some q"
  shows "\<exists>b. proxy_service_initial_state_reached e p success (set_apx p (px\<lparr>px_ref := 2\<rparr>) a) = Some b \<and> refs_ok b \<and>
    held p (if success then Some (px\<lparr>px_sent_successful_ready := True, px_request_message := None\<rparr>) else None) a b \<and>
    (abus_ok e \<longrightarrow> ag_out b = ag_out a @
       (if success then [AReply q AOk]
        else AReply q (AError BC_BUS_ERROR_ACTIVATION_FAILED ''Proxy service failed to start'') # removed_signal a px))"
proof -
  note f = proxies_okD [OF ok px(1)]
  have nr: "\<not> px_sent_successful_ready px" using f(6) px(2) by auto
  show ?thesis
  proof (cases success)
    case True
    then show ?thesis using px inv f(3) areply_ok [of e q AOk]
      by (simp add: proxy_service_initial_state_reached_def held_def keeps_def Let_def px_ready_ref)
  next
    case False
    let ?px = "px\<lparr>px_ref := 2, px_request_message := None\<rparr>"
    let ?r = "AError BC_BUS_ERROR_ACTIVATION_FAILED ''Proxy service failed to start''"
    let ?b = "set_apx p ?px (areply e q ?r (set_apx p (px\<lparr>px_ref := 2\<rparr>) a))"
    have st: "proxy_service_initial_state_reached e p False (set_apx p (px\<lparr>px_ref := 2\<rparr>) a) = agent_remove_proxy e p True ?b"
      using px(2) nr by (simp add: proxy_service_initial_state_reached_def Let_def)
    have sig: "removed_signal ?b ?px = removed_signal a px" by (simp add: removed_signal_def agent_is_connected_def split: option.split)
    obtain px' t where t: "agent_remove_proxy e p True ?b = Some t" "refs_ok t" "keeps (without_proxy p (Some px') ?b) t"
      "px_ref px' = 1" "abus_ok e \<longrightarrow> ag_out t = ag_out ?b @ removal_out True ?b ?px"
      using remove_proxy_result [of ?b p ?px e True] inv f by auto
    have "removal_out True ?b ?px = removed_signal a px" using sig nr by (simp add: removal_out_def)
    then show ?thesis using False st t areply_ok [of e q ?r] by (auto simp: held_def keeps_def without_proxy_def)
  qed
qed

lemma target_stopped_result:
  assumes inv: "refs_ok a" and ok: "proxies_ok a" and px: "ag_px_h a p = Some px" "px_request_message px = None"
  shows "\<exists>b. proxy_service_target_stopped e p (set_apx p (px\<lparr>px_ref := 2\<rparr>) a) = Some b \<and> refs_ok b \<and> held p None a b \<and>
    (abus_ok e \<longrightarrow> ag_out b = ag_out a @ removed_signal a px @ [stop_call px (ag_next a)])"
proof -
  note f = proxies_okD [OF ok px(1)]
  let ?px = "px\<lparr>px_ref := 2\<rparr>" and ?b = "set_apx p (px\<lparr>px_ref := 2\<rparr>) a"
  have "removed_signal ?b ?px = removed_signal a px" by (simp add: removed_signal_def agent_is_connected_def split: option.split)
  then have out: "removal_out True ?b ?px = removed_signal a px @ [stop_call px (ag_next a)]"
    using f px(2) by (simp add: removal_out_def stop_call_def)
  obtain px' t where t: "agent_remove_proxy e p True ?b = Some t" "refs_ok t" "keeps (without_proxy p (Some px') ?b) t"
    "px_ref px' = 1" "abus_ok e \<longrightarrow> ag_out t = ag_out ?b @ removal_out True ?b ?px"
    using remove_proxy_result [of ?b p ?px e True] inv f by auto
  then show ?thesis using px(2) out by (auto simp: proxy_service_target_stopped_def held_def keeps_def without_proxy_def)
qed

section \<open>The life of a proxy\<close>

datatype proxy_phase = PWaiting amsg | PReady | PGone

definition phase_of :: "Agent \<Rightarrow> aref \<Rightarrow> proxy_phase" where
  "phase_of a p = (case ag_px_h a p of None \<Rightarrow> PGone
     | Some px \<Rightarrow> (case px_request_message px of Some q \<Rightarrow> PWaiting q | None \<Rightarrow> PReady))"

definition really_stopped :: "string \<Rightarrow> string \<Rightarrow> bool" where
  "really_stopped st reason = ((st = ''failed'' \<or> st = ''inactive'') \<and> reason = ''real'')"

fun target_phase :: "string \<Rightarrow> string \<Rightarrow> proxy_phase \<Rightarrow> proxy_phase" where
  "target_phase st reason (PWaiting q) =
     (if st = ''active'' then PReady else if really_stopped st reason then PGone else PWaiting q)"
| "target_phase st reason PReady = (if really_stopped st reason then PGone else PReady)"
| "target_phase st reason PGone = PGone"

fun target_out :: "Agent \<Rightarrow> ProxyService \<Rightarrow> string \<Rightarrow> string \<Rightarrow> proxy_phase \<Rightarrow> agent_out list" where
  "target_out a px st reason (PWaiting q) =
     (if st = ''active'' then [AReply q AOk]
      else if really_stopped st reason
      then AReply q (AError BC_BUS_ERROR_ACTIVATION_FAILED ''Proxy service failed to start'') # removed_signal a px else [])"
| "target_out a px st reason PReady =
     (if really_stopped st reason then removed_signal a px @ [stop_call px (ag_next a)] else [])"
| "target_out a px st reason PGone = []"

lemma active_state_values:
  "active_state_from_string st = UNIT_ACTIVE \<longleftrightarrow> st = ''active''"
  "active_state_from_string st = UNIT_FAILED \<longleftrightarrow> st = ''failed''"
  "active_state_from_string st = UNIT_INACTIVE \<longleftrightarrow> st = ''inactive''"
proof -
  have v: "valid_active_state UNIT_ACTIVE" "valid_active_state UNIT_FAILED" "valid_active_state UNIT_INACTIVE"
    "active_state_to_string UNIT_ACTIVE = ''active''" "active_state_to_string UNIT_FAILED = ''failed''"
    "active_state_to_string UNIT_INACTIVE = ''inactive''" by code_simp+
  have "active_state_from_string st = s \<longleftrightarrow> st = active_state_to_string s" if "valid_active_state s" for s
    using active_table.from_to [OF that] active_state_from_string_cases [of st] that active_table.invalid
    by (auto simp: active_state_to_string_def valid_active_state_def)
  then show "active_state_from_string st = UNIT_ACTIVE \<longleftrightarrow> st = ''active''"
  "active_state_from_string st = UNIT_FAILED \<longleftrightarrow> st = ''failed''"
  "active_state_from_string st = UNIT_INACTIVE \<longleftrightarrow> st = ''inactive''" using v by metis+
qed

lemma target_state_changed_result:
  assumes inv: "refs_ok a" and ok: "proxies_ok a" and px: "ag_px_h a p = Some px"
  shows "\<exists>new t. proxy_service_method_target_state_changed e p m st reason a = Some t \<and> refs_ok t \<and>
    keeps (after_proxy p new a) t \<and> (\<forall>x. new = Some x \<longrightarrow> px_fine x \<and> px_export_slot x = px_export_slot px) \<and>
    phase_of t p = target_phase st reason (phase_of a p) \<and>
    (abus_ok e \<longrightarrow> ag_out t = ag_out a @ target_out a px st reason (phase_of a p) @ [AReply m AOk])"
proof -
  let ?h = "set_apx p (px\<lparr>px_ref := 2\<rparr>) a"
  note f = proxies_okD [OF ok px]
  have fine: "px_fine px" using f by (simp add: px_fine_def)
  have stay: "held p (Some px) a ?h" "refs_ok ?h" "ag_out ?h = ag_out a" using f inv by (simp_all add: held_def)
  define act :: "ProxyService \<Rightarrow> Agent \<Rightarrow> Agent option" where "act = (\<lambda>px a1.
       let active_state = active_state_from_string st;
           stopped = (active_state = UNIT_FAILED \<or> active_state = UNIT_INACTIVE) \<and> reason = ''real''
       in if px_request_message px \<noteq> None then
            (if active_state = UNIT_ACTIVE then proxy_service_initial_state_reached e p True a1
             else if stopped then proxy_service_initial_state_reached e p False a1
             else Some a1)
          else if px_sent_successful_ready px then
            (if stopped then proxy_service_target_stopped e p a1 else Some a1)
          else Some a1)"
  have h: "proxy_service_method_target_state_changed e p m st reason a = with_proxy_ref e p m ''Failed to get the proxy agent'' act a"
    by (simp add: proxy_service_method_target_state_changed_def act_def)
  have "\<exists>new b. act (px\<lparr>px_ref := 2\<rparr>) ?h = Some b \<and> refs_ok b \<and> held p new a b \<and> (\<forall>x. new = Some x \<longrightarrow> px_fine x \<and> px_export_slot x = px_export_slot px) \<and>
    phase_of (after_proxy p new a) p = target_phase st reason (phase_of a p) \<and>
    (abus_ok e \<longrightarrow> ag_out b = ag_out a @ target_out a px st reason (phase_of a p))"
  proof (cases "px_request_message px")
    case (Some q)
    let ?r = "px\<lparr>px_sent_successful_ready := True, px_request_message := None\<rparr>"
    have "px_fine ?r" using f by (simp add: px_fine_def)
    moreover have "phase_of a p = PWaiting q" "phase_of (after_proxy p (Some px) a) p = PWaiting q"
      "phase_of (after_proxy p (Some ?r) a) p = PReady" "phase_of (after_proxy p None a) p = PGone"
      using px Some by (simp_all add: phase_of_def after_proxy_def without_proxy_def)
    ultimately have ph: "px_fine ?r" "phase_of a p = PWaiting q" "phase_of (after_proxy p (Some px) a) p = PWaiting q"
      "phase_of (after_proxy p (Some ?r) a) p = PReady" "phase_of (after_proxy p None a) p = PGone" by simp_all
    note isr = initial_state_result [OF inv ok px Some, of e]
    have ans: "act (px\<lparr>px_ref := 2\<rparr>) ?h =
      (if st = ''active'' then proxy_service_initial_state_reached e p True ?h
       else if really_stopped st reason then proxy_service_initial_state_reached e p False ?h else Some ?h)"
      using Some by (simp add: act_def Let_def active_state_values really_stopped_def)
    consider "st = ''active''" | "st \<noteq> ''active''" "really_stopped st reason" | "st \<noteq> ''active''" "\<not> really_stopped st reason" by blast
    then show ?thesis
    proof cases
      case 1
      then show ?thesis using isr [of True] ph ans by (intro exI [of _ "Some ?r"]) auto
    next
      case 2
      then show ?thesis using isr [of False] ph ans by (intro exI [of _ None]) auto
    next
      case 3
      then show ?thesis using stay fine ph ans by (intro exI [of _ "Some px"]) simp
    qed
  next
    case None
    then have "phase_of a p = PReady" "phase_of (after_proxy p (Some px) a) p = PReady" "phase_of (after_proxy p None a) p = PGone"
      using px by (simp_all add: phase_of_def after_proxy_def without_proxy_def)
    moreover have "act (px\<lparr>px_ref := 2\<rparr>) ?h =
      (if really_stopped st reason then proxy_service_target_stopped e p ?h else Some ?h)"
      using None f by (simp add: act_def Let_def active_state_values really_stopped_def)
    ultimately show ?thesis using stay fine target_stopped_result [OF inv ok px None, of e]
      by (intro exI [of _ "if really_stopped st reason then None else Some px"]) auto
  qed
  then obtain new b where b: "act (px\<lparr>px_ref := 2\<rparr>) ?h = Some b" "refs_ok b" "held p new a b" "\<forall>x. new = Some x \<longrightarrow> px_fine x \<and> px_export_slot x = px_export_slot px"
    "phase_of (after_proxy p new a) p = target_phase st reason (phase_of a p)"
    "abus_ok e \<longrightarrow> ag_out b = ag_out a @ target_out a px st reason (phase_of a p)" by blast
  from with_proxy_ref_result [of a p px act b new, OF ok px b(1,2,3)] obtain t where
    "with_proxy_ref e p m ''Failed to get the proxy agent'' act a = Some t" "refs_ok t" "keeps (after_proxy p new a) t"
    "abus_ok e \<longrightarrow> ag_out t = ag_out b @ [AReply m AOk]" by blast
  moreover have "phase_of t p = phase_of (after_proxy p new a) p" using calculation(3) by (simp add: keeps_def phase_of_def)
  ultimately show ?thesis using h b(4,5,6) by auto
qed

text \<open>The other messages of the controller.\<close>

lemma failed_result:
  assumes inv: "refs_ok a" and ok: "proxies_ok a" and px: "ag_px_h a p = Some px" "px_request_message px = Some q"
    and act: "act (px\<lparr>px_ref := 2\<rparr>) (set_apx p (px\<lparr>px_ref := 2\<rparr>) a) =
      proxy_service_initial_state_reached e p False (set_apx p (px\<lparr>px_ref := 2\<rparr>) a)"
  shows "\<exists>t. with_proxy_ref e p m txt act a = Some t \<and> refs_ok t \<and> keeps (after_proxy p None a) t \<and>
    (abus_ok e \<longrightarrow> ag_out t = ag_out a @
      AReply q (AError BC_BUS_ERROR_ACTIVATION_FAILED ''Proxy service failed to start'') # removed_signal a px @ [AReply m AOk])"
proof -
  from initial_state_result [OF inv ok px, of e False] obtain b where b:
    "proxy_service_initial_state_reached e p False (set_apx p (px\<lparr>px_ref := 2\<rparr>) a) = Some b" "refs_ok b" "held p None a b"
    "abus_ok e \<longrightarrow> ag_out b = ag_out a @ AReply q (AError BC_BUS_ERROR_ACTIVATION_FAILED ''Proxy service failed to start'') # removed_signal a px"
    by auto
  from with_proxy_ref_result [of a p px act b None, OF ok px(1) act [unfolded b(1)] b(2,3)] b(4) show ?thesis by fastforce
qed

lemma unchanged_result:
  assumes inv: "refs_ok a" and ok: "proxies_ok a" and px: "ag_px_h a p = Some px"
    and act: "act (px\<lparr>px_ref := 2\<rparr>) (set_apx p (px\<lparr>px_ref := 2\<rparr>) a) = Some (set_apx p (px\<lparr>px_ref := 2\<rparr>) a)"
  shows "\<exists>t. with_proxy_ref e p m txt act a = Some t \<and> refs_ok t \<and> keeps a t \<and> (abus_ok e \<longrightarrow> ag_out t = ag_out a @ [AReply m AOk])"
proof -
  have "held p (Some px) a (set_apx p (px\<lparr>px_ref := 2\<rparr>) a)" using proxies_okD [OF ok px] by (simp add: held_def)
  from with_proxy_ref_result [of a p px act _ "Some px", OF ok px act _ this] inv show ?thesis
    using px by (auto simp: after_proxy_def keeps_def fun_upd_idem)
qed

lemma target_removed_result:
  assumes inv: "refs_ok a" and ok: "proxies_ok a" and px: "ag_px_h a p = Some px"
  shows "\<exists>t. proxy_service_method_target_removed e p m reason a = Some t \<and> refs_ok t \<and> proxies_ok t"
proof (cases "px_request_message px \<noteq> None \<and> reason = ''real''")
  case True
  then obtain q where "px_request_message px = Some q" by auto
  note q = this
  from failed_result [OF inv ok px q, of "\<lambda>px a1. if px_request_message px \<noteq> None \<and> reason = ''real''
      then proxy_service_initial_state_reached e p False a1 else Some a1" e m "''Failed to get the proxy agent''"] True
  obtain t where "proxy_service_method_target_removed e p m reason a = Some t" "refs_ok t" "keeps (after_proxy p None a) t"
    unfolding proxy_service_method_target_removed_def by auto
  then show ?thesis using proxies_ok_after [OF ok px, of None t] by simp
next
  case False
  from unchanged_result [OF inv ok px, of "\<lambda>px a1. if px_request_message px \<noteq> None \<and> reason = ''real''
      then proxy_service_initial_state_reached e p False a1 else Some a1" e m "''Failed to get the proxy agent''"] False
  obtain t where "proxy_service_method_target_removed e p m reason a = Some t" "refs_ok t" "keeps a t"
    unfolding proxy_service_method_target_removed_def by auto
  then show ?thesis using proxies_ok_keeps [OF ok] by simp
qed

lemma target_new_result:
  assumes inv: "refs_ok a" and ok: "proxies_ok a" and px: "ag_px_h a p = Some px"
  shows "\<exists>t. proxy_service_method_target_new e p m a = Some t \<and> refs_ok t \<and> proxies_ok t"
  using unchanged_result [OF inv ok px, of "\<lambda>px a1. Some a1" e m "''Internal error''"] proxies_ok_keeps [OF ok]
  unfolding proxy_service_method_target_new_def by blast

lemma error_result:
  assumes inv: "refs_ok a" and ok: "proxies_ok a" and px: "ag_px_h a p = Some px"
  shows "px_request_message px = None \<Longrightarrow> proxy_service_method_error e p m a = None"
    "px_request_message px = Some q \<Longrightarrow> \<exists>t. proxy_service_method_error e p m a = Some t \<and> refs_ok t \<and> proxies_ok t \<and> ag_px_h t p = None \<and>
      (abus_ok e \<longrightarrow> ag_out t = ag_out a @
        AReply q (AError BC_BUS_ERROR_ACTIVATION_FAILED ''Proxy service failed to start'') # removed_signal a px @ [AReply m AOk])"
proof -
  show "px_request_message px = None \<Longrightarrow> proxy_service_method_error e p m a = None"
    using px proxies_okD [OF ok px]
    by (simp add: proxy_service_method_error_def with_proxy_ref_def proxy_service_ref_def proxy_service_initial_state_reached_def)
  assume q: "px_request_message px = Some q"
  obtain t where t: "proxy_service_method_error e p m a = Some t" "refs_ok t" "keeps (after_proxy p None a) t"
    "abus_ok e \<longrightarrow> ag_out t = ag_out a @
        AReply q (AError BC_BUS_ERROR_ACTIVATION_FAILED ''Proxy service failed to start'') # removed_signal a px @ [AReply m AOk]"
    using failed_result [OF inv ok px q, of "\<lambda>px a1. proxy_service_initial_state_reached e p False a1" e m "''Failed to get the proxy agent''"]
    unfolding proxy_service_method_error_def by auto
  moreover have "ag_px_h t p = None" using t(3) by (simp add: keeps_def after_proxy_def without_proxy_def)
  ultimately show "\<exists>t. proxy_service_method_error e p m a = Some t \<and> refs_ok t \<and> proxies_ok t \<and> ag_px_h t p = None \<and>
      (abus_ok e \<longrightarrow> ag_out t = ag_out a @
        AReply q (AError BC_BUS_ERROR_ACTIVATION_FAILED ''Proxy service failed to start'') # removed_signal a px @ [AReply m AOk])"
    using proxies_ok_after [OF ok px t(3)] by auto
qed

section \<open>Creating and removing on behalf of the local service\<close>

lemma find_proxy_result:
  assumes "\<And>p. p \<in> set ps \<Longrightarrow> ag_px_h a p \<noteq> None"
  shows "\<exists>f. find_proxy_in a P ps = Some f \<and>
    (case f of Some p \<Rightarrow> p \<in> set ps \<and> (\<exists>px. ag_px_h a p = Some px \<and> P px)
     | None \<Rightarrow> \<forall>p \<in> set ps. \<forall>px. ag_px_h a p = Some px \<longrightarrow> \<not> P px)"
  using assms
proof (induction ps)
  case (Cons p ps)
  then obtain px where "ag_px_h a p = Some px" by fastforce
  moreover obtain f where "find_proxy_in a P ps = Some f"
    "case f of Some p \<Rightarrow> p \<in> set ps \<and> (\<exists>px. ag_px_h a p = Some px \<and> P px)
     | None \<Rightarrow> \<forall>p \<in> set ps. \<forall>px. ag_px_h a p = Some px \<longrightarrow> \<not> P px"
    using Cons by auto
  ultimately show ?case by (auto split: option.split_asm)
qed simp

definition same_proxy :: "string \<Rightarrow> string \<Rightarrow> string \<Rightarrow> ProxyService \<Rightarrow> bool" where
  "same_proxy l n u px = (px_local_service_name px = l \<and> px_node_name px = n \<and> px_unit_name px = u)"

lemma agent_find_proxy_result:
  assumes "proxies_ok a"
  shows "\<exists>f. agent_find_proxy a l n u = Some f \<and>
    (case f of Some p \<Rightarrow> \<exists>px. ag_px_h a p = Some px \<and> same_proxy l n u px
     | None \<Rightarrow> \<forall>p px. ag_px_h a p = Some px \<longrightarrow> \<not> same_proxy l n u px)"
proof -
  have d: "ag_px_h a p \<noteq> None \<longleftrightarrow> p \<in> set (ag_proxies a)" for p using assms by (auto simp: proxies_ok_def)
  have "agent_find_proxy a l n u = find_proxy_in a (same_proxy l n u) (ag_proxies a)"
    by (simp add: agent_find_proxy_def same_proxy_def [abs_def])
  then show ?thesis using find_proxy_result [of "ag_proxies a" a "same_proxy l n u"] d by (fastforce split: option.splits)
qed

lemma remove_proxy_handler:
  assumes inv: "refs_ok a" and ok: "proxies_ok a"
  shows "\<exists>t. agent_method_remove_proxy e m l n u a = Some t \<and> refs_ok t \<and> proxies_ok t"
proof -
  obtain f where f: "agent_find_proxy a l n u = Some f" "case f of Some p \<Rightarrow> \<exists>px. ag_px_h a p = Some px \<and> same_proxy l n u px
     | None \<Rightarrow> \<forall>p px. ag_px_h a p = Some px \<longrightarrow> \<not> same_proxy l n u px" using agent_find_proxy_result [OF ok] by blast
  show ?thesis
  proof (cases f)
    case None
    then show ?thesis using f inv proxies_ok_keeps [OF ok, of "areply e m AOk a"] by (simp add: agent_method_remove_proxy_def)
  next
    case (Some p)
    then obtain px where px: "ag_px_h a p = Some px" using f by auto
    let ?px = "px\<lparr>px_dont_stop_proxy := True\<rparr>" and ?b = "set_apx p (px\<lparr>px_dont_stop_proxy := True\<rparr>) a"
    note d = proxies_okD [OF ok px]
    obtain t where t: "agent_remove_proxy e p True ?b = Some t" "refs_ok t" "keeps (without_proxy p None ?b) t"
      using remove_proxy_result [of ?b p ?px e True] inv d by auto
    then have "keeps (after_proxy p None a) (areply e m AOk t)" by (simp add: keeps_def after_proxy_def without_proxy_def)
    from proxies_ok_after [OF ok px this] show ?thesis using t f Some px by (simp add: agent_method_remove_proxy_def)
  qed
qed

text \<open>A new proxy waits; the controller hears of it if the agent is connected.\<close>

definition new_proxy :: "string \<Rightarrow> string \<Rightarrow> string \<Rightarrow> amsg \<Rightarrow> Agent \<Rightarrow> nat option \<Rightarrow> bool \<Rightarrow> ProxyService" where
  "new_proxy l n u m a bus sent =
     \<lparr>px_ref = 1, px_id = ag_next_proxy_id a + 1, px_agent = True, px_node_name = n, px_unit_name = u, px_local_service_name = l,
      px_request_message = Some m, px_sent_new_proxy = sent, px_dont_stop_proxy = False, px_sent_successful_ready = False,
      px_export_slot = bus, px_object_path = INTERNAL_PROXY_OBJECT_PATH_PREFIX @ ''/'' @ decimal (unat (ag_next_proxy_id a + 1))\<rparr>"

lemma refs_ok_fresh_next:
  assumes "refs_ok a" "refs_of t = refs_of (a\<lparr>ag_next := ag_next a + 1\<rparr>)"
  shows "refs_ok t"
  using refs_ok_next [OF assms(1)] refs_ok_cong [OF assms(2)] by simp

lemma create_proxy_result:
  assumes inv: "refs_ok a" and ok: "proxies_ok a"
  shows "\<exists>r t. agent_method_create_proxy e m l n u a = Some (r, t) \<and> refs_ok t \<and> proxies_ok t \<and>
    (abus_ok e \<longrightarrow>
      (if \<exists>p px. ag_px_h a p = Some px \<and> same_proxy l n u px then r = - EINVAL \<and> t = a
       else case ag_peer_dbus a of
         None \<Rightarrow> r = - EINVAL \<and> ag_px_h t = ag_px_h a \<and> ag_out t = ag_out a
       | Some b \<Rightarrow> r = 1 \<and> ag_proxies t = ag_proxies a @ [ag_next a] \<and>
           ag_px_h t = (ag_px_h a)(ag_next a \<mapsto> new_proxy l n u m a (Some b) (agent_is_connected a)) \<and>
           ag_out t = ag_out a @
             (if agent_is_connected a then [SigProxyNew b n u (px_object_path (new_proxy l n u m a (Some b) True))] else [])))"
proof -
  let ?p = "ag_next a"
  obtain f where f: "agent_find_proxy a l n u = Some f" "case f of Some p \<Rightarrow> \<exists>px. ag_px_h a p = Some px \<and> same_proxy l n u px
     | None \<Rightarrow> \<forall>p px. ag_px_h a p = Some px \<longrightarrow> \<not> same_proxy l n u px" using agent_find_proxy_result [OF ok] by blast
  show ?thesis
  proof (cases f)
    case (Some p)
    then show ?thesis using f inv ok by (auto simp: agent_method_create_proxy_def)
  next
    case None
    then have no: "\<not> (\<exists>p px. ag_px_h a p = Some px \<and> same_proxy l n u px)" using f by auto
    have fresh: "?p \<notin> set (ag_proxies a)" "ag_px_h a ?p = None"
      using ok by (auto simp: proxies_ok_def)
    have bk: "(ag_px_h a)(?p := None) = ag_px_h a" using fresh(2) by (simp add: fun_upd_idem)
    obtain c1 where a1: "proxy_service_new l n u m a = (?p, c1)" "ag_px_h c1 = (ag_px_h a)(?p \<mapsto> new_proxy l n u m a None False)"
      "ag_proxies c1 = ag_proxies a" "ag_next c1 = ?p + 1" "ag_peer_dbus c1 = ag_peer_dbus a" "ag_state c1 = ag_state a"
      "ag_out c1 = ag_out a" "refs_of c1 = refs_of (a\<lparr>ag_next := ?p + 1\<rparr>)"
      by (rule that [of "snd (proxy_service_new l n u m a)"])
        (simp_all add: proxy_service_new_def Let_def new_proxy_def refs_of_def set_apx_def)
    have gone: "\<exists>t. proxy_service_unref ?p b = Some t \<and> refs_ok t \<and> proxies_ok t \<and> ag_px_h t = ag_px_h a \<and> ag_out t = ag_out b"
      if "ag_px_h b = (ag_px_h a)(?p \<mapsto> px)" "px_ref px = 1" "ag_proxies b = ag_proxies a" "refs_of b = refs_of (a\<lparr>ag_next := ?p + 1\<rparr>)" for b px
    proof -
      have "refs_ok (b\<lparr>ag_px_h := ag_px_h a\<rparr>)" using refs_ok_fresh_next [OF inv that(4)] by simp
      moreover have "proxies_ok (b\<lparr>ag_px_h := ag_px_h a\<rparr>)"
        using ok that refs_of_fields(6) [OF that(4)] by (auto simp: proxies_ok_def)
      ultimately show ?thesis using that fresh bk by (simp add: proxy_service_unref_def)
    qed
    have unexported: "\<exists>t. proxy_service_unref ?p c1 = Some t \<and> refs_ok t \<and> proxies_ok t \<and> ag_px_h t = ag_px_h a \<and> ag_out t = ag_out c1"
      by (rule gone [OF a1(2) _ a1(3,8)]) (simp add: new_proxy_def)
    have added: "refs_ok t" "proxies_ok t"
      if "ag_px_h t = (ag_px_h a)(?p \<mapsto> px)" "px_fine px" "ag_proxies t = ag_proxies a @ [?p]" "refs_of t = refs_of (a\<lparr>ag_next := ?p + 1\<rparr>)" for t px
    proof -
      show "refs_ok t" using refs_ok_fresh_next [OF inv that(4)] .
      have nx: "ag_next t = ?p + 1" using refs_of_fields(6) [OF that(4)] by simp
      have old: "distinct (ag_proxies a)" "dom (ag_px_h a) = set (ag_proxies a)" "\<And>q. q \<in> set (ag_proxies a) \<Longrightarrow> q < ?p"
        "\<And>q y. ag_px_h a q = Some y \<Longrightarrow> px_fine y" using ok by (auto simp: proxies_ok_def px_fine_def)
      have "px_fine y" if "ag_px_h t q = Some y" for q y
        using that old(4) \<open>px_fine px\<close> \<open>ag_px_h t = (ag_px_h a)(?p \<mapsto> px)\<close> by (cases "q = ?p") auto
      moreover have "distinct (ag_proxies t)" "dom (ag_px_h t) = set (ag_proxies t)" "\<forall>q \<in> set (ag_proxies t). q < ag_next t"
        using old(1-3) fresh nx that by (auto intro: less_SucI)
      ultimately show "proxies_ok t" unfolding proxies_ok_def px_fine_def by blast
    qed
    show ?thesis
    proof (cases "ag_peer_dbus a")
      case None
      then have "agent_method_create_proxy e m l n u a = map_option (\<lambda>t. (- EINVAL, t)) (proxy_service_unref ?p c1)"
        using f \<open>f = None\<close> a1 by (simp add: agent_method_create_proxy_def proxy_service_export_def)
      then show ?thesis using unexported None no a1(7) by auto
    next
      case (Some b)
      note start = f(1) \<open>f = None\<close> no a1 Some
      let ?x = "new_proxy l n u m a (Some b)"
      have listed: "\<exists>t. do { a4 \<leftarrow> proxy_service_ref ?p c; a5 \<leftarrow> proxy_service_unref ?p (a4\<lparr>ag_proxies := ag_proxies a4 @ [?p]\<rparr>); Some (1 :: int, a5) } =
          Some (1, t) \<and> refs_ok t \<and> proxies_ok t \<and> ag_proxies t = ag_proxies a @ [?p] \<and> ag_px_h t = (ag_px_h a)(?p \<mapsto> ?x sent) \<and> ag_out t = ag_out c"
        if c: "ag_px_h c = (ag_px_h a)(?p \<mapsto> ?x sent)" "ag_proxies c = ag_proxies a" "refs_of c = refs_of (a\<lparr>ag_next := ?p + 1\<rparr>)" for c sent
      proof -
        let ?t = "set_apx ?p (?x sent) ((set_apx ?p ((?x sent)\<lparr>px_ref := 2\<rparr>) c)\<lparr>ag_proxies := ag_proxies a @ [?p]\<rparr>)"
        have "refs_of ?t = refs_of (a\<lparr>ag_next := ?p + 1\<rparr>)" using c(3) by (simp add: refs_of_def set_apx_def)
        then have "refs_ok ?t" "proxies_ok ?t" using added [of ?t "?x sent"] c by (simp_all add: px_fine_def new_proxy_def)
        moreover have "px_ref (?x sent) = 1" by (simp add: new_proxy_def)
        ultimately show ?thesis using c by (simp add: proxy_service_ref_def proxy_service_unref_def px_ref_idem)
      qed
      let ?a2 = "set_apx ?p (?x False) c1"
      have a2: "ag_px_h ?a2 = (ag_px_h a)(?p \<mapsto> ?x False)" "ag_proxies ?a2 = ag_proxies a" "refs_of ?a2 = refs_of (a\<lparr>ag_next := ?p + 1\<rparr>)"
        "ag_out ?a2 = ag_out a" "agent_is_connected ?a2 = agent_is_connected a" "ag_peer_dbus ?a2 = Some b"
        using a1 Some by (simp_all add: refs_of_def set_apx_def agent_is_connected_def)
      have ex: "\<not> a_ret e (AAddVtable ''Proxy'') < 0 \<Longrightarrow> proxy_service_export e ?p c1 = Some (True, ?a2)"
        using a1 Some by (simp add: proxy_service_export_def new_proxy_def)
      consider "a_ret e (AAddVtable ''Proxy'') < 0"
        | "\<not> a_ret e (AAddVtable ''Proxy'') < 0" "\<not> agent_is_connected a"
        | "\<not> a_ret e (AAddVtable ''Proxy'') < 0" "agent_is_connected a" "\<not> a_ret e (AEmit ''ProxyNew'') < 0"
        | "\<not> a_ret e (AAddVtable ''Proxy'') < 0" "agent_is_connected a" "a_ret e (AEmit ''ProxyNew'') = - ENOTCONN"
        | "\<not> a_ret e (AAddVtable ''Proxy'') < 0" "agent_is_connected a" "a_ret e (AEmit ''ProxyNew'') < 0"
          "a_ret e (AEmit ''ProxyNew'') \<noteq> - ENOTCONN" by blast
      then show ?thesis
      proof cases
        case 1
        then have "agent_method_create_proxy e m l n u a = map_option (\<lambda>t. (- EINVAL, t)) (proxy_service_unref ?p c1)" "\<not> abus_ok e"
          using start abus_okD by (auto simp: agent_method_create_proxy_def proxy_service_export_def)
        then show ?thesis using unexported by auto
      next
        case 2
        then show ?thesis using start ex a2 listed [of ?a2 False]
          by (auto simp: agent_method_create_proxy_def proxy_service_emit_proxy_new_def)
      next
        case 3
        let ?c = "set_apx ?p (?x True) (aput (SigProxyNew b n u (px_object_path (?x True))) ?a2)"
        have em: "proxy_service_emit_proxy_new e ?p ?a2 = Some (a_ret e (AEmit ''ProxyNew''), ?c)"
          using 3 a2 by (simp add: proxy_service_emit_proxy_new_def emit_peer_def new_proxy_def)
        have "refs_of ?c = refs_of ?a2" by (simp add: refs_of_def set_apx_def aput_def)
        then show ?thesis using 3 start ex a2 em listed [of ?c True] by (auto simp: agent_method_create_proxy_def aput_def)
      next
        case 4
        then have em: "proxy_service_emit_proxy_new e ?p ?a2 = Some (- ENOTCONN, ?a2)"
          using a2 by (simp add: proxy_service_emit_proxy_new_def emit_peer_def ENOTCONN_def)
        have "\<not> abus_ok e" using 4 abus_okD [of e "AEmit ''ProxyNew''"] by (auto simp: ENOTCONN_def)
        then show ?thesis using 4 start ex a2 em listed [of ?a2 False] by (auto simp: agent_method_create_proxy_def)
      next
        case 5
        then have em: "proxy_service_emit_proxy_new e ?p ?a2 = Some (a_ret e (AEmit ''ProxyNew''), ?a2)"
          using a2 by (simp add: proxy_service_emit_proxy_new_def emit_peer_def)
        let ?c = "areply e m (AError BUS_ERROR_FAILED ''Failed to emit a proxy service'') ?a2"
        have "\<not> abus_ok e" using 5 abus_okD by blast
        then show ?thesis using 5 start ex a2 em gone [of ?c "?x False"]
          by (auto simp: agent_method_create_proxy_def new_proxy_def)
      qed
    qed
  qed
qed

section \<open>Properties\<close>

text \<open>C15.  A proxy follows its target.  While the local service waits, an active target answers it with success
  and a target that really failed or stopped answers it with failure and removes the proxy; once the service was
  told it is ready, a target that really stops removes the proxy and stops the local service through systemd.
  Every other report, in particular a virtual one of an inactive target, changes nothing.  The controller's
  message is always answered, other proxies and units are untouched, and no freed proxy is used.\<close>

theorem proxy_follows_target:
  assumes "refs_ok a" "proxies_ok a" "abus_ok e" "ag_px_h a p = Some px"
  shows "\<exists>t. proxy_service_method_target_state_changed e p m st reason a = Some t \<and> refs_ok t \<and> proxies_ok t \<and>
    phase_of t p = target_phase st reason (phase_of a p) \<and>
    (\<forall>q. q \<noteq> p \<longrightarrow> ag_px_h t q = ag_px_h a q) \<and> ag_unit_infos t = ag_unit_infos a \<and>
    ag_out t = ag_out a @ target_out a px st reason (phase_of a p) @ [AReply m AOk]"
proof -
  from target_state_changed_result [OF assms(1,2,4), of e m st reason] obtain new t where
    t: "proxy_service_method_target_state_changed e p m st reason a = Some t" "refs_ok t" "keeps (after_proxy p new a) t"
    "\<forall>x. new = Some x \<longrightarrow> px_fine x" "phase_of t p = target_phase st reason (phase_of a p)"
    "ag_out t = ag_out a @ target_out a px st reason (phase_of a p) @ [AReply m AOk]" using assms(3) by blast
  have "proxies_ok t" using proxies_ok_after [OF assms(2,4) t(3)] t(4) by blast
  moreover have "\<forall>q. q \<noteq> p \<longrightarrow> ag_px_h t q = ag_px_h a q" "ag_unit_infos t = ag_unit_infos a"
    using t(3) by (auto simp: keeps_def after_proxy_def without_proxy_def split: option.splits)
  ultimately show ?thesis using t by blast
qed

text \<open>An agent connected to the controller, with a proxy of the service \<open>s\<close> for the unit \<open>u\<close> of node \<open>n\<close>.\<close>

definition proxy_agent :: Agent where
  "proxy_agent = snd (the (agent_method_create_proxy ref_aenv 7 ''s'' ''n'' ''u''
     (agent_new\<lparr>ag_peer_dbus := Some 1, ag_state := AGENT_CONNECTION_STATE_CONNECTED\<rparr>)))"

lemma new_agent_ok: "refs_ok (agent_new\<lparr>ag_peer_dbus := b, ag_state := st\<rparr>)" "proxies_ok (agent_new\<lparr>ag_peer_dbus := b, ag_state := st\<rparr>)"
  by (simp_all add: refs_ok_def proxies_ok_def agent_new_def op_holders_def)

lemma proxy_agent_facts:
  "refs_ok proxy_agent" "proxies_ok proxy_agent"
  "ag_px_h proxy_agent 1 = Some (new_proxy ''s'' ''n'' ''u'' 7 agent_new (Some 1) True)"
  "ag_peer_dbus proxy_agent = Some 1" "agent_is_connected proxy_agent"
proof -
  let ?a = "agent_new\<lparr>ag_peer_dbus := Some 1, ag_state := AGENT_CONNECTION_STATE_CONNECTED\<rparr>"
  have f: "ag_px_h ?a = (\<lambda>_. None)" "ag_next ?a = 1" "agent_is_connected ?a" "ag_next_proxy_id ?a = ag_next_proxy_id agent_new"
    by (simp_all add: agent_new_def agent_is_connected_def)
  obtain r t where t: "agent_method_create_proxy ref_aenv 7 ''s'' ''n'' ''u'' ?a = Some (r, t)" "refs_ok t" "proxies_ok t"
    "ag_px_h t = (ag_px_h ?a)(ag_next ?a \<mapsto> new_proxy ''s'' ''n'' ''u'' 7 ?a (Some 1) (agent_is_connected ?a))"
    using create_proxy_result [of ?a ref_aenv 7 "''s''" "''n''" "''u''"] new_agent_ok ref_aenv_ok f by auto
  have p: "proxy_agent = t" using t(1) by (simp add: proxy_agent_def)
  show "refs_ok proxy_agent" "proxies_ok proxy_agent" using t p by simp_all
  show "ag_px_h proxy_agent 1 = Some (new_proxy ''s'' ''n'' ''u'' 7 agent_new (Some 1) True)"
    using t(4) p f by (simp add: new_proxy_def)
  show "ag_peer_dbus proxy_agent = Some 1" "agent_is_connected proxy_agent" by code_simp+
qed

theorem proxy_follows_target_witness:
  "\<exists>t. proxy_service_method_target_state_changed ref_aenv 1 9 ''failed'' ''real'' proxy_agent = Some t \<and> phase_of t 1 = PGone \<and>
     ag_out t = ag_out proxy_agent @
       [AReply 7 (AError BC_BUS_ERROR_ACTIVATION_FAILED ''Proxy service failed to start''), SigProxyRemoved 1 ''n'' ''u'', AReply 9 AOk]"
proof -
  have "phase_of proxy_agent 1 = PWaiting 7" by (simp add: phase_of_def proxy_agent_facts new_proxy_def del: One_nat_def)
  moreover have "removed_signal proxy_agent (new_proxy ''s'' ''n'' ''u'' 7 agent_new (Some 1) True) = [SigProxyRemoved 1 ''n'' ''u'']"
    by (simp add: removed_signal_def proxy_agent_facts new_proxy_def)
  ultimately show ?thesis
    using proxy_follows_target [OF proxy_agent_facts(1,2) ref_aenv_ok proxy_agent_facts(3), of 9 "''failed''" "''real''"]
    by (auto simp: really_stopped_def)
qed

text \<open>\<open>CreateProxy\<close> makes one waiting proxy.  A second request for the same service, node and unit, or one
  without a connection, is refused with a negative result and changes no proxy; otherwise the proxy waits for the
  first state of its target under the request, which stays open, and the controller hears of it when connected.\<close>

theorem create_proxy_waits:
  assumes "refs_ok a" "proxies_ok a" "abus_ok e"
  shows "\<exists>r t. agent_method_create_proxy e m l n u a = Some (r, t) \<and> refs_ok t \<and> proxies_ok t \<and>
    (if (\<exists>p px. ag_px_h a p = Some px \<and> same_proxy l n u px) \<or> ag_peer_dbus a = None
     then r < 0 \<and> ag_px_h t = ag_px_h a \<and> ag_out t = ag_out a
     else r = 1 \<and> ag_px_h a (ag_next a) = None \<and> phase_of t (ag_next a) = PWaiting m \<and>
       (\<forall>q. q \<noteq> ag_next a \<longrightarrow> ag_px_h t q = ag_px_h a q) \<and>
       (\<exists>px. ag_px_h t (ag_next a) = Some px \<and> same_proxy l n u px \<and> px_export_slot px = ag_peer_dbus a \<and>
          ag_out t = ag_out a @ (if agent_is_connected a then [SigProxyNew (the (ag_peer_dbus a)) n u (px_object_path px)] else [])))"
proof -
  have fresh: "ag_px_h a (ag_next a) = None" using assms(2) by (auto simp: proxies_ok_def)
  from create_proxy_result [OF assms(1,2), of e m l n u] assms(3) obtain r t where
    t: "agent_method_create_proxy e m l n u a = Some (r, t)" "refs_ok t" "proxies_ok t" and
    c: "if \<exists>p px. ag_px_h a p = Some px \<and> same_proxy l n u px then r = - EINVAL \<and> t = a
       else case ag_peer_dbus a of
         None \<Rightarrow> r = - EINVAL \<and> ag_px_h t = ag_px_h a \<and> ag_out t = ag_out a
       | Some b \<Rightarrow> r = 1 \<and> ag_proxies t = ag_proxies a @ [ag_next a] \<and>
           ag_px_h t = (ag_px_h a)(ag_next a \<mapsto> new_proxy l n u m a (Some b) (agent_is_connected a)) \<and>
           ag_out t = ag_out a @
             (if agent_is_connected a then [SigProxyNew b n u (px_object_path (new_proxy l n u m a (Some b) True))] else [])" by blast
  consider "\<exists>p px. ag_px_h a p = Some px \<and> same_proxy l n u px" | "\<nexists>p px. ag_px_h a p = Some px \<and> same_proxy l n u px" "ag_peer_dbus a = None"
    | b where "\<nexists>p px. ag_px_h a p = Some px \<and> same_proxy l n u px" "ag_peer_dbus a = Some b" by blast
  then show ?thesis
  proof cases
    case 3
    let ?x = "new_proxy l n u m a (Some b) (agent_is_connected a)"
    have x: "ag_px_h t = (ag_px_h a)(ag_next a \<mapsto> ?x)" "r = 1"
      "ag_out t = ag_out a @ (if agent_is_connected a then [SigProxyNew b n u (px_object_path ?x)] else [])"
      using c 3 by (simp_all add: new_proxy_def)
    moreover have "phase_of t (ag_next a) = PWaiting m" "same_proxy l n u ?x" "px_export_slot ?x = Some b"
      using x(1) by (simp_all add: phase_of_def same_proxy_def new_proxy_def)
    ultimately show ?thesis using 3 t fresh by simp
  next
    case 1
    then have "r = - EINVAL \<and> t = a" using c by (simp only: if_True)
    then show ?thesis using 1 t by (auto simp: EINVAL_def)
  next
    case 2
    then have "r = - EINVAL \<and> ag_px_h t = ag_px_h a \<and> ag_out t = ag_out a" using c by (simp only: if_False option.case)
    then show ?thesis using 2 t by (auto simp: EINVAL_def)
  qed
qed

theorem create_proxy_waits_witness:
  "\<exists>t. agent_method_create_proxy ref_aenv 8 ''s'' ''n'' ''u'' proxy_agent = Some t \<and> fst t < 0 \<and> ag_out (snd t) = ag_out proxy_agent"
proof -
  have "\<exists>p px. ag_px_h proxy_agent p = Some px \<and> same_proxy ''s'' ''n'' ''u'' px"
    by (rule exI [of _ 1], rule exI, rule conjI [OF proxy_agent_facts(3)]) (simp add: same_proxy_def new_proxy_def)
  then show ?thesis
    using create_proxy_waits [OF proxy_agent_facts(1,2) ref_aenv_ok, of 8 "''s''" "''n''" "''u''"] by auto
qed

text \<open>An \<open>Error\<close> of the controller answers a waiting local service with failure and removes the proxy.  Once the
  service was told it is ready, the same message runs into the assertion that a request is open: the agent aborts.\<close>

theorem proxy_error_needs_waiting:
  assumes "refs_ok a" "proxies_ok a" "abus_ok e" "ag_px_h a p = Some px"
  shows "case phase_of a p of
      PWaiting q \<Rightarrow> \<exists>t. proxy_service_method_error e p m a = Some t \<and> refs_ok t \<and> proxies_ok t \<and> phase_of t p = PGone \<and>
        ag_out t = ag_out a @ AReply q (AError BC_BUS_ERROR_ACTIVATION_FAILED ''Proxy service failed to start'')
          # removed_signal a px @ [AReply m AOk]
    | _ \<Rightarrow> proxy_service_method_error e p m a = None"
proof (cases "px_request_message px")
  case None
  then show ?thesis using error_result(1) [OF assms(1,2,4)] assms(4) by (simp add: phase_of_def)
next
  case (Some q)
  then show ?thesis using error_result(2) [OF assms(1,2,4) Some, of e m] assms(3,4) by (auto simp: phase_of_def)
qed

theorem proxy_error_needs_waiting_witness:
  "\<exists>t. proxy_service_method_target_state_changed ref_aenv 1 9 ''active'' ''virtual'' proxy_agent = Some t \<and>
     proxy_service_method_error ref_aenv 1 10 t = None"
proof -
  have w: "phase_of proxy_agent 1 = PWaiting 7" by (simp add: phase_of_def proxy_agent_facts new_proxy_def del: One_nat_def)
  obtain new t where t: "proxy_service_method_target_state_changed ref_aenv 1 9 ''active'' ''virtual'' proxy_agent = Some t"
    "refs_ok t" "keeps (after_proxy 1 new proxy_agent) t" "\<forall>x. new = Some x \<longrightarrow> px_fine x" "phase_of t 1 = PReady"
    using target_state_changed_result [OF proxy_agent_facts(1,2,3), of ref_aenv 9 "''active''" "''virtual''"] w by auto
  have "proxies_ok t" using proxies_ok_after [OF proxy_agent_facts(2,3) t(3)] t(4) by blast
  moreover obtain px where "ag_px_h t 1 = Some px" using t(5) by (auto simp: phase_of_def split: option.splits)
  ultimately show ?thesis using proxy_error_needs_waiting [of t ref_aenv 1 px 10] t ref_aenv_ok by auto
qed

end
