(* ===== verification/Agent_Frame.thy ===== *)
theory Agent_Frame
  imports Agent_Proxy_Props Agent_Conn
begin

text \<open>What the operations of the agent leave alone: requests and jobs do not touch units, proxies and the
  connection; the connection does not touch units, proxies and requests.\<close>

section \<open>Requests and jobs\<close>

text \<open>An operation that ends with a live agent started with one and kept the rest.\<close>

definition live_keeps :: "Agent \<Rightarrow> Agent \<Rightarrow> bool" where
  "live_keeps a t = (0 < ag_ref t \<longrightarrow> 0 < ag_ref a \<and> keeps a t)"

lemma live_keeps_refl [simp]: "live_keeps a a"
  by (simp add: live_keeps_def)

lemma live_keeps_trans: "live_keeps a b \<Longrightarrow> live_keeps b c \<Longrightarrow> live_keeps a c"
  by (auto simp: live_keeps_def intro: keeps_trans)

lemma live_keepsD: "live_keeps a t \<Longrightarrow> refs_ok t \<Longrightarrow> keeps a t"
  using refs_ok_pos by (auto simp: live_keeps_def)

lemma live_keeps_out [simp]:
  "live_keeps a (aput m b) = live_keeps a b" "live_keeps a (areply e q r b) = live_keeps a b"
  "live_keeps a (snd (emit_peer e n s b)) = live_keeps a b" "live_keeps a (set_areq r' q' b) = live_keeps a b"
  "live_keeps a (set_aop p op b) = live_keeps a b" "live_keeps a (b\<lparr>ag_requests := x\<rparr>) = live_keeps a b"
  "live_keeps a (b\<lparr>ag_req_h := h\<rparr>) = live_keeps a b" "live_keeps a (b\<lparr>ag_op_h := g\<rparr>) = live_keeps a b"
  "live_keeps a (b\<lparr>ag_tracked_jobs := ts\<rparr>) = live_keeps a b"
proof -
  have "ag_ref (snd (emit_peer e n s b)) = ag_ref b" using refs_of_fields(1) [OF refs_of_out(3)] .
  then show "live_keeps a (snd (emit_peer e n s b)) = live_keeps a b" by (simp add: live_keeps_def)
qed (simp_all add: live_keeps_def set_areq_def set_aop_def)

lemma live_keeps_in [simp]:
  "live_keeps (areply e q r b) a = live_keeps b a" "live_keeps (snd (emit_peer e n s b)) a = live_keeps b a"
  "live_keeps (set_areq r' q' b) a = live_keeps b a" "live_keeps (b\<lparr>ag_requests := x\<rparr>) a = live_keeps b a"
  "live_keeps (b\<lparr>ag_tracked_jobs := ts\<rparr>) a = live_keeps b a"
proof -
  have "ag_ref (snd (emit_peer e n s b)) = ag_ref b" using refs_of_fields(1) [OF refs_of_out(3)] .
  moreover have "keeps b (snd (emit_peer e n s b))" "ag_next (snd (emit_peer e n s b)) = ag_next b"
    using refs_of_fields(6) [OF refs_of_out(3)] by simp_all
  ultimately show "live_keeps (snd (emit_peer e n s b)) a = live_keeps b a" by (auto simp: live_keeps_def keeps_def)
  have "keeps b (areply e q r b)" by simp
  then show "live_keeps (areply e q r b) a = live_keeps b a" by (auto simp: live_keeps_def keeps_def)
qed (simp_all add: live_keeps_def set_areq_def keeps_def)

lemma agent_ref_keeps: "agent_ref a = Some t \<Longrightarrow> live_keeps a t"
  by (auto simp: agent_ref_def live_keeps_def split: if_splits)

lemma agent_unref_live: "agent_unref a = Some t \<Longrightarrow> live_keeps a t"
  by (auto simp: agent_unref_def live_keeps_def split: if_splits)

lemma op_ref_keeps: "agent_job_op_ref r a = Some t \<Longrightarrow> live_keeps a t"
  by (auto simp: agent_job_op_ref_def bind_eq_Some_conv)

lemma op_unref_keeps: "agent_job_op_unref r a = Some t \<Longrightarrow> live_keeps a t"
  by (auto simp: agent_job_op_unref_def bind_eq_Some_conv dest: agent_unref_live split: if_splits)

lemma job_new_keeps: "agent_job_new i u m a = Some (r, t) \<Longrightarrow> live_keeps a t"
  by (auto simp: agent_job_new_def bind_eq_Some_conv Let_def agent_ref_def live_keeps_def keeps_def set_aop_def split: if_splits)

lemma request_unref_keeps: "systemd_request_unref r a = Some t \<Longrightarrow> live_keeps a t"
  by (auto simp: systemd_request_unref_def bind_eq_Some_conv split: if_splits option.splits
      dest!: op_unref_keeps agent_unref_live intro: live_keeps_trans)

lemma create_request_keeps:
  assumes "agent_create_request_full e m p i meth a = Some (ro, t)"
  shows "live_keeps a t"
proof -
  obtain a1 where a1: "agent_ref a = Some a1" using assms by (auto simp: agent_create_request_full_def bind_eq_Some_conv)
  have "live_keeps a (a1\<lparr>ag_next := ag_next a1 + 1\<rparr>)"
    using a1 by (auto simp: agent_ref_def live_keeps_def keeps_def split: if_splits)
  then have "live_keeps a ((set_areq (ag_next a1) q a1)\<lparr>ag_next := ag_next a1 + 1, ag_requests := rs\<rparr>)" for q rs
    by (simp add: live_keeps_def keeps_def set_areq_def)
  note new = this [where q = "\<lparr>sr_ref = 1, sr_request_message = m, sr_path = p, sr_iface = i, sr_method = meth, sr_args = [], sr_userdata = None,
    sr_slot = None\<rparr>" and rs = "ag_requests a1 @ [ag_next a1]"]
  show ?thesis using assms a1 new live_keeps_trans [OF new request_unref_keeps]
    by (auto simp: agent_create_request_full_def Let_def simp del: live_keeps_out split: if_splits)
qed

lemma set_userdata_keeps: "systemd_request_set_userdata r op a = Some t \<Longrightarrow> live_keeps a t"
  by (auto simp: systemd_request_set_userdata_def bind_eq_Some_conv)

lemma request_start_keeps: "systemd_request_start e r cb a = Some (ok, t) \<Longrightarrow> live_keeps a t"
  by (auto simp: systemd_request_start_def bind_eq_Some_conv split: if_splits option.splits)

lemmas request_keeps = op_ref_keeps op_unref_keeps job_new_keeps request_unref_keeps create_request_keeps set_userdata_keeps
  request_start_keeps

lemma submit_keeps: "submit_systemd e m p i meth args fill cb a = Some t \<Longrightarrow> live_keeps a t"
  by (auto simp: submit_systemd_def bind_eq_Some_conv split: option.splits if_splits
      dest!: request_keeps) (meson live_keeps_trans)+

lemma lifecycle_keeps: "agent_run_unit_lifecycle_method e m meth n mode i a = Some t \<Longrightarrow> live_keeps a t"
  unfolding agent_run_unit_lifecycle_method_def agent_create_request_def
  by (auto simp: bind_eq_Some_conv split: option.splits if_splits dest!: request_keeps) (meson live_keeps_trans)+

lemma job_done_keeps: "agent_job_done e res r a = Some t \<Longrightarrow> live_keeps a t"
  by (auto simp: agent_job_done_def bind_eq_Some_conv Let_def agent_send_job_metrics_def)

lemma callback_keeps:
  assumes "systemd_callback e r ans a = Some t"
  shows "live_keeps a t"
proof -
  have fwd: "live_keeps a (forward_answer e mo ans a)" for mo
    by (simp add: forward_answer_def split: option.split systemd_answer.split)
  have cancel: "job_cancel_callback e q ans a = Some b \<Longrightarrow> live_keeps a b" for q b
    by (cases ans) (auto simp: job_cancel_callback_def bind_eq_Some_conv split: if_splits)
  have life: "agent_unit_lifecycle_method_callback e q ans a = Some b \<Longrightarrow> live_keeps a b" for q b
    by (cases ans) (auto simp: agent_unit_lifecycle_method_callback_def bind_eq_Some_conv agent_track_job_def dest: op_ref_keeps)
  obtain q cb b where q: "sr_slot q = Some cb" "systemd_request_unref r b = Some t"
    "(case cb of CbCopy \<Rightarrow> Some (forward_answer e (sr_request_message q) ans a)
      | CbUnitLifecycle \<Rightarrow> agent_unit_lifecycle_method_callback e q ans a
      | CbDep \<Rightarrow> Some a | CbCancel \<Rightarrow> job_cancel_callback e q ans a | CbStopProxy \<Rightarrow> Some a) = Some b"
    using assms unfolding systemd_callback_def bind_eq_Some_conv by blast
  then have "live_keeps a b" using fwd cancel life by (cases cb) auto
  then show ?thesis using request_unref_keeps [OF q(2)] live_keeps_trans by blast
qed

lemma job_removed_keeps: "agent_match_job_removed e p res a = Some t \<Longrightarrow> live_keeps a t"
  by (auto simp: agent_match_job_removed_def bind_eq_Some_conv split: option.splits
      dest!: job_done_keeps op_unref_keeps intro: live_keeps_trans)

lemma job_changed_keeps:
  assumes "agent_match_job_changed e p i items a = Some t"
  shows "live_keeps a t"
proof (cases "i \<noteq> SYSTEMD_JOB_IFACE \<or> find_tracker (\<lambda>t. jt_path t = p) (ag_tracked_jobs a) = None")
  case False
  then obtain j where j: "find_tracker (\<lambda>t. jt_path t = p) (ag_tracked_jobs a) = Some j" "i = SYSTEMD_JOB_IFACE" by auto
  with assms obtain op where "ag_op_h a (jt_op j) = Some op" by (auto simp: agent_match_job_changed_def bind_eq_Some_conv)
  then show ?thesis using assms j by (auto simp: agent_match_job_changed_def Let_def case_prod_beta)
qed (use assms in \<open>auto simp: agent_match_job_changed_def split: if_splits\<close>)

lemma job_cancel_keeps: "agent_method_job_cancel e m i a = Some t \<Longrightarrow> live_keeps a t"
  by (auto simp: agent_method_job_cancel_def bind_eq_Some_conv split: option.splits if_splits
      dest!: request_keeps) (meson live_keeps_trans)+

section \<open>The connection\<close>

definition same_objects :: "Agent \<Rightarrow> Agent \<Rightarrow> bool" where
  "same_objects a t = (refs_of t = refs_of a \<and> ag_proxies t = ag_proxies a \<and> ag_px_h t = ag_px_h a \<and>
     ag_unit_infos t = ag_unit_infos a \<and> ag_wildcard t = ag_wildcard a \<and> ag_next_bus a \<le> ag_next_bus t)"

lemma same_objects_refl [simp]: "same_objects a a"
  by (simp add: same_objects_def)

lemma same_objects_trans: "same_objects a b \<Longrightarrow> same_objects b c \<Longrightarrow> same_objects a c"
  by (simp add: same_objects_def)

lemma same_objects_upd [simp]:
  "same_objects a (b\<lparr>ag_assembled_address := x\<rparr>) = same_objects a b" "same_objects a (b\<lparr>ag_controller_address := x\<rparr>) = same_objects a b"
  "same_objects a (b\<lparr>ag_state := s\<rparr>) = same_objects a b" "same_objects a (b\<lparr>ag_peer_dbus := p\<rparr>) = same_objects a b"
  "same_objects a (b\<lparr>ag_register_slot := f\<rparr>) = same_objects a b" "same_objects a (b\<lparr>ag_retry_count := n\<rparr>) = same_objects a b"
  "same_objects a (b\<lparr>ag_log := l\<rparr>) = same_objects a b" "same_objects a (b\<lparr>ag_disconnect_timestamp := w\<rparr>) = same_objects a b"
  "same_objects a (b\<lparr>ag_disconnect_timestamp_monotonic := w\<rparr>) = same_objects a b"
  "same_objects a (b\<lparr>ag_last_seen := w\<rparr>) = same_objects a b" "same_objects a (b\<lparr>ag_last_seen_monotonic := w\<rparr>) = same_objects a b"
  by (simp_all add: same_objects_def refs_of_def)

lemma same_objects_out [simp]:
  "same_objects a (aput m b) = same_objects a b" "same_objects a (areply e q r b) = same_objects a b"
  "same_objects a (snd (emit_peer e n s b)) = same_objects a b" "same_objects a (emit_property e n m b) = same_objects a b"
  by (simp_all add: same_objects_def refs_of_def aput_def areply_def emit_peer_def emit_property_def split: option.split)

lemma ensure_address_cases:
  assumes "P a" "\<And>y. P (a\<lparr>ag_assembled_address := Some y\<rparr>)"
  shows "P (snd (ensure_assembled_controller_address e a))"
  using assms
  unfolding ensure_assembled_controller_address_def agent_set_assembled_controller_address_def Let_def case_prod_beta
  by (simp split: option.split)

lemma ensure_address_result:
  obtains x where "snd (ensure_assembled_controller_address e a) = a\<lparr>ag_assembled_address := x\<rparr>"
proof -
  have "\<exists>x. snd (ensure_assembled_controller_address e a) = a\<lparr>ag_assembled_address := x\<rparr>"
    by (rule ensure_address_cases [where P = "\<lambda>t. \<exists>x. t = a\<lparr>ag_assembled_address := x\<rparr>"])
      (rule exI [of _ "ag_assembled_address a"], simp, blast)
  then show thesis using that by blast
qed

lemma ensure_same_objects [simp]: "same_objects a (snd (ensure_assembled_controller_address e b)) = same_objects a b"
  by (rule ensure_address_result [of e b]) simp

lemma close_same_objects [simp]: "same_objects a (agent_peer_bus_close b) = same_objects a b"
  by (simp add: agent_peer_bus_close_def)

lemma connect_same_objects: "same_objects a b \<Longrightarrow> same_objects a (snd (agent_connect e b))"
  by (auto simp: agent_connect_def Let_def same_objects_def refs_of_def aput_def)

lemma reconnect_same_objects: "same_objects a b \<Longrightarrow> same_objects a (snd (agent_reconnect e b))"
proof -
  assume "same_objects a b"
  then have "same_objects a (snd (ensure_assembled_controller_address e (b\<lparr>ag_assembled_address := None\<rparr>)))" by simp
  then show ?thesis
    by (auto simp: agent_reconnect_def Let_def case_prod_beta intro!: connect_same_objects split: option.split)
qed

lemma disconnected_same_objects: "same_objects a b \<Longrightarrow> same_objects a (agent_disconnected e b)"
  by (auto simp: agent_disconnected_def Let_def intro: reconnect_same_objects)

lemma liveness_same_objects: "same_objects a b \<Longrightarrow> same_objects a (snd (agent_check_controller_liveness e b))"
  by (auto simp: agent_check_controller_liveness_def Let_def intro: disconnected_same_objects)

lemma tick_same_objects: "same_objects a (heartbeat_tick e a)"
  using liveness_same_objects [of a _ e]
  by (auto simp: heartbeat_tick_def Let_def case_prod_beta intro!: reconnect_same_objects)

lemma switch_same_objects: "same_objects a (agent_method_switch_controller e m addr a)"
  by (auto simp: agent_method_switch_controller_def agent_set_controller_address_def agent_set_assembled_controller_address_def Let_def
      intro!: disconnected_same_objects)

section \<open>The invariant of the connection\<close>

text \<open>A connected agent, and one that waits for the answer of a registration, has a bus; buses are numbered as
  they are opened.\<close>

definition conn_ok :: "Agent \<Rightarrow> bool" where
  "conn_ok a = ((ag_state a = AGENT_CONNECTION_STATE_CONNECTED \<or> ag_register_slot a \<longrightarrow> ag_peer_dbus a \<noteq> None) \<and>
     (\<forall>b. ag_peer_dbus a = Some b \<longrightarrow> b < ag_next_bus a) \<and>
     (\<forall>p px b. ag_px_h a p = Some px \<longrightarrow> px_export_slot px = Some b \<longrightarrow> b < ag_next_bus a))"

lemma conn_ok_keeps: "conn_ok a \<Longrightarrow> keeps a t \<Longrightarrow> conn_ok t"
  by (simp add: conn_ok_def keeps_def)

lemma conn_ok_out [simp]:
  "conn_ok (aput m a) = conn_ok a" "conn_ok (areply e q r a) = conn_ok a" "conn_ok (snd (emit_peer e n s a)) = conn_ok a"
  "conn_ok (emit_property e n m a) = conn_ok a" "conn_ok (a\<lparr>ag_assembled_address := x\<rparr>) = conn_ok a"
  "conn_ok (a\<lparr>ag_controller_address := x\<rparr>) = conn_ok a" "conn_ok (a\<lparr>ag_retry_count := c\<rparr>) = conn_ok a"
  "conn_ok (a\<lparr>ag_log := l\<rparr>) = conn_ok a" "conn_ok (a\<lparr>ag_disconnect_timestamp := w\<rparr>) = conn_ok a"
  "conn_ok (a\<lparr>ag_disconnect_timestamp_monotonic := w\<rparr>) = conn_ok a"
  "conn_ok (a\<lparr>ag_last_seen := w\<rparr>) = conn_ok a" "conn_ok (a\<lparr>ag_last_seen_monotonic := w\<rparr>) = conn_ok a"
  by (simp_all add: conn_ok_def aput_def areply_def emit_peer_def emit_property_def split: option.split)

lemma conn_ok_slot [intro]: "conn_ok a \<Longrightarrow> conn_ok (a\<lparr>ag_register_slot := False\<rparr>)"
  by (auto simp: conn_ok_def)

lemma conn_ok_state [intro]: "conn_ok a \<Longrightarrow> s \<noteq> AGENT_CONNECTION_STATE_CONNECTED \<Longrightarrow> conn_ok (a\<lparr>ag_state := s\<rparr>)"
  by (auto simp: conn_ok_def)

lemma ensure_conn_ok [simp]: "conn_ok (snd (ensure_assembled_controller_address e a)) = conn_ok a"
  by (rule ensure_address_result [of e a]) simp

text \<open>Connecting starts from a closed bus.\<close>

lemma connect_conn_ok:
  assumes "conn_ok a" "ag_peer_dbus a = None"
  shows "conn_ok (snd (agent_connect e a))"
proof -
  have "\<not> ag_register_slot a" "\<And>p px b. ag_px_h a p = Some px \<Longrightarrow> px_export_slot px = Some b \<Longrightarrow> b < ag_next_bus a"
    using assms by (auto simp: conn_ok_def)
  then show ?thesis by (auto simp: agent_connect_def Let_def conn_ok_def aput_def intro: less_SucI)
qed

lemma reconnect_conn_ok:
  assumes "conn_ok a" "ag_state a \<noteq> AGENT_CONNECTION_STATE_CONNECTED"
  shows "conn_ok (snd (agent_reconnect e a))"
proof -
  let ?r = "ensure_assembled_controller_address e (a\<lparr>ag_assembled_address := None\<rparr>)"
  have c: "conn_ok b \<Longrightarrow> ag_state b \<noteq> AGENT_CONNECTION_STATE_CONNECTED \<Longrightarrow> conn_ok (agent_peer_bus_close b)"
    "ag_peer_dbus (agent_peer_bus_close b) = None" for b by (auto simp: agent_peer_bus_close_def conn_ok_def)
  have st: "ag_state (snd ?r) = ag_state a"
    by (rule ensure_address_result [of e "a\<lparr>ag_assembled_address := None\<rparr>"]) simp
  have st2: "ag_state (emit_property e n m b) = ag_state b" for n m b by (simp add: emit_property_def aput_def)
  have "conn_ok (snd ?r)" using assms(1) by simp
  then show ?thesis using c st st2 assms(2)
    by (auto simp: agent_reconnect_def Let_def case_prod_beta intro!: connect_conn_ok split: option.split)
qed

lemma disconnected_conn_ok: "conn_ok a \<Longrightarrow> conn_ok (agent_disconnected e a)"
  by (auto simp: agent_disconnected_def Let_def emit_property_def aput_def intro!: reconnect_conn_ok)
    (auto simp: conn_ok_def)

lemma liveness_conn_ok: "conn_ok a \<Longrightarrow> conn_ok (snd (agent_check_controller_liveness e a))"
  by (auto simp: agent_check_controller_liveness_def Let_def intro: disconnected_conn_ok)

lemma tick_conn_ok: "conn_ok a \<Longrightarrow> conn_ok (heartbeat_tick e a)"
proof -
  assume a: "conn_ok a"
  define a1 where "a1 = (if ag_state a = AGENT_CONNECTION_STATE_CONNECTING
                then a\<lparr>ag_register_slot := False, ag_state := AGENT_CONNECTION_STATE_RETRY\<rparr> else a)"
  have "conn_ok a1" using a by (auto simp: a1_def conn_ok_def)
  define r where "r = (if ag_state a1 = AGENT_CONNECTION_STATE_CONNECTED then agent_check_controller_liveness e a1 else (False, a1))"
  have "conn_ok (snd r)" using \<open>conn_ok a1\<close> liveness_conn_ok by (simp add: r_def)
  then show ?thesis unfolding heartbeat_tick_def Let_def a1_def [symmetric] r_def [symmetric] case_prod_beta
    by (auto intro!: reconnect_conn_ok)
qed

lemma switch_conn_ok: "conn_ok a \<Longrightarrow> conn_ok (agent_method_switch_controller e m addr a)"
  by (auto simp: agent_method_switch_controller_def agent_set_controller_address_def agent_set_assembled_controller_address_def Let_def
      intro!: disconnected_conn_ok)

end
