(* ===== verification/Agent_Reach.thy ===== *)
theory Agent_Reach
  imports Agent_Frame
begin

text \<open>The agent as a machine driven by events: one event is one call of a handler from the event loop.  From the
  start, no sequence of events makes a handler abort.\<close>

section \<open>Machines that do not get stuck\<close>

text \<open>A machine whose events are enabled in some states; a run is a list of events each of which is enabled when
  it happens.\<close>

fun enabled_run :: "('s \<Rightarrow> 'e \<Rightarrow> bool) \<Rightarrow> ('e \<Rightarrow> 's \<Rightarrow> 's option) \<Rightarrow> 's \<Rightarrow> 'e list \<Rightarrow> bool" where
  "enabled_run en run s [] = True"
| "enabled_run en run s (e # es) = (en s e \<and> (case run e s of None \<Rightarrow> True | Some t \<Rightarrow> enabled_run en run t es))"

locale safe_machine =
  fixes run :: "'e \<Rightarrow> 's \<Rightarrow> 's option" and en :: "'s \<Rightarrow> 'e \<Rightarrow> bool" and inv :: "'s \<Rightarrow> bool"
  assumes progress: "inv s \<Longrightarrow> en s e \<Longrightarrow> \<exists>t. run e s = Some t \<and> inv t"
begin

lemma run_safe: "inv s \<Longrightarrow> enabled_run en run s es \<Longrightarrow> \<exists>t. foldo run es s = Some t \<and> inv t"
proof (induction es arbitrary: s)
  case (Cons e es)
  then obtain t where "run e s = Some t" "inv t" using progress by fastforce
  then show ?case using Cons by simp
qed simp

lemma run_prefix_safe:
  assumes "inv s" "enabled_run en run s (es @ fs)"
  shows "\<exists>t. foldo run es s = Some t \<and> inv t \<and> enabled_run en run t fs"
  using assms
proof (induction es arbitrary: s)
  case (Cons e es)
  then obtain t where "run e s = Some t" "inv t" using progress by fastforce
  then show ?case using Cons by simp
qed simp

end

section \<open>Events\<close>

datatype agent_event =
    AgTimer
  | AgDisconnected
  | AgRegisterReply bool
  | AgControllerHeartbeat
  | AgSubscribe amsg string
  | AgUnsubscribe amsg string
  | AgUnitNew string
  | AgUnitRemoved string
  | AgUnitChanged string string "prop_item list"
  | AgJobChanged string string "prop_item list"
  | AgJobRemoved string string
  | AgSystemdAnswer aref systemd_answer
  | AgUnitLifecycle amsg string string string "32 word"
  | AgPassthrough amsg string "string list"
  | AgListUnits amsg
  | AgListUnitFiles amsg
  | AgGetUnitProperties amsg string string
  | AgGetUnitProperty amsg string string string
  | AgSetUnitProperties amsg string "string list"
  | AgFreezeUnit amsg string
  | AgThawUnit amsg string
  | AgStartDep amsg string
  | AgStopDep amsg string
  | AgJobCancel amsg "32 word"
  | AgEnableMetrics amsg
  | AgDisableMetrics amsg
  | AgSetLogLevel amsg string
  | AgCreateProxy amsg string string string
  | AgRemoveProxy amsg string string string
  | AgSwitchController amsg string
  | AgTargetStateChanged aref amsg string string
  | AgTargetNew aref amsg
  | AgTargetRemoved aref amsg string
  | AgProxyError aref amsg

fun agent_handle :: "aenv \<times> agent_event \<Rightarrow> Agent \<Rightarrow> Agent option" where
  "agent_handle (e, AgTimer) a = Some (heartbeat_tick e a)"
| "agent_handle (e, AgDisconnected) a = Some (agent_disconnected e a)"
| "agent_handle (e, AgRegisterReply is_error) a = agent_register_callback e is_error a"
| "agent_handle (e, AgControllerHeartbeat) a = Some (snd (agent_match_heartbeat e a))"
| "agent_handle (e, AgSubscribe m u) a = Some (agent_method_subscribe e m u a)"
| "agent_handle (e, AgUnsubscribe m u) a = Some (agent_method_unsubscribe e m u a)"
| "agent_handle (e, AgUnitNew u) a = Some (agent_match_unit_new e u a)"
| "agent_handle (e, AgUnitRemoved p) a = Some (agent_match_unit_removed e p a)"
| "agent_handle (e, AgUnitChanged p i items) a = Some (agent_match_unit_changed e p i items a)"
| "agent_handle (e, AgJobChanged p i items) a = agent_match_job_changed e p i items a"
| "agent_handle (e, AgJobRemoved p res) a = agent_match_job_removed e p res a"
| "agent_handle (e, AgSystemdAnswer r ans) a = systemd_callback e r ans a"
| "agent_handle (e, AgUnitLifecycle m meth u mode i) a = agent_run_unit_lifecycle_method e m meth u mode i a"
| "agent_handle (e, AgPassthrough m member args) a = agent_method_passthrough_to_systemd e m member args a"
| "agent_handle (e, AgListUnits m) a = agent_method_list_units e m a"
| "agent_handle (e, AgListUnitFiles m) a = agent_method_list_unit_files e m a"
| "agent_handle (e, AgGetUnitProperties m u i) a = agent_method_get_unit_properties e m u i a"
| "agent_handle (e, AgGetUnitProperty m u i p) a = agent_method_get_unit_property e m u i p a"
| "agent_handle (e, AgSetUnitProperties m u args) a = agent_method_set_unit_properties e m u args a"
| "agent_handle (e, AgFreezeUnit m u) a = agent_method_freeze_unit e m u a"
| "agent_handle (e, AgThawUnit m u) a = agent_method_thaw_unit e m u a"
| "agent_handle (e, AgStartDep m u) a = agent_method_start_dep e m u a"
| "agent_handle (e, AgStopDep m u) a = agent_method_stop_dep e m u a"
| "agent_handle (e, AgJobCancel m i) a = agent_method_job_cancel e m i a"
| "agent_handle (e, AgEnableMetrics m) a = Some (agent_method_enable_metrics e m a)"
| "agent_handle (e, AgDisableMetrics m) a = Some (agent_method_disable_metrics e m a)"
| "agent_handle (e, AgSetLogLevel m l) a = Some (agent_method_set_log_level e m l a)"
| "agent_handle (e, AgCreateProxy m l n u) a = map_option snd (agent_method_create_proxy e m l n u a)"
| "agent_handle (e, AgRemoveProxy m l n u) a = agent_method_remove_proxy e m l n u a"
| "agent_handle (e, AgSwitchController m addr) a = Some (agent_method_switch_controller e m addr a)"
| "agent_handle (e, AgTargetStateChanged p m st reason) a = proxy_service_method_target_state_changed e p m st reason a"
| "agent_handle (e, AgTargetNew p m) a = proxy_service_method_target_new e p m a"
| "agent_handle (e, AgTargetRemoved p m reason) a = proxy_service_method_target_removed e p m reason a"
| "agent_handle (e, AgProxyError p m) a = proxy_service_method_error e p m a"

text \<open>systemd answers requests that are pending, the controller answers a pending registration and calls proxies that
  exist; it reports an error only for a proxy that still waits.\<close>

definition agent_enabled :: "Agent \<Rightarrow> aenv \<times> agent_event \<Rightarrow> bool" where
  "agent_enabled a eev =
     (case snd eev of
        AgSystemdAnswer r ans \<Rightarrow> ag_req_h a r \<noteq> None
      | AgRegisterReply is_error \<Rightarrow> ag_register_slot a
      | AgTargetStateChanged p m st reason \<Rightarrow> ag_px_h a p \<noteq> None
      | AgTargetNew p m \<Rightarrow> ag_px_h a p \<noteq> None
      | AgTargetRemoved p m reason \<Rightarrow> ag_px_h a p \<noteq> None
      | AgProxyError p m \<Rightarrow> phase_of a p \<notin> {PReady, PGone}
      | _ \<Rightarrow> True)"

section \<open>The invariant\<close>

definition agent_inv :: "Agent \<Rightarrow> bool" where
  "agent_inv a = (refs_ok a \<and> proxies_ok a \<and> units_ok a \<and> conn_ok a)"

lemma units_ok_cong: "ag_unit_infos t = ag_unit_infos a \<Longrightarrow> units_ok t = units_ok a"
  using get_unit_info_cong [of t a] by (simp add: units_ok_def)

lemma inv_keeps: "agent_inv a \<Longrightarrow> keeps a t \<Longrightarrow> refs_ok t \<Longrightarrow> agent_inv t"
  using proxies_ok_keeps conn_ok_keeps units_ok_cong [of t a] by (auto simp: agent_inv_def keeps_def)

lemma inv_live:
  assumes "agent_inv a" "\<exists>t. r = Some t \<and> refs_ok t" "\<And>t. r = Some t \<Longrightarrow> live_keeps a t"
  shows "\<exists>t. r = Some t \<and> agent_inv t"
  using assms inv_keeps live_keepsD by blast

lemma inv_same_objects: "agent_inv a \<Longrightarrow> same_objects a t \<Longrightarrow> conn_ok t \<Longrightarrow> agent_inv t"
  using refs_ok_cong [of t a] units_ok_cong [of t a] refs_of_fields(6) [of t a]
  by (auto simp: agent_inv_def same_objects_def proxies_ok_def)

text \<open>What the operations on units leave alone.\<close>

definition units_frame :: "Agent \<Rightarrow> Agent \<Rightarrow> bool" where
  "units_frame a t = (refs_of t = refs_of a \<and> ag_proxies t = ag_proxies a \<and> ag_px_h t = ag_px_h a \<and> ag_state t = ag_state a \<and>
     ag_peer_dbus t = ag_peer_dbus a \<and> ag_register_slot t = ag_register_slot a \<and> ag_next_bus t = ag_next_bus a)"

lemma units_frame_refl [simp]: "units_frame a a"
  by (simp add: units_frame_def)

lemma units_frame_out [simp]:
  "units_frame a (aput m b) = units_frame a b" "units_frame a (areply e q r b) = units_frame a b"
  "units_frame a (snd (emit_peer e n s b)) = units_frame a b" "units_frame a (set_unit_info p i b) = units_frame a b"
  "units_frame a (b\<lparr>ag_wildcard := w\<rparr>) = units_frame a b" "units_frame a (agent_update_unit_infos_for p i b) = units_frame a b"
  by (simp_all add: units_frame_def refs_of_def aput_def areply_def emit_peer_def set_unit_info_def agent_update_unit_infos_for_def
      split: option.split)

lemma ensure_unit_frame [simp]: "units_frame a (snd (agent_ensure_unit_info u b)) = units_frame a b"
  by (simp add: agent_ensure_unit_info_def Let_def split: option.split)

lemma inv_units: "agent_inv a \<Longrightarrow> units_frame a t \<Longrightarrow> units_ok t \<Longrightarrow> agent_inv t"
  using refs_ok_cong [of t a] refs_of_fields(6) [of t a]
  by (auto simp: agent_inv_def units_frame_def proxies_ok_def conn_ok_def)

lemma unit_ops_frame:
  "units_frame a (agent_method_subscribe e m u a)" "units_frame a (agent_method_unsubscribe e m u a)"
  "units_frame a (agent_match_unit_new e u a)" "units_frame a (agent_match_unit_removed e p a)"
  "units_frame a (agent_match_unit_changed e p i items a)"
  by (simp_all add: agent_method_subscribe_def agent_method_unsubscribe_def agent_match_unit_new_def agent_match_unit_removed_def
      agent_match_unit_changed_def Let_def case_prod_beta agent_emit_defs split: option.split)

lemma unit_removed_ok:
  assumes "units_ok a"
  shows "units_ok (agent_match_unit_removed e p a)"
proof (cases "agent_get_unit_info a p")
  case (Some i)
  then have "p = make_unit_path (ui_unit i)" using assms by (simp add: units_ok_def)
  then show ?thesis using unit_removed_refines [OF assms] by simp
qed (use assms in \<open>simp add: agent_match_unit_removed_def\<close>)

section \<open>Proxies\<close>

lemma inv_after_proxy:
  assumes "agent_inv a" "ag_px_h a p = Some px" "refs_ok t" "keeps (after_proxy p new a) t"
    "\<And>x. new = Some x \<Longrightarrow> px_fine x \<and> px_export_slot x = px_export_slot px"
  shows "agent_inv t"
proof -
  have "proxies_ok t" using proxies_ok_after [OF _ assms(2,4)] assms(1,5) by (auto simp: agent_inv_def)
  moreover have "units_ok t" using units_ok_cong [of t a] assms(1,4)
    by (auto simp: agent_inv_def keeps_def after_proxy_def without_proxy_def split: option.splits)
  moreover have "conn_ok t"
  proof -
    have f: "ag_state t = ag_state a" "ag_peer_dbus t = ag_peer_dbus a" "ag_register_slot t = ag_register_slot a"
      "ag_next_bus t = ag_next_bus a" "ag_px_h t = (ag_px_h a)(p := new)"
      using assms(4) by (auto simp: keeps_def after_proxy_def without_proxy_def split: option.splits)
    have "b < ag_next_bus a" if "ag_px_h t q = Some y" "px_export_slot y = Some b" for q y b
      using that f(5) assms(1,2,5) by (cases "q = p") (auto simp: agent_inv_def conn_ok_def)
    then show ?thesis using assms(1) f by (auto simp: agent_inv_def conn_ok_def)
  qed
  ultimately show ?thesis using assms(3) by (simp add: agent_inv_def)
qed

lemma target_state_changed_inv:
  assumes "agent_inv a" "ag_px_h a p = Some px"
  shows "\<exists>t. proxy_service_method_target_state_changed e p m st reason a = Some t \<and> agent_inv t"
  using target_state_changed_result [of a p px e m st reason] assms inv_after_proxy [OF assms]
  by (auto simp: agent_inv_def)

lemma proxy_handlers_inv:
  assumes inv: "agent_inv a" and px: "ag_px_h a p = Some px"
  shows "\<exists>t. proxy_service_method_target_new e p m a = Some t \<and> agent_inv t"
    "\<exists>t. proxy_service_method_target_removed e p m reason a = Some t \<and> agent_inv t"
    "px_request_message px = Some q \<Longrightarrow> \<exists>t. proxy_service_method_error e p m a = Some t \<and> agent_inv t"
proof -
  have ok: "refs_ok a" "proxies_ok a" using inv by (simp_all add: agent_inv_def)
  note un = unchanged_result [OF ok px] and fa = failed_result [OF ok px]
  have keep: "\<exists>t. r = Some t \<and> agent_inv t" if "\<exists>t. r = Some t \<and> refs_ok t \<and> keeps a t \<and> Q t" for r Q
    using that inv_keeps [OF inv] by blast
  have gone: "\<exists>t. r = Some t \<and> agent_inv t" if "\<exists>t. r = Some t \<and> refs_ok t \<and> keeps (after_proxy p None a) t \<and> Q t" for r Q
    using that inv_after_proxy [OF inv px] by blast
  show "\<exists>t. proxy_service_method_target_new e p m a = Some t \<and> agent_inv t"
    unfolding proxy_service_method_target_new_def by (rule keep, rule un) simp
  show "\<exists>t. proxy_service_method_error e p m a = Some t \<and> agent_inv t" if "px_request_message px = Some q"
    unfolding proxy_service_method_error_def by (rule gone, rule fa [OF that]) simp
  show "\<exists>t. proxy_service_method_target_removed e p m reason a = Some t \<and> agent_inv t"
  proof (cases "px_request_message px \<noteq> None \<and> reason = ''real''")
    case True
    then obtain q where q: "px_request_message px = Some q" by auto
    show ?thesis unfolding proxy_service_method_target_removed_def by (rule gone, rule fa [OF q]) (use True in simp)
  next
    case False
    show ?thesis unfolding proxy_service_method_target_removed_def by (rule keep, rule un) (use False in auto)
  qed
qed

lemma remove_handler_inv:
  assumes inv: "agent_inv a"
  shows "\<exists>t. agent_method_remove_proxy e m l n u a = Some t \<and> agent_inv t"
proof -
  have ok: "refs_ok a" "proxies_ok a" using inv by (simp_all add: agent_inv_def)
  obtain f where f: "agent_find_proxy a l n u = Some f" "case f of Some p \<Rightarrow> \<exists>px. ag_px_h a p = Some px \<and> same_proxy l n u px
     | None \<Rightarrow> \<forall>p px. ag_px_h a p = Some px \<longrightarrow> \<not> same_proxy l n u px" using agent_find_proxy_result [OF ok(2)] by blast
  show ?thesis
  proof (cases f)
    case None
    then show ?thesis using f inv inv_keeps [OF inv, of "areply e m AOk a"] ok by (simp add: agent_method_remove_proxy_def)
  next
    case (Some p)
    then obtain px where px: "ag_px_h a p = Some px" using f by auto
    let ?px = "px\<lparr>px_dont_stop_proxy := True\<rparr>" and ?b = "set_apx p (px\<lparr>px_dont_stop_proxy := True\<rparr>) a"
    obtain t where t: "agent_remove_proxy e p True ?b = Some t" "refs_ok t" "keeps (without_proxy p None ?b) t"
      using remove_proxy_result [of ?b p ?px e True] ok proxies_okD [OF ok(2) px] by auto
    then have "keeps (after_proxy p None a) (areply e m AOk t)" by (simp add: keeps_def after_proxy_def without_proxy_def)
    from inv_after_proxy [OF inv px _ this] show ?thesis using t f Some px by (simp add: agent_method_remove_proxy_def)
  qed
qed

text \<open>Creating a proxy does not touch the connection; a new proxy is exported on the current bus.\<close>

definition exports_frame :: "Agent \<Rightarrow> Agent \<Rightarrow> bool" where
  "exports_frame a t = (ag_state t = ag_state a \<and> ag_peer_dbus t = ag_peer_dbus a \<and> ag_register_slot t = ag_register_slot a \<and>
     ag_next_bus t = ag_next_bus a \<and> ag_unit_infos t = ag_unit_infos a \<and>
     (\<forall>q y b. ag_px_h t q = Some y \<longrightarrow> px_export_slot y = Some b \<longrightarrow>
        ag_peer_dbus a = Some b \<or> (\<exists>x. ag_px_h a q = Some x \<and> px_export_slot x = Some b)))"

lemma exports_frame_refl [simp]: "exports_frame a a"
  by (simp add: exports_frame_def)

lemma exports_frame_trans: "exports_frame a b \<Longrightarrow> exports_frame b c \<Longrightarrow> exports_frame a c"
  unfolding exports_frame_def by metis

lemma exports_frame_out [simp]:
  "exports_frame a (areply e m r b) = exports_frame a b" "exports_frame a (b\<lparr>ag_proxies := ps\<rparr>) = exports_frame a b"
  "exports_frame (b\<lparr>ag_proxies := ps\<rparr>) a = exports_frame b a" "exports_frame (areply e m r b) a = exports_frame b a"
  by (simp_all add: exports_frame_def)

lemma proxy_steps_frame:
  "proxy_service_new l n u m a = (p, t) \<Longrightarrow> exports_frame a t"
  "proxy_service_ref p a = Some t \<Longrightarrow> exports_frame a t"
  "proxy_service_unref p a = Some t \<Longrightarrow> exports_frame a t"
  "proxy_service_export e p a = Some (ok, t) \<Longrightarrow> exports_frame a t"
proof -
  show "proxy_service_new l n u m a = (p, t) \<Longrightarrow> exports_frame a t"
    by (auto simp: proxy_service_new_def Let_def exports_frame_def split: if_splits)
  show "proxy_service_ref p a = Some t \<Longrightarrow> exports_frame a t"
    by (auto simp: proxy_service_ref_def bind_eq_Some_conv exports_frame_def split: if_splits)
  show "proxy_service_unref p a = Some t \<Longrightarrow> exports_frame a t"
    by (auto simp: proxy_service_unref_def bind_eq_Some_conv exports_frame_def split: if_splits)
  show "proxy_service_export e p a = Some (ok, t) \<Longrightarrow> exports_frame a t"
    by (cases "ag_peer_dbus a") (auto simp: proxy_service_export_def bind_eq_Some_conv exports_frame_def split: if_splits)
qed

lemma emit_proxy_new_frame:
  assumes "proxy_service_emit_proxy_new e p a = Some (r, t)"
  shows "exports_frame a t"
proof -
  obtain px where px: "ag_px_h a p = Some px" using assms by (auto simp: proxy_service_emit_proxy_new_def bind_eq_Some_conv)
  let ?s = "emit_peer e ''ProxyNew'' (\<lambda>b. SigProxyNew b (px_node_name px) (px_unit_name px) (px_object_path px)) a"
  have k: "keeps a (snd ?s)" by simp
  then have "exports_frame a (snd ?s)" "exports_frame a (set_apx p (px\<lparr>px_sent_new_proxy := True\<rparr>) (snd ?s))"
    using px by (auto simp: keeps_def exports_frame_def)
  then show ?thesis using assms px
    by (auto simp: proxy_service_emit_proxy_new_def case_prod_beta Let_def split: if_splits)
qed

lemmas create_steps_frame = proxy_steps_frame emit_proxy_new_frame

lemma create_proxy_frame:
  assumes "agent_method_create_proxy e m l n u a = Some (r, t)"
  shows "exports_frame a t"
proof -
  have "exports_frame a (snd (proxy_service_new l n u m a))" by (rule proxy_steps_frame(1) [of l n u m a "fst (proxy_service_new l n u m a)"]) simp
  then show ?thesis using assms unfolding agent_method_create_proxy_def
    by (auto simp: bind_eq_Some_conv case_prod_beta split: if_splits prod.splits dest!: create_steps_frame)
      (meson exports_frame_trans)+
qed

lemma create_handler_inv:
  assumes "agent_inv a"
  shows "\<exists>t. map_option snd (agent_method_create_proxy e m l n u a) = Some t \<and> agent_inv t"
proof -
  obtain r t where t: "agent_method_create_proxy e m l n u a = Some (r, t)" "refs_ok t" "proxies_ok t"
    using create_proxy_result [of a e m l n u] assms by (auto simp: agent_inv_def)
  have f: "exports_frame a t" by (rule create_proxy_frame [OF t(1)])
  then have "units_ok t" using assms units_ok_cong [of t a] by (simp add: agent_inv_def exports_frame_def)
  moreover have "b < ag_next_bus a" if "ag_px_h t q = Some y" "px_export_slot y = Some b" for q y b
    using f assms that unfolding exports_frame_def agent_inv_def conn_ok_def by metis
  then have "conn_ok t" using f assms by (auto simp: agent_inv_def exports_frame_def conn_ok_def)
  ultimately show ?thesis using t by (simp add: agent_inv_def)
qed

section \<open>Registration\<close>

text \<open>The proxies up to the flag that records the announcement.\<close>

definition px_core :: "Agent \<Rightarrow> aref \<Rightarrow> ProxyService option" where
  "px_core a p = map_option (px_sent_new_proxy_update (\<lambda>_. False)) (ag_px_h a p)"

definition announced :: "Agent \<Rightarrow> Agent \<Rightarrow> bool" where
  "announced a t = (refs_of t = refs_of a \<and> ag_proxies t = ag_proxies a \<and> px_core t = px_core a \<and> ag_unit_infos t = ag_unit_infos a \<and>
     ag_wildcard t = ag_wildcard a \<and> ag_state t = ag_state a \<and> ag_peer_dbus t = ag_peer_dbus a \<and> ag_register_slot t = ag_register_slot a \<and>
     ag_next_bus t = ag_next_bus a \<and> ag_retry_count t = ag_retry_count a \<and> ag_log t = ag_log a)"

lemma announced_trans: "announced a b \<Longrightarrow> announced b c \<Longrightarrow> announced a c"
  by (simp add: announced_def)

lemma px_core_fields:
  assumes "x\<lparr>px_sent_new_proxy := False\<rparr> = y\<lparr>px_sent_new_proxy := False\<rparr>"
  shows "px_ref y = px_ref x" "px_agent y = px_agent x" "px_dont_stop_proxy y = px_dont_stop_proxy x"
    "px_request_message y = px_request_message x" "px_sent_successful_ready y = px_sent_successful_ready x"
    "px_export_slot y = px_export_slot x" "px_node_name y = px_node_name x" "px_unit_name y = px_unit_name x"
    "px_object_path y = px_object_path x" "px_local_service_name y = px_local_service_name x"
  using assms by (cases x, cases y, simp)+

lemma px_core_Some:
  assumes "px_core t = px_core a" "ag_px_h t p = Some y"
  obtains x where "ag_px_h a p = Some x" "px_ref y = px_ref x" "px_agent y = px_agent x" "px_dont_stop_proxy y = px_dont_stop_proxy x"
    "px_request_message y = px_request_message x" "px_sent_successful_ready y = px_sent_successful_ready x"
    "px_export_slot y = px_export_slot x" "px_node_name y = px_node_name x" "px_unit_name y = px_unit_name x"
    "px_object_path y = px_object_path x" "px_local_service_name y = px_local_service_name x"
proof -
  have "px_core a p = Some (y\<lparr>px_sent_new_proxy := False\<rparr>)" using assms(2) fun_cong [OF assms(1), of p] by (simp add: px_core_def)
  then obtain x where "ag_px_h a p = Some x" "x\<lparr>px_sent_new_proxy := False\<rparr> = y\<lparr>px_sent_new_proxy := False\<rparr>" by (auto simp: px_core_def)
  then show thesis using that px_core_fields [of x y] by blast
qed

lemma inv_announced:
  assumes "agent_inv a" "announced a t"
  shows "agent_inv t"
proof -
  have f: "refs_of t = refs_of a" "ag_proxies t = ag_proxies a" "px_core t = px_core a" "ag_unit_infos t = ag_unit_infos a"
    using assms(2) by (auto simp: announced_def)
  have d: "dom (ag_px_h t) = dom (ag_px_h a)"
  proof -
    have "ag_px_h t p = None \<longleftrightarrow> ag_px_h a p = None" for p using fun_cong [OF f(3), of p] by (auto simp: px_core_def)
    then show ?thesis by (auto simp: dom_def)
  qed
  have px: "px_ref y = 1 \<and> px_agent y \<and> \<not> px_dont_stop_proxy y \<and> (px_request_message y = None \<longleftrightarrow> px_sent_successful_ready y)"
    "\<And>b. px_export_slot y = Some b \<Longrightarrow> b < ag_next_bus a"
    if y: "ag_px_h t p = Some y" for p y
  proof -
    obtain x where x: "ag_px_h a p = Some x" "px_ref y = px_ref x" "px_agent y = px_agent x" "px_dont_stop_proxy y = px_dont_stop_proxy x"
      "px_request_message y = px_request_message x" "px_sent_successful_ready y = px_sent_successful_ready x"
      "px_export_slot y = px_export_slot x" using px_core_Some [OF f(3) y] by metis
    then show "px_ref y = 1 \<and> px_agent y \<and> \<not> px_dont_stop_proxy y \<and> (px_request_message y = None \<longleftrightarrow> px_sent_successful_ready y)"
      "\<And>b. px_export_slot y = Some b \<Longrightarrow> b < ag_next_bus a"
      using assms(1) by (auto simp: agent_inv_def proxies_ok_def conn_ok_def)
  qed
  have "proxies_ok t" using assms(1) d px(1) f(2) refs_of_fields(6) [OF f(1)] by (auto simp: agent_inv_def proxies_ok_def)
  moreover have "conn_ok t" using assms px(2) by (auto simp: agent_inv_def conn_ok_def announced_def)
  ultimately show ?thesis using assms(1) refs_ok_cong [OF f(1)] units_ok_cong [OF f(4)] by (simp add: agent_inv_def)
qed

definition announcement :: "Agent \<Rightarrow> nat \<Rightarrow> aref \<Rightarrow> agent_out list" where
  "announcement a b p =
     (case ag_px_h a p of None \<Rightarrow> [] | Some px \<Rightarrow> [SigProxyNew b (px_node_name px) (px_unit_name px) (px_object_path px)])"

lemma reemit_result:
  assumes "ag_px_h a p \<noteq> None"
  shows "\<exists>t. reemit_proxy_new e p a = Some t \<and> announced a t \<and>
    (abus_ok e \<longrightarrow> agent_is_connected a \<longrightarrow> (\<forall>b. ag_peer_dbus a = Some b \<longrightarrow> ag_out t = ag_out a @ announcement a b p))"
proof -
  obtain px where px: "ag_px_h a p = Some px" using assms by auto
  let ?s = "emit_peer e ''ProxyNew'' (\<lambda>b. SigProxyNew b (px_node_name px) (px_unit_name px) (px_object_path px)) a"
  have "announced a (snd ?s)" "announced a (set_apx p (px\<lparr>px_sent_new_proxy := True\<rparr>) (snd ?s))"
    using px by (auto simp: announced_def px_core_def fun_eq_iff emit_peer_def aput_def refs_of_def set_apx_def split: option.split)
  then show ?thesis using px
    by (auto simp: reemit_proxy_new_def proxy_service_emit_proxy_new_def case_prod_beta announced_def announcement_def emit_peer_def)
qed

lemma announcement_cong: "px_core t = px_core a \<Longrightarrow> announcement t b p = announcement a b p"
proof -
  assume c: "px_core t = px_core a"
  show ?thesis
  proof (cases "ag_px_h t p")
    case None
    then show ?thesis using fun_cong [OF c, of p] by (simp add: px_core_def announcement_def)
  next
    case (Some y)
    show ?thesis by (rule px_core_Some [OF c Some]) (simp add: announcement_def Some)
  qed
qed

lemma reemit_all:
  assumes "\<And>p. p \<in> set ps \<Longrightarrow> ag_px_h a p \<noteq> None"
  shows "\<exists>t. foldo (reemit_proxy_new e) ps a = Some t \<and> announced a t \<and>
    (abus_ok e \<longrightarrow> agent_is_connected a \<longrightarrow> (\<forall>b. ag_peer_dbus a = Some b \<longrightarrow> ag_out t = ag_out a @ concat (map (announcement a b) ps)))"
  using assms
proof (induction ps arbitrary: a)
  case Nil
  then show ?case by (simp add: announced_def)
next
  case (Cons p ps)
  obtain t where t: "reemit_proxy_new e p a = Some t" "announced a t"
    "abus_ok e \<longrightarrow> agent_is_connected a \<longrightarrow> (\<forall>b. ag_peer_dbus a = Some b \<longrightarrow> ag_out t = ag_out a @ announcement a b p)"
    using reemit_result [of a p e] Cons.prems by auto
  have c: "px_core t = px_core a" "ag_peer_dbus t = ag_peer_dbus a" "agent_is_connected t = agent_is_connected a"
    using t(2) by (auto simp: announced_def agent_is_connected_def)
  have "ag_px_h t q \<noteq> None" if "q \<in> set ps" for q
    using Cons.prems [of q] that fun_cong [OF c(1), of q] by (auto simp: px_core_def)
  from Cons.IH [OF this] obtain u where u: "foldo (reemit_proxy_new e) ps t = Some u" "announced t u"
    "abus_ok e \<longrightarrow> agent_is_connected t \<longrightarrow> (\<forall>b. ag_peer_dbus t = Some b \<longrightarrow> ag_out u = ag_out t @ concat (map (announcement t b) ps))"
    by blast
  have "announcement t = announcement a" by (intro ext announcement_cong [OF c(1)])
  then show ?case using t u c announced_trans [OF t(2) u(2)] by simp
qed

lemma register_callback_inv:
  assumes inv: "agent_inv a" and slot: "ag_register_slot a"
  shows "\<exists>t. agent_register_callback e is_error a = Some t \<and> agent_inv t"
proof -
  have peer: "ag_peer_dbus a \<noteq> None" using inv slot by (auto simp: agent_inv_def conn_ok_def)
  let ?a1 = "a\<lparr>ag_log := bc_log_set_quiet (cfg_get_bool_value (ag_config a) CFG_LOG_IS_QUIET) (ag_log a),
                   ag_state := AGENT_CONNECTION_STATE_CONNECTED, ag_retry_count := 0, ag_last_seen := a_time e,
                   ag_last_seen_monotonic := a_time_monotonic e, ag_disconnect_timestamp := 0,
                   ag_disconnect_timestamp_monotonic := 0\<rparr>"
  let ?a2 = "emit_property e ''Status'' PropStatus ?a1"
  have "conn_ok ?a1" using inv peer by (auto simp: agent_inv_def conn_ok_def)
  then have inv2: "agent_inv ?a2" by (intro inv_same_objects [OF inv]) simp_all
  have retry: "agent_inv (b\<lparr>ag_state := AGENT_CONNECTION_STATE_RETRY\<rparr>)" if "agent_inv b" for b
    using inv_same_objects [OF that, of "b\<lparr>ag_state := AGENT_CONNECTION_STATE_RETRY\<rparr>"] that by (auto simp: agent_inv_def)
  have ps: "ag_px_h ?a2 p \<noteq> None" if "p \<in> set (ag_proxies ?a2)" for p
    using inv2 that by (auto simp: agent_inv_def proxies_ok_def)
  obtain t where t: "foldo (reemit_proxy_new e) (ag_proxies ?a2) ?a2 = Some t" "announced ?a2 t" using reemit_all [where e = e, OF ps] by blast
  have "agent_inv t" by (rule inv_announced [OF inv2 t(2)])
  moreover have "agent_inv (a\<lparr>ag_register_slot := False\<rparr>)"
    using inv_same_objects [OF inv, of "a\<lparr>ag_register_slot := False\<rparr>"] inv by (auto simp: agent_inv_def)
  ultimately show ?thesis using inv inv2 retry t(1)
    by (auto simp: agent_register_callback_def agent_process_register_callback_def Let_def)
qed

section \<open>Progress\<close>

lemma inv_refs_only:
  assumes "agent_inv a" "refs_of t = refs_of a" "keeps a t"
  shows "agent_inv t"
  using inv_keeps [OF assms(1,3)] refs_ok_cong [OF assms(2)] assms(1) by (simp add: agent_inv_def)

lemma settings_inv:
  assumes "agent_inv a"
  shows "agent_inv (agent_method_enable_metrics e m a)" "agent_inv (agent_method_disable_metrics e m a)"
    "agent_inv (agent_method_set_log_level e m l a)" "agent_inv (snd (agent_match_heartbeat e a))"
  by (rule inv_refs_only [OF assms];
      simp add: agent_method_enable_metrics_def agent_method_disable_metrics_def agent_method_set_log_level_def
        agent_match_heartbeat_def Let_def refs_of_def keeps_def)+

lemmas passthrough_defs = agent_method_passthrough_to_systemd_def agent_method_list_units_def agent_method_list_unit_files_def
  agent_method_get_unit_properties_def agent_method_get_unit_property_def agent_method_set_unit_properties_def
  agent_method_freeze_unit_def agent_method_thaw_unit_def agent_method_start_dep_def agent_method_stop_dep_def

lemma submit_inv:
  assumes "agent_inv a" "cb \<noteq> CbUnitLifecycle"
  shows "\<exists>t. submit_systemd e m path iface meth args fill cb a = Some t \<and> agent_inv t"
  using inv_live [OF assms(1) submit_systemd_refs submit_keeps] assms by (simp add: agent_inv_def)

lemma agent_progress:
  assumes inv: "agent_inv a" and en: "agent_enabled a (e, ev)"
  shows "\<exists>t. agent_handle (e, ev) a = Some t \<and> agent_inv t"
proof -
  have ok: "refs_ok a" "proxies_ok a" "units_ok a" "conn_ok a" using inv by (simp_all add: agent_inv_def)
  note units = inv_units [OF inv unit_ops_frame(1)] inv_units [OF inv unit_ops_frame(2)] inv_units [OF inv unit_ops_frame(3)]
    inv_units [OF inv unit_ops_frame(4)] inv_units [OF inv unit_ops_frame(5)]
  note unit_rules = units(1) [OF subscribe_refines [OF ok(3), THEN conjunct1]] units(2) [OF unsubscribe_refines [OF ok(3), THEN conjunct1]]
    units(3) [OF unit_new_refines [OF ok(3), THEN conjunct1]] units(4) [OF unit_removed_ok [OF ok(3)]]
    units(5) [OF unit_changed_refines [OF ok(3), THEN conjunct1]]
  note conn = inv_same_objects [OF inv tick_same_objects tick_conn_ok [OF ok(4)]]
    inv_same_objects [OF inv disconnected_same_objects [OF same_objects_refl] disconnected_conn_ok [OF ok(4)]]
    inv_same_objects [OF inv switch_same_objects switch_conn_ok [OF ok(4)]]
  show ?thesis
  proof (cases ev)
    case (AgRegisterReply is_error)
    then show ?thesis using register_callback_inv [OF inv] en by (simp add: agent_enabled_def)
  next
    case (AgJobChanged p i items)
    have "\<exists>t. agent_match_job_changed e p i items a = Some t \<and> refs_ok t"
      using job_changed_refs [OF ok(1), of e p i items] ok(1) refs_ok_cong by metis
    then show ?thesis using inv_live [OF inv _ job_changed_keeps] AgJobChanged by simp
  next
    case (AgJobRemoved p res)
    then show ?thesis using inv_live [OF inv job_removed_refs [OF ok(1)] job_removed_keeps] by simp
  next
    case (AgSystemdAnswer r ans)
    then obtain q where "ag_req_h a r = Some q" using en by (auto simp: agent_enabled_def)
    then show ?thesis using inv_live [OF inv systemd_callback_refs [OF ok(1)] callback_keeps] AgSystemdAnswer by simp
  next
    case (AgUnitLifecycle m meth u mode i)
    then show ?thesis using inv_live [OF inv run_lifecycle_refs [OF ok(1)] lifecycle_keeps] by simp
  next
    case (AgJobCancel m i)
    then show ?thesis using inv_live [OF inv job_cancel_result [OF ok(1)] job_cancel_keeps] by simp
  next
    case (AgCreateProxy m l n u)
    then show ?thesis using create_handler_inv [OF inv] by simp
  next
    case (AgRemoveProxy m l n u)
    then show ?thesis using remove_handler_inv [OF inv] by simp
  next
    case (AgTargetStateChanged p m st reason)
    then obtain px where "ag_px_h a p = Some px" using en by (auto simp: agent_enabled_def)
    then show ?thesis using target_state_changed_inv [OF inv] AgTargetStateChanged by simp
  next
    case (AgTargetNew p m)
    then obtain px where "ag_px_h a p = Some px" using en by (auto simp: agent_enabled_def)
    then show ?thesis using proxy_handlers_inv(1) [OF inv] AgTargetNew by simp
  next
    case (AgTargetRemoved p m reason)
    then obtain px where "ag_px_h a p = Some px" using en by (auto simp: agent_enabled_def)
    then show ?thesis using proxy_handlers_inv(2) [OF inv] AgTargetRemoved by simp
  next
    case (AgProxyError p m)
    then obtain px q where "ag_px_h a p = Some px" "px_request_message px = Some q"
      using en by (auto simp: agent_enabled_def phase_of_def split: option.splits)
    then show ?thesis using proxy_handlers_inv(3) [OF inv] AgProxyError by simp
  qed (use conn unit_rules settings_inv [OF inv] submit_inv [OF inv] in \<open>simp_all add: passthrough_defs\<close>)
qed

interpretation agent: safe_machine agent_handle agent_enabled agent_inv
proof
  fix s :: Agent and e :: "aenv \<times> agent_event"
  assume "agent_inv s" "agent_enabled s e"
  then show "\<exists>t. agent_handle e s = Some t \<and> agent_inv t" using agent_progress [of s "fst e" "snd e"] by simp
qed

end
