(* ===== verification/Agent_Conn_Props.thy ===== *)
theory Agent_Conn_Props
  imports Agent_Reach
begin

text \<open>What the connection of an agent promises: the address it uses, that it never aborts, when it takes the
  controller for lost, that it comes back, and what it loses on the way.\<close>

section \<open>The address of the controller\<close>

definition tcp_address :: "string \<Rightarrow> int \<Rightarrow> string" where
  "tcp_address text port = ''tcp:host='' @ text @ '',port='' @ decimal (nat port)"

text \<open>The address the settings denote: one that is assembled already, a configured one, or that of the host.\<close>

definition denoted_address :: "net_env \<Rightarrow> cstring \<Rightarrow> cstring \<Rightarrow> cstring \<Rightarrow> int \<Rightarrow> cstring" where
  "denoted_address N assembled configured host port =
     (case (assembled, configured, host) of
        (Some x, _, _) \<Rightarrow> Some x
      | (None, Some x, _) \<Rightarrow> Some x
      | (None, None, None) \<Rightarrow> None
      | (None, None, Some h) \<Rightarrow>
          (case (inet_pton4 N h, inet_pton6 N h, resolve_addr N h) of
             (Some x, _, _) \<Rightarrow> Some (tcp_address (inet_ntop4 N x) port)
           | (None, Some x, _) \<Rightarrow> Some (tcp_address (inet_ntop6 N x) port)
           | (None, None, Inr (family, x)) \<Rightarrow>
               if family = AF_INET then Some (tcp_address (inet_ntop4 N x) port)
               else if family = AF_INET6 then Some (tcp_address (inet_ntop6 N x) port) else None
           | (None, None, Inl status) \<Rightarrow> None))"

definition spec_address :: "net_env \<Rightarrow> Agent \<Rightarrow> cstring" where
  "spec_address N a = denoted_address N (ag_assembled_address a) (ag_controller_address a) (ag_host a) (ag_port a)"

definition port_ok :: "Agent \<Rightarrow> bool" where
  "port_ok a = (0 \<le> ag_port a \<and> ag_port a < 2 ^ 16)"

lemma print_port:
  assumes "port_ok a" "asprintf_mem N"
  shows "print_tcp_address N (Some h) (word_of_int (ag_port a)) = Some (tcp_address h (ag_port a))"
proof -
  have "unat (word_of_int (ag_port a) :: 16 word) = nat (ag_port a)"
    using assms(1) by (simp add: port_ok_def unat_eq_nat_uint uint_word_of_int)
  then show ?thesis using assms(2) by (simp add: print_tcp_address_def tcp_address_def)
qed

lemma assembled_idem: "ag_assembled_address a = x \<Longrightarrow> a\<lparr>ag_assembled_address := x\<rparr> = a"
  by simp

lemma ensure_address_spec:
  assumes net: "inet_ok (a_net e)" and port: "port_ok a"
  shows "ensure_assembled_controller_address e a =
    (spec_address (a_net e) a \<noteq> None, a\<lparr>ag_assembled_address := spec_address (a_net e) a\<rparr>)"
proof -
  let ?N = "a_net e"
  have N: "inet_pton4 ?N (inet_ntop4 ?N x) = Some x" "inet_pton6 ?N (inet_ntop6 ?N x) = Some x" "ntop_mem ?N" "asprintf_mem ?N" for x
    using net by (simp_all add: inet_ok_def)
  have excl: "inet_pton4 ?N s = Some x \<Longrightarrow> inet_pton6 ?N s = None" "inet_pton6 ?N s = Some x \<Longrightarrow> inet_pton4 ?N s = None" for s x
    using net by (auto simp: inet_ok_def) (metis option.distinct(1))+
  note print = print_port [OF port N(4)]
  note defs = ensure_assembled_controller_address_def agent_set_assembled_controller_address_def spec_address_def denoted_address_def
  consider (assembled) x where "ag_assembled_address a = Some x"
    | (configured) x where "ag_assembled_address a = None" "ag_controller_address a = Some x"
    | (nothing) "ag_assembled_address a = None" "ag_controller_address a = None" "ag_host a = None"
    | (host) h where "ag_assembled_address a = None" "ag_controller_address a = None" "ag_host a = Some h"
    by (metis option.exhaust)
  then show ?thesis
  proof cases
    case (host h)
    note defs = defs is_ipv4_def is_ipv6_def assemble_tcp_address_def assemble_tcp_address_v6_def typesafe_inet_ntop4_def
      typesafe_inet_ntop6_def get_address_def
    consider (v4) x where "inet_pton4 ?N h = Some x" | (v6) x where "inet_pton4 ?N h = None" "inet_pton6 ?N h = Some x"
      | (name) "inet_pton4 ?N h = None" "inet_pton6 ?N h = None" by (metis option.exhaust)
    then show ?thesis
    proof cases
      case v4
      then show ?thesis using host excl N print by (simp add: defs Let_def)
    next
      case v6
      then show ?thesis using host N print by (simp add: defs Let_def)
    next
      case name
      then show ?thesis
      proof (cases "resolve_addr ?N h")
        case (Inl status)
        then show ?thesis using host name assembled_idem [of a None] by (simp add: defs Let_def)
      next
        case (Inr r)
        obtain family x where r: "r = (family, x)" by fastforce
        have "inet_pton4 ?N (inet_ntop6 ?N x) = None" using excl(2) N(2) by blast
        then show ?thesis using host name Inr r N print assembled_idem [of a None]
          by (simp add: defs Let_def AF_INET_def AF_INET6_def EFAULT_def)
      qed
    qed
  qed (simp_all add: defs Let_def assembled_idem)
qed

text \<open>The address of the controller.  An assembled address is kept; otherwise the configured address is used;
  otherwise the host, which may be an address of version 4 or 6 or a name to resolve, gives a TCP address in the
  notation of the C library with the port in decimal.  Exactly when none of these gives an address the function
  fails, and then nothing is assembled.\<close>

theorem controller_address_assembled:
  assumes "inet_ok (a_net e)" "port_ok a"
  shows "ensure_assembled_controller_address e a =
    (spec_address (a_net e) a \<noteq> None, a\<lparr>ag_assembled_address := spec_address (a_net e) a\<rparr>)"
  by (rule ensure_address_spec [OF assms])

lemma ref_net_ok: "inet_ok ref_net"
proof -
  have "inet_pton4 ref_net (inet_ntop4 ref_net n) = Some n" "inet_pton6 ref_net (inet_ntop6 ref_net n) = Some n" for n
    by (auto simp: ref_net_def)
  moreover have "inet_pton4 ref_net s = None \<or> inet_pton6 ref_net s = None" for s
    by (cases s) (auto simp: ref_net_def)
  ultimately show ?thesis by (simp add: inet_ok_def) (simp add: ref_net_def)
qed

definition host_agent :: Agent where
  "host_agent = agent_new\<lparr>ag_name := Some ''n1'', ag_host := Some ''h'', ag_port := 842, ag_heartbeat_interval_msec := 2000\<rparr>"

lemma ref_aenv_net [simp]: "a_net ref_aenv = ref_net"
  by (simp add: ref_aenv_def)

lemma host_agent_port: "port_ok host_agent"
  by (simp add: port_ok_def host_agent_def)

theorem controller_address_assembled_witness:
  "ag_assembled_address (snd (ensure_assembled_controller_address ref_aenv host_agent)) = Some ''tcp:host=..,port=842''"
proof -
  have "spec_address ref_net host_agent = Some ''tcp:host=..,port=842''" by code_simp
  then show ?thesis using controller_address_assembled [of ref_aenv host_agent] ref_net_ok host_agent_port by simp
qed

section \<open>Reconnecting\<close>

text \<open>The address a reconnecting agent uses: the old one is dropped first.\<close>

definition next_address :: "aenv \<Rightarrow> Agent \<Rightarrow> cstring" where
  "next_address e a = spec_address (a_net e) (a\<lparr>ag_assembled_address := None\<rparr>)"

lemma next_address_cong:
  "ag_controller_address a = ag_controller_address b \<Longrightarrow> ag_host a = ag_host b \<Longrightarrow> ag_port a = ag_port b \<Longrightarrow>
   next_address e a = next_address e b"
  by (simp add: next_address_def spec_address_def)

definition reconnected :: "string \<Rightarrow> Agent \<Rightarrow> Agent" where
  "reconnected x a =
     a\<lparr>ag_assembled_address := Some x, ag_state := AGENT_CONNECTION_STATE_CONNECTING, ag_peer_dbus := Some (ag_next_bus a),
       ag_next_bus := ag_next_bus a + 1, ag_register_slot := True,
       ag_out := ag_out a @ (case ag_assembled_address a of Some y \<Rightarrow> if y \<noteq> x then [PropControllerAddress] else [] | None \<Rightarrow> [])
                 @ [CallRegister (ag_next_bus a) (ag_name a)]\<rparr>"

lemma connect_result:
  assumes "abus_ok e" "ag_assembled_address a = Some x" "ag_peer_dbus a = None"
  shows "agent_connect e a =
    (True, a\<lparr>ag_state := AGENT_CONNECTION_STATE_CONNECTING, ag_peer_dbus := Some (ag_next_bus a), ag_next_bus := ag_next_bus a + 1,
       ag_register_slot := True, ag_out := ag_out a @ [CallRegister (ag_next_bus a) (ag_name a)]\<rparr>)"
proof -
  have "0 \<le> a_ret e c" for c using assms(1) by (simp add: abus_ok_def)
  then have "peer_bus_open (\<lambda>c. a_ret e (ABus c)) True (Some x)"
    by (simp add: peer_bus_open_def peer_bus_new_def first_failure_iff)
  then show ?thesis using assms by (simp add: agent_connect_def Let_def aput_def)
qed

lemma reconnect_result:
  assumes "abus_ok e" "inet_ok (a_net e)" "port_ok a" "next_address e a = Some x"
  shows "agent_reconnect e a = (True, reconnected x a)"
proof -
  let ?b = "a\<lparr>ag_assembled_address := None\<rparr>"
  have "port_ok ?b" using assms(3) by (simp add: port_ok_def)
  then have en: "ensure_assembled_controller_address e ?b = (True, a\<lparr>ag_assembled_address := Some x\<rparr>)"
    using ensure_address_spec [OF assms(2), of ?b] assms(4) by (simp add: next_address_def)
  have em: "emit_property e n m b = aput m b" for n m b using assms(1) by (simp add: emit_property_def)
  show ?thesis
    by (cases "ag_assembled_address a")
      (simp_all add: agent_reconnect_def Let_def en em connect_result [OF assms(1), of _ x] agent_peer_bus_close_def aput_def reconnected_def)
qed

section \<open>Heartbeats\<close>

text \<open>More than the threshold has passed since the controller was last seen, on a clock that works.\<close>

definition controller_lost :: "aenv \<Rightarrow> Agent \<Rightarrow> bool" where
  "controller_lost e a = (0 < ag_controller_heartbeat_threshold_msec a \<and> a_time_monotonic e \<noteq> USEC_INFINITY \<and>
     uint (ag_last_seen_monotonic a) + ag_controller_heartbeat_threshold_msec a * 1000 < uint (a_time_monotonic e))"

lemma liveness_spec:
  assumes "ag_controller_heartbeat_threshold_msec a * 1000 < 2 ^ 64"
  shows "agent_check_controller_liveness e a = (if controller_lost e a then (False, agent_disconnected e a) else (True, a))"
proof (cases "ag_controller_heartbeat_threshold_msec a \<le> 0 \<or> a_time_monotonic e = USEC_INFINITY")
  case True
  then show ?thesis by (auto simp: agent_check_controller_liveness_def controller_lost_def Let_def)
next
  case False
  let ?t = "ag_controller_heartbeat_threshold_msec a" and ?now = "a_time_monotonic e" and ?last = "ag_last_seen_monotonic a"
  have t: "uint (word_of_int ?t * USEC_PER_MSEC :: 64 word) = ?t * 1000"
    using False assms by (simp add: USEC_PER_MSEC_def uint_word_arith_bintrs take_bit_int_eq_self_iff uint_word_of_int)
  show ?thesis
  proof (cases "?now < ?last")
    case True
    then have "uint ?now < uint ?last" by (simp add: word_less_def)
    then have "\<not> controller_lost e a" using False by (auto simp: controller_lost_def)
    then show ?thesis using True False by (simp add: agent_check_controller_liveness_def Let_def)
  next
    case ge: False
    then have "uint (?now - ?last) = uint ?now - uint ?last" by (simp add: uint_minus_simple_alt [symmetric] not_less)
    then have "word_of_int ?t * USEC_PER_MSEC < ?now - ?last \<longleftrightarrow> controller_lost e a"
      using t False by (auto simp: word_less_def controller_lost_def)
    then show ?thesis using False ge by (simp add: agent_check_controller_liveness_def Let_def)
  qed
qed

lemma disconnected_result:
  assumes "abus_ok e" "inet_ok (a_net e)" "port_ok a" "next_address e a = Some x"
  shows "agent_disconnected e a = reconnected x
    (a\<lparr>ag_state := AGENT_CONNECTION_STATE_RETRY, ag_out := ag_out a @ [PropStatus], ag_disconnect_timestamp := a_time e,
       ag_disconnect_timestamp_monotonic := a_time_monotonic e\<rparr>)"
proof -
  let ?b = "a\<lparr>ag_state := AGENT_CONNECTION_STATE_RETRY, ag_out := ag_out a @ [PropStatus], ag_disconnect_timestamp := a_time e,
       ag_disconnect_timestamp_monotonic := a_time_monotonic e\<rparr>"
  have "next_address e ?b = Some x" "port_ok ?b" using assms(3,4) next_address_cong [of ?b a e] by (simp_all add: port_ok_def)
  from reconnect_result [OF assms(1,2) this(2,1)] show ?thesis
    using assms(1) by (simp add: agent_disconnected_def Let_def emit_property_def aput_def)
qed


definition connected_agent :: Agent where
  "connected_agent = host_agent\<lparr>ag_assembled_address := Some ''x'', ag_state := AGENT_CONNECTION_STATE_CONNECTED, ag_peer_dbus := Some 1,
     ag_next_bus := 2, ag_controller_heartbeat_threshold_msec := 2, ag_last_seen_monotonic := 2997000\<rparr>"

lemma connected_agent_facts:
  "port_ok connected_agent" "next_address ref_aenv connected_agent = Some ''tcp:host=..,port=842''" "conn_ok connected_agent"
  "agent_is_connected connected_agent"
proof -
  show "next_address ref_aenv connected_agent = Some ''tcp:host=..,port=842''" by code_simp
qed (simp_all add: connected_agent_def host_agent_def agent_new_def port_ok_def conn_ok_def agent_is_connected_def)


section \<open>Coming back\<close>

definition trying :: "Agent \<Rightarrow> bool" where
  "trying a = (ag_state a = AGENT_CONNECTION_STATE_CONNECTING \<or> ag_state a = AGENT_CONNECTION_STATE_RETRY)"

text \<open>A tick of an agent that is not connected: the attempt is counted, and from the configured count on the log is quiet.\<close>

definition counted :: "Agent \<Rightarrow> Agent" where
  "counted a =
     (let b = a\<lparr>ag_register_slot := (ag_register_slot a \<and> ag_state a \<noteq> AGENT_CONNECTION_STATE_CONNECTING),
                ag_state := AGENT_CONNECTION_STATE_RETRY, ag_retry_count := ag_retry_count a + 1\<rparr>
      in if ag_retry_count a + 1 = ag_retry_count_until_quiet a then b\<lparr>ag_log := bc_log_set_quiet True (ag_log a)\<rparr> else b)"

lemma state_idem: "ag_state a = s \<Longrightarrow> a\<lparr>ag_state := s\<rparr> = a"
  by simp

lemma tick_trying: "trying a \<Longrightarrow> heartbeat_tick e a = snd (agent_reconnect e (counted a))"
  by (auto simp: trying_def heartbeat_tick_def counted_def Let_def state_idem)

lemma counted_fields [simp]:
  "ag_controller_address (counted a) = ag_controller_address a" "ag_host (counted a) = ag_host a" "ag_port (counted a) = ag_port a"
  "ag_next_bus (counted a) = ag_next_bus a" "ag_config (counted a) = ag_config a" "ag_retry_count (counted a) = ag_retry_count a + 1"
  "ag_state (counted a) = AGENT_CONNECTION_STATE_RETRY" "ag_retry_count_until_quiet (counted a) = ag_retry_count_until_quiet a"
  "ag_proxies (counted a) = ag_proxies a" "ag_px_h (counted a) = ag_px_h a" "ag_assembled_address (counted a) = ag_assembled_address a"
  "ag_out (counted a) = ag_out a" "ag_name (counted a) = ag_name a" "ag_unit_infos (counted a) = ag_unit_infos a"
  "ag_wildcard (counted a) = ag_wildcard a"
  by (simp_all add: counted_def Let_def)

lemma reconnected_fields [simp]:
  "ag_state (reconnected x a) = AGENT_CONNECTION_STATE_CONNECTING" "ag_peer_dbus (reconnected x a) = Some (ag_next_bus a)"
  "ag_register_slot (reconnected x a)" "ag_proxies (reconnected x a) = ag_proxies a" "ag_px_h (reconnected x a) = ag_px_h a"
  "ag_config (reconnected x a) = ag_config a" "ag_unit_infos (reconnected x a) = ag_unit_infos a"
  "ag_wildcard (reconnected x a) = ag_wildcard a" "ag_next_bus (reconnected x a) = ag_next_bus a + 1"
  by (simp_all add: reconnected_def)

lemma tick_reconnects:
  assumes "abus_ok e" "inet_ok (a_net e)" "port_ok a" "next_address e a = Some x" "trying a"
  shows "heartbeat_tick e a = reconnected x (counted a)"
proof -
  have "port_ok (counted a)" "next_address e (counted a) = Some x"
    using assms(3,4) next_address_cong [of "counted a" a e] by (simp_all add: port_ok_def)
  then show ?thesis using reconnect_result [OF assms(1,2)] tick_trying [OF assms(5)] by simp
qed

text \<open>The answer of the controller to a registration.\<close>

lemma register_result:
  assumes "abus_ok e" "proxies_ok a" "ag_state a = AGENT_CONNECTION_STATE_CONNECTING" "ag_peer_dbus a = Some b"
  shows "\<exists>t. agent_register_callback e False a = Some t \<and> agent_is_connected t \<and> ag_peer_dbus t = Some b \<and> ag_retry_count t = 0 \<and>
    is_quiet (ag_log t) = cfg_get_bool_value (ag_config a) CFG_LOG_IS_QUIET \<and>
    ag_out t = ag_out a @ PropStatus # concat (map (announcement a b) (ag_proxies a)) \<and> px_core t = px_core a \<and>
    ag_unit_infos t = ag_unit_infos a \<and> ag_wildcard t = ag_wildcard a"
proof -
  let ?a1 = "a\<lparr>ag_log := bc_log_set_quiet (cfg_get_bool_value (ag_config a) CFG_LOG_IS_QUIET) (ag_log a),
                   ag_state := AGENT_CONNECTION_STATE_CONNECTED, ag_retry_count := 0, ag_last_seen := a_time e,
                   ag_last_seen_monotonic := a_time_monotonic e, ag_disconnect_timestamp := 0,
                   ag_disconnect_timestamp_monotonic := 0\<rparr>"
  let ?a2 = "aput PropStatus ?a1"
  have em: "emit_property e n m c = aput m c" for n m c using assms(1) by (simp add: emit_property_def)
  have px: "ag_px_h ?a2 p \<noteq> None" if "p \<in> set (ag_proxies ?a2)" for p
    using assms(2) that by (auto simp: proxies_ok_def aput_def)
  have f: "agent_is_connected ?a2" "ag_peer_dbus ?a2 = Some b" "announcement ?a2 b = announcement a b" "ag_proxies ?a2 = ag_proxies a"
    "px_core ?a2 = px_core a" "ag_retry_count ?a2 = 0" "ag_log ?a2 = bc_log_set_quiet (cfg_get_bool_value (ag_config a) CFG_LOG_IS_QUIET) (ag_log a)"
    "ag_out ?a2 = ag_out a @ [PropStatus]"
    using assms(4) by (simp_all add: agent_is_connected_def aput_def announcement_def px_core_def fun_eq_iff)
  obtain t where t: "foldo (reemit_proxy_new e) (ag_proxies ?a2) ?a2 = Some t" "announced ?a2 t"
    "ag_out t = ag_out ?a2 @ concat (map (announcement ?a2 b) (ag_proxies ?a2))"
    using reemit_all [where e = e, OF px] assms(1) f(1,2) by blast
  have cb: "agent_register_callback e False a = Some t"
    using assms(1,3) t(1) by (simp add: agent_register_callback_def agent_process_register_callback_def Let_def em)
  have "agent_is_connected t" "ag_peer_dbus t = Some b" "ag_retry_count t = 0"
    "is_quiet (ag_log t) = cfg_get_bool_value (ag_config a) CFG_LOG_IS_QUIET" "px_core t = px_core a"
    "ag_unit_infos t = ag_unit_infos a" "ag_wildcard t = ag_wildcard a"
    using t(2) f by (auto simp: announced_def agent_is_connected_def bc_log_set_quiet_def aput_def)
  then show ?thesis using cb t(3) f by simp
qed

text \<open>C16.  The agent comes back.  Whatever it did before, an agent that is trying to connect opens a new bus and registers
  at the next tick of its timer if the address of the controller can be found and the calls succeed; once the
  controller accepts the registration the agent is connected on that bus, its attempts are forgotten, the log is as
  loud as configured, and every proxy is announced again, in order, to the new controller.\<close>

theorem agent_comes_back:
  assumes "abus_ok e" "abus_ok e'" "inet_ok (a_net e)" "port_ok a" "next_address e a = Some x" "trying a" "proxies_ok a"
  shows "\<exists>t. agent_register_callback e' False (heartbeat_tick e a) = Some t \<and> agent_is_connected t \<and>
    ag_peer_dbus t = Some (ag_next_bus a) \<and> ag_retry_count t = 0 \<and>
    is_quiet (ag_log t) = cfg_get_bool_value (ag_config a) CFG_LOG_IS_QUIET \<and>
    ag_out t = ag_out a @ (case ag_assembled_address a of Some y \<Rightarrow> if y \<noteq> x then [PropControllerAddress] else [] | None \<Rightarrow> []) @
      [CallRegister (ag_next_bus a) (ag_name a), PropStatus] @ concat (map (announcement a (ag_next_bus a)) (ag_proxies a))"
proof -
  let ?r = "reconnected x (counted a)"
  have tick: "heartbeat_tick e a = ?r" by (rule tick_reconnects [OF assms(1,3,4,5,6)])
  have "same_objects a ?r" using tick_same_objects [of a e] tick by simp
  then have "ag_next ?r = ag_next a" using refs_of_fields(6) [of ?r a] by (simp add: same_objects_def)
  then have ok: "proxies_ok ?r" using assms(7) by (simp add: proxies_ok_def)
  have ann: "announcement ?r b = announcement a b" for b by (simp add: announcement_def fun_eq_iff)
  have out: "ag_out ?r = ag_out a @ (case ag_assembled_address a of Some y \<Rightarrow> if y \<noteq> x then [PropControllerAddress] else [] | None \<Rightarrow> []) @
      [CallRegister (ag_next_bus a) (ag_name a)]" by (simp add: reconnected_def)
  from register_result [OF assms(2) ok] obtain t where "agent_register_callback e' False ?r = Some t" "agent_is_connected t"
    "ag_peer_dbus t = Some (ag_next_bus a)" "ag_retry_count t = 0" "is_quiet (ag_log t) = cfg_get_bool_value (ag_config a) CFG_LOG_IS_QUIET"
    "ag_out t = ag_out ?r @ PropStatus # concat (map (announcement a (ag_next_bus a)) (ag_proxies a))" using ann by auto
  then show ?thesis using tick out by (intro exI [of _ t]) simp
qed

text \<open>A registration the controller refuses.  The error is returned as a number where a truth value is expected and
  counts as success: nothing happens, and the agent stays in the state of connecting, without a retry, until the timer
  ticks; without a heartbeat interval there is no timer, and it stays there.\<close>

theorem register_error_ignored:
  assumes "ag_state a = AGENT_CONNECTION_STATE_CONNECTING"
  shows "agent_register_callback e True a = Some a \<and>
    (ag_heartbeat_interval_msec a \<le> 0 \<longrightarrow> agent_setup_heartbeat_timer ev now a = (0, None))"
  using assms by (simp add: agent_register_callback_def agent_process_register_callback_def agent_setup_heartbeat_timer_def)

theorem register_error_ignored_witness:
  "agent_register_callback ref_aenv True (heartbeat_tick ref_aenv connected_agent) = Some (heartbeat_tick ref_aenv connected_agent)"
proof -
  have "ag_state (heartbeat_tick ref_aenv connected_agent) = AGENT_CONNECTION_STATE_CONNECTING" by code_simp
  then show ?thesis using register_error_ignored by blast
qed

text \<open>An agent that lost its connection, with a proxy.\<close>

definition lost_agent :: Agent where
  "lost_agent = proxy_agent\<lparr>ag_name := Some ''n1'', ag_controller_address := Some ''x'', ag_assembled_address := Some ''x'',
     ag_state := AGENT_CONNECTION_STATE_RETRY, ag_peer_dbus := None, ag_next_bus := 2\<rparr>"

lemma lost_agent_facts:
  "port_ok lost_agent" "next_address ref_aenv lost_agent = Some ''x''" "trying lost_agent" "proxies_ok lost_agent" "ag_next_bus lost_agent = 2"
  "ag_proxies lost_agent = [1]" "ag_name lost_agent = Some ''n1''" "ag_assembled_address lost_agent = Some ''x''"
proof -
  have "ag_port proxy_agent = 0" "ag_proxies proxy_agent = [1]" by code_simp+
  then show "port_ok lost_agent" "ag_proxies lost_agent = [1]" by (simp_all add: port_ok_def lost_agent_def)
  show "next_address ref_aenv lost_agent = Some ''x''" by (simp add: next_address_def spec_address_def denoted_address_def lost_agent_def)
  show "proxies_ok lost_agent" using proxy_agent_facts(2) by (simp add: proxies_ok_def lost_agent_def)
qed (simp_all add: trying_def lost_agent_def)

theorem agent_comes_back_witness:
  "\<exists>t. agent_register_callback ref_aenv False (heartbeat_tick ref_aenv lost_agent) = Some t \<and> agent_is_connected t \<and>
     ag_out t = ag_out lost_agent @ [CallRegister 2 (Some ''n1''), PropStatus] @ announcement lost_agent 2 1"
  using agent_comes_back [OF ref_aenv_ok ref_aenv_ok _ lost_agent_facts(1-4)] ref_net_ok by (auto simp: lost_agent_facts)

section \<open>What the new connection does not know\<close>

text \<open>C34.  After a reconnect the proxies are announced on the new bus under their old object paths, but each stays exported
  on the bus it was created on: no message of the new controller about its target can reach it.\<close>

theorem reconnected_proxies_unreachable:
  assumes "abus_ok e" "abus_ok e'" "inet_ok (a_net e)" "port_ok a" "next_address e a = Some x" "trying a" "agent_inv a"
    "ag_px_h a p = Some px"
  shows "\<exists>t px'. agent_register_callback e' False (heartbeat_tick e a) = Some t \<and> agent_is_connected t \<and>
    ag_px_h t p = Some px' \<and> px_export_slot px' = px_export_slot px \<and> px_export_slot px' \<noteq> ag_peer_dbus t \<and>
    SigProxyNew (ag_next_bus a) (px_node_name px') (px_unit_name px') (px_object_path px') \<in> set (ag_out t)"
proof -
  let ?r = "reconnected x (counted a)" and ?b = "ag_next_bus a"
  have tick: "heartbeat_tick e a = ?r" by (rule tick_reconnects [OF assms(1,3,4,5,6)])
  have inv: "proxies_ok a" "conn_ok a" using assms(7) by (simp_all add: agent_inv_def)
  have "agent_inv ?r" using inv_same_objects [OF assms(7) tick_same_objects tick_conn_ok [OF inv(2)], of e] tick by simp
  then have ok: "proxies_ok ?r" by (simp add: agent_inv_def)
  obtain t where t: "agent_register_callback e' False ?r = Some t" "agent_is_connected t" "ag_peer_dbus t = Some ?b" "px_core t = px_core ?r"
    "ag_out t = ag_out ?r @ PropStatus # concat (map (announcement ?r ?b) (ag_proxies ?r))"
    using register_result [OF assms(2) ok, of ?b] by auto
  have r: "ag_px_h ?r p = Some px" using assms(8) by simp
  then obtain px' where px': "ag_px_h t p = Some px'" using fun_cong [OF t(4), of p] by (auto simp: px_core_def)
  then have same: "px_export_slot px' = px_export_slot px" "px_node_name px' = px_node_name px" "px_unit_name px' = px_unit_name px"
    "px_object_path px' = px_object_path px" using px_core_Some [OF t(4) px'] r by (metis option.inject)+
  have "px_export_slot px \<noteq> Some ?b" using inv(2) assms(8) by (fastforce simp: conn_ok_def)
  moreover have "p \<in> set (ag_proxies a)" using proxies_okD(1) [OF inv(1) assms(8)] .
  then have "SigProxyNew ?b (px_node_name px) (px_unit_name px) (px_object_path px) \<in> set (ag_out t)"
    using t(5) r by (auto simp: announcement_def intro: bexI [of _ p])
  ultimately show ?thesis using t px' same tick by auto
qed

lemma lost_agent_inv: "agent_inv lost_agent"
proof -
  have "refs_of lost_agent = refs_of proxy_agent" by (simp add: refs_of_def lost_agent_def)
  then have "refs_ok lost_agent" using proxy_agent_facts(1) refs_ok_cong by blast
  moreover have "ag_unit_infos proxy_agent = []" "\<not> ag_register_slot proxy_agent" by code_simp+
  then have "units_ok lost_agent" by (simp add: units_ok_def agent_get_unit_info_def lost_agent_def)
  moreover have "ag_px_h proxy_agent = [1 \<mapsto> new_proxy ''s'' ''n'' ''u'' 7 agent_new (Some 1) True]"
  proof -
    have "dom (ag_px_h proxy_agent) = {1}" using proxy_agent_facts(2) lost_agent_facts(6) by (simp add: proxies_ok_def lost_agent_def)
    then show ?thesis using proxy_agent_facts(3) by (auto simp: fun_eq_iff dom_def)
  qed
  then have "conn_ok lost_agent" using \<open>\<not> ag_register_slot proxy_agent\<close> by (simp add: conn_ok_def lost_agent_def new_proxy_def)
  ultimately show ?thesis using lost_agent_facts(4) by (simp add: agent_inv_def)
qed

theorem reconnected_proxies_unreachable_witness:
  "\<exists>t px'. agent_register_callback ref_aenv False (heartbeat_tick ref_aenv lost_agent) = Some t \<and> ag_px_h t 1 = Some px' \<and>
     px_export_slot px' \<noteq> ag_peer_dbus t \<and> agent_is_connected t"
proof -
  have "ag_px_h lost_agent 1 = Some (new_proxy ''s'' ''n'' ''u'' 7 agent_new (Some 1) True)"
    using proxy_agent_facts(3) by (simp add: lost_agent_def)
  from reconnected_proxies_unreachable [OF ref_aenv_ok ref_aenv_ok _ lost_agent_facts(1-3) lost_agent_inv this] ref_net_ok
  show ?thesis by auto
qed

text \<open>C35.  A repeated subscription.  The flags of subscribed units survive the loss of the connection.  When the controller
  subscribes again after the agent has reconnected and registered, it gets an error, and neither the presence nor the
  state of the unit is reported to it.\<close>

theorem resubscribe_reports_nothing:
  assumes "abus_ok e" "abus_ok e'" "inet_ok (a_net e)" "port_ok a" "next_address e a = Some x" "trying a" "agent_inv a"
    "u \<in> subscribed_units a" "u \<noteq> ''*''"
  shows "\<exists>t. agent_register_callback e' False (heartbeat_tick e a) = Some t \<and> agent_is_connected t \<and>
    ag_out (agent_method_subscribe e' m u t) = ag_out t @ [AReply m (AError BUS_ERROR_FAILED ''Already subscribed'')]"
proof -
  let ?r = "reconnected x (counted a)" and ?b = "ag_next_bus a"
  have tick: "heartbeat_tick e a = ?r" by (rule tick_reconnects [OF assms(1,3,4,5,6)])
  have inv: "units_ok a" "conn_ok a" using assms(7) by (simp_all add: agent_inv_def)
  have "agent_inv ?r" using inv_same_objects [OF assms(7) tick_same_objects tick_conn_ok [OF inv(2)], of e] tick by simp
  then have ok: "proxies_ok ?r" by (simp add: agent_inv_def)
  obtain t where t: "agent_register_callback e' False ?r = Some t" "agent_is_connected t" "ag_peer_dbus t = Some ?b"
    "ag_unit_infos t = ag_unit_infos a" using register_result [OF assms(2) ok, of ?b] by auto
  have g: "agent_get_unit_info t = agent_get_unit_info a" by (rule get_unit_info_cong [OF t(4)])
  then have "units_ok t" "u \<in> subscribed_units t" using inv(1) assms(8) by (simp_all add: units_ok_def subscribed_units_def)
  then show ?thesis using subscribe_signals [OF assms(2) _ t(3) assms(9)] t(1,2) tick by auto
qed

definition watching_agent :: Agent where
  "watching_agent = lost_agent\<lparr>ag_unit_infos := [(make_unit_path ''db'',
     \<lparr>ui_unit = ''db'', ui_subscribed = True, ui_loaded = False, ui_active_state = - 1, ui_substate = None\<rparr>)]\<rparr>"

lemma watching_agent_facts:
  "port_ok watching_agent" "next_address ref_aenv watching_agent = Some ''x''" "trying watching_agent" "agent_inv watching_agent"
  "''db'' \<in> subscribed_units watching_agent"
proof -
  have "units_frame lost_agent watching_agent" by (simp add: units_frame_def refs_of_def watching_agent_def)
  moreover have "units_ok watching_agent" by (simp add: units_ok_def agent_get_unit_info_def watching_agent_def)
  ultimately show "agent_inv watching_agent" using inv_units [OF lost_agent_inv] by blast
  show "''db'' \<in> subscribed_units watching_agent" by (simp add: subscribed_units_def agent_get_unit_info_def watching_agent_def)
  show "port_ok watching_agent" "trying watching_agent" using lost_agent_facts(1,3) by (simp_all add: port_ok_def trying_def watching_agent_def)
  show "next_address ref_aenv watching_agent = Some ''x''"
    using lost_agent_facts(2) next_address_cong [of watching_agent lost_agent ref_aenv] by (simp add: watching_agent_def)
qed

theorem resubscribe_reports_nothing_witness:
  "\<exists>t. agent_register_callback ref_aenv False (heartbeat_tick ref_aenv watching_agent) = Some t \<and>
     ag_out (agent_method_subscribe ref_aenv 4 ''db'' t) = ag_out t @ [AReply 4 (AError BUS_ERROR_FAILED ''Already subscribed'')]"
  using resubscribe_reports_nothing [OF ref_aenv_ok ref_aenv_ok _ watching_agent_facts, of 4] ref_net_ok by auto

section \<open>Retrying\<close>

definition cannot_connect :: "aenv \<Rightarrow> bool" where
  "cannot_connect e = (\<exists>c \<in> {BusNew, BusSetTrusted, BusStart, BusAttachEvent}. a_ret e (ABus c) < 0)"

lemma failed_connect: "cannot_connect e \<Longrightarrow> \<not> peer_bus_open (\<lambda>c. a_ret e (ABus c)) True x"
  by (auto simp: cannot_connect_def peer_bus_open_def peer_bus_new_def first_failure_iff split: option.split)

lemma failed_reconnect:
  assumes "cannot_connect e" "ag_state a = AGENT_CONNECTION_STATE_RETRY"
  shows "trying (snd (agent_reconnect e a))" "ag_retry_count (snd (agent_reconnect e a)) = ag_retry_count a"
    "ag_retry_count_until_quiet (snd (agent_reconnect e a)) = ag_retry_count_until_quiet a" "ag_log (snd (agent_reconnect e a)) = ag_log a"
proof -
  let ?r = "ensure_assembled_controller_address e (a\<lparr>ag_assembled_address := None\<rparr>)"
  obtain x where x: "snd ?r = a\<lparr>ag_assembled_address := None, ag_assembled_address := x\<rparr>" by (rule ensure_address_result)
  have c: "agent_connect e b = (False, b\<lparr>ag_state := AGENT_CONNECTION_STATE_CONNECTING, ag_peer_dbus := None\<rparr>)" for b
    using failed_connect [OF assms(1)] by (simp add: agent_connect_def Let_def)
  have em: "ag_retry_count (emit_property e n m b) = ag_retry_count b" "ag_log (emit_property e n m b) = ag_log b"
    "ag_retry_count_until_quiet (emit_property e n m b) = ag_retry_count_until_quiet b" for n m b
    by (simp_all add: emit_property_def aput_def)
  show "trying (snd (agent_reconnect e a))" "ag_retry_count (snd (agent_reconnect e a)) = ag_retry_count a"
    "ag_retry_count_until_quiet (snd (agent_reconnect e a)) = ag_retry_count_until_quiet a" "ag_log (snd (agent_reconnect e a)) = ag_log a"
    using assms(2) x by (auto simp: agent_reconnect_def Let_def case_prod_beta c agent_peer_bus_close_def trying_def em split: option.split)
qed

lemma failed_tick:
  assumes "cannot_connect e" "trying a"
  shows "trying (heartbeat_tick e a)" "ag_retry_count (heartbeat_tick e a) = ag_retry_count a + 1"
    "ag_retry_count_until_quiet (heartbeat_tick e a) = ag_retry_count_until_quiet a"
    "is_quiet (ag_log (heartbeat_tick e a)) = (is_quiet (ag_log a) \<or> ag_retry_count a + 1 = ag_retry_count_until_quiet a)"
proof -
  have "is_quiet (ag_log (counted a)) = (is_quiet (ag_log a) \<or> ag_retry_count a + 1 = ag_retry_count_until_quiet a)"
    by (simp add: counted_def Let_def bc_log_set_quiet_def)
  then show "trying (heartbeat_tick e a)" "ag_retry_count (heartbeat_tick e a) = ag_retry_count a + 1"
    "ag_retry_count_until_quiet (heartbeat_tick e a) = ag_retry_count_until_quiet a"
    "is_quiet (ag_log (heartbeat_tick e a)) = (is_quiet (ag_log a) \<or> ag_retry_count a + 1 = ag_retry_count_until_quiet a)"
    using failed_reconnect [OF assms(1), of "counted a"] tick_trying [OF assms(2)] by simp_all
qed

text \<open>Retrying goes on and quiets the log.  While the controller cannot be reached every tick of the timer tries to
  connect, is counted, and leaves the agent trying; after \<open>k\<close> ticks the log is quiet exactly when it was before or the
  configured number of attempts, if not zero, was reached.\<close>

theorem retry_quiets_log:
  assumes "\<forall>e \<in> set es. cannot_connect e" "trying a" "ag_retry_count a = 0" "length es < 2 ^ 64"
  shows "trying (fold heartbeat_tick es a) \<and> unat (ag_retry_count (fold heartbeat_tick es a)) = length es \<and>
    is_quiet (ag_log (fold heartbeat_tick es a)) =
      (is_quiet (ag_log a) \<or> (0 < unat (ag_retry_count_until_quiet a) \<and> unat (ag_retry_count_until_quiet a) \<le> length es))"
proof -
  let ?q = "unat (ag_retry_count_until_quiet a)"
  have "trying (fold heartbeat_tick es a) \<and> unat (ag_retry_count (fold heartbeat_tick es a)) = length es \<and>
    ag_retry_count_until_quiet (fold heartbeat_tick es a) = ag_retry_count_until_quiet a \<and>
    is_quiet (ag_log (fold heartbeat_tick es a)) = (is_quiet (ag_log a) \<or> (0 < ?q \<and> ?q \<le> length es))"
    using assms
  proof (induction es rule: rev_induct)
    case Nil
    then show ?case by auto
  next
    case (snoc e es)
    let ?t = "fold heartbeat_tick es a"
    have t: "trying ?t" "unat (ag_retry_count ?t) = length es" "ag_retry_count_until_quiet ?t = ag_retry_count_until_quiet a"
      "is_quiet (ag_log ?t) = (is_quiet (ag_log a) \<or> (0 < ?q \<and> ?q \<le> length es))" using snoc by auto
    note f = failed_tick [of e ?t]
    have c: "unat (ag_retry_count ?t + 1) = length es + 1"
      using t(2) snoc.prems(4) by (subst unat_plus_simple [THEN iffD1]) (simp_all add: no_olen_add_nat)
    then have "ag_retry_count ?t + 1 = ag_retry_count_until_quiet a \<longleftrightarrow> ?q = length es + 1" by (auto simp: word_unat_eq_iff)
    then show ?case using f t c snoc.prems(1) by auto
  qed
  then show ?thesis by simp
qed

theorem retry_quiets_log_witness:
  "is_quiet (ag_log (fold heartbeat_tick [ref_aenv\<lparr>a_ret := \<lambda>_. - 1\<rparr>, ref_aenv\<lparr>a_ret := \<lambda>_. - 1\<rparr>]
     (lost_agent\<lparr>ag_retry_count_until_quiet := 2\<rparr>)))"
proof -
  let ?e = "ref_aenv\<lparr>a_ret := \<lambda>_. - 1\<rparr>" and ?a = "lost_agent\<lparr>ag_retry_count_until_quiet := 2\<rparr>"
  have "ag_retry_count ?a = 0" by code_simp
  moreover have "cannot_connect ?e" "trying ?a" using lost_agent_facts(3) by (auto simp: cannot_connect_def trying_def)
  ultimately show ?thesis using retry_quiets_log [of "[?e, ?e]" ?a] by simp
qed

end
