(* ===== verification/Agent_Props.thy ===== *)
theory Agent_Props
  imports Agent_Conn_Props
begin

text \<open>Properties of the whole agent: from its start on no handler aborts, it stops cleanly, and the jobs it follows are
  reported once.\<close>

section \<open>The start\<close>

text \<open>Before the start there is no bus.\<close>

definition fresh_inv :: "Agent \<Rightarrow> bool" where
  "fresh_inv a = (agent_inv a \<and> ag_peer_dbus a = None)"

lemma agent_new_inv: "fresh_inv (agent_new\<lparr>ag_config := c\<rparr>)"
  by (simp add: fresh_inv_def agent_inv_def refs_ok_def proxies_ok_def units_ok_def conn_ok_def agent_new_def op_holders_def agent_get_unit_info_def)

text \<open>A property that every setting keeps.\<close>

definition settles :: "('s \<Rightarrow> bool) \<Rightarrow> (bool \<times> 's) option \<Rightarrow> bool" where
  "settles P m = (\<forall>ok t. m = Some (ok, t) \<longrightarrow> P t)"

lemma settles_and_then: "settles P m \<Longrightarrow> (\<And>u. P u \<Longrightarrow> settles P (k u)) \<Longrightarrow> settles P (and_then m k)"
  by (auto simp: settles_def and_then_def bind_eq_Some_conv split: if_splits)

lemma settles_when_set: "P a \<Longrightarrow> (\<And>x. P (snd (f x a))) \<Longrightarrow> settles P (when_set v f a)"
  by (auto simp: settles_def when_set_def split: option.splits) (metis snd_conv)

lemma settles_Some: "P (snd r) \<Longrightarrow> settles P (Some r)"
  by (auto simp: settles_def)

lemma setting_inv: "fresh_inv a \<Longrightarrow> refs_of t = refs_of a \<and> keeps a t \<Longrightarrow> fresh_inv t"
  using inv_refs_only [of a t] by (auto simp: fresh_inv_def keeps_def)

lemma agent_setters_inv:
  assumes "fresh_inv a"
  shows "fresh_inv (snd (agent_set_name x a))" "fresh_inv (snd (agent_set_host x a))" "fresh_inv (snd (agent_set_port x a))"
    "fresh_inv (snd (agent_set_controller_address x a))" "fresh_inv (snd (agent_set_heartbeat_interval x a))"
    "fresh_inv (snd (agent_set_controller_heartbeat_threshold x a))" "fresh_inv (snd (agent_set_connection_retry_count_until_quiet x a))"
    "fresh_inv (snd (agent_set_socket_option f a))"
  by (rule setting_inv [OF assms];
      simp add: agent_set_name_def agent_set_host_def agent_set_port_def agent_set_controller_address_def agent_set_heartbeat_interval_def
        agent_set_controller_heartbeat_threshold_def agent_set_connection_retry_count_until_quiet_def agent_set_socket_option_def
        refs_of_def keeps_def case_prod_beta split: option.split)+

lemma apply_config_inv: "fresh_inv a \<Longrightarrow> settles fresh_inv (agent_apply_config a)"
  unfolding agent_apply_config_def Let_def
  by (intro settles_and_then settles_when_set settles_Some agent_setters_inv) assumption+

lemma init_unit_inv:
  assumes fresh: "fresh_inv a" and r: "init_unit u a = Some t"
  shows "fresh_inv t"
proof -
  obtain name active sub path where u: "u = (name, active, sub, path)" by (cases u) auto
  obtain info a1 where en: "agent_ensure_unit_info name a = (info, a1)" by fastforce
  note en' = ensure_unit_info [OF en]
  have inv: "agent_inv a" "ag_peer_dbus a = None" using fresh by (simp_all add: fresh_inv_def)
  then have ok: "units_ok a" by (simp add: agent_inv_def)
  have n: "ui_unit info = name" using en'(5) in_table(3) ok by blast
  let ?i = "info\<lparr>ui_loaded := True, ui_active_state := active_state_from_string active, ui_substate := Some sub\<rparr>"
  have t: "t = set_unit_info (make_unit_path name) ?i a1" using r u en by (auto simp: init_unit_def split: if_splits)
  have "agent_get_unit_info t = (agent_get_unit_info a)(make_unit_path name \<mapsto> ?i)" using t en'(1) by (auto simp: fun_eq_iff)
  then have "units_ok t" using table_update [of t a name ?i] ok n by simp
  moreover have "units_frame a t" using t ensure_unit_frame [of a name a] en by simp
  ultimately show ?thesis using inv_units [OF inv(1)] inv(2) by (simp add: fresh_inv_def units_frame_def)
qed

lemma agent_start_inv:
  assumes fresh: "fresh_inv a" and r: "agent_start e ev now units a = Some (True, src, t)"
  shows "agent_inv t"
proof -
  let ?r = "ensure_assembled_controller_address e a"
  have inv: "agent_inv a" "ag_peer_dbus a = None" using fresh by (simp_all add: fresh_inv_def)
  have "ag_peer_dbus (snd ?r) = None" by (rule ensure_address_result [of e a]) (simp add: inv)
  then have i1: "fresh_inv (snd ?r)"
    using inv_same_objects [OF inv(1), of "snd ?r"] inv by (simp add: agent_inv_def fresh_inv_def)
  obtain a2 where a2: "agent_init_units units (snd ?r) = Some a2"
    and t: "t = (if fst (agent_connect e a2) then snd (agent_connect e a2) else (snd (agent_connect e a2))\<lparr>ag_state := AGENT_CONNECTION_STATE_RETRY\<rparr>)"
    using r by (auto simp: agent_start_def case_prod_beta Let_def bind_eq_Some_conv split: if_splits)
  have "fresh_inv a2"
    by (rule foldo_invariant [of init_unit units "snd ?r" a2 fresh_inv]) (use a2 i1 init_unit_inv in \<open>auto simp: agent_init_units_def\<close>)
  then have i2: "agent_inv a2" "conn_ok a2" "ag_peer_dbus a2 = None" by (simp_all add: fresh_inv_def agent_inv_def)
  have c: "conn_ok (snd (agent_connect e a2))" by (rule connect_conn_ok [OF i2(2,3)])
  have "same_objects a2 t" using t connect_same_objects [OF same_objects_refl, of a2 e] by simp
  moreover have "conn_ok t" using t c conn_ok_state [OF c] by auto
  ultimately show ?thesis using inv_same_objects [OF i2(1)] by blast
qed

text \<open>C3.  The agent never aborts.  After any configuration and a successful start, no sequence of events, in which systemd
  answers pending requests and the controller answers pending registrations, calls existing proxies and reports an error
  only to a proxy whose local service still waits, and whatever call of the environment fails, makes a handler use a freed request, operation or proxy or fail an assertion.  In
  every state that is reached each request waits for its answer with its single reference, each operation has
  exactly the references its holders took, each proxy is listed once, each unit is stored under its own path and a
  connected agent has a bus.\<close>

theorem agent_never_aborts:
  assumes "agent_apply_config (agent_new\<lparr>ag_config := c\<rparr>) = Some (ok, a0)"
    "agent_start e ev now units a0 = Some (True, src, a)" "enabled_run agent_enabled agent_handle a es"
  shows "\<exists>t. foldo agent_handle es a = Some t \<and> refs_ok t \<and> proxies_ok t \<and> units_ok t \<and> conn_ok t"
proof -
  have "fresh_inv a0" using apply_config_inv [OF agent_new_inv] assms(1) by (auto simp: settles_def)
  then have "agent_inv a" by (rule agent_start_inv [OF _ assms(2)])
  from agent.run_safe [OF this assms(3)] show ?thesis by (auto simp: agent_inv_def)
qed

definition run_config :: config where
  "run_config = \<lparr>cfg_store = [((''a'', ''NodeName''), Some ''n1''), ((''a'', ''ControllerHost''), Some ''h'')], default_section = ''a''\<rparr>"

definition run_events :: "(aenv \<times> agent_event) list" where
  "run_events = [(ref_aenv, AgRegisterReply False), (ref_aenv, AgUnitLifecycle 1 ''StartUnit'' ''u'' ''replace'' 5),
     (ref_aenv, AgSystemdAnswer 1 (SdPath ''/j'')), (ref_aenv, AgJobRemoved ''/j'' ''done'')]"

definition run_agent :: Agent where
  "run_agent = snd (snd (the (agent_start (ref_aenv\<lparr>a_euid := 1000\<rparr>) (\<lambda>_. 0) 0 []
     (snd (the (agent_apply_config (agent_new\<lparr>ag_config := run_config\<rparr>)))))))"

theorem agent_never_aborts_witness:
  "\<exists>t. foldo agent_handle run_events run_agent = Some t \<and> refs_ok t \<and> proxies_ok t \<and> units_ok t \<and> conn_ok t"
proof -
  let ?c = "agent_apply_config (agent_new\<lparr>ag_config := run_config\<rparr>)"
  let ?s = "agent_start (ref_aenv\<lparr>a_euid := 1000\<rparr>) (\<lambda>_. 0) 0 [] (snd (the ?c))"
  have "?c \<noteq> None" "?s \<noteq> None" "fst (the ?s)" by code_simp+
  then have "?c = Some (fst (the ?c), snd (the ?c))" "?s = Some (True, fst (snd (the ?s)), run_agent)"
    by (auto simp: run_agent_def)
  moreover have "enabled_run agent_enabled agent_handle run_agent run_events" by code_simp
  ultimately show ?thesis by (rule agent_never_aborts)
qed

section \<open>The stop\<close>

text \<open>What is sent for a proxy that is removed: a failure to a waiting local service, or the call that stops it.\<close>

definition proxy_settled :: "ProxyService \<Rightarrow> agent_out list \<Rightarrow> bool" where
  "proxy_settled px out = (case px_request_message px of
     Some q \<Rightarrow> AReply q (AError BUS_ERROR_FAILED ''Proxy service stopped'') \<in> set out
   | None \<Rightarrow> list_ex (\<lambda>m. case m of CallSystemd r _ _ _ _ \<Rightarrow> m = stop_call px r | _ \<Rightarrow> False) out)"

lemma proxy_settled_append:
  "proxy_settled px xs \<Longrightarrow> proxy_settled px (xs @ ys)" "proxy_settled px ys \<Longrightarrow> proxy_settled px (xs @ ys)"
  by (auto simp: proxy_settled_def split: option.splits)

lemma remove_all_proxies:
  assumes "refs_ok a" "proxies_ok a" "ag_proxies a = ps"
  shows "\<exists>t. foldo (\<lambda>p. agent_remove_proxy e p False) ps a = Some t \<and> refs_ok t \<and> ag_proxies t = [] \<and> ag_px_h t = (\<lambda>_. None) \<and>
    ag_state t = ag_state a \<and> ag_peer_dbus t = ag_peer_dbus a \<and>
    (abus_ok e \<longrightarrow> (\<exists>out. ag_out t = ag_out a @ out \<and>
       (\<forall>p px. ag_px_h a p = Some px \<longrightarrow> proxy_settled px out)))"
  using assms
proof (induction ps arbitrary: a)
  case Nil
  then have "dom (ag_px_h a) = {}" by (simp add: proxies_ok_def)
  then have "ag_px_h a = (\<lambda>_. None)" by (simp only: dom_eq_empty_conv)
  then show ?case using Nil by simp
next
  case (Cons p ps)
  have "p \<in> dom (ag_px_h a)" using Cons.prems by (auto simp: proxies_ok_def)
  then obtain px where px: "ag_px_h a p = Some px" by blast
  note d = proxies_okD [OF Cons.prems(2) px]
  obtain b where b: "agent_remove_proxy e p False a = Some b" "refs_ok b" "keeps (without_proxy p None a) b"
    "abus_ok e \<longrightarrow> ag_out b = ag_out a @ removal_out False a px"
    using remove_proxy_result [OF Cons.prems(1) px, of e False] d by auto
  have k: "keeps (after_proxy p None a) b" using b(3) by (simp add: after_proxy_def)
  have f: "proxies_ok b" "ag_proxies b = ps" "ag_px_h b = (ag_px_h a)(p := None)" "ag_state b = ag_state a" "ag_peer_dbus b = ag_peer_dbus a"
    using proxies_ok_after [OF Cons.prems(2) px k] b(3) Cons.prems(3) by (simp_all add: keeps_def without_proxy_def)
  from Cons.IH [OF b(2) f(1,2)] obtain t where t: "foldo (\<lambda>p. agent_remove_proxy e p False) ps b = Some t" "refs_ok t"
    "ag_proxies t = []" "ag_px_h t = (\<lambda>_. None)" "ag_state t = ag_state b" "ag_peer_dbus t = ag_peer_dbus b"
    "abus_ok e \<longrightarrow> (\<exists>out. ag_out t = ag_out b @ out \<and>
       (\<forall>p px. ag_px_h b p = Some px \<longrightarrow> proxy_settled px out))" by blast
  have own: "proxy_settled px (removal_out False a px)"
    using d(5,6) by (auto simp: removal_out_def proxy_settled_def stop_call_def split: option.split)
  have "\<exists>out. ag_out t = ag_out a @ out \<and> (\<forall>p' px'. ag_px_h a p' = Some px' \<longrightarrow> proxy_settled px' out)"
    if e: "abus_ok e"
  proof -
    from t(7) e obtain out where out: "ag_out t = ag_out b @ out"
      "\<forall>p px. ag_px_h b p = Some px \<longrightarrow> proxy_settled px out" by blast
    show ?thesis
    proof (intro exI [of _ "removal_out False a px @ out"] conjI allI impI)
      show "ag_out t = ag_out a @ removal_out False a px @ out" using out(1) b(4) e by simp
      fix p' px' assume p': "ag_px_h a p' = Some px'"
      show "proxy_settled px' (removal_out False a px @ out)"
      proof (cases "p' = p")
        case True
        then show ?thesis using own p' px proxy_settled_append(1) by simp
      next
        case False
        then have "ag_px_h b p' = Some px'" using p' f(3) by simp
        then have "proxy_settled px' out" using out(2) by blast
        then show ?thesis by (rule proxy_settled_append(2))
      qed
    qed
  qed
  then show ?case using b(1) t f by simp
qed

text \<open>The agent stops cleanly.  Stopping never aborts: it closes the connection and removes every proxy; each local
  service that still waits gets a failure and each that was told it is ready is stopped through systemd.  The
  assertions of the final release hold.\<close>

theorem agent_stops_cleanly:
  assumes "agent_inv a" "abus_ok e"
  shows "\<exists>t out. agent_stop e a = Some t \<and> refs_ok t \<and> ag_proxies t = [] \<and> ag_px_h t = (\<lambda>_. None) \<and> ag_peer_dbus t = None \<and>
    ag_state t = AGENT_CONNECTION_STATE_DISCONNECTED \<and> agent_unref t \<noteq> None \<and> ag_out t = ag_out a @ PropStatus # out \<and>
    (\<forall>p px. ag_px_h a p = Some px \<longrightarrow> proxy_settled px out)"
proof -
  let ?a = "aput PropStatus ((agent_peer_bus_close a)\<lparr>ag_state := AGENT_CONNECTION_STATE_DISCONNECTED\<rparr>)"
  have s: "agent_stop e a = foldo (\<lambda>p. agent_remove_proxy e p False) (ag_proxies ?a) ?a"
    using assms(2) by (simp add: agent_stop_def emit_property_def Let_def)
  have same: "refs_of ?a = refs_of a" "ag_proxies ?a = ag_proxies a" "ag_px_h ?a = ag_px_h a" "ag_peer_dbus ?a = None"
    "ag_state ?a = AGENT_CONNECTION_STATE_DISCONNECTED" "ag_out ?a = ag_out a @ [PropStatus]"
    by (simp_all add: refs_of_def agent_peer_bus_close_def aput_def)
  have ok: "refs_ok ?a" "proxies_ok ?a"
    using assms(1) refs_ok_cong [OF same(1)] refs_of_fields(6) [OF same(1)] same(2,3) by (simp_all add: agent_inv_def proxies_ok_def)
  from remove_all_proxies [OF ok refl, of e] assms(2) obtain t out where
    t: "foldo (\<lambda>p. agent_remove_proxy e p False) (ag_proxies ?a) ?a = Some t" "refs_ok t" "ag_proxies t = []" "ag_px_h t = (\<lambda>_. None)"
    "ag_state t = ag_state ?a" "ag_peer_dbus t = ag_peer_dbus ?a" "ag_out t = ag_out ?a @ out"
    "\<forall>p px. ag_px_h ?a p = Some px \<longrightarrow> proxy_settled px out" by blast
  have "agent_unref t \<noteq> None" using refs_ok_pos [OF t(2)] t(3) by (auto simp: agent_unref_def)
  then show ?thesis using s t same by (intro exI [of _ t] exI [of _ out]) simp
qed

theorem agent_stops_cleanly_witness:
  "\<exists>t. agent_stop ref_aenv lost_agent = Some t \<and> agent_unref t \<noteq> None \<and>
     AReply 7 (AError BUS_ERROR_FAILED ''Proxy service stopped'') \<in> set (ag_out t)"
proof -
  have px: "ag_px_h lost_agent 1 = Some (new_proxy ''s'' ''n'' ''u'' 7 agent_new (Some 1) True)"
    "px_request_message (new_proxy ''s'' ''n'' ''u'' 7 agent_new (Some 1) True) = Some 7"
    using proxy_agent_facts(3) by (simp_all add: lost_agent_def new_proxy_def)
  from agent_stops_cleanly [OF lost_agent_inv ref_aenv_ok] obtain t out where t: "agent_stop ref_aenv lost_agent = Some t" "agent_unref t \<noteq> None"
    "ag_out t = ag_out lost_agent @ PropStatus # out"
    "\<forall>p px. ag_px_h lost_agent p = Some px \<longrightarrow> proxy_settled px out" by blast
  have "AReply 7 (AError BUS_ERROR_FAILED ''Proxy service stopped'') \<in> set out" using t(4) [rule_format, OF px(1)] px(2) by (simp add: proxy_settled_def)
  then show ?thesis using t by auto
qed

section \<open>Jobs\<close>

lemma find_tracker_distinct:
  "distinct (map jt_path ts) \<Longrightarrow> j \<in> set ts \<Longrightarrow> find_tracker (\<lambda>t. jt_path t = jt_path j) ts = Some j"
  by (induction ts) (auto simp: image_iff)

lemma find_tracker_None: "(\<forall>t \<in> set ts. \<not> P t) \<Longrightarrow> find_tracker P ts = None"
  by (induction ts) auto

lemma remove1_tracker:
  "distinct (map jt_path ts) \<Longrightarrow> j \<in> set ts \<Longrightarrow> \<forall>t \<in> set (remove1 j ts). jt_path t \<noteq> jt_path j"
  by (induction ts) (auto, metis image_eqI)

lemma op_unref_jobs: "agent_job_op_unref r a = Some t \<Longrightarrow> 0 < ag_ref t \<Longrightarrow> ag_tracked_jobs t = ag_tracked_jobs a \<and> ag_out t = ag_out a"
  by (auto simp: agent_job_op_unref_def bind_eq_Some_conv agent_unref_def set_aop_def split: if_splits)

definition job_metrics :: "aenv \<Rightarrow> nat \<Rightarrow> AgentJobOp \<Rightarrow> Agent \<Rightarrow> agent_out list" where
  "job_metrics e b op a =
     (if ag_metrics_enabled a then [SigJobMetrics b (op_unit op) (op_method op) (a_time e - op_start_micros op)] else [])"

lemma job_done_once:
  assumes "abus_ok e" "refs_ok a" "ag_peer_dbus a = Some b" "distinct (map jt_path (ag_tracked_jobs a))" "j \<in> set (ag_tracked_jobs a)"
    "ag_op_h a (jt_op j) = Some op"
  shows "\<exists>t. agent_match_job_removed e (jt_path j) res a = Some t \<and> refs_ok t \<and>
    ag_out t = ag_out a @ job_metrics e b op a @ [SigJobDone b (op_job_id op) res] \<and>
    ag_tracked_jobs t = remove1 j (ag_tracked_jobs a) \<and> agent_match_job_removed e' (jt_path j) res' t = Some t"
proof -
  let ?b = "a\<lparr>ag_tracked_jobs := remove1 j (ag_tracked_jobs a)\<rparr>"
  note f = find_tracker_distinct [OF assms(4,5)]
  obtain t where t: "agent_match_job_removed e (jt_path j) res a = Some t" "refs_ok t" using job_removed_refs [OF assms(2)] by blast
  obtain c where c: "agent_job_done e res (jt_op j) ?b = Some c" "agent_job_op_unref (jt_op j) c = Some t"
    using t(1) f by (auto simp: agent_match_job_removed_def bind_eq_Some_conv)
  have d: "ag_out c = ag_out a @ job_metrics e b op a @ [SigJobDone b (op_job_id op) res]" "ag_tracked_jobs c = remove1 j (ag_tracked_jobs a)"
    using c(1) assms(1,3,6)
    by (auto simp: agent_job_done_def agent_send_job_metrics_def Let_def emit_peer_def job_metrics_def finalize_time_interval_micros_def aput_def)
  have "ag_tracked_jobs t = ag_tracked_jobs c \<and> ag_out t = ag_out c" by (rule op_unref_jobs [OF c(2) refs_ok_pos [OF t(2)]])
  moreover have "find_tracker (\<lambda>t. jt_path t = jt_path j) (remove1 j (ag_tracked_jobs a)) = None"
    by (rule find_tracker_None) (use remove1_tracker [OF assms(4,5)] in auto)
  ultimately show ?thesis using t d by (simp add: agent_match_job_removed_def)
qed

text \<open>A finished job is reported once.  When systemd removes the job of a request the controller gets \<open>JobDone\<close> with
  the id it gave the job and the result, preceded by the time the job took when metrics are on; the job is no longer
  followed and its operation is released, so the same signal again does nothing.\<close>

theorem agent_job_done_once:
  assumes "abus_ok e" "refs_ok a" "ag_peer_dbus a = Some b" "distinct (map jt_path (ag_tracked_jobs a))" "j \<in> set (ag_tracked_jobs a)"
    "ag_op_h a (jt_op j) = Some op"
  shows "\<exists>t. agent_match_job_removed e (jt_path j) res a = Some t \<and> refs_ok t \<and>
    ag_out t = ag_out a @ job_metrics e b op a @ [SigJobDone b (op_job_id op) res] \<and>
    ag_tracked_jobs t = remove1 j (ag_tracked_jobs a) \<and> agent_match_job_removed e' (jt_path j) res' t = Some t"
  by (rule job_done_once [OF assms])

text \<open>An agent that follows the job 5.\<close>

definition job_agent :: Agent where
  "job_agent = the (foldo agent_handle (take 3 run_events) run_agent)"

lemma run_agent_safe: "agent_inv job_agent"
proof -
  let ?c = "agent_apply_config (agent_new\<lparr>ag_config := run_config\<rparr>)"
  let ?s = "agent_start (ref_aenv\<lparr>a_euid := 1000\<rparr>) (\<lambda>_. 0) 0 [] (snd (the ?c))"
  have "?c \<noteq> None" "?s \<noteq> None" "fst (the ?s)" by code_simp+
  then have c: "?c = Some (fst (the ?c), snd (the ?c))" "?s = Some (True, fst (snd (the ?s)), run_agent)"
    by (auto simp: run_agent_def)
  have "settles fresh_inv ?c" by (rule apply_config_inv [OF agent_new_inv])
  then have "fresh_inv (snd (the ?c))" using c(1) unfolding settles_def by blast
  then have "agent_inv run_agent" by (rule agent_start_inv [OF _ c(2)])
  moreover have "enabled_run agent_enabled agent_handle run_agent (take 3 run_events)" by code_simp
  ultimately show ?thesis using agent.run_safe by (fastforce simp: job_agent_def)
qed

lemma job_agent_facts:
  "ag_peer_dbus job_agent = Some 1" "ag_tracked_jobs job_agent = [\<lparr>jt_path = ''/j'', jt_op = 2\<rparr>]" "ag_op_h job_agent 2 \<noteq> None"
  "op_job_id (the (ag_op_h job_agent 2)) = 5" "\<not> ag_metrics_enabled job_agent"
  by code_simp+

theorem agent_job_done_once_witness:
  "\<exists>t. agent_match_job_removed ref_aenv ''/j'' ''done'' job_agent = Some t \<and> ag_out t = ag_out job_agent @ [SigJobDone 1 5 ''done'']"
proof -
  obtain op where op: "ag_op_h job_agent 2 = Some op" "op_job_id op = 5" using job_agent_facts(3,4) by auto
  have "refs_ok job_agent" using run_agent_safe by (simp add: agent_inv_def)
  from agent_job_done_once [OF ref_aenv_ok this job_agent_facts(1), of "\<lparr>jt_path = ''/j'', jt_op = 2\<rparr>" op "''done''"] op
  show ?thesis using job_agent_facts(2,5) by (auto simp: job_metrics_def)
qed

text \<open>A cancelled job is answered twice.  The agent confirms \<open>JobCancel\<close> as soon as the request to systemd is sent,
  and answers the same message again with the reply of systemd, also when systemd refuses.\<close>

theorem job_cancel_answered_twice:
  assumes "abus_ok e" "abus_ok e'" "refs_ok a" "agent_find_jobtracker_by_bluechi_id a i = Some (Some j)"
  shows "\<exists>t u reply. agent_method_job_cancel e m i a = Some t \<and> systemd_callback e' (ag_next a) ans t = Some u \<and>
    ag_out u = ag_out a @ [CallSystemd (ag_next a) (jt_path j) SYSTEMD_JOB_IFACE ''Cancel'' [], AReply m AOk, AReply m reply] \<and>
    (\<forall>n. ans = SdError n \<longrightarrow> reply = AForward ans)"
proof -
  let ?r = "ag_next a"
  let ?q = "\<lparr>sr_ref = 1, sr_request_message = Some m, sr_path = jt_path j, sr_iface = SYSTEMD_JOB_IFACE,
        sr_method = ''Cancel'', sr_args = [], sr_userdata = None, sr_slot = Some CbCancel\<rparr>"
  note cr = create_request_result [OF assms(3)]
  obtain t where t: "agent_method_job_cancel e m i a = Some t" "refs_ok t" using job_cancel_result [OF assms(3)] by blast
  have f: "ag_req_h t ?r = Some ?q" "ag_out t = ag_out a @ [CallSystemd ?r (jt_path j) SYSTEMD_JOB_IFACE ''Cancel'' [], AReply m AOk]"
    using t(1) assms(1,4) by (auto simp: agent_method_job_cancel_def cr systemd_request_start_def with_request_def
        systemd_request_unref_def set_areq_def areply_ok aput_def)
  let ?reply = "case ans of SdError n \<Rightarrow> AForward ans | _ \<Rightarrow> AOk"
  have cb: "job_cancel_callback e' ?q ans t = Some (aput (AReply m ?reply) t)"
    using assms(2) by (cases ans) (simp_all add: job_cancel_callback_def areply_ok)
  obtain u where u: "systemd_callback e' ?r ans t = Some u" "refs_ok u" using systemd_callback_refs [OF t(2) f(1)] by blast
  then have un: "systemd_request_unref ?r (aput (AReply m ?reply) t) = Some u" using f(1) cb by (simp add: systemd_callback_def)
  have "ag_out u = ag_out t @ [AReply m ?reply]"
    using un refs_ok_pos [OF u(2)] f(1) by (auto simp: systemd_request_unref_def bind_eq_Some_conv agent_unref_def split: if_splits)
  then show ?thesis using t u f by (intro exI [of _ t] exI [of _ u] exI [of _ ?reply]) auto
qed

theorem job_cancel_answered_twice_witness:
  "\<exists>t u. agent_method_job_cancel ref_aenv 8 5 job_agent = Some t \<and> systemd_callback ref_aenv (ag_next job_agent) (SdError ''e'') t = Some u \<and>
     ag_out u = ag_out job_agent @ [CallSystemd (ag_next job_agent) ''/j'' SYSTEMD_JOB_IFACE ''Cancel'' [], AReply 8 AOk,
       AReply 8 (AForward (SdError ''e''))]"
proof -
  obtain op where op: "ag_op_h job_agent 2 = Some op" "op_job_id op = 5" using job_agent_facts(3,4) by auto
  have f: "agent_find_jobtracker_by_bluechi_id job_agent 5 = Some (Some \<lparr>jt_path = ''/j'', jt_op = 2\<rparr>)"
    using op by (simp add: agent_find_jobtracker_by_bluechi_id_def job_agent_facts)
  have "refs_ok job_agent" using run_agent_safe by (simp add: agent_inv_def)
  from job_cancel_answered_twice [OF ref_aenv_ok ref_aenv_ok this f, of 8 "SdError ''e''"] show ?thesis by auto
qed

end
