(* ===== verification/Composition.thy ===== *)
theory Composition
  imports Ctrl_Subs_Props Agent_Units_Props "HOL-Library.Sublist"
begin

text \<open>
  The controller and one agent together.  Both write to their end of the connection; the other side takes the messages
  in the order in which they were sent, at any later time.  The table of units of the agent follows the index of
  subscriptions of its node, and an event of a unit on the agent reaches the monitors of the controller.
\<close>

section \<open>The connection\<close>

text \<open>The agent takes a message of the controller from its connection; the controller sends one unit per call.\<close>

definition agent_takes :: "aenv \<Rightarrow> amsg \<Rightarrow> bus \<Rightarrow> out_msg \<Rightarrow> Agent \<Rightarrow> Agent" where
  "agent_takes e q b m a =
     (case m of
        AgentCall b' meth args \<Rightarrow>
          if b' \<noteq> b then a
          else if meth = ''Subscribe'' then fold (agent_method_subscribe e q) args a
          else if meth = ''Unsubscribe'' then fold (agent_method_unsubscribe e q) args a
          else a
      | _ \<Rightarrow> a)"

text \<open>The controller takes a signal of the agent about a unit.\<close>

definition node_takes :: "env \<Rightarrow> addr \<Rightarrow> nat \<Rightarrow> agent_out \<Rightarrow> Controller \<Rightarrow> Controller option" where
  "node_takes e n c m s =
     (case m of
        SigUnitNew c' u reason \<Rightarrow> if c' = c then node_match_unit_new e n u reason s else Some s
      | SigUnitRemoved c' u \<Rightarrow> if c' = c then node_match_unit_removed e n u s else Some s
      | SigUnitStateChanged c' u active sub reason \<Rightarrow>
          if c' = c then node_match_unit_state_changed e n u active sub reason s else Some s
      | SigUnitPropertiesChanged c' u intf items \<Rightarrow>
          if c' = c then node_match_unit_properties_changed e n u intf items s else Some s
      | _ \<Rightarrow> Some s)"

text \<open>The units an agent watches; the star stands for all units.\<close>

fun watched_in :: "watch \<Rightarrow> string set" where
  "watched_in (S, L, w) = (S - {''*''}) \<union> (if w then {''*''} else {})"

definition watched :: "Agent \<Rightarrow> string set" where
  "watched a = watched_in (watch_of a)"

lemma watched_in_spec:
  "watched_in (spec_subscribe u w) = insert u (watched_in w)" "watched_in (spec_unsubscribe u w) = watched_in w - {u}"
  "watched_in (spec_load u w) = watched_in w" "watched_in (spec_unload u w) = watched_in w"
  by (cases w; auto simp: spec_subscribe_def spec_unsubscribe_def spec_load_def spec_unload_def)+

lemma subscribe_watched:
  assumes "units_ok a"
  shows "units_ok (agent_method_subscribe e q u a)" "watched (agent_method_subscribe e q u a) = insert u (watched a)"
  using subscribe_refines [OF assms, of e q u] by (simp_all add: watched_def watched_in_spec)

lemma unsubscribe_watched:
  assumes "units_ok a"
  shows "units_ok (agent_method_unsubscribe e q u a)" "watched (agent_method_unsubscribe e q u a) = watched a - {u}"
  using unsubscribe_refines [OF assms, of e q u] by (simp_all add: watched_def watched_in_spec)

lemma agent_takes_watched:
  assumes "units_ok a"
  shows "units_ok (agent_takes e q b m a) \<and> watched (agent_takes e q b m a) = told_step b m (watched a)"
proof -
  have 1: "units_ok (fold (agent_method_subscribe e q) us a) \<and>
      watched (fold (agent_method_subscribe e q) us a) = watched a \<union> set us" for us
    using assms by (induction us arbitrary: a) (auto simp: subscribe_watched)
  have 2: "units_ok (fold (agent_method_unsubscribe e q) us a) \<and>
      watched (fold (agent_method_unsubscribe e q) us a) = watched a - set us" for us
    using assms by (induction us arbitrary: a) (auto simp: unsubscribe_watched)
  show ?thesis using assms 1 2 by (cases m) (auto simp: agent_takes_def)
qed

text \<open>Events of systemd do not change what is watched.\<close>

datatype unit_event_sd = SdUnitNew string | SdUnitRemoved string | SdUnitChanged string string "prop_item list"

fun agent_unit_event :: "aenv \<Rightarrow> unit_event_sd \<Rightarrow> Agent \<Rightarrow> Agent" where
  "agent_unit_event e (SdUnitNew u) a = agent_match_unit_new e u a"
| "agent_unit_event e (SdUnitRemoved u) a = agent_match_unit_removed e (make_unit_path u) a"
| "agent_unit_event e (SdUnitChanged u intf items) a = agent_match_unit_changed e (make_unit_path u) intf items a"

lemma unit_event_watched:
  assumes "units_ok a"
  shows "units_ok (agent_unit_event e ev a) \<and> watched (agent_unit_event e ev a) = watched a"
  using unit_new_refines [OF assms, of e] unit_removed_refines [OF assms, of e] unit_changed_refines [OF assms, of e]
  by (cases ev) (simp_all add: watched_def watched_in_spec)

section \<open>The system\<close>

text \<open>The controller, the agent, and how many messages of each side the other has taken.\<close>

record system =
  sy_ctl :: Controller
  sy_agt :: Agent
  sy_down :: nat
  sy_up :: nat

text \<open>Steps of node \<open>n\<close>, whose connection is \<open>b\<close> for the controller and \<open>c\<close> for the agent: a subscription is added or
  removed, the agent takes the next message, systemd reports an event, the controller takes the next signal.\<close>

inductive sy_step :: "addr \<Rightarrow> bus \<Rightarrow> nat \<Rightarrow> system \<Rightarrow> system \<Rightarrow> bool" for n b c where
  client: "bus_ok e \<Longrightarrow> node_subscribe e n x (sy_ctl y) = Some s \<or> node_unsubscribe e n x (sy_ctl y) = Some s \<Longrightarrow>
    sy_step n b c y (y\<lparr>sy_ctl := s\<rparr>)"
| down: "sy_down y < length (out (sy_ctl y)) \<Longrightarrow>
    sy_step n b c y (y\<lparr>sy_agt := agent_takes e q b (out (sy_ctl y) ! sy_down y) (sy_agt y), sy_down := sy_down y + 1\<rparr>)"
| systemd: "sy_step n b c y (y\<lparr>sy_agt := agent_unit_event e ev (sy_agt y)\<rparr>)"
| up: "bus_ok e \<Longrightarrow> sy_up y < length (ag_out (sy_agt y)) \<Longrightarrow>
    node_takes e n c (ag_out (sy_agt y) ! sy_up y) (sy_ctl y) = Some s \<Longrightarrow>
    sy_step n b c y (y\<lparr>sy_ctl := s, sy_up := sy_up y + 1\<rparr>)"

inductive_cases sy_stepE: "sy_step n b c y z"

section \<open>Messages are only added\<close>

definition grows :: "Controller \<Rightarrow> Controller \<Rightarrow> bool" where
  "grows s t = prefix (out s) (out t)"

lemma grows_refl [simp]: "grows s s"
  by (simp add: grows_def)

lemma grows_trans: "grows s t \<Longrightarrow> grows t u \<Longrightarrow> grows s u"
  unfolding grows_def by (rule prefix_order.trans)

lemma grows_foldo:
  assumes "foldo f xs s = Some t" "\<And>x u v. f x u = Some v \<Longrightarrow> grows u v"
  shows "grows s t"
  by (rule foldo_invariant [OF assms(1), where P = "grows s"]) (auto intro: grows_trans assms(2))

lemma grows_emit [simp]: "grows s (emit e c m s)" "grows s (put m s)"
  by (simp_all add: grows_def emit_def put_def)

lemma monitor_send_all_grows: "grows s (monitor_send_all e name ev mo s)"
proof -
  have "grows s (fold (monitor_send e name p ev) ds s)" for p ds
  proof (induction ds arbitrary: s)
    case (Cons d ds)
    have "grows s (monitor_send e name p ev d s)" by (simp add: monitor_send_def)
    then show ?case using Cons.IH [of "monitor_send e name p ev d s"] by (auto intro: grows_trans)
  qed simp
  then show ?thesis unfolding monitor_send_all_def by blast
qed

lemma sub_handle_grows: "sub_handle e ev a s = Some t \<Longrightarrow> grows s t"
proof -
  have p: "proxy_monitor_call e p m args s = Some t \<Longrightarrow> grows s t" for p m args
    by (cases "pm_h s p"; cases "node_h s (pm_node (the (pm_h s p)))"; cases "nd_agent_bus (the (node_h s (pm_node (the (pm_h s p)))))";
        cases "bus_ret e (CallAsync m) < 0")
      (auto simp: proxy_monitor_call_def Let_def set_pm_def put_def grows_def)
  have "handle_monitor e m ev s = Some t \<Longrightarrow> grows s t" for m
    by (cases ev) (auto simp: handler_defs bind_eq_Some_conv monitor_send_all_grows)
  moreover have "handle_proxy_monitor e m ev s = Some t \<Longrightarrow> grows s t" for m
    by (cases ev) (auto simp: handler_defs dest: p)
  ultimately show "sub_handle e ev a s = Some t \<Longrightarrow> grows s t"
    by (cases "sub_h s a") (auto simp: sub_handle_def split: monitor_ref.splits)
qed

lemma notify_unit_frame:
  assumes "notify_unit e n u ev s = Some t"
  shows "grows s t" "told b (out t) = told b (out s)" "node_h t = node_h s"
proof -
  have f: "foldo (sub_handle e ev) (node_compute_unique_monitor_subscriptions e (the (node_h s n)) u s) s = Some t"
    using assms by (auto simp: notify_unit_def bind_eq_Some_conv)
  show "grows s t" by (rule grows_foldo [OF f sub_handle_grows])
  have "told b (out t) = told b (out s) \<and> node_h t = node_h s"
    by (rule foldo_invariant [OF f]) (simp_all add: sub_handle_told)
  then show "told b (out t) = told b (out s)" "node_h t = node_h s" by auto
qed

lemma send_agent_grows:
  "grows s (node_send_agent_subscribe e nd u s)" "grows s (node_send_agent_unsubscribe e nd u s)"
  by (simp_all add: node_send_agent_subscribe_def node_send_agent_unsubscribe_def send_agent_simple_message_def split: option.split)

lemma set_node_grows [simp]: "grows s (set_node n nd t) = grows s t" "grows (set_node n nd s) t = grows s t"
  by (simp_all add: grows_def set_node_def)

lemma subscribe_grows:
  assumes "node_subscribe e n a s = Some t"
  shows "grows s t"
proof -
  obtain sub :: Subscription where f: "foldo (node_subscribe_unit e n a) (sub_units sub) s = Some t"
    using assms by (auto simp: node_subscribe_def bind_eq_Some_conv)
  have "grows u v" if "node_subscribe_unit e n a x u = Some v" for x u v
    using that
    by (auto simp: node_subscribe_unit_def bind_eq_Some_conv Let_def send_agent_grows split: if_splits dest!: sub_handle_grows)
      (meson grows_trans send_agent_grows)+
  then show ?thesis by (rule grows_foldo [OF f])
qed

lemma unsubscribe_grows:
  assumes "node_unsubscribe e n a s = Some t"
  shows "grows s t"
proof -
  obtain sub :: Subscription where f: "foldo (node_unsubscribe_unit e n a) (sub_units sub) s = Some t"
    using assms by (auto simp: node_unsubscribe_def bind_eq_Some_conv)
  have "grows u v" if "node_unsubscribe_unit e n a x u = Some v" for x u v
    using that by (auto simp: node_unsubscribe_unit_def bind_eq_Some_conv Let_def send_agent_grows split: if_splits option.splits)
  then show ?thesis by (rule grows_foldo [OF f])
qed

section \<open>The agent follows the index\<close>

text \<open>The node has connection \<open>b\<close>, the controller told it exactly the units of the index, and the agent watches the units
  it was told in the messages it has taken.\<close>

definition linked :: "addr \<Rightarrow> bus \<Rightarrow> system \<Rightarrow> bool" where
  "linked n b y = (in_sync (sy_ctl y) n \<and> map_option nd_agent_bus (node_h (sy_ctl y) n) = Some (Some b) \<and>
     units_ok (sy_agt y) \<and> sy_down y \<le> length (out (sy_ctl y)) \<and>
     watched (sy_agt y) = told b (take (sy_down y) (out (sy_ctl y))))"

lemma bus_of_core: "core_of t = core_of s \<Longrightarrow> map_option nd_agent_bus (node_h t n) = map_option nd_agent_bus (node_h s n)"
proof -
  assume "core_of t = core_of s"
  then have "map_option node_core (node_h t n) = map_option node_core (node_h s n)"
    by (simp add: core_of_def fun_eq_iff)
  then show ?thesis by (cases "node_h s n"; cases "node_h t n") (auto simp: node_core_def)
qed

lemma linked_controller:
  assumes "linked n b y" "in_sync s n" "map_option nd_agent_bus (node_h s n) = map_option nd_agent_bus (node_h (sy_ctl y) n)"
    "grows (sy_ctl y) s"
  shows "linked n b (y\<lparr>sy_ctl := s\<rparr>)"
proof -
  obtain zs where "out s = out (sy_ctl y) @ zs" using assms(4) by (auto simp: grows_def prefix_def)
  then show ?thesis using assms(1-3) by (simp add: linked_def)
qed

lemma set_usubs_sync:
  assumes "set_usubs n u f s = Some t" "in_sync s n" "\<And>us. us_subs (f us) = us_subs us"
  shows "in_sync t n" "map_option nd_agent_bus (node_h t n) = map_option nd_agent_bus (node_h s n)" "grows s t"
  using assms by (auto simp: set_usubs_def bind_eq_Some_conv in_sync_def index_ok_def set_node_def grows_def split: option.splits)

lemma node_takes_sync:
  assumes "node_takes e n c m s = Some t" "in_sync s n"
  shows "in_sync t n \<and> map_option nd_agent_bus (node_h t n) = map_option nd_agent_bus (node_h s n) \<and> grows s t"
proof -
  have notify: "in_sync v n \<and> map_option nd_agent_bus (node_h v n) = map_option nd_agent_bus (node_h s n) \<and> grows s v"
    if "notify_unit e n u ev w = Some v" "in_sync w n" "map_option nd_agent_bus (node_h w n) = map_option nd_agent_bus (node_h s n)"
      "grows s w" for u ev w v
    using that notify_unit_frame [OF that(1)] by (auto simp: in_sync_def intro: grows_trans)
  have step: "in_sync v n \<and> map_option nd_agent_bus (node_h v n) = map_option nd_agent_bus (node_h s n) \<and> grows s v"
    if "set_usubs n u f s = Some w" "\<And>us. us_subs (f us) = us_subs us" "notify_unit e n u ev w = Some v" for u f ev w v
    using notify [OF that(3)] set_usubs_sync [OF that(1) assms(2) that(2)] by blast
  show ?thesis
    using assms notify [of _ _ s t]
    by (cases m) (auto simp: node_takes_def node_match_unit_new_def node_match_unit_removed_def node_match_unit_state_changed_def
        node_match_unit_properties_changed_def bind_eq_Some_conv split: if_splits dest!: step [rotated 2])
qed

lemma sy_step_linked:
  assumes "sy_step n b c y z" "linked n b y"
  shows "linked n b z"
  using assms(1)
proof (cases rule: sy_step.cases)
  case (client e x s)
  have "in_sync s n"
    using client(3) assms(2) client(2) by (auto simp: linked_def intro: subscribe_sync unsubscribe_sync)
  moreover have "core_of s = core_of (sy_ctl y)" "grows (sy_ctl y) s"
    using client(3) node_subscribe_core node_unsubscribe_core subscribe_grows unsubscribe_grows by blast+
  ultimately show ?thesis using linked_controller [OF assms(2)] bus_of_core client(1) by blast
next
  case (down e q)
  then show ?thesis using assms(2) agent_takes_watched [of "sy_agt y" e q b "out (sy_ctl y) ! sy_down y"]
    by (simp add: linked_def take_Suc_conv_app_nth)
next
  case (systemd e ev)
  then show ?thesis using assms(2) unit_event_watched [of "sy_agt y" e ev] by (simp add: linked_def)
next
  case (up e s)
  have "in_sync (sy_ctl y) n" using assms(2) by (simp add: linked_def)
  then have "linked n b (y\<lparr>sy_ctl := s\<rparr>)" using node_takes_sync [OF up(4)] linked_controller [OF assms(2)] by blast
  then show ?thesis by (simp add: linked_def up(1))
qed

lemma takes_all:
  assumes "units_ok a"
  shows "watched (fold (agent_takes e q b) ms a) = fold (told_step b) ms (watched a)"
  using assms by (induction ms arbitrary: a) (simp_all add: agent_takes_watched)

lemma linked_settled:
  assumes "linked n b y"
  shows "\<exists>nd. node_h (sy_ctl y) n = Some nd \<and> index_ok nd \<and>
    watched (fold (agent_takes e q b) (drop (sy_down y) (out (sy_ctl y))) (sy_agt y)) = dom (map_of (nd_unit_subs nd))"
proof -
  obtain nd where nd: "node_h (sy_ctl y) n = Some nd" "index_ok nd" "told b (out (sy_ctl y)) = dom (map_of (nd_unit_subs nd))"
    using assms by (auto simp: linked_def in_sync_def)
  have "watched (fold (agent_takes e q b) (drop (sy_down y) (out (sy_ctl y))) (sy_agt y)) =
      fold (told_step b) (drop (sy_down y) (out (sy_ctl y))) (told b (take (sy_down y) (out (sy_ctl y))))"
    using assms takes_all [of "sy_agt y"] by (simp add: linked_def)
  also have "\<dots> = told b (out (sy_ctl y))"
    by (simp add: told_def flip: fold_append [unfolded comp_def, THEN fun_cong])
  finally show ?thesis using nd by simp
qed

text \<open>C7.  The table of the agent follows the index of the controller.  A node has a connection on which it was told to
  watch its index, and its agent watches nothing yet.  However clients add and remove subscriptions, the agent takes
  the messages, systemd reports events of units and the controller takes the signals of the agent, in any order: once
  the agent has taken the messages still on the way, it watches exactly the units of the index.\<close>

theorem agent_follows_index:
  assumes "in_sync (sy_ctl y) n" "map_option nd_agent_bus (node_h (sy_ctl y) n) = Some (Some b)" "sy_down y = 0"
    "units_ok (sy_agt y)" "watched (sy_agt y) = {}" "(sy_step n b c)\<^sup>*\<^sup>* y z"
  shows "\<exists>nd. node_h (sy_ctl z) n = Some nd \<and>
    watched (fold (agent_takes e q b) (drop (sy_down z) (out (sy_ctl z))) (sy_agt z)) = dom (map_of (nd_unit_subs nd))"
proof -
  have "linked n b z" using assms(6)
  proof (induction rule: rtranclp_induct)
    case base
    then show ?case using assms(1-5) by (simp add: linked_def told_def)
  qed (rule sy_step_linked)
  then show ?thesis using linked_settled [of n b z e q] by blast
qed

text \<open>A client subscribes to a unit of the example and the agent has not yet taken the message.\<close>

definition example_system :: system where
  "example_system = \<lparr>sy_ctl = example_sub, sy_agt = example_agent, sy_down = 0, sy_up = 0\<rparr>"

theorem agent_follows_index_witness:
  "\<exists>s nd. node_subscribe ref_env 2 5 example_sub = Some s \<and> node_h s 2 = Some nd \<and>
     watched (fold (agent_takes ref_aenv 3 7) (out s) example_agent) = dom (map_of (nd_unit_subs nd)) \<and>
     dom (map_of (nd_unit_subs nd)) = {''a.service''}"
proof -
  have 1: "node_h example_sub 2 \<noteq> None" "nd_agent_bus (the (node_h example_sub 2)) = Some 7"
    "nd_unit_subs (the (node_h example_sub 2)) = []" "node_subscribe ref_env 2 5 example_sub \<noteq> None"
    "out example_sub = [NodeStatusProp ''/org/eclipse/bluechi/node/pi'', SystemStatusProp]"
    "map fst (nd_unit_subs (the (node_h (the (node_subscribe ref_env 2 5 example_sub)) 2))) = [''a.service'']"
    by code_simp+
  then obtain s where s: "node_subscribe ref_env 2 5 example_sub = Some s" by auto
  let ?y = "example_system"
  have "in_sync (sy_ctl ?y) 2" "map_option nd_agent_bus (node_h (sy_ctl ?y) 2) = Some (Some 7)" "sy_down ?y = 0"
    using 1 by (auto simp: example_system_def in_sync_def index_ok_def told_def)
  moreover have "units_ok (sy_agt ?y)" "watched (sy_agt ?y) = {}"
    using example_agent_units by (simp_all add: example_system_def watched_def)
  moreover have "(sy_step 2 7 1)\<^sup>*\<^sup>* ?y (?y\<lparr>sy_ctl := s\<rparr>)"
    using client [OF ref_env_ok(1), of 2 5 ?y s] s by (simp add: example_system_def r_into_rtranclp)
  ultimately have "\<exists>nd. node_h s 2 = Some nd \<and>
      watched (fold (agent_takes ref_aenv 3 7) (out s) example_agent) = dom (map_of (nd_unit_subs nd))"
    using agent_follows_index [of ?y 2 7 1 "?y\<lparr>sy_ctl := s\<rparr>" ref_aenv 3] by (simp add: example_system_def)
  then show ?thesis using s 1(6) by (auto simp: dom_map_of_conv_image_fst simp flip: set_map)
qed

section \<open>An event on the agent reaches the monitors\<close>

text \<open>What happened to a unit, as the monitors of the node \<open>name\<close> are to be told.\<close>

fun happened :: "string \<Rightarrow> Agent \<Rightarrow> unit_event_sd \<Rightarrow> unit_event list" where
  "happened name a (SdUnitNew u) = [UnitNew name u ''real'']"
| "happened name a (SdUnitRemoved u) =
     (if u \<in> subscribed_units a \<union> loaded_units a then [UnitRemoved name u ''real''] else [])"
| "happened name a (SdUnitChanged u intf items) =
     (case agent_get_unit_info a (make_unit_path u) of
        None \<Rightarrow> []
      | Some i \<Rightarrow>
          (let (changed, j) = (if intf = SYSTEMD_UNIT_IFACE then unit_info_update_state items i else (False, i))
           in (if changed then [UnitStateChanged name u (active_state_to_string (ui_active_state j)) (unit_info_get_substate j) ''real'']
               else []) @ [UnitPropertiesChanged name u intf items]))"

fun unit_of :: "unit_event_sd \<Rightarrow> string" where
  "unit_of (SdUnitNew u) = u"
| "unit_of (SdUnitRemoved u) = u"
| "unit_of (SdUnitChanged u intf items) = u"

fun signal_of :: "nat \<Rightarrow> unit_event \<Rightarrow> agent_out" where
  "signal_of c (UnitNew name u r) = SigUnitNew c u r"
| "signal_of c (UnitRemoved name u r) = SigUnitRemoved c u"
| "signal_of c (UnitStateChanged name u active sub r) = SigUnitStateChanged c u active sub r"
| "signal_of c (UnitPropertiesChanged name u intf items) = SigUnitPropertiesChanged c u intf items"
| "signal_of c (PeerRemoved r) = PropStatus"

lemma unit_event_out:
  assumes ok: "abus_ok e" "units_ok a" "ag_peer_dbus a = Some c"
  shows "ag_out (agent_unit_event e ev a) = ag_out a @
    (if interesting (unit_of ev) a then map (signal_of c) (happened name a ev) else [])"
proof (cases ev)
  case (SdUnitChanged u intf items)
  show ?thesis
  proof (cases "agent_get_unit_info a (make_unit_path u)")
    case (Some i)
    obtain ch j where j: "(if intf = SYSTEMD_UNIT_IFACE then unit_info_update_state items i else (False, i)) = (ch, j)" by fastforce
    then have "ui_unit j = ui_unit i" "ui_subscribed j = ui_subscribed i"
      using unit_info_update_state_flags [of items i ch j] by (auto split: if_splits)
    then show ?thesis using in_table [OF Some] ok
      by (simp add: SdUnitChanged Some j agent_match_unit_changed_def Let_def agent_emit_ok [OF ok(1)] emit_peer_ok [OF ok(1)]
          interesting_def)
  qed (simp add: SdUnitChanged agent_match_unit_changed_def)
qed (use unit_new_signals [OF ok] unit_removed_signals [OF ok] in simp_all)

text \<open>An event of unit \<open>u\<close> of node \<open>name\<close>, as the agent sends it.\<close>

fun real_event :: "string \<Rightarrow> string \<Rightarrow> unit_event \<Rightarrow> bool" where
  "real_event name u (UnitNew name' u' r) = (name' = name \<and> u' = u)"
| "real_event name u (UnitRemoved name' u' r) = (name' = name \<and> u' = u \<and> r = ''real'')"
| "real_event name u (UnitStateChanged name' u' active sub r) = (name' = name \<and> u' = u)"
| "real_event name u (UnitPropertiesChanged name' u' intf items) = (name' = name \<and> u' = u)"
| "real_event name u (PeerRemoved r) = False"

lemma happened_real: "ev \<in> set (happened name a sd) \<Longrightarrow> real_event name (unit_of sd) ev"
  by (cases sd) (auto simp: case_prod_beta Let_def split: if_splits option.splits)

lemma set_usubs_signals:
  assumes "set_usubs n u f s = Some t" "node_h s n = Some nd" "\<And>us. us_subs (f us) = us_subs us"
  shows "\<exists>nd'. node_h t n = Some nd' \<and> nd_name nd' = nd_name nd \<and> matching_subs nd' v = matching_subs nd v \<and>
    signals t = signals s \<and> sub_h t = sub_h s \<and> mon_h t = mon_h s"
proof (cases "map_of (nd_unit_subs nd) u")
  case None
  then show ?thesis using assms by (simp add: set_usubs_def)
next
  case (Some us)
  then have t: "t = set_node n (nd\<lparr>nd_unit_subs := AList.update u (f us) (nd_unit_subs nd)\<rparr>) s"
    using assms(1,2) by (simp add: set_usubs_def)
  have "(case map_of (AList.update u (f us) (nd_unit_subs nd)) x of None \<Rightarrow> [] | Some us \<Rightarrow> us_subs us) =
      (case map_of (nd_unit_subs nd) x of None \<Rightarrow> [] | Some us \<Rightarrow> us_subs us)" for x
    using Some assms(3) by simp
  then show ?thesis by (simp add: t set_node_def matching_subs_def signals_def)
qed

lemma node_takes_notifies:
  assumes nd: "node_h s n = Some nd" "nd_name nd = Some name"
    and ev: "real_event name u ev" and run: "node_takes e n c (signal_of c ev) s = Some t"
  shows "notify_unit e n u ev s = Some t \<or>
    (\<exists>f w. set_usubs n u f s = Some w \<and> (\<forall>us. us_subs (f us) = us_subs us) \<and> notify_unit e n u ev w = Some t)"
proof -
  have name: "node_name_arg s n = name" using nd by (simp add: node_name_arg_def str_arg_def)
  have f: "node_name_arg w n = name" if "set_usubs n u f s = Some w" "\<And>us. us_subs (f us) = us_subs us" for f w
    using set_usubs_signals [OF that(1) nd(1) that(2), of u] nd(2) by (auto simp: node_name_arg_def str_arg_def)
  note defs = node_takes_def node_match_unit_new_def node_match_unit_removed_def node_match_unit_state_changed_def
    node_match_unit_properties_changed_def bind_eq_Some_conv
  show ?thesis
  proof (cases ev)
    case (UnitPropertiesChanged a b c d)
    then show ?thesis using ev run name by (simp add: defs)
  next
    case (UnitNew a b r)
    then obtain w where "set_usubs n u (\<lambda>us. if is_wildcard u then us\<lparr>us_loaded := True, us_active_state := UNIT_ACTIVE,
        us_substate := Some ''running''\<rparr> else us\<lparr>us_loaded := True\<rparr>) s = Some w" (is "set_usubs n u ?f s = _")
      "notify_unit e n u (UnitNew (node_name_arg w n) u r) w = Some t" using ev run by (auto simp: defs)
    then show ?thesis using f [of ?f w] ev UnitNew by (intro disjI2 exI [of _ ?f] exI [of _ w]) simp
  next
    case (UnitRemoved a b r)
    then obtain w where "set_usubs n u (\<lambda>us. us\<lparr>us_loaded := False\<rparr>) s = Some w" (is "set_usubs n u ?f s = _")
      "notify_unit e n u (UnitRemoved (node_name_arg w n) u ''real'') w = Some t" using ev run by (auto simp: defs)
    then show ?thesis using f [of ?f w] ev UnitRemoved by (intro disjI2 exI [of _ ?f] exI [of _ w]) simp
  next
    case (UnitStateChanged a b active sub r)
    then obtain w where "set_usubs n u (\<lambda>us. us\<lparr>us_loaded := True, us_active_state := active_state_from_string active,
        us_substate := Some sub\<rparr>) s = Some w" (is "set_usubs n u ?f s = _")
      "notify_unit e n u (UnitStateChanged (node_name_arg w n) u active sub r) w = Some t" using ev run by (auto simp: defs)
    then show ?thesis using f [of ?f w] ev UnitStateChanged by (intro disjI2 exI [of _ ?f] exI [of _ w]) simp
  qed (use ev in simp)
qed

lemma notify_heaps:
  assumes "bus_ok e" "unit_related ev" "notify_unit e n u ev s = Some t"
  shows "sub_h t = sub_h s \<and> mon_h t = mon_h s"
  using notify_signals [OF assms(1,2)] assms(3) by (auto simp: notify_unit_def bind_eq_Some_conv)

lemma node_takes_reaches:
  assumes ok: "bus_ok e" "hm_items_ok e" and nd: "node_h s n = Some nd" "nd_name nd = Some name"
    and ev: "real_event name u ev" and run: "node_takes e n c (signal_of c ev) s = Some t"
  shows "\<exists>new nd'. signals t = signals s @ new \<and> set new = (\<Union>x \<in> set (matching_subs nd u). set (sub_signals s ev x)) \<and>
    node_h t n = Some nd' \<and> nd_name nd' = Some name \<and> matching_subs nd' u = matching_subs nd u \<and>
    sub_h t = sub_h s \<and> mon_h t = mon_h s"
proof -
  have rel: "unit_related ev" using ev by (cases ev) auto
  obtain w nd' where w: "notify_unit e n u ev w = Some t" and
    nd': "node_h w n = Some nd'" "nd_name nd' = Some name" "matching_subs nd' u = matching_subs nd u"
    "signals w = signals s" "sub_h w = sub_h s" "mon_h w = mon_h s"
    using node_takes_notifies [OF nd ev run]
  proof
    assume "\<exists>f w. set_usubs n u f s = Some w \<and> (\<forall>us. us_subs (f us) = us_subs us) \<and> notify_unit e n u ev w = Some t"
    then obtain f w where f: "set_usubs n u f s = Some w" "\<And>us. us_subs (f us) = us_subs us" "notify_unit e n u ev w = Some t" by blast
    then show thesis using set_usubs_signals [OF f(1) nd(1) f(2), of u] nd(2) that by metis
  qed (use nd that in blast)
  have "sub_signals w ev = sub_signals s ev" by (rule ext) (simp only: sub_signals_def nd')
  then show ?thesis
    using notify_reaches [OF ok rel nd'(1) w] notify_heaps [OF ok(1) rel w] notify_unit_frame(3) [OF w] nd' by auto
qed

lemma node_takes_all_reach:
  assumes ok: "bus_ok e" "hm_items_ok e" and nd: "node_h s n = Some nd" "nd_name nd = Some name"
    and evs: "\<forall>ev \<in> set evs. real_event name u ev" and run: "foldo (node_takes e n c) (map (signal_of c) evs) s = Some t"
  shows "\<exists>new. signals t = signals s @ new \<and>
    set new = (\<Union>ev \<in> set evs. \<Union>x \<in> set (matching_subs nd u). set (sub_signals s ev x))"
  using nd evs run
proof (induction evs arbitrary: s nd)
  case (Cons ev evs)
  obtain w where w: "node_takes e n c (signal_of c ev) s = Some w" "foldo (node_takes e n c) (map (signal_of c) evs) w = Some t"
    using Cons.prems(4) by (auto simp: bind_eq_Some_conv)
  obtain new nd' where new: "signals w = signals s @ new" "set new = (\<Union>x \<in> set (matching_subs nd u). set (sub_signals s ev x))"
    "node_h w n = Some nd'" "nd_name nd' = Some name" "matching_subs nd' u = matching_subs nd u" "sub_h w = sub_h s" "mon_h w = mon_h s"
    using node_takes_reaches [OF ok Cons.prems(1,2) _ w(1), of u] Cons.prems(3) by auto
  have same: "sub_signals w = sub_signals s" by (intro ext) (simp only: sub_signals_def new(6,7))
  obtain new' where "signals t = signals w @ new'"
    "set new' = (\<Union>ev \<in> set evs. \<Union>x \<in> set (matching_subs nd u). set (sub_signals s ev x))"
    using Cons.IH [OF new(3,4) _ w(2)] Cons.prems(3) new(5) same by auto
  then show ?case using new(1,2) by (intro exI [of _ "new @ new'"]) auto
qed simp

lemma watched_interesting: "u \<noteq> ''*'' \<Longrightarrow> interesting u a \<longleftrightarrow> u \<in> watched a \<or> ''*'' \<in> watched a"
  by (auto simp: interesting_def watched_def watch_of_def)

lemma unwatched_unit:
  assumes "u \<noteq> ''*''" "u \<notin> dom (map_of (nd_unit_subs nd))" "''*'' \<notin> dom (map_of (nd_unit_subs nd))"
  shows "matching_subs nd u = []"
  using assms by (auto simp: matching_subs_def SYMBOL_WILDCARD_def domIff)

text \<open>C6.  From a unit on one machine to the monitors.  When the agent has taken the messages of the controller and
  systemd reports that a unit is loaded, unloaded or changed, the controller, having taken what the agent then sends,
  has sent what happened to the owners and peers of exactly the monitors that subscribed to the unit or to all units
  of the node.\<close>

theorem unit_event_end_to_end:
  assumes "linked n b y" "sy_down y = length (out (sy_ctl y))" "ag_peer_dbus (sy_agt y) = Some c" "abus_ok ea"
    "bus_ok e" "hm_items_ok e" "node_h (sy_ctl y) n = Some nd" "nd_name nd = Some name" "unit_of ev \<noteq> ''*''"
    "foldo (node_takes e n c) (drop (length (ag_out (sy_agt y))) (ag_out (agent_unit_event ea ev (sy_agt y)))) (sy_ctl y) = Some t"
  shows "\<exists>new. signals t = signals (sy_ctl y) @ new \<and>
    set new = (\<Union>h \<in> set (happened name (sy_agt y) ev). \<Union>x \<in> set (matching_subs nd (unit_of ev)). set (sub_signals (sy_ctl y) h x))"
proof -
  let ?a = "sy_agt y" and ?u = "unit_of ev"
  have "watched ?a = dom (map_of (nd_unit_subs nd))"
    using linked_settled [OF assms(1)] assms(2,7) by auto
  then have "interesting ?u ?a \<or> matching_subs nd ?u = []"
    using watched_interesting [OF assms(9)] unwatched_unit [OF assms(9)] by blast
  moreover have "drop (length (ag_out ?a)) (ag_out (agent_unit_event ea ev ?a)) =
      (if interesting ?u ?a then map (signal_of c) (happened name ?a ev) else [])"
    using unit_event_out [OF assms(4) _ assms(3), of ev name] assms(1) by (simp add: linked_def)
  ultimately show ?thesis
    using node_takes_all_reach [OF assms(5-8), of "happened name ?a ev" ?u c t] happened_real assms(10)
    by (auto split: if_splits)
qed

text \<open>The monitor of the example watches a unit and all units; the agent has taken both messages.\<close>

definition example_settled :: system where
  "example_settled = \<lparr>sy_ctl = example_watch, sy_agt = fold (agent_takes ref_aenv 3 7) (out example_watch) example_agent,
     sy_down = length (out example_watch), sy_up = 0\<rparr>"

lemma example_settled_linked: "linked 2 7 example_settled"
proof -
  have 1: "node_h example_watch 2 \<noteq> None" "nd_agent_bus (the (node_h example_watch 2)) = Some 7"
    "map fst (nd_unit_subs (the (node_h example_watch 2))) = [''a.service'', ''*'']"
    "list_all (\<lambda>us. us_subs (snd us) \<noteq> []) (nd_unit_subs (the (node_h example_watch 2)))"
    "filter (\<lambda>m. case m of AgentCall _ _ _ \<Rightarrow> True | _ \<Rightarrow> False) (out example_watch) =
      [AgentCall 7 ''Subscribe'' [''a.service''], AgentCall 7 ''Subscribe'' [''*'']]"
    by code_simp+
  have told: "fold (told_step 7) ms W = fold (told_step 7) (filter (\<lambda>m. case m of AgentCall _ _ _ \<Rightarrow> True | _ \<Rightarrow> False) ms) W" for ms W
  proof (induction ms arbitrary: W)
    case (Cons m ms)
    then show ?case by (cases m) simp_all
  qed simp
  obtain nd where nd: "node_h example_watch 2 = Some nd" using 1(1) by blast
  have idx: "distinct (map fst (nd_unit_subs nd))" "fst ` set (nd_unit_subs nd) = {''a.service'', ''*''}"
    using 1(3) nd by (simp_all flip: set_map)
  have "told 7 (out example_watch) = {''a.service'', ''*''}" unfolding told_def by (subst told) (auto simp: 1(5))
  moreover have "us_subs us \<noteq> []" if "map_of (nd_unit_subs nd) u = Some us" for u us
    using 1(4) nd map_of_SomeD [OF that] by (auto simp: list_all_iff)
  ultimately have "in_sync example_watch 2"
    using nd 1(2) idx unfolding in_sync_def index_ok_def hmap_ok_def dom_map_of_conv_image_fst
    by (intro exI [of _ nd] exI [of _ 7]) simp
  moreover have "units_ok (fold (agent_takes ref_aenv 3 7) ms a)" if "units_ok a" for ms a
    using that by (induction ms arbitrary: a) (simp_all add: agent_takes_watched)
  ultimately show ?thesis
    using nd 1(2) example_agent_units takes_all [of example_agent ref_aenv 3 7 "out example_watch"]
    by (simp add: linked_def example_settled_def told_def watched_def)
qed

theorem unit_event_end_to_end_witness:
  "\<exists>t new. foldo (node_takes ref_env 2 1) (drop (length (ag_out (sy_agt example_settled)))
       (ag_out (agent_match_unit_new ref_aenv ''a.service'' (sy_agt example_settled)))) example_watch = Some t \<and>
     signals t = signals example_watch @ new \<and>
     MonitorSignal '':1.5'' ''/org/eclipse/bluechi/monitor/1'' (UnitNew ''pi'' ''a.service'' ''real'') \<in> set new"
proof -
  let ?ms = "drop (length (ag_out (sy_agt example_settled))) (ag_out (agent_match_unit_new ref_aenv ''a.service'' (sy_agt example_settled)))"
  let ?ev = "UnitNew ''pi'' ''a.service'' ''real''"
  have 1: "node_h example_watch 2 \<noteq> None" "nd_name (the (node_h example_watch 2)) = Some ''pi''"
    "foldo (node_takes ref_env 2 1) ?ms example_watch \<noteq> None" "ag_peer_dbus (sy_agt example_settled) = Some 1"
    "5 \<in> set (matching_subs (the (node_h example_watch 2)) ''a.service'')"
    "MonitorSignal '':1.5'' ''/org/eclipse/bluechi/monitor/1'' ?ev \<in> set (sub_signals example_watch ?ev 5)"
    by code_simp+
  then obtain t nd where t: "foldo (node_takes ref_env 2 1) ?ms example_watch = Some t" "node_h example_watch 2 = Some nd" by auto
  have "sy_ctl example_settled = example_watch" "sy_down example_settled = length (out example_watch)"
    by (simp_all add: example_settled_def)
  then show ?thesis
    using unit_event_end_to_end [OF example_settled_linked _ 1(4) ref_aenv_ok ref_env_ok(1,3), of nd "''pi''" "SdUnitNew ''a.service''" t]
      t 1(2,5,6) by auto
qed

end
