(* ===== verification/Command.thy ===== *)
theory Command
  imports ParseUtil "HOL-Library.Word"
begin

unbundle bit_operations_syntax

text \<open>Command lines: \<open>libbluechi/cli/command.c\<close> and the option loops of \<open>client/main.c\<close> and \<open>is-online/main.c\<close>.
  A method is a row of a table; its function is given by a tag, and \<open>run\<close> says what a tag does (\<open>None\<close> when it has not returned).  The
  options found by \<open>getopt_long\<close> and the arguments it leaves are given as lists.\<close>

section \<open>Structs\<close>

record OptionType =
  option_short :: int
  option_long :: string
  option_flag :: "64 word"

record CommandOption =
  co_key :: int
  co_value :: cstring
  co_is_flag :: bool
  co_type :: OptionType

record 'm Method =
  m_name :: string
  m_min_args :: int
  m_max_args :: int
  m_supported :: "64 word"
  m_dispatch :: 'm

record 'm Command =
  cmd_method :: "'m Method option"
  cmd_op :: cstring
  cmd_opargv :: "string list"
  cmd_is_help :: bool
  cmd_options :: "CommandOption list"

definition ARG_ANY :: int where "ARG_ANY = 127"

definition new_command :: "'m Command" where
  "new_command = \<lparr>cmd_method = None, cmd_op = None, cmd_opargv = [], cmd_is_help = False, cmd_options = []\<rparr>"

section \<open>Options\<close>

fun find_option :: "int \<Rightarrow> CommandOption list \<Rightarrow> CommandOption option" where
  "find_option key [] = None"
| "find_option key (opt # opts) = (if key = co_key opt then Some opt else find_option key opts)"

definition command_get_option :: "'m Command \<Rightarrow> int \<Rightarrow> cstring" where
  "command_get_option cmd key = Option.bind (find_option key (cmd_options cmd)) co_value"

definition command_flag_exists :: "'m Command \<Rightarrow> int \<Rightarrow> bool" where
  "command_flag_exists cmd key = (find_option key (cmd_options cmd) \<noteq> None)"

text \<open>An option without a value, or with an empty one, is 0.\<close>

definition command_get_option_long :: "'m Command \<Rightarrow> int \<Rightarrow> int + int" where
  "command_get_option_long cmd key =
     (case command_get_option cmd key of
        None \<Rightarrow> Inr 0
      | Some opt \<Rightarrow>
          if opt = [] then Inr 0
          else (case parse_long (Some opt) of None \<Rightarrow> Inl (- EINVAL) | Some v \<Rightarrow> Inr v))"

definition command_add_option :: "int \<Rightarrow> cstring \<Rightarrow> OptionType \<Rightarrow> 'm Command \<Rightarrow> 'm Command" where
  "command_add_option key value type cmd =
     cmd\<lparr>cmd_options := cmd_options cmd @ [\<lparr>co_key = key, co_value = value, co_is_flag = (value = None), co_type = type\<rparr>]\<rparr>"

text \<open>The tables end with a row whose flag, or whose function, is 0; here they are lists without that row.\<close>

fun get_option_type :: "OptionType list \<Rightarrow> int \<Rightarrow> OptionType option" where
  "get_option_type [] c = None"
| "get_option_type (t # ts) c = (if c = option_short t then Some t else get_option_type ts c)"

fun find_method :: "string \<Rightarrow> 'm Method list \<Rightarrow> 'm Method option" where
  "find_method name [] = None"
| "find_method name (m # ms) = (if name = m_name m then Some m else find_method name ms)"

definition methods_get_method :: "cstring \<Rightarrow> 'm Method list \<Rightarrow> 'm Method option" where
  "methods_get_method name methods = (case name of None \<Rightarrow> None | Some n \<Rightarrow> find_method n methods)"

section \<open>Execution\<close>

definition command_execute :: "('m \<Rightarrow> 'm Command \<Rightarrow> 's \<Rightarrow> (int \<times> 's) option) \<Rightarrow> 'm Method \<Rightarrow> 'm Command \<Rightarrow> 's \<Rightarrow> (int \<times> 's) option" where
  "command_execute run m cmd s =
     (if cmd_is_help cmd then Some (0, s)
      else if int (length (cmd_opargv cmd)) < m_min_args m then Some (- EINVAL, s)
      else if m_max_args m < int (length (cmd_opargv cmd)) then Some (- EINVAL, s)
      else if \<exists>opt \<in> set (cmd_options cmd). option_flag (co_type opt) AND m_supported m = 0 then Some (- EINVAL, s)
      else run (m_dispatch m) cmd s)"

definition ARG_HELP_SHORT :: int where "ARG_HELP_SHORT = 104"
definition GETOPT_UNKNOWN_OPTION :: int where "GETOPT_UNKNOWN_OPTION = 63"

text \<open>The loop over the options; \<open>None\<close> when the assertion fails that an option has a type.\<close>

fun parse_options :: "OptionType list \<Rightarrow> (int \<times> cstring) list \<Rightarrow> 'm Command \<Rightarrow> (bool \<times> 'm Command) option" where
  "parse_options types [] cmd = Some (True, cmd)"
| "parse_options types ((opt, optarg) # opts) cmd =
     (if opt = ARG_HELP_SHORT then parse_options types opts (cmd\<lparr>cmd_is_help := True\<rparr>)
      else if opt = GETOPT_UNKNOWN_OPTION then Some (False, cmd)
      else case get_option_type types opt of
             None \<Rightarrow> None
           | Some t \<Rightarrow> parse_options types opts (command_add_option opt optarg t cmd))"

definition parse_cli_opts ::
    "OptionType list \<Rightarrow> (int \<times> cstring) list \<Rightarrow> string list \<Rightarrow> 'm Command \<Rightarrow> (int \<times> 'm Command) option" where
  "parse_cli_opts types opts rest cmd =
     (case parse_options types opts cmd of
        None \<Rightarrow> None
      | Some (ok, cmd1) \<Rightarrow>
          if \<not> ok then Some (- EINVAL, cmd1)
          else (case rest of
                  opn # args \<Rightarrow> Some (0, cmd1\<lparr>cmd_op := Some opn, cmd_opargv := args\<rparr>)
                | [] \<Rightarrow> if cmd_is_help cmd1 then Some (0, cmd1) else Some (- EINVAL, cmd1)))"

text \<open>The \<open>main\<close> functions: the exit code and the state after the method, \<open>None\<close> when it has not returned; \<open>prepare\<close> stands for the connection to the bus, which
  \<open>bluechictl\<close> opens before it executes a command and \<open>bluechi-is-online\<close> does not.\<close>

definition cli_main ::
    "('s \<Rightarrow> int) \<Rightarrow> ('m \<Rightarrow> 'm Command \<Rightarrow> 's \<Rightarrow> (int \<times> 's) option) \<Rightarrow> OptionType list \<Rightarrow> 'm Method list \<Rightarrow> (int \<times> cstring) list \<Rightarrow>
     string list \<Rightarrow> 's \<Rightarrow> (int \<times> 's) option" where
  "cli_main prepare run types methods opts rest s =
     (case parse_cli_opts types opts rest new_command of
        None \<Rightarrow> None
      | Some (r, cmd) \<Rightarrow>
          if r < 0 then Some (1, s)
          else if cmd_op cmd = None \<and> cmd_is_help cmd then Some (0, s)
          else (case methods_get_method (cmd_op cmd) methods of
                  None \<Rightarrow> Some (1, s)
                | Some m \<Rightarrow>
                    if prepare s < 0 then Some (1, s)
                    else map_option (\<lambda>(r1, s1). (if r1 < 0 then 1 else 0, s1))
                           (command_execute run m (cmd\<lparr>cmd_method := Some m\<rparr>) s)))"

section \<open>What a command line does\<close>

text \<open>The options of a command line, in order; the request for help is not one of them.\<close>

fun given_options :: "OptionType list \<Rightarrow> (int \<times> cstring) list \<Rightarrow> CommandOption list" where
  "given_options types [] = []"
| "given_options types ((opt, v) # opts) =
     (if opt = ARG_HELP_SHORT then given_options types opts
      else \<lparr>co_key = opt, co_value = v, co_is_flag = (v = None), co_type = the (get_option_type types opt)\<rparr> # given_options types opts)"

definition known_options :: "OptionType list \<Rightarrow> (int \<times> cstring) list \<Rightarrow> bool" where
  "known_options types opts =
     (\<forall>opt \<in> fst ` set opts. opt = ARG_HELP_SHORT \<or> opt = GETOPT_UNKNOWN_OPTION \<or> get_option_type types opt \<noteq> None)"

lemma parse_options_known:
  assumes "known_options types opts" "GETOPT_UNKNOWN_OPTION \<notin> fst ` set opts"
  shows "parse_options types opts cmd = Some (True, cmd\<lparr>cmd_is_help := cmd_is_help cmd \<or> ARG_HELP_SHORT \<in> fst ` set opts,
    cmd_options := cmd_options cmd @ given_options types opts\<rparr>)"
  using assms
proof (induction opts arbitrary: cmd)
  case (Cons o' opts)
  obtain opt v where o: "o' = (opt, v)" by fastforce
  have k: "known_options types opts" "GETOPT_UNKNOWN_OPTION \<notin> fst ` set opts"
    using Cons.prems by (auto simp: known_options_def)
  note IH = Cons.IH [OF k]
  have "opt \<noteq> GETOPT_UNKNOWN_OPTION" "opt = ARG_HELP_SHORT \<or> get_option_type types opt \<noteq> None"
    using Cons.prems by (auto simp: known_options_def o)
  then show ?case by (auto simp: o IH command_add_option_def)
qed simp

lemma parse_options_unknown:
  assumes "known_options types opts" "GETOPT_UNKNOWN_OPTION \<in> fst ` set opts"
  shows "\<exists>c. parse_options types opts cmd = Some (False, c)"
  using assms
proof (induction opts arbitrary: cmd)
  case (Cons o' opts)
  obtain opt v where o: "o' = (opt, v)" by fastforce
  have k: "known_options types opts" using Cons.prems(1) by (simp add: known_options_def)
  have type: "opt = ARG_HELP_SHORT \<or> opt = GETOPT_UNKNOWN_OPTION \<or> get_option_type types opt \<noteq> None"
    using Cons.prems(1) by (auto simp: known_options_def o)
  show ?case
  proof (cases "opt = GETOPT_UNKNOWN_OPTION")
    case True
    then show ?thesis by (simp add: o ARG_HELP_SHORT_def GETOPT_UNKNOWN_OPTION_def)
  next
    case False
    then have "GETOPT_UNKNOWN_OPTION \<in> fst ` set opts" using Cons.prems(2) by (auto simp: o)
    from Cons.IH [OF k this] show ?thesis using type False by (auto simp: o)
  qed
qed simp

text \<open>The command a row of the table is run with, and whether it is run.\<close>

definition command_of :: "OptionType list \<Rightarrow> (int \<times> cstring) list \<Rightarrow> string \<Rightarrow> string list \<Rightarrow> 'm Method \<Rightarrow> 'm Command" where
  "command_of types opts opn args m =
     \<lparr>cmd_method = Some m, cmd_op = Some opn, cmd_opargv = args, cmd_is_help = False, cmd_options = given_options types opts\<rparr>"

definition accepts :: "OptionType list \<Rightarrow> (int \<times> cstring) list \<Rightarrow> string list \<Rightarrow> 'm Method \<Rightarrow> bool" where
  "accepts types opts args m =
     (m_min_args m \<le> int (length args) \<and> int (length args) \<le> m_max_args m \<and>
      (\<forall>opt \<in> set (given_options types opts). option_flag (co_type opt) AND m_supported m \<noteq> 0))"

lemma cli_main_runs:
  assumes "known_options types opts" "GETOPT_UNKNOWN_OPTION \<notin> fst ` set opts" "ARG_HELP_SHORT \<notin> fst ` set opts"
    "find_method opn methods = Some m" "\<not> prepare s < 0" "accepts types opts args m"
  shows "cli_main prepare run types methods opts (opn # args) s =
    map_option (\<lambda>(r, t). (if r < 0 then 1 else 0, t)) (run (m_dispatch m) (command_of types opts opn args m) s)"
  using assms
  by (force simp: cli_main_def parse_cli_opts_def parse_options_known methods_get_method_def new_command_def command_execute_def
      accepts_def command_of_def)

lemma cli_main_refuses:
  assumes "known_options types opts"
    "GETOPT_UNKNOWN_OPTION \<in> fst ` set opts \<or> rest = [] \<or> find_method (hd rest) methods = None \<or> prepare s < 0 \<or>
     ARG_HELP_SHORT \<in> fst ` set opts \<or> \<not> accepts types opts (tl rest) (the (find_method (hd rest) methods))"
  shows "\<exists>k. cli_main prepare run types methods opts rest s = Some (k, s) \<and>
    (k = 0 \<longrightarrow> ARG_HELP_SHORT \<in> fst ` set opts \<and> GETOPT_UNKNOWN_OPTION \<notin> fst ` set opts)"
proof (cases "GETOPT_UNKNOWN_OPTION \<in> fst ` set opts")
  case True
  then obtain c :: "'a Command" where c: "parse_options types opts new_command = Some (False, c)"
    using parse_options_unknown [OF assms(1)] by blast
  then show ?thesis by (simp add: cli_main_def parse_cli_opts_def EINVAL_def)
next
  case False
  note p = parse_options_known [OF assms(1) this]
  show ?thesis
  proof (cases rest)
    case Nil
    then show ?thesis using False by (simp add: cli_main_def parse_cli_opts_def p new_command_def EINVAL_def)
  next
    case (Cons opn args)
    show ?thesis
    proof (cases "find_method opn methods")
      case None
      then show ?thesis by (simp add: cli_main_def parse_cli_opts_def p new_command_def methods_get_method_def Cons)
    next
      case (Some m)
      then show ?thesis
        using assms(2) False
        by (auto simp: cli_main_def parse_cli_opts_def p new_command_def methods_get_method_def Cons command_execute_def
            accepts_def EINVAL_def)
    qed
  qed
qed

definition runs_method :: "OptionType list \<Rightarrow> 'm Method list \<Rightarrow> (int \<times> cstring) list \<Rightarrow> string list \<Rightarrow> 'm Method \<Rightarrow> bool" where
  "runs_method types methods opts rest m =
     (GETOPT_UNKNOWN_OPTION \<notin> fst ` set opts \<and> ARG_HELP_SHORT \<notin> fst ` set opts \<and> rest \<noteq> [] \<and>
      find_method (hd rest) methods = Some m \<and> accepts types opts (tl rest) m)"

text \<open>C26.  What a command line does.  It runs the method it names exactly when no option is unknown, no help is asked
  for, the bus is open, the number of arguments is within the bounds of the method and each option is one the method
  supports; the method gets the arguments and options as given, and a negative result makes the exit code 1.  Otherwise
  nothing is run, and the exit code is 0 only for a request for help.\<close>

theorem command_line_dispatch:
  assumes "known_options types opts"
  shows "(\<forall>m. runs_method types methods opts rest m \<longrightarrow> \<not> prepare s < 0 \<longrightarrow>
      cli_main prepare run types methods opts rest s =
        map_option (\<lambda>(r, t). (if r < 0 then 1 else 0, t)) (run (m_dispatch m) (command_of types opts (hd rest) (tl rest) m) s)) \<and>
    ((\<forall>m. \<not> runs_method types methods opts rest m) \<or> prepare s < 0 \<longrightarrow>
      (\<exists>k. cli_main prepare run types methods opts rest s = Some (k, s) \<and>
        (k = 0 \<longrightarrow> ARG_HELP_SHORT \<in> fst ` set opts \<and> GETOPT_UNKNOWN_OPTION \<notin> fst ` set opts)))"
proof (intro conjI allI impI)
  fix m
  assume "runs_method types methods opts rest m" "\<not> prepare s < 0"
  moreover from this obtain opn args where "rest = opn # args" by (cases rest) (auto simp: runs_method_def)
  ultimately show "cli_main prepare run types methods opts rest s =
      map_option (\<lambda>(r, t). (if r < 0 then 1 else 0, t)) (run (m_dispatch m) (command_of types opts (hd rest) (tl rest) m) s)"
    using cli_main_runs [OF assms, where opn = opn and args = args and methods = methods and m = m and prepare = prepare
      and s = s and run = run] by (simp add: runs_method_def)
next
  assume "(\<forall>m. \<not> runs_method types methods opts rest m) \<or> prepare s < 0"
  then show "\<exists>k. cli_main prepare run types methods opts rest s = Some (k, s) \<and>
      (k = 0 \<longrightarrow> ARG_HELP_SHORT \<in> fst ` set opts \<and> GETOPT_UNKNOWN_OPTION \<notin> fst ` set opts)"
    by (intro cli_main_refuses [OF assms]) (fastforce simp: runs_method_def)
qed

text \<open>A table with one method of one argument, which needs the option 1000.\<close>

theorem command_line_dispatch_witness:
  "cli_main (\<lambda>s. 0) (\<lambda>f cmd s. Some (- 1, cmd_opargv cmd)) [\<lparr>option_short = 1000, option_long = ''filter'', option_flag = 2\<rparr>]
     [\<lparr>m_name = ''list'', m_min_args = 1, m_max_args = 1, m_supported = 6, m_dispatch = ()\<rparr>]
     [(1000, Some ''x'')] [''list'', ''pi''] [] = Some (1, [''pi''])"
proof -
  let ?t = "[\<lparr>option_short = 1000, option_long = ''filter'', option_flag = 2\<rparr>]" and ?opts = "[(1000, Some ''x'')]"
  let ?m = "\<lparr>m_name = ''list'', m_min_args = 1, m_max_args = 1, m_supported = 6, m_dispatch = ()\<rparr>"
  have k: "known_options ?t ?opts" by (simp add: known_options_def)
  have r: "runs_method ?t [?m] ?opts [''list'', ''pi''] ?m"
    by (simp add: runs_method_def accepts_def ARG_HELP_SHORT_def GETOPT_UNKNOWN_OPTION_def)
  from command_line_dispatch [OF k, of "[?m]" "[''list'', ''pi'']" "\<lambda>s. 0" "[]" "\<lambda>f cmd s. Some (- 1, cmd_opargv cmd)",
      THEN conjunct1, rule_format, OF r]
  show ?thesis by (simp add: command_of_def)
qed

end
