(* ===== verification/IsOnline.thy ===== *)
theory IsOnline
  imports Command Protocol TimeUtil BusUtil
begin

text \<open>\<open>bluechi-is-online\<close> (\<open>is-online/is-online.c\<close>): it asks for the status of the agent, a node or the system, waits for
  it to become online, or watches it until it is not.  What happens while it runs is a list of events; the result is
  \<open>None\<close> as long as the event loop has not ended.\<close>

section \<open>State\<close>

record ConnectionState =
  cs_has_name :: bool
  cs_is_connected :: bool
  cs_is_switching :: bool

record ParsedParams =
  pp_initial_wait :: int
  pp_should_monitor :: bool
  pp_switch_timeout :: int
  pp_service :: string

text \<open>The state with the timers that were set, in microseconds.\<close>

record IsOnlineCli =
  io_state :: ConnectionState
  io_timers :: "64 word list"

datatype io_call = IoEventDefault | IoAttach | IoSignals | IoMatch string | IoTimer event_call | IoFloating | IoLoop | IoOpenBus

text \<open>What the environment answers: results of calls, the owner of the service, the status property.\<close>

record io_env =
  io_ret :: "io_call \<Rightarrow> int"
  io_now :: "64 word"
  io_owner :: "string \<Rightarrow> int"
  io_status :: "string \<Rightarrow> int + string"

definition connection_state_is_online :: "ConnectionState \<Rightarrow> bool" where
  "connection_state_is_online state = (cs_has_name state \<and> cs_is_connected state)"

section \<open>Events\<close>

text \<open>A handler says whether it ends the event loop.  A changed property that is not the first of its signal is not
  read: the loop of \<open>on_properties_changed\<close> never leaves the entry it has entered, so the next entry cannot be
  entered.  A status that cannot be read changes nothing.\<close>

datatype io_event =
    PropertiesChanged "(string \<times> cstring) list"
  | NameOwnerChanged string string
  | TimerExpired
  | Terminated

definition timer_callback :: "ParsedParams \<Rightarrow> IsOnlineCli \<Rightarrow> bool" where
  "timer_callback p io = (\<not> (connection_state_is_online (io_state io) \<and> pp_should_monitor p))"

definition setup_timer :: "io_env \<Rightarrow> 64 word \<Rightarrow> IsOnlineCli \<Rightarrow> int \<times> IsOnlineCli" where
  "setup_timer e timeout io =
     (let (r, src) = event_reset_time_relative (\<lambda>c. io_ret e (IoTimer c)) (io_now e) None 7 timeout True False
      in if r < 0 then (r, io)
         else (io_ret e IoFloating, if io_ret e IoFloating < 0 then io else io\<lparr>io_timers := io_timers io @ [timeout]\<rparr>))"

definition online_status :: "string \<Rightarrow> bool" where
  "online_status s = (s = ''online'' \<or> s = ''up'')"

definition handle_connection_state_changed :: "ParsedParams \<Rightarrow> cstring \<Rightarrow> IsOnlineCli \<Rightarrow> bool \<times> IsOnlineCli" where
  "handle_connection_state_changed p con_state io =
     (case con_state of
        None \<Rightarrow> (False, io)
      | Some s \<Rightarrow>
          let state = (io_state io)\<lparr>cs_is_connected := online_status s\<rparr>
          in if cs_is_switching state \<and> \<not> connection_state_is_online state
             then (False, io\<lparr>io_state := state\<lparr>cs_is_switching := False\<rparr>\<rparr>)
             else (pp_should_monitor p \<and> \<not> connection_state_is_online state \<or>
                   \<not> pp_should_monitor p \<and> 0 < pp_initial_wait p \<and> connection_state_is_online state,
                   io\<lparr>io_state := state\<rparr>))"

definition handle_controller_address_changed :: "io_env \<Rightarrow> ParsedParams \<Rightarrow> IsOnlineCli \<Rightarrow> IsOnlineCli" where
  "handle_controller_address_changed e p io =
     (if 0 < pp_switch_timeout p
      then let io1 = snd (setup_timer e (word_of_int (pp_switch_timeout p) * USEC_PER_MSEC) io)
           in io1\<lparr>io_state := (io_state io1)\<lparr>cs_is_switching := True\<rparr>\<rparr>
      else io)"

definition on_properties_changed :: "io_env \<Rightarrow> ParsedParams \<Rightarrow> (string \<times> cstring) list \<Rightarrow> IsOnlineCli \<Rightarrow> bool \<times> IsOnlineCli" where
  "on_properties_changed e p props io =
     (case props of
        [] \<Rightarrow> (False, io)
      | (key, v) # _ \<Rightarrow>
          if key = ''Status'' then handle_connection_state_changed p v io
          else if key = ''ControllerAddress'' then (False, handle_controller_address_changed e p io)
          else (False, io))"

definition on_name_owner_changed :: "ParsedParams \<Rightarrow> string \<Rightarrow> string \<Rightarrow> IsOnlineCli \<Rightarrow> IsOnlineCli" where
  "on_name_owner_changed p name new io =
     (if name = pp_service p \<and> new \<noteq> [] then io\<lparr>io_state := (io_state io)\<lparr>cs_has_name := True\<rparr>\<rparr> else io)"

fun handle_event :: "io_env \<Rightarrow> ParsedParams \<Rightarrow> io_event \<Rightarrow> IsOnlineCli \<Rightarrow> bool \<times> IsOnlineCli" where
  "handle_event e p (PropertiesChanged props) io = on_properties_changed e p props io"
| "handle_event e p (NameOwnerChanged name new) io = (False, on_name_owner_changed p name new io)"
| "handle_event e p TimerExpired io = (timer_callback p io, io)"
| "handle_event e p Terminated io = (True, io)"

fun event_loop :: "io_env \<Rightarrow> ParsedParams \<Rightarrow> io_event list \<Rightarrow> IsOnlineCli \<Rightarrow> IsOnlineCli option" where
  "event_loop e p [] io = None"
| "event_loop e p (ev # evs) io = (let (ended, io1) = handle_event e p ev io in if ended then Some io1 else event_loop e p evs io1)"

section \<open>The program\<close>

fun first_negative :: "int list \<Rightarrow> int" where
  "first_negative [] = 0"
| "first_negative (r # rs) = (if r < 0 then r else first_negative rs)"

definition setup_event_loop :: "io_env \<Rightarrow> int" where
  "setup_event_loop e =
     first_negative (map (io_ret e) [IoEventDefault, IoAttach, IoSignals, IoMatch ''PropertiesChanged'', IoMatch ''NameOwnerChanged''])"

definition start_monitoring :: "io_env \<Rightarrow> ParsedParams \<Rightarrow> io_event list \<Rightarrow> IsOnlineCli \<Rightarrow> IsOnlineCli option" where
  "start_monitoring e p evs io =
     (if setup_event_loop e < 0 then Some io
      else let (r, io1) = (if 0 < pp_initial_wait p then setup_timer e (word_of_int (pp_initial_wait p) * USEC_PER_MSEC) io else (0, io))
           in if r < 0 then Some io1
              else if io_ret e IoLoop < 0 then Some io1
              else event_loop e p evs io1)"

definition is_online :: "io_env \<Rightarrow> string \<Rightarrow> bool" where
  "is_online e path = (case io_status e path of Inl r \<Rightarrow> False | Inr s \<Rightarrow> online_status s)"

definition is_service_available :: "io_env \<Rightarrow> string \<Rightarrow> bool" where
  "is_service_available e service = (0 \<le> io_owner e service)"

definition ARG_MONITOR_SHORT :: int where "ARG_MONITOR_SHORT = 1000"
definition ARG_WAIT_SHORT :: int where "ARG_WAIT_SHORT = 1001"
definition ARG_SWITCH_CTRL_TIMEOUT_SHORT :: int where "ARG_SWITCH_CTRL_TIMEOUT_SHORT = 1002"

definition run_is_online :: "io_env \<Rightarrow> io_event list \<Rightarrow> 'm Command \<Rightarrow> string \<Rightarrow> string \<Rightarrow> int option" where
  "run_is_online e evs cmd service path =
     (case (command_get_option_long cmd ARG_WAIT_SHORT, command_get_option_long cmd ARG_SWITCH_CTRL_TIMEOUT_SHORT) of
        (Inl r, _) \<Rightarrow> Some (- EINVAL)
      | (Inr wait, Inl r) \<Rightarrow> Some (- EINVAL)
      | (Inr wait, Inr switch) \<Rightarrow>
          if io_ret e IoOpenBus < 0 then Some (io_ret e IoOpenBus)
          else
            let p = \<lparr>pp_initial_wait = wait, pp_should_monitor = command_flag_exists cmd ARG_MONITOR_SHORT,
                     pp_switch_timeout = switch, pp_service = service\<rparr>;
                has = is_service_available e service;
                io = \<lparr>io_state = \<lparr>cs_has_name = has, cs_is_connected = has \<and> is_online e path, cs_is_switching = False\<rparr>,
                      io_timers = []\<rparr>;
                on = connection_state_is_online (io_state io);
                res = (if pp_should_monitor p \<and> on \<or> 0 < wait \<and> \<not> on then start_monitoring e p evs io else Some io)
            in map_option (\<lambda>t. if connection_state_is_online (io_state t) then 0 else - 1) res)"


definition method_is_online_agent :: "io_env \<Rightarrow> io_event list \<Rightarrow> 'm Command \<Rightarrow> int option" where
  "method_is_online_agent e evs cmd = run_is_online e evs cmd BC_AGENT_DBUS_NAME BC_AGENT_OBJECT_PATH"

definition method_is_online_node :: "io_env \<Rightarrow> io_event list \<Rightarrow> 'm Command \<Rightarrow> int option" where
  "method_is_online_node e evs cmd =
     run_is_online e evs cmd BC_DBUS_NAME (assemble_object_path_string NODE_OBJECT_PATH_PREFIX (hd (cmd_opargv cmd)))"

definition method_is_online_system :: "io_env \<Rightarrow> io_event list \<Rightarrow> 'm Command \<Rightarrow> int option" where
  "method_is_online_system e evs cmd = run_is_online e evs cmd BC_DBUS_NAME BC_OBJECT_PATH"

section \<open>What the exit code says\<close>

definition io_ok :: "io_env \<Rightarrow> bool" where
  "io_ok e = (\<forall>c. 0 \<le> io_ret e c)"

lemma io_okD [simp]: "io_ok e \<Longrightarrow> \<not> io_ret e c < 0"
  by (simp add: io_ok_def not_less)

lemma setup_ok: "io_ok e \<Longrightarrow> \<not> setup_event_loop e < 0"
  by (simp add: setup_event_loop_def)

text \<open>A timer that is set changes only the list of timers.\<close>

lemma setup_timer_ok:
  assumes "io_ok e"
  shows "\<exists>ts. setup_timer e t io = (io_ret e IoFloating, io\<lparr>io_timers := ts\<rparr>)"
proof -
  obtain r src where r: "event_reset_time_relative (\<lambda>c. io_ret e (IoTimer c)) (io_now e) None 7 t True False = (r, src)" by fastforce
  then have "\<not> r < 0" using assms
    by (auto simp: event_reset_time_relative_def event_reset_time_def Let_def split: if_splits)
  then show ?thesis using assms by (auto simp: setup_timer_def r)
qed

text \<open>The settings of a command line.\<close>

definition settings :: "'m Command \<Rightarrow> int \<Rightarrow> int \<Rightarrow> bool \<Rightarrow> bool" where
  "settings cmd wait switch monitor =
     (command_get_option_long cmd ARG_WAIT_SHORT = Inr wait \<and>
      command_get_option_long cmd ARG_SWITCH_CTRL_TIMEOUT_SHORT = Inr switch \<and> command_flag_exists cmd ARG_MONITOR_SHORT = monitor)"

definition io_at :: "bool \<Rightarrow> bool \<Rightarrow> bool \<Rightarrow> IsOnlineCli \<Rightarrow> bool" where
  "io_at has on sw io = (io_state io = \<lparr>cs_has_name = has, cs_is_connected = on, cs_is_switching = sw\<rparr>)"

lemma run_started:
  assumes "io_ok e" "settings cmd wait switch monitor" "is_service_available e service"
    "monitor \<and> is_online e path \<or> 0 < wait \<and> \<not> is_online e path"
  shows "\<exists>io. io_at True (is_online e path) False io \<and> run_is_online e evs cmd service path =
    map_option (\<lambda>t. if connection_state_is_online (io_state t) then 0 else - 1)
      (event_loop e \<lparr>pp_initial_wait = wait, pp_should_monitor = monitor, pp_switch_timeout = switch, pp_service = service\<rparr> evs io)"
proof -
  define io where "io = \<lparr>io_state = \<lparr>cs_has_name = True, cs_is_connected = is_online e path, cs_is_switching = False\<rparr>, io_timers = []\<rparr>"
  define p where "p = \<lparr>pp_initial_wait = wait, pp_should_monitor = monitor, pp_switch_timeout = switch, pp_service = service\<rparr>"
  obtain ts where "setup_timer e (word_of_int wait * USEC_PER_MSEC) io = (io_ret e IoFloating, io\<lparr>io_timers := ts\<rparr>)"
    using setup_timer_ok [OF assms(1)] by blast
  then have "start_monitoring e p evs io = event_loop e p evs (if 0 < wait then io\<lparr>io_timers := ts\<rparr> else io)"
    using assms(1) setup_ok [OF assms(1)] by (simp add: start_monitoring_def p_def)
  then show ?thesis
    using assms by (intro exI [of _ "if 0 < wait then io\<lparr>io_timers := ts\<rparr> else io"])
      (auto simp: run_is_online_def settings_def io_at_def io_def p_def connection_state_is_online_def)
qed

text \<open>What is promised: watching ends at the first status that is not online, or when the program is terminated; waiting
  ends at the first status that is online, when the time is over, or when the program is terminated.\<close>

fun watch_result :: "io_event list \<Rightarrow> int option" where
  "watch_result [] = None"
| "watch_result (PropertiesChanged ps # evs) =
     (case ps of (k, Some s) # _ \<Rightarrow> if k = ''Status'' \<and> \<not> online_status s then Some (- 1) else watch_result evs
      | _ \<Rightarrow> watch_result evs)"
| "watch_result (Terminated # evs) = Some 0"
| "watch_result (_ # evs) = watch_result evs"

fun wait_result :: "io_event list \<Rightarrow> int option" where
  "wait_result [] = None"
| "wait_result (PropertiesChanged ps # evs) =
     (case ps of (k, Some s) # _ \<Rightarrow> if k = ''Status'' \<and> online_status s then Some 0 else wait_result evs
      | _ \<Rightarrow> wait_result evs)"
| "wait_result (NameOwnerChanged name new # evs) = wait_result evs"
| "wait_result (_ # evs) = Some (- 1)"

lemma watch_loop:
  assumes "pp_should_monitor p" "\<not> 0 < pp_switch_timeout p" "io_at True True False io"
  shows "map_option (\<lambda>t. if connection_state_is_online (io_state t) then 0 else - 1) (event_loop e p evs io) = watch_result evs"
  using assms(3)
proof (induction evs arbitrary: io rule: watch_result.induct)
  case (2 ps evs)
  show ?case
  proof (cases ps)
    case (Cons q qs)
    then show ?thesis using 2 assms(1,2)
      by (cases q; cases "snd q")
        (auto simp: on_properties_changed_def handle_connection_state_changed_def handle_controller_address_changed_def
          io_at_def Let_def connection_state_is_online_def)
  qed (use 2 in \<open>simp add: on_properties_changed_def\<close>)
qed (use assms in \<open>auto simp: io_at_def connection_state_is_online_def timer_callback_def on_name_owner_changed_def\<close>)

lemma wait_loop:
  assumes "io_ok e" "\<not> pp_should_monitor p" "0 < pp_initial_wait p" "io_at True False sw io"
  shows "map_option (\<lambda>t. if connection_state_is_online (io_state t) then 0 else - 1) (event_loop e p evs io) = wait_result evs"
  using assms(4)
proof (induction evs arbitrary: io sw rule: wait_result.induct)
  case (2 ps evs)
  show ?case
  proof (cases ps)
    case (Cons q qs)
    obtain ts where "setup_timer e (word_of_int (pp_switch_timeout p) * USEC_PER_MSEC) io = (io_ret e IoFloating, io\<lparr>io_timers := ts\<rparr>)"
      using setup_timer_ok [OF assms(1)] by blast
    then show ?thesis using 2 assms(2,3) Cons
      by (cases q; cases "snd q")
        (auto simp: on_properties_changed_def handle_connection_state_changed_def handle_controller_address_changed_def
          io_at_def Let_def connection_state_is_online_def)
  qed (use 2 in \<open>simp add: on_properties_changed_def\<close>)
qed (use assms in \<open>auto simp: io_at_def connection_state_is_online_def timer_callback_def on_name_owner_changed_def\<close>)

text \<open>C25.  The exit code of \<open>bluechi-is-online\<close>.  With the service on the bus and no call failing: without \<open>--wait\<close> and
  \<open>--monitor\<close> it is 0 exactly when the status is online or up; \<open>--monitor\<close> on an online component keeps
  running until the first status that is not online, which makes it 1 (the result -1); \<open>--wait\<close> alone keeps running
  until the first status that is online, which makes it 0, or until the time is over, which makes it 1.\<close>

theorem is_online_result:
  assumes "io_ok e" "settings cmd wait switch monitor" "is_service_available e service"
  shows "(monitor \<and> is_online e path \<and> switch \<le> 0 \<longrightarrow> run_is_online e evs cmd service path = watch_result evs) \<and>
    (\<not> monitor \<and> \<not> is_online e path \<and> 0 < wait \<longrightarrow> run_is_online e evs cmd service path = wait_result evs) \<and>
    (\<not> monitor \<and> is_online e path \<longrightarrow> run_is_online e evs cmd service path = Some 0) \<and>
    (\<not> is_online e path \<and> wait \<le> 0 \<longrightarrow> run_is_online e evs cmd service path = Some (- 1))"
proof (intro conjI impI)
  assume "monitor \<and> is_online e path \<and> switch \<le> 0"
  then show "run_is_online e evs cmd service path = watch_result evs"
    using run_started [OF assms, of path evs] watch_loop [of "\<lparr>pp_initial_wait = wait, pp_should_monitor = monitor,
      pp_switch_timeout = switch, pp_service = service\<rparr>" _ e evs] by auto
next
  assume "\<not> monitor \<and> \<not> is_online e path \<and> 0 < wait"
  then show "run_is_online e evs cmd service path = wait_result evs"
    using run_started [OF assms, of path evs] wait_loop [OF assms(1), of "\<lparr>pp_initial_wait = wait, pp_should_monitor = monitor,
      pp_switch_timeout = switch, pp_service = service\<rparr>" False _ evs] by auto
qed (use assms in \<open>auto simp: run_is_online_def settings_def connection_state_is_online_def\<close>)

text \<open>A command line with \<open>--wait\<close> and perhaps \<open>--monitor\<close>, on a bus on which the component has the status \<open>down\<close>.\<close>

definition example_io :: io_env where
  "example_io = \<lparr>io_ret = \<lambda>_. 0, io_now = 0, io_owner = \<lambda>_. 0, io_status = \<lambda>_. Inr ''down''\<rparr>"

definition example_cmd :: "bool \<Rightarrow> unit Command" where
  "example_cmd monitor = new_command\<lparr>cmd_options :=
     \<lparr>co_key = ARG_WAIT_SHORT, co_value = Some ''50'', co_is_flag = False, co_type = \<lparr>option_short = 1001, option_long = ''wait'', option_flag = 4\<rparr>\<rparr> #
     (if monitor then [\<lparr>co_key = ARG_MONITOR_SHORT, co_value = None, co_is_flag = True,
        co_type = \<lparr>option_short = 1000, option_long = ''monitor'', option_flag = 2\<rparr>\<rparr>] else [])\<rparr>"

lemma example_io_facts:
  "io_ok example_io" "is_service_available example_io service" "\<not> is_online example_io path"
  by (simp_all add: io_ok_def example_io_def is_service_available_def is_online_def online_status_def)

lemma example_cmd_settings: "settings (example_cmd monitor) 50 0 monitor"
proof -
  have "command_get_option_long (example_cmd True) ARG_WAIT_SHORT = Inr 50" "command_get_option_long (example_cmd False) ARG_WAIT_SHORT = Inr 50"
    "command_get_option_long (example_cmd True) ARG_SWITCH_CTRL_TIMEOUT_SHORT = Inr 0"
    "command_get_option_long (example_cmd False) ARG_SWITCH_CTRL_TIMEOUT_SHORT = Inr 0"
    "command_flag_exists (example_cmd True) ARG_MONITOR_SHORT" "\<not> command_flag_exists (example_cmd False) ARG_MONITOR_SHORT"
    by code_simp+
  then show ?thesis by (cases monitor) (simp_all add: settings_def)
qed

theorem is_online_result_witness:
  "run_is_online example_io [PropertiesChanged [(''Status'', Some ''degraded'')], PropertiesChanged [(''Status'', Some ''up'')]]
     (example_cmd False) BC_DBUS_NAME BC_OBJECT_PATH = Some 0"
  using is_online_result [OF example_io_facts(1) example_cmd_settings example_io_facts(2), of False BC_OBJECT_PATH _ BC_DBUS_NAME]
  by (simp add: example_io_facts online_status_def)

text \<open>C39.  Two gaps of \<open>bluechi-is-online\<close>.  With both \<open>--wait\<close> and \<open>--monitor\<close> the first status that is not online ends
  the program with 1 although the time to wait is not over, where \<open>--wait\<close> alone goes on waiting; so waiting for a
  system that comes up node by node fails.  And a service that disappears from the bus while it is watched is not
  noticed.\<close>

theorem is_online_gaps:
  assumes "io_ok e" "is_service_available e service" "settings cmd wait switch True" "settings cmd' wait switch False"
    "0 < wait" "switch \<le> 0" "\<not> online_status s"
  shows "(\<not> is_online e path \<longrightarrow>
      run_is_online e (PropertiesChanged [(''Status'', Some s)] # evs) cmd service path = Some (- 1) \<and>
      run_is_online e (PropertiesChanged [(''Status'', Some s)] # evs) cmd' service path = wait_result evs) \<and>
    (is_online e path \<longrightarrow>
      run_is_online e (NameOwnerChanged service [] # evs) cmd service path = watch_result evs)"
proof (intro conjI impI)
  assume off: "\<not> is_online e path"
  let ?p = "\<lparr>pp_initial_wait = wait, pp_should_monitor = True, pp_switch_timeout = switch, pp_service = service\<rparr>"
  obtain io where io: "io_at True (is_online e path) False io"
    "run_is_online e (PropertiesChanged [(''Status'', Some s)] # evs) cmd service path =
      map_option (\<lambda>t. if connection_state_is_online (io_state t) then 0 else - 1)
        (event_loop e ?p (PropertiesChanged [(''Status'', Some s)] # evs) io)"
    using run_started [OF assms(1,3,2), of path] off assms(5) by blast
  then show "run_is_online e (PropertiesChanged [(''Status'', Some s)] # evs) cmd service path = Some (- 1)"
    using off assms(7) by (simp add: on_properties_changed_def handle_connection_state_changed_def io_at_def connection_state_is_online_def)
  obtain io where "io_at True False False io" "run_is_online e (PropertiesChanged [(''Status'', Some s)] # evs) cmd' service path =
      map_option (\<lambda>t. if connection_state_is_online (io_state t) then 0 else - 1)
        (event_loop e (?p\<lparr>pp_should_monitor := False\<rparr>) (PropertiesChanged [(''Status'', Some s)] # evs) io)"
    using run_started [OF assms(1,4,2), of path "PropertiesChanged [(''Status'', Some s)] # evs"] off assms(5) by auto
  then show "run_is_online e (PropertiesChanged [(''Status'', Some s)] # evs) cmd' service path = wait_result evs"
    using wait_loop [OF assms(1), of "?p\<lparr>pp_should_monitor := False\<rparr>" False io "PropertiesChanged [(''Status'', Some s)] # evs"]
      assms(5,7) by simp
next
  assume "is_online e path"
  then obtain io where "io_at True True False io" "run_is_online e (NameOwnerChanged service [] # evs) cmd service path =
      map_option (\<lambda>t. if connection_state_is_online (io_state t) then 0 else - 1)
        (event_loop e \<lparr>pp_initial_wait = wait, pp_should_monitor = True, pp_switch_timeout = switch, pp_service = service\<rparr>
          (NameOwnerChanged service [] # evs) io)"
    using run_started [OF assms(1,3,2), of path "NameOwnerChanged service [] # evs"] by auto
  then show "run_is_online e (NameOwnerChanged service [] # evs) cmd service path = watch_result evs"
    using watch_loop [of _ io e "NameOwnerChanged service [] # evs"] assms(6) by simp
qed

theorem is_online_gaps_witness:
  "run_is_online example_io [PropertiesChanged [(''Status'', Some ''degraded'')], PropertiesChanged [(''Status'', Some ''up'')]]
     (example_cmd True) BC_DBUS_NAME BC_OBJECT_PATH = Some (- 1)"
  using is_online_gaps [OF example_io_facts(1,2) example_cmd_settings example_cmd_settings, of "''degraded''" BC_OBJECT_PATH _ BC_DBUS_NAME]
  by (simp add: example_io_facts online_status_def)

section \<open>The table of methods\<close>

datatype io_method = IoHelp | IoVersion | IoAgent | IoNode | IoSystem

definition OPT_MONITOR :: "64 word" where "OPT_MONITOR = 2"
definition OPT_WAIT :: "64 word" where "OPT_WAIT = 4"
definition OPT_SWITCH_CTRL_TIMEOUT :: "64 word" where "OPT_SWITCH_CTRL_TIMEOUT = 8"

definition io_methods :: "io_method Method list" where
  "io_methods =
     [\<lparr>m_name = ''help'', m_min_args = 0, m_max_args = 0, m_supported = 0, m_dispatch = IoHelp\<rparr>,
      \<lparr>m_name = ''version'', m_min_args = 0, m_max_args = 0, m_supported = 0, m_dispatch = IoVersion\<rparr>,
      \<lparr>m_name = ''agent'', m_min_args = 0, m_max_args = 0, m_supported = OPT_MONITOR OR OPT_WAIT OR OPT_SWITCH_CTRL_TIMEOUT, m_dispatch = IoAgent\<rparr>,
      \<lparr>m_name = ''node'', m_min_args = 1, m_max_args = 1, m_supported = OPT_MONITOR OR OPT_WAIT, m_dispatch = IoNode\<rparr>,
      \<lparr>m_name = ''system'', m_min_args = 0, m_max_args = 0, m_supported = OPT_MONITOR OR OPT_WAIT, m_dispatch = IoSystem\<rparr>]"

definition io_option_types :: "OptionType list" where
  "io_option_types =
     [\<lparr>option_short = ARG_MONITOR_SHORT, option_long = ''monitor'', option_flag = OPT_MONITOR\<rparr>,
      \<lparr>option_short = ARG_WAIT_SHORT, option_long = ''wait'', option_flag = OPT_WAIT\<rparr>,
      \<lparr>option_short = ARG_SWITCH_CTRL_TIMEOUT_SHORT, option_long = ''switch-timeout'', option_flag = OPT_SWITCH_CTRL_TIMEOUT\<rparr>]"

text \<open>The whole program on a command line; \<open>None\<close> while it runs.\<close>

definition io_run :: "io_env \<Rightarrow> io_event list \<Rightarrow> io_method \<Rightarrow> io_method Command \<Rightarrow> unit \<Rightarrow> (int \<times> unit) option" where
  "io_run e evs f cmd s =
     map_option (\<lambda>r. (r, ()))
       (case f of IoHelp \<Rightarrow> Some 0 | IoVersion \<Rightarrow> Some 0 | IoAgent \<Rightarrow> method_is_online_agent e evs cmd
        | IoNode \<Rightarrow> method_is_online_node e evs cmd | IoSystem \<Rightarrow> method_is_online_system e evs cmd)"

definition is_online_main :: "io_env \<Rightarrow> io_event list \<Rightarrow> (int \<times> cstring) list \<Rightarrow> string list \<Rightarrow> int option" where
  "is_online_main e evs opts rest = map_option fst (cli_main (\<lambda>s. 0) (io_run e evs) io_option_types io_methods opts rest ())"

end
