(* ===== verification/Proxy_Cli.thy ===== *)
theory Proxy_Cli
  imports Network StringUtil
begin

text \<open>\<open>bluechi-proxy\<close> (\<open>proxy/main.c\<close>): the helper a local service starts to ask the agent for a unit of another node.  The options found by \<open>getopt_long\<close>, the number of arguments and the arguments it leaves are
  given; \<open>None\<close> stands for the use of a null pointer as a string.\<close>

section \<open>The program\<close>

definition parse_node_unit_opt :: "cstring \<Rightarrow> int \<times> cstring \<times> cstring" where
  "parse_node_unit_opt opt_node_unit =
     (case opt_node_unit of
        None \<Rightarrow> (- EINVAL, None, None)
      | Some s \<Rightarrow>
          (case strchr s CHR ''_'' of
             None \<Rightarrow> (- EINVAL, None, None)
           | Some split \<Rightarrow>
               if split = s then (- EINVAL, None, None)
               else if tl split = [] then (- EINVAL, None, None)
               else (0, Some (take (length s - length split) s), Some (tl split))))"

text \<open>The options: the result, whether \<open>--user\<close> was given, the operation and its argument.\<close>

fun proxy_options :: "char list \<Rightarrow> bool \<Rightarrow> int \<times> bool" where
  "proxy_options [] user = (0, user)"
| "proxy_options (opt # opts) user =
     (if opt = CHR ''h'' \<or> opt = CHR ''v'' then (1, user)
      else if opt = CHR ''u'' then proxy_options opts True
      else (- EINVAL, user))"

definition get_opts :: "char list \<Rightarrow> nat \<Rightarrow> string list \<Rightarrow> (int \<times> bool \<times> cstring \<times> cstring) option" where
  "get_opts opts argc rest =
     (let (r, user) = proxy_options opts False
      in if r \<noteq> 0 then Some (r, user, None, None)
         else if argc < 3 then Some (- EINVAL, user, None, None)
         else (case rest of
                 [] \<Rightarrow> None
               | operation # args \<Rightarrow>
                   let arg = (case args of [] \<Rightarrow> None | a # _ \<Rightarrow> Some a)
                   in if \<not> streqi operation ''create'' \<and> \<not> streqi operation ''remove'' then Some (- EINVAL, user, Some operation, arg)
                      else Some (0, user, Some operation, arg)))"

text \<open>The call of the agent: method, name of the local service, node and unit.\<close>

type_synonym proxy_call = "string \<times> string \<times> string \<times> string"

record proxy_env =
  p_ret :: "bus_call \<Rightarrow> int"
  p_event :: int
  p_user_api :: bool
  p_call :: "proxy_call \<Rightarrow> int"

text \<open>A null string is appended to a message as the empty string.\<close>

definition call_proxy_method :: "proxy_env \<Rightarrow> string \<Rightarrow> cstring \<Rightarrow> cstring \<Rightarrow> cstring \<Rightarrow> (int \<times> proxy_call) option" where
  "call_proxy_method e meth service_name node_name unit_name =
     (case service_name of
        None \<Rightarrow> None
      | Some s \<Rightarrow>
          let c = (meth, strcat_dup ''bluechi-proxy@'' s, (case node_name of None \<Rightarrow> [] | Some n \<Rightarrow> n),
                   (case unit_name of None \<Rightarrow> [] | Some u \<Rightarrow> u))
          in Some (if p_call e c < 0 then p_call e c else 0, c))"

text \<open>The exit code and the calls that were made.\<close>

definition proxy_main :: "proxy_env \<Rightarrow> char list \<Rightarrow> nat \<Rightarrow> string list \<Rightarrow> (int \<times> proxy_call list) option" where
  "proxy_main e opts argc rest =
     (case get_opts opts argc rest of
        None \<Rightarrow> None
      | Some (r, user, operation, arg) \<Rightarrow>
          if r < 0 then Some (1, [])
          else if 0 < r then Some (0, [])
          else
            let (_, node_name, unit_name) = parse_node_unit_opt arg
            in if p_event e < 0 then Some (1, [])
               else if \<not> (if user \<or> p_user_api e then user_bus_open (p_ret e) else system_bus_open (p_ret e)) then Some (1, [])
               else (case operation of
                       None \<Rightarrow> None
                     | Some opn \<Rightarrow>
                         (case call_proxy_method e (if streqi opn ''create'' then ''CreateProxy'' else ''RemoveProxy'') arg node_name unit_name of
                            None \<Rightarrow> None
                          | Some (r, c) \<Rightarrow> Some (if r < 0 then 1 else 0, [c]))))"

section \<open>Node and unit\<close>

lemma parse_node_unit:
  assumes "node \<noteq> []" "CHR ''_'' \<notin> set node" "unit \<noteq> []"
  shows "parse_node_unit_opt (Some (node @ ''_'' @ unit)) = (0, Some node, Some unit)"
  using assms strchr_append [OF assms(2), of unit] by (auto simp: parse_node_unit_opt_def)

lemma parse_node_unit_iff:
  "fst (parse_node_unit_opt (Some s)) = 0 \<longleftrightarrow>
     (\<exists>node unit. s = node @ ''_'' @ unit \<and> node \<noteq> [] \<and> CHR ''_'' \<notin> set node \<and> unit \<noteq> [])"
proof
  assume r: "fst (parse_node_unit_opt (Some s)) = 0"
  then obtain t where t: "strchr s CHR ''_'' = Some t" "t \<noteq> s" "tl t \<noteq> []"
    by (auto simp: parse_node_unit_opt_def EINVAL_def split: option.splits if_splits)
  obtain p where "s = p @ t" "CHR ''_'' \<notin> set p" "t \<noteq> []" "hd t = CHR ''_''" using strchr_SomeD [OF t(1)] by blast
  then show "\<exists>node unit. s = node @ ''_'' @ unit \<and> node \<noteq> [] \<and> CHR ''_'' \<notin> set node \<and> unit \<noteq> []"
    using t(2,3) by (intro exI [of _ p] exI [of _ "tl t"]) (cases t, auto)
next
  assume "\<exists>node unit. s = node @ ''_'' @ unit \<and> node \<noteq> [] \<and> CHR ''_'' \<notin> set node \<and> unit \<noteq> []"
  then show "fst (parse_node_unit_opt (Some s)) = 0" using parse_node_unit by fastforce
qed

definition proxy_env_ok :: "proxy_env \<Rightarrow> bool" where
  "proxy_env_ok e = ((\<forall>c. 0 \<le> p_ret e c) \<and> 0 \<le> p_event e)"

lemma bus_opened: "proxy_env_ok e \<Longrightarrow> user_bus_open (p_ret e) \<and> system_bus_open (p_ret e) \<and> \<not> p_event e < 0"
  by (auto simp: proxy_env_ok_def user_bus_open_def system_bus_open_def first_failure_iff)

lemma streqi_operations [simp]:
  "streqi ''create'' ''create''" "streqi ''remove'' ''remove''" "\<not> streqi ''remove'' ''create''"
  by code_simp+

text \<open>C27.  The helper names the node and the unit of its service.  \<open>bluechi-proxy create <node>_<unit>\<close>, with a node name
  without underscore, makes the one call \<open>CreateProxy\<close> for the service \<open>bluechi-proxy@<node>_<unit>\<close>, the node and the unit, and
  \<open>remove\<close> the call \<open>RemoveProxy\<close> for the same; the exit code says whether the call succeeded.  No other argument gives
  a node and a unit; but the result of reading it is not looked at, so that for such an argument the agent is called
  with an empty node and an empty unit.\<close>

theorem proxy_cli_calls:
  assumes "proxy_env_ok e"
  shows "(node \<noteq> [] \<and> CHR ''_'' \<notin> set node \<and> unit \<noteq> [] \<longrightarrow>
      (let call = (\<lambda>meth. (meth, ''bluechi-proxy@'' @ node @ ''_'' @ unit, node, unit)) in
       proxy_main e [] 3 [''create'', node @ ''_'' @ unit] = Some (if p_call e (call ''CreateProxy'') < 0 then 1 else 0, [call ''CreateProxy'']) \<and>
       proxy_main e [] 3 [''remove'', node @ ''_'' @ unit] = Some (if p_call e (call ''RemoveProxy'') < 0 then 1 else 0, [call ''RemoveProxy'']))) \<and>
    (\<not> (\<exists>n u. s = n @ ''_'' @ u \<and> n \<noteq> [] \<and> CHR ''_'' \<notin> set n \<and> u \<noteq> []) \<longrightarrow>
      fst (parse_node_unit_opt (Some s)) = - EINVAL \<and>
      (\<exists>k. proxy_main e [] 3 [''create'', s] = Some (k, [(''CreateProxy'', ''bluechi-proxy@'' @ s, [], [])])))"
proof (intro conjI impI)
  assume "node \<noteq> [] \<and> CHR ''_'' \<notin> set node \<and> unit \<noteq> []"
  then show "let call = (\<lambda>meth. (meth, ''bluechi-proxy@'' @ node @ ''_'' @ unit, node, unit)) in
       proxy_main e [] 3 [''create'', node @ ''_'' @ unit] = Some (if p_call e (call ''CreateProxy'') < 0 then 1 else 0, [call ''CreateProxy'']) \<and>
       proxy_main e [] 3 [''remove'', node @ ''_'' @ unit] = Some (if p_call e (call ''RemoveProxy'') < 0 then 1 else 0, [call ''RemoveProxy''])"
    using parse_node_unit [of node unit] bus_opened [OF assms]
    by (simp add: proxy_main_def get_opts_def call_proxy_method_def Let_def strcat_dup_def)
next
  assume "\<not> (\<exists>n u. s = n @ ''_'' @ u \<and> n \<noteq> [] \<and> CHR ''_'' \<notin> set n \<and> u \<noteq> [])"
  then have "fst (parse_node_unit_opt (Some s)) \<noteq> 0" using parse_node_unit_iff by blast
  then have p: "parse_node_unit_opt (Some s) = (- EINVAL, None, None)"
    by (auto simp: parse_node_unit_opt_def split: option.splits if_splits)
  then show "fst (parse_node_unit_opt (Some s)) = - EINVAL" by simp
  show "\<exists>k. proxy_main e [] 3 [''create'', s] = Some (k, [(''CreateProxy'', ''bluechi-proxy@'' @ s, [], [])])"
    using p bus_opened [OF assms] by (simp add: proxy_main_def get_opts_def call_proxy_method_def Let_def strcat_dup_def)
qed

definition example_proxy_env :: proxy_env where
  "example_proxy_env = \<lparr>p_ret = \<lambda>_. 0, p_event = 0, p_user_api = False, p_call = \<lambda>_. 1\<rparr>"

theorem proxy_cli_calls_witness:
  "proxy_main example_proxy_env [] 3 [''create'', ''pi_web.service''] =
     Some (0, [(''CreateProxy'', ''bluechi-proxy@pi_web.service'', ''pi'', ''web.service'')]) \<and>
   fst (parse_node_unit_opt (Some ''web'')) = - EINVAL"
proof -
  have "proxy_env_ok example_proxy_env" by (simp add: proxy_env_ok_def example_proxy_env_def)
  from proxy_cli_calls [OF this, of "''pi''" "''web.service''" "''web''"] show ?thesis
    by (auto simp: Let_def example_proxy_env_def Cons_eq_append_conv)
qed

end
