(* ===== verification/Client.thy ===== *)
theory Client
  imports Command Protocol BusUtil StringUtil
begin

text \<open>\<open>bluechictl\<close> (\<open>client/client.c\<close>, \<open>client/main.c\<close> and the methods in \<open>client/method-*.c\<close>).  A method calls the
  controller, reads the reply and prints; the calls it made and the lines it printed on the standard output are kept in
  the client.  A method that does not return is \<open>None\<close>.\<close>

section \<open>Calls, replies and state\<close>

datatype darg = DStr string | DBool bool | DInt int | DStrv "string list"

text \<open>A call of the controller's service: object path, interface, member and arguments.\<close>

datatype dcall = DCall string string string "darg list"

type_synonym unit_reply =
  "string \<times> string \<times> string \<times> string \<times> string \<times> string \<times> string \<times> 32 word \<times> string \<times> string"

text \<open>The replies the methods read; reading a reply of another type fails.\<close>

datatype dreply =
    DVoid
  | DText string
  | DPath string
  | DLinks "(string \<times> string \<times> string) list"
  | DInstall bool "(string \<times> string \<times> string) list"
  | DUnits "unit_reply list"
  | DNodeUnits "(string \<times> unit_reply list) list"
  | DUnitFiles "(string \<times> string) list"
  | DNodeUnitFiles "(string \<times> (string \<times> string) list) list"
  | DNodes "(string \<times> string \<times> string \<times> string) list"
  | DProps "prop_item list"
  | DTime "64 word"

text \<open>A \<open>JobRemoved\<close> signal: id, object path, node, unit and result.\<close>

type_synonym job_removed = "32 word \<times> string \<times> string \<times> string \<times> string"

record Client =
  cl_object_path :: cstring
  cl_pending_job_name :: cstring
  cl_pending_job_result :: "job_removed option"
  cl_calls :: "dcall list"
  cl_printed :: "string list"

datatype client_call = ClOpen | ClMatch string | ClNewCall string | ClAppend | ClEventDefault | ClAttach | ClSignals | ClLoop

text \<open>Signals that reach a client in its event loop; \<open>Interrupted\<close> stands for the signals that end it.\<close>

datatype client_event =
    OnUnitNew string string string
  | OnUnitRemoved string string string
  | OnUnitStateChanged string string string string string
  | OnUnitPropertiesChanged string string string "prop_item list"
  | OnStartUnitJobMetrics string string string "64 word" "64 word"
  | OnAgentJobMetrics string string string "64 word"
  | OnNodeProperties nat "prop_item list"
  | Interrupted

text \<open>The environment: the reply or the error of a call, given the calls made before it; the results of other calls; and
  what happens on the bus while the client waits for a job (for each round the result of \<open>sd_bus_process\<close>, a \<open>JobRemoved\<close>
  signal it dispatched, and the result of \<open>sd_bus_wait\<close>) or runs an event loop.  The texts of times are given.\<close>

record client_env =
  ce_call :: "dcall list \<Rightarrow> dcall \<Rightarrow> int + dreply"
  ce_ret :: "client_call \<Rightarrow> int"
  ce_bus :: "(int \<times> job_removed option \<times> int) list"
  ce_events :: "client_event list"
  ce_timestamp :: "64 word \<times> 64 word \<Rightarrow> string"
  ce_millis :: "64 word \<Rightarrow> string"

definition new_client :: Client where
  "new_client = \<lparr>cl_object_path = None, cl_pending_job_name = None, cl_pending_job_result = None, cl_calls = [], cl_printed = []\<rparr>"

definition dbus_call :: "client_env \<Rightarrow> dcall \<Rightarrow> Client \<Rightarrow> (int + dreply) \<times> Client" where
  "dbus_call e c cl = (ce_call e (cl_calls cl) c, cl\<lparr>cl_calls := cl_calls cl @ [c]\<rparr>)"

definition print_line :: "string \<Rightarrow> Client \<Rightarrow> Client" where
  "print_line l cl = cl\<lparr>cl_printed := cl_printed cl @ [l]\<rparr>"

text \<open>A call on a node: the path is kept in the client.\<close>

definition node_path :: "string \<Rightarrow> string" where
  "node_path node = assemble_object_path_string NODE_OBJECT_PATH_PREFIX node"

definition node_call :: "client_env \<Rightarrow> string \<Rightarrow> string \<Rightarrow> darg list \<Rightarrow> Client \<Rightarrow> (int + dreply) \<times> Client" where
  "node_call e node member args cl =
     dbus_call e (DCall (node_path node) NODE_INTERFACE member args) (cl\<lparr>cl_object_path := Some (node_path node)\<rparr>)"

definition controller_call :: "client_env \<Rightarrow> string \<Rightarrow> darg list \<Rightarrow> Client \<Rightarrow> (int + dreply) \<times> Client" where
  "controller_call e member args cl = dbus_call e (DCall BC_OBJECT_PATH CONTROLLER_INTERFACE member args) cl"

text \<open>The event loop: a handler takes the signals until the client is interrupted; \<open>None\<close> while it runs.\<close>

fun client_loop :: "(client_event \<Rightarrow> 's \<Rightarrow> 's) \<Rightarrow> client_event list \<Rightarrow> 's \<Rightarrow> (int \<times> 's) option" where
  "client_loop handler [] s = None"
| "client_loop handler (ev # evs) s = (if ev = Interrupted then Some (0, s) else client_loop handler evs (handler ev s))"

fun first_error :: "int list \<Rightarrow> int" where
  "first_error [] = 0"
| "first_error (r # rs) = (if r < 0 then r else first_error rs)"

definition client_start_event_loop :: "client_env \<Rightarrow> (client_event \<Rightarrow> 's \<Rightarrow> 's) \<Rightarrow> 's \<Rightarrow> (int \<times> 's) option" where
  "client_start_event_loop e handler s =
     (let r = first_error (map (ce_ret e) [ClEventDefault, ClAttach, ClSignals, ClLoop])
      in if r < 0 then Some (r, s) else client_loop handler (ce_events e) s)"

section \<open>Waiting for a job\<close>

definition match_job_removed_signal :: "job_removed \<Rightarrow> Client \<Rightarrow> int \<times> Client" where
  "match_job_removed_signal m cl =
     (case cl_pending_job_name cl of
        None \<Rightarrow> (0, cl)
      | Some name \<Rightarrow>
          let (i, job_path, node, unit, result) = m
          in if name = job_path then (1, cl\<lparr>cl_pending_job_result := Some m\<rparr>) else (0, cl))"

fun wait_rounds :: "(int \<times> job_removed option \<times> int) list \<Rightarrow> Client \<Rightarrow> (job_removed option \<times> Client) option" where
  "wait_rounds [] cl = None"
| "wait_rounds ((r, m, w) # rounds) cl =
     (let cl1 = (case m of None \<Rightarrow> cl | Some s \<Rightarrow> snd (match_job_removed_signal s cl))
      in if r < 0 then Some (None, cl1)
         else case cl_pending_job_result cl1 of
                Some res \<Rightarrow> Some (Some res, cl1\<lparr>cl_pending_job_result := None\<rparr>)
              | None \<Rightarrow>
                  if 0 < r then wait_rounds rounds cl1
                  else if w < 0 then Some (None, cl1)
                  else wait_rounds rounds cl1)"

text \<open>The outer \<open>option\<close> is the failure of the assertion, or that the client still waits.\<close>

definition client_wait_for_job :: "client_env \<Rightarrow> string \<Rightarrow> Client \<Rightarrow> (job_removed option \<times> Client) option" where
  "client_wait_for_job e object_path cl =
     (if cl_pending_job_name cl \<noteq> None then None
      else wait_rounds (ce_bus e) (cl\<lparr>cl_pending_job_name := Some object_path\<rparr>))"

text \<open>Reading a value of another type fails.\<close>

definition ENXIO_read :: int where "ENXIO_read = - 6"

definition method_lifecycle_action_on :: "client_env \<Rightarrow> string \<Rightarrow> string \<Rightarrow> string \<Rightarrow> Client \<Rightarrow> (int \<times> Client) option" where
  "method_lifecycle_action_on e node unit meth cl =
     (let cl1 = cl\<lparr>cl_object_path := Some (node_path node)\<rparr>
      in if ce_ret e (ClMatch ''JobRemoved'') < 0 then Some (ce_ret e (ClMatch ''JobRemoved''), cl1)
         else case node_call e node meth [DStr unit, DStr ''replace''] cl1 of
                (Inl r, cl2) \<Rightarrow> Some (r, cl2)
              | (Inr (DPath job_path), cl2) \<Rightarrow>
                  (case client_wait_for_job e job_path cl2 of
                     None \<Rightarrow> None
                   | Some (None, cl3) \<Rightarrow> Some (- EIO, cl3)
                   | Some (Some (i, path, n, u, result), cl3) \<Rightarrow>
                       Some (1, print_line (''Unit '' @ u @ '' '' @ meth @ '' operation result: '' @ result) cl3))
              | (Inr _, cl2) \<Rightarrow> Some (ENXIO_read, cl2))"

section \<open>Methods on a node\<close>

text \<open>A call whose reply is not read.\<close>

definition simple_call :: "(int + dreply) \<times> Client \<Rightarrow> (Client \<Rightarrow> Client) \<Rightarrow> int \<times> Client" where
  "simple_call res finish = (case res of (Inl r, cl) \<Rightarrow> (r, cl) | (Inr rep, cl) \<Rightarrow> (0, finish cl))"

definition method_freeze_unit_on :: "client_env \<Rightarrow> string \<Rightarrow> string \<Rightarrow> Client \<Rightarrow> int \<times> Client" where
  "method_freeze_unit_on e node unit cl =
     simple_call (node_call e node ''FreezeUnit'' [DStr unit] cl) (print_line (''Unit '' @ unit @ '' freeze operation done''))"

definition method_thaw_unit_on :: "client_env \<Rightarrow> string \<Rightarrow> string \<Rightarrow> Client \<Rightarrow> int \<times> Client" where
  "method_thaw_unit_on e node unit cl =
     simple_call (node_call e node ''ThawUnit'' [DStr unit] cl) (print_line (''Unit '' @ unit @ '' thaw operation done''))"

definition method_daemon_reload_on :: "client_env \<Rightarrow> string \<Rightarrow> Client \<Rightarrow> int \<times> Client" where
  "method_daemon_reload_on e node cl = simple_call (node_call e node ''Reload'' [] cl) (\<lambda>cl. cl)"

definition method_kill_unit_on :: "client_env \<Rightarrow> string \<Rightarrow> string \<Rightarrow> string \<Rightarrow> 32 word \<Rightarrow> Client \<Rightarrow> int \<times> Client" where
  "method_kill_unit_on e node unit whom sig cl =
     simple_call (node_call e node ''KillUnit'' [DStr unit, DStr whom, DInt (sint sig)] cl) (\<lambda>cl. cl)"

definition whom_values :: "string list" where "whom_values = [''all'', ''control'', ''main'']"

definition is_whom_value_valid :: "string \<Rightarrow> bool" where
  "is_whom_value_valid v = (v \<in> set whom_values)"

definition method_is_enabled_on :: "client_env \<Rightarrow> string \<Rightarrow> string \<Rightarrow> Client \<Rightarrow> int \<times> Client" where
  "method_is_enabled_on e node unit_file cl =
     (case node_call e node ''GetUnitFileState'' [DStr unit_file] cl of
        (Inl r, cl1) \<Rightarrow> (r, cl1)
      | (Inr (DText state), cl1) \<Rightarrow>
          (if state \<in> {''enabled'', ''enabled-runtime'', ''static'', ''alias'', ''indirect'', ''generated''} then 0 else - 1,
           print_line state cl1)
      | (Inr _, cl1) \<Rightarrow> (ENXIO_read, cl1))"

definition method_set_loglevel_on :: "client_env \<Rightarrow> cstring \<Rightarrow> string \<Rightarrow> Client \<Rightarrow> int \<times> Client" where
  "method_set_loglevel_on e node loglevel cl =
     simple_call (case node of
        Some n \<Rightarrow> dbus_call e (DCall (node_path n) NODE_INTERFACE ''SetLogLevel'' [DStr loglevel]) cl
      | None \<Rightarrow> controller_call e ''SetLogLevel'' [DStr loglevel] cl) (\<lambda>cl. cl)"

definition method_get_default_target_on :: "client_env \<Rightarrow> string \<Rightarrow> Client \<Rightarrow> int \<times> Client" where
  "method_get_default_target_on e node cl =
     (case node_call e node ''GetDefaultTarget'' [] cl of
        (Inl r, cl1) \<Rightarrow> (r, cl1)
      | (Inr (DText target), cl1) \<Rightarrow> (1, print_line target cl1)
      | (Inr _, cl1) \<Rightarrow> (ENXIO_read, cl1))"

definition method_set_default_target_on :: "client_env \<Rightarrow> string \<Rightarrow> string \<Rightarrow> bool \<Rightarrow> Client \<Rightarrow> int \<times> Client" where
  "method_set_default_target_on e node target force cl =
     (case node_call e node ''SetDefaultTarget'' [DStr target, DBool force] cl of
        (Inl r, cl1) \<Rightarrow> (r, cl1)
      | (Inr (DLinks ls), cl1) \<Rightarrow>
          (0, print_line (''['' @ concat (map (\<lambda>(a, b, c). ''('' @ a @ '' '' @ b @ '' '' @ c @ ''),'') ls) @ '']'') cl1)
      | (Inr _, cl1) \<Rightarrow> (ENXIO_read, cl1))"

text \<open>The changes of links are printed on the error output.\<close>

definition method_enable_unit_on :: "client_env \<Rightarrow> string \<Rightarrow> string list \<Rightarrow> bool \<Rightarrow> bool \<Rightarrow> Client \<Rightarrow> int \<times> Client" where
  "method_enable_unit_on e node units runtime force cl =
     (let cl1 = cl\<lparr>cl_object_path := Some (node_path node)\<rparr>
      in if ce_ret e (ClNewCall ''EnableUnitFiles'') < 0 then (ce_ret e (ClNewCall ''EnableUnitFiles''), cl1)
         else if ce_ret e ClAppend < 0 then (ce_ret e ClAppend, cl1)
         else case node_call e node ''EnableUnitFiles'' [DStrv units, DBool runtime, DBool force] cl1 of
                (Inl r, cl2) \<Rightarrow> (r, cl2)
              | (Inr (DInstall carries ls), cl2) \<Rightarrow> (0, cl2)
              | (Inr _, cl2) \<Rightarrow> (ENXIO_read, cl2))"

definition method_disable_unit_on :: "client_env \<Rightarrow> string \<Rightarrow> string list \<Rightarrow> bool \<Rightarrow> Client \<Rightarrow> int \<times> Client" where
  "method_disable_unit_on e node units runtime cl =
     (let cl1 = cl\<lparr>cl_object_path := Some (node_path node)\<rparr>
      in if ce_ret e (ClNewCall ''DisableUnitFiles'') < 0 then (ce_ret e (ClNewCall ''DisableUnitFiles''), cl1)
         else if ce_ret e ClAppend < 0 then (ce_ret e ClAppend, cl1)
         else case node_call e node ''DisableUnitFiles'' [DStrv units, DBool runtime] cl1 of
                (Inl r, cl2) \<Rightarrow> (r, cl2)
              | (Inr (DLinks ls), cl2) \<Rightarrow> (0, cl2)
              | (Inr _, cl2) \<Rightarrow> (ENXIO_read, cl2))"

section \<open>Failed units\<close>

fun method_reset_failed_on_units :: "client_env \<Rightarrow> string \<Rightarrow> nat \<Rightarrow> string list \<Rightarrow> int \<Rightarrow> Client \<Rightarrow> int \<times> Client" where
  "method_reset_failed_on_units e node k [] r cl = (r, cl)"
| "method_reset_failed_on_units e node k (u # us) r cl =
     (case node_call e node ''ResetFailedUnit'' [DStr u] (print_line (decimal k @ '' '' @ u) cl) of
        (Inl r1, cl1) \<Rightarrow> (r1, cl1)
      | (Inr rep, cl1) \<Rightarrow> method_reset_failed_on_units e node (k + 1) us 0 cl1)"

definition method_reset_failed_on_node :: "client_env \<Rightarrow> string \<Rightarrow> Client \<Rightarrow> int \<times> Client" where
  "method_reset_failed_on_node e node cl = simple_call (node_call e node ''ResetFailed'' [] cl) (\<lambda>cl. cl)"

text \<open>The result of the last node is returned.\<close>

definition method_reset_failed_on_all_nodes :: "client_env \<Rightarrow> Client \<Rightarrow> int \<times> Client" where
  "method_reset_failed_on_all_nodes e cl =
     (case controller_call e ''ListNodes'' [] cl of
        (Inl r, cl1) \<Rightarrow> (r, cl1)
      | (Inr (DNodes ns), cl1) \<Rightarrow> fold (\<lambda>(n, _) (r, cl). method_reset_failed_on_node e n cl) ns (1, cl1)
      | (Inr _, cl1) \<Rightarrow> (ENXIO_read, cl1))"

text \<open>The arguments end at a null pointer.\<close>

definition method_reset_failed :: "client_env \<Rightarrow> 'm Command \<Rightarrow> Client \<Rightarrow> int \<times> Client" where
  "method_reset_failed e cmd cl =
     (case cmd_opargv cmd of
        [] \<Rightarrow> method_reset_failed_on_all_nodes e cl
      | [node] \<Rightarrow> method_reset_failed_on_node e node cl
      | node # units \<Rightarrow> method_reset_failed_on_units e node 1 units 0 (cl\<lparr>cl_object_path := Some (node_path node)\<rparr>))"

section \<open>Commands\<close>

text \<open>A method is called with as many arguments as its row of the table requires.\<close>

definition oparg :: "'m Command \<Rightarrow> nat \<Rightarrow> string" where
  "oparg cmd k = cmd_opargv cmd ! k"

definition method_start :: "client_env \<Rightarrow> 'm Command \<Rightarrow> Client \<Rightarrow> (int \<times> Client) option" where
  "method_start e cmd cl = method_lifecycle_action_on e (oparg cmd 0) (oparg cmd 1) ''StartUnit'' cl"

definition method_stop :: "client_env \<Rightarrow> 'm Command \<Rightarrow> Client \<Rightarrow> (int \<times> Client) option" where
  "method_stop e cmd cl = method_lifecycle_action_on e (oparg cmd 0) (oparg cmd 1) ''StopUnit'' cl"

definition method_restart :: "client_env \<Rightarrow> 'm Command \<Rightarrow> Client \<Rightarrow> (int \<times> Client) option" where
  "method_restart e cmd cl = method_lifecycle_action_on e (oparg cmd 0) (oparg cmd 1) ''RestartUnit'' cl"

definition method_reload :: "client_env \<Rightarrow> 'm Command \<Rightarrow> Client \<Rightarrow> (int \<times> Client) option" where
  "method_reload e cmd cl = method_lifecycle_action_on e (oparg cmd 0) (oparg cmd 1) ''ReloadUnit'' cl"

definition method_freeze :: "client_env \<Rightarrow> 'm Command \<Rightarrow> Client \<Rightarrow> int \<times> Client" where
  "method_freeze e cmd cl = method_freeze_unit_on e (oparg cmd 0) (oparg cmd 1) cl"

definition method_thaw :: "client_env \<Rightarrow> 'm Command \<Rightarrow> Client \<Rightarrow> int \<times> Client" where
  "method_thaw e cmd cl = method_thaw_unit_on e (oparg cmd 0) (oparg cmd 1) cl"

definition method_daemon_reload :: "client_env \<Rightarrow> 'm Command \<Rightarrow> Client \<Rightarrow> int \<times> Client" where
  "method_daemon_reload e cmd cl = method_daemon_reload_on e (oparg cmd 0) cl"

definition method_is_enabled :: "client_env \<Rightarrow> 'm Command \<Rightarrow> Client \<Rightarrow> int \<times> Client" where
  "method_is_enabled e cmd cl = method_is_enabled_on e (oparg cmd 0) (oparg cmd 1) cl"

definition method_get_default_target :: "client_env \<Rightarrow> 'm Command \<Rightarrow> Client \<Rightarrow> int \<times> Client" where
  "method_get_default_target e cmd cl = method_get_default_target_on e (oparg cmd 0) cl"

definition glob_systemd_target :: string where "glob_systemd_target = ''*target''"

text \<open>A unit that is no target is refused with the positive result 1.\<close>

definition method_set_default_target :: "client_env \<Rightarrow> 'm Command \<Rightarrow> Client \<Rightarrow> int \<times> Client" where
  "method_set_default_target e cmd cl =
     (if \<not> match_glob (Some (oparg cmd 1)) (Some glob_systemd_target) then (1, cl)
      else method_set_default_target_on e (oparg cmd 0) (oparg cmd 1) True cl)"

definition method_set_loglevel :: "client_env \<Rightarrow> 'm Command \<Rightarrow> Client \<Rightarrow> int \<times> Client" where
  "method_set_loglevel e cmd cl =
     (if length (cmd_opargv cmd) = 1 then method_set_loglevel_on e None (oparg cmd 0) cl
      else method_set_loglevel_on e (Some (oparg cmd 0)) (oparg cmd 1) cl)"

definition ARG_FILTER_SHORT :: int where "ARG_FILTER_SHORT = 1000"
definition ARG_RUNTIME_SHORT :: int where "ARG_RUNTIME_SHORT = 1001"
definition ARG_NO_RELOAD_SHORT :: int where "ARG_NO_RELOAD_SHORT = 1002"
definition ARG_KILL_WHOM_SHORT :: int where "ARG_KILL_WHOM_SHORT = 1003"
definition ARG_SIGNAL_SHORT :: int where "ARG_SIGNAL_SHORT = 1004"
definition ARG_FORCE_SHORT :: int where "ARG_FORCE_SHORT = 102"
definition ARG_WATCH_SHORT :: int where "ARG_WATCH_SHORT = 119"

definition default_whom :: string where "default_whom = ''all''"
definition default_signal :: string where "default_signal = ''15''"

definition method_kill :: "client_env \<Rightarrow> 'm Command \<Rightarrow> Client \<Rightarrow> int \<times> Client" where
  "method_kill e cmd cl =
     (let whom = (case command_get_option cmd ARG_KILL_WHOM_SHORT of None \<Rightarrow> default_whom | Some w \<Rightarrow> w);
          signal = (case command_get_option cmd ARG_SIGNAL_SHORT of None \<Rightarrow> default_signal | Some v \<Rightarrow> v)
      in if \<not> is_whom_value_valid whom then (- EINVAL, cl)
         else (case parse_linux_signal (Some signal) of
                 None \<Rightarrow> (- EINVAL, cl)
               | Some sig \<Rightarrow> method_kill_unit_on e (oparg cmd 0) (oparg cmd 1) whom sig cl))"

definition method_enable :: "client_env \<Rightarrow> 'm Command \<Rightarrow> Client \<Rightarrow> int \<times> Client" where
  "method_enable e cmd cl =
     (let (r, cl1) = method_enable_unit_on e (oparg cmd 0) (tl (cmd_opargv cmd)) (command_flag_exists cmd ARG_RUNTIME_SHORT)
                       (command_flag_exists cmd ARG_FORCE_SHORT) cl
      in if r < 0 then (r, cl1)
         else if \<not> command_flag_exists cmd ARG_NO_RELOAD_SHORT then method_daemon_reload e cmd cl1
         else (r, cl1))"

text \<open>A failure is only printed; the result is the one of the reload that follows.\<close>

definition method_disable :: "client_env \<Rightarrow> 'm Command \<Rightarrow> Client \<Rightarrow> int \<times> Client" where
  "method_disable e cmd cl =
     (let (r, cl1) = method_disable_unit_on e (oparg cmd 0) (tl (cmd_opargv cmd)) (command_flag_exists cmd ARG_RUNTIME_SHORT) cl
      in if \<not> command_flag_exists cmd ARG_NO_RELOAD_SHORT then method_daemon_reload e cmd cl1
         else (r, cl1))"

section \<open>What a job returns\<close>

text \<open>The \<open>JobRemoved\<close> signals of the rounds, and rounds in which the bus works.\<close>

definition job_signals :: "(int \<times> job_removed option \<times> int) list \<Rightarrow> job_removed list" where
  "job_signals rounds = List.map_filter (\<lambda>(r, m, w). m) rounds"

definition job_path_of :: "job_removed \<Rightarrow> string" where
  "job_path_of m = fst (snd m)"

definition rounds_ok :: "(int \<times> job_removed option \<times> int) list \<Rightarrow> bool" where
  "rounds_ok rounds = (\<forall>(r, m, w) \<in> set rounds. 0 \<le> r \<and> 0 \<le> w)"

lemma job_signals_simps [simp]:
  "job_signals [] = []" "job_signals ((r, None, w) # rounds) = job_signals rounds"
  "job_signals ((r, Some m, w) # rounds) = m # job_signals rounds"
  by (simp_all add: job_signals_def map_filter_simps)

lemma wait_rounds_finds:
  assumes "cl_pending_job_name cl = Some path" "cl_pending_job_result cl = None" "rounds_ok rounds"
  shows "wait_rounds rounds cl =
    map_option (\<lambda>m. (Some m, cl)) (find (\<lambda>m. job_path_of m = path) (job_signals rounds))"
  using assms(3)
proof (induction rounds)
  case (Cons x rounds)
  obtain r m w where x: "x = (r, m, w)" by (cases x)
  have r: "\<not> r < 0" "\<not> w < 0" and IH: "wait_rounds rounds cl = map_option (\<lambda>m. (Some m, cl)) (find (\<lambda>m. job_path_of m = path) (job_signals rounds))"
    using Cons by (auto simp: x rounds_ok_def)
  show ?case
  proof (cases m)
    case None
    then show ?thesis using assms(1,2) r IH by (simp add: x)
  next
    case (Some s)
    obtain i p n u res where s: "s = (i, p, n, u, res)" by (cases s)
    show ?thesis using assms(1,2) r IH by (auto simp: x Some s match_job_removed_signal_def job_path_of_def)
  qed
qed simp

text \<open>A bus that fails before the signal.\<close>

lemma wait_rounds_fails:
  assumes "cl_pending_job_name cl = Some path" "cl_pending_job_result cl = None" "rounds_ok rounds" "r < 0"
    "path \<notin> job_path_of ` set (job_signals (rounds @ [(r, m, w)]))"
  shows "wait_rounds (rounds @ (r, m, w) # rest) cl = Some (None, cl)"
  using assms(3,5)
proof (induction rounds)
  case Nil
  then show ?case using assms(1,4) by (cases m) (auto simp: match_job_removed_signal_def job_path_of_def split: prod.splits)
next
  case (Cons x rounds)
  obtain r' m' w' where x: "x = (r', m', w')" by (cases x)
  have "rounds_ok rounds" "path \<notin> job_path_of ` set (job_signals (rounds @ [(r, m, w)]))" "\<not> r' < 0" "\<not> w' < 0"
    using Cons.prems by (auto simp: x rounds_ok_def) (cases m'; auto)
  moreover have "snd (match_job_removed_signal s cl) = cl" if "m' = Some s" for s
    using Cons.prems(2) that assms(1) by (auto simp: x match_job_removed_signal_def job_path_of_def split: prod.splits)
  ultimately show ?case using Cons.IH assms(2) by (cases m') (simp_all add: x)
qed

lemma lifecycle_reports:
  assumes "\<not> ce_ret e (ClMatch ''JobRemoved'') < 0" "cl_pending_job_name cl = None" "cl_pending_job_result cl = None"
    "c = DCall (node_path node) NODE_INTERFACE meth [DStr unit, DStr ''replace'']"
    "ce_call e (cl_calls cl) c = Inr (DPath job)"
  shows "rounds_ok (ce_bus e) \<Longrightarrow> method_lifecycle_action_on e node unit meth cl =
      map_option (\<lambda>(i, p, n, u, res). (1, cl\<lparr>cl_object_path := Some (node_path node), cl_calls := cl_calls cl @ [c],
          cl_pending_job_name := Some job,
          cl_printed := cl_printed cl @ [''Unit '' @ u @ '' '' @ meth @ '' operation result: '' @ res]\<rparr>))
        (find (\<lambda>m. job_path_of m = job) (job_signals (ce_bus e)))" (is "_ \<Longrightarrow> ?reports")
    and "ce_bus e = rounds @ (r, m, w) # rest \<Longrightarrow> rounds_ok rounds \<Longrightarrow> r < 0 \<Longrightarrow>
      job \<notin> job_path_of ` set (job_signals (rounds @ [(r, m, w)])) \<Longrightarrow>
      map_option fst (method_lifecycle_action_on e node unit meth cl) = Some (- EIO)"
proof -
  define cl2 where "cl2 = cl\<lparr>cl_object_path := Some (node_path node), cl_calls := cl_calls cl @ [c], cl_pending_job_name := Some job\<rparr>"
  have call: "method_lifecycle_action_on e node unit meth cl =
      (case wait_rounds (ce_bus e) cl2 of
         None \<Rightarrow> None
       | Some (None, cl3) \<Rightarrow> Some (- EIO, cl3)
       | Some (Some (i, path, n, u, result), cl3) \<Rightarrow>
           Some (1, print_line (''Unit '' @ u @ '' '' @ meth @ '' operation result: '' @ result) cl3))"
    using assms by (simp add: method_lifecycle_action_on_def node_call_def dbus_call_def client_wait_for_job_def cl2_def)
  have p: "cl_pending_job_name cl2 = Some job" "cl_pending_job_result cl2 = None" using assms(3) by (simp_all add: cl2_def)
  show ?reports if "rounds_ok (ce_bus e)"
    using wait_rounds_finds [OF p that]
    by (cases "find (\<lambda>m. job_path_of m = job) (job_signals (ce_bus e))") (auto simp: call print_line_def cl2_def)
  show "map_option fst (method_lifecycle_action_on e node unit meth cl) = Some (- EIO)"
    if "ce_bus e = rounds @ (r, m, w) # rest" "rounds_ok rounds" "r < 0"
      "job \<notin> job_path_of ` set (job_signals (rounds @ [(r, m, w)]))"
    using wait_rounds_fails [OF p that(2-4)] by (simp add: call that(1))
qed

end
