(* ===== verification/Client_Lists.thy ===== *)
theory Client_Lists
  imports Client
begin

text \<open>The methods of \<open>bluechictl\<close> that print lists and signals: \<open>client/method-list-units.c\<close>, \<open>client/method-list-unit-files.c\<close>,
  \<open>client/method-monitor.c\<close>, \<open>client/method-metrics.c\<close>, and the readers of units in \<open>libbluechi/bus/utils.c\<close>.\<close>

section \<open>Units\<close>

record UnitInfo =
  u_node :: cstring
  u_id :: string
  u_description :: string
  u_load_state :: string
  u_active_state :: string
  u_sub_state :: string
  u_following :: string
  u_unit_path :: string
  u_job_id :: "32 word"
  u_job_type :: string
  u_job_path :: string

record UnitFileInfo =
  f_node :: cstring
  f_unit_path :: string
  f_enablement_status :: string

fun bus_parse_unit_info :: "unit_reply \<Rightarrow> UnitInfo" where
  "bus_parse_unit_info (i, description, load_state, active_state, sub_state, following, unit_path, job_id, job_type, job_path) =
     \<lparr>u_node = None, u_id = i, u_description = description, u_load_state = load_state, u_active_state = active_state,
      u_sub_state = sub_state, u_following = following, u_unit_path = unit_path, u_job_id = job_id, u_job_type = job_type,
      u_job_path = job_path\<rparr>"

fun bus_parse_unit_file_info :: "string \<times> string \<Rightarrow> UnitFileInfo" where
  "bus_parse_unit_file_info (unit_path, enablement_status) =
     \<lparr>f_node = None, f_unit_path = unit_path, f_enablement_status = enablement_status\<rparr>"

fun parse_unit_list :: "unit_reply list \<Rightarrow> string \<Rightarrow> UnitInfo list \<Rightarrow> UnitInfo list" where
  "parse_unit_list [] node_name unit_list = unit_list"
| "parse_unit_list (m # ms) node_name unit_list =
     parse_unit_list ms node_name (unit_list @ [(bus_parse_unit_info m)\<lparr>u_node := Some node_name\<rparr>])"

fun parse_unit_file_list :: "(string \<times> string) list \<Rightarrow> string \<Rightarrow> UnitFileInfo list \<Rightarrow> UnitFileInfo list" where
  "parse_unit_file_list [] node_name unit_file_list = unit_file_list"
| "parse_unit_file_list (m # ms) node_name unit_file_list =
     parse_unit_file_list ms node_name (unit_file_list @ [(bus_parse_unit_file_info m)\<lparr>f_node := Some node_name\<rparr>])"

section \<open>Tables\<close>

definition umaxl :: "nat \<Rightarrow> nat \<Rightarrow> nat" where
  "umaxl x y = (if x > y then x else y)"

text \<open>A field of \<open>printf\<close> that is padded on the right, and a line of such fields.\<close>

definition pad :: "nat \<Rightarrow> string \<Rightarrow> string" where
  "pad w s = s @ replicate (w - length s) (CHR '' '')"

definition col_sep :: string where "col_sep = '' | ''"

fun format_row :: "nat list \<Rightarrow> string list \<Rightarrow> string" where
  "format_row (w # ws) (c # cs) = pad w c @ (if ws = [] then [] else col_sep @ format_row ws cs)"
| "format_row _ _ = []"

definition node_of :: "cstring \<Rightarrow> string" where
  "node_of n = (case n of None \<Rightarrow> [] | Some s \<Rightarrow> s)"

definition unit_row :: "UnitInfo \<Rightarrow> string list" where
  "unit_row u = [node_of (u_node u), u_id u, u_active_state u, u_sub_state u]"

definition unit_file_row :: "UnitFileInfo \<Rightarrow> string list" where
  "unit_file_row f = [node_of (f_node f), f_unit_path f, f_enablement_status f]"

text \<open>The widths of the columns: those of the titles, enlarged by each row.\<close>

definition widen :: "string list \<Rightarrow> nat list \<Rightarrow> nat list" where
  "widen row ws = map2 (\<lambda>w c. umaxl w (length c)) ws row"

definition column_widths :: "string list \<Rightarrow> string list list \<Rightarrow> nat list" where
  "column_widths titles rows = fold widen rows (map length titles)"

definition line_len :: "nat list \<Rightarrow> nat" where
  "line_len ws = sum_list ws + (length ws - 1) * length col_sep"

definition glob_accepts :: "cstring \<Rightarrow> string \<Rightarrow> bool" where
  "glob_accepts glob_filter name = (glob_filter = None \<or> match_glob (Some name) glob_filter)"

definition print_unit_list_simple :: "UnitInfo list \<Rightarrow> cstring \<Rightarrow> Client \<Rightarrow> Client" where
  "print_unit_list_simple units glob_filter cl =
     (let ws = column_widths [''NODE'', ''ID'', ''ACTIVE'', ''SUB''] (map unit_row units);
          cl1 = print_line (format_row ws [''NODE'', ''ID'', ''ACTIVE'', ''SUB'']) cl;
          cl2 = print_line (replicate (line_len ws) (CHR ''='')) cl1
      in fold (\<lambda>u cl. if glob_accepts glob_filter (u_id u) then print_line (format_row ws (unit_row u)) cl else cl) units cl2)"

definition print_unit_file_list_simple :: "UnitFileInfo list \<Rightarrow> cstring \<Rightarrow> Client \<Rightarrow> Client" where
  "print_unit_file_list_simple files glob_filter cl =
     (let ws = column_widths [''NODE'', ''PATH'', ''IS-ENABLED''] (map unit_file_row files);
          cl1 = print_line (format_row ws [''NODE'', ''PATH'', ''IS-ENABLED'']) cl;
          cl2 = print_line (replicate (line_len ws) (CHR ''='')) cl1
      in fold (\<lambda>f cl. if glob_accepts glob_filter (f_unit_path f) then print_line (format_row ws (unit_file_row f)) cl else cl)
           files cl2)"

section \<open>Lists\<close>

definition method_list_units_on_all :: "client_env \<Rightarrow> cstring \<Rightarrow> Client \<Rightarrow> int \<times> Client" where
  "method_list_units_on_all e glob_filter cl =
     (case controller_call e ''ListUnits'' [] cl of
        (Inl r, cl1) \<Rightarrow> (r, cl1)
      | (Inr (DNodeUnits nodes), cl1) \<Rightarrow>
          (0, print_unit_list_simple (fold (\<lambda>(node, ms). parse_unit_list ms node) nodes []) glob_filter cl1)
      | (Inr _, cl1) \<Rightarrow> (ENXIO_read, cl1))"

definition method_list_units_on :: "client_env \<Rightarrow> string \<Rightarrow> cstring \<Rightarrow> Client \<Rightarrow> int \<times> Client" where
  "method_list_units_on e node glob_filter cl =
     (case dbus_call e (DCall (node_path node) NODE_INTERFACE ''ListUnits'' []) cl of
        (Inl r, cl1) \<Rightarrow> (r, cl1)
      | (Inr (DUnits ms), cl1) \<Rightarrow> (0, print_unit_list_simple (parse_unit_list ms node []) glob_filter cl1)
      | (Inr _, cl1) \<Rightarrow> (ENXIO_read, cl1))"

definition method_list_units :: "client_env \<Rightarrow> 'm Command \<Rightarrow> Client \<Rightarrow> int \<times> Client" where
  "method_list_units e cmd cl =
     (if cmd_opargv cmd = [] then method_list_units_on_all e (command_get_option cmd ARG_FILTER_SHORT) cl
      else method_list_units_on e (oparg cmd 0) (command_get_option cmd ARG_FILTER_SHORT) cl)"

definition method_list_unit_files_on_all :: "client_env \<Rightarrow> cstring \<Rightarrow> Client \<Rightarrow> int \<times> Client" where
  "method_list_unit_files_on_all e glob_filter cl =
     (case controller_call e ''ListUnitFiles'' [] cl of
        (Inl r, cl1) \<Rightarrow> (r, cl1)
      | (Inr (DNodeUnitFiles nodes), cl1) \<Rightarrow>
          (0, print_unit_file_list_simple (fold (\<lambda>(node, ms). parse_unit_file_list ms node) nodes []) glob_filter cl1)
      | (Inr _, cl1) \<Rightarrow> (ENXIO_read, cl1))"

definition method_list_unit_files_on :: "client_env \<Rightarrow> string \<Rightarrow> cstring \<Rightarrow> Client \<Rightarrow> int \<times> Client" where
  "method_list_unit_files_on e node glob_filter cl =
     (case dbus_call e (DCall (node_path node) NODE_INTERFACE ''ListUnitFiles'' []) cl of
        (Inl r, cl1) \<Rightarrow> (r, cl1)
      | (Inr (DUnitFiles ms), cl1) \<Rightarrow> (0, print_unit_file_list_simple (parse_unit_file_list ms node []) glob_filter cl1)
      | (Inr _, cl1) \<Rightarrow> (ENXIO_read, cl1))"

definition method_list_unit_files :: "client_env \<Rightarrow> 'm Command \<Rightarrow> Client \<Rightarrow> int \<times> Client" where
  "method_list_unit_files e cmd cl =
     (if cmd_opargv cmd = [] then method_list_unit_files_on_all e (command_get_option cmd ARG_FILTER_SHORT) cl
      else method_list_unit_files_on e (oparg cmd 0) (command_get_option cmd ARG_FILTER_SHORT) cl)"

section \<open>Monitor\<close>

definition TAB :: string where "TAB = [CHR 0x09]"

definition print_head :: "string \<Rightarrow> string \<Rightarrow> Client \<Rightarrow> Client" where
  "print_head node unit = print_line (''['' @ node @ ''] '' @ unit)"

text \<open>The loop over the changed properties leaves the value of a string but not its entry, so it ends after the first
  property that is a string; other properties are skipped.\<close>

fun print_properties :: "prop_item list \<Rightarrow> Client \<Rightarrow> Client" where
  "print_properties [] cl = cl"
| "print_properties (BrokenItem r # items) cl = cl"
| "print_properties (PropItem key v # items) cl =
     (case v of VString value \<Rightarrow> print_line (TAB @ key @ '': '' @ value) cl | _ \<Rightarrow> print_properties items cl)"

definition on_unit_new_signal :: "string \<Rightarrow> string \<Rightarrow> string \<Rightarrow> Client \<Rightarrow> Client" where
  "on_unit_new_signal node unit reason cl =
     print_line (TAB @ ''Unit created (reason: '' @ reason @ '')'') (print_head node unit cl)"

definition on_unit_removed_signal :: "string \<Rightarrow> string \<Rightarrow> string \<Rightarrow> Client \<Rightarrow> Client" where
  "on_unit_removed_signal node unit reason cl =
     print_line (TAB @ ''Unit removed (reason: '' @ reason @ '')'') (print_head node unit cl)"

definition on_unit_state_changed_signal :: "string \<Rightarrow> string \<Rightarrow> string \<Rightarrow> string \<Rightarrow> string \<Rightarrow> Client \<Rightarrow> Client" where
  "on_unit_state_changed_signal node unit active sub reason cl =
     print_line (TAB @ ''Active: '' @ active @ '' ('' @ sub @ '')'')
       (print_line (TAB @ ''Unit state changed (reason: '' @ reason @ '')'') (print_head node unit cl))"

definition on_unit_properties_changed_signal :: "string \<Rightarrow> string \<Rightarrow> string \<Rightarrow> prop_item list \<Rightarrow> Client \<Rightarrow> Client" where
  "on_unit_properties_changed_signal node unit intf items cl =
     print_properties items
       (print_line (TAB @ ''Unit properties changed (Interface: '' @ intf @ '')'') (print_head node unit cl))"

fun monitor_handler :: "client_event \<Rightarrow> Client \<Rightarrow> Client" where
  "monitor_handler (OnUnitNew node unit reason) cl = on_unit_new_signal node unit reason cl"
| "monitor_handler (OnUnitRemoved node unit reason) cl = on_unit_removed_signal node unit reason cl"
| "monitor_handler (OnUnitStateChanged node unit active sub reason) cl = on_unit_state_changed_signal node unit active sub reason cl"
| "monitor_handler (OnUnitPropertiesChanged node unit intf items) cl = on_unit_properties_changed_signal node unit intf items cl"
| "monitor_handler _ cl = cl"

definition print_subscribing :: "string \<Rightarrow> string \<Rightarrow> Client \<Rightarrow> Client" where
  "print_subscribing node unit = print_line (''Subscribing to node '' @ [CHR 0x27] @ node @ [CHR 0x27] @ '' and unit '' @ [CHR 0x27] @ unit @ [CHR 0x27])"

definition method_monitor_units_on_nodes :: "client_env \<Rightarrow> string \<Rightarrow> string \<Rightarrow> Client \<Rightarrow> (int \<times> Client) option" where
  "method_monitor_units_on_nodes e node units cl =
     (case controller_call e ''CreateMonitor'' [] cl of
        (Inl r, cl1) \<Rightarrow> Some (r, cl1)
      | (Inr (DPath monitor_path), cl1) \<Rightarrow>
          let cl2 = print_line (''Monitor path: '' @ monitor_path) cl1;
              r = first_error (map (ce_ret e) [ClMatch ''UnitNew'', ClMatch ''UnitRemoved'', ClMatch ''UnitStateChanged'',
                    ClMatch ''UnitPropertiesChanged'', ClNewCall ''SubscribeList'', ClAppend])
          in if r < 0 then Some (r, cl2)
             else
               let cl3 = fold (print_subscribing node) (tokens units) cl2
               in (case dbus_call e (DCall monitor_path MONITOR_INTERFACE ''SubscribeList'' [DStr node, DStrv (tokens units)]) cl3 of
                     (Inl r, cl4) \<Rightarrow> Some (r, cl4)
                   | (Inr _, cl4) \<Rightarrow> client_start_event_loop e monitor_handler cl4)
      | (Inr _, cl1) \<Rightarrow> Some (ENXIO_read, cl1))"

definition method_monitor :: "client_env \<Rightarrow> 'm Command \<Rightarrow> Client \<Rightarrow> (int \<times> Client) option" where
  "method_monitor e cmd cl =
     (case cmd_opargv cmd of
        [] \<Rightarrow> method_monitor_units_on_nodes e SYMBOL_WILDCARD SYMBOL_WILDCARD cl
      | [node] \<Rightarrow> method_monitor_units_on_nodes e node SYMBOL_WILDCARD cl
      | [node, units] \<Rightarrow> method_monitor_units_on_nodes e node units cl
      | _ \<Rightarrow> Some (- EINVAL, cl))"

section \<open>Metrics\<close>

definition method_metrics_toggle :: "client_env \<Rightarrow> string \<Rightarrow> Client \<Rightarrow> int \<times> Client" where
  "method_metrics_toggle e meth cl = simple_call (controller_call e meth [] cl) (print_line ''Done'')"

definition match_start_unit_job_metrics_signal ::
    "client_env \<Rightarrow> string \<Rightarrow> string \<Rightarrow> string \<Rightarrow> 64 word \<Rightarrow> 64 word \<Rightarrow> Client \<Rightarrow> Client" where
  "match_start_unit_job_metrics_signal e node job unit measured start cl =
     print_line (TAB @ ''Unit net start time (from properties): '' @ ce_millis e start @ ''ms'')
       (print_line (TAB @ ''BlueChi job gross measured time: '' @ ce_millis e measured @ ''ms'')
         (print_line (''['' @ node @ ''] Job '' @ job @ '' to start unit '' @ unit @ '':'') cl))"

definition match_agent_job_metrics_signal ::
    "client_env \<Rightarrow> string \<Rightarrow> string \<Rightarrow> string \<Rightarrow> 64 word \<Rightarrow> Client \<Rightarrow> Client" where
  "match_agent_job_metrics_signal e node unit meth job_time =
     print_line (''['' @ node @ ''] Agent systemd '' @ meth @ '' job on '' @ unit @ '' net measured time: '' @ ce_millis e job_time @ ''ms'')"

fun metrics_handler :: "client_env \<Rightarrow> client_event \<Rightarrow> Client \<Rightarrow> Client" where
  "metrics_handler e (OnStartUnitJobMetrics node job unit measured start) cl =
     match_start_unit_job_metrics_signal e node job unit measured start cl"
| "metrics_handler e (OnAgentJobMetrics node unit meth job_time) cl = match_agent_job_metrics_signal e node unit meth job_time cl"
| "metrics_handler e _ cl = cl"

definition method_metrics_listen :: "client_env \<Rightarrow> Client \<Rightarrow> (int \<times> Client) option" where
  "method_metrics_listen e cl =
     (let r = first_error (map (ce_ret e) [ClEventDefault, ClAttach, ClMatch ''StartUnitJobMetrics'', ClMatch ''AgentJobMetrics'', ClSignals])
      in if r < 0 then Some (r, cl)
         else let cl1 = print_line ''Waiting for metrics signals...'' cl
              in if ce_ret e ClLoop < 0 then Some (ce_ret e ClLoop, cl1)
                 else client_loop (metrics_handler e) (ce_events e) cl1)"

definition method_metrics :: "client_env \<Rightarrow> 'm Command \<Rightarrow> Client \<Rightarrow> (int \<times> Client) option" where
  "method_metrics e cmd cl =
     (if oparg cmd 0 = ''enable'' then Some (method_metrics_toggle e ''EnableMetrics'' cl)
      else if oparg cmd 0 = ''disable'' then Some (method_metrics_toggle e ''DisableMetrics'' cl)
      else if oparg cmd 0 = ''listen'' then method_metrics_listen e cl
      else Some (- EINVAL, cl))"

section \<open>The tables are aligned\<close>

lemma length_pad: "length (pad w s) = max w (length s)"
  by (simp add: pad_def)

lemma umaxl_max [simp]: "umaxl x y = max x y"
  by (simp add: umaxl_def max_def)

lemma format_row_length:
  assumes "length ws = length cs" "\<forall>(w, c) \<in> set (zip ws cs). length c \<le> w"
  shows "length (format_row ws cs) = line_len ws"
  using assms
proof (induction ws cs rule: list_induct2)
  case (Cons w ws c cs)
  then show ?case by (cases ws; cases cs) (auto simp: line_len_def length_pad max_def)
qed (simp add: line_len_def)

definition fits :: "nat list \<Rightarrow> string list \<Rightarrow> bool" where
  "fits ws row = (length row = length ws \<and> (\<forall>k < length ws. length (row ! k) \<le> ws ! k))"

lemma fits_length: "fits ws row \<Longrightarrow> length (format_row ws row) = line_len ws"
  by (rule format_row_length) (auto simp: fits_def in_set_zip)

lemma widen_fits: "length row = length ws \<Longrightarrow> fits (widen row ws) row \<and> (fits ws r \<longrightarrow> fits (widen row ws) r)"
  by (auto simp: fits_def widen_def intro: max.coboundedI1)

lemma column_widths_fit:
  assumes "\<forall>row \<in> set rows. length row = length titles" "row \<in> insert titles (set rows)"
  shows "fits (column_widths titles rows) row"
proof -
  have "length ws = length titles \<Longrightarrow> length (fold widen rows ws) = length titles \<and>
      (\<forall>r. r \<in> set rows \<or> fits ws r \<longrightarrow> fits (fold widen rows ws) r)" for ws
    using assms(1)
  proof (induction rows arbitrary: ws)
    case (Cons row rows)
    have "length (widen row ws) = length titles" using Cons.prems by (simp add: widen_def)
    from Cons.IH [OF this] show ?case using Cons.prems widen_fits [of row ws] by auto
  qed simp
  from this [of "map length titles"] show ?thesis using assms(2) by (auto simp: column_widths_def fits_def)
qed

lemma print_rows:
  "fold (\<lambda>x cl. if P x then print_line (f x) cl else cl) xs cl = cl\<lparr>cl_printed := cl_printed cl @ map f (filter P xs)\<rparr>"
  by (induction xs arbitrary: cl) (simp_all add: print_line_def)

definition table :: "string list \<Rightarrow> string list list \<Rightarrow> string list list \<Rightarrow> string list" where
  "table titles rows shown =
     (let ws = column_widths titles rows
      in format_row ws titles # replicate (line_len ws) (CHR ''='') # map (format_row ws) shown)"

lemma print_unit_list_simple_table:
  "print_unit_list_simple us g cl = cl\<lparr>cl_printed := cl_printed cl @
     table [''NODE'', ''ID'', ''ACTIVE'', ''SUB''] (map unit_row us) (map unit_row (filter (\<lambda>u. glob_accepts g (u_id u)) us))\<rparr>"
  by (simp add: print_unit_list_simple_def print_rows table_def Let_def print_line_def)

lemma print_unit_file_list_simple_table:
  "print_unit_file_list_simple fs g cl = cl\<lparr>cl_printed := cl_printed cl @
     table [''NODE'', ''PATH'', ''IS-ENABLED''] (map unit_file_row fs) (map unit_file_row (filter (\<lambda>f. glob_accepts g (f_unit_path f)) fs))\<rparr>"
  by (simp add: print_unit_file_list_simple_def print_rows table_def Let_def print_line_def)

lemma table_aligned:
  assumes "\<forall>row \<in> set rows. length row = length titles" "set shown \<subseteq> set rows" "line \<in> set (table titles rows shown)"
  shows "length line = line_len (column_widths titles rows)"
  using assms column_widths_fit [OF assms(1)] fits_length by (auto simp: table_def Let_def)

lemma parse_unit_list_map:
  "parse_unit_list ms node us = us @ map (\<lambda>m. (bus_parse_unit_info m)\<lparr>u_node := Some node\<rparr>) ms"
  by (induction ms arbitrary: us) simp_all

lemma parse_unit_file_list_map:
  "parse_unit_file_list ms node fs = fs @ map (\<lambda>m. (bus_parse_unit_file_info m)\<lparr>f_node := Some node\<rparr>) ms"
  by (induction ms arbitrary: fs) simp_all

lemma parse_nodes:
  "fold (\<lambda>(node, ms). parse_unit_list ms node) nodes us =
     us @ concat (map (\<lambda>(node, ms). map (\<lambda>m. (bus_parse_unit_info m)\<lparr>u_node := Some node\<rparr>) ms) nodes)"
  by (induction nodes arbitrary: us) (auto simp: parse_unit_list_map)

text \<open>The cells of the units of all nodes, with the nodes in the order of the reply, that a filter accepts.\<close>

fun unit_cell :: "string \<Rightarrow> unit_reply \<Rightarrow> string list" where
  "unit_cell node (i, _, _, active, sub, _, _, _, _, _) = [node, i, active, sub]"

definition unit_cells :: "cstring \<Rightarrow> (string \<times> unit_reply list) list \<Rightarrow> string list list" where
  "unit_cells g nodes = concat (map (\<lambda>(node, ms). map (unit_cell node) (filter (\<lambda>m. glob_accepts g (fst m)) ms)) nodes)"

lemma unit_cells_filter:
  "map unit_row (filter (\<lambda>u. glob_accepts g (u_id u))
     (concat (map (\<lambda>(node, ms). map (\<lambda>m. (bus_parse_unit_info m)\<lparr>u_node := Some node\<rparr>) ms) nodes))) = unit_cells g nodes"
proof -
  have i: "u_id (bus_parse_unit_info m) = fst m" for m by (cases m rule: bus_parse_unit_info.cases) simp
  have r: "unit_row ((bus_parse_unit_info m)\<lparr>u_node := Some node\<rparr>) = unit_cell node m" for m node
    by (cases m rule: bus_parse_unit_info.cases) (simp add: unit_row_def node_of_def)
  have "map unit_row (filter (\<lambda>u. glob_accepts g (u_id u)) (map (\<lambda>m. (bus_parse_unit_info m)\<lparr>u_node := Some node\<rparr>) ms)) =
      map (unit_cell node) (filter (\<lambda>m. glob_accepts g (fst m)) ms)" for node ms
    by (induction ms) (auto simp: i r)
  then show ?thesis by (induction nodes) (auto simp: unit_cells_def)
qed

lemma unit_cells_all: "set (unit_cells g nodes) \<subseteq> set (unit_cells None nodes)"
  by (auto simp: unit_cells_def glob_accepts_def)

text \<open>C24.  The list of units.  \<open>bluechictl list-units\<close> makes one call of the controller and prints a title, a rule and
  one row per unit of any node that the filter accepts, in the order of the reply; all lines have the same length, no cell
  is cut, and the columns are as wide in a filtered list as in the full one.\<close>

theorem list_units_table:
  assumes "cmd_opargv cmd = []" "ce_call e (cl_calls cl) (DCall BC_OBJECT_PATH CONTROLLER_INTERFACE ''ListUnits'' []) = Inr (DNodeUnits nodes)"
  shows "\<exists>ws cl'. method_list_units e cmd cl = (0, cl') \<and>
    cl_calls cl' = cl_calls cl @ [DCall BC_OBJECT_PATH CONTROLLER_INTERFACE ''ListUnits'' []] \<and>
    cl_printed cl' = cl_printed cl @ format_row ws [''NODE'', ''ID'', ''ACTIVE'', ''SUB''] # replicate (line_len ws) (CHR ''='') #
      map (format_row ws) (unit_cells (command_get_option cmd ARG_FILTER_SHORT) nodes) \<and>
    (\<forall>line \<in> set (drop (length (cl_printed cl)) (cl_printed cl')). length line = line_len ws) \<and>
    (\<forall>row \<in> set (unit_cells None nodes). fits ws row)"
proof -
  let ?g = "command_get_option cmd ARG_FILTER_SHORT" and ?titles = "[''NODE'', ''ID'', ''ACTIVE'', ''SUB'']"
  let ?rows = "unit_cells None nodes" and ?shown = "unit_cells ?g nodes"
  define us where "us = concat (map (\<lambda>(node, ms). map (\<lambda>m. (bus_parse_unit_info m)\<lparr>u_node := Some node\<rparr>) ms) nodes)"
  have rows: "map unit_row us = ?rows" "map unit_row (filter (\<lambda>u. glob_accepts ?g (u_id u)) us) = ?shown"
    using unit_cells_filter [of None nodes] unit_cells_filter [of ?g nodes] by (simp_all add: us_def glob_accepts_def)
  have four: "\<forall>row \<in> set ?rows. length row = length ?titles"
    unfolding rows(1) [symmetric] by (simp add: unit_row_def)
  have run: "method_list_units e cmd cl = (0, cl\<lparr>cl_calls := cl_calls cl @ [DCall BC_OBJECT_PATH CONTROLLER_INTERFACE ''ListUnits'' []],
      cl_printed := cl_printed cl @ table ?titles ?rows ?shown\<rparr>)"
    using assms parse_nodes [of nodes "[]"]
    by (simp add: method_list_units_def method_list_units_on_all_def controller_call_def dbus_call_def
        print_unit_list_simple_table rows flip: us_def)
  show ?thesis
    unfolding run using table_aligned [OF four unit_cells_all] column_widths_fit [OF four]
    by (intro exI [of _ "column_widths ?titles ?rows"] exI [of _ "cl\<lparr>cl_calls := cl_calls cl @ [DCall BC_OBJECT_PATH CONTROLLER_INTERFACE ''ListUnits'' []],
      cl_printed := cl_printed cl @ table ?titles ?rows ?shown\<rparr>"] conjI refl) (simp_all add: table_def Let_def)
qed

definition example_reply :: "(string \<times> unit_reply list) list" where
  "example_reply = [(''pi'', [(''a.service'', [], ''loaded'', ''active'', ''running'', [], [], 0, [], []),
      (''b.timer'', [], ''loaded'', ''active'', ''waiting'', [], [], 0, [], [])]), (''rpi4'', [])]"

definition quiet_env :: client_env where
  "quiet_env = \<lparr>ce_call = \<lambda>_ _. Inr DVoid, ce_ret = \<lambda>_. 0, ce_bus = [], ce_events = [], ce_timestamp = \<lambda>_. [], ce_millis = \<lambda>_. []\<rparr>"

theorem list_units_table_witness:
  "\<exists>cl'. method_list_units (quiet_env\<lparr>ce_call := \<lambda>_ _. Inr (DNodeUnits example_reply)\<rparr>) (new_command :: unit Command) new_client = (0, cl') \<and>
     length (cl_printed cl') = 4"
  using list_units_table [of "new_command :: unit Command" "quiet_env\<lparr>ce_call := \<lambda>_ _. Inr (DNodeUnits example_reply)\<rparr>" new_client example_reply]
  by (fastforce simp: new_command_def new_client_def command_get_option_def unit_cells_def glob_accepts_def example_reply_def)

end
