(* ===== verification/Client_Status.thy ===== *)
theory Client_Status
  imports Client_Lists TimeUtil
begin

text \<open>\<open>bluechictl status\<close> (\<open>client/method-status.c\<close>): the properties of units of a node, or the states of the nodes, printed
  once or again at every change.  The sequence that clears the screen counts as a line.\<close>

section \<open>Properties of a unit\<close>

record unit_info_t =
  st_id :: cstring
  st_load_state :: cstring
  st_active_state :: cstring
  st_freezer_state :: cstring
  st_sub_state :: cstring
  st_unit_file_state :: cstring

definition no_unit_info :: unit_info_t where
  "no_unit_info = \<lparr>st_id = None, st_load_state = None, st_active_state = None, st_freezer_state = None, st_sub_state = None,
     st_unit_file_state = None\<rparr>"

text \<open>A property and the field it is stored in.\<close>

definition property_map :: "(string \<times> (cstring \<Rightarrow> unit_info_t \<Rightarrow> unit_info_t)) list" where
  "property_map =
     [(''Id'', \<lambda>v i. i\<lparr>st_id := v\<rparr>), (''LoadState'', \<lambda>v i. i\<lparr>st_load_state := v\<rparr>), (''ActiveState'', \<lambda>v i. i\<lparr>st_active_state := v\<rparr>),
      (''FreezerState'', \<lambda>v i. i\<lparr>st_freezer_state := v\<rparr>), (''SubState'', \<lambda>v i. i\<lparr>st_sub_state := v\<rparr>),
      (''UnitFileState'', \<lambda>v i. i\<lparr>st_unit_file_state := v\<rparr>)]"

definition get_property_map :: "string \<Rightarrow> (cstring \<Rightarrow> unit_info_t \<Rightarrow> unit_info_t) option" where
  "get_property_map member = map_of property_map member"

definition read_property_value :: "variant \<Rightarrow> (cstring \<Rightarrow> unit_info_t \<Rightarrow> unit_info_t) \<Rightarrow> unit_info_t \<Rightarrow> int \<times> unit_info_t" where
  "read_property_value v prop unit_info =
     (case v of
        VString s \<Rightarrow> (0, prop (if isempty (Some s) then None else Some s) unit_info)
      | _ \<Rightarrow> (- EINVAL, unit_info))"

definition process_dict_entry :: "string \<Rightarrow> variant \<Rightarrow> unit_info_t \<Rightarrow> int \<times> unit_info_t" where
  "process_dict_entry member v unit_info =
     (case get_property_map member of
        Some prop \<Rightarrow> read_property_value v prop unit_info
      | None \<Rightarrow> (0, unit_info))"

fun parse_unit_status_response_from_message :: "prop_item list \<Rightarrow> unit_info_t \<Rightarrow> int \<times> unit_info_t" where
  "parse_unit_status_response_from_message [] unit_info = (0, unit_info)"
| "parse_unit_status_response_from_message (BrokenItem r # items) unit_info = (r, unit_info)"
| "parse_unit_status_response_from_message (PropItem member v # items) unit_info =
     (let (r, unit_info1) = process_dict_entry member v unit_info
      in if r < 0 then (r, unit_info1) else parse_unit_status_response_from_message items unit_info1)"

section \<open>The table of units\<close>

definition PRINT_TAB_SIZE :: "64 word" where "PRINT_TAB_SIZE = 8"

text \<open>How often the loops of the table run; sizes are 64-bit words.\<close>

function header_steps :: "64 word \<Rightarrow> nat" where
  "header_steps i = (if PRINT_TAB_SIZE < i then Suc (header_steps (i - PRINT_TAB_SIZE)) else 0)"
  by auto
termination
  by (relation "measure unat") (auto simp: PRINT_TAB_SIZE_def unat_sub word_less_nat_alt word_le_nat_alt)

declare header_steps.simps [simp del]

definition print_info_header :: "64 word \<Rightarrow> Client \<Rightarrow> Client" where
  "print_info_header name_col_width cl =
     (let k = header_steps (PRINT_TAB_SIZE + name_col_width)
      in print_line (replicate (k * 8 + 5 * 16) (CHR ''-''))
           (print_line (''UNIT'' @ concat (replicate k TAB) @ ''| LOADED'' @ TAB @ ''| ACTIVE'' @ TAB @ ''| SUBSTATE'' @ TAB @
             ''| FREEZERSTATE'' @ TAB @ ''| ENABLED'' @ TAB @ ''|'') cl))"

text \<open>The first loop counts the tabs and leaves the rest, from which the second one counts spaces.\<close>

function tab_loop :: "64 word \<Rightarrow> nat \<times> 64 word" where
  "tab_loop i = (if PRINT_TAB_SIZE \<le> i then (let (k, j) = tab_loop (i - PRINT_TAB_SIZE) in (Suc k, j)) else (0, i))"
  by auto
termination
  by (relation "measure unat") (auto simp: PRINT_TAB_SIZE_def unat_sub word_less_nat_alt word_le_nat_alt)

declare tab_loop.simps [simp del]

function space_loop :: "64 word \<Rightarrow> nat" where
  "space_loop i = (if PRINT_TAB_SIZE < i then Suc (space_loop (i - 1)) else 0)"
  by auto
termination
  by (relation "measure unat") (auto simp: PRINT_TAB_SIZE_def unat_sub word_less_nat_alt word_le_nat_alt)

declare space_loop.simps [simp del]

text \<open>A null pointer is printed as \<open>(null)\<close>.\<close>

definition print_and_align :: "cstring \<Rightarrow> string" where
  "print_and_align x =
     ''| '' @ (case x of None \<Rightarrow> ''(null)'' | Some s \<Rightarrow> s) @ TAB @ (case x of None \<Rightarrow> [] | Some s \<Rightarrow> if length s < 6 then TAB else [])"

definition name_gap :: "cstring \<Rightarrow> 64 word \<Rightarrow> string" where
  "name_gap i name_col_width =
     (let (tabs, rest) = tab_loop (name_col_width - (case i of None \<Rightarrow> 0 | Some s \<Rightarrow> word_of_nat (length s)) + PRINT_TAB_SIZE)
      in concat (replicate tabs TAB) @ replicate (space_loop rest) (CHR '' ''))"

definition print_unit_info :: "unit_info_t \<Rightarrow> 64 word \<Rightarrow> Client \<Rightarrow> Client" where
  "print_unit_info i name_col_width cl =
     (if st_load_state i = Some ''not-found'' then cl
      else print_line ((case st_id i of None \<Rightarrow> [] | Some s \<Rightarrow> s) @ name_gap (st_id i) name_col_width @ print_and_align (st_load_state i) @
             print_and_align (st_active_state i) @ print_and_align (st_sub_state i) @ print_and_align (st_freezer_state i) @
             print_and_align (st_unit_file_state i) @ ''|'') cl)"

definition get_max_name_len :: "string list \<Rightarrow> nat" where
  "get_max_name_len units = fold (\<lambda>u m. if m > length u then m else length u) units 0"

section \<open>The status of units\<close>

definition get_status_unit_on :: "client_env \<Rightarrow> string \<Rightarrow> string \<Rightarrow> 64 word \<Rightarrow> Client \<Rightarrow> int \<times> Client" where
  "get_status_unit_on e node unit name_col_width cl =
     (let cl1 = cl\<lparr>cl_object_path := Some (node_path node)\<rparr>;
          r = first_error [ce_ret e (ClNewCall ''GetUnitProperties''), ce_ret e ClAppend]
      in if r < 0 then (r, cl1)
         else case node_call e node ''GetUnitProperties'' [DStr unit, DStr []] cl1 of
                (Inl r, cl2) \<Rightarrow> (r, cl2)
              | (Inr (DProps items), cl2) \<Rightarrow>
                  let (r, unit_info) = parse_unit_status_response_from_message items no_unit_info
                  in if r < 0 then (r, cl2) else (0, print_unit_info unit_info name_col_width cl2)
              | (Inr _, cl2) \<Rightarrow> (ENXIO_read, cl2))"

definition clear_screen :: "Client \<Rightarrow> Client" where
  "clear_screen = print_line (CHR 0x1B # ''[2J'' @ CHR 0x1B # ''[0;0H'')"

fun get_status_units :: "client_env \<Rightarrow> string \<Rightarrow> 64 word \<Rightarrow> string list \<Rightarrow> Client \<Rightarrow> int \<times> Client" where
  "get_status_units e node w [] cl = (0, cl)"
| "get_status_units e node w (u # us) cl =
     (let (r, cl1) = get_status_unit_on e node u w cl in if r < 0 then (r, cl1) else get_status_units e node w us cl1)"

definition on_unit_status_changed :: "client_env \<Rightarrow> string \<Rightarrow> string list \<Rightarrow> 64 word \<Rightarrow> Client \<Rightarrow> int \<times> Client" where
  "on_unit_status_changed e node units max_len cl =
     (let (r, cl1) = get_status_units e node max_len units (print_info_header max_len (clear_screen cl))
      in if r < 0 then (r, cl1) else (1, cl1))"

text \<open>Each watched unit gets a monitor of its own.\<close>

definition watch_unit :: "client_env \<Rightarrow> string \<Rightarrow> string \<Rightarrow> Client \<Rightarrow> int \<times> Client" where
  "watch_unit e node unit cl =
     (case controller_call e ''CreateMonitor'' [] cl of
        (Inl r, cl1) \<Rightarrow> (r, cl1)
      | (Inr (DPath monitor_path), cl1) \<Rightarrow>
          let r = first_error [ce_ret e (ClMatch ''UnitStateChanged''), ce_ret e (ClNewCall ''Subscribe'')]
          in if r < 0 then (r, cl1)
             else (case dbus_call e (DCall monitor_path MONITOR_INTERFACE ''Subscribe'' [DStr node, DStr unit]) cl1 of
                     (Inl r, cl2) \<Rightarrow> (r, cl2)
                   | (Inr _, cl2) \<Rightarrow> (0, cl2))
      | (Inr _, cl1) \<Rightarrow> (ENXIO_read, cl1))"

fun show_units :: "client_env \<Rightarrow> string \<Rightarrow> 64 word \<Rightarrow> bool \<Rightarrow> string list \<Rightarrow> Client \<Rightarrow> int \<times> Client" where
  "show_units e node w do_watch [] cl = (0, cl)"
| "show_units e node w do_watch (u # us) cl =
     (let (r, cl1) = get_status_unit_on e node u w cl
      in if r < 0 then (r, cl1)
         else let (r1, cl2) = (if do_watch then watch_unit e node u cl1 else (0, cl1))
              in if r1 < 0 then (r1, cl2) else show_units e node w do_watch us cl2)"

definition status_handler :: "client_env \<Rightarrow> string \<Rightarrow> string list \<Rightarrow> 64 word \<Rightarrow> client_event \<Rightarrow> Client \<Rightarrow> Client" where
  "status_handler e node units w ev cl =
     (case ev of OnUnitStateChanged _ _ _ _ _ \<Rightarrow> snd (on_unit_status_changed e node units w cl) | _ \<Rightarrow> cl)"

definition method_status_unit_on :: "client_env \<Rightarrow> string \<Rightarrow> string list \<Rightarrow> bool \<Rightarrow> Client \<Rightarrow> (int \<times> Client) option" where
  "method_status_unit_on e node units do_watch cl =
     (let w = word_of_nat (get_max_name_len units);
          (r, cl1) = show_units e node w do_watch units (print_info_header w cl)
      in if r < 0 then Some (r, cl1)
         else if do_watch then client_start_event_loop e (status_handler e node units w) cl1
         else Some (0, cl1))"

section \<open>The status of nodes\<close>

record NodeConnection =
  nc_name :: string
  nc_node_path :: string
  nc_state :: string
  nc_ip :: string
  nc_last_seen :: "64 word"

definition node_connection_fmt_last_seen :: "client_env \<Rightarrow> NodeConnection \<Rightarrow> string" where
  "node_connection_fmt_last_seen e con =
     (if nc_state con = ''online'' then ''now''
      else if nc_state con = ''offline'' \<and> nc_last_seen con = 0 then ''never''
      else ce_timestamp e (nc_last_seen con div USEC_PER_SEC, (nc_last_seen con mod USEC_PER_SEC) * NSEC_PER_USEC))"

text \<open>A field of fixed width is padded and cut.\<close>

definition fixed :: "nat \<Rightarrow> string \<Rightarrow> string" where
  "fixed w s = pad w (take w s)"

definition node_line :: "string \<Rightarrow> string \<Rightarrow> string \<Rightarrow> string \<Rightarrow> string" where
  "node_line name state ip seen = fixed 30 name @ ''| '' @ fixed 10 state @ ''| '' @ fixed 24 ip @ ''| '' @ fixed 28 seen"

definition print_nodes :: "client_env \<Rightarrow> NodeConnection list \<Rightarrow> bool \<Rightarrow> Client \<Rightarrow> Client" where
  "print_nodes e nodes clear cl =
     fold (\<lambda>con. print_line (node_line (nc_name con) (nc_state con) (nc_ip con) (node_connection_fmt_last_seen e con))) nodes
       (print_line (replicate 90 (CHR ''=''))
         (print_line (node_line ''NODE'' ''STATE'' ''IP'' ''LAST SEEN'') (if clear then clear_screen cl else cl)))"

definition PROPERTIES_INTERFACE :: string where "PROPERTIES_INTERFACE = ''org.freedesktop.DBus.Properties''"

definition get_property :: "string \<Rightarrow> string \<Rightarrow> dcall" where
  "get_property path name = DCall path PROPERTIES_INTERFACE ''Get'' [DStr NODE_INTERFACE, DStr name]"

definition fetch_last_seen_timestamp_property :: "client_env \<Rightarrow> string \<Rightarrow> Client \<Rightarrow> (int + 64 word) \<times> Client" where
  "fetch_last_seen_timestamp_property e path cl =
     (case dbus_call e (get_property path ''LastSeenTimestamp'') cl of
        (Inr (DTime t), cl1) \<Rightarrow> (Inr t, cl1)
      | (Inl r, cl1) \<Rightarrow> (Inl r, cl1)
      | (Inr _, cl1) \<Rightarrow> (Inl ENXIO_read, cl1))"

definition fetch_peer_ip_property :: "client_env \<Rightarrow> string \<Rightarrow> Client \<Rightarrow> (int + string) \<times> Client" where
  "fetch_peer_ip_property e path cl =
     (case dbus_call e (get_property path ''PeerIp'') cl of
        (Inr (DText ip), cl1) \<Rightarrow> (Inr ip, cl1)
      | (Inl r, cl1) \<Rightarrow> (Inl r, cl1)
      | (Inr _, cl1) \<Rightarrow> (Inl ENXIO_read, cl1))"

text \<open>The loop reads the first changed property only: it does not leave the entry it has entered, so the next one cannot
  be entered, and leaving an entry with an unread value is the error \<open>EBUSY\<close>.\<close>

definition EBUSY :: int where "EBUSY = 16"

fun parse_status_from_changed_properties :: "prop_item list \<Rightarrow> int + cstring" where
  "parse_status_from_changed_properties [] = Inr None"
| "parse_status_from_changed_properties (BrokenItem r # items) = Inl (- EBUSY)"
| "parse_status_from_changed_properties (PropItem key v # items) =
     (if key \<noteq> ''Status'' then Inl (- EBUSY) else case v of VString s \<Rightarrow> Inr (Some s) | _ \<Rightarrow> Inl ENXIO_read)"

definition on_node_connection_state_changed ::
    "client_env \<Rightarrow> nat \<Rightarrow> prop_item list \<Rightarrow> NodeConnection list \<times> Client \<Rightarrow> NodeConnection list \<times> Client" where
  "on_node_connection_state_changed e k items s =
     (let (nodes, cl) = s
      in case parse_status_from_changed_properties items of
           Inl r \<Rightarrow> (nodes, cl)
         | Inr None \<Rightarrow> (nodes, cl)
         | Inr (Some con_state) \<Rightarrow>
             (case fetch_last_seen_timestamp_property e (nc_node_path (nodes ! k)) cl of
                (Inl r, cl1) \<Rightarrow> (nodes, cl1)
              | (Inr t, cl1) \<Rightarrow>
                  let nodes1 = nodes[k := (nodes ! k)\<lparr>nc_last_seen := t\<rparr>]
                  in (case fetch_peer_ip_property e (nc_node_path (nodes ! k)) cl1 of
                        (Inl r, cl2) \<Rightarrow> (nodes1, cl2)
                      | (Inr ip, cl2) \<Rightarrow>
                          let nodes2 = nodes1[k := (nodes1 ! k)\<lparr>nc_ip := ip, nc_state := con_state\<rparr>]
                          in (nodes2, print_nodes e nodes2 True cl2))))"

definition nodes_handler :: "client_env \<Rightarrow> client_event \<Rightarrow> NodeConnection list \<times> Client \<Rightarrow> NodeConnection list \<times> Client" where
  "nodes_handler e ev s =
     (case ev of OnNodeProperties k items \<Rightarrow> if k < length (fst s) then on_node_connection_state_changed e k items s else s | _ \<Rightarrow> s)"

definition client_node_new :: "string \<Rightarrow> string \<Rightarrow> string \<Rightarrow> string \<Rightarrow> 64 word \<Rightarrow> NodeConnection list \<Rightarrow> NodeConnection list" where
  "client_node_new name path state ip last_seen nodes =
     nodes @ [\<lparr>nc_name = name, nc_node_path = path, nc_state = state, nc_ip = ip, nc_last_seen = last_seen\<rparr>]"

fun collect_nodes ::
    "client_env \<Rightarrow> cstring \<Rightarrow> bool \<Rightarrow> (string \<times> string \<times> string \<times> string) list \<Rightarrow> NodeConnection list \<Rightarrow> Client \<Rightarrow>
     int \<times> NodeConnection list \<times> Client" where
  "collect_nodes e node_name do_watch [] nodes cl = (0, nodes, cl)"
| "collect_nodes e node_name do_watch ((name, path, state, ip) # reply) nodes cl =
     (if node_name \<noteq> None \<and> node_name \<noteq> Some name then collect_nodes e node_name do_watch reply nodes cl
      else
        let (seen, cl1) = (if state = ''offline'' then fetch_last_seen_timestamp_property e path cl else (Inr 0, cl))
        in case seen of
             Inl r \<Rightarrow> (r, nodes, cl1)
           | Inr t \<Rightarrow>
               let nodes1 = client_node_new name path state ip t nodes
               in if do_watch \<and> ce_ret e (ClMatch ''PropertiesChanged'') < 0 then (ce_ret e (ClMatch ''PropertiesChanged''), nodes1, cl1)
                  else collect_nodes e node_name do_watch reply nodes1 cl1)"

definition method_print_node_status :: "client_env \<Rightarrow> cstring \<Rightarrow> bool \<Rightarrow> Client \<Rightarrow> (int \<times> Client) option" where
  "method_print_node_status e node_name do_watch cl =
     (case controller_call e ''ListNodes'' [] cl of
        (Inl r, cl1) \<Rightarrow> Some (r, cl1)
      | (Inr (DNodes reply), cl1) \<Rightarrow>
          let (r, nodes, cl2) = collect_nodes e node_name do_watch reply [] cl1
          in if r < 0 then Some (r, cl2)
             else if node_name \<noteq> None \<and> nodes = [] then Some (- EINVAL, cl2)
             else
               let cl3 = print_nodes e nodes do_watch cl2
               in if do_watch then map_option (\<lambda>(r, s). (r, snd s)) (client_start_event_loop e (nodes_handler e) (nodes, cl3))
                  else Some (0, cl3)
      | (Inr _, cl1) \<Rightarrow> Some (ENXIO_read, cl1))"

definition method_status :: "client_env \<Rightarrow> 'm Command \<Rightarrow> Client \<Rightarrow> (int \<times> Client) option" where
  "method_status e cmd cl =
     (case cmd_opargv cmd of
        [] \<Rightarrow> method_print_node_status e None (command_flag_exists cmd ARG_WATCH_SHORT) cl
      | [node] \<Rightarrow> method_print_node_status e (Some node) (command_flag_exists cmd ARG_WATCH_SHORT) cl
      | node # units \<Rightarrow> method_status_unit_on e node units (command_flag_exists cmd ARG_WATCH_SHORT) cl)"

section \<open>The column of names\<close>

lemma PRINT_TAB_SIZE_nat: "unat PRINT_TAB_SIZE = 8"
  by (simp add: PRINT_TAB_SIZE_def)

lemma tab_loop_div: "fst (tab_loop i) = unat i div 8 \<and> unat (snd (tab_loop i)) = unat i mod 8"
proof (induction i rule: tab_loop.induct)
  case (1 i)
  show ?case
  proof (cases "PRINT_TAB_SIZE \<le> i")
    case True
    then have u: "unat i = unat (i - PRINT_TAB_SIZE) + 8"
      using unat_sub [OF True] PRINT_TAB_SIZE_nat by (simp add: word_le_nat_alt)
    obtain k j where kj: "tab_loop (i - PRINT_TAB_SIZE) = (k, j)" by fastforce
    then have "k = unat (i - PRINT_TAB_SIZE) div 8" "unat j = unat (i - PRINT_TAB_SIZE) mod 8"
      using 1 [OF True] by simp_all
    then show ?thesis using u by (subst (1 2) tab_loop.simps) (simp add: True kj)
  next
    case False
    then have "unat i < 8" using PRINT_TAB_SIZE_nat by (simp add: word_le_nat_alt)
    then show ?thesis by (subst (1 2) tab_loop.simps) (simp add: False)
  qed
qed

lemma space_loop_none: "unat i < 8 \<Longrightarrow> space_loop i = 0"
  by (subst space_loop.simps) (simp add: PRINT_TAB_SIZE_def word_less_nat_alt)

lemma concat_TABs: "concat (replicate k TAB) = replicate k (CHR 0x09)"
  by (induction k) (simp_all add: TAB_def)

lemma name_gap_tabs:
  "name_gap (Some s) w = replicate (unat (w - word_of_nat (length s) + 8) div 8) (CHR 0x09)"
proof -
  let ?i = "w - word_of_nat (length s) + PRINT_TAB_SIZE"
  obtain k j where kj: "tab_loop ?i = (k, j)" by fastforce
  then have "k = unat ?i div 8" "unat j < 8" using tab_loop_div [of ?i] by simp_all
  moreover have "name_gap (Some s) w = replicate k (CHR 0x09) @ replicate (space_loop j) (CHR '' '')"
    by (simp add: name_gap_def kj concat_TABs)
  ultimately show ?thesis by (simp add: space_loop_none PRINT_TAB_SIZE_def)
qed

lemma max_name_len: "get_max_name_len units = Max (insert 0 (length ` set units))"
proof -
  have "fold (\<lambda>u m. if m > length u then m else length u) us n = Max (insert n (length ` set us))" for us n
  proof (induction us arbitrary: n)
    case (Cons u us)
    have "fold (\<lambda>u m. if m > length u then m else length u) (u # us) n = Max (insert (max n (length u)) (length ` set us))"
      by (simp add: Cons.IH max_def)
    also have "\<dots> = Max (insert n (length ` set (u # us)))"
      by (cases "us = []") (simp_all add: max.assoc)
    finally show ?case .
  qed simp
  then show ?thesis by (simp add: get_max_name_len_def)
qed

text \<open>The tabs after the name \<open>s\<close> in a column for names of at most \<open>m\<close> characters, on 64-bit sizes.\<close>

definition name_tabs :: "nat \<Rightarrow> nat \<Rightarrow> nat" where
  "name_tabs m n = (if n \<le> m + 8 then m + 8 - n else 2 ^ 64 - (n - m - 8)) div 8"

lemma name_tabs_word:
  assumes "m < 2 ^ 32" "n < 2 ^ 32"
  shows "unat (word_of_nat m - word_of_nat n + 8 :: 64 word) div 8 = name_tabs m n"
proof -
  have "word_of_nat m - word_of_nat n + 8 = (word_of_int (int m - int n + 8) :: 64 word)" by simp
  then have u: "uint (word_of_nat m - word_of_nat n + 8 :: 64 word) = (int m - int n + 8) mod 2 ^ 64"
    by (simp only: uint_word_of_int) simp
  show ?thesis
  proof (cases "n \<le> m + 8")
    case True
    then have "(int m - int n + 8) mod 2 ^ 64 = int (m + 8 - n)" using assms by (subst mod_pos_pos_trivial) auto
    then have "unat (word_of_nat m - word_of_nat n + 8 :: 64 word) = m + 8 - n"
      using u by (metis nat_int unat_eq_nat_uint)
    then show ?thesis using True by (simp add: name_tabs_def)
  next
    case False
    have "(int m - int n + 8) mod 2 ^ 64 = (int m - int n + 8 + 2 ^ 64) mod 2 ^ 64"
      by (rule mod_add_self2 [symmetric])
    also have "\<dots> = int (2 ^ 64 - (n - m - 8))" using False assms by (subst mod_pos_pos_trivial) (auto simp: of_nat_diff)
    finally have "unat (word_of_nat m - word_of_nat n + 8 :: 64 word) = 2 ^ 64 - (n - m - 8)"
      using u by (metis nat_int unat_eq_nat_uint)
    then show ?thesis using False by (simp add: name_tabs_def)
  qed
qed

text \<open>The line of a unit.  For a unit that systemd knows, \<open>bluechictl status\<close> prints one line that starts with the
  \<open>Id\<close> systemd reports and fills the column, which is as wide as the longest name asked for, with tabs.  But an \<open>Id\<close>
  that is more than 8 characters longer than every name asked for, as the \<open>Id\<close> of an alias can be, makes the
  64-bit size wrap around: more than \<open>2 ^ 60\<close> tabs are printed.\<close>

theorem status_line_tabs:
  assumes "\<forall>c. 0 \<le> ce_ret e c" "\<forall>cs. ce_call e cs (DCall (node_path node) NODE_INTERFACE ''GetUnitProperties'' [DStr unit, DStr []]) = Inr (DProps items)"
    "parse_unit_status_response_from_message items no_unit_info = (0, info)" "st_id info = Some s" "st_load_state info \<noteq> Some ''not-found''"
    "length s < 2 ^ 32" "\<forall>u \<in> set units. length u < 2 ^ 32" "m = get_max_name_len units"
  shows "(\<exists>cl' text. get_status_unit_on e node unit (word_of_nat m) cl = (0, cl') \<and>
      cl_printed cl' = cl_printed cl @ [s @ replicate (name_tabs m (length s)) (CHR 0x09) @ text]) \<and>
    (length s \<le> m + 8 \<longrightarrow> name_tabs m (length s) \<le> m div 8 + 1) \<and>
    (m + 8 < length s \<longrightarrow> 2 ^ 60 < name_tabs m (length s))"
proof (intro conjI impI)
  have m: "m < 2 ^ 32" using assms(7,8) by (simp add: max_name_len)
  have ok: "\<not> ce_ret e c < 0" for c using assms(1) by (simp add: not_less)
  show "\<exists>cl' text. get_status_unit_on e node unit (word_of_nat m) cl = (0, cl') \<and>
      cl_printed cl' = cl_printed cl @ [s @ replicate (name_tabs m (length s)) (CHR 0x09) @ text]"
    using assms(2-5) by (simp add: get_status_unit_on_def ok node_call_def dbus_call_def print_unit_info_def print_line_def
        name_gap_tabs name_tabs_word [OF m assms(6)])
  show "name_tabs m (length s) \<le> m div 8 + 1" if "length s \<le> m + 8" using that by (simp add: name_tabs_def)
  show "2 ^ 60 < name_tabs m (length s)" if "m + 8 < length s"
    using that assms(6) by (simp add: name_tabs_def)
qed

text \<open>The unit \<open>a\<close> is an alias of a unit with a longer name.\<close>

theorem status_line_tabs_witness:
  "\<exists>cl'. get_status_unit_on (quiet_env\<lparr>ce_call := \<lambda>_ _. Inr (DProps [PropItem ''Id'' (VString ''canonical.service'')])\<rparr>) ''pi'' ''a'' 1 new_client = (0, cl') \<and>
     2 ^ 60 < length (concat (cl_printed cl'))"
proof -
  let ?e = "quiet_env\<lparr>ce_call := \<lambda>_ _. Inr (DProps [PropItem ''Id'' (VString ''canonical.service'')])\<rparr>"
  have p: "parse_unit_status_response_from_message [PropItem ''Id'' (VString ''canonical.service'')] no_unit_info =
      (0, no_unit_info\<lparr>st_id := Some ''canonical.service''\<rparr>)"
    by (simp add: process_dict_entry_def get_property_map_def property_map_def read_property_value_def isempty_def)
  have "get_max_name_len [''a''] = 1" by (simp add: max_name_len)
  then show ?thesis
    using status_line_tabs [of ?e "''pi''" "''a''" "[PropItem ''Id'' (VString ''canonical.service'')]" _ "''canonical.service''" "[''a'']" 1 new_client, OF _ _ p]
    by (fastforce simp: quiet_env_def no_unit_info_def new_client_def)
qed

section \<open>The screen shows the last states\<close>

definition screen :: "client_env \<Rightarrow> NodeConnection list \<Rightarrow> string list" where
  "screen e nodes = node_line ''NODE'' ''STATE'' ''IP'' ''LAST SEEN'' # replicate 90 (CHR ''='') #
     map (\<lambda>con. node_line (nc_name con) (nc_state con) (nc_ip con) (node_connection_fmt_last_seen e con)) nodes"

lemma print_lines: "fold (\<lambda>x. print_line (f x)) xs cl = cl\<lparr>cl_printed := cl_printed cl @ map f xs\<rparr>"
  by (induction xs arbitrary: cl) (simp_all add: print_line_def)

lemma print_nodes_screen:
  "print_nodes e nodes clear cl = (if clear then clear_screen cl else cl)\<lparr>cl_printed :=
     cl_printed (if clear then clear_screen cl else cl) @ screen e nodes\<rparr>"
  by (simp add: print_nodes_def print_lines screen_def print_line_def)

text \<open>An environment in which the properties of nodes can be read.\<close>

definition nodes_readable :: "client_env \<Rightarrow> bool" where
  "nodes_readable e = ((\<forall>c. 0 \<le> ce_ret e c) \<and>
     (\<forall>cs path. (\<exists>t. ce_call e cs (get_property path ''LastSeenTimestamp'') = Inr (DTime t)) \<and>
       (\<exists>ip. ce_call e cs (get_property path ''PeerIp'') = Inr (DText ip))))"

lemma readable:
  assumes "nodes_readable e"
  shows "\<exists>t. fetch_last_seen_timestamp_property e path cl =
      (Inr t, cl\<lparr>cl_calls := cl_calls cl @ [get_property path ''LastSeenTimestamp'']\<rparr>)"
    and "\<exists>ip. fetch_peer_ip_property e path cl = (Inr ip, cl\<lparr>cl_calls := cl_calls cl @ [get_property path ''PeerIp'']\<rparr>)"
proof -
  obtain t ip where "ce_call e (cl_calls cl) (get_property path ''LastSeenTimestamp'') = Inr (DTime t)"
    "ce_call e (cl_calls cl) (get_property path ''PeerIp'') = Inr (DText ip)"
    using assms unfolding nodes_readable_def by blast
  then show "\<exists>t. fetch_last_seen_timestamp_property e path cl =
      (Inr t, cl\<lparr>cl_calls := cl_calls cl @ [get_property path ''LastSeenTimestamp'']\<rparr>)"
    "\<exists>ip. fetch_peer_ip_property e path cl = (Inr ip, cl\<lparr>cl_calls := cl_calls cl @ [get_property path ''PeerIp'']\<rparr>)"
    by (simp_all add: fetch_last_seen_timestamp_property_def fetch_peer_ip_property_def dbus_call_def)
qed

text \<open>The status that a signal reports for a node, and the statuses after it.\<close>

fun reported :: "client_event \<Rightarrow> (nat \<times> string) option" where
  "reported (OnNodeProperties k (PropItem key (VString st) # items)) = (if key = ''Status'' then Some (k, st) else None)"
| "reported _ = None"

definition record_status :: "client_event \<Rightarrow> string list \<Rightarrow> string list" where
  "record_status ev states = (case reported ev of None \<Rightarrow> states | Some (k, st) \<Rightarrow> states[k := st])"

definition displays :: "client_env \<Rightarrow> NodeConnection list \<times> Client \<Rightarrow> bool" where
  "displays e s = (\<exists>pre. cl_printed (snd s) = pre @ screen e (fst s))"

lemma nodes_handler_shows:
  assumes "nodes_readable e" "displays e s"
  shows "displays e (nodes_handler e ev s) \<and> map nc_state (fst (nodes_handler e ev s)) = record_status ev (map nc_state (fst s)) \<and>
    map nc_name (fst (nodes_handler e ev s)) = map nc_name (fst s)"
proof (cases "reported ev")
  case None
  have "nodes_handler e ev s = s"
  proof (cases ev)
    case (OnNodeProperties k items)
    then have "parse_status_from_changed_properties items \<noteq> Inr (Some st)" for st
      using None
      by (cases items rule: parse_status_from_changed_properties.cases) (auto split: if_splits variant.splits)
    then consider r where "parse_status_from_changed_properties items = Inl r" | "parse_status_from_changed_properties items = Inr None"
      by (metis not_Some_eq old.sum.exhaust)
    then show ?thesis
      by cases (simp_all add: OnNodeProperties nodes_handler_def on_node_connection_state_changed_def split: prod.split)
  qed (simp_all add: nodes_handler_def)
  then show ?thesis using assms(2) by (simp add: record_status_def None)
next
  case (Some r)
  then obtain k st items where ev: "ev = OnNodeProperties k (PropItem ''Status'' (VString st) # items)" "r = (k, st)"
    by (cases ev rule: reported.cases) (auto split: if_splits)
  obtain nodes cl where s: "s = (nodes, cl)" by (cases s)
  show ?thesis
  proof (cases "k < length nodes")
    case True
    let ?p = "nc_node_path (nodes ! k)"
    obtain t cl1 where 1: "fetch_last_seen_timestamp_property e ?p cl = (Inr t, cl1)"
      using readable(1) [OF assms(1)] by blast
    obtain ip cl2 where 2: "fetch_peer_ip_property e ?p cl1 = (Inr ip, cl2)"
      using readable(2) [OF assms(1)] by blast
    define nodes2 where "nodes2 = nodes[k := (nodes ! k)\<lparr>nc_last_seen := t, nc_ip := ip, nc_state := st\<rparr>]"
    have "map nc_name nodes2 = map nc_name nodes" "map nc_state nodes2 = (map nc_state nodes)[k := st]"
      using True by (simp_all add: nodes2_def map_update list_update_same_conv)
    moreover have "nodes_handler e ev s = (nodes2, print_nodes e nodes2 True cl2)"
      using True by (simp add: nodes_handler_def ev s on_node_connection_state_changed_def 1 2 Let_def nodes2_def)
    ultimately show ?thesis by (simp add: s record_status_def ev(2) Some displays_def print_nodes_screen)
  next
    case False
    then show ?thesis using assms(2) by (simp add: nodes_handler_def ev s record_status_def list_update_beyond)
  qed
qed

lemma watch_shows:
  assumes "nodes_readable e" "Interrupted \<notin> set evs" "displays e s"
  shows "\<exists>t. client_loop (nodes_handler e) (evs @ [Interrupted]) s = Some (0, t) \<and> displays e t \<and>
    map nc_state (fst t) = fold record_status evs (map nc_state (fst s)) \<and> map nc_name (fst t) = map nc_name (fst s)"
  using assms(2,3)
proof (induction evs arbitrary: s)
  case (Cons ev evs)
  then show ?case using Cons.IH [of "nodes_handler e ev s"] nodes_handler_shows [OF assms(1), of s ev] by auto
qed simp

definition wanted :: "cstring \<Rightarrow> (string \<times> string \<times> string \<times> string) list \<Rightarrow> (string \<times> string \<times> string \<times> string) list" where
  "wanted node_name reply = filter (\<lambda>(name, _). node_name = None \<or> node_name = Some name) reply"

lemma collect_nodes_ok:
  assumes "nodes_readable e"
  shows "\<exists>new cl1. collect_nodes e node_name do_watch reply nodes cl = (0, nodes @ new, cl1) \<and> cl_printed cl1 = cl_printed cl \<and>
    map nc_name new = map fst (wanted node_name reply) \<and> map nc_state new = map (\<lambda>(_, _, state, _). state) (wanted node_name reply)"
proof (induction reply arbitrary: nodes cl)
  case (Cons n reply)
  obtain name path state ip where n: "n = (name, path, state, ip)" by (cases n)
  have ok: "\<not> ce_ret e c < 0" for c using assms by (simp add: nodes_readable_def not_less)
  show ?case
  proof (cases "node_name = None \<or> node_name = Some name")
    case True
    obtain t cl1 where 1: "(if state = ''offline'' then fetch_last_seen_timestamp_property e path cl else (Inr 0, cl)) = (Inr t, cl1)"
      "cl_printed cl1 = cl_printed cl"
      using readable(1) [OF assms, of path cl] by (cases "state = ''offline''") auto
    obtain new cl2 where 2: "collect_nodes e node_name do_watch reply (client_node_new name path state ip t nodes) cl1 =
        (0, client_node_new name path state ip t nodes @ new, cl2)" "cl_printed cl2 = cl_printed cl1"
      "map nc_name new = map fst (wanted node_name reply)" "map nc_state new = map (\<lambda>(_, _, state, _). state) (wanted node_name reply)"
      using Cons.IH by blast
    let ?c = "\<lparr>nc_name = name, nc_node_path = path, nc_state = state, nc_ip = ip, nc_last_seen = t\<rparr>"
    have "collect_nodes e node_name do_watch (n # reply) nodes cl = (0, nodes @ (?c # new), cl2)"
      using True 1(1) 2(1) ok by (auto simp: n client_node_new_def)
    then show ?thesis using True 1(2) 2(2-4)
      by (intro exI [of _ "?c # new"] exI [of _ cl2]) (auto simp: wanted_def n)
  next
    case False
    then show ?thesis using Cons.IH [of nodes cl] by (auto simp: n wanted_def)
  qed
qed (simp add: wanted_def)

text \<open>C23.  Watching nodes.  When the controller answers, \<open>bluechictl status\<close> prints a table whose last screen has one row per
  node asked for, in the order of the reply.  Without \<open>--watch\<close> its states are those of the reply; with \<open>--watch\<close> the
  screen always shows, for each node, the last state a signal has reported, and the state of the reply before.  A name
  that no node has is an error, and nothing is printed.\<close>

theorem node_status_screen:
  assumes "nodes_readable e" "ce_call e (cl_calls cl) (DCall BC_OBJECT_PATH CONTROLLER_INTERFACE ''ListNodes'' []) = Inr (DNodes reply)"
    "ce_events e = evs @ [Interrupted]" "Interrupted \<notin> set evs"
  shows "if node_name \<noteq> None \<and> wanted node_name reply = []
    then \<exists>cl'. method_print_node_status e node_name do_watch cl = Some (- EINVAL, cl') \<and> cl_printed cl' = cl_printed cl
    else \<exists>cl' pre nodes. method_print_node_status e node_name do_watch cl = Some (0, cl') \<and>
      cl_printed cl' = pre @ screen e nodes \<and> map nc_name nodes = map fst (wanted node_name reply) \<and>
      map nc_state nodes = fold record_status (if do_watch then evs else []) (map (\<lambda>(_, _, state, _). state) (wanted node_name reply))"
proof -
  let ?cl = "cl\<lparr>cl_calls := cl_calls cl @ [DCall BC_OBJECT_PATH CONTROLLER_INTERFACE ''ListNodes'' []]\<rparr>"
  have ok: "\<not> ce_ret e c < 0" for c using assms(1) by (simp add: nodes_readable_def not_less)
  obtain new cl1 where new: "collect_nodes e node_name do_watch reply [] ?cl = (0, new, cl1)" "cl_printed cl1 = cl_printed cl"
    "map nc_name new = map fst (wanted node_name reply)" "map nc_state new = map (\<lambda>(_, _, state, _). state) (wanted node_name reply)"
    using collect_nodes_ok [OF assms(1), of node_name do_watch reply "[]" ?cl] by auto
  have empty: "new = [] \<longleftrightarrow> wanted node_name reply = []" using new(3) by (metis map_is_Nil_conv)
  show ?thesis
  proof (cases "node_name \<noteq> None \<and> wanted node_name reply = []")
    case True
    then show ?thesis using assms(2) new empty
      by (simp add: method_print_node_status_def controller_call_def dbus_call_def EINVAL_def)
  next
    case False
    let ?s = "(new, print_nodes e new do_watch cl1)"
    have d: "displays e ?s" by (auto simp: displays_def print_nodes_screen)
    have run: "method_print_node_status e node_name do_watch cl =
        (if do_watch then map_option (\<lambda>(r, s). (r, snd s)) (client_loop (nodes_handler e) (evs @ [Interrupted]) ?s) else Some (0, snd ?s))"
      using False assms(2,3) new empty ok
      by (auto simp: method_print_node_status_def controller_call_def dbus_call_def client_start_event_loop_def)
    obtain t where t: "client_loop (nodes_handler e) (evs @ [Interrupted]) ?s = Some (0, t)" "displays e t"
      "map nc_state (fst t) = fold record_status evs (map nc_state new)" "map nc_name (fst t) = map nc_name new"
      using watch_shows [OF assms(1,4) d] by auto
    let ?t = "if do_watch then t else ?s"
    have u1: "method_print_node_status e node_name do_watch cl = Some (0, snd ?t)"
      unfolding run using t(1) by (cases do_watch) (simp_all only: if_True if_False option.map prod.case)
    have u2: "displays e ?t" using t(2) d by (cases do_watch) (simp_all only: if_True if_False)
    have u3: "map nc_state (fst ?t) = fold record_status (if do_watch then evs else []) (map nc_state new)"
      using t(3) by (cases do_watch) (simp_all only: if_True if_False fst_conv fold_simps)
    have u4: "map nc_name (fst ?t) = map nc_name new"
      using t(4) by (cases do_watch) (simp_all only: if_True if_False fst_conv)
    obtain pre where pre: "cl_printed (snd ?t) = pre @ screen e (fst ?t)" using u2 unfolding displays_def by blast
    have "\<exists>cl' pre nodes. method_print_node_status e node_name do_watch cl = Some (0, cl') \<and>
      cl_printed cl' = pre @ screen e nodes \<and> map nc_name nodes = map fst (wanted node_name reply) \<and>
      map nc_state nodes = fold record_status (if do_watch then evs else []) (map (\<lambda>(_, _, state, _). state) (wanted node_name reply))"
      by (intro exI conjI, rule u1, rule pre) (simp_all only: u3 u4 new(3,4))
    then show ?thesis using False by (simp only: if_False)
  qed
qed

definition watch_env :: client_env where
  "watch_env = quiet_env\<lparr>
     ce_call := \<lambda>_ c. (if c = DCall BC_OBJECT_PATH CONTROLLER_INTERFACE ''ListNodes'' []
       then Inr (DNodes [(''pi'', node_path ''pi'', ''offline'', []), (''rpi4'', node_path ''rpi4'', ''online'', [])])
       else case c of DCall _ _ _ [_, DStr p] \<Rightarrow> if p = ''PeerIp'' then Inr (DText ''10.0.0.1'') else Inr (DTime 0) | _ \<Rightarrow> Inr DVoid),
     ce_events := [OnNodeProperties 0 [PropItem ''Status'' (VString ''online'')], Interrupted]\<rparr>"

theorem node_status_screen_witness:
  "\<exists>cl' pre nodes. method_print_node_status watch_env None True new_client = Some (0, cl') \<and>
     cl_printed cl' = pre @ screen watch_env nodes \<and> map nc_name nodes = [''pi'', ''rpi4''] \<and> map nc_state nodes = [''online'', ''online'']"
proof -
  have 1: "nodes_readable watch_env"
    by (auto simp: nodes_readable_def watch_env_def quiet_env_def get_property_def PROPERTIES_INTERFACE_def BC_OBJECT_PATH_def)
  have 2: "ce_call watch_env (cl_calls new_client) (DCall BC_OBJECT_PATH CONTROLLER_INTERFACE ''ListNodes'' []) =
      Inr (DNodes [(''pi'', node_path ''pi'', ''offline'', []), (''rpi4'', node_path ''rpi4'', ''online'', [])])"
    by (simp add: watch_env_def)
  have 3: "ce_events watch_env = [OnNodeProperties 0 [PropItem ''Status'' (VString ''online'')]] @ [Interrupted]"
    by (simp add: watch_env_def)
  show ?thesis using node_status_screen [OF 1 2 3, of None True] by (simp add: wanted_def record_status_def)
qed

end
