(* ===== verification/Client_Main.thy ===== *)
theory Client_Main
  imports Client_Status
begin

text \<open>\<open>bluechictl\<close> as a program: the tables of \<open>client/main.c\<close> and what a command line does with the controller.\<close>

section \<open>The tables\<close>

datatype client_method =
    MHelp | MListUnitFiles | MIsEnabled | MListUnits | MStart | MStop | MFreeze | MThaw | MRestart | MReload | MResetFailed | MKill
  | MMonitor | MMetrics | MEnable | MDisable | MDaemonReload | MStatus | MSetLoglevel | MGetDefault | MSetDefault | MVersion

definition OPT_NONE :: "64 word" where "OPT_NONE = 0"
definition OPT_FILTER :: "64 word" where "OPT_FILTER = 2"
definition OPT_FORCE :: "64 word" where "OPT_FORCE = 4"
definition OPT_RUNTIME :: "64 word" where "OPT_RUNTIME = 8"
definition OPT_NO_RELOAD :: "64 word" where "OPT_NO_RELOAD = 16"
definition OPT_WATCH :: "64 word" where "OPT_WATCH = 32"
definition OPT_KILL_WHOM :: "64 word" where "OPT_KILL_WHOM = 64"
definition OPT_SIGNAL :: "64 word" where "OPT_SIGNAL = 128"

definition row :: "string \<Rightarrow> int \<Rightarrow> int \<Rightarrow> 64 word \<Rightarrow> client_method \<Rightarrow> client_method Method" where
  "row name least most supported f =
     \<lparr>m_name = name, m_min_args = least, m_max_args = most, m_supported = supported, m_dispatch = f\<rparr>"

definition client_methods :: "client_method Method list" where
  "client_methods =
     [row ''help'' 0 0 OPT_NONE MHelp,
      row ''list-unit-files'' 0 1 OPT_FILTER MListUnitFiles,
      row ''is-enabled'' 2 2 OPT_NONE MIsEnabled,
      row ''list-units'' 0 1 OPT_FILTER MListUnits,
      row ''start'' 2 2 OPT_NONE MStart,
      row ''stop'' 2 2 OPT_NONE MStop,
      row ''freeze'' 2 2 OPT_NONE MFreeze,
      row ''thaw'' 2 2 OPT_NONE MThaw,
      row ''restart'' 2 2 OPT_NONE MRestart,
      row ''reload'' 2 2 OPT_NONE MReload,
      row ''reset-failed'' 0 ARG_ANY OPT_NONE MResetFailed,
      row ''kill'' 2 2 (OPT_KILL_WHOM OR OPT_SIGNAL) MKill,
      row ''monitor'' 0 2 OPT_NONE MMonitor,
      row ''metrics'' 1 1 OPT_NONE MMetrics,
      row ''enable'' 2 ARG_ANY (OPT_FORCE OR OPT_RUNTIME OR OPT_NO_RELOAD) MEnable,
      row ''disable'' 2 ARG_ANY OPT_NO_RELOAD MDisable,
      row ''daemon-reload'' 1 1 OPT_NONE MDaemonReload,
      row ''status'' 0 ARG_ANY OPT_WATCH MStatus,
      row ''set-loglevel'' 1 2 OPT_NONE MSetLoglevel,
      row ''get-default'' 1 1 OPT_NONE MGetDefault,
      row ''set-default'' 2 2 OPT_NONE MSetDefault,
      row ''version'' 0 0 OPT_NONE MVersion]"

definition option_row :: "int \<Rightarrow> string \<Rightarrow> 64 word \<Rightarrow> OptionType" where
  "option_row short long flag = \<lparr>option_short = short, option_long = long, option_flag = flag\<rparr>"

definition client_option_types :: "OptionType list" where
  "client_option_types =
     [option_row ARG_FILTER_SHORT ''filter'' OPT_FILTER, option_row ARG_FORCE_SHORT ''force'' OPT_FORCE,
      option_row ARG_RUNTIME_SHORT ''runtime'' OPT_RUNTIME, option_row ARG_NO_RELOAD_SHORT ''no-reload'' OPT_NO_RELOAD,
      option_row ARG_WATCH_SHORT ''watch'' OPT_WATCH, option_row ARG_KILL_WHOM_SHORT ''kill-whom'' OPT_KILL_WHOM,
      option_row ARG_SIGNAL_SHORT ''signal'' OPT_SIGNAL]"

text \<open>The method of a row; the texts of the help and the version are not modelled.\<close>

definition client_run :: "client_env \<Rightarrow> client_method \<Rightarrow> client_method Command \<Rightarrow> Client \<Rightarrow> (int \<times> Client) option" where
  "client_run e f cmd cl =
     (case f of
        MHelp \<Rightarrow> Some (0, cl)
      | MVersion \<Rightarrow> Some (0, cl)
      | MListUnitFiles \<Rightarrow> Some (method_list_unit_files e cmd cl)
      | MIsEnabled \<Rightarrow> Some (method_is_enabled e cmd cl)
      | MListUnits \<Rightarrow> Some (method_list_units e cmd cl)
      | MStart \<Rightarrow> method_start e cmd cl
      | MStop \<Rightarrow> method_stop e cmd cl
      | MFreeze \<Rightarrow> Some (method_freeze e cmd cl)
      | MThaw \<Rightarrow> Some (method_thaw e cmd cl)
      | MRestart \<Rightarrow> method_restart e cmd cl
      | MReload \<Rightarrow> method_reload e cmd cl
      | MResetFailed \<Rightarrow> Some (method_reset_failed e cmd cl)
      | MKill \<Rightarrow> Some (method_kill e cmd cl)
      | MMonitor \<Rightarrow> method_monitor e cmd cl
      | MMetrics \<Rightarrow> method_metrics e cmd cl
      | MEnable \<Rightarrow> Some (method_enable e cmd cl)
      | MDisable \<Rightarrow> Some (method_disable e cmd cl)
      | MDaemonReload \<Rightarrow> Some (method_daemon_reload e cmd cl)
      | MStatus \<Rightarrow> method_status e cmd cl
      | MSetLoglevel \<Rightarrow> Some (method_set_loglevel e cmd cl)
      | MGetDefault \<Rightarrow> Some (method_get_default_target e cmd cl)
      | MSetDefault \<Rightarrow> Some (method_set_default_target e cmd cl))"

definition client_open_sd_bus :: "client_env \<Rightarrow> int" where
  "client_open_sd_bus e = (if ce_ret e ClOpen < 0 then ce_ret e ClOpen else 0)"

definition client_main :: "client_env \<Rightarrow> (int \<times> cstring) list \<Rightarrow> string list \<Rightarrow> (int \<times> Client) option" where
  "client_main e opts rest =
     cli_main (\<lambda>cl. client_open_sd_bus e) (client_run e) client_option_types client_methods opts rest new_client"

section \<open>Starting and stopping units\<close>

definition lifecycle_commands :: "(string \<times> string) list" where
  "lifecycle_commands = [(''start'', ''StartUnit''), (''stop'', ''StopUnit''), (''restart'', ''RestartUnit''), (''reload'', ''ReloadUnit'')]"

definition plain_command :: "string \<Rightarrow> string list \<Rightarrow> client_method Method \<Rightarrow> client_method Command" where
  "plain_command name args m = command_of client_option_types [] name args m"

lemma plain_command_simps [simp]:
  "cmd_opargv (plain_command name args m) = args" "oparg (plain_command name args m) k = args ! k"
  "command_get_option (plain_command name args m) key = None" "command_flag_exists (plain_command name args m) key = False"
  by (simp_all add: plain_command_def command_of_def oparg_def command_get_option_def command_flag_exists_def)

text \<open>A command line without options runs its row.\<close>

lemma main_runs:
  assumes "find_method name client_methods = Some (row name least most supported f)" "least \<le> int (length args)" "int (length args) \<le> most"
    "0 \<le> ce_ret e ClOpen"
  shows "client_main e [] (name # args) = map_option (\<lambda>(r, cl). (if r < 0 then 1 else 0, cl))
    (client_run e f (plain_command name args (row name least most supported f)) new_client)"
proof -
  have "\<not> client_open_sd_bus e < 0" using assms(4) by (simp add: client_open_sd_bus_def)
  from cli_main_runs [of client_option_types "[]" name client_methods _ "\<lambda>cl. client_open_sd_bus e" new_client args "client_run e",
      OF _ _ _ assms(1) this]
  show ?thesis using assms(2,3)
    by (simp add: client_main_def known_options_def accepts_def row_def plain_command_def)
qed

lemma find_row:
  "find_method ''start'' client_methods = Some (row ''start'' 2 2 OPT_NONE MStart)"
  "find_method ''stop'' client_methods = Some (row ''stop'' 2 2 OPT_NONE MStop)"
  "find_method ''restart'' client_methods = Some (row ''restart'' 2 2 OPT_NONE MRestart)"
  "find_method ''reload'' client_methods = Some (row ''reload'' 2 2 OPT_NONE MReload)"
  "find_method ''disable'' client_methods = Some (row ''disable'' 2 ARG_ANY OPT_NO_RELOAD MDisable)"
  "find_method ''set-default'' client_methods = Some (row ''set-default'' 2 2 OPT_NONE MSetDefault)"
  "find_method ''reset-failed'' client_methods = Some (row ''reset-failed'' 0 ARG_ANY OPT_NONE MResetFailed)"
  by (simp_all add: client_methods_def row_def)

lemma lifecycle_main:
  assumes "(name, meth) \<in> set lifecycle_commands" "0 \<le> ce_ret e ClOpen"
  shows "client_main e [] [name, node, unit] =
    map_option (\<lambda>(r, cl). (if r < 0 then 1 else 0, cl)) (method_lifecycle_action_on e node unit meth new_client)"
  using assms main_runs [OF find_row(1), of "[node, unit]" e] main_runs [OF find_row(2), of "[node, unit]" e]
    main_runs [OF find_row(3), of "[node, unit]" e] main_runs [OF find_row(4), of "[node, unit]" e]
  by (auto simp: lifecycle_commands_def client_run_def method_start_def method_stop_def method_restart_def method_reload_def)

text \<open>C22.  \<open>bluechictl start\<close>, \<open>stop\<close>, \<open>restart\<close> and \<open>reload\<close> wait for their job.  The program makes the one call of the node
  for the unit, with the mode \<open>replace\<close>.  If the call is refused it exits with 1.  Otherwise it waits for the first \<open>JobRemoved\<close>
  signal with the path of the job, whatever signals of other jobs come before, prints the unit and the result
  of that signal, and exits with 0, for a failed job too; without such a signal it never returns, and if the bus fails
  before the signal it exits with 1.\<close>

theorem bluechictl_job:
  assumes "(name, meth) \<in> set lifecycle_commands" "0 \<le> ce_ret e ClOpen" "0 \<le> ce_ret e (ClMatch ''JobRemoved'')"
    "c = DCall (node_path node) NODE_INTERFACE meth [DStr unit, DStr ''replace'']"
  shows "(\<forall>r. ce_call e [] c = Inl r \<longrightarrow> r < 0 \<longrightarrow>
      (\<exists>cl. client_main e [] [name, node, unit] = Some (1, cl) \<and> cl_calls cl = [c] \<and> cl_printed cl = [])) \<and>
    (\<forall>job. ce_call e [] c = Inr (DPath job) \<longrightarrow> rounds_ok (ce_bus e) \<longrightarrow>
      (case find (\<lambda>m. job_path_of m = job) (job_signals (ce_bus e)) of
         None \<Rightarrow> client_main e [] [name, node, unit] = None
       | Some (i, p, n, u, res) \<Rightarrow> \<exists>cl. client_main e [] [name, node, unit] = Some (0, cl) \<and> cl_calls cl = [c] \<and>
           cl_printed cl = [''Unit '' @ u @ '' '' @ meth @ '' operation result: '' @ res])) \<and>
    (\<forall>job rounds r m w rest. ce_call e [] c = Inr (DPath job) \<longrightarrow> ce_bus e = rounds @ (r, m, w) # rest \<longrightarrow> rounds_ok rounds \<longrightarrow>
      r < 0 \<longrightarrow> job \<notin> job_path_of ` set (job_signals (rounds @ [(r, m, w)])) \<longrightarrow>
      (\<exists>cl. client_main e [] [name, node, unit] = Some (1, cl)))"
proof (intro conjI allI impI)
  note main = lifecycle_main [OF assms(1,2), of node unit]
  have new: "cl_calls new_client = []" "cl_printed new_client = []" "cl_pending_job_name new_client = None" "cl_pending_job_result new_client = None"
    by (simp_all add: new_client_def)
  have m: "\<not> ce_ret e (ClMatch ''JobRemoved'') < 0" using assms(3) by simp
  show "\<exists>cl. client_main e [] [name, node, unit] = Some (1, cl) \<and> cl_calls cl = [c] \<and> cl_printed cl = []"
    if "ce_call e [] c = Inl r" "r < 0" for r
    using that m new by (simp add: main method_lifecycle_action_on_def node_call_def dbus_call_def assms(4))
  fix job
  assume call: "ce_call e [] c = Inr (DPath job)"
  note reports = lifecycle_reports [OF m new(3,4) assms(4), unfolded new(1,2), OF call]
  show "case find (\<lambda>m. job_path_of m = job) (job_signals (ce_bus e)) of
         None \<Rightarrow> client_main e [] [name, node, unit] = None
       | Some (i, p, n, u, res) \<Rightarrow> \<exists>cl. client_main e [] [name, node, unit] = Some (0, cl) \<and> cl_calls cl = [c] \<and>
           cl_printed cl = [''Unit '' @ u @ '' '' @ meth @ '' operation result: '' @ res]" if "rounds_ok (ce_bus e)"
    using reports(1) [OF that] main by (cases "find (\<lambda>m. job_path_of m = job) (job_signals (ce_bus e))") auto
  show "\<exists>cl. client_main e [] [name, node, unit] = Some (1, cl)"
    if bus: "ce_bus e = rounds @ (r, m, w) # rest" "rounds_ok rounds" "r < 0"
      "job \<notin> job_path_of ` set (job_signals (rounds @ [(r, m, w)]))" for rounds r m w rest
  proof -
    obtain cl where "method_lifecycle_action_on e node unit meth new_client = Some (- EIO, cl)"
      using reports(2) [OF bus] by auto
    then show ?thesis using main by (simp add: EIO_def)
  qed
qed

definition job_env :: client_env where
  "job_env = quiet_env\<lparr>ce_call := \<lambda>_ _. Inr (DPath ''/job/2''),
     ce_bus := [(1, Some (1, ''/job/1'', ''pi'', ''a.service'', ''done''), 0), (0, None, 0), (1, Some (2, ''/job/2'', ''pi'', ''b.service'', ''failed''), 0)]\<rparr>"

theorem bluechictl_job_witness:
  "\<exists>cl. client_main job_env [] [''start'', ''pi'', ''b.service''] = Some (0, cl) \<and>
     cl_printed cl = [''Unit b.service StartUnit operation result: failed'']"
  using bluechictl_job [of "''start''" "''StartUnit''" job_env _ "''pi''" "''b.service''"]
  by (auto simp: lifecycle_commands_def job_env_def quiet_env_def rounds_ok_def job_path_of_def)

section \<open>Failures that are not reported\<close>

lemma last_node_result:
  "ns \<noteq> [] \<Longrightarrow> \<exists>cl0. fold (\<lambda>(n, _) (r, cl). method_reset_failed_on_node e n cl) ns s =
     method_reset_failed_on_node e (fst (last ns)) cl0"
  by (induction ns arbitrary: s) (auto simp: case_prod_beta)

text \<open>C40.  Three failures that \<open>bluechictl\<close> does not report in its exit code.  \<open>set-default\<close> with a unit that is no target
  calls nothing and exits with 0.  \<open>disable\<close> exits with 0 when the units could not be disabled but the reload that
  follows is accepted.  \<open>reset-failed\<close> without arguments exits with 0 when the last node accepts it, whatever the other
  nodes answer.\<close>

theorem bluechictl_lost_failures:
  assumes "\<forall>c. 0 \<le> ce_ret e c"
  shows "(\<not> match_glob (Some target) (Some ''*target'') \<longrightarrow>
      client_main e [] [''set-default'', node, target] = Some (0, new_client)) \<and>
    (\<forall>r units c. units \<noteq> [] \<longrightarrow> length units < 127 \<longrightarrow> c = DCall (node_path node) NODE_INTERFACE ''DisableUnitFiles'' [DStrv units, DBool False] \<longrightarrow>
      ce_call e [] c = Inl r \<longrightarrow> ce_call e [c] (DCall (node_path node) NODE_INTERFACE ''Reload'' []) = Inr DVoid \<longrightarrow>
      (\<exists>cl. client_main e [] (''disable'' # node # units) = Some (0, cl))) \<and>
    (\<forall>ns. ce_call e [] (DCall BC_OBJECT_PATH CONTROLLER_INTERFACE ''ListNodes'' []) = Inr (DNodes ns) \<longrightarrow> ns \<noteq> [] \<longrightarrow>
      (\<forall>cs. ce_call e cs (DCall (node_path (fst (last ns))) NODE_INTERFACE ''ResetFailed'' []) = Inr DVoid) \<longrightarrow>
      (\<exists>cl. client_main e [] [''reset-failed''] = Some (0, cl)))"
proof (intro conjI allI impI)
  have ok: "\<not> ce_ret e c < 0" "0 \<le> ce_ret e c" for c using assms by (simp_all add: not_less)
  show "client_main e [] [''set-default'', node, target] = Some (0, new_client)" if "\<not> match_glob (Some target) (Some ''*target'')"
    using main_runs [OF find_row(6), of "[node, target]" e] ok that
    by (simp add: client_run_def method_set_default_target_def glob_systemd_target_def)
  show "\<exists>cl. client_main e [] (''disable'' # node # units) = Some (0, cl)"
    if "units \<noteq> []" "length units < 127" "c = DCall (node_path node) NODE_INTERFACE ''DisableUnitFiles'' [DStrv units, DBool False]"
      "ce_call e [] c = Inl r" "ce_call e [c] (DCall (node_path node) NODE_INTERFACE ''Reload'' []) = Inr DVoid" for r units c
  proof -
    have len: "2 \<le> int (length (node # units))" "int (length (node # units)) \<le> ARG_ANY"
      using that(1,2) by (cases units; simp add: ARG_ANY_def)+
    show ?thesis
      using main_runs [OF find_row(5) len] that(3-5) ok
      by (simp add: client_run_def method_disable_def method_disable_unit_on_def method_daemon_reload_def method_daemon_reload_on_def
          node_call_def dbus_call_def simple_call_def new_client_def)
  qed
  show "\<exists>cl. client_main e [] [''reset-failed''] = Some (0, cl)"
    if prems: "ce_call e [] (DCall BC_OBJECT_PATH CONTROLLER_INTERFACE ''ListNodes'' []) = Inr (DNodes ns)" "ns \<noteq> []"
      "\<forall>cs. ce_call e cs (DCall (node_path (fst (last ns))) NODE_INTERFACE ''ResetFailed'' []) = Inr DVoid" for ns
  proof -
    obtain cl0 where "fold (\<lambda>(n, _) (r, cl). method_reset_failed_on_node e n cl) ns
        (1, new_client\<lparr>cl_calls := [DCall BC_OBJECT_PATH CONTROLLER_INTERFACE ''ListNodes'' []]\<rparr>) =
        method_reset_failed_on_node e (fst (last ns)) cl0"
      using last_node_result [OF prems(2)] by blast
    moreover have "method_reset_failed_on_node e (fst (last ns)) cl0 = (0, snd (method_reset_failed_on_node e (fst (last ns)) cl0))"
      using prems(3) by (simp add: method_reset_failed_on_node_def node_call_def dbus_call_def simple_call_def)
    ultimately obtain cl where "method_reset_failed_on_all_nodes e new_client = (0, cl)"
      using prems(1) by (simp add: method_reset_failed_on_all_nodes_def controller_call_def dbus_call_def new_client_def)
    then show ?thesis
      using main_runs [OF find_row(7), of "[]" e] ok by (simp add: ARG_ANY_def client_run_def method_reset_failed_def)
  qed
qed

theorem bluechictl_lost_failures_witness:
  "client_main quiet_env [] [''set-default'', ''pi'', ''a.service''] = Some (0, new_client)"
proof -
  have 1: "\<forall>c. 0 \<le> ce_ret quiet_env c" by (simp add: quiet_env_def)
  have 2: "\<not> match_glob (Some ''a.service'') (Some ''*target'')" by code_simp
  show ?thesis using bluechictl_lost_failures [OF 1, of "''a.service''" "''pi''"] 2 by blast
qed

end
