(* ===== verification/Job_Flow.thy ===== *)
theory Job_Flow
  imports Composition Ctrl_Jobs_Props Ctrl_Disconnect Agent_Props Client_Main
begin

text \<open>A job from systemd to the command line: systemd removes a job on a machine, the agent tells the controller, the controller
  tells its clients, and \<open>bluechictl\<close> returns; and what becomes of the client when the machine is lost before.\<close>

section \<open>The signals of jobs\<close>

text \<open>The controller takes a signal of the agent about a job; the time of a job is matched only while metrics are on.\<close>

definition node_takes_job :: "env \<Rightarrow> addr \<Rightarrow> nat \<Rightarrow> agent_out \<Rightarrow> Controller \<Rightarrow> Controller option" where
  "node_takes_job e n c m s =
     (case m of
        SigJobDone c' i res \<Rightarrow> if c' = c then node_match_job_done e i res s else Some s
      | SigJobMetrics c' u meth t \<Rightarrow>
          if c' = c \<and> map_option nd_metrics_slot (node_h s n) = Some True then node_metrics_match_agent_job e n u meth t s else Some s
      | _ \<Rightarrow> Some s)"

text \<open>The \<open>JobRemoved\<close> signals a client is sent that listens since the first \<open>k\<close> of them.\<close>

definition removals_from :: "nat \<Rightarrow> Controller \<Rightarrow> job_removed list" where
  "removals_from k s = drop k (removals (out s))"

text \<open>The metrics of a job announce nothing and change no job.\<close>

lemma takes_metrics:
  assumes "node_h s n \<noteq> None"
  shows "\<exists>s1. foldo (node_takes_job e n c) (job_metrics ea c op a) s = Some s1 \<and>
    jobs s1 = jobs s \<and> job_h s1 = job_h s \<and> node_h s1 = node_h s \<and> removals (out s1) = removals (out s)"
  using assms by (auto simp: job_metrics_def node_takes_job_def node_metrics_match_agent_job_def emit_def)

section \<open>A finished job\<close>

text \<open>A client that waits for the job with the path \<open>job\<close>: it was given the path when the controller had sent \<open>k\<close> signals of removed
  jobs, and its bus brings it those sent since then.\<close>

definition waits_for :: "client_env \<Rightarrow> string \<Rightarrow> string \<Rightarrow> string \<Rightarrow> string \<Rightarrow> job_removed list \<Rightarrow> bool" where
  "waits_for e node meth unit job sigs =
     (0 \<le> ce_ret e ClOpen \<and> 0 \<le> ce_ret e (ClMatch ''JobRemoved'') \<and> rounds_ok (ce_bus e) \<and> job_signals (ce_bus e) = sigs \<and>
      ce_call e [] (DCall (node_path node) NODE_INTERFACE meth [DStr unit, DStr ''replace'']) = Inr (DPath job))"

lemma waiting_client:
  assumes "(name, meth) \<in> set lifecycle_commands" "waits_for e node meth unit job sigs"
  shows "client_main e [] [name, node, unit] = map_option (\<lambda>(i, p, n, u, res). (0, new_client\<lparr>cl_object_path := Some (node_path node),
      cl_calls := [DCall (node_path node) NODE_INTERFACE meth [DStr unit, DStr ''replace'']],
      cl_pending_job_name := Some job, cl_printed := [''Unit '' @ u @ '' '' @ meth @ '' operation result: '' @ res]\<rparr>))
    (find (\<lambda>m. job_path_of m = job) sigs)"
proof -
  have new: "cl_calls new_client = []" "cl_printed new_client = []" "cl_pending_job_name new_client = None" "cl_pending_job_result new_client = None"
    by (simp_all add: new_client_def)
  have w: "0 \<le> ce_ret e ClOpen" "\<not> ce_ret e (ClMatch ''JobRemoved'') < 0" "rounds_ok (ce_bus e)" "job_signals (ce_bus e) = sigs"
    "ce_call e [] (DCall (node_path node) NODE_INTERFACE meth [DStr unit, DStr ''replace'']) = Inr (DPath job)"
    using assms(2) by (auto simp: waits_for_def)
  show ?thesis
    using lifecycle_main [OF assms(1) w(1), of node unit] lifecycle_reports(1) [OF w(2) new(3,4) refl, unfolded new(1,2), OF w(5,3)] w(4)
    by (cases "find (\<lambda>m. job_path_of m = job) sigs") auto
qed

lemma find_at_end: "\<forall>x \<in> set xs. \<not> P x \<Longrightarrow> P y \<Longrightarrow> find P (xs @ [y]) = Some y"
  by (induction xs) auto

text \<open>C5.  From systemd to the command line.  The agent follows a job the controller started on its node.  When systemd
  removes it, the controller, having taken what the agent then sends, has announced the removal of exactly that job; and
  a \<open>bluechictl\<close> that was given the path of the job and has not yet seen its removal prints the unit and the result
  that systemd reported and exits with 0.\<close>

theorem job_end_to_end:
  assumes "abus_ok ea" "refs_ok a" "ag_peer_dbus a = Some c" "distinct (map jt_path (ag_tracked_jobs a))" "jt \<in> set (ag_tracked_jobs a)"
    "ag_op_h a (jt_op jt) = Some op" "bus_ok e" "jobs_ok s" "j \<in> set (jobs s)" "job_h s j = Some jb" "job_id jb = op_job_id op"
    "job_node jb = n" "node_h s n = Some nd" "nd_name nd = Some node"
  shows "\<exists>b t. agent_match_job_removed ea (jt_path jt) res a = Some b \<and>
    foldo (node_takes_job e n c) (drop (length (ag_out a)) (ag_out b)) s = Some t \<and>
    removals (out t) = removals (out s) @ [(job_id jb, job_path jb, node, job_unit jb, res)] \<and> jobs t = remove1 j (jobs s) \<and>
    (\<forall>ce name meth unit k. (name, meth) \<in> set lifecycle_commands \<longrightarrow> k \<le> length (removals (out s)) \<longrightarrow>
      job_path jb \<notin> job_path_of ` set (removals_from k s) \<longrightarrow> waits_for ce node meth unit (job_path jb) (removals_from k t) \<longrightarrow>
      (\<exists>cl. client_main ce [] [name, node, unit] = Some (0, cl) \<and>
        cl_printed cl = [''Unit '' @ job_unit jb @ '' '' @ meth @ '' operation result: '' @ res]))"
proof -
  obtain b where b: "agent_match_job_removed ea (jt_path jt) res a = Some b"
    "ag_out b = ag_out a @ job_metrics ea c op a @ [SigJobDone c (op_job_id op) res]"
    using job_done_once [OF assms(1-6)] by blast
  obtain s1 where s1: "foldo (node_takes_job e n c) (job_metrics ea c op a) s = Some s1" "jobs s1 = jobs s" "job_h s1 = job_h s"
    "node_h s1 = node_h s" "removals (out s1) = removals (out s)"
    using takes_metrics [of s n e c ea op a] assms(13) by blast
  have "jobs_ok s1" using assms(8) s1 by (simp add: jobs_ok_def job_ids_def live_job_def)
  then obtain t where t: "controller_finish_job e (job_id jb) res s1 = Some t" "jobs t = remove1 j (jobs s)"
    "removals (out t) = removals (out s) @ [(job_id jb, job_path jb, node, job_unit jb, res)]"
    using finish_job_effect [OF assms(7), of s1 j jb nd res] assms(9,10,12-14) s1 by (auto simp: str_arg_def)
  have run: "foldo (node_takes_job e n c) (drop (length (ag_out a)) (ag_out b)) s = Some t"
    using b(2) s1(1) t(1) assms(11) by (simp add: foldo_append node_takes_job_def node_match_job_done_def)
  have "\<exists>cl. client_main ce [] [name, node, unit] = Some (0, cl) \<and>
      cl_printed cl = [''Unit '' @ job_unit jb @ '' '' @ meth @ '' operation result: '' @ res]"
    if w: "(name, meth) \<in> set lifecycle_commands" "k \<le> length (removals (out s))" "job_path jb \<notin> job_path_of ` set (removals_from k s)"
      "waits_for ce node meth unit (job_path jb) (removals_from k t)" for ce name meth unit k
  proof -
    let ?m = "(job_id jb, job_path jb, node, job_unit jb, res)"
    have "\<forall>m \<in> set (removals_from k s). job_path_of m \<noteq> job_path jb" using w(3) by (metis imageI)
    then have "find (\<lambda>m. job_path_of m = job_path jb) (removals_from k s @ [?m]) = Some ?m"
      by (intro find_at_end) (simp_all add: job_path_of_def)
    moreover have "removals_from k t = removals_from k s @ [?m]" using t(3) w(2) by (simp add: removals_from_def)
    ultimately have "find (\<lambda>m. job_path_of m = job_path jb) (removals_from k t) = Some ?m" by simp
    then show ?thesis using waiting_client [OF w(1,4)] by simp
  qed
  then show ?thesis using b(1) run t(2,3) by blast
qed

definition flow_job :: Job where
  "flow_job = (the (job_h example_job 5))\<lparr>job_id := 5\<rparr>"

definition flow_ctrl :: Controller where
  "flow_ctrl = set_job 5 flow_job example_job"

definition flow_client :: client_env where
  "flow_client = quiet_env\<lparr>ce_call := \<lambda>_ _. Inr (DPath (job_path flow_job)),
     ce_bus := [(0, None, 0), (1, Some (5, job_path flow_job, ''pi'', job_unit flow_job, ''done''), 0)]\<rparr>"

lemma flow_ctrl_facts:
  "jobs flow_ctrl = [5]" "job_h flow_ctrl 5 = Some flow_job" "job_id flow_job = 5" "job_node flow_job = 2" "job_refs flow_job = 1"
  "node_h flow_ctrl 2 \<noteq> None" "nd_name (the (node_h flow_ctrl 2)) = Some ''pi''" "removals (out flow_ctrl) = []"
  "job_unit flow_job = ''a.service''"
  by code_simp+

theorem job_end_to_end_witness:
  "\<exists>b t cl. agent_match_job_removed ref_aenv ''/j'' ''done'' job_agent = Some b \<and>
    foldo (node_takes_job ref_env 2 1) (drop (length (ag_out job_agent)) (ag_out b)) flow_ctrl = Some t \<and> jobs t = [] \<and>
    client_main flow_client [] [''start'', ''pi'', ''a.service''] = Some (0, cl) \<and>
    cl_printed cl = [''Unit a.service StartUnit operation result: done'']"
proof -
  obtain op where op: "ag_op_h job_agent 2 = Some op" "op_job_id op = 5" using job_agent_facts(3,4) by auto
  obtain nd where nd: "node_h flow_ctrl 2 = Some nd" "nd_name nd = Some ''pi''" using flow_ctrl_facts(6,7) by auto
  have refs: "refs_ok job_agent" using run_agent_safe by (simp add: agent_inv_def)
  have jobs: "jobs_ok flow_ctrl" using flow_ctrl_facts nd by (simp add: jobs_ok_def live_job_def job_ids_def)
  from job_end_to_end [OF ref_aenv_ok refs job_agent_facts(1) _ _ _ ref_env_ok(1) jobs _ flow_ctrl_facts(2) _ flow_ctrl_facts(4) nd,
      of "\<lparr>jt_path = ''/j'', jt_op = 2\<rparr>" op "''done''"] op
  obtain b t where bt: "agent_match_job_removed ref_aenv ''/j'' ''done'' job_agent = Some b"
    "foldo (node_takes_job ref_env 2 1) (drop (length (ag_out job_agent)) (ag_out b)) flow_ctrl = Some t"
    "removals (out t) = [(5, job_path flow_job, ''pi'', ''a.service'', ''done'')]" "jobs t = []"
    and client: "\<forall>ce name meth unit k. (name, meth) \<in> set lifecycle_commands \<longrightarrow> k \<le> 0 \<longrightarrow>
      waits_for ce ''pi'' meth unit (job_path flow_job) (removals_from k t) \<longrightarrow>
      (\<exists>cl. client_main ce [] [name, ''pi'', unit] = Some (0, cl) \<and>
        cl_printed cl = [''Unit '' @ ''a.service'' @ '' '' @ meth @ '' operation result: '' @ ''done''])"
    by (auto simp: job_agent_facts(2) flow_ctrl_facts removals_from_def)
  have "waits_for flow_client ''pi'' ''StartUnit'' ''a.service'' (job_path flow_job) (removals_from 0 t)"
    by (simp add: waits_for_def flow_client_def quiet_env_def rounds_ok_def removals_from_def bt(3) flow_ctrl_facts(9))
  then have "\<exists>cl. client_main flow_client [] [''start'', ''pi'', ''a.service''] = Some (0, cl) \<and>
      cl_printed cl = [''Unit '' @ ''a.service'' @ '' '' @ ''StartUnit'' @ '' operation result: '' @ ''done'']"
    using client by (simp add: lifecycle_commands_def)
  then show ?thesis using bt(1,2,4) by auto
qed

section \<open>A lost node\<close>

text \<open>The steps of a disconnection send events to monitors and proxies, and no reply and no removal of a job.\<close>

lemma monitor_send_all_notices [simp]: "notices (monitor_send_all e name ev mo s) = notices s"
  unfolding monitor_send_all_def
  by (rule fold_proj_eq) (simp add: monitor_send_def)

lemma sub_handle_notices: "sub_handle e ev a s = Some t \<Longrightarrow> notices t = notices s"
proof -
  have p: "proxy_monitor_call e p m args s = Some t \<Longrightarrow> notices t = notices s" for p m args
    by (cases "pm_h s p"; cases "node_h s (pm_node (the (pm_h s p)))"; cases "nd_agent_bus (the (node_h s (pm_node (the (pm_h s p)))))";
        cases "bus_ret e (CallAsync m) < 0")
      (auto simp: proxy_monitor_call_def Let_def notices_def set_pm_def put_def)
  have "handle_monitor e m ev s = Some t \<Longrightarrow> notices t = notices s" for m
    by (cases ev) (auto simp: handler_defs bind_eq_Some_conv)
  moreover have "handle_proxy_monitor e m ev s = Some t \<Longrightarrow> notices t = notices s" for m
    by (cases ev) (auto simp: handler_defs dest: p)
  ultimately show "sub_handle e ev a s = Some t \<Longrightarrow> notices t = notices s"
    by (cases "sub_h s a") (auto simp: sub_handle_def split: monitor_ref.splits)
qed

lemma notify_unit_notices:
  assumes "notify_unit e n u ev s = Some t"
  shows "notices t = notices s"
proof -
  obtain as where f: "foldo (sub_handle e ev) as s = Some t"
    using assms by (auto simp: notify_unit_def bind_eq_Some_conv)
  show ?thesis by (rule foldo_notices [OF f]) (rule sub_handle_notices)
qed

lemma disconnect_unit_notices: "disconnect_unit e n u s = Some t \<Longrightarrow> notices t = notices s"
  by (auto simp: disconnect_unit_def bind_eq_Some_conv Let_def split: if_splits dest!: notify_unit_notices)

lemma disconnect_job_notices: "disconnect_job n j s = Some t \<Longrightarrow> notices t = notices s"
proof -
  have "job_unref i u = Some v \<Longrightarrow> notices v = notices u" for i u v
    by (auto simp: job_unref_def bind_eq_Some_conv split: if_splits)
  moreover have "notices (s\<lparr>jobs := js\<rparr>) = notices s" for js by (simp add: notices_def)
  ultimately show "disconnect_job n j s = Some t \<Longrightarrow> notices t = notices s"
    by (fastforce simp: disconnect_job_def bind_eq_Some_conv split: if_splits)
qed

lemma node_disconnect_notices:
  assumes run: "node_disconnect e n s = Some t" and nd: "node_h s n = Some nd" "nd_name nd \<noteq> None"
  shows "notices t = notices s"
proof -
  from run nd obtain s1 ps s2 s3 s4 where
    s1: "foldo (disconnect_unit e n) (hm_iter e (map fst (nd_unit_subs nd))) s = Some s1"
    and s2: "foldo (node_remove_proxy_monitor e n) ps s1 = Some s2"
    and s3: "foldo (disconnect_job n) (jobs s2) s2 = Some s3" and s4: "node_unset_agent_bus e n s3 = Some s4"
    and t: "t = controller_check_system_status e (number_of_nodes_online s4)
       (s4\<lparr>number_of_nodes_online := number_of_nodes_online s4 - 1\<rparr>)"
    unfolding node_disconnect_def Let_def by (auto simp: bind_eq_Some_conv)
  have "notices t = notices s4" by (simp add: t controller_check_system_status_def Let_def notices_def prim_defs)
  then show ?thesis
    using foldo_notices [OF s1 disconnect_unit_notices] foldo_notices [OF s2] foldo_notices [OF s3 disconnect_job_notices]
      node_unset_agent_bus_notices [OF s4] by (simp add: node_remove_proxy_monitor_def unref_run_notices)
qed



end
