(* ===== verification/Listen.thy ===== *)
theory Listen
  imports Socket
begin

text \<open>The listening sockets of the controller and accepted connections (\<open>libbluechi/socket.c\<close>).  The system calls are made one after the
  other; the result of a call may depend on all earlier ones.  The state of the sockets of the process is read off the
  calls made so far.\<close>

section \<open>System calls\<close>

datatype sockaddr = AnyV6 "16 word" | AnyV4 "16 word" | UnixPath string

text \<open>The calls on sockets, and those of systemd that hand sockets to the event loop.\<close>

datatype os_call =
    OsSocket int
  | OsReuseAddr int
  | OsBind int sockaddr
  | OsListen int
  | OsClose int
  | OsAccept int
  | OsUnlink string
  | OsListenFds
  | OsIsInet int "16 word"
  | OsIsUnix int string
  | OsAddIo int
  | OsFdOwn int

type_synonym calls = "(os_call \<times> int) list"

text \<open>The result of a call after the calls made so far; a failed call has the negated errno.\<close>

type_synonym os_env = "calls \<Rightarrow> os_call \<Rightarrow> int"

definition sys :: "os_env \<Rightarrow> os_call \<Rightarrow> calls \<Rightarrow> int \<times> calls" where
  "sys e c t = (e t c, t @ [(c, e t c)])"

definition AF_UNIX :: int where "AF_UNIX = 1"
definition EAGAIN :: int where "EAGAIN = 11"
definition EINTR :: int where "EINTR = 4"
definition EAFNOSUPPORT :: int where "EAFNOSUPPORT = 97"
definition EADDRINUSE :: int where "EADDRINUSE = 98"

lemmas errnos = EAGAIN_def EINTR_def EAFNOSUPPORT_def EADDRINUSE_def

section \<open>Creating sockets\<close>

text \<open>A step on a descriptor that is closed when the step fails.\<close>

definition on_fd :: "os_env \<Rightarrow> int \<Rightarrow> os_call \<Rightarrow> (calls \<Rightarrow> int \<times> calls) \<Rightarrow> calls \<Rightarrow> int \<times> calls" where
  "on_fd e fd c k t =
     (let (r, t1) = sys e c t in if r < 0 then (r, snd (sys e (OsClose fd) t1)) else k t1)"

definition create_tcp_socket :: "os_env \<Rightarrow> 16 word \<Rightarrow> calls \<Rightarrow> int \<times> calls" where
  "create_tcp_socket e port t =
     (let (fd6, t1) = sys e (OsSocket AF_INET6) t;
          (use_ipv6, fd, t2) = (if fd6 < 0 \<and> fd6 = - EAFNOSUPPORT then (False, sys e (OsSocket AF_INET) t1) else (True, fd6, t1))
      in if fd < 0 then (fd, t2)
         else on_fd e fd (OsReuseAddr fd)
                (on_fd e fd (OsBind fd (if use_ipv6 then AnyV6 port else AnyV4 port))
                   (on_fd e fd (OsListen fd) (\<lambda>t. (fd, t)))) t2)"

text \<open>The path of a unix socket address has 108 bytes with the final zero.\<close>

definition SUN_PATH_SIZE :: nat where "SUN_PATH_SIZE = 108"

definition create_uds_socket :: "os_env \<Rightarrow> string \<Rightarrow> calls \<Rightarrow> int \<times> calls" where
  "create_uds_socket e path t =
     (let (fd, t1) = sys e (OsSocket AF_UNIX) t
      in if fd < 0 then (fd, t1)
         else on_fd e fd (OsBind fd (UnixPath (take (SUN_PATH_SIZE - 1) path)))
                (on_fd e fd (OsListen fd) (\<lambda>t. (fd, t))) t1)"

definition accept_connection_request :: "os_env \<Rightarrow> int \<Rightarrow> calls \<Rightarrow> int \<times> calls" where
  "accept_connection_request e fd t =
     (let (nfd, t1) = sys e (OsAccept fd) t
      in if nfd < 0 then (if nfd = - EAGAIN \<or> nfd = - EINTR then (0, t1) else (nfd, t1)) else (nfd, t1))"

section \<open>The sockets of the process\<close>

record sock =
  so_bound :: "sockaddr option"
  so_listening :: bool
  so_accepting :: bool

definition new_sock :: sock where
  "new_sock = \<lparr>so_bound = None, so_listening = False, so_accepting = False\<rparr>"

text \<open>What a call does to the sockets that are open.\<close>

fun sock_step :: "os_call \<times> int \<Rightarrow> (int \<rightharpoonup> sock) \<Rightarrow> (int \<rightharpoonup> sock)" where
  "sock_step (OsSocket d, r) m = (if r < 0 then m else m(r \<mapsto> new_sock))"
| "sock_step (OsAccept l, r) m = (if r < 0 then m else m(r \<mapsto> new_sock))"
| "sock_step (OsBind fd a, r) m = (if r < 0 then m else m(fd := map_option (so_bound_update (\<lambda>_. Some a)) (m fd)))"
| "sock_step (OsListen fd, r) m = (if r < 0 then m else m(fd := map_option (so_listening_update (\<lambda>_. True)) (m fd)))"
| "sock_step (OsFdOwn fd, r) m = (if r < 0 then m else m(fd := map_option (so_accepting_update (\<lambda>_. True)) (m fd)))"
| "sock_step (OsClose fd, r) m = m(fd := None)"
| "sock_step _ m = m"

definition sockets :: "calls \<Rightarrow> int \<rightharpoonup> sock" where
  "sockets t = fold sock_step t Map.empty"

text \<open>A new descriptor is one that is not in use.\<close>

definition fresh_fds :: "os_env \<Rightarrow> bool" where
  "fresh_fds e = (\<forall>t d. e t (OsSocket d) \<notin> dom (sockets t) \<and> e t (OsAccept d) \<notin> dom (sockets t))"

definition server :: "sockaddr \<Rightarrow> sock" where
  "server a = \<lparr>so_bound = Some a, so_listening = True, so_accepting = False\<rparr>"

lemma sockets_snoc: "sockets (t @ u) = fold sock_step u (sockets t)"
  by (simp add: sockets_def)

lemma fst_sys [simp]: "fst (sys e c t) = e t c"
  by (simp add: sys_def)

lemma sockets_sys [simp]: "sockets (snd (sys e c t)) = sock_step (c, e t c) (sockets t)"
  by (simp add: sys_def sockets_snoc)

lemma fresh_socket: "fresh_fds e \<Longrightarrow> sockets t (e t (OsSocket d)) = None" "fresh_fds e \<Longrightarrow> sockets t (e t (OsAccept d)) = None"
  by (auto simp: fresh_fds_def domIff)

text \<open>A failing step leaves the sockets as before the descriptor was opened; a step that succeeds goes on.\<close>

lemma on_fd_cases:
  assumes "on_fd e fd c k t = (r, t')"
  obtains "r < 0" "sockets t' = (sockets (snd (sys e c t)))(fd := None)" "e t c < 0"
    | "0 \<le> e t c" "k (snd (sys e c t)) = (r, t')"
proof (cases "e t c < 0")
  case True
  then show thesis using that(1) assms by (auto simp: on_fd_def sys_def sockets_snoc)
next
  case False
  then show thesis using that(2) assms by (simp add: on_fd_def sys_def)
qed

text \<open>What is promised of the creation of a listening socket at one of the addresses \<open>addrs\<close>.\<close>

locale socket_creator =
  fixes create :: "os_env \<Rightarrow> calls \<Rightarrow> int \<times> calls" and addrs :: "sockaddr set"
  assumes created: "fresh_fds e \<Longrightarrow> create e t = (fd, t') \<Longrightarrow> 0 \<le> fd \<Longrightarrow>
      sockets t fd = None \<and> (\<exists>a \<in> addrs. sockets t' = (sockets t)(fd \<mapsto> server a))"
    and not_created: "fresh_fds e \<Longrightarrow> create e t = (fd, t') \<Longrightarrow> fd < 0 \<Longrightarrow> sockets t' = sockets t"

lemma listen_step:
  assumes "on_fd e fd (OsListen fd) (\<lambda>t. (fd, t)) t = (r, t')" "0 \<le> fd" "sockets t = m(fd \<mapsto> s)" "m fd = None"
  shows "(r < 0 \<and> sockets t' = m) \<or> (r = fd \<and> sockets t' = m(fd \<mapsto> s\<lparr>so_listening := True\<rparr>))"
  using assms(1) by (rule on_fd_cases) (use assms in \<open>auto simp: fun_upd_idem\<close>)

lemma bind_step:
  assumes "on_fd e fd (OsBind fd a) (on_fd e fd (OsListen fd) (\<lambda>t. (fd, t))) t = (r, t')" "0 \<le> fd"
    "sockets t = m(fd \<mapsto> new_sock)" "m fd = None"
  shows "(r < 0 \<and> sockets t' = m) \<or> (r = fd \<and> sockets t' = m(fd \<mapsto> server a))"
  using assms(1)
proof (rule on_fd_cases)
  assume "0 \<le> e t (OsBind fd a)" "on_fd e fd (OsListen fd) (\<lambda>t. (fd, t)) (snd (sys e (OsBind fd a) t)) = (r, t')"
  then show ?thesis
    using listen_step [of e fd "snd (sys e (OsBind fd a) t)" r t' m "new_sock\<lparr>so_bound := Some a\<rparr>"] assms(2-4)
    by (simp add: new_sock_def server_def)
qed (use assms in \<open>auto simp: fun_upd_idem\<close>)

lemma reuse_step:
  assumes "on_fd e fd (OsReuseAddr fd) (on_fd e fd (OsBind fd a) (on_fd e fd (OsListen fd) (\<lambda>t. (fd, t)))) t = (r, t')" "0 \<le> fd"
    "sockets t = m(fd \<mapsto> new_sock)" "m fd = None"
  shows "(r < 0 \<and> sockets t' = m) \<or> (r = fd \<and> sockets t' = m(fd \<mapsto> server a))"
  using assms(1)
proof (rule on_fd_cases)
  assume "0 \<le> e t (OsReuseAddr fd)"
    "on_fd e fd (OsBind fd a) (on_fd e fd (OsListen fd) (\<lambda>t. (fd, t))) (snd (sys e (OsReuseAddr fd) t)) = (r, t')"
  then show ?thesis using bind_step [of e fd a "snd (sys e (OsReuseAddr fd) t)" r t' m] assms(2-4) by simp
qed (use assms in \<open>auto simp: fun_upd_idem\<close>)

lemma create_tcp_result:
  assumes "fresh_fds e" "create_tcp_socket e port t = (r, t')"
  shows "(r < 0 \<and> sockets t' = sockets t) \<or>
    (0 \<le> r \<and> sockets t r = None \<and> (\<exists>a \<in> {AnyV6 port, AnyV4 port}. sockets t' = (sockets t)(r \<mapsto> server a)))"
proof -
  define t1 where "t1 = snd (sys e (OsSocket AF_INET6) t)"
  show ?thesis
  proof (cases "e t (OsSocket AF_INET6) < 0")
    case fail6: True
    then have t1: "sockets t1 = sockets t" by (simp add: t1_def)
    show ?thesis
    proof (cases "e t (OsSocket AF_INET6) = - EAFNOSUPPORT \<and> 0 \<le> e t1 (OsSocket AF_INET)")
      case True
      let ?fd = "e t1 (OsSocket AF_INET)"
      have "on_fd e ?fd (OsReuseAddr ?fd) (on_fd e ?fd (OsBind ?fd (AnyV4 port)) (on_fd e ?fd (OsListen ?fd) (\<lambda>t. (?fd, t))))
          (snd (sys e (OsSocket AF_INET) t1)) = (r, t')"
        using assms(2) fail6 True by (simp add: create_tcp_socket_def Let_def case_prod_beta flip: t1_def)
      from reuse_step [OF this, of "sockets t"] True t1 fresh_socket(1) [OF assms(1), of t1 AF_INET] show ?thesis by auto
    qed (use assms(2) fail6 t1 in \<open>auto simp: create_tcp_socket_def sys_def t1_def sockets_snoc split: if_splits\<close>)
  next
    case False
    let ?fd = "e t (OsSocket AF_INET6)"
    have "on_fd e ?fd (OsReuseAddr ?fd) (on_fd e ?fd (OsBind ?fd (AnyV6 port)) (on_fd e ?fd (OsListen ?fd) (\<lambda>t. (?fd, t))))
        (snd (sys e (OsSocket AF_INET6) t)) = (r, t')"
      using assms(2) False by (simp add: create_tcp_socket_def sys_def)
    from reuse_step [OF this, of "sockets t"] False fresh_socket(1) [OF assms(1), of t AF_INET6] show ?thesis by auto
  qed
qed

lemma create_uds_result:
  assumes "fresh_fds e" "create_uds_socket e path t = (r, t')"
  shows "(r < 0 \<and> sockets t' = sockets t) \<or>
    (0 \<le> r \<and> sockets t r = None \<and> sockets t' = (sockets t)(r \<mapsto> server (UnixPath (take (SUN_PATH_SIZE - 1) path))))"
proof (cases "e t (OsSocket AF_UNIX) < 0")
  case False
  let ?fd = "e t (OsSocket AF_UNIX)"
  have "on_fd e ?fd (OsBind ?fd (UnixPath (take (SUN_PATH_SIZE - 1) path))) (on_fd e ?fd (OsListen ?fd) (\<lambda>t. (?fd, t)))
      (snd (sys e (OsSocket AF_UNIX) t)) = (r, t')"
    using assms(2) False by (simp add: create_uds_socket_def sys_def)
  from bind_step [OF this, of "sockets t"] False fresh_socket(1) [OF assms(1), of t AF_UNIX] show ?thesis by auto
qed (use assms(2) in \<open>auto simp: create_uds_socket_def sys_def sockets_snoc\<close>)

interpretation tcp: socket_creator "\<lambda>e. create_tcp_socket e port" "{AnyV6 port, AnyV4 port}" for port
  by unfold_locales (use create_tcp_result in fastforce)+

interpretation uds: socket_creator "\<lambda>e. create_uds_socket e path" "{UnixPath (take (SUN_PATH_SIZE - 1) path)}" for path
  by unfold_locales (use create_uds_result in fastforce)+

end
