(* ===== verification/Ctrl_Start.thy ===== *)
theory Ctrl_Start
  imports Ctrl_Config Ctrl_Methods Network Listen
begin

text \<open>The start of the controller: its listening sockets, accepted connections, the heartbeat timer, signals, the command
  line and \<open>main\<close> (\<open>controller/controller.c\<close>, \<open>controller/main.c\<close>, \<open>libbluechi/service/shutdown.c\<close>).\<close>

section \<open>Listening sockets\<close>

text \<open>The event sources of the controller: the socket passed by systemd, and the descriptors of its own sockets.\<close>

record Listeners =
  ls_systemd :: bool
  ls_tcp :: "int option"
  ls_uds :: "int option"

definition no_listeners :: Listeners where
  "no_listeners = \<lparr>ls_systemd = False, ls_tcp = None, ls_uds = None\<rparr>"

definition SD_LISTEN_FDS_START :: int where "SD_LISTEN_FDS_START = 3"

definition controller_setup_systemd_socket_connection_handler :: "os_env \<Rightarrow> Listeners \<Rightarrow> calls \<Rightarrow> bool \<times> Listeners \<times> calls" where
  "controller_setup_systemd_socket_connection_handler e ls t =
     (let (n, t1) = sys e OsListenFds t
      in if n < 1 then (True, ls, t1)
         else if n > 1 then (False, ls, t1)
         else let (r, t2) = sys e (OsAddIo SD_LISTEN_FDS_START) t1
              in if r < 0 then (False, ls, t2)
                 else let (r, t3) = sys e (OsFdOwn SD_LISTEN_FDS_START) t2
                      in if r < 0 then (False, ls, t3) else (True, ls\<lparr>ls_systemd := True\<rparr>, t3))"

text \<open>A listening descriptor becomes an event source that owns it; it is closed when that fails.\<close>

definition add_listener :: "os_env \<Rightarrow> int \<Rightarrow> calls \<Rightarrow> int \<times> calls" where
  "add_listener e fd = on_fd e fd (OsAddIo fd) (on_fd e fd (OsFdOwn fd) (\<lambda>t. (fd, t)))"

definition controller_setup_tcp_connection_handler :: "os_env \<Rightarrow> 16 word \<Rightarrow> Listeners \<Rightarrow> calls \<Rightarrow> bool \<times> Listeners \<times> calls" where
  "controller_setup_tcp_connection_handler e p ls t =
     (let (tcp_fd, t1) = create_tcp_socket e p t
      in if tcp_fd < 0
         then if tcp_fd = - EADDRINUSE \<and> ls_systemd ls
              then let (r, t2) = sys e (OsIsInet SD_LISTEN_FDS_START p) t1 in (0 < r, ls, t2)
              else (False, ls, t1)
         else let (r, t2) = add_listener e tcp_fd t1
              in if r < 0 then (False, ls, t2) else (True, ls\<lparr>ls_tcp := Some tcp_fd\<rparr>, t2))"

text \<open>A path in use is removed and tried once more, unless it is the socket that systemd has passed.\<close>

definition controller_setup_uds_connection_handler :: "os_env \<Rightarrow> string \<Rightarrow> Listeners \<Rightarrow> calls \<Rightarrow> bool \<times> Listeners \<times> calls" where
  "controller_setup_uds_connection_handler e path ls t =
     (let (fd1, t1) = create_uds_socket e path t;
          (passed, t2) = (if fd1 = - EADDRINUSE \<and> ls_systemd ls
                          then let (r, t2) = sys e (OsIsUnix SD_LISTEN_FDS_START path) t1 in (0 < r, t2) else (False, t1))
      in if passed then (True, ls, t2)
         else let (uds_fd, t3) = (if fd1 = - EADDRINUSE then create_uds_socket e path (snd (sys e (OsUnlink path) t2)) else (fd1, t2))
              in if uds_fd < 0 then (False, ls, t3)
                 else let (r, t4) = add_listener e uds_fd t3
                      in if r < 0 then (False, ls, t4) else (True, ls\<lparr>ls_uds := Some uds_fd\<rparr>, t4))"

definition controller_setup_node_connection_handler ::
    "os_env \<Rightarrow> string \<Rightarrow> ControllerSettings \<Rightarrow> Listeners \<Rightarrow> calls \<Rightarrow> bool \<times> Listeners \<times> calls" where
  "controller_setup_node_connection_handler e path c ls t =
     (let (ok1, ls1, t1) = controller_setup_systemd_socket_connection_handler e ls t
      in if \<not> ok1 then (False, ls1, t1)
         else let (ok2, ls2, t2) = (if use_tcp c then controller_setup_tcp_connection_handler e (port c) ls1 t1 else (True, ls1, t1))
              in if \<not> ok2 then (False, ls2, t2)
                 else let (ok3, ls3, t3) = (if use_uds c then controller_setup_uds_connection_handler e path ls2 t2 else (True, ls2, t2))
                      in if \<not> ok3 then (False, ls3, t3)
                         else (ls_systemd ls3 \<or> ls_tcp ls3 \<noteq> None \<or> ls_uds ls3 \<noteq> None, ls3, t3))"

section \<open>Accepting a connection\<close>

text \<open>The options of the socket under a bus: the result, and the options set.\<close>

definition bus_socket_set_options :: "(Network.bus_call \<Rightarrow> int) \<Rightarrow> socket_env \<Rightarrow> SocketOptions \<Rightarrow> int \<times> (sockopt \<times> int) list" where
  "bus_socket_set_options ret se opts = (if ret BusGetFd < 0 then (ret BusGetFd, []) else socket_set_options se (Some opts))"

text \<open>The server bus takes over the descriptor; \<open>b nfd\<close> is the peer bus on it.  Options that cannot be set are ignored.\<close>

definition accept_node_connection ::
    "env \<Rightarrow> os_env \<Rightarrow> (Network.bus_call \<Rightarrow> int) \<Rightarrow> socket_env \<Rightarrow> (int \<Rightarrow> bus) \<Rightarrow> SocketOptions \<Rightarrow> int \<Rightarrow> calls \<Rightarrow> Controller \<Rightarrow>
     (int \<times> calls \<times> (sockopt \<times> int) list \<times> Controller) option" where
  "accept_node_connection e oe ret se b opts fd t s =
     (let (nfd, t1) = accept_connection_request oe fd t
      in if nfd < 0 then Some (- 1, t1, [], s)
         else if \<not> peer_bus_open_server ret True then Some (- 1, t1, [], s)
         else map_option (\<lambda>(r, s1). (r, t1, snd (bus_socket_set_options ret se opts), s1))
                (controller_accept_node_connection e (b nfd) s))"

section \<open>Heartbeats and signals\<close>

text \<open>Clock 7 is \<open>CLOCK_BOOTTIME\<close>.\<close>

definition controller_reset_heartbeat_timer ::
    "(event_call \<Rightarrow> int) \<Rightarrow> 64 word \<Rightarrow> event_source option \<Rightarrow> Controller \<Rightarrow> int \<times> event_source option" where
  "controller_reset_heartbeat_timer ev usec_now src s =
     event_reset_time_relative ev usec_now src 7 (word_of_int (heartbeat_interval_msec s) * USEC_PER_MSEC) True False"

definition controller_setup_heartbeat_timer ::
    "(event_call \<Rightarrow> int) \<Rightarrow> 64 word \<Rightarrow> Controller \<Rightarrow> int \<times> event_source option" where
  "controller_setup_heartbeat_timer ev usec_now s =
     (if heartbeat_interval_msec s \<le> 0 then (0, None)
      else let (r, src) = controller_reset_heartbeat_timer ev usec_now None s
           in if r < 0 then (r, None) else (ev EvSetFloating, if ev EvSetFloating < 0 then None else src))"

datatype signal_call = SigEmptySet | SigAddSet int | SigBlock | SigAddSource int

definition SIGINT :: int where "SIGINT = 2"
definition SIGTERM :: int where "SIGTERM = 15"

definition event_loop_add_shutdown_signals :: "(signal_call \<Rightarrow> int) \<Rightarrow> bool \<Rightarrow> int" where
  "event_loop_add_shutdown_signals ret has_event =
     (if \<not> has_event then - EINVAL
      else if ret SigEmptySet < 0 then - 1
      else if ret (SigAddSet SIGTERM) < 0 then - 1
      else if ret (SigAddSet SIGINT) < 0 then - 1
      else if ret SigBlock < 0 then - 1
      else if ret (SigAddSource SIGTERM) < 0 then - 1
      else if ret (SigAddSource SIGINT) < 0 then - 1
      else 0)"

text \<open>A signal runs the hook and ends the event loop.\<close>

definition event_loop_signal_handler :: "bool \<Rightarrow> ('s \<Rightarrow> 's option) option \<Rightarrow> int \<Rightarrow> 's \<Rightarrow> (int \<times> 's) option" where
  "event_loop_signal_handler has_source hook sd_event_exit s =
     (if \<not> has_source then Some (- EINVAL, s)
      else map_option (\<lambda>s1. (sd_event_exit, s1)) (case hook of None \<Rightarrow> Some s | Some shutdown \<Rightarrow> shutdown s))"

section \<open>The start\<close>

text \<open>The results of the calls of the start; the event loop is a function on the state of the controller.\<close>

record start_env =
  st_event :: int
  st_user_api :: bool
  st_bus :: "Network.bus_call \<Rightarrow> int"
  st_request_name :: int
  st_add_filter :: int
  st_time :: "event_call \<Rightarrow> int"
  st_now :: "64 word"
  st_signal :: "signal_call \<Rightarrow> int"
  st_os :: os_env
  st_uds_path :: string
  st_loop :: "Controller \<Rightarrow> (int \<times> Controller) option"

fun export_nodes :: "env \<Rightarrow> addr list \<Rightarrow> Controller \<Rightarrow> (bool \<times> Controller) option" where
  "export_nodes e [] s = Some (True, s)"
| "export_nodes e (n # ns) s =
     Option.bind (node_export e n s) (\<lambda>(ok, s1). if ok then export_nodes e ns s1 else Some (False, s1))"

definition controller_start ::
    "env \<Rightarrow> start_env \<Rightarrow> ControllerSettings \<Rightarrow> calls \<Rightarrow> Controller \<Rightarrow> (bool \<times> Listeners \<times> calls \<times> Controller) option" where
  "controller_start e st c t s =
     (if \<not> (if st_user_api st then user_bus_open (st_bus st) else system_bus_open (st_bus st)) then Some (False, no_listeners, t, s)
      else Option.bind (export_nodes e (nodes s) s) (\<lambda>(ok, s1).
        if \<not> ok then Some (False, no_listeners, t, s1)
        else if st_request_name st < 0 then Some (False, no_listeners, t, s1)
        else if st_add_filter st < 0 then Some (False, no_listeners, t, s1)
        else if bus_ret e (MatchSignal ''NameOwnerChanged'') < 0 then Some (False, no_listeners, t, s1)
        else if bus_ret e (AddObjectVtable ''Controller'') < 0 then Some (False, no_listeners, t, s1)
        else let (ok, ls, t1) = controller_setup_node_connection_handler (st_os st) (st_uds_path st) c no_listeners t
             in if \<not> ok then Some (False, ls, t1, s1)
                else let (r, timer) = controller_setup_heartbeat_timer (st_time st) (st_now st) s1
                     in if r < 0 then Some (False, ls, t1, s1)
                        else if event_loop_add_shutdown_signals (st_signal st) True < 0 then Some (False, ls, t1, s1)
                        else map_option (\<lambda>(r, s2). (0 \<le> r, ls, t1, s2)) (st_loop st s1)))"

text \<open>The end of the last reference: the assertions, and the removal of the socket file.\<close>

definition controller_unref :: "start_env \<Rightarrow> Listeners \<Rightarrow> calls \<Rightarrow> Controller \<Rightarrow> calls option" where
  "controller_unref st ls t s =
     (if \<not> controller_unref_ok s then None
      else let close = (\<lambda>src t. case src of None \<Rightarrow> t | Some fd \<Rightarrow> snd (sys (st_os st) (OsClose fd) t));
               unlink = (\<lambda>b t. if b then snd (sys (st_os st) (OsUnlink (st_uds_path st)) t) else t);
               t1 = close (ls_tcp ls) t;
               t2 = unlink (ls_uds ls \<noteq> None) (close (ls_uds ls) t1)
           in Some (unlink (ls_systemd ls) (close (if ls_systemd ls then Some SD_LISTEN_FDS_START else None) t2)))"

section \<open>The program\<close>

record controller_opts =
  opt_port :: cstring
  opt_config :: cstring

fun controller_get_opts :: "(char \<times> cstring) list \<Rightarrow> controller_opts \<Rightarrow> int \<times> controller_opts" where
  "controller_get_opts [] o1 = (0, o1)"
| "controller_get_opts ((opt, optarg) # opts) o1 =
     (if opt = CHR ''h'' then (1, o1)
      else if opt = CHR ''v'' then (1, o1)
      else if opt = CHR ''p'' then controller_get_opts opts (o1\<lparr>opt_port := optarg\<rparr>)
      else if opt = CHR ''c'' then controller_get_opts opts (o1\<lparr>opt_config := optarg\<rparr>)
      else (- EINVAL, o1))"

text \<open>A controller that has just been created, and the places of the standard files.\<close>

definition new_settings :: ControllerSettings where
  "new_settings = \<lparr>use_uds = False, use_tcp = False, port = 0, peer_socket_options = socket_options_new, ctl_config = cfg_initialize\<rparr>"

record standard_files =
  default_file :: string
  etc_file :: string
  etc_dir :: string

text \<open>The exit code and the calls on sockets; \<open>None\<close> when an assertion fails.  The controller is released on every path.\<close>

definition controller_main ::
    "env \<Rightarrow> cfg_env \<Rightarrow> start_env \<Rightarrow> standard_files \<Rightarrow> (char \<times> cstring) list \<Rightarrow> (int \<times> calls) option" where
  "controller_main e ce st fs opts =
     (let (r, o1) = controller_get_opts opts \<lparr>opt_port = None, opt_config = None\<rparr>;
          exit = (\<lambda>code (ls, t, s). map_option (\<lambda>t1. (code, t1)) (controller_unref st ls t s))
      in if r < 0 then Some (1, [])
         else if r > 0 then Some (0, [])
         else if st_event st < 0 then Some (1, [])
         else let (ok, c) = controller_parse_config ce (default_file fs) (etc_file fs) (etc_dir fs) (opt_config o1) (new_settings, controller_new)
              in if \<not> ok then exit 1 (no_listeners, [], snd c)
                 else Option.bind (controller_apply_config ce c) (\<lambda>(ok, c1).
                   if \<not> ok then exit 1 (no_listeners, [], snd c1)
                   else let (ok, c2) = (case opt_port o1 of None \<Rightarrow> (True, c1) | Some p \<Rightarrow> controller_set_port p c1)
                        in if \<not> ok then exit 1 (no_listeners, [], snd c2)
                           else Option.bind (controller_start e st (fst c2) [] (snd c2)) (\<lambda>(ok, rest).
                             if ok then exit 0 rest
                             else case rest of (ls, t, s) \<Rightarrow> Option.bind (controller_stop e s) (\<lambda>s1. exit 1 (ls, t, s1)))))"

end
