(* ===== verification/Ctrl_Start_Props.thy ===== *)
theory Ctrl_Start_Props
  imports Ctrl_Start Ctrl_Disconnect
begin

text \<open>What the start of the controller promises: which sockets are open, how the program exits, and what an interrupted accept does.\<close>

section \<open>The listening sockets\<close>

definition accepting :: "sockaddr \<Rightarrow> sock" where
  "accepting a = (server a)\<lparr>so_accepting := True\<rparr>"

definition tcp_addresses :: "16 word \<Rightarrow> sockaddr set" where
  "tcp_addresses p = {AnyV6 p, AnyV4 p}"

definition uds_address :: "string \<Rightarrow> sockaddr" where
  "uds_address path = UnixPath (take (SUN_PATH_SIZE - 1) path)"

lemma add_listener_result:
  assumes "add_listener e fd t = (r, t')" "0 \<le> fd" "sockets t = m(fd \<mapsto> server a)" "m fd = None"
  shows "(r < 0 \<and> sockets t' = m) \<or> (r = fd \<and> sockets t' = m(fd \<mapsto> accepting a))"
  using assms(1) unfolding add_listener_def
proof (rule on_fd_cases)
  assume "0 \<le> e t (OsAddIo fd)" and own: "on_fd e fd (OsFdOwn fd) (\<lambda>t. (fd, t)) (snd (sys e (OsAddIo fd) t)) = (r, t')"
  show ?thesis using own by (rule on_fd_cases) (use assms in \<open>auto simp: fun_upd_idem accepting_def\<close>)
qed (use assms in \<open>auto simp: fun_upd_idem\<close>)

text \<open>A listener on a socket that a creator has made: all or nothing.\<close>

context socket_creator
begin

lemma listened:
  assumes "fresh_fds e" "create e t = (fd, t1)" "0 \<le> fd" "add_listener e fd t1 = (r, t')"
  shows "(r < 0 \<and> sockets t' = sockets t) \<or>
    (r = fd \<and> sockets t fd = None \<and> (\<exists>a \<in> addrs. sockets t' = (sockets t)(fd \<mapsto> accepting a)))"
  using created [OF assms(1-3)] add_listener_result [OF assms(4,3)] by blast

end

lemmas create_grows_defs = create_tcp_socket_def create_uds_socket_def add_listener_def on_fd_def sys_def Let_def

lemma calls_grow:
  "create_tcp_socket e p t = (r, t') \<Longrightarrow> set t \<subseteq> set t'" "create_uds_socket e path t = (r, t') \<Longrightarrow> set t \<subseteq> set t'"
  "add_listener e fd t = (r, t') \<Longrightarrow> set t \<subseteq> set t'"
  by (auto simp: create_grows_defs split: if_splits prod.splits)

lemma systemd_handler:
  assumes "controller_setup_systemd_socket_connection_handler e no_listeners [] = (ok, ls, t')"
  shows "sockets t' = Map.empty \<and> ls = no_listeners\<lparr>ls_systemd := ls_systemd ls\<rparr>"
  using assms
  by (auto simp: controller_setup_systemd_socket_connection_handler_def sys_def sockets_def no_listeners_def fun_upd_idem Let_def
      split: if_splits)

lemma tcp_handler:
  assumes "fresh_fds e" "controller_setup_tcp_connection_handler e p ls t = (ok, ls', t')"
  shows "set t \<subseteq> set t' \<and>
    ((ls' = ls \<and> sockets t' = sockets t \<and> (ok \<longrightarrow> ls_systemd ls \<and> (\<exists>r > 0. (OsIsInet SD_LISTEN_FDS_START p, r) \<in> set t'))) \<or>
     (ok \<and> (\<exists>fd. \<exists>a \<in> tcp_addresses p. ls' = ls\<lparr>ls_tcp := Some fd\<rparr> \<and> sockets t fd = None \<and> sockets t' = (sockets t)(fd \<mapsto> accepting a))))"
proof -
  obtain fd t1 where c: "create_tcp_socket e p t = (fd, t1)" by fastforce
  show ?thesis
  proof (cases "fd < 0")
    case True
    then show ?thesis
      using assms(2) c calls_grow(1) [OF c] tcp.not_created [OF assms(1) c]
      by (auto simp: controller_setup_tcp_connection_handler_def sys_def sockets_snoc split: if_splits)
  next
    case False
    obtain r t2 where l: "add_listener e fd t1 = (r, t2)" by fastforce
    show ?thesis
      using assms(2) c l False calls_grow(1) [OF c] calls_grow(3) [OF l] tcp.listened [OF assms(1) c _ l]
      by (auto simp: controller_setup_tcp_connection_handler_def tcp_addresses_def split: if_splits)
  qed
qed

lemma uds_handler:
  assumes "fresh_fds e" "controller_setup_uds_connection_handler e path ls t = (ok, ls', t')"
  shows "set t \<subseteq> set t' \<and>
    ((ls' = ls \<and> sockets t' = sockets t \<and> (ok \<longrightarrow> ls_systemd ls \<and> (\<exists>r > 0. (OsIsUnix SD_LISTEN_FDS_START path, r) \<in> set t'))) \<or>
     (ok \<and> (\<exists>fd. ls' = ls\<lparr>ls_uds := Some fd\<rparr> \<and> sockets t fd = None \<and> sockets t' = (sockets t)(fd \<mapsto> accepting (uds_address path)))))"
proof -
  have listen: ?thesis
    if c: "create_uds_socket e path t0 = (fd, t1)" "0 \<le> fd" "sockets t0 = sockets t" "set t \<subseteq> set t0"
      and run: "(let (r, t4) = add_listener e fd t1 in if r < 0 then (False, ls, t4) else (True, ls\<lparr>ls_uds := Some fd\<rparr>, t4)) = (ok, ls', t')"
    for t0 fd t1
  proof -
    obtain r t2 where l: "add_listener e fd t1 = (r, t2)" by fastforce
    show ?thesis
      using run l c(2-4) calls_grow(2) [OF c(1)] calls_grow(3) [OF l] uds.listened [OF assms(1) c(1,2) l]
      by (auto simp: uds_address_def split: if_splits)
  qed
  have fail: ?thesis if "ok = False" "ls' = ls" "sockets t' = sockets t" "set t \<subseteq> set t'" using that by simp
  obtain fd1 t1 where c1: "create_uds_socket e path t = (fd1, t1)" by fastforce
  note grow1 = calls_grow(2) [OF c1] and keep1 = uds.not_created [OF assms(1) c1]
  define t2 where "t2 = (if fd1 = - EADDRINUSE \<and> ls_systemd ls then snd (sys e (OsIsUnix SD_LISTEN_FDS_START path) t1) else t1)"
  have t2: "set t1 \<subseteq> set t2" "sockets t2 = sockets t1" by (auto simp: t2_def sys_def sockets_snoc)
  show ?thesis
  proof (cases "fd1 = - EADDRINUSE \<and> ls_systemd ls \<and> 0 < e t1 (OsIsUnix SD_LISTEN_FDS_START path)")
    case True
    then show ?thesis
      using assms(2) c1 grow1 keep1
      by (auto simp: controller_setup_uds_connection_handler_def sys_def sockets_snoc EADDRINUSE_def)
  next
    case np: False
    show ?thesis
    proof (cases "fd1 = - EADDRINUSE")
      case True
      define t0 where "t0 = snd (sys e (OsUnlink path) t2)"
      have t0: "sockets t0 = sockets t" "set t \<subseteq> set t0"
        using t2 grow1 keep1 True by (auto simp: t0_def sys_def sockets_snoc EADDRINUSE_def)
      obtain fd t3 where c2: "create_uds_socket e path t0 = (fd, t3)" by fastforce
      have run: "(if fd < 0 then (False, ls, t3)
          else let (r, t4) = add_listener e fd t3 in if r < 0 then (False, ls, t4) else (True, ls\<lparr>ls_uds := Some fd\<rparr>, t4)) = (ok, ls', t')"
        using assms(2) c1 c2 True np unfolding t0_def t2_def
        by (auto simp: controller_setup_uds_connection_handler_def sys_def split: if_splits)
      then show ?thesis
        using listen [OF c2 _ t0] uds.not_created [OF assms(1) c2] calls_grow(2) [OF c2] t0 fail
        by (cases "fd < 0") (auto split: if_splits)
    next
      case False
      have run: "(if fd1 < 0 then (False, ls, t1)
          else let (r, t4) = add_listener e fd1 t1 in if r < 0 then (False, ls, t4) else (True, ls\<lparr>ls_uds := Some fd1\<rparr>, t4)) = (ok, ls', t')"
        using assms(2) c1 False by (auto simp: controller_setup_uds_connection_handler_def)
      then show ?thesis using listen [OF c1 _ refl subset_refl] keep1 grow1 fail by (cases "fd1 < 0") (auto split: if_splits)
    qed
  qed
qed

text \<open>The sockets of the process are exactly those of the listeners.\<close>

definition held_by :: "ControllerSettings \<Rightarrow> string \<Rightarrow> Listeners \<Rightarrow> (int \<rightharpoonup> sock) \<Rightarrow> bool" where
  "held_by c path ls m =
     (\<exists>a \<in> tcp_addresses (port c).
        m = (case ls_tcp ls of None \<Rightarrow> Map.empty | Some fd \<Rightarrow> Map.empty(fd \<mapsto> accepting a)) ++
            (case ls_uds ls of None \<Rightarrow> Map.empty | Some fd \<Rightarrow> Map.empty(fd \<mapsto> accepting (uds_address path))) \<and>
        (\<forall>fd. ls_tcp ls = Some fd \<longrightarrow> ls_uds ls \<noteq> Some fd))"

lemma listeners_set_up:
  assumes "fresh_fds e" "controller_setup_node_connection_handler e path c no_listeners [] = (ok, ls, t)"
  shows "held_by c path ls (sockets t) \<and>
    (ok \<longrightarrow> (ls_systemd ls \<or> ls_tcp ls \<noteq> None \<or> ls_uds ls \<noteq> None) \<and>
      (use_tcp c \<longrightarrow> ls_tcp ls \<noteq> None \<or> (ls_systemd ls \<and> (\<exists>r > 0. (OsIsInet SD_LISTEN_FDS_START (port c), r) \<in> set t))) \<and>
      (use_uds c \<longrightarrow> ls_uds ls \<noteq> None \<or> (ls_systemd ls \<and> (\<exists>r > 0. (OsIsUnix SD_LISTEN_FDS_START path, r) \<in> set t))))"
proof -
  obtain ok1 ls1 t1 where h1: "controller_setup_systemd_socket_connection_handler e no_listeners [] = (ok1, ls1, t1)" by (metis prod_cases3)
  obtain ok2 ls2 t2 where h2: "controller_setup_tcp_connection_handler e (port c) ls1 t1 = (ok2, ls2, t2)" by (metis prod_cases3)
  obtain ok2' ls2' t2' where h2': "(if use_tcp c then (ok2, ls2, t2) else (True, ls1, t1)) = (ok2', ls2', t2')" by (metis prod_cases3)
  obtain ok3 ls3 t3 where h3: "controller_setup_uds_connection_handler e path ls2' t2' = (ok3, ls3, t3)" by (metis prod_cases3)
  have s1: "sockets t1 = Map.empty" "ls1 = no_listeners\<lparr>ls_systemd := ls_systemd ls1\<rparr>" using systemd_handler [OF h1] by auto
  have none: "ls_tcp ls1 = None" "ls_uds ls1 = None" by (subst s1(2), simp add: no_listeners_def)+
  have r: "(ok, ls, t) = (if \<not> ok1 then (False, ls1, t1) else if \<not> ok2' then (False, ls2', t2')
      else if \<not> use_uds c then (ls_systemd ls2' \<or> ls_tcp ls2' \<noteq> None \<or> ls_uds ls2' \<noteq> None, ls2', t2')
      else if \<not> ok3 then (False, ls3, t3) else (ls_systemd ls3 \<or> ls_tcp ls3 \<noteq> None \<or> ls_uds ls3 \<noteq> None, ls3, t3))"
    using assms(2) h1 h2 h2' h3 by (auto simp: controller_setup_node_connection_handler_def split: if_splits)
  let ?tcp = "(\<exists>r > 0. (OsIsInet SD_LISTEN_FDS_START (port c), r) \<in> set t2')"
  have 2: "(ls2' = ls1 \<and> sockets t2' = Map.empty \<and> (ok2' \<and> use_tcp c \<longrightarrow> ls_systemd ls1 \<and> ?tcp)) \<or>
    (\<exists>fd. \<exists>a \<in> tcp_addresses (port c). ls2' = ls1\<lparr>ls_tcp := Some fd\<rparr> \<and> sockets t2' = Map.empty(fd \<mapsto> accepting a))"
    using tcp_handler [OF assms(1) h2] h2' s1(1) by (auto split: if_splits)
  have 3: "set t2' \<subseteq> set t3" and 4: "(ls3 = ls2' \<and> sockets t3 = sockets t2' \<and>
      (ok3 \<longrightarrow> ls_systemd ls2' \<and> (\<exists>r > 0. (OsIsUnix SD_LISTEN_FDS_START path, r) \<in> set t3))) \<or>
     (\<exists>fd. ls3 = ls2'\<lparr>ls_uds := Some fd\<rparr> \<and> sockets t2' fd = None \<and> sockets t3 = (sockets t2')(fd \<mapsto> accepting (uds_address path)))"
    using uds_handler [OF assms(1) h3] by auto
  have "held_by c path ls1 (sockets t1)" using none s1(1) by (auto simp: held_by_def tcp_addresses_def)
  moreover have held2: "held_by c path ls2' (sockets t2')"
    using 2 none by (auto simp: held_by_def tcp_addresses_def)
  moreover have "held_by c path ls3 (sockets t3)"
    using 2 4 none held2 by (auto simp: held_by_def fun_upd_twist split: if_splits)
  ultimately have "held_by c path ls (sockets t)" using r by (auto split: if_splits)
  then show ?thesis using r 2 3 4 by (auto split: if_splits)
qed


text \<open>A system that hands out descriptors above all numbers seen, on which every call succeeds.\<close>

fun example_os :: os_env where
  "example_os t (OsSocket d) = foldr max (map snd t) 2 + 1"
| "example_os t (OsAccept l) = foldr max (map snd t) 2 + 1"
| "example_os t c = 0"

lemma dom_sockets: "dom (sockets t) \<subseteq> snd ` set t"
proof (induction t rule: rev_induct)
  case (snoc x t)
  obtain c r where x: "x = (c, r)" by fastforce
  have "dom (sock_step (c, r) m) \<subseteq> insert r (dom m)" for m by (cases c) (auto split: if_splits)
  then show ?case using snoc by (fastforce simp: x sockets_snoc)
qed (simp add: sockets_def)

lemma example_os_fresh: "fresh_fds example_os"
proof -
  have less: "r \<in> set rs \<Longrightarrow> r < foldr max rs 2 + 1" for r :: int and rs
    by (induction rs) (auto simp: max_def)
  have "foldr max (map snd t) 2 + 1 \<notin> dom (sockets t)" for t :: calls
    using dom_sockets [of t] less [of "foldr max (map snd t) 2 + 1" "map snd t"] by auto
  then show ?thesis by (simp add: fresh_fds_def)
qed


section \<open>An interrupted accept\<close>

text \<open>C37.  An accept that was interrupted or found nothing to accept reports the descriptor 0, and the controller takes it for a
  new connection: it starts a peer bus on the standard input of the process and adds an anonymous node for it.\<close>

theorem interrupted_accept:
  assumes "bus_ok e" "hm_iter_ok e" "\<forall>c. 0 \<le> ret c" "oe t (OsAccept fd) = - EAGAIN \<or> oe t (OsAccept fd) = - EINTR"
  shows "\<exists>u so. accept_node_connection e oe ret se b opts fd t s = Some (0, t @ [(OsAccept fd, oe t (OsAccept fd))], so, u) \<and>
    sockets (t @ [(OsAccept fd, oe t (OsAccept fd))]) = sockets t \<and>
    anonymous_nodes u = anonymous_nodes s @ [next_addr s] \<and>
    map_option nd_agent_bus (node_h u (next_addr s)) = Some (Some (b 0))"
proof -
  have "mset (hm_iter e []) = mset []" using assms(2) unfolding hm_iter_ok_def by blast
  then have none: "hm_iter e [] = []" by simp
  have pb: "peer_bus_open_server ret True"
    using assms(3) by (simp add: peer_bus_open_server_def peer_bus_new_def first_failure_iff)
  have "accept_connection_request oe fd t = (0, t @ [(OsAccept fd, oe t (OsAccept fd))])"
    using assms(4) by (auto simp: accept_connection_request_def sys_def errnos)
  moreover have "sockets (t @ [(OsAccept fd, oe t (OsAccept fd))]) = sockets t"
    using assms(4) by (auto simp: sockets_snoc errnos)
  moreover have "\<exists>u. controller_accept_node_connection e (b 0) s = Some (0, u) \<and> anonymous_nodes u = anonymous_nodes s @ [next_addr s] \<and>
      map_option nd_agent_bus (node_h u (next_addr s)) = Some (Some (b 0))"
    using bus_okD [OF assms(1)] none
    by (auto simp: controller_accept_node_connection_def controller_add_node_def node_new_def new_node_def node_set_agent_bus_def
        node_send_agent_subscribe_all_def node_start_proxy_dependency_all_def set_node_def Let_def split: prod.splits)
  ultimately show ?thesis using pb by (auto simp: accept_node_connection_def)
qed

theorem interrupted_accept_witness:
  "\<exists>u so. accept_node_connection ref_env (\<lambda>_ _. - EINTR) (\<lambda>_. 0) \<lparr>se_domain = AF_INET, se_setsockopt = \<lambda>_ _. 0\<rparr> (\<lambda>fd. nat fd)
      socket_options_new 5 [] example_start = Some (0, [(OsAccept 5, - EINTR)], so, u) \<and>
    anonymous_nodes u = [next_addr example_start]"
proof -
  have "anonymous_nodes example_start = []" by code_simp
  then show ?thesis
    using interrupted_accept [OF ref_env_ok(1,2), where ret = "\<lambda>_. 0" and oe = "\<lambda>_ _. - EINTR" and fd = 5 and t = "[]"
        and se = "\<lparr>se_domain = AF_INET, se_setsockopt = \<lambda>_ _. 0\<rparr>" and b = "\<lambda>fd. nat fd" and opts = socket_options_new and s = example_start]
    by auto
qed

section \<open>The exit of the program\<close>

text \<open>A controller without clients and agents: its nodes are offline, and nobody holds them.\<close>

definition idle_node :: "Node \<Rightarrow> bool" where
  "idle_node nd = (nd_name nd \<noteq> None \<and> nd_ref nd = 1 \<and> nd_agent_bus nd = None \<and> nd_unit_subs nd = [] \<and> nd_proxy_monitors nd = [])"

definition idle :: "Controller \<Rightarrow> bool" where
  "idle s = (distinct (nodes s) \<and> (\<forall>n \<in> set (nodes s). \<exists>nd. node_h s n = Some nd \<and> idle_node nd) \<and>
     jobs s = [] \<and> all_subscriptions s = [] \<and> monitors s = [] \<and> anonymous_nodes s = [] \<and> number_of_nodes_online s = 0)"

lemma idle_set_node:
  "idle s \<Longrightarrow> node_h s n = Some nd \<Longrightarrow> (idle_node nd \<longrightarrow> idle_node nd') \<Longrightarrow> idle (set_node n nd' s)"
  by (fastforce simp: idle_def set_node_def)

lemma configured_idle: "configured s \<Longrightarrow> idle s"
proof (induction rule: configured.induct)
  case new
  show ?case by (simp add: idle_def controller_new_def)
next
  case (node s name)
  have "core_fresh (core_of s)" using configured_inv [OF node(1)] by (simp add: core_inv_def)
  then have free: "node_h s (next_addr s) = None" by (auto simp: core_fresh_def core_of_def)
  then have "next_addr s \<notin> set (nodes s)" using node(2) by (auto simp: idle_def)
  then show ?case
    using node(2) free
    by (auto simp: add_expected_node_def controller_add_node_def node_new_def idle_def idle_node_def set_node_def new_node_def Let_def)
next
  case (selinux s n ctx t)
  then obtain nd where "node_h s n = Some nd" "t = set_node n (nd\<lparr>nd_required_selinux := Some ctx\<rparr>) s"
    by (auto simp: node_set_required_selinux_context_def bind_eq_Some_conv)
  then show ?case using idle_set_node [OF selinux(3)] by (simp add: idle_node_def)
next
  case (target s n tg t)
  then obtain nd where "node_h s n = Some nd" "t = set_node n (nd\<lparr>nd_targets := nd_targets nd @ [tg]\<rparr>) s"
    by (auto simp: node_add_allowed_proxy_target_def bind_eq_Some_conv)
  then show ?case using idle_set_node [OF target(3)] by (simp add: idle_node_def)
qed (auto simp: idle_def)

lemma export_nodes_idle:
  assumes "idle s" "set ns \<subseteq> set (nodes s)"
  shows "\<exists>ok t. export_nodes e ns s = Some (ok, t) \<and> idle t \<and> nodes t = nodes s"
  using assms
proof (induction ns arbitrary: s)
  case (Cons n ns)
  then obtain nd where nd: "node_h s n = Some nd" "idle_node nd" by (auto simp: idle_def)
  let ?t = "set_node n (nd\<lparr>nd_export_slot := True\<rparr>) s"
  have "idle ?t" using idle_set_node [OF Cons(2) nd(1)] nd(2) by (simp add: idle_node_def)
  moreover have "nodes ?t = nodes s" by (simp add: set_node_def)
  ultimately have "\<exists>ok u. export_nodes e ns ?t = Some (ok, u) \<and> idle u \<and> nodes u = nodes s"
    using Cons(1) [of ?t] Cons(3) by auto
  then show ?case using nd Cons(2) by (auto simp: node_export_def idle_node_def)
qed auto

text \<open>Such a controller stops, and everything is released.\<close>

lemma remove_idle_node:
  assumes "idle s" "n \<in> set (nodes s)"
  shows "\<exists>t. controller_remove_node e n s = Some t \<and> idle t \<and> nodes t = remove1 n (nodes s)"
proof -
  obtain nd where nd: "node_h s n = Some nd" "idle_node nd" using assms by (auto simp: idle_def)
  then show ?thesis
    using assms
    by (auto simp: controller_remove_node_def list_remove_Some_iff node_is_online_def node_has_agent_def idle_node_def node_unref_def
        unref_run.simps [of e "NodeUnref n"] node_unset_agent_bus_def set_node_def unit_subscriptions_free_ok_def idle_def Let_def
        bind_eq_Some_conv)
qed

lemma remove_idle_nodes:
  "idle s \<Longrightarrow> \<exists>t. foldo (controller_remove_node e) (nodes s) s = Some t \<and> idle t \<and> nodes t = []"
proof (induction "nodes s" arbitrary: s)
  case (Cons n ns)
  obtain t where t: "controller_remove_node e n s = Some t" "idle t" "nodes t = ns"
    using remove_idle_node [OF Cons(3), of n e] Cons(2) by (metis list.set_intros(1) remove1.simps(2))
  then show ?case using Cons(1) [of t] Cons(2) by (metis bind.bind_lunit foldo.simps(2))
qed simp

lemma stop_idle: "idle s \<Longrightarrow> \<exists>t. controller_stop e s = Some t \<and> controller_unref_ok t"
  using remove_idle_nodes [of s e]
  by (auto simp: controller_stop_def idle_def controller_unref_ok_def)

lemma unref_closes:
  assumes "controller_unref_ok s" "held_by c path ls (sockets t)"
  shows "\<exists>t'. controller_unref st ls t s = Some t' \<and> sockets t' = Map.empty"
  using assms
  by (auto simp: controller_unref_def held_by_def sys_def sockets_snoc Let_def fun_eq_iff split: option.splits if_splits)

lemma held_by_none: "held_by c path no_listeners (sockets [])"
  by (auto simp: held_by_def no_listeners_def sockets_def tcp_addresses_def)

text \<open>The event loop runs until a signal stops the controller, at a time when no client and no agent is there.\<close>

definition signalled_when_idle :: "env \<Rightarrow> start_env \<Rightarrow> bool" where
  "signalled_when_idle e st =
     (\<forall>s. idle s \<longrightarrow> (\<exists>u. idle u \<and> st_loop st s = event_loop_signal_handler True (Some (controller_stop e)) 0 u))"

lemma start_result:
  assumes "fresh_fds (st_os st)" "signalled_when_idle e st" "idle s"
  shows "\<exists>ok ls t u. controller_start e st c [] s = Some (ok, ls, t, u) \<and> held_by c (st_uds_path st) ls (sockets t) \<and>
    (if ok then controller_unref_ok u else idle u)"
proof -
  obtain ok1 s1 where s1: "export_nodes e (nodes s) s = Some (ok1, s1)" "idle s1"
    using export_nodes_idle [OF assms(3)] by blast
  obtain ok2 ls t where l: "controller_setup_node_connection_handler (st_os st) (st_uds_path st) c no_listeners [] = (ok2, ls, t)"
    by (rule prod_cases3)
  have held: "held_by c (st_uds_path st) ls (sockets t)" using listeners_set_up [OF assms(1) l] by (rule conjunct1)
  obtain u u' where "idle u" "st_loop st s1 = event_loop_signal_handler True (Some (controller_stop e)) 0 u" "controller_stop e u = Some u'"
    "controller_unref_ok u'"
    using assms(2) s1(2) stop_idle by (meson signalled_when_idle_def)
  then have loop: "st_loop st s1 = Some (0, u')" "controller_unref_ok u'" by (simp_all add: event_loop_signal_handler_def)
  define good where "good r = (\<exists>ok ls t u. r = Some (ok, ls, t, u) \<and> held_by c (st_uds_path st) ls (sockets t) \<and>
    (if ok then controller_unref_ok u else idle u))" for r :: "(bool \<times> Listeners \<times> calls \<times> Controller) option"
  have "good (Some (False, no_listeners, [], s))" "good (Some (False, no_listeners, [], s1))" "good (Some (False, ls, t, s1))"
    "good (Some (True, ls, t, u'))"
    using held loop(2) held_by_none assms(3) s1(2) by (auto simp: good_def)
  then have "good (controller_start e st c [] s)"
    by (simp add: controller_start_def s1(1) l loop(1) case_prod_beta)
  then show ?thesis by (simp add: good_def)
qed

lemma applied_config:
  assumes "cfg_env_ok ce" "controller_apply_config ce (c, controller_new) = Some (True, c1)"
  shows "idle (snd c1)" "nodes (snd c1) = [] \<longleftrightarrow> (\<forall>name. \<not> allowed_node (ctl_config c) name)"
proof -
  from controller_apply_config_nodes_part [OF assms(2)] obtain st1 c2 where
    1: "apply_nodes ce (st1, controller_new) = Some (True, c2)" "ctl_config st1 = ctl_config c" and same: "same_nodes c2 c1"
    by (metis fst_conv prod.collapse snd_conv)
  have 2: "configured (snd c2)" "known (snd c2) = {name. allowed_node (ctl_config c) name}"
    using apply_nodes_ok [OF assms(1), of st1] 1 by (auto simp: conf_ok_def)
  show idle: "idle (snd c1)" using 2(1) same by (auto simp: same_nodes_def intro: configured_idle)
  have "known (snd c1) = known (snd c2)" by (rule known_cong) (use same in \<open>auto simp: same_nodes_def\<close>)
  moreover have "nodes (snd c1) = [] \<longleftrightarrow> known (snd c1) = {}"
    using idle by (cases "nodes (snd c1)") (auto simp: in_known set_eq_iff idle_def idle_node_def)
  ultimately show "nodes (snd c1) = [] \<longleftrightarrow> (\<forall>name. \<not> allowed_node (ctl_config c) name)" using 2(2) by auto
qed

lemma start_and_release:
  assumes "fresh_fds (st_os st)" "signalled_when_idle e st" "idle s"
  shows "\<exists>ok ls t u t'. controller_start e st c [] s = Some (ok, ls, t, u) \<and> sockets t' = Map.empty \<and>
    (if ok then controller_unref st ls t u = Some t' else Option.bind (controller_stop e u) (controller_unref st ls t) = Some t')"
proof -
  obtain ok ls t u where r: "controller_start e st c [] s = Some (ok, ls, t, u)" "held_by c (st_uds_path st) ls (sockets t)"
    "if ok then controller_unref_ok u else idle u"
    using start_result [OF assms] by blast
  show ?thesis
  proof (cases ok)
    case True
    then show ?thesis using r unref_closes [OF _ r(2), of u st] by auto
  next
    case False
    then obtain v where "controller_stop e u = Some v" "controller_unref_ok v" using r(3) stop_idle by auto
    then show ?thesis using r(1) False unref_closes [OF _ r(2), of v st] by auto
  qed
qed


text \<open>A start on which every call succeeds, with a configuration that allows one node.\<close>

definition example_start_env :: start_env where
  "example_start_env =
     \<lparr>st_event = 0, st_user_api = False, st_bus = \<lambda>_. 0, st_request_name = 0, st_add_filter = 0, st_time = \<lambda>_. 0,
      st_now = 0, st_signal = \<lambda>_. 0, st_os = example_os, st_uds_path = ''/run/b'',
      st_loop = event_loop_signal_handler True (Some (controller_stop ref_env)) 0\<rparr>"

definition example_main_cfg :: cfg_env where
  "example_main_cfg = example_cfg_env\<lparr>ce_access_r := \<lambda>f. if f = ''/def'' then 0 else ENOENT, ce_access_f := \<lambda>_. ENOENT,
     ini_parse := \<lambda>f h c. case run_handler h [(''bluechi-controller'', ''AllowedNodeNames'', ''pi'')] c of None \<Rightarrow> (1, c) | Some c' \<Rightarrow> (0, c'),
     ce_getenv := \<lambda>_. None\<rparr>"

definition example_files :: standard_files where
  "example_files = \<lparr>default_file = ''/def'', etc_file = ''/etc'', etc_dir = ''/d''\<rparr>"

definition example_config :: config where
  "example_config = fold (\<lambda>(n, v). set_option_to (''bluechi-controller'', n) v)
     [(''LogLevel'', Some ''INFO''), (''LogTarget'', Some ''journald''), (''LogIsQuiet'', None), (''IPReceiveErrors'', Some ''true''),
      (''TCPKeepAliveTime'', Some ''1''), (''TCPKeepAliveInterval'', Some ''1''), (''TCPKeepAliveCount'', Some ''6''),
      (''UseTCP'', Some ''true''), (''UseUDS'', Some ''true''), (''ControllerPort'', Some ''842''), (''AllowedNodeNames'', Some []),
      (''HeartbeatInterval'', Some ''0''), (''NodeHeartbeatThreshold'', Some ''6000''), (''AllowedNodeNames'', Some ''pi'')]
     (cfg_initialize\<lparr>default_section := ''bluechi-controller''\<rparr>)"

lemma example_main_cfg_ok: "cfg_env_ok example_main_cfg"
  using example_cfg_env_ok(1) by (simp add: cfg_env_ok_def example_main_cfg_def)

lemma example_parse_config:
  "controller_parse_config example_main_cfg ''/def'' ''/etc'' ''/d'' None (new_settings, controller_new) =
     (True, new_settings\<lparr>ctl_config := example_config\<rparr>, controller_new)"
proof -
  note set_ok = cfg_s_set_value_ok [OF example_main_cfg_ok]
  have info: "log_level_to_string LOG_LEVEL_INFO = ''INFO''" by code_simp
  have def: "cfg_controller_def_conf example_main_cfg cfg_initialize = (0, fold (\<lambda>(n, v). set_option_to (''bluechi-controller'', n) v)
     [(''LogLevel'', Some ''INFO''), (''LogTarget'', Some ''journald''), (''LogIsQuiet'', None), (''IPReceiveErrors'', Some ''true''),
      (''TCPKeepAliveTime'', Some ''1''), (''TCPKeepAliveInterval'', Some ''1''), (''TCPKeepAliveCount'', Some ''6''),
      (''UseTCP'', Some ''true''), (''UseUDS'', Some ''true''), (''ControllerPort'', Some ''842''), (''AllowedNodeNames'', Some []),
      (''HeartbeatInterval'', Some ''0''), (''NodeHeartbeatThreshold'', Some ''6000'')]
     (cfg_initialize\<lparr>default_section := ''bluechi-controller''\<rparr>))"
    by (simp add: cfg_controller_def_conf_def cfg_def_conf_def cfg_set_default_section_def cfg_set_value_def set_ok cfg_names
        CFG_SECT_BLUECHI_def info BC_LOG_TARGET_JOURNALD_def BC_DEFAULT_IP_RECEIVE_ERROR_def BC_DEFAULT_TCP_KEEPALIVE_TIME_def
        BC_DEFAULT_TCP_KEEPALIVE_INTERVAL_def BC_DEFAULT_TCP_KEEPALIVE_COUNT_def CONTROLLER_DEFAULT_USE_TCP_def CONTROLLER_DEFAULT_USE_UDS_def
        BC_DEFAULT_PORT_def CONTROLLER_DEFAULT_HEARTBEAT_INTERVAL_MSEC_def CONTROLLER_DEFAULT_NODE_HEARTBEAT_THRESHOLD_MSEC_def)
  have load: "cfg_load_from_file example_main_cfg (Some ''/def'') c = (0, set_option_to (''bluechi-controller'', ''AllowedNodeNames'') (Some ''pi'') c)"
    for c
    by (simp add: cfg_load_from_file_def parsing_handler_def set_ok)
      (simp add: example_main_cfg_def example_cfg_env_def parsing_handler_def cfg_copy_overwrite_def cfg_s_get_value_def cfg_s_set_value_def
        cfg_initialize_def set_option_to_def stored_value_def)
  have none: "cfg_load_from_file example_main_cfg (Some ''/etc'') c = (- ENOENT, c)" "cfg_load_from_dir example_main_cfg ''/d'' c = (0, c)"
    "cfg_load_from_env example_main_cfg c = (0, c)" for c
    by (simp_all add: cfg_load_from_file_def cfg_load_from_dir_def cfg_load_from_env_def env_options_def example_main_cfg_def ENOENT_def)
  show ?thesis
    by (simp add: controller_parse_config_def def cfg_load_complete_configuration_def load_default_file_def load load_custom_file_def none
        load_custom_dir_def example_config_def new_settings_def)
qed

lemma get_set_option:
  "cfg_s_get_value (set_option_to k v c) a b = (if (a, b) = k then stored_value v else cfg_s_get_value c a b)"
  using store.get_set [of k v c "(a, b)"] by simp

lemma get_empty_config: "cfg_s_get_value \<lparr>cfg_store = [], default_section = x\<rparr> a b = None"
  by (simp add: cfg_s_get_value_def)

lemma example_value:
  "cfg_get_value example_config n = (if n = ''AllowedNodeNames'' then Some ''pi'' else
     map_of [(''LogLevel'', ''INFO''), (''LogTarget'', ''journald''), (''IPReceiveErrors'', ''true''),
      (''TCPKeepAliveTime'', ''1''), (''TCPKeepAliveInterval'', ''1''), (''TCPKeepAliveCount'', ''6''),
      (''UseTCP'', ''true''), (''UseUDS'', ''true''), (''ControllerPort'', ''842''),
      (''HeartbeatInterval'', ''0''), (''NodeHeartbeatThreshold'', ''6000'')] n)"
  by (simp add: cfg_get_value_def example_config_def get_set_option stored_value_def get_empty_config cfg_initialize_def)

lemma example_sections: "cfg_list_sections example_main_cfg example_config = [''bluechi-controller'']"
  by (simp add: cfg_list_sections_def example_main_cfg_def example_cfg_env_def example_config_def set_option_to_def cfg_initialize_def)

lemma example_numbers:
  "parse_port (Some ''842'') = Some 842" "parse_long (Some ''0'') = Some 0" "parse_long (Some ''6000'') = Some 6000"
  "parse_long (Some ''1'') = Some 1" "parse_long (Some ''6'') = Some 6"
  by code_simp+

lemma example_apply:
  "\<exists>c1. controller_apply_config example_main_cfg (new_settings\<lparr>ctl_config := example_config\<rparr>, controller_new) = Some (True, c1)"
  by (simp add: controller_apply_config_def and_then_def when_set_def example_value cfg_names controller_set_use_tcp_def controller_set_use_uds_def
      controller_set_port_def example_numbers apply_nodes_def example_sections apply_section_def str_has_prefix_iff CFG_SECT_NODE_PREFIX_def
      controller_set_heartbeat_interval_def controller_set_heartbeat_threshold_def set_socket_option_def socket_options_set_tcp_keepidle_def
      socket_options_set_tcp_keepintvl_def socket_options_set_tcp_keepcnt_def socket_options_set_ip_recverr_def tcp_limits new_settings_def)


end
