(* ===== verification/Agent_Main.thy ===== *)
theory Agent_Main
  imports Agent_Props Ctrl_Start_Props
begin

text \<open>The program \<open>bluechi-agent\<close> (\<open>agent/main.c\<close>): its command line, the settings that override the configuration, and how it exits.\<close>

section \<open>The command line\<close>

record agent_opts =
  ao_port :: cstring
  ao_host :: cstring
  ao_address :: cstring
  ao_name :: cstring
  ao_config :: cstring
  ao_user :: bool
  ao_heartbeat_interval :: cstring

definition no_agent_opts :: agent_opts where
  "no_agent_opts = \<lparr>ao_port = None, ao_host = None, ao_address = None, ao_name = None, ao_config = None, ao_user = False,
     ao_heartbeat_interval = None\<rparr>"

fun agent_get_opts :: "(char \<times> cstring) list \<Rightarrow> agent_opts \<Rightarrow> int \<times> agent_opts" where
  "agent_get_opts [] o1 = (0, o1)"
| "agent_get_opts ((opt, optarg) # opts) o1 =
     (if opt = CHR ''h'' then (1, o1)
      else if opt = CHR ''v'' then (1, o1)
      else if opt = CHR ''n'' then agent_get_opts opts (o1\<lparr>ao_name := optarg\<rparr>)
      else if opt = CHR ''H'' then agent_get_opts opts (o1\<lparr>ao_host := optarg\<rparr>)
      else if opt = CHR ''a'' then agent_get_opts opts (o1\<lparr>ao_address := optarg\<rparr>)
      else if opt = CHR ''i'' then agent_get_opts opts (o1\<lparr>ao_heartbeat_interval := optarg\<rparr>)
      else if opt = CHR ''c'' then agent_get_opts opts (o1\<lparr>ao_config := optarg\<rparr>)
      else if opt = CHR ''p'' then agent_get_opts opts (o1\<lparr>ao_port := optarg\<rparr>)
      else if opt = CHR ''u'' then agent_get_opts opts (o1\<lparr>ao_user := True\<rparr>)
      else (- EINVAL, o1))"

text \<open>The options that replace settings of the configuration.\<close>

definition agent_override_options :: "agent_opts \<Rightarrow> Agent \<Rightarrow> (bool \<times> Agent) option" where
  "agent_override_options o1 a =
     (let a = agent_set_systemd_user (ao_user o1) a in
      and_then (when_set (ao_port o1) agent_set_port a) (\<lambda>a.
      and_then (when_set (ao_host o1) agent_set_host a) (\<lambda>a.
      and_then (when_set (ao_address o1) agent_set_assembled_controller_address a) (\<lambda>a.
      and_then (when_set (ao_name o1) agent_set_name a) (\<lambda>a.
      when_set (ao_heartbeat_interval o1) agent_set_heartbeat_interval a)))))"

section \<open>The program\<close>

text \<open>What \<open>main\<close> meets: the calls of the agent, the creation of the event loop, the clock and the timer, the units systemd lists
  at the start, and the events that the event loop handles before a signal ends it.\<close>

record agent_run =
  ar_env :: aenv
  ar_event :: int
  ar_time :: "event_call \<Rightarrow> int"
  ar_now :: "64 word"
  ar_units :: "(string \<times> string \<times> string \<times> string) list"
  ar_events :: "(aenv \<times> agent_event) list"

definition agent_main :: "cfg_env \<Rightarrow> agent_run \<Rightarrow> standard_files \<Rightarrow> (char \<times> cstring) list \<Rightarrow> int option" where
  "agent_main ce r fs opts =
     (let (ret, o1) = agent_get_opts opts no_agent_opts;
          exit = (\<lambda>code a. map_option (\<lambda>_. code) (agent_unref a))
      in if ret < 0 then Some 1
         else if ret > 0 then Some 0
         else if ar_event r < 0 then Some 1
         else let (ok, a) = agent_parse_config ce (default_file fs) (etc_file fs) (etc_dir fs) (ao_config o1) agent_new
              in if \<not> ok then exit 1 a
                 else do {
                   (ok, a1) \<leftarrow> agent_apply_config a;
                   if \<not> ok then exit 1 a1
                   else do {
                     (ok, a2) \<leftarrow> agent_override_options o1 a1;
                     if \<not> ok then exit 1 a2
                     else do {
                       (ok, src, a3) \<leftarrow> agent_start (ar_env r) (ar_time r) (ar_now r) (ar_units r) a2;
                       if \<not> ok then exit 1 a3
                       else do {
                         a4 \<leftarrow> foldo agent_handle (ar_events r) a3;
                         (ret, a5) \<leftarrow> event_loop_signal_handler True (Some (agent_stop (ar_env r))) 0 a4;
                         exit (if ret < 0 then 1 else 0) a5 } } } })"

section \<open>Lemmas\<close>

text \<open>An agent that has not connected yet can be released.\<close>

definition unstarted :: "Agent \<Rightarrow> bool" where
  "unstarted a = (fresh_inv a \<and> ag_proxies a = [])"

lemma unstarted_release: "unstarted a \<Longrightarrow> agent_unref a \<noteq> None"
  using refs_ok_pos [of a] by (auto simp: unstarted_def fresh_inv_def agent_inv_def agent_unref_def)

lemma unstarted_setting: "unstarted a \<Longrightarrow> refs_of t = refs_of a \<and> keeps a t \<Longrightarrow> unstarted t"
  using setting_inv [of a t] by (simp add: unstarted_def keeps_def)

lemma unstarted_setters:
  assumes "unstarted a"
  shows "unstarted (snd (agent_set_name x a))" "unstarted (snd (agent_set_host x a))" "unstarted (snd (agent_set_port x a))"
    "unstarted (snd (agent_set_controller_address x a))" "unstarted (snd (agent_set_heartbeat_interval x a))"
    "unstarted (snd (agent_set_controller_heartbeat_threshold x a))" "unstarted (snd (agent_set_connection_retry_count_until_quiet x a))"
    "unstarted (snd (agent_set_socket_option f a))" "unstarted (snd (agent_set_assembled_controller_address x a))"
    "unstarted (agent_set_systemd_user b a)"
  by (rule unstarted_setting [OF assms];
      simp add: agent_set_name_def agent_set_host_def agent_set_port_def agent_set_controller_address_def agent_set_heartbeat_interval_def
        agent_set_controller_heartbeat_threshold_def agent_set_connection_retry_count_until_quiet_def agent_set_socket_option_def
        agent_set_assembled_controller_address_def agent_set_systemd_user_def refs_of_def keeps_def case_prod_beta split: option.split)+

lemma apply_config_unstarted: "unstarted a \<Longrightarrow> settles unstarted (agent_apply_config a)"
  unfolding agent_apply_config_def Let_def
  by (intro settles_and_then settles_when_set settles_Some unstarted_setters) assumption+

lemma override_unstarted: "unstarted a \<Longrightarrow> settles unstarted (agent_override_options o1 a)"
  unfolding agent_override_options_def Let_def
  by (intro settles_and_then settles_when_set settles_Some unstarted_setters) assumption+

lemma init_units_unstarted:
  assumes "unstarted a" "agent_init_units units a = Some t"
  shows "unstarted t"
proof (rule foldo_invariant [of init_unit units a t unstarted])
  fix u b c assume b: "unstarted b" "init_unit u b = Some c"
  have "units_frame b c" using b(2) ensure_unit_frame [of b "fst u" b]
    by (auto simp: init_unit_def case_prod_beta split: if_splits simp del: ensure_unit_frame)
  then show "unstarted c" using b init_unit_inv [of b u c] by (simp add: unstarted_def units_frame_def)
qed (use assms in \<open>simp_all add: agent_init_units_def\<close>)

lemma failed_start_unstarted:
  assumes "unstarted a" "agent_start e ev now units a = Some (False, src, t)"
  shows "unstarted t"
proof -
  let ?a1 = "snd (ensure_assembled_controller_address e a)"
  have "unstarted ?a1"
    by (rule ensure_address_result [of e a]) (use unstarted_setting [OF assms(1)] in \<open>simp add: refs_of_def keeps_def\<close>)
  then show ?thesis
    using assms init_units_unstarted [of ?a1 units]
    by (auto simp: agent_start_def case_prod_beta Let_def bind_eq_Some_conv split: if_splits)
qed

text \<open>The options and what they set.\<close>

definition opts_valid :: "agent_opts \<Rightarrow> bool" where
  "opts_valid o1 = ((\<forall>p. ao_port o1 = Some p \<longrightarrow> parse_port (Some p) \<noteq> None) \<and>
     (\<forall>i. ao_heartbeat_interval o1 = Some i \<longrightarrow> parse_long (Some i) \<noteq> None))"

definition overridden :: "agent_opts \<Rightarrow> Agent \<Rightarrow> Agent" where
  "overridden o1 a = a\<lparr>ag_systemd_user := ao_user o1,
     ag_port := (case ao_port o1 of None \<Rightarrow> ag_port a | Some p \<Rightarrow> uint (the (parse_port (Some p)))),
     ag_host := (case ao_host o1 of None \<Rightarrow> ag_host a | Some h \<Rightarrow> Some h),
     ag_assembled_address := (case ao_address o1 of None \<Rightarrow> ag_assembled_address a | Some x \<Rightarrow> Some x),
     ag_name := (case ao_name o1 of None \<Rightarrow> ag_name a | Some n \<Rightarrow> Some n),
     ag_heartbeat_interval_msec := (case ao_heartbeat_interval o1 of None \<Rightarrow> ag_heartbeat_interval_msec a | Some i \<Rightarrow> the (parse_long (Some i)))\<rparr>"

lemma override_valid: "opts_valid o1 \<Longrightarrow> agent_override_options o1 a = Some (True, overridden o1 a)"
  by (cases "ao_port o1"; cases "ao_host o1"; cases "ao_address o1"; cases "ao_name o1"; cases "ao_heartbeat_interval o1")
    (auto simp: agent_override_options_def overridden_def opts_valid_def and_then_def when_set_def agent_set_systemd_user_def agent_set_port_def
      agent_set_host_def agent_set_assembled_controller_address_def agent_set_name_def agent_set_heartbeat_interval_def)

lemma override_invalid: "\<not> opts_valid o1 \<Longrightarrow> \<exists>b. agent_override_options o1 a = Some (False, b)"
  by (cases "ao_port o1"; cases "ao_host o1"; cases "ao_address o1"; cases "ao_name o1"; cases "ao_heartbeat_interval o1";
      cases "parse_port (ao_port o1)"; cases "parse_long (ao_heartbeat_interval o1)")
    (auto simp: agent_override_options_def Let_def opts_valid_def and_then_def when_set_def agent_set_systemd_user_def agent_set_port_def
      agent_set_host_def agent_set_assembled_controller_address_def agent_set_name_def agent_set_heartbeat_interval_def)

text \<open>A started agent handles its events, stops and is released.\<close>

lemma run_and_release:
  assumes "unstarted a" "agent_start e ev now units a = Some (True, src, b)" "enabled_run agent_enabled agent_handle b es" "abus_ok e'"
  shows "\<exists>c d. foldo agent_handle es b = Some c \<and> agent_stop e' c = Some d \<and> agent_unref d \<noteq> None"
proof -
  have "agent_inv b" using agent_start_inv [OF _ assms(2)] assms(1) by (simp add: unstarted_def)
  then obtain c where c: "foldo agent_handle es b = Some c" "agent_inv c" using agent.run_safe [OF _ assms(3)] by blast
  then show ?thesis using agent_stops_cleanly [OF c(2) assms(4)] by blast
qed

text \<open>C20.  The command line of \<open>bluechi-agent\<close>.  Once the configuration is read and applied, a port or a heartbeat interval on
  the command line that is no number ends the program with 1.  Otherwise the agent starts with the settings of the
  configuration, replaced by every option that was given; it exits with 1 when the start fails, and with 0 when a
  signal stops it after any events the event loop may have handled.  No assertion fails on any of these paths.\<close>

theorem agent_main_exits:
  assumes "abus_ok (ar_env r)" "agent_get_opts opts no_agent_opts = (0, o1)" "0 \<le> ar_event r"
    "agent_parse_config ce (default_file fs) (etc_file fs) (etc_dir fs) (ao_config o1) agent_new = (True, a)"
    "agent_apply_config a = Some (True, a1)"
  shows "(\<not> opts_valid o1 \<longrightarrow> agent_main ce r fs opts = Some 1) \<and>
    (opts_valid o1 \<longrightarrow>
      (case agent_start (ar_env r) (ar_time r) (ar_now r) (ar_units r) (overridden o1 a1) of
         None \<Rightarrow> agent_main ce r fs opts = None
       | Some (False, src, b) \<Rightarrow> agent_main ce r fs opts = Some 1
       | Some (True, src, b) \<Rightarrow> enabled_run agent_enabled agent_handle b (ar_events r) \<longrightarrow> agent_main ce r fs opts = Some 0))"
proof (intro conjI impI)
  have "\<exists>c. a = agent_new\<lparr>ag_config := c\<rparr>"
    using assms(4) by (auto simp: agent_parse_config_def Let_def split: prod.splits if_splits)
  then have "unstarted a" using agent_new_inv by (auto simp: unstarted_def agent_new_def)
  then have a1: "unstarted a1" using apply_config_unstarted [of a] assms(5) by (auto simp: settles_def)
  note main = agent_main_def [of ce r fs opts] assms(2-5)
  {
    assume "\<not> opts_valid o1"
    then obtain b where b: "agent_override_options o1 a1 = Some (False, b)" using override_invalid by blast
    then have "unstarted b" using override_unstarted [OF a1, of o1] by (auto simp: settles_def)
    then show "agent_main ce r fs opts = Some 1" using main b unstarted_release [of b] by auto
  next
    let ?a2 = "overridden o1 a1"
    assume valid: "opts_valid o1"
    note over = override_valid [OF valid, of a1]
    then have a2: "unstarted ?a2" using override_unstarted [OF a1, of o1] by (auto simp: settles_def)
    show "case agent_start (ar_env r) (ar_time r) (ar_now r) (ar_units r) ?a2 of
         None \<Rightarrow> agent_main ce r fs opts = None
       | Some (False, src, b) \<Rightarrow> agent_main ce r fs opts = Some 1
       | Some (True, src, b) \<Rightarrow> enabled_run agent_enabled agent_handle b (ar_events r) \<longrightarrow> agent_main ce r fs opts = Some 0"
    proof (cases "agent_start (ar_env r) (ar_time r) (ar_now r) (ar_units r) ?a2")
      case None
      then show ?thesis using main over by simp
    next
      case (Some x)
      obtain ok src b where x: "x = (ok, src, b)" by (rule prod_cases3)
      show ?thesis
      proof (cases ok)
        case False
        then have "unstarted b" using failed_start_unstarted [OF a2] Some x by simp
        then show ?thesis using main over Some x False unstarted_release [of b] by auto
      next
        case True
        then have "enabled_run agent_enabled agent_handle b (ar_events r) \<Longrightarrow> agent_main ce r fs opts = Some 0"
          using run_and_release [OF a2 _ _ assms(1)] main over Some x by (fastforce simp: event_loop_signal_handler_def)
        then show ?thesis using Some x True by simp
      qed
    qed
  }
qed

text \<open>A run without events, with the settings that the build gives the agent.\<close>

definition example_run :: agent_run where
  "example_run = \<lparr>ar_env = ref_aenv\<lparr>a_euid := 1000\<rparr>, ar_event = 0, ar_time = \<lambda>_. 0, ar_now = 0, ar_units = [], ar_events = []\<rparr>"

definition agent_config :: config where
  "agent_config = fold (\<lambda>(n, v). set_option_to (''bluechi-agent'', n) v)
     [(''LogLevel'', Some ''INFO''), (''LogTarget'', Some ''journald''), (''LogIsQuiet'', None), (''IPReceiveErrors'', Some ''true''),
      (''TCPKeepAliveTime'', Some ''1''), (''TCPKeepAliveInterval'', Some ''1''), (''TCPKeepAliveCount'', Some ''6''),
      (''NodeName'', Some ''host''), (''ControllerHost'', Some ''127.0.0.1''), (''HeartbeatInterval'', Some ''2000''),
      (''ControllerHeartbeatThreshold'', Some ''0''), (''ControllerPort'', Some ''842''), (''ConnectionRetryCountUntilQuiet'', Some ''10'')]
     (cfg_initialize\<lparr>default_section := ''bluechi-agent''\<rparr>)"

definition agent_cfg_env :: cfg_env where
  "agent_cfg_env = example_main_cfg\<lparr>ini_parse := \<lambda>f h c. (0, c)\<rparr>"

lemma agent_parse:
  "agent_parse_config agent_cfg_env ''/def'' ''/etc'' ''/d'' None agent_new = (True, agent_new\<lparr>ag_config := agent_config\<rparr>)"
proof -
  have env: "cfg_env_ok agent_cfg_env" using example_main_cfg_ok by (simp add: cfg_env_ok_def agent_cfg_env_def)
  have info: "log_level_to_string LOG_LEVEL_INFO = ''INFO''" by code_simp
  have host: "ce_hostname agent_cfg_env = Some ''host''" by (simp add: agent_cfg_env_def example_main_cfg_def example_cfg_env_def)
  have def: "cfg_agent_def_conf agent_cfg_env cfg_initialize = (0, agent_config)"
    by (simp add: cfg_agent_def_conf_def cfg_def_conf_def cfg_set_default_section_def cfg_set_value_def cfg_s_set_value_ok [OF env] cfg_names
        CFG_SECT_AGENT_def info BC_LOG_TARGET_JOURNALD_def BC_DEFAULT_IP_RECEIVE_ERROR_def BC_DEFAULT_TCP_KEEPALIVE_TIME_def
        BC_DEFAULT_TCP_KEEPALIVE_INTERVAL_def BC_DEFAULT_TCP_KEEPALIVE_COUNT_def BC_DEFAULT_HOST_def BC_DEFAULT_PORT_def host
        AGENT_DEFAULT_HEARTBEAT_INTERVAL_MSEC_def AGENT_DEFAULT_CONTROLLER_HEARTBEAT_THRESHOLD_MSEC_def
        AGENT_DEFAULT_CONNECTION_RETRY_COUNT_UNTIL_QUIET_def agent_config_def)
  have load: "cfg_load_from_file agent_cfg_env (Some ''/def'') c = (0, c)" "cfg_load_from_file agent_cfg_env (Some ''/etc'') c = (- ENOENT, c)"
    "cfg_load_from_dir agent_cfg_env ''/d'' c = (0, c)" "cfg_load_from_env agent_cfg_env c = (0, c)" for c
    by (simp_all add: cfg_load_from_file_def cfg_load_from_dir_def cfg_load_from_env_def env_options_def agent_cfg_env_def example_main_cfg_def
        example_cfg_env_def ENOENT_def cfg_copy_overwrite_def cfg_initialize_def)
  show ?thesis
    by (simp add: agent_parse_config_def def cfg_load_complete_configuration_def load_default_file_def load_custom_file_def load_custom_dir_def load)
qed

lemma agent_value:
  "cfg_get_value agent_config n =
     map_of [(''LogLevel'', ''INFO''), (''LogTarget'', ''journald''), (''IPReceiveErrors'', ''true''),
      (''TCPKeepAliveTime'', ''1''), (''TCPKeepAliveInterval'', ''1''), (''TCPKeepAliveCount'', ''6''),
      (''NodeName'', ''host''), (''ControllerHost'', ''127.0.0.1''), (''HeartbeatInterval'', ''2000''),
      (''ControllerHeartbeatThreshold'', ''0''), (''ControllerPort'', ''842''), (''ConnectionRetryCountUntilQuiet'', ''10'')] n"
  by (simp add: cfg_get_value_def agent_config_def get_set_option stored_value_def get_empty_config cfg_initialize_def)

lemma agent_applied:
  "\<exists>a1. agent_apply_config (agent_new\<lparr>ag_config := agent_config\<rparr>) = Some (True, a1) \<and> ag_name a1 = Some ''host''"
proof -
  have n: "parse_long (Some ''2000'') = Some 2000" "parse_long (Some ''10'') = Some 10" by code_simp+
  show ?thesis
    by (simp add: agent_apply_config_def and_then_def when_set_def agent_value cfg_names agent_set_name_def agent_set_host_def agent_set_port_def
        agent_set_heartbeat_interval_def agent_set_controller_heartbeat_threshold_def agent_set_connection_retry_count_until_quiet_def
        agent_set_socket_option_def socket_options_set_tcp_keepidle_def socket_options_set_tcp_keepintvl_def
        socket_options_set_tcp_keepcnt_def socket_options_set_ip_recverr_def tcp_limits example_numbers n agent_new_def)
qed

theorem agent_main_exits_witness:
  "agent_main agent_cfg_env example_run example_files [(CHR ''p'', Some ''x'')] = Some 1 \<and>
   agent_main agent_cfg_env example_run example_files [(CHR ''a'', Some ''unix:path=/s'')] = Some 0"
proof -
  have env: "abus_ok (ar_env example_run)" "0 \<le> ar_event example_run" using ref_aenv_ok by (simp_all add: example_run_def abus_ok_def)
  let ?p = "no_agent_opts\<lparr>ao_port := Some ''x''\<rparr>" and ?a = "no_agent_opts\<lparr>ao_address := Some ''unix:path=/s''\<rparr>"
  have opts: "agent_get_opts [(CHR ''p'', Some ''x'')] no_agent_opts = (0, ?p)"
    "agent_get_opts [(CHR ''a'', Some ''unix:path=/s'')] no_agent_opts = (0, ?a)" by simp_all
  have cfg: "agent_parse_config agent_cfg_env (default_file example_files) (etc_file example_files) (etc_dir example_files) (ao_config o1) agent_new =
      (True, agent_new\<lparr>ag_config := agent_config\<rparr>)" if "ao_config o1 = None" for o1
    using agent_parse that by (simp add: example_files_def)
  obtain a1 where a1: "agent_apply_config (agent_new\<lparr>ag_config := agent_config\<rparr>) = Some (True, a1)" "ag_name a1 = Some ''host''"
    using agent_applied by blast
  have bad: "\<not> opts_valid ?p"
  proof -
    have "parse_port (Some ''x'') = None" by code_simp
    then show ?thesis by (simp add: opts_valid_def)
  qed
  have calls: "start_calls False (ref_aenv\<lparr>a_euid := 1000\<rparr>)" by code_simp
  have "\<exists>src b. agent_start (ar_env example_run) (ar_time example_run) (ar_now example_run) (ar_units example_run) (overridden ?a a1) = Some (True, src, b)"
    using calls a1(2)
    by (simp add: example_run_def agent_start_def overridden_def no_agent_opts_def ensure_assembled_controller_address_def agent_init_units_def
        agent_setup_heartbeat_timer_def agent_reset_heartbeat_timer_def event_reset_time_relative_def event_reset_time_def ref_aenv_def case_prod_beta)
  then show ?thesis
    using agent_main_exits [OF env(1) opts(1) env(2) cfg a1(1)] agent_main_exits [OF env(1) opts(2) env(2) cfg a1(1)] bad
    by (auto simp: no_agent_opts_def opts_valid_def example_run_def)
qed

end
