(* ===== verification/Spec2Isabelle.thy ===== *)
theory Spec2Isabelle
  imports BC_Prelude Protocol StringUtil ParseUtil BusUtil TimeUtil LList Log Cfg Cfg_Props LogConf Socket
    Ctrl_Types Ctrl_Subscription Ctrl_Node Ctrl_Request Ctrl_Conn Ctrl_Methods
    Ctrl_Inv Ctrl_Frame Ctrl_Reach Ctrl_Safety Ctrl_Props Ctrl_Disconnect Ctrl_Subs_Props Ctrl_Jobs_Props Ctrl_Config
    Network Agent_Types Agent_Units Agent_Requests Agent_Proxy Agent_Conn Agent_Refs Agent_Frame Agent_Reach
    Agent_Units_Props Agent_Proxy_Props Agent_Conn_Props Agent_Props
    Composition Command IsOnline Proxy_Cli Client Client_Lists Client_Status Client_Main Job_Flow
    Listen Ctrl_Start Ctrl_Start_Props Agent_Main
begin

text \<open>
  BlueChi: a controller that manages systemd units on many machines, and an agent per
  machine.  This development models the C code under \<open>src/src\<close> (controller, agent, the
  command line tools and the shared library \<open>libbluechi\<close>) and proves what its parts promise.

  \<^bold>\<open>How the parts work together.\<close>  Agents connect to the controller over a peer-to-peer
  D-Bus connection and register under a configured node name.  Clients call the
  controller on the system bus: they start and stop units (a job on the controller
  follows the systemd job on the agent), list units on one or all nodes, and create
  monitors whose subscriptions the controller forwards to the agents and whose events it
  distributes.  A unit of one node can depend on a unit of another through proxy
  monitors.  Heartbeats detect lost connections in both directions.

  \<^bold>\<open>Theories, in the order of the code.\<close>
  \<^item> \<open>BC_Prelude\<close>: error numbers, C strings, lists and hash maps as association lists, folds
    that may abort; the interfaces \<open>event_system\<close> (invariants of programs that react to
    events), \<open>refcounted\<close> (reference counts) and \<open>string_table\<close> (printed enumerations),
    interpreted by the components below.
  \<^item> \<open>Protocol\<close>, \<open>StringUtil\<close>, \<open>ParseUtil\<close>, \<open>BusUtil\<close>, \<open>TimeUtil\<close> model
    \<open>libbluechi/common/protocol.c\<close>, \<open>string-util.h/.c\<close>, \<open>parse-util.c\<close>,
    \<open>libbluechi/bus/utils.c\<close>, \<open>time-util.c\<close>, \<open>event-util.c\<close> and the allocation helpers of
    \<open>common.h\<close>: what each parser accepts, that escaping object paths is reversible, that
    size computations and times do not wrap.
  \<^item> \<open>LList\<close> models the intrusive list macros of \<open>list.h\<close> on a pointer heap and proves that
    they implement lists of addresses, the view all other theories use; removing an item
    that is not in the list fails an assertion.
  \<^item> \<open>Log\<close>, \<open>Cfg\<close>, \<open>LogConf\<close>, \<open>Socket\<close> model \<open>libbluechi/log/log.c\<close>, \<open>common/cfg.c\<close> and the
    option part of \<open>socket.c\<close>; \<open>Cfg_Props\<close> proves in which order configuration sources
    override each other.  \<open>Cfg\<close> states the option store as the interface \<open>key_value_store\<close>.
  \<^item> \<open>Ctrl_Types\<close>: the structs of \<open>controller.h\<close>, \<open>node.h\<close>, \<open>monitor.h\<close>, \<open>proxy_monitor.h\<close> and
    \<open>job.h\<close> as records; the controller is a record with one heap per struct type, its
    counters, its lists and the messages it has sent.
  \<^item> \<open>Ctrl_Subscription\<close>, \<open>Ctrl_Node\<close>, \<open>Ctrl_Request\<close>, \<open>Ctrl_Conn\<close>, \<open>Ctrl_Methods\<close>: the operations of
    \<open>controller.c\<close>, \<open>node.c\<close>, \<open>monitor.c\<close>, \<open>proxy_monitor.c\<close>, \<open>job.c\<close> and \<open>metrics.c\<close>.
  \<^item> \<open>Ctrl_Inv\<close>, \<open>Ctrl_Frame\<close>: the core of a state (lists, counters, names, connections,
    references) with its invariant, and which operations leave the core alone.
  \<^item> \<open>Ctrl_Reach\<close>: the events the controller reacts to as a step relation;
    \<open>Ctrl_Safety\<close>: every reachable state satisfies the invariant.
  \<^item> \<open>Ctrl_Props\<close>, \<open>Ctrl_Disconnect\<close>, \<open>Ctrl_Subs_Props\<close>, \<open>Ctrl_Jobs_Props\<close>: registration, status,
    disconnection, liveness, subscriptions, job life times, requests to all nodes.
  \<^item> \<open>Ctrl_Config\<close>: applying the configuration yields a start state of the step relation.
  \<^item> \<open>Network\<close> models \<open>libbluechi/common/network.c\<close> and the openers of \<open>libbluechi/bus/bus.c\<close>.
  \<^item> \<open>Agent_Types\<close>: the structs of \<open>agent.h\<close>, \<open>agent.c\<close> and \<open>proxy.h\<close>; \<open>Agent_Units\<close>, \<open>Agent_Requests\<close>,
    \<open>Agent_Proxy\<close>, \<open>Agent_Conn\<close>: the operations of \<open>agent/agent.c\<close> and \<open>agent/proxy.c\<close> on units and
    subscriptions, requests to systemd and jobs, proxies, and the connection to the controller.
  \<^item> \<open>Agent_Refs\<close>, \<open>Agent_Frame\<close>: reference counts of requests and operations, and what each operation
    leaves alone; \<open>Agent_Reach\<close>: the events of the agent and its invariant, as an instance of the
    interface \<open>safe_machine\<close> (enabled events keep an invariant and do not abort).
  \<^item> \<open>Agent_Units_Props\<close>, \<open>Agent_Proxy_Props\<close>, \<open>Agent_Conn_Props\<close>, \<open>Agent_Props\<close>: the table of units as two
    sets, the phases of a proxy, the address and the liveness of the controller, reconnecting, and that
    the agent neither aborts nor loses a job.
  \<^item> \<open>Composition\<close>: the controller and an agent connected by two queues of messages: the table of units of
    the agent follows the index of the controller, and an event of a unit reaches the monitors.
  \<^item> \<open>Command\<close> models \<open>libbluechi/cli/command.c\<close> and the \<open>main\<close> functions of the tools; \<open>Client\<close>, \<open>Client_Lists\<close>,
    \<open>Client_Status\<close>, \<open>Client_Main\<close> model \<open>bluechictl\<close> (\<open>client/\<close>), \<open>IsOnline\<close> \<open>bluechi-is-online\<close> (\<open>is-online/\<close>) and
    \<open>Proxy_Cli\<close> \<open>bluechi-proxy\<close> (\<open>proxy/main.c\<close>): which calls a command line makes, what it prints, and when it returns.
  \<^item> \<open>Listen\<close> models the listening sockets of \<open>libbluechi/socket.c\<close> as sequences of system calls, from which the state of
    the sockets is read off; \<open>Ctrl_Start\<close> models the rest of the start of the controller (\<open>controller/controller.c\<close>,
    \<open>controller/main.c\<close>, \<open>libbluechi/service/shutdown.c\<close>), \<open>Ctrl_Start_Props\<close> proves which sockets are open and how the program
    exits.  \<open>Agent_Main\<close> does the same for \<open>agent/main.c\<close>.
  \<^item> \<open>Job_Flow\<close>: a job from systemd over the agent and the controller to the \<open>bluechictl\<close> that waits for it, and
    what happens to that client when the node is lost.

  \<^bold>\<open>Conventions.\<close>  Objects live at addresses that are never used twice; a freed object is
  absent from its heap, and using it, or failing an assertion, aborts the operation: the
  result is \<open>None\<close>.  Operations are functions on the state with the guards and early
  returns of the code.  Results of sd-bus calls, clocks, the iteration order of the hash map
  library, files, environment variables, the ini parser and system calls are
  parameters (\<open>env\<close>, \<open>cfg_env\<close>, \<open>socket_env\<close>, \<open>aenv\<close>, \<open>net_env\<close>, \<open>client_env\<close>, \<open>io_env\<close>, \<open>proxy_env\<close>, \<open>os_env\<close>, \<open>start_env\<close>, \<open>agent_run\<close>); what is assumed of them is a named
  predicate (\<open>bus_ok\<close>, \<open>hm_iter_ok\<close>, \<open>hm_items_ok\<close>, \<open>cfg_env_ok\<close>, \<open>ini_parse_ok\<close>, \<open>abus_ok\<close>,
  \<open>inet_ok\<close>, \<open>nodes_readable\<close>, \<open>rounds_ok\<close>, \<open>io_ok\<close>, \<open>proxy_env_ok\<close>, \<open>fresh_fds\<close>, \<open>signalled_when_idle\<close>) with an instance.  A program that has not returned,
  because its events have been used up, has the result \<open>None\<close> as well.
  A message is recorded as sent only when the call that sends it succeeds.  Machine
  integers that can wrap are words of their width; counters the code keeps as \<open>int\<close> or
  \<open>long\<close> are integers.  All recursions terminate, so there is no fuel; loops of the C
  code are folds, structural recursions or recursions with a measure.

  \<^bold>\<open>Not modelled.\<close>  Exhausted memory (except in the string builder, the array allocation,
  and the option store, where the code branches on it); reading arguments out of messages
  (handlers take the parsed arguments); the text of error replies beyond a short form;
  logging calls inside operations; the formatting of log lines and their timestamps; the event loop of systemd, which is a
  function or a list of events; of the command line tools \<open>getopt_long\<close>, the help texts, the messages on the error output and the
  formatting of times.
\<close>

end
